(* ===== verification/Prelude.thy ===== *)
theory Prelude
  imports Main "HOL-Library.Sublist" "HOL-Library.AList" "HOL-Library.Multiset"
begin

text \<open>
  Shared vocabulary of the development.

  \<^item> Errors: the Go \<^verbatim>\<open>error\<close> interface as the datatype \<open>failure\<close> (a plain error, the DWS
    \<^verbatim>\<open>ResourceErrorInfo\<close>, or a run-time panic), and \<open>'a res\<close> for a Go pair
    \<^verbatim>\<open>(value, error)\<close>.
  \<^item> Effects: \<open>('s, 'a) io\<close>, a state transformer over an arbitrary state \<open>'s\<close> that returns a
    result or a failure; \<open>bindE\<close> is Go's \<^verbatim>\<open>if err != nil { return err }\<close>.
  \<^item> The functions of \<^verbatim>\<open>strings\<close>, \<^verbatim>\<open>strconv\<close>, \<^verbatim>\<open>fmt\<close> and \<^verbatim>\<open>path/filepath\<close> that the program
    uses, on byte strings (\<open>string = char list\<close>).
  \<^item> Go maps as association lists with distinct keys (\<open>kv\<close>).
\<close>

named_theorems io_simps \<open>unfolding of the effect combinators\<close>
named_theorems kv_simps \<open>lookups in updated association lists\<close>

section \<open>Errors\<close>

datatype severity = SeverityMinor | SeverityMajor | SeverityFatal

datatype errtype = TypeInternal | TypeWLM | TypeUser

record ResourceErrorInfo =
  UserMessage :: string
  DebugMessage :: string
  ErrType :: errtype
  Severity :: severity

text \<open>
  A Go panic is kept apart from an error value: it unwinds every caller. \<^verbatim>\<open>quickRetryError\<close> is a
  wrapper by which the client mount controller asks itself for a quick retry. An error of the API
  server carries the reason that \<^verbatim>\<open>apierrors.IsNotFound\<close> and its siblings test. \<open>Hang\<close> stands for a loop
  that never ends: like a panic, it is nothing that a caller sees as an error.
\<close>

datatype apiReason = ReasonNotFound | ReasonConflict | ReasonAlreadyExists | ReasonOther

datatype failure =
    Fail string
  | ResErr ResourceErrorInfo
  | QuickRetry ResourceErrorInfo
  | ApiErr apiReason string
  | Panic string
  | Hang

type_synonym 'a res = "failure + 'a"

definition is_panic :: "failure \<Rightarrow> bool" where
  "is_panic e = (case e of Panic _ \<Rightarrow> True | Hang \<Rightarrow> True | _ \<Rightarrow> False)"

text \<open>
  The constructors of a \<^verbatim>\<open>ResourceErrorInfo\<close> and its \<^verbatim>\<open>Error()\<close> text, as the DWS package defines them: a
  wrapped error passes on its severity, its type and its user message, and the severity only rises
  (\<^verbatim>\<open>WithMajor\<close> and \<^verbatim>\<open>WithMinor\<close> keep a higher one).
\<close>

definition resErrText :: "ResourceErrorInfo \<Rightarrow> string" where
  "resErrText e =
     (case ErrType e of TypeInternal \<Rightarrow> ''internal'' | TypeWLM \<Rightarrow> ''wlm'' | TypeUser \<Rightarrow> ''user'') @
     '' error: '' @ (if DebugMessage e = [] then UserMessage e else DebugMessage e)"

definition errText :: "failure \<Rightarrow> string" where
  "errText e = (case e of Fail s \<Rightarrow> s | ResErr r \<Rightarrow> resErrText r | QuickRetry r \<Rightarrow> resErrText r |
     ApiErr _ s \<Rightarrow> s | Panic s \<Rightarrow> s | Hang \<Rightarrow> [])"

definition NewResourceError :: "string \<Rightarrow> ResourceErrorInfo" where
  "NewResourceError msg =
     \<lparr>UserMessage = [], DebugMessage = msg, ErrType = TypeInternal, Severity = SeverityMinor\<rparr>"

definition WithUserMessage :: "string \<Rightarrow> ResourceErrorInfo \<Rightarrow> ResourceErrorInfo" where
  "WithUserMessage msg e = (if UserMessage e = [] then e\<lparr>UserMessage := msg\<rparr> else e)"

definition joinDebug :: "string \<Rightarrow> string \<Rightarrow> string" where
  "joinDebug a b = (if a = [] then b else a @ '': '' @ b)"

definition WithError :: "failure option \<Rightarrow> ResourceErrorInfo \<Rightarrow> ResourceErrorInfo" where
  "WithError err e = (case err of
     None \<Rightarrow> e
   | Some (ResErr c) \<Rightarrow>
       e\<lparr>Severity := Severity c, UserMessage := UserMessage c, ErrType := ErrType c,
         DebugMessage := joinDebug (DebugMessage e)
           (if DebugMessage c = [] then UserMessage c else DebugMessage c)\<rparr>
   | Some f \<Rightarrow> e\<lparr>DebugMessage := joinDebug (DebugMessage e) (errText f)\<rparr>)"

definition WithFatal :: "ResourceErrorInfo \<Rightarrow> ResourceErrorInfo" where
  "WithFatal e = e\<lparr>Severity := SeverityFatal\<rparr>"

definition WithMajor :: "ResourceErrorInfo \<Rightarrow> ResourceErrorInfo" where
  "WithMajor e = (if Severity e \<noteq> SeverityFatal then e\<lparr>Severity := SeverityMajor\<rparr> else e)"

definition WithMinor :: "ResourceErrorInfo \<Rightarrow> ResourceErrorInfo" where
  "WithMinor e =
     (if Severity e \<noteq> SeverityFatal \<and> Severity e \<noteq> SeverityMajor then e\<lparr>Severity := SeverityMinor\<rparr> else e)"

definition WithUser :: "ResourceErrorInfo \<Rightarrow> ResourceErrorInfo" where
  "WithUser e = e\<lparr>ErrType := TypeUser\<rparr>"

definition WithWLM :: "ResourceErrorInfo \<Rightarrow> ResourceErrorInfo" where
  "WithWLM e = e\<lparr>ErrType := TypeWLM\<rparr>"

text \<open>The usual wrapping in a handler: \<^verbatim>\<open>NewResourceError(msg).WithError(err).WithMajor()\<close>.\<close>

definition majorError :: "string \<Rightarrow> failure \<Rightarrow> failure" where
  "majorError msg err = ResErr (WithMajor (WithError (Some err) (NewResourceError msg)))"

section \<open>Effects\<close>

type_synonym ('s, 'a) io = "'s \<Rightarrow> 'a res \<times> 's"

definition retE :: "'a \<Rightarrow> ('s, 'a) io" where
  "retE x = (\<lambda>s. (Inr x, s))"

definition failE :: "failure \<Rightarrow> ('s, 'a) io" where
  "failE e = (\<lambda>s. (Inl e, s))"

definition bindE :: "('s, 'a) io \<Rightarrow> ('a \<Rightarrow> ('s, 'b) io) \<Rightarrow> ('s, 'b) io" where
  "bindE m f = (\<lambda>s. case m s of (Inl e, s') \<Rightarrow> (Inl e, s') | (Inr x, s') \<Rightarrow> f x s')"

text \<open>The error branch as code: \<open>h\<close> sees an error value, never a panic.\<close>

definition catchE :: "('s, 'a) io \<Rightarrow> (failure \<Rightarrow> ('s, 'a) io) \<Rightarrow> ('s, 'a) io" where
  "catchE m h = (\<lambda>s. case m s of
     (Inl e, s') \<Rightarrow> (if is_panic e then (Inl e, s') else h e s')
   | (Inr x, s') \<Rightarrow> (Inr x, s'))"

definition wrapE :: "(failure \<Rightarrow> failure) \<Rightarrow> ('s, 'a) io \<Rightarrow> ('s, 'a) io" where
  "wrapE f m = catchE m (\<lambda>e. failE (f e))"

definition liftE :: "'a res \<Rightarrow> ('s, 'a) io" where
  "liftE r = (\<lambda>s. (r, s))"

text \<open>
  \<^verbatim>\<open>defer\<close>: the clean-up \<open>c\<close> runs however \<open>m\<close> ends. Its error replaces the result, but a panic that
  is under way goes on.
\<close>

definition finallyE :: "('s, 'a) io \<Rightarrow> ('s, 'b) io \<Rightarrow> ('s, 'a) io" where
  "finallyE m c = (\<lambda>s. case m s of (r, s') \<Rightarrow>
     (case c s' of
        (Inr _, s'') \<Rightarrow> (r, s'')
      | (Inl e, s'') \<Rightarrow>
          (if is_panic e then Inl e
           else case r of Inl e0 \<Rightarrow> (if is_panic e0 then Inl e0 else Inl e) | Inr _ \<Rightarrow> Inl e, s'')))"

text \<open>Running an effect of the second component under an object that it does not touch.\<close>

definition sndE :: "('s, 'a) io \<Rightarrow> ('o \<times> 's, 'a) io" where
  "sndE m = (\<lambda>(ob, s). case m s of (r, s') \<Rightarrow> (r, (ob, s')))"

text \<open>
  Effects on an object in memory and the world: reading the object, changing it, and the branch
  on an error that goes on.
\<close>

definition getE :: "('o \<times> 'w, 'o) io" where
  "getE = (\<lambda>(ob, w). (Inr ob, (ob, w)))"

definition modifyE :: "('o \<Rightarrow> 'o) \<Rightarrow> ('o \<times> 'w, unit) io" where
  "modifyE f = (\<lambda>(ob, w). (Inr (), (f ob, w)))"

definition tryE :: "('s, 'a) io \<Rightarrow> ('s, failure + 'a) io" where
  "tryE m = catchE (bindE m (\<lambda>x. retE (Inr x))) (\<lambda>e. retE (Inl e))"

text \<open>Run-time checks of the language: a nil pointer and an index out of range are panics.\<close>

definition nilPointer :: failure where
  "nilPointer = Panic ''invalid memory address or nil pointer dereference''"

definition derefR :: "'a option \<Rightarrow> 'a res" where
  "derefR p = (case p of None \<Rightarrow> Inl nilPointer | Some x \<Rightarrow> Inr x)"

definition indexR :: "'a list \<Rightarrow> nat \<Rightarrow> 'a res" where
  "indexR xs i = (if i < length xs then Inr (xs ! i) else Inl (Panic ''index out of range''))"

fun mapME :: "('x \<Rightarrow> ('s, 'a) io) \<Rightarrow> 'x list \<Rightarrow> ('s, 'a list) io" where
  "mapME f [] = retE []"
| "mapME f (x # xs) = bindE (f x) (\<lambda>y. bindE (mapME f xs) (\<lambda>ys. retE (y # ys)))"

lemma retE_apply [io_simps]: "retE x s = (Inr x, s)"
  by (simp add: retE_def)

lemma failE_apply [io_simps]: "failE e s = (Inl e, s)"
  by (simp add: failE_def)

lemma liftE_apply [io_simps]: "liftE r s = (r, s)"
  by (simp add: liftE_def)

lemma bindE_Inr [io_simps]: "m s = (Inr x, s') \<Longrightarrow> bindE m f s = f x s'"
  by (simp add: bindE_def)

lemma bindE_Inl [io_simps]: "m s = (Inl e, s') \<Longrightarrow> bindE m f s = (Inl e, s')"
  by (simp add: bindE_def)

lemma retE_bindE [simp]: "bindE (retE x) f = f x"
  by (simp add: bindE_def retE_def)

lemma failE_bindE [simp]: "bindE (failE e) f = failE e"
  by (simp add: bindE_def failE_def)

lemma bindE_retE [simp]: "bindE m retE = m"
  by (auto simp: bindE_def retE_def fun_eq_iff split: prod.splits sum.splits)

lemma bindE_assoc: "bindE (bindE m f) g = bindE m (\<lambda>x. bindE (f x) g)"
  by (auto simp: bindE_def fun_eq_iff split: prod.splits sum.splits)

lemma bindE_eq_Inr:
  "bindE m f s = (Inr y, t) \<longleftrightarrow> (\<exists>x s'. m s = (Inr x, s') \<and> f x s' = (Inr y, t))"
  by (auto simp: bindE_def split: prod.splits sum.splits)

lemma bindE_eq_Inl:
  "bindE m f s = (Inl e, t) \<longleftrightarrow>
     m s = (Inl e, t) \<or> (\<exists>x s'. m s = (Inr x, s') \<and> f x s' = (Inl e, t))"
  by (auto simp: bindE_def split: prod.splits sum.splits)

lemma sndE_apply [io_simps]: "sndE m (ob, s) = (fst (m s), (ob, snd (m s)))"
  by (simp add: sndE_def split: prod.splits)

lemma wrapE_eq_Inr: "wrapE f m s = (Inr x, t) \<longleftrightarrow> m s = (Inr x, t)"
  by (auto simp: wrapE_def catchE_def failE_def split: prod.splits sum.splits if_splits)

lemma wrapE_retE [simp]: "wrapE f (retE x) = retE x"
  by (simp add: wrapE_def catchE_def retE_def)

lemma wrapE_Inr [io_simps]: "m s = (Inr x, s') \<Longrightarrow> wrapE f m s = (Inr x, s')"
  by (simp add: wrapE_def catchE_def)

lemma bindE_wrapE_Inr: "m s = (Inr x, s') \<Longrightarrow> bindE (wrapE h m) k s = k x s'"
  by (simp add: bindE_def wrapE_def catchE_def)

lemma snd_bindE_wrapE: "snd (bindE (wrapE h m) (\<lambda>_. retE x) s) = snd (m s)"
  by (auto simp: bindE_def wrapE_def catchE_def failE_def retE_def split: prod.splits sum.splits)

lemma catchE_Inr [io_simps]: "m s = (Inr x, s') \<Longrightarrow> catchE m h s = (Inr x, s')"
  by (simp add: catchE_def)

lemma catchE_Panic [io_simps]: "m s = (Inl (Panic p), s') \<Longrightarrow> catchE m h s = (Inl (Panic p), s')"
  by (simp add: catchE_def is_panic_def)

lemma wrapE_eq_Inl:
  "wrapE f m s = (Inl e, t) \<longleftrightarrow>
     (\<exists>e0. m s = (Inl e0, t) \<and> e = (if is_panic e0 then e0 else f e0))"
  by (auto simp: wrapE_def catchE_def failE_def split: prod.splits sum.splits)

lemma fst_wrapE_Inr: "fst (wrapE f m s) = Inr x \<longleftrightarrow> fst (m s) = Inr x"
  by (auto simp: wrapE_def catchE_def failE_def split: prod.splits sum.splits)

lemma fst_bindE_liftE:
  "fst (bindE (wrapE f m) (\<lambda>x. liftE (g x)) s) =
     (case fst (m s) of Inl e \<Rightarrow> Inl (if is_panic e then e else f e) | Inr x \<Rightarrow> g x)"
  by (auto simp: bindE_def wrapE_def catchE_def failE_def liftE_def split: prod.splits sum.splits)

lemma fst_bindE_retE: "fst (bindE m (\<lambda>x. retE (g x)) s) = map_sum id g (fst (m s))"
  by (auto simp: bindE_def retE_def split: prod.splits sum.splits)

lemma liftE_Inr [simp]: "liftE (Inr x) = retE x"
  by (simp add: liftE_def retE_def)

lemma snd_finallyE [simp]: "snd (finallyE m c s) = snd (c (snd (m s)))"
  by (simp add: finallyE_def split: prod.splits sum.splits)

lemma snd_wrapE [simp]: "snd (wrapE f m s) = snd (m s)"
  by (auto simp: wrapE_def catchE_def failE_def split: prod.splits sum.splits)

lemma getE_bind_apply [simp]: "bindE getE f (ob, w) = f ob (ob, w)"
  by (simp add: bindE_def getE_def)

lemma modifyE_bind_apply [simp]: "bindE (modifyE g) f (ob, w) = f () (g ob, w)"
  by (simp add: bindE_def modifyE_def)

lemma getE_const [simp]: "bindE getE (\<lambda>_. m) = m"
  by (simp add: bindE_def getE_def fun_eq_iff split: prod.splits)

section \<open>Go maps\<close>

text \<open>
  A Go \<^verbatim>\<open>map[string]string\<close> is an association list whose keys are distinct. The list order
  carries no meaning: wherever the code ranges over a map, the order of the traversal is a
  separate parameter of the model. A nil map and an empty map are both \<open>[]\<close> (the code never
  writes to a nil map: it calls \<^verbatim>\<open>make\<close> first).
\<close>

type_synonym kv = "(string \<times> string) list"

definition kv_wf :: "kv \<Rightarrow> bool" where
  "kv_wf m = distinct (map fst m)"

definition kv_put :: "string \<Rightarrow> string \<Rightarrow> kv \<Rightarrow> kv" where
  "kv_put k v m = AList.update k v m"

text \<open>\<^verbatim>\<open>for k, v := range src { dst[k] = v }\<close>\<close>

definition kv_merge :: "kv \<Rightarrow> kv \<Rightarrow> kv" where
  "kv_merge dst src = foldl (\<lambda>d (k, v). kv_put k v d) dst src"

lemma map_of_kv_put [kv_simps]: "map_of (kv_put k v m) = (map_of m)(k \<mapsto> v)"
  by (simp add: kv_put_def update_conv')

lemma kv_wf_put [simp]: "kv_wf m \<Longrightarrow> kv_wf (kv_put k v m)"
  by (simp add: kv_wf_def kv_put_def distinct_update)

lemma kv_wf_Nil [simp]: "kv_wf []"
  by (simp add: kv_wf_def)

lemma kv_merge_Nil [simp]: "kv_merge dst [] = dst"
  by (simp add: kv_merge_def)

lemma kv_merge_Cons [simp]: "kv_merge dst ((k, v) # src) = kv_merge (kv_put k v dst) src"
  by (simp add: kv_merge_def)

lemma kv_wf_merge [simp]: "kv_wf dst \<Longrightarrow> kv_wf (kv_merge dst src)"
  by (induction src arbitrary: dst) auto

lemma map_of_kv_merge [kv_simps]:
  "kv_wf src \<Longrightarrow> map_of (kv_merge dst src) = map_of dst ++ map_of src"
proof (induction src arbitrary: dst)
  case Nil
  then show ?case by simp
next
  case (Cons p src)
  obtain k v where p: "p = (k, v)" by (cases p)
  from Cons.prems p have notin: "k \<notin> dom (map_of src)" and wf: "kv_wf src"
    by (auto simp: kv_wf_def dom_map_of_conv_image_fst)
  from wf have "map_of (kv_merge (kv_put k v dst) src) = (map_of dst)(k \<mapsto> v) ++ map_of src"
    by (simp only: Cons.IH map_of_kv_put)
  moreover have "(map_of dst)(k \<mapsto> v) ++ map_of src = map_of dst ++ map_of (p # src)"
    using notin p by (auto simp: map_add_def fun_eq_iff split: option.splits)
  ultimately show ?case by (simp only: p kv_merge_Cons)
qed

text \<open>The order in which a well-formed map is traversed does not change a merge.\<close>

lemma kv_merge_perm:
  assumes "kv_wf src" and "mset src' = mset src"
  shows "map_of (kv_merge dst src') = map_of (kv_merge dst src)"
proof -
  have "mset (map fst src') = mset (map fst src)"
    using assms(2) by simp
  then have wf': "kv_wf src'"
    using assms(1) unfolding kv_wf_def by (metis mset_eq_imp_distinct_iff)
  have "set src' = set src"
    using assms(2) by (metis set_mset_mset)
  then have "map_of src' = map_of src"
    using assms(1) wf' by (simp add: kv_wf_def map_of_inject_set)
  then show ?thesis
    by (simp add: map_of_kv_merge assms(1) wf')
qed

end
