(* ===== verification/GoStrings.thy ===== *)
theory GoStrings
  imports Prelude "HOL-Library.Word"
begin

text \<open>
  The parts of Go's \<^verbatim>\<open>strings\<close>, \<^verbatim>\<open>strconv\<close>, \<^verbatim>\<open>fmt\<close> and \<^verbatim>\<open>path/filepath\<close> packages that the
  program calls, on byte strings, with the facts about them that the components use.
  Substitution with an empty pattern and splitting on white space are given for ASCII text.
\<close>

section \<open>Searching and replacing\<close>

text \<open>\<^verbatim>\<open>strings.Contains(s, sub)\<close>\<close>

fun go_contains :: "string \<Rightarrow> string \<Rightarrow> bool" where
  "go_contains sub [] = (sub = [])"
| "go_contains sub (c # s) = (prefix sub (c # s) \<or> go_contains sub s)"

lemma go_contains_iff: "go_contains sub s \<longleftrightarrow> (\<exists>p q. s = p @ sub @ q)"
proof (induction s)
  case Nil
  show ?case by simp
next
  case (Cons c s)
  have "(\<exists>p q. c # s = p @ sub @ q) \<longleftrightarrow> prefix sub (c # s) \<or> (\<exists>p q. s = p @ sub @ q)"
    by (metis Cons_eq_append_conv append_Cons prefix_def self_append_conv2)
  with Cons.IH show ?case by simp
qed

text \<open>\<^verbatim>\<open>strings.ReplaceAll(s, old, new)\<close>: left to right, not overlapping.\<close>

fun replace_ne :: "string \<Rightarrow> string \<Rightarrow> string \<Rightarrow> string" where
  "replace_ne old new [] = []"
| "replace_ne old new (c # s) =
     (if prefix old (c # s) then new @ replace_ne old new (drop (length old - 1) s)
      else c # replace_ne old new s)"

definition go_replace_all :: "string \<Rightarrow> string \<Rightarrow> string \<Rightarrow> string" where
  "go_replace_all s old new =
     (if old = [] then concat (map (\<lambda>c. new @ [c]) s) @ new else replace_ne old new s)"

lemma replace_ne_absent: "\<not> go_contains old s \<Longrightarrow> replace_ne old new s = s"
  by (induction s) auto

lemma go_replace_all_absent:
  "\<not> go_contains old s \<Longrightarrow> go_replace_all s old new = s"
  by (cases s) (auto simp: go_replace_all_def replace_ne_absent)

definition has_prefix :: "string \<Rightarrow> string \<Rightarrow> bool" where
  "has_prefix s p = (take (length p) s = p)"

definition has_suffix :: "string \<Rightarrow> string \<Rightarrow> bool" where
  "has_suffix s p = (length p \<le> length s \<and> drop (length s - length p) s = p)"

section \<open>Splitting and joining\<close>

text \<open>\<^verbatim>\<open>strings.Split(s, sep)\<close> for a one-byte separator: always at least one piece.\<close>

fun go_split :: "char \<Rightarrow> string \<Rightarrow> string list" where
  "go_split sep [] = [[]]"
| "go_split sep (c # s) =
     (if c = sep then [] # go_split sep s
      else (case go_split sep s of [] \<Rightarrow> [[c]] | w # ws \<Rightarrow> (c # w) # ws))"

text \<open>\<^verbatim>\<open>strings.SplitN(s, sep, 2)\<close> for a one-byte separator.\<close>

definition go_split2 :: "char \<Rightarrow> string \<Rightarrow> string list" where
  "go_split2 sep s =
     (case dropWhile (\<lambda>c. c \<noteq> sep) s of [] \<Rightarrow> [s] | _ # r \<Rightarrow> [takeWhile (\<lambda>c. c \<noteq> sep) s, r])"

text \<open>\<^verbatim>\<open>strings.Join(xs, sep)\<close>\<close>

fun go_join :: "string \<Rightarrow> string list \<Rightarrow> string" where
  "go_join sep [] = []"
| "go_join sep [x] = x"
| "go_join sep (x # y # xs) = x @ sep @ go_join sep (y # xs)"

lemma go_split_nonempty [simp]: "go_split sep s \<noteq> []"
  by (induction s) (auto split: list.splits)

lemma go_split_no_sep: "sep \<notin> set w \<Longrightarrow> go_split sep w = [w]"
  by (induction w) auto

lemma go_split_append:
  "sep \<notin> set w \<Longrightarrow> go_split sep (w @ sep # s) = w # go_split sep s"
  by (induction w) auto

lemma go_split_join:
  "xs \<noteq> [] \<Longrightarrow> (\<forall>x \<in> set xs. sep \<notin> set x) \<Longrightarrow> go_split sep (go_join [sep] xs) = xs"
  by (induction "[sep]" xs rule: go_join.induct) (auto simp: go_split_no_sep go_split_append)

lemma go_split_pieces: "w \<in> set (go_split sep s) \<Longrightarrow> sep \<notin> set w"
  by (induction s arbitrary: w) (auto split: if_splits list.splits)

lemma go_join_Cons: "ys \<noteq> [] \<Longrightarrow> go_join sep (x # ys) = x @ sep @ go_join sep ys"
  by (cases ys) auto

lemma go_join_split: "go_join [sep] (go_split sep s) = s"
proof (induction s)
  case Nil
  then show ?case by simp
next
  case (Cons c s)
  obtain w ws where s: "go_split sep s = w # ws"
    by (meson go_split_nonempty neq_Nil_conv)
  show ?case
  proof (cases "c = sep")
    case True
    then show ?thesis using Cons s by (simp add: go_join_Cons)
  next
    case False
    then show ?thesis using Cons s by (cases ws) auto
  qed
qed

definition is_space :: "char \<Rightarrow> bool" where
  "is_space c = (c \<in> {CHR '' '', CHR 0x09, CHR 0x0A, CHR 0x0B, CHR 0x0C, CHR 0x0D})"

text \<open>\<^verbatim>\<open>strings.Fields(s)\<close>: the maximal runs of non-space bytes.\<close>

fun fields_from :: "string \<Rightarrow> string \<Rightarrow> string list" where
  "fields_from w [] = (if w = [] then [] else [w])"
| "fields_from w (c # s) =
     (if is_space c then (if w = [] then fields_from [] s else w # fields_from [] s)
      else fields_from (w @ [c]) s)"

definition go_fields :: "string \<Rightarrow> string list" where
  "go_fields s = fields_from [] s"

section \<open>Numbers\<close>

definition digit_char :: "nat \<Rightarrow> char" where
  "digit_char d = ''0123456789'' ! d"

fun itoa_nat :: "nat \<Rightarrow> string" where
  "itoa_nat n = (if n < 10 then [digit_char n] else itoa_nat (n div 10) @ [digit_char (n mod 10)])"

declare itoa_nat.simps [simp del]

text \<open>\<^verbatim>\<open>%d\<close>\<close>

definition itoa :: "int \<Rightarrow> string" where
  "itoa i = (if i < 0 then ''-'' @ itoa_nat (nat (- i)) else itoa_nat (nat i))"

definition digit_val :: "char \<Rightarrow> nat option" where
  "digit_val c =
     (let n = (of_char c :: nat) in if 48 \<le> n \<and> n \<le> 57 then Some (n - 48) else None)"

fun digits_val :: "nat \<Rightarrow> string \<Rightarrow> nat option" where
  "digits_val acc [] = Some acc"
| "digits_val acc (c # s) =
     (case digit_val c of None \<Rightarrow> None | Some d \<Rightarrow> digits_val (10 * acc + d) s)"

text \<open>\<^verbatim>\<open>strconv.ParseUint(s, 10, bits)\<close>\<close>

definition parse_uint :: "nat \<Rightarrow> string \<Rightarrow> nat option" where
  "parse_uint bits s =
     (if s = [] then None
      else case digits_val 0 s of None \<Rightarrow> None | Some n \<Rightarrow> if n < 2 ^ bits then Some n else None)"

text \<open>\<^verbatim>\<open>strconv.Atoi(s)\<close> on a 64-bit platform\<close>

definition atoi :: "string \<Rightarrow> int option" where
  "atoi s =
     (let neg = has_prefix s ''-''; ds = (if neg \<or> has_prefix s ''+'' then tl s else s)
      in if ds = [] then None
         else case digits_val 0 ds of None \<Rightarrow> None
         | Some n \<Rightarrow> (let i = (if neg then - int n else int n)
                     in if - (2 ^ 63) \<le> i \<and> i < 2 ^ 63 then Some i else None))"

lemma digit_char_val: "d < 10 \<Longrightarrow> digit_val (digit_char d) = Some d"
proof -
  have "\<forall>d \<in> set [0..<10]. digit_val (digit_char d) = Some d"
    by code_simp
  moreover assume "d < 10"
  ultimately show ?thesis by simp
qed

lemma digits_val_append:
  "digits_val acc (s @ t) = (case digits_val acc s of None \<Rightarrow> None | Some a \<Rightarrow> digits_val a t)"
  by (induction s arbitrary: acc) (auto split: option.splits)

lemma itoa_nat_nonempty [simp]: "itoa_nat n \<noteq> []"
  by (subst itoa_nat.simps) simp

lemma digits_val_itoa: "digits_val 0 (itoa_nat n) = Some n"
proof (induction n rule: itoa_nat.induct)
  case (1 n)
  then show ?case
    by (cases "n < 10")
      (simp_all add: itoa_nat.simps [of n] digits_val_append digit_char_val)
qed

lemma itoa_nat_inject [simp]: "itoa_nat m = itoa_nat n \<longleftrightarrow> m = n"
  using digits_val_itoa by (metis option.inject)

text \<open>A printed number contains digits only.\<close>

lemma itoa_nat_digits: "c \<in> set (itoa_nat n) \<Longrightarrow> c \<in> set ''0123456789''"
proof (induction n rule: itoa_nat.induct)
  case (1 n)
  have d: "digit_char (n mod 10) \<in> set ''0123456789''"
    unfolding digit_char_def by (rule nth_mem) simp
  show ?case
  proof (cases "n < 10")
    case True
    with "1.prems" d show ?thesis by (simp add: itoa_nat.simps [of n])
  next
    case False
    with "1.prems" d "1.IH" show ?thesis by (auto simp: itoa_nat.simps [of n])
  qed
qed

lemma parse_uint_itoa: "n < 2 ^ bits \<Longrightarrow> parse_uint bits (itoa_nat n) = Some n"
  by (simp add: parse_uint_def digits_val_itoa)

text \<open>\<^verbatim>\<open>%0<w>d\<close> for a non-negative number\<close>

definition itoa_pad :: "nat \<Rightarrow> nat \<Rightarrow> string" where
  "itoa_pad w n = replicate (w - length (itoa_nat n)) (CHR ''0'') @ itoa_nat n"

text \<open>\<^verbatim>\<open>%x\<close> of a string: two lower-case hexadecimal digits per byte\<close>

definition hex_char :: "nat \<Rightarrow> char" where
  "hex_char d = ''0123456789abcdef'' ! d"

definition hex_string :: "string \<Rightarrow> string" where
  "hex_string s =
     concat (map (\<lambda>c. let n = (of_char c :: nat) in [hex_char (n div 16), hex_char (n mod 16)]) s)"

text \<open>\<^verbatim>\<open>strings.ToUpper\<close> on ASCII text\<close>

definition to_upper :: "string \<Rightarrow> string" where
  "to_upper s =
     map (\<lambda>c. let n = (of_char c :: nat) in if 97 \<le> n \<and> n \<le> 122 then char_of (n - 32) else c) s"

section \<open>Paths\<close>

text \<open>
  \<^verbatim>\<open>filepath.Clean\<close>: the lexical processing of the elements of a path. \<open>acc\<close> holds the output
  elements in reverse.
\<close>

fun clean_elems :: "bool \<Rightarrow> string list \<Rightarrow> string list \<Rightarrow> string list" where
  "clean_elems rooted acc [] = rev acc"
| "clean_elems rooted acc (e # es) =
     (if e = [] \<or> e = ''.'' then clean_elems rooted acc es
      else if e = ''..'' then
        (case acc of
           [] \<Rightarrow> if rooted then clean_elems rooted [] es else clean_elems rooted [''..''] es
         | a # as \<Rightarrow> if a = ''..'' then clean_elems rooted (''..'' # acc) es
                    else clean_elems rooted as es)
      else clean_elems rooted (e # acc) es)"

definition filepath_Clean :: "string \<Rightarrow> string" where
  "filepath_Clean p =
     (if p = [] then ''.''
      else let rooted = has_prefix p ''/''; es = clean_elems rooted [] (go_split (CHR ''/'') p);
               q = (if rooted then ''/'' else '''') @ go_join ''/'' es
           in if q = [] then ''.'' else q)"

text \<open>\<^verbatim>\<open>filepath.Dir\<close>: everything before the last separator, cleaned.\<close>

definition filepath_Dir :: "string \<Rightarrow> string" where
  "filepath_Dir p = filepath_Clean (rev (dropWhile (\<lambda>c. c \<noteq> CHR ''/'') (rev p)))"

section \<open>Durations\<close>

text \<open>
  \<^verbatim>\<open>time.Duration(n) * time.Second\<close>: a 64-bit count of nanoseconds, so the product wraps around.
\<close>

definition seconds :: "int \<Rightarrow> int" where
  "seconds n = sint (word_of_int (n * 1000000000) :: 64 word)"

section \<open>Integer division\<close>

text \<open>Go's \<^verbatim>\<open>a / b\<close> for a positive \<open>b\<close>: it truncates towards zero.\<close>

definition go_quot :: "int \<Rightarrow> int \<Rightarrow> int" where
  "go_quot a b = (if 0 \<le> a then a div b else - ((- a) div b))"

end
