(* ===== verification/Kube.thy ===== *)
theory Kube
  imports Prelude
begin

text \<open>
  The parts of the Kubernetes object model that the controllers read and write: object
  references, object metadata, the result of a reconcile, and the outcome of reading an object.
  The API server is not under \<^verbatim>\<open>src/\<close>: what a read or an update returns is a parameter of
  the controllers.
\<close>

record ObjectReference =
  ref_Kind :: string
  ref_Namespace :: string
  ref_Name :: string
  ref_UID :: string
  ref_APIVersion :: string
  ref_ResourceVersion :: string
  ref_FieldPath :: string

definition emptyRef :: ObjectReference where
  "emptyRef = \<lparr>ref_Kind = [], ref_Namespace = [], ref_Name = [], ref_UID = [],
     ref_APIVersion = [], ref_ResourceVersion = [], ref_FieldPath = []\<rparr>"

record OwnerReference =
  own_APIVersion :: string
  own_Kind :: string
  own_Name :: string
  own_UID :: string
  own_Controller :: bool

record ObjectMeta =
  meta_Name :: string
  meta_Namespace :: string
  meta_UID :: string
  meta_Labels :: kv
  meta_Annotations :: kv
  meta_OwnerReferences :: "OwnerReference list"
  meta_Finalizers :: "string list"
  meta_Deleting :: bool
  meta_CreationTimestamp :: int
  meta_DeletionTimestamp :: int

definition zeroMeta :: ObjectMeta where
  "zeroMeta = \<lparr>meta_Name = [], meta_Namespace = [], meta_UID = [], meta_Labels = [],
     meta_Annotations = [], meta_OwnerReferences = [],
     meta_Finalizers = [], meta_Deleting = False, meta_CreationTimestamp = 0,
     meta_DeletionTimestamp = 0\<rparr>"

text \<open>\<^verbatim>\<open>ctrl.Result\<close>: \<^verbatim>\<open>Requeue\<close> and \<^verbatim>\<open>RequeueAfter\<close> (nanoseconds).\<close>

record Result =
  Requeue :: bool
  RequeueAfter :: int

definition doneResult :: Result where
  "doneResult = \<lparr>Requeue = False, RequeueAfter = 0\<rparr>"

definition requeueResult :: Result where
  "requeueResult = \<lparr>Requeue = True, RequeueAfter = 0\<rparr>"

definition requeueAfter :: "int \<Rightarrow> Result" where
  "requeueAfter d = \<lparr>Requeue = False, RequeueAfter = d\<rparr>"

abbreviation second :: int where
  "second \<equiv> 1000000000"

text \<open>What the API server answers to a \<^verbatim>\<open>Get\<close>.\<close>

datatype 'a got = Found 'a | NotFound | GetError failure

text \<open>
  How a reconcile ends: it returns its result, its error if any and the object with the status it
  leaves (what the deferred status updater writes), or it panics, or it never returns.
\<close>

datatype 'o outcome = Returned Result "failure option" 'o | Panicked string | Hung

definition panicText :: "failure \<Rightarrow> string" where
  "panicText e = (case e of Panic p \<Rightarrow> p | _ \<Rightarrow> [])"

text \<open>\<^verbatim>\<open>client.ObjectKeyFromObject(obj)\<close>, printed\<close>

definition objectKey :: "ObjectMeta \<Rightarrow> string" where
  "objectKey m = meta_Namespace m @ ''/'' @ meta_Name m"

text \<open>\<^verbatim>\<open>controllerutil\<close> on the list of finalizers.\<close>

definition ContainsFinalizer :: "string \<Rightarrow> string list \<Rightarrow> bool" where
  "ContainsFinalizer f fs = (f \<in> set fs)"

definition AddFinalizer :: "string \<Rightarrow> string list \<Rightarrow> string list" where
  "AddFinalizer f fs = (if f \<in> set fs then fs else fs @ [f])"

definition RemoveFinalizer :: "string \<Rightarrow> string list \<Rightarrow> string list" where
  "RemoveFinalizer f fs = filter (\<lambda>g. g \<noteq> f) fs"

lemma ContainsFinalizer_Add [simp]:
  "ContainsFinalizer g (AddFinalizer f fs) \<longleftrightarrow> g = f \<or> ContainsFinalizer g fs"
  by (auto simp: ContainsFinalizer_def AddFinalizer_def)

lemma ContainsFinalizer_Remove [simp]:
  "ContainsFinalizer g (RemoveFinalizer f fs) \<longleftrightarrow> g \<noteq> f \<and> ContainsFinalizer g fs"
  by (auto simp: ContainsFinalizer_def RemoveFinalizer_def)

end
