(* ===== verification/Dws.thy ===== *)
theory Dws
  imports Kube "HOL-Library.Word"
begin

text \<open>
  The resources of the Data Workflow Services that the controllers read and write (the vendored
  API package): client mounts and servers, and the labels by which resources refer to each other.
  A nil pointer is \<open>None\<close>; following it is a panic of the caller.
\<close>

section \<open>Client mounts\<close>

record ClientMountDeviceLustre =
  cdl_FileSystemName :: string
  cdl_MgsAddresses :: string

record ClientMountNVMeDesc =
  nvi_DeviceSerial :: string
  nvi_NamespaceID :: string
  nvi_NamespaceGUID :: string

record ClientMountDeviceLVM =
  cdv_DeviceType :: string
  cdv_NVMeInfo :: "ClientMountNVMeDesc list"
  cdv_VolumeGroup :: string
  cdv_LogicalVolume :: string

text \<open>\<^verbatim>\<open>Data\<close> is an index of an allocation and never negative.\<close>

record ClientMountDeviceReference =
  cdr_ObjectReference :: ObjectReference
  cdr_Data :: nat

record ClientMountDevice =
  cmd_Type :: string
  cmd_Lustre :: "ClientMountDeviceLustre option"
  cmd_LVM :: "ClientMountDeviceLVM option"
  cmd_DeviceReference :: "ClientMountDeviceReference option"

record ClientMountInfo =
  cmi_MountPath :: string
  cmi_UserID :: "32 word"
  cmi_GroupID :: "32 word"
  cmi_SetPermissions :: bool
  cmi_Options :: string
  cmi_Device :: ClientMountDevice
  cmi_Type :: string
  cmi_TargetType :: string
  cmi_Compute :: string

record ClientMountSpec =
  cms_Node :: string
  cms_DesiredState :: string
  cms_Mounts :: "ClientMountInfo list"

record ClientMountInfoStatus =
  cis_State :: string
  cis_Ready :: bool

record ClientMountStatus =
  cst_Mounts :: "ClientMountInfoStatus list"
  cst_AllReady :: bool
  cst_Error :: "ResourceErrorInfo option"

record ClientMount =
  cm_Meta :: ObjectMeta
  cm_Spec :: ClientMountSpec
  cm_Status :: ClientMountStatus

abbreviation ClientMountStateMounted :: string where
  "ClientMountStateMounted \<equiv> ''mounted''"

abbreviation ClientMountStateUnmounted :: string where
  "ClientMountStateUnmounted \<equiv> ''unmounted''"

section \<open>Servers\<close>

record ServersSpecStorage =
  sss_Name :: string
  sss_AllocationCount :: int

record ServersSpecAllocationSet =
  ssa_Label :: string
  ssa_AllocationSize :: int
  ssa_Storage :: "ServersSpecStorage list"

record ServersStatusStorage =
  srs_AllocationSize :: int
  srs_Ready :: bool

record ServersStatusAllocationSet =
  sra_Label :: string
  sra_Storage :: "(string \<times> ServersStatusStorage) list"

record ServersStatus =
  svt_Ready :: bool
  svt_LastUpdate :: "int option"
  svt_AllocationSets :: "ServersStatusAllocationSet list"
  svt_Error :: "ResourceErrorInfo option"

record Servers =
  sv_Meta :: ObjectMeta
  sv_AllocationSets :: "ServersSpecAllocationSet list"
  sv_Status :: ServersStatus

section \<open>Labels\<close>

abbreviation OwnerKindLabel :: string where
  "OwnerKindLabel \<equiv> ''dataworkflowservices.github.io/owner.kind''"

abbreviation OwnerNameLabel :: string where
  "OwnerNameLabel \<equiv> ''dataworkflowservices.github.io/owner.name''"

abbreviation OwnerNamespaceLabel :: string where
  "OwnerNamespaceLabel \<equiv> ''dataworkflowservices.github.io/owner.namespace''"

abbreviation OwnerUidLabel :: string where
  "OwnerUidLabel \<equiv> ''dataworkflowservices.github.io/owner.uid''"

definition AddOwnerLabels :: "string \<Rightarrow> ObjectMeta \<Rightarrow> ObjectMeta \<Rightarrow> ObjectMeta" where
  "AddOwnerLabels kind owner child =
     child\<lparr>meta_Labels := kv_put OwnerUidLabel (meta_UID owner)
       (kv_put OwnerNamespaceLabel (meta_Namespace owner)
       (kv_put OwnerNameLabel (meta_Name owner)
       (kv_put OwnerKindLabel kind (meta_Labels child))))\<rparr>"

abbreviation WorkflowNameLabel :: string where
  "WorkflowNameLabel \<equiv> ''dataworkflowservices.github.io/workflow.name''"

abbreviation WorkflowNamespaceLabel :: string where
  "WorkflowNamespaceLabel \<equiv> ''dataworkflowservices.github.io/workflow.namespace''"

abbreviation WorkflowUidLabel :: string where
  "WorkflowUidLabel \<equiv> ''dataworkflowservices.github.io/workflow.uid''"

abbreviation JobIDLabel :: string where
  "JobIDLabel \<equiv> ''nnf.cray.hpe.com/job_id''"

abbreviation TargetDirectiveIndexLabel :: string where
  "TargetDirectiveIndexLabel \<equiv> ''nnf.cray.hpe.com/target_directive_index''"

abbreviation TargetOwnerUidLabel :: string where
  "TargetOwnerUidLabel \<equiv> ''nnf.cray.hpe.com/target_owner_uid''"

text \<open>Reading a Go map at a key that is not there gives the empty string.\<close>

definition labelOf :: "string \<Rightarrow> kv \<Rightarrow> string" where
  "labelOf key labels = (case map_of labels key of None \<Rightarrow> [] | Some v \<Rightarrow> v)"

definition getTargetDirectiveIndexLabel :: "ObjectMeta \<Rightarrow> string" where
  "getTargetDirectiveIndexLabel object = labelOf TargetDirectiveIndexLabel (meta_Labels object)"

definition getTargetOwnerUIDLabel :: "ObjectMeta \<Rightarrow> string" where
  "getTargetOwnerUIDLabel object = labelOf TargetOwnerUidLabel (meta_Labels object)"

definition InheritParentLabels :: "ObjectMeta \<Rightarrow> ObjectMeta \<Rightarrow> ObjectMeta" where
  "InheritParentLabels child owner =
     child\<lparr>meta_Labels := kv_merge (meta_Labels child)
       (filter (\<lambda>(k, v). k \<notin> {OwnerNameLabel, OwnerNamespaceLabel, OwnerKindLabel}) (meta_Labels owner))\<rparr>"

end
