(* ===== verification/Client.thy ===== *)
theory Client
  imports GoStrings Dws
begin

text \<open>
  The Kubernetes client as the controllers use it. The API server is not under \<^verbatim>\<open>src/\<close>: one
  record of operations per kind of object, \<open>kclient\<close>, is a parameter of the controllers. What is
  built on top of the client is modelled here: owner references and \<^verbatim>\<open>CreateOrUpdate\<close>
  (\<^verbatim>\<open>controllerutil\<close>), the deletion of children by their owner labels (\<^verbatim>\<open>owner_labels.go\<close>), and the
  frame that every controller puts around its work: read the object, run the body, record the
  error in the status, write the status if it changed (\<^verbatim>\<open>updater\<close>).
\<close>

section \<open>Reading and writing objects\<close>

text \<open>
  A write returns the object as the server stored it, and the client decodes that answer into the
  object that the caller holds.
\<close>

record ('o, 'w) kclient =
  kc_Get :: "string \<Rightarrow> string \<Rightarrow> ('w, 'o) io"
  kc_Create :: "'o \<Rightarrow> ('w, 'o) io"
  kc_Update :: "'o \<Rightarrow> ('w, 'o) io"
  kc_UpdateStatus :: "'o \<Rightarrow> ('w, 'o) io"

definition IsNotFound :: "failure \<Rightarrow> bool" where
  "IsNotFound e = (case e of ApiErr r _ \<Rightarrow> r = ReasonNotFound | _ \<Rightarrow> False)"

definition IsConflict :: "failure \<Rightarrow> bool" where
  "IsConflict e = (case e of ApiErr r _ \<Rightarrow> r = ReasonConflict | _ \<Rightarrow> False)"

definition IsAlreadyExists :: "failure \<Rightarrow> bool" where
  "IsAlreadyExists e = (case e of ApiErr r _ \<Rightarrow> r = ReasonAlreadyExists | _ \<Rightarrow> False)"

definition IgnoreNotFound :: "failure \<Rightarrow> failure option" where
  "IgnoreNotFound e = (if IsNotFound e then None else Some e)"

definition IgnoreAlreadyExists :: "failure \<Rightarrow> failure option" where
  "IgnoreAlreadyExists e = (if IsAlreadyExists e then None else Some e)"

lemma reason_not_panic [simp]:
  "IsNotFound e \<Longrightarrow> \<not> is_panic e" "IsConflict e \<Longrightarrow> \<not> is_panic e" "IsAlreadyExists e \<Longrightarrow> \<not> is_panic e"
  by (auto simp: IsNotFound_def IsConflict_def IsAlreadyExists_def is_panic_def split: failure.splits)

section \<open>Owner references\<close>

text \<open>
  The scheme knows the resources of the program: the kinds of NNF begin with \<^verbatim>\<open>Nnf\<close>, the other
  owners are resources of DWS.
\<close>

definition apiVersionOf :: "string \<Rightarrow> string" where
  "apiVersionOf kind =
     (if has_prefix kind ''Nnf'' then ''nnf.cray.hpe.com/v1alpha11''
      else ''dataworkflowservices.github.io/v1alpha7'')"

definition ParseGroup :: "string \<Rightarrow> string option" where
  "ParseGroup gv =
     (if gv = [] \<or> gv = ''/'' then Some []
      else case go_split (CHR ''/'') gv of
        [_] \<Rightarrow> Some [] | [g, _] \<Rightarrow> Some g | _ \<Rightarrow> None)"

definition referSameObject :: "OwnerReference \<Rightarrow> OwnerReference \<Rightarrow> bool" where
  "referSameObject a b =
     (case (ParseGroup (own_APIVersion a), ParseGroup (own_APIVersion b)) of
        (Some ga, Some gb) \<Rightarrow> ga = gb \<and> own_Kind a = own_Kind b \<and> own_Name a = own_Name b
      | _ \<Rightarrow> False)"

definition validateOwner :: "ObjectMeta \<Rightarrow> ObjectMeta \<Rightarrow> failure option" where
  "validateOwner owner object =
     (if meta_Namespace owner = [] then None
      else if meta_Namespace object = [] then
        Some (Fail (''cluster-scoped resource must not have a namespace-scoped owner, owner's namespace '' @
          meta_Namespace owner))
      else if meta_Namespace owner \<noteq> meta_Namespace object then
        Some (Fail (''cross-namespace owner references are disallowed, owner's namespace '' @
          meta_Namespace owner @ '', obj's namespace '' @ meta_Namespace object))
      else None)"

fun upsertRefs :: "OwnerReference \<Rightarrow> OwnerReference list \<Rightarrow> OwnerReference list" where
  "upsertRefs ref [] = [ref]"
| "upsertRefs ref (r # rs) = (if referSameObject r ref then ref # rs else r # upsertRefs ref rs)"

definition upsertOwnerRef :: "OwnerReference \<Rightarrow> ObjectMeta \<Rightarrow> ObjectMeta" where
  "upsertOwnerRef ref object = object\<lparr>meta_OwnerReferences := upsertRefs ref (meta_OwnerReferences object)\<rparr>"

definition controllerRef :: "string \<Rightarrow> ObjectMeta \<Rightarrow> OwnerReference" where
  "controllerRef kind owner =
     \<lparr>own_APIVersion = apiVersionOf kind, own_Kind = kind, own_Name = meta_Name owner,
      own_UID = meta_UID owner, own_Controller = True\<rparr>"

definition SetControllerReference :: "string \<Rightarrow> ObjectMeta \<Rightarrow> ObjectMeta \<Rightarrow> ObjectMeta res" where
  "SetControllerReference kind owner controlled =
     (case validateOwner owner controlled of
        Some e \<Rightarrow> Inl e
      | None \<Rightarrow>
          let ref = controllerRef kind owner in
          case List.find own_Controller (meta_OwnerReferences controlled) of
            Some existing \<Rightarrow>
              if \<not> referSameObject existing ref
              then Inl (Fail (''Object '' @ meta_Namespace controlled @ ''/'' @ meta_Name controlled @
                     '' is already owned by another '' @ own_Kind existing @ '' controller '' @ own_Name existing))
              else Inr (upsertOwnerRef ref controlled)
          | None \<Rightarrow> Inr (upsertOwnerRef ref controlled))"

lemma SetControllerReference_only:
  "SetControllerReference kind owner m = Inr m' \<Longrightarrow>
     m' = m\<lparr>meta_OwnerReferences := upsertRefs (controllerRef kind owner) (meta_OwnerReferences m)\<rparr>"
  by (auto simp: SetControllerReference_def upsertOwnerRef_def Let_def split: option.splits if_splits)

section \<open>CreateOrUpdate\<close>

datatype OperationResult = OperationResultNone | OperationResultCreated | OperationResultUpdated

definition mutate ::
  "('o \<Rightarrow> ObjectMeta) \<Rightarrow> ('o \<Rightarrow> ('w, 'o) io) \<Rightarrow> string \<Rightarrow> string \<Rightarrow> 'o \<Rightarrow> ('w, 'o) io" where
  "mutate meta f namespace name obj = bindE (f obj) (\<lambda>obj'.
     if meta_Namespace (meta obj') \<noteq> namespace \<or> meta_Name (meta obj') \<noteq> name
     then failE (Fail ''MutateFn cannot mutate object name and/or object namespace'')
     else retE obj')"

definition CreateOrUpdate ::
  "('o, 'w) kclient \<Rightarrow> ('o \<Rightarrow> ObjectMeta) \<Rightarrow> 'o \<Rightarrow> ('o \<Rightarrow> ('w, 'o) io) \<Rightarrow> ('w, OperationResult \<times> 'o) io" where
  "CreateOrUpdate c meta obj f = (\<lambda>w.
     let namespace = meta_Namespace (meta obj); name = meta_Name (meta obj) in
     case kc_Get c namespace name w of
       (Inl e, w1) \<Rightarrow>
         (if \<not> IsNotFound e then (Inl e, w1)
          else bindE (mutate meta f namespace name obj) (\<lambda>obj1.
               bindE (kc_Create c obj1) (\<lambda>obj2. retE (OperationResultCreated, obj2))) w1)
     | (Inr existing, w1) \<Rightarrow>
         bindE (mutate meta f namespace name existing) (\<lambda>obj1.
           if obj1 = existing then retE (OperationResultNone, obj1)
           else bindE (kc_Update c obj1) (\<lambda>obj2. retE (OperationResultUpdated, obj2))) w1)"

section \<open>Deleting the children of an object\<close>

text \<open>
  The operations on the lists of one kind of child. Deletes of children in several namespaces run
  concurrently and all of them are waited for; their order makes no difference, and the error of
  the group is the error of one of them.
\<close>

record 'w childKind =
  ck_List :: "kv \<Rightarrow> ('w, ObjectMeta list) io"
  ck_DeleteAllOf :: "string \<Rightarrow> kv \<Rightarrow> ('w, unit) io"
  ck_Delete :: "ObjectMeta \<Rightarrow> ('w, unit) io"

definition MatchingOwner :: "string \<Rightarrow> ObjectMeta \<Rightarrow> kv" where
  "MatchingOwner kind owner =
     [(OwnerKindLabel, kind), (OwnerNameLabel, meta_Name owner),
      (OwnerNamespaceLabel, meta_Namespace owner), (OwnerUidLabel, meta_UID owner)]"

fun deleteEach :: "'w childKind \<Rightarrow> ObjectMeta list \<Rightarrow> failure option \<Rightarrow> ('w, unit) io" where
  "deleteEach ck [] err = (case err of None \<Rightarrow> retE () | Some e \<Rightarrow> failE e)"
| "deleteEach ck (ob # obs) err = (\<lambda>w.
     case ck_Delete ck ob w of
       (Inl e, w1) \<Rightarrow> (if is_panic e then (Inl e, w1)
         else deleteEach ck obs (case err of None \<Rightarrow> Some e | Some e0 \<Rightarrow> Some e0) w1)
     | (Inr _, w1) \<Rightarrow> deleteEach ck obs err w1)"

fun spansNamespaces :: "string \<Rightarrow> ObjectMeta list \<Rightarrow> bool" where
  "spansNamespaces namespace [] = False"
| "spansNamespaces namespace (ob # obs) =
     ((meta_Namespace ob \<noteq> namespace \<and> namespace \<noteq> []) \<or> spansNamespaces (meta_Namespace ob) obs)"

text \<open>The value is \<^verbatim>\<open>Complete()\<close>: no object of the kind was left when the list was read.\<close>

definition deleteChildrenSingle :: "'w childKind \<Rightarrow> kv \<Rightarrow> ('w, bool) io" where
  "deleteChildrenSingle ck matchingLabels =
     bindE (ck_List ck matchingLabels) (\<lambda>objectList.
       if length objectList = 0 then retE True
       else if list_ex meta_Deleting objectList then retE False
       else if \<not> spansNamespaces [] objectList
       then bindE (ck_DeleteAllOf ck (meta_Namespace (last objectList)) matchingLabels) (\<lambda>_. retE False)
       else bindE (deleteEach ck objectList None) (\<lambda>_. retE False))"

fun deleteKinds :: "'w childKind list \<Rightarrow> kv \<Rightarrow> ('w, bool) io" where
  "deleteKinds [] matchingLabels = retE True"
| "deleteKinds (ck # cks) matchingLabels =
     bindE (deleteChildrenSingle ck matchingLabels) (\<lambda>complete.
       if \<not> complete then retE False else deleteKinds cks matchingLabels)"

definition DeleteChildrenWithLabels ::
  "'w childKind list \<Rightarrow> string \<Rightarrow> ObjectMeta \<Rightarrow> kv \<Rightarrow> ('w, bool) io" where
  "DeleteChildrenWithLabels cks kind parent matchingLabels =
     deleteKinds cks (kv_merge matchingLabels (MatchingOwner kind parent))"

definition DeleteChildren :: "'w childKind list \<Rightarrow> string \<Rightarrow> ObjectMeta \<Rightarrow> ('w, bool) io" where
  "DeleteChildren cks kind parent = DeleteChildrenWithLabels cks kind parent []"

text \<open>The parallel variant starts on every kind, also when objects of an earlier one are left.\<close>

fun deleteKindsParallel :: "'w childKind list \<Rightarrow> kv \<Rightarrow> bool \<Rightarrow> ('w, bool) io" where
  "deleteKindsParallel [] matchingLabels complete = retE complete"
| "deleteKindsParallel (ck # cks) matchingLabels complete =
     bindE (deleteChildrenSingle ck matchingLabels) (\<lambda>one.
       deleteKindsParallel cks matchingLabels (complete \<and> one))"

definition DeleteChildrenWithLabelsParallel ::
  "'w childKind list \<Rightarrow> string \<Rightarrow> ObjectMeta \<Rightarrow> kv \<Rightarrow> ('w, bool) io" where
  "DeleteChildrenWithLabelsParallel cks kind parent matchingLabels =
     deleteKindsParallel cks (kv_merge matchingLabels (MatchingOwner kind parent)) True"

definition DeleteChildrenParallel :: "'w childKind list \<Rightarrow> string \<Rightarrow> ObjectMeta \<Rightarrow> ('w, bool) io" where
  "DeleteChildrenParallel cks kind parent = DeleteChildrenWithLabelsParallel cks kind parent []"

text \<open>
  A deletion is complete only if every kind of child was listed and found empty, in the order of
  the list.
\<close>

fun allListedEmpty :: "'w childKind list \<Rightarrow> kv \<Rightarrow> 'w \<Rightarrow> 'w \<Rightarrow> bool" where
  "allListedEmpty [] labels w w' = (w' = w)"
| "allListedEmpty (ck # cks) labels w w' =
     (\<exists>w1. ck_List ck labels w = (Inr [], w1) \<and> allListedEmpty cks labels w1 w')"

lemma deleteChildrenSingle_complete:
  "deleteChildrenSingle ck labels w = (Inr True, w') \<Longrightarrow> ck_List ck labels w = (Inr [], w')"
  by (auto simp: deleteChildrenSingle_def bindE_eq_Inr retE_apply split: if_splits)

lemma deleteKinds_complete:
  "deleteKinds cks labels w = (Inr True, w') \<Longrightarrow> allListedEmpty cks labels w w'"
proof (induction cks arbitrary: w)
  case Nil
  then show ?case by (simp add: retE_apply)
next
  case (Cons ck cks)
  then obtain w1 where "deleteChildrenSingle ck labels w = (Inr True, w1)"
      and "deleteKinds cks labels w1 = (Inr True, w')"
    by (auto simp: bindE_eq_Inr retE_apply split: if_splits)
  then show ?case using Cons.IH deleteChildrenSingle_complete by (auto intro!: exI)
qed

lemma deleteKindsParallel_complete:
  "deleteKindsParallel cks labels b w = (Inr True, w') \<Longrightarrow> b \<and> allListedEmpty cks labels w w'"
proof (induction cks arbitrary: b w)
  case Nil
  then show ?case by (simp add: retE_apply)
next
  case (Cons ck cks)
  then obtain one w1 where one: "deleteChildrenSingle ck labels w = (Inr one, w1)"
      and "deleteKindsParallel cks labels (b \<and> one) w1 = (Inr True, w')"
    by (auto simp: bindE_eq_Inr)
  with Cons.IH have rest: "b" "one" "allListedEmpty cks labels w1 w'" by blast+
  with one deleteChildrenSingle_complete [of ck labels w w1] show ?case by auto
qed

section \<open>The frame of a controller\<close>

text \<open>The status of a resource holds the error of the last reconcile.\<close>

definition resourceError :: "failure option \<Rightarrow> ResourceErrorInfo option" where
  "resourceError err = map_option (\<lambda>e. WithError (Some e) (NewResourceError [])) err"

text \<open>
  \<^verbatim>\<open>CloseWithStatusUpdate\<close>: an error of the body wins over an error of the update, and a conflict
  is no error.
\<close>

definition CloseWithStatusUpdate ::
  "('o, 'w) kclient \<Rightarrow> bool \<Rightarrow> 'o \<Rightarrow> failure option \<Rightarrow> 'w \<Rightarrow> failure option \<times> 'w" where
  "CloseWithStatusUpdate c changed obj err w =
     (if \<not> changed then (err, w)
      else case kc_UpdateStatus c obj w of
        (r, w') \<Rightarrow>
          ((case err of
              Some e \<Rightarrow> Some e
            | None \<Rightarrow> (case r of Inr _ \<Rightarrow> None | Inl e \<Rightarrow> if IsConflict e then None else Some e)), w'))"

text \<open>
  The object is read; its absence is no error. The deferred functions run however the body ends,
  also under a panic, with a nil error then. \<open>status\<close> is what the updater compares, \<open>setError\<close> is
  \<^verbatim>\<open>SetResourceError\<close> of the kind of object. The result carries the object as it is in memory at
  the end.
\<close>

definition reconcileObject ::
  "('o, 'w) kclient \<Rightarrow> ('o \<Rightarrow> 's) \<Rightarrow> (failure option \<Rightarrow> 'o \<Rightarrow> 'o) \<Rightarrow> string \<Rightarrow> string \<Rightarrow>
   ('o \<times> 'w, Result) io \<Rightarrow> 'w \<Rightarrow> 'o option outcome \<times> 'w" where
  "reconcileObject c status setError namespace name body w =
     (case kc_Get c namespace name w of
        (Inl e, w1) \<Rightarrow> (if is_panic e then Panicked (panicText e)
                        else Returned doneResult (IgnoreNotFound e) None, w1)
      | (Inr obj, w1) \<Rightarrow>
          (case body (obj, w1) of
             (r, (obj1, w2)) \<Rightarrow>
               let err = (case r of Inl e \<Rightarrow> if is_panic e then None else Some e | Inr _ \<Rightarrow> None);
                   obj2 = setError err obj1 in
               if r = Inl Hang then (Hung, w2)
               else case CloseWithStatusUpdate c (status obj2 \<noteq> status obj) obj2 err w2 of
                 (err', w3) \<Rightarrow>
                   (case r of
                      Inr res \<Rightarrow> Returned res err' (Some obj2)
                    | Inl e \<Rightarrow> if is_panic e then Panicked (panicText e)
                              else Returned doneResult err' (Some obj2), w3)))"

text \<open>
  A body works on the object in memory and on the world. \<^verbatim>\<open>r.Update(ctx, obj)\<close> replaces the object
  by the server's answer; a conflict asks for another reconcile.
\<close>

definition storeE :: "('o \<Rightarrow> ('w, 'o) io) \<Rightarrow> ('o \<times> 'w, unit) io" where
  "storeE write = (\<lambda>(ob, w). case write ob w of
     (Inl e, w') \<Rightarrow> (Inl e, (ob, w')) | (Inr ob', w') \<Rightarrow> (Inr (), (ob', w')))"

definition updateOrRequeue :: "('o, 'w) kclient \<Rightarrow> ('o \<times> 'w, Result) io" where
  "updateOrRequeue c =
     catchE (bindE (storeE (kc_Update c)) (\<lambda>_. retE doneResult))
       (\<lambda>e. if IsConflict e then retE requeueResult else failE e)"

lemma sndE_bind:
  "m w = (Inr x, w1) \<Longrightarrow> bindE (sndE m) f (ob, w) = f x (ob, w1)"
  "m w = (Inl e, w1) \<Longrightarrow> bindE (sndE m) f (ob, w) = (Inl e, (ob, w1))"
  by (simp_all add: bindE_def sndE_def)

section \<open>Invariants of the object\<close>

text \<open>An effect that keeps a property of the resource, however it ends.\<close>

definition keeps :: "('o \<Rightarrow> bool) \<Rightarrow> ('o \<times> 'w, 'a) io \<Rightarrow> bool" where
  "keeps J m \<longleftrightarrow> (\<forall>ob w. J ob \<longrightarrow> J (fst (snd (m (ob, w)))))"

named_theorems keeps_rules

lemma keepsD: "keeps J m \<Longrightarrow> J ob \<Longrightarrow> m (ob, w) = (r, (ob', w')) \<Longrightarrow> J ob'"
  unfolding keeps_def by (metis fst_conv snd_conv)

lemma keeps_basic [keeps_rules]:
  "keeps J (retE x)" "keeps J (failE e)" "keeps J getE" "keeps J (sndE n)"
  by (simp_all add: keeps_def retE_def failE_def getE_def sndE_apply)

lemma keeps_modifyE [keeps_rules]: "(\<And>ob. J ob \<Longrightarrow> J (f ob)) \<Longrightarrow> keeps J (modifyE f)"
  by (simp add: keeps_def modifyE_def)

lemma keeps_bindE [keeps_rules]:
  assumes "keeps J m" and "\<And>x. keeps J (k x)"
  shows "keeps J (bindE m k)"
  unfolding keeps_def
proof (intro allI impI)
  fix ob w
  assume J: "J ob"
  obtain r ob1 w1 where m: "m (ob, w) = (r, (ob1, w1))" by (metis prod_cases3)
  then show "J (fst (snd (bindE m k (ob, w))))"
    using keepsD [OF assms(1) J m] assms(2) [unfolded keeps_def] by (cases r) (simp_all add: bindE_def)
qed

lemma keeps_catchE [keeps_rules]:
  assumes "keeps J m" and "\<And>e. keeps J (h e)"
  shows "keeps J (catchE m h)"
  unfolding keeps_def
proof (intro allI impI)
  fix ob w
  assume J: "J ob"
  obtain r ob1 w1 where m: "m (ob, w) = (r, (ob1, w1))" by (metis prod_cases3)
  then show "J (fst (snd (catchE m h (ob, w))))"
    using keepsD [OF assms(1) J m] assms(2) [unfolded keeps_def] by (cases r) (simp_all add: catchE_def)
qed

lemma keeps_wrapE [keeps_rules]: "keeps J m \<Longrightarrow> keeps J (wrapE f m)"
  unfolding wrapE_def by (intro keeps_catchE keeps_basic)

lemma keeps_finallyE [keeps_rules]: "keeps J m \<Longrightarrow> keeps J c \<Longrightarrow> keeps J (finallyE m c)"
  unfolding keeps_def by (metis snd_finallyE prod.collapse)

lemma keeps_if [keeps_rules]: "keeps J m \<Longrightarrow> keeps J n \<Longrightarrow> keeps J (if b then m else n)"
  by simp

lemma keeps_option [keeps_rules]:
  "keeps J n \<Longrightarrow> (\<And>x. keeps J (m x)) \<Longrightarrow> keeps J (case z of None \<Rightarrow> n | Some x \<Rightarrow> m x)"
  by (cases z) auto

lemma keeps_tryE [keeps_rules]: "keeps J m \<Longrightarrow> keeps J (tryE m)"
  unfolding tryE_def by (intro keeps_rules)

lemma keeps_liftE [keeps_rules]: "keeps J (liftE r)"
  by (simp add: keeps_def liftE_def)

lemma keeps_storeE [keeps_rules]:
  "(\<And>ob w ob' w'. J ob \<Longrightarrow> write ob w = (Inr ob', w') \<Longrightarrow> J ob') \<Longrightarrow> keeps J (storeE write)"
  by (simp add: keeps_def storeE_def split: prod.splits sum.splits)

lemma keeps_sum [keeps_rules]:
  "(\<And>x. keeps J (m x)) \<Longrightarrow> (\<And>x. keeps J (n x)) \<Longrightarrow> keeps J (case z of Inl x \<Rightarrow> m x | Inr x \<Rightarrow> n x)"
  by (cases z) auto

lemma keeps_prod [keeps_rules]:
  "(\<And>x y. keeps J (m x y)) \<Longrightarrow> keeps J (case z of (x, y) \<Rightarrow> m x y)"
  by (cases z) auto

lemma keeps_updateOrRequeue:
  assumes "\<And>ob w ob' w'. kc_Update c ob w = (Inr ob', w') \<Longrightarrow> J ob \<Longrightarrow> J ob'"
  shows "keeps J (updateOrRequeue c)"
  unfolding updateOrRequeue_def using assms by (intro keeps_rules) blast+

lemma tryE_bind:
  "m w = (Inr x, w1) \<Longrightarrow> bindE (tryE m) f w = f (Inr x) w1"
  "m w = (Inl e, w1) \<Longrightarrow> bindE (tryE m) f w = (if is_panic e then (Inl e, w1) else f (Inl e) w1)"
  by (simp_all add: bindE_def tryE_def catchE_def retE_def)

end
