(* ===== verification/SystemConfig.thy ===== *)
theory SystemConfig
  imports Client
begin

text \<open>
  \<^verbatim>\<open>internal/controller/nnf_systemconfiguration_controller.go\<close> and \<^verbatim>\<open>taints.go\<close>: the controller
  that makes a namespace for every compute node and puts labels and taints on the Rabbit nodes, in
  three passes. Maps are traversed in an order that is a parameter of the model.
\<close>

section \<open>Nodes and taints\<close>

record Taint =
  tnt_Key :: string
  tnt_Value :: string
  tnt_Effect :: string
  tnt_TimeAdded :: "int option"

record NodeCondition =
  ncd_Type :: string
  ncd_Status :: string

record Node =
  nd_Meta :: ObjectMeta
  nd_Taints :: "Taint list"
  nd_Conditions :: "NodeCondition list"

abbreviation TaintEffectNoSchedule :: string where
  "TaintEffectNoSchedule \<equiv> ''NoSchedule''"

abbreviation TaintEffectNoExecute :: string where
  "TaintEffectNoExecute \<equiv> ''NoExecute''"

definition MatchTaint :: "Taint \<Rightarrow> Taint \<Rightarrow> bool" where
  "MatchTaint t u = (tnt_Key t = tnt_Key u \<and> tnt_Effect t = tnt_Effect u)"

definition taintExists :: "Taint list \<Rightarrow> Taint \<Rightarrow> bool" where
  "taintExists taints taintToFind = list_ex (\<lambda>t. MatchTaint t taintToFind) taints"

definition deleteTaint :: "Taint list \<Rightarrow> Taint \<Rightarrow> Taint list \<times> bool" where
  "deleteTaint taints taintToDelete =
     (filter (\<lambda>t. \<not> MatchTaint taintToDelete t) taints, list_ex (MatchTaint taintToDelete) taints)"

definition removeTaint :: "Node \<Rightarrow> Taint \<Rightarrow> Node \<times> bool" where
  "removeTaint node taint =
     (if nd_Taints node = [] then (node, False)
      else if \<not> taintExists (nd_Taints node) taint then (node, False)
      else (node\<lparr>nd_Taints := fst (deleteTaint (nd_Taints node) taint)\<rparr>, True))"

text \<open>
  The loop over the taints of the node: it stops without a change at a taint that is equal to the
  new one. \<open>updated\<close> tells that an older taint was replaced.
\<close>

fun replaceTaints :: "Taint \<Rightarrow> Taint list \<Rightarrow> Taint list \<Rightarrow> bool \<Rightarrow> Taint list option" where
  "replaceTaints taint newTaints [] updated =
     Some (if updated then newTaints else newTaints @ [taint])"
| "replaceTaints taint newTaints (t # ts) updated =
     (if MatchTaint taint t
      then if taint = t then None else replaceTaints taint (newTaints @ [taint]) ts True
      else replaceTaints taint (newTaints @ [t]) ts updated)"

definition addOrUpdateTaint :: "Node \<Rightarrow> Taint \<Rightarrow> Node \<times> bool" where
  "addOrUpdateTaint node taint =
     (case replaceTaints taint [] (nd_Taints node) False of
        None \<Rightarrow> (node, False)
      | Some ts \<Rightarrow> (node\<lparr>nd_Taints := ts\<rparr>, True))"

section \<open>The system configuration\<close>

record SystemConfigurationComputeNodeReference =
  scr_Name :: string
  scr_Index :: int

record SystemConfigurationStorageNode =
  scs_Type :: string
  scs_Name :: string
  scs_ComputesAccess :: "SystemConfigurationComputeNodeReference list"

record SystemConfigurationStatus =
  sct_Ready :: bool
  sct_Error :: "ResourceErrorInfo option"

record SystemConfiguration =
  sc_Meta :: ObjectMeta
  sc_ExternalComputeNodes :: "string list"
  sc_StorageNodes :: "SystemConfigurationStorageNode list"
  sc_Status :: SystemConfigurationStatus

definition Computes :: "SystemConfiguration \<Rightarrow> string list" where
  "Computes s = concat (map (\<lambda>n. map scr_Name (scs_ComputesAccess n)) (sc_StorageNodes s))"

definition ComputesExternal :: "SystemConfiguration \<Rightarrow> string list" where
  "ComputesExternal s = sc_ExternalComputeNodes s"

text \<open>
  The client of the controller, for the configuration, the nodes and the namespaces, and the order
  in which a map is traversed.
\<close>

record 'w sysKube =
  sk_Config :: "(SystemConfiguration, 'w) kclient"
  sk_Node :: "(Node, 'w) kclient"
  sk_Namespace :: "(ObjectMeta, 'w) kclient"
  sk_order :: "'w \<Rightarrow> string list \<Rightarrow> string list"

section \<open>Namespaces\<close>

fun createEach :: "'w sysKube \<Rightarrow> SystemConfiguration \<Rightarrow> string list \<Rightarrow> ('w, unit) io" where
  "createEach k config [] = retE ()"
| "createEach k config (name # names) =
     bindE (CreateOrUpdate (sk_Namespace k) (\<lambda>m. m) (zeroMeta\<lparr>meta_Name := name\<rparr>)
              (\<lambda>m. retE (AddOwnerLabels ''SystemConfiguration'' (sc_Meta config) m)))
       (\<lambda>_. createEach k config names)"

text \<open>The keys of the map: each name once.\<close>

definition createNamespaces :: "'w sysKube \<Rightarrow> SystemConfiguration \<Rightarrow> string list \<Rightarrow> ('w, unit) io" where
  "createNamespaces k config validNamespaces =
     (\<lambda>w. createEach k config (sk_order k w (remdups validNamespaces)) w)"

section \<open>Labels and taints\<close>

abbreviation RabbitNodeTaintKey :: string where
  "RabbitNodeTaintKey \<equiv> ''cray.nnf.node''"

abbreviation RabbitNodeSelectorLabel :: string where
  "RabbitNodeSelectorLabel \<equiv> ''cray.nnf.node''"

abbreviation TaintsAndLabelsCompletedLabel :: string where
  "TaintsAndLabelsCompletedLabel \<equiv> ''nnf.cray.hpe.com/taints_and_labels_completed''"

abbreviation clearNoExecute :: string where
  "clearNoExecute \<equiv> ''clear-no-execute''"

definition rabbitTaint :: "string \<Rightarrow> Taint" where
  "rabbitTaint effect =
     \<lparr>tnt_Key = RabbitNodeTaintKey, tnt_Value = ''true'', tnt_Effect = effect, tnt_TimeAdded = None\<rparr>"

definition kv_delete :: "string \<Rightarrow> kv \<Rightarrow> kv" where
  "kv_delete key m = filter (\<lambda>(k, v). k \<noteq> key) m"

definition setLabels :: "kv \<Rightarrow> Node \<Rightarrow> Node" where
  "setLabels labels node = node\<lparr>nd_Meta := (nd_Meta node)\<lparr>meta_Labels := labels\<rparr>\<rparr>"

definition hasLabel :: "string \<Rightarrow> kv \<Rightarrow> bool" where
  "hasLabel key labels = (map_of labels key \<noteq> None)"

text \<open>
  What a pass does with a node: \<open>None\<close> when the node is left alone, else the node to write and
  whether it is to be written.
\<close>

definition staleLabelOf :: "Node \<Rightarrow> bool" where
  "staleLabelOf node =
     (\<not> taintExists (nd_Taints node) (rabbitTaint TaintEffectNoSchedule) \<or>
      taintExists (nd_Taints node) (rabbitTaint TaintEffectNoExecute))"

definition taintNode :: "string \<Rightarrow> kv \<Rightarrow> Node \<Rightarrow> bool \<Rightarrow> Node \<times> bool" where
  "taintNode effect labels node staleLabel =
     (let (node1, labels1, doUpdate1) =
        (if effect = clearNoExecute
         then let labels' = kv_put TaintsAndLabelsCompletedLabel ''true'' labels in
              (setLabels labels' (fst (removeTaint node (rabbitTaint TaintEffectNoExecute))), labels', True)
         else let (node', doUpdate) = addOrUpdateTaint node (rabbitTaint effect) in (node', labels, doUpdate));
      (node2, doUpdate2) =
        (if \<not> hasLabel RabbitNodeSelectorLabel labels1
         then (setLabels (kv_put RabbitNodeSelectorLabel ''true'' labels1) node1, True)
         else (node1, doUpdate1))
      in (node2, doUpdate2 \<or> staleLabel))"

definition passNode :: "string \<Rightarrow> Node \<Rightarrow> (Node \<times> bool) option" where
  "passNode effect node =
     (let labels = meta_Labels (nd_Meta node) in
      if hasLabel TaintsAndLabelsCompletedLabel labels then
        (if effect = TaintEffectNoSchedule
         then if \<not> staleLabelOf node then None
              else let labels' = kv_delete TaintsAndLabelsCompletedLabel labels
                   in Some (taintNode effect labels' (setLabels labels' node) True)
         else None)
      else Some (taintNode effect labels node False))"

text \<open>One pass over the nodes; a node that cannot be read is skipped. The value is \<^verbatim>\<open>updatedNode\<close>.\<close>

fun passNodes :: "'w sysKube \<Rightarrow> string \<Rightarrow> string list \<Rightarrow> bool \<Rightarrow> ('w, bool) io" where
  "passNodes k effect [] updatedNode = retE updatedNode"
| "passNodes k effect (name # names) updatedNode =
     bindE (tryE (kc_Get (sk_Node k) [] name)) (\<lambda>got.
       case got of
         Inl _ \<Rightarrow> passNodes k effect names updatedNode
       | Inr node \<Rightarrow>
           (case passNode effect node of
              None \<Rightarrow> passNodes k effect names updatedNode
            | Some (node', doUpdate) \<Rightarrow>
                if doUpdate
                then bindE (kc_Update (sk_Node k) node') (\<lambda>_. passNodes k effect names True)
                else passNodes k effect names updatedNode))"

fun passes :: "'w sysKube \<Rightarrow> string list \<Rightarrow> string list \<Rightarrow> bool \<Rightarrow> ('w, unit) io" where
  "passes k [] validRabbits updatedNode = retE ()"
| "passes k (effect # effects) validRabbits updatedNode =
     (if updatedNode then retE ()
      else (\<lambda>w. bindE (passNodes k effect (sk_order k w validRabbits) updatedNode)
                  (\<lambda>updated. passes k effects validRabbits updated) w))"

definition taintEffectPerPass :: "string list" where
  "taintEffectPerPass = [TaintEffectNoSchedule, TaintEffectNoExecute, clearNoExecute]"

definition labelsAndTaints :: "'w sysKube \<Rightarrow> string list \<Rightarrow> ('w, bool) io" where
  "labelsAndTaints k validRabbits =
     bindE (passes k taintEffectPerPass (remdups validRabbits) False) (\<lambda>_. retE True)"

section \<open>Reconcile\<close>

abbreviation finalizerNnfSystemConfiguration :: string where
  "finalizerNnfSystemConfiguration \<equiv> ''nnf.cray.hpe.com/nnf_systemconfiguration''"

definition setConfigFinalizers :: "(string list \<Rightarrow> string list) \<Rightarrow> SystemConfiguration \<Rightarrow> SystemConfiguration" where
  "setConfigFinalizers f s = s\<lparr>sc_Meta := (sc_Meta s)\<lparr>meta_Finalizers := f (meta_Finalizers (sc_Meta s))\<rparr>\<rparr>"

definition setConfigReady :: "bool \<Rightarrow> SystemConfiguration \<Rightarrow> SystemConfiguration" where
  "setConfigReady b s = s\<lparr>sc_Status := (sc_Status s)\<lparr>sct_Ready := b\<rparr>\<rparr>"

definition systemConfigBody :: "'w sysKube \<Rightarrow> (SystemConfiguration \<times> 'w, Result) io" where
  "systemConfigBody k = bindE getE (\<lambda>s.
     if meta_Deleting (sc_Meta s) then
       (if \<not> ContainsFinalizer finalizerNnfSystemConfiguration (meta_Finalizers (sc_Meta s)) then retE doneResult
        else bindE (modifyE (setConfigFinalizers (RemoveFinalizer finalizerNnfSystemConfiguration))) (\<lambda>_.
               updateOrRequeue (sk_Config k)))
     else if \<not> ContainsFinalizer finalizerNnfSystemConfiguration (meta_Finalizers (sc_Meta s)) then
       bindE (modifyE (setConfigFinalizers (AddFinalizer finalizerNnfSystemConfiguration))) (\<lambda>_.
         updateOrRequeue (sk_Config k))
     else
       bindE (sndE (createNamespaces k s (Computes s @ ComputesExternal s))) (\<lambda>_.
       bindE (sndE (labelsAndTaints k (map scs_Name (sc_StorageNodes s)))) (\<lambda>requeue.
         if requeue then retE \<lparr>Requeue = requeue, RequeueAfter = 0\<rparr>
         else bindE (modifyE (setConfigReady True)) (\<lambda>_. retE doneResult))))"

text \<open>This controller records no error in the status.\<close>

definition SystemConfiguration_Reconcile ::
  "'w sysKube \<Rightarrow> string \<Rightarrow> string \<Rightarrow> 'w \<Rightarrow> SystemConfiguration option outcome \<times> 'w" where
  "SystemConfiguration_Reconcile k namespace name =
     reconcileObject (sk_Config k) sc_Status (\<lambda>_ s. s) namespace name (systemConfigBody k)"

section \<open>The stages of a node\<close>

text \<open>
  A node is done when the label says so and its taints agree. On the way it has the label and the
  taint \<^verbatim>\<open>NoSchedule\<close>, then also \<^verbatim>\<open>NoExecute\<close>.
\<close>

abbreviation labelsOf :: "Node \<Rightarrow> kv" where
  "labelsOf node \<equiv> meta_Labels (nd_Meta node)"

definition nodeDone :: "Node \<Rightarrow> bool" where
  "nodeDone node \<longleftrightarrow> hasLabel TaintsAndLabelsCompletedLabel (labelsOf node) \<and> \<not> staleLabelOf node"

definition nodeClosed :: "Node \<Rightarrow> bool" where
  "nodeClosed node \<longleftrightarrow> \<not> hasLabel TaintsAndLabelsCompletedLabel (labelsOf node) \<and>
     hasLabel RabbitNodeSelectorLabel (labelsOf node) \<and> rabbitTaint TaintEffectNoSchedule \<in> set (nd_Taints node)"

definition nodeCleared :: "Node \<Rightarrow> bool" where
  "nodeCleared node \<longleftrightarrow> nodeClosed node \<and> rabbitTaint TaintEffectNoExecute \<in> set (nd_Taints node)"

lemma MatchTaint_self [simp]: "MatchTaint t t"
  by (simp add: MatchTaint_def)

lemma replaceTaints_None: "replaceTaints t acc ts u = None \<longleftrightarrow> t \<in> set ts"
  by (induction t acc ts u rule: replaceTaints.induct) auto

lemma replaceTaints_Some:
  "replaceTaints t acc ts u = Some r \<Longrightarrow> (u \<Longrightarrow> t \<in> set acc) \<Longrightarrow>
     t \<in> set r \<and> (\<forall>x. \<not> MatchTaint t x \<longrightarrow> (x \<in> set r \<longleftrightarrow> x \<in> set acc \<or> x \<in> set ts))"
  by (induction t acc ts u rule: replaceTaints.induct) (auto split: if_splits)

lemma addOrUpdateTaintD:
  assumes "addOrUpdateTaint node t = (node', u)"
  shows "t \<in> set (nd_Taints node') \<and> nd_Meta node' = nd_Meta node \<and> (\<not> u \<longrightarrow> node' = node) \<and>
    (\<forall>x. \<not> MatchTaint t x \<longrightarrow> (x \<in> set (nd_Taints node') \<longleftrightarrow> x \<in> set (nd_Taints node)))"
proof (cases "replaceTaints t [] (nd_Taints node) False")
  case None
  with assms replaceTaints_None [of t "[]" "nd_Taints node" False] show ?thesis
    by (simp add: addOrUpdateTaint_def)
next
  case (Some ts)
  with assms replaceTaints_Some [OF Some] show ?thesis by (auto simp: addOrUpdateTaint_def)
qed

lemma map_of_kv_delete: "map_of (kv_delete k m) = (map_of m)(k := None)"
  unfolding kv_delete_def by (induction m) (auto simp: fun_eq_iff)

lemma label_simps [simp]:
  "hasLabel k (kv_delete k' m) \<longleftrightarrow> k \<noteq> k' \<and> hasLabel k m"
  "hasLabel k (kv_put k' v m) \<longleftrightarrow> k = k' \<or> hasLabel k m"
  "labelsOf (setLabels l node) = l" "nd_Taints (setLabels l node) = nd_Taints node"
  "meta_Name (nd_Meta (setLabels l node)) = meta_Name (nd_Meta node)"
  by (auto simp: hasLabel_def setLabels_def map_of_kv_put map_of_kv_delete)

lemma rabbit_effects [simp]:
  "MatchTaint (rabbitTaint e) (rabbitTaint f) \<longleftrightarrow> e = f"
  by (simp add: MatchTaint_def rabbitTaint_def)

lemma passNode_NoSchedule:
  "passNode TaintEffectNoSchedule node = None \<longleftrightarrow> nodeDone node"
  "passNode TaintEffectNoSchedule node = Some (node', False) \<Longrightarrow> node' = node \<and> nodeClosed node"
  "passNode TaintEffectNoSchedule node = Some (node', True) \<Longrightarrow> nodeClosed node'"
  by (auto simp: passNode_def nodeDone_def nodeClosed_def taintNode_def Let_def
      split: if_splits prod.splits dest!: addOrUpdateTaintD)

lemma passNode_NoExecute:
  "nodeDone node \<Longrightarrow> passNode TaintEffectNoExecute node = None"
  "nodeClosed node \<Longrightarrow> passNode TaintEffectNoExecute node \<noteq> None"
  "nodeClosed node \<Longrightarrow> passNode TaintEffectNoExecute node = Some (node', False) \<Longrightarrow> node' = node \<and> nodeCleared node"
  "nodeClosed node \<Longrightarrow> passNode TaintEffectNoExecute node = Some (node', True) \<Longrightarrow> nodeCleared node'"
  by (auto simp: passNode_def nodeDone_def nodeClosed_def nodeCleared_def taintNode_def Let_def
      split: if_splits prod.splits dest!: addOrUpdateTaintD)

lemma taintExists_iff: "taintExists ts t \<longleftrightarrow> (\<exists>x \<in> set ts. MatchTaint t x)"
  by (auto simp: taintExists_def list_ex_iff MatchTaint_def; metis)

lemma removeTaint_taints:
  "set (nd_Taints (fst (removeTaint node t))) = {x \<in> set (nd_Taints node). \<not> MatchTaint t x}"
  by (auto simp: removeTaint_def deleteTaint_def taintExists_iff)

lemma passNode_clear:
  "nodeDone node \<Longrightarrow> passNode clearNoExecute node = None"
  "nodeClosed node \<Longrightarrow> \<exists>node'. passNode clearNoExecute node = Some (node', True) \<and> nodeDone node'"
  by (auto simp: passNode_def nodeDone_def nodeClosed_def taintNode_def Let_def staleLabelOf_def
      taintExists_iff removeTaint_taints)

lemma passNode_name:
  "passNode e node = Some (node', u) \<Longrightarrow> meta_Name (nd_Meta node') = meta_Name (nd_Meta node)"
  by (auto simp: passNode_def taintNode_def Let_def removeTaint_def split: if_splits prod.splits
      dest!: addOrUpdateTaintD)

section \<open>The nodes in the API server\<close>

text \<open>
  What the controller relies on: a read gives the node that is stored under the name, if there is
  one, and changes no node; an update stores the node or fails without a change; nodes are stored
  under their names; a traversal visits every key once.
\<close>

definition nodeStore :: "'w sysKube \<Rightarrow> ('w \<Rightarrow> string \<rightharpoonup> Node) \<Rightarrow> bool" where
  "nodeStore k nodes \<longleftrightarrow>
     (\<forall>w n. \<exists>w'. nodes w' = nodes w \<and> (case nodes w n of
        Some nd \<Rightarrow> meta_Name (nd_Meta nd) = n \<and> kc_Get (sk_Node k) [] n w = (Inr nd, w')
      | None \<Rightarrow> (\<exists>e. \<not> is_panic e \<and> kc_Get (sk_Node k) [] n w = (Inl e, w')))) \<and>
     (\<forall>w nd. (\<exists>nd' w'. kc_Update (sk_Node k) nd w = (Inr nd', w') \<and> nodes w' = (nodes w)(meta_Name (nd_Meta nd) \<mapsto> nd)) \<or>
             (\<exists>e w'. kc_Update (sk_Node k) nd w = (Inl e, w') \<and> nodes w' = nodes w)) \<and>
     (\<forall>w names. distinct names \<longrightarrow> distinct (sk_order k w names) \<and> set (sk_order k w names) = set names)"

definition updatesSucceed :: "'w sysKube \<Rightarrow> bool" where
  "updatesSucceed k \<longleftrightarrow> (\<forall>w nd e. fst (kc_Update (sk_Node k) nd w) \<noteq> Inl e)"

text \<open>The effect of a pass on one stored node, and whether it writes the node.\<close>

definition passEffect :: "string \<Rightarrow> Node option \<Rightarrow> Node option" where
  "passEffect e x = (case x of None \<Rightarrow> None | Some nd \<Rightarrow>
     (case passNode e nd of Some (nd', True) \<Rightarrow> Some nd' | _ \<Rightarrow> Some nd))"

definition passWrites :: "string \<Rightarrow> Node option \<Rightarrow> bool" where
  "passWrites e x = (\<exists>nd nd'. x = Some nd \<and> passNode e nd = Some (nd', True))"

lemma passEffect_idle: "\<not> passWrites e x \<Longrightarrow> passEffect e x = x"
  by (auto simp: passEffect_def passWrites_def split: option.splits prod.splits bool.splits)

lemma nodeStore_get:
  assumes "nodeStore k nodes"
  obtains w1 e where "nodes w n = None" "nodes w1 = nodes w" "tryE (kc_Get (sk_Node k) [] n) w = (Inr (Inl e), w1)"
  | w1 nd where "nodes w n = Some nd" "meta_Name (nd_Meta nd) = n" "nodes w1 = nodes w"
    "tryE (kc_Get (sk_Node k) [] n) w = (Inr (Inr nd), w1)"
proof -
  from assms obtain w1 where w1: "nodes w1 = nodes w" "case nodes w n of
        Some nd \<Rightarrow> meta_Name (nd_Meta nd) = n \<and> kc_Get (sk_Node k) [] n w = (Inr nd, w1)
      | None \<Rightarrow> (\<exists>e. \<not> is_panic e \<and> kc_Get (sk_Node k) [] n w = (Inl e, w1))"
    unfolding nodeStore_def by blast
  show ?thesis
  proof (cases "nodes w n")
    case None
    with w1 obtain e where "\<not> is_panic e" "kc_Get (sk_Node k) [] n w = (Inl e, w1)" by auto
    then have "tryE (kc_Get (sk_Node k) [] n) w = (Inr (Inl e), w1)"
      by (simp add: tryE_def catchE_def bindE_def retE_def)
    with None w1(1) that(1) show ?thesis by blast
  next
    case (Some nd)
    with w1 have g: "meta_Name (nd_Meta nd) = n" "kc_Get (sk_Node k) [] n w = (Inr nd, w1)" by auto
    then have "tryE (kc_Get (sk_Node k) [] n) w = (Inr (Inr nd), w1)"
      by (simp add: tryE_def catchE_def bindE_def retE_def)
    with Some g(1) w1(1) that(2) show ?thesis by blast
  qed
qed

lemma nodeStore_update:
  assumes "nodeStore k nodes"
  obtains nd' w' where "kc_Update (sk_Node k) nd w = (Inr nd', w')" "nodes w' = (nodes w)(meta_Name (nd_Meta nd) \<mapsto> nd)"
  | e w' where "kc_Update (sk_Node k) nd w = (Inl e, w')" "nodes w' = nodes w"
  using assms unfolding nodeStore_def by blast

text \<open>What a pass does to the store, when it ends well and when an update fails.\<close>

definition passDone :: "'w sysKube \<Rightarrow> ('w \<Rightarrow> string \<rightharpoonup> Node) \<Rightarrow> string \<Rightarrow> string list \<Rightarrow> bool \<Rightarrow> 'w \<Rightarrow> bool res \<Rightarrow> 'w \<Rightarrow> bool" where
  "passDone k nodes e names u w r w' \<longleftrightarrow>
     (case r of
        Inr u' \<Rightarrow> (u' \<longleftrightarrow> u \<or> (\<exists>n \<in> set names. passWrites e (nodes w n))) \<and>
          (\<forall>n. nodes w' n = (if n \<in> set names then passEffect e (nodes w n) else nodes w n))
      | Inl _ \<Rightarrow> \<not> updatesSucceed k \<and>
          (\<forall>n. nodes w' n = nodes w n \<or> n \<in> set names \<and> nodes w' n = passEffect e (nodes w n)))"

lemma passDone_skip:
  assumes "passDone k nodes e names u w1 r w'" and "nodes w1 = nodes w" and "\<not> passWrites e (nodes w n)"
  shows "passDone k nodes e (n # names) u w r w'"
  using assms passEffect_idle [OF assms(3)] by (cases r) (auto simp: passDone_def)

lemma passDone_write:
  assumes "passDone k nodes e names True w1 r w'" and "nodes w1 = (nodes w)(n \<mapsto> nd)"
    and "passEffect e (nodes w n) = Some nd" and "passWrites e (nodes w n)" and "n \<notin> set names"
  shows "passDone k nodes e (n # names) u w r w'"
  using assms by (cases r) (auto simp: passDone_def; metis)+

lemma passNodes_effect:
  assumes "nodeStore k nodes" and "distinct names" and "passNodes k e names u w = (r, w')"
  shows "passDone k nodes e names u w r w'"
  using assms(2,3)
proof (induction names arbitrary: u w)
  case Nil
  then show ?case by (auto simp: retE_apply passDone_def)
next
  case (Cons n names)
  from nodeStore_get [OF assms(1), of w n] show ?case
  proof cases
    case (1 w1 er)
    then have "passNodes k e names u w1 = (r, w')" using Cons.prems(2) by (simp add: bindE_Inr)
    with Cons.IH Cons.prems(1) 1 show ?thesis by (auto intro!: passDone_skip simp: passWrites_def)
  next
    case (2 w1 nd)
    show ?thesis
    proof (cases "passWrites e (nodes w n)")
      case False
      with 2 have "passNodes k e names u w1 = (r, w')"
        using Cons.prems(2) by (auto simp: bindE_Inr passWrites_def split: option.splits prod.splits if_splits)
      with Cons.IH Cons.prems(1) 2 False show ?thesis by (auto intro!: passDone_skip)
    next
      case True
      with 2 obtain nd' where nd': "passNode e nd = Some (nd', True)" by (auto simp: passWrites_def)
      then have name: "meta_Name (nd_Meta nd') = n" using passNode_name 2(2) by blast
      have eff: "passEffect e (nodes w n) = Some nd'" using 2(1) nd' by (simp add: passEffect_def)
      from nodeStore_update [OF assms(1), of nd' w1] show ?thesis
      proof cases
        case (1 x w2)
        then have "passNodes k e names True w2 = (r, w')" using Cons.prems(2) 2 nd' by (simp add: bindE_Inr)
        with Cons.IH Cons.prems(1) have "passDone k nodes e names True w2 r w'" by simp
        with 1 2 name eff True Cons.prems(1) show ?thesis by (intro passDone_write) auto
      next
        case u: (2 er w2)
        then have "r = Inl er" "w' = w2" using Cons.prems(2) 2 nd' by (auto simp: bindE_Inr bindE_Inl)
        moreover have "\<not> updatesSucceed k" using u unfolding updatesSucceed_def by (metis fst_conv)
        ultimately show ?thesis using u 2 by (simp add: passDone_def)
      qed
    qed
  qed
qed

lemma passDone_order:
  "set names = set names' \<Longrightarrow> passDone k nodes e names u w r w' = passDone k nodes e names' u w r w'"
  by (simp only: passDone_def)

text \<open>
  The passes run up to the first one that writes a node or fails; the passes before it change
  nothing.
\<close>

lemma passes_effect:
  assumes "nodeStore k nodes" and "distinct names" and "passes k es names False w = (r, w')"
  shows "(nodes w' = nodes w \<and> r = Inr () \<and> (\<forall>e \<in> set es. \<forall>n \<in> set names. \<not> passWrites e (nodes w n))) \<or>
    (\<exists>i w1 q. i < length es \<and> nodes w1 = nodes w \<and> (\<forall>j<i. \<forall>n \<in> set names. \<not> passWrites (es ! j) (nodes w n)) \<and>
       passDone k nodes (es ! i) names False w1 q w' \<and> (q = Inr True \<or> (\<exists>er. q = Inl er)))"
    (is "?idle es w \<or> ?stops es w")
  using assms(3)
proof (induction es arbitrary: w)
  case Nil
  then show ?case by (simp add: retE_apply)
next
  case (Cons e es)
  obtain q w1 where q: "passNodes k e (sk_order k w names) False w = (q, w1)" by fastforce
  have ord: "distinct (sk_order k w names)" "set (sk_order k w names) = set names"
    using assms(1,2) unfolding nodeStore_def by auto
  have pd: "passDone k nodes e names False w q w1"
    using passNodes_effect [OF assms(1) ord(1) q] by (simp only: passDone_order [OF ord(2)])
  show ?case
  proof (cases "q = Inr False")
    case True
    with pd have quiet: "\<forall>n \<in> set names. \<not> passWrites e (nodes w n)" and same: "nodes w1 = nodes w"
      by (auto simp: passDone_def fun_eq_iff passEffect_idle)
    have "passes k es names False w1 = (r, w')" using Cons.prems q True by (simp add: bindE_def)
    from Cons.IH [OF this] show ?thesis
    proof
      assume "?idle es w1"
      with quiet same show ?thesis by auto
    next
      assume "?stops es w1"
      then obtain i w2 q' where i: "i < length es" "nodes w2 = nodes w1"
          "\<forall>j<i. \<forall>n \<in> set names. \<not> passWrites (es ! j) (nodes w1 n)"
          "passDone k nodes (es ! i) names False w2 q' w'" "q' = Inr True \<or> (\<exists>er. q' = Inl er)"
        by blast
      have "\<forall>j<Suc i. \<forall>n \<in> set names. \<not> passWrites ((e # es) ! j) (nodes w n)"
        using quiet i(3) same by (metis less_Suc_eq_0_disj nth_Cons_0 nth_Cons_Suc)
      with i same show ?thesis by (intro disjI2 exI [of _ "Suc i"]) auto
    qed
  next
    case False
    then have "q = Inr True \<or> (\<exists>er. q = Inl er)" by (cases q) auto
    moreover from this have "w' = w1" using Cons.prems q by (cases es) (auto simp: bindE_def retE_apply)
    ultimately show ?thesis using pd by (intro disjI2 exI [of _ 0] exI [of _ w] exI [of _ q]) auto
  qed
qed

lemma labelsAndTaints_passes:
  "labelsAndTaints k rabbits w = (r, w') \<Longrightarrow> \<exists>q. passes k taintEffectPerPass (remdups rabbits) False w = (q, w')"
  by (auto simp: labelsAndTaints_def bindE_def retE_def split: prod.splits sum.splits)

lemma NoSchedule_keeps_NoExecute:
  assumes "passNode TaintEffectNoSchedule node = Some (node', u)"
  shows "taintExists (nd_Taints node') (rabbitTaint TaintEffectNoExecute) \<longleftrightarrow>
    taintExists (nd_Taints node) (rabbitTaint TaintEffectNoExecute)"
proof -
  have other: "\<not> MatchTaint (rabbitTaint TaintEffectNoSchedule) x" if "MatchTaint (rabbitTaint TaintEffectNoExecute) x" for x
  proof -
    from that have "tnt_Effect x = TaintEffectNoExecute" by (simp add: MatchTaint_def rabbitTaint_def)
    then show ?thesis by (simp add: MatchTaint_def rabbitTaint_def)
  qed
  have "x \<in> set (nd_Taints node') \<longleftrightarrow> x \<in> set (nd_Taints node)" if "\<not> MatchTaint (rabbitTaint TaintEffectNoSchedule) x" for x
    using assms that
    by (auto simp: passNode_def taintNode_def Let_def split: if_splits prod.splits dest!: addOrUpdateTaintD)
  with other show ?thesis unfolding taintExists_iff by blast
qed

lemma closed_or_done:
  "\<not> passWrites TaintEffectNoSchedule (Some nd) \<longleftrightarrow> nodeClosed nd \<or> nodeDone nd"
proof
  assume "\<not> passWrites TaintEffectNoSchedule (Some nd)"
  then show "nodeClosed nd \<or> nodeDone nd"
    using passNode_NoSchedule(1,2) [of nd] by (cases "passNode TaintEffectNoSchedule nd") (auto simp: passWrites_def)
next
  assume "nodeClosed nd \<or> nodeDone nd"
  then show "\<not> passWrites TaintEffectNoSchedule (Some nd)"
    using passNode_NoSchedule(1) [of nd]
    by (auto simp: passWrites_def passNode_def nodeClosed_def taintNode_def addOrUpdateTaint_def replaceTaints_None
        split: option.splits dest: replaceTaints_None [THEN iffD2, of _ _ "[]" False])
qed

text \<open>A property of all stored nodes of a list of names.\<close>

definition allNodes :: "(Node \<Rightarrow> bool) \<Rightarrow> (string \<rightharpoonup> Node) \<Rightarrow> string list \<Rightarrow> bool" where
  "allNodes P store names \<longleftrightarrow> (\<forall>n \<in> set names. \<forall>nd. store n = Some nd \<longrightarrow> P nd)"

lemma quiet_closed:
  "(\<forall>n \<in> set names. \<not> passWrites TaintEffectNoSchedule (store n)) \<longleftrightarrow>
     allNodes (\<lambda>nd. nodeClosed nd \<or> nodeDone nd) store names"
proof -
  have "(\<not> passWrites TaintEffectNoSchedule (store n)) \<longleftrightarrow> (\<forall>nd. store n = Some nd \<longrightarrow> nodeClosed nd \<or> nodeDone nd)" for n
    using closed_or_done by (cases "store n") (auto simp: passWrites_def)
  then show ?thesis by (simp add: allNodes_def)
qed

lemma cleared_or_done:
  assumes "nodeClosed nd \<or> nodeDone nd"
  shows "\<not> passWrites TaintEffectNoExecute (Some nd) \<longleftrightarrow> nodeCleared nd \<or> nodeDone nd"
proof (cases "nodeDone nd")
  case True
  then show ?thesis using passNode_NoExecute(1) by (simp add: passWrites_def)
next
  case False
  with assms have closed: "nodeClosed nd" by simp
  have "nodeCleared nd" if "\<not> passWrites TaintEffectNoExecute (Some nd)"
    using that passNode_NoExecute(2,3) [OF closed]
    by (cases "passNode TaintEffectNoExecute nd") (auto simp: passWrites_def)
  moreover have "\<not> passWrites TaintEffectNoExecute (Some nd)" if "nodeCleared nd"
    using that by (auto simp: passWrites_def passNode_def nodeCleared_def nodeClosed_def taintNode_def addOrUpdateTaint_def
        split: option.splits dest: replaceTaints_None [THEN iffD2, of _ _ "[]" False])
  ultimately show ?thesis using False by blast
qed

lemma quiet_cleared:
  assumes "allNodes (\<lambda>nd. nodeClosed nd \<or> nodeDone nd) store names"
  shows "(\<forall>n \<in> set names. \<not> passWrites TaintEffectNoExecute (store n)) \<longleftrightarrow>
     allNodes (\<lambda>nd. nodeCleared nd \<or> nodeDone nd) store names"
proof -
  have "(\<not> passWrites TaintEffectNoExecute (store n)) \<longleftrightarrow> (\<forall>nd. store n = Some nd \<longrightarrow> nodeCleared nd \<or> nodeDone nd)"
    if "n \<in> set names" for n
  proof (cases "store n")
    case None
    then show ?thesis by (simp add: passWrites_def)
  next
    case (Some nd)
    with assms that have "nodeClosed nd \<or> nodeDone nd" by (auto simp: allNodes_def)
    from cleared_or_done [OF this] Some show ?thesis by simp
  qed
  then show ?thesis by (simp add: allNodes_def)
qed

lemma quiet_done:
  assumes "allNodes (\<lambda>nd. nodeClosed nd \<or> nodeDone nd) store names"
    and "\<forall>n \<in> set names. \<not> passWrites clearNoExecute (store n)"
  shows "allNodes nodeDone store names"
  using assms passNode_clear(2) by (fastforce simp: allNodes_def passWrites_def)

text \<open>What a pass that ran to its end leaves.\<close>

lemma pass_closes:
  assumes "passDone k nodes TaintEffectNoSchedule names False w (Inr True) w'"
  shows "allNodes (\<lambda>nd. nodeClosed nd \<or> nodeDone nd) (nodes w') names"
proof -
  have "nodeClosed nd' \<or> nodeDone nd'" if "passEffect TaintEffectNoSchedule x = Some nd'" for x nd'
    using that passNode_NoSchedule closed_or_done
    by (auto simp: passEffect_def passWrites_def split: option.splits prod.splits bool.splits)
  with assms show ?thesis by (auto simp: allNodes_def passDone_def)
qed

lemma pass_clears:
  assumes "passDone k nodes TaintEffectNoExecute names False w (Inr True) w'"
    and "allNodes (\<lambda>nd. nodeClosed nd \<or> nodeDone nd) (nodes w) names"
  shows "allNodes (\<lambda>nd. nodeCleared nd \<or> nodeDone nd) (nodes w') names"
proof -
  have "nodeCleared nd' \<or> nodeDone nd'"
    if "passEffect TaintEffectNoExecute (Some nd) = Some nd'" "nodeClosed nd \<or> nodeDone nd" for nd nd'
    using that passNode_NoExecute [of nd]
    by (auto simp: passEffect_def split: option.splits prod.splits bool.splits)
  with assms show ?thesis by (fastforce simp: allNodes_def passDone_def passEffect_def split: option.splits)
qed

lemma pass_finishes:
  assumes "passDone k nodes clearNoExecute names False w (Inr True) w'"
    and "allNodes (\<lambda>nd. nodeClosed nd \<or> nodeDone nd) (nodes w) names"
  shows "allNodes nodeDone (nodes w') names"
proof -
  have "nodeDone nd'" if "passEffect clearNoExecute (Some nd) = Some nd'" "nodeClosed nd \<or> nodeDone nd" for nd nd'
    using that passNode_clear [of nd] by (auto simp: passEffect_def)
  with assms show ?thesis by (fastforce simp: allNodes_def passDone_def passEffect_def split: option.splits)
qed

lemma allNodes_mono: "allNodes P store names \<Longrightarrow> (\<And>nd. P nd \<Longrightarrow> Q nd) \<Longrightarrow> allNodes Q store names"
  by (auto simp: allNodes_def)

lemma nodeCleared_closed: "nodeCleared nd \<or> nodeDone nd \<Longrightarrow> nodeClosed nd \<or> nodeDone nd"
  by (auto simp: nodeCleared_def)

lemma passDone_writes:
  "passDone k nodes e names False w (Inr True) w' \<Longrightarrow> \<exists>n \<in> set names. passWrites e (nodes w n)"
  by (simp add: passDone_def)

text \<open>How a call ends when the updates succeed: idle, or with the first pass that writes.\<close>

lemma labelsAndTaints_cases:
  assumes store: "nodeStore k nodes" and upd: "updatesSucceed k" and call: "labelsAndTaints k names w = (r, w')"
  obtains (idle) "nodes w' = nodes w"
      "\<forall>e \<in> set taintEffectPerPass. \<forall>n \<in> set (remdups names). \<not> passWrites e (nodes w n)"
    | (stops) i w1 where "i < 3" "nodes w1 = nodes w"
      "\<forall>j<i. \<forall>n \<in> set (remdups names). \<not> passWrites (taintEffectPerPass ! j) (nodes w n)"
      "passDone k nodes (taintEffectPerPass ! i) (remdups names) False w1 (Inr True) w'"
proof -
  obtain q where q: "passes k taintEffectPerPass (remdups names) False w = (q, w')"
    using labelsAndTaints_passes [OF call] by blast
  have "\<not> passDone k nodes e ns u w1 (Inl er) w2" for e ns u w1 er w2
    using upd by (simp add: passDone_def)
  moreover have "length taintEffectPerPass = 3" by (simp add: taintEffectPerPass_def)
  ultimately show ?thesis
    using passes_effect [OF store distinct_remdups q] idle stops by metis
qed

text \<open>One call, with updates that succeed, moves the nodes at least one stage further.\<close>

lemma labelsAndTaints_stages:
  assumes store: "nodeStore k nodes" and upd: "updatesSucceed k" and call: "labelsAndTaints k names w = (r, w')"
  defines "ns \<equiv> remdups names"
  shows "allNodes (\<lambda>nd. nodeClosed nd \<or> nodeDone nd) (nodes w') ns"
    and "allNodes (\<lambda>nd. nodeClosed nd \<or> nodeDone nd) (nodes w) ns \<Longrightarrow>
      allNodes (\<lambda>nd. nodeCleared nd \<or> nodeDone nd) (nodes w') ns"
    and "allNodes (\<lambda>nd. nodeCleared nd \<or> nodeDone nd) (nodes w) ns \<Longrightarrow> allNodes nodeDone (nodes w') ns"
proof -
  let ?closed = "\<lambda>nd. nodeClosed nd \<or> nodeDone nd" and ?cleared = "\<lambda>nd. nodeCleared nd \<or> nodeDone nd"
  have mono: "allNodes ?cleared s ns \<Longrightarrow> allNodes ?closed s ns" "allNodes nodeDone s ns \<Longrightarrow> allNodes ?cleared s ns" for s
    using allNodes_mono nodeCleared_closed by (metis (no_types, lifting))+
  have result: "allNodes nodeDone (nodes w') ns \<or>
      allNodes ?cleared (nodes w') ns \<and> \<not> allNodes ?cleared (nodes w) ns \<or>
      allNodes ?closed (nodes w') ns \<and> \<not> allNodes ?closed (nodes w) ns"
  proof (rule labelsAndTaints_cases [OF store upd call, folded ns_def])
    assume same: "nodes w' = nodes w" and quiet: "\<forall>e \<in> set taintEffectPerPass. \<forall>n \<in> set ns. \<not> passWrites e (nodes w n)"
    then have "allNodes ?closed (nodes w) ns" by (simp add: quiet_closed [symmetric] taintEffectPerPass_def)
    with same quiet show ?thesis by (auto intro!: quiet_done simp: taintEffectPerPass_def)
  next
    fix i w1
    assume i: "i < (3::nat)" and w1: "nodes w1 = nodes w"
      and quiet: "\<forall>j<i. \<forall>n \<in> set ns. \<not> passWrites (taintEffectPerPass ! j) (nodes w n)"
      and pd: "passDone k nodes (taintEffectPerPass ! i) ns False w1 (Inr True) w'"
    note writes = passDone_writes [OF pd, unfolded w1]
    from i consider "i = 0" | "i = 1" | "i = 2" by linarith
    then show ?thesis
    proof cases
      case 1
      with pd pass_closes have "allNodes ?closed (nodes w') ns" by (simp add: taintEffectPerPass_def)
      moreover have "\<not> allNodes ?closed (nodes w) ns"
        using writes 1 by (simp add: quiet_closed [symmetric] taintEffectPerPass_def)
      ultimately show ?thesis by blast
    next
      case 2
      with quiet have closed: "allNodes ?closed (nodes w) ns"
        by (simp add: quiet_closed [symmetric] taintEffectPerPass_def)
      from pass_clears [of k nodes ns w1 w'] pd w1 2 closed have "allNodes ?cleared (nodes w') ns"
        by (simp add: taintEffectPerPass_def)
      moreover have "\<not> allNodes ?cleared (nodes w) ns"
        using writes 2 by (simp add: quiet_cleared [OF closed, symmetric] taintEffectPerPass_def)
      ultimately show ?thesis by blast
    next
      case 3
      with quiet have "\<forall>n \<in> set ns. \<not> passWrites (taintEffectPerPass ! 0) (nodes w n)" by auto
      then have "allNodes ?closed (nodes w) ns"
        by (simp add: quiet_closed [symmetric] taintEffectPerPass_def)
      with pass_finishes [of k nodes ns w1 w'] pd w1 3 show ?thesis by (simp add: taintEffectPerPass_def numeral_2_eq_2)
    qed
  qed
  from result mono show "allNodes ?closed (nodes w') ns" by blast
  from result mono show "allNodes ?cleared (nodes w') ns" if "allNodes ?closed (nodes w) ns" using that by blast
  from result mono show "allNodes nodeDone (nodes w') ns" if "allNodes ?cleared (nodes w) ns" using that by blast
qed

section \<open>Properties\<close>


text \<open>A store for examples: nodes by name, every update succeeds.\<close>

definition exNodes :: "(string \<rightharpoonup> Node) \<Rightarrow> string \<rightharpoonup> Node" where
  "exNodes w n = (case w n of Some nd \<Rightarrow> if meta_Name (nd_Meta nd) = n then Some nd else None | None \<Rightarrow> None)"

definition echoClient :: "('o, 'w) kclient" where
  "echoClient = \<lparr>kc_Get = (\<lambda>ns n w. (Inl (ApiErr ReasonNotFound ''not found''), w)),
     kc_Create = (\<lambda>ob w. (Inr ob, w)), kc_Update = (\<lambda>ob w. (Inr ob, w)), kc_UpdateStatus = (\<lambda>ob w. (Inr ob, w))\<rparr>"

definition exKube :: "(string \<rightharpoonup> Node) sysKube" where
  "exKube = \<lparr>sk_Config = echoClient,
     sk_Node = echoClient\<lparr>
       kc_Get := (\<lambda>ns n w. (case exNodes w n of Some nd \<Rightarrow> Inr nd | None \<Rightarrow> Inl (ApiErr ReasonNotFound ''not found''), w)),
       kc_Update := (\<lambda>nd w. (Inr nd, w(meta_Name (nd_Meta nd) \<mapsto> nd)))\<rparr>,
     sk_Namespace = echoClient, sk_order = (\<lambda>w names. names)\<rparr>"

definition exRabbit :: "kv \<Rightarrow> Taint list \<Rightarrow> Node" where
  "exRabbit labels taints = \<lparr>nd_Meta = zeroMeta\<lparr>meta_Name := ''rabbit-1'', meta_Labels := labels\<rparr>, nd_Taints = taints, nd_Conditions = []\<rparr>"

lemma exNodes_update: "exNodes (w(meta_Name (nd_Meta nd) \<mapsto> nd)) = (exNodes w)(meta_Name (nd_Meta nd) \<mapsto> nd)"
  by (rule ext) (simp add: exNodes_def)

lemma exNodes_name: "exNodes w n = Some nd \<Longrightarrow> meta_Name (nd_Meta nd) = n"
  by (simp add: exNodes_def split: option.splits if_splits)

lemma exKube_store: "nodeStore exKube exNodes" "updatesSucceed exKube"
proof -
  have get: "kc_Get (sk_Node exKube) [] n w =
      (case exNodes w n of Some nd \<Rightarrow> Inr nd | None \<Rightarrow> Inl (ApiErr ReasonNotFound ''not found''), w)" for n w
    by (simp add: exKube_def)
  have upd: "kc_Update (sk_Node exKube) nd w = (Inr nd, w(meta_Name (nd_Meta nd) \<mapsto> nd))" for nd w
    by (simp add: exKube_def)
  show "updatesSucceed exKube" by (simp add: updatesSucceed_def upd)
  have "\<exists>w'. exNodes w' = exNodes w \<and> (case exNodes w n of
      Some nd \<Rightarrow> meta_Name (nd_Meta nd) = n \<and> kc_Get (sk_Node exKube) [] n w = (Inr nd, w')
    | None \<Rightarrow> (\<exists>e. \<not> is_panic e \<and> kc_Get (sk_Node exKube) [] n w = (Inl e, w')))" for w n
    by (intro exI [of _ w]) (auto simp: get is_panic_def dest: exNodes_name split: option.splits)
  then show "nodeStore exKube exNodes"
    unfolding nodeStore_def upd by (auto simp: exNodes_update) (simp_all add: exKube_def)
qed

lemmas exKube_run = labelsAndTaints_def taintEffectPerPass_def exKube_def echoClient_def exNodes_def exRabbit_def bindE_def
  tryE_def catchE_def retE_def passNode_def taintNode_def addOrUpdateTaint_def MatchTaint_def rabbitTaint_def
  hasLabel_def Let_def zeroMeta_def setLabels_def kv_put_def removeTaint_def deleteTaint_def taintExists_def


text \<open>
  C34. The taints settle. If updates succeed, three calls of \<^verbatim>\<open>labelsAndTaints\<close> bring every Rabbit of the
  configuration, from whatever labels and taints it has, to the state that is meant: the label that
  the work is complete, a taint \<^verbatim>\<open>NoSchedule\<close> and no taint \<^verbatim>\<open>NoExecute\<close>.
\<close>

theorem taints_settle:
  assumes store: "nodeStore k nodes" and upd: "updatesSucceed k"
    and calls: "labelsAndTaints k rabbits w0 = (r1, w1)" "labelsAndTaints k rabbits w1 = (r2, w2)"
      "labelsAndTaints k rabbits w2 = (r3, w3)"
    and "x \<in> set rabbits" and "nodes w3 x = Some nd"
  shows "hasLabel TaintsAndLabelsCompletedLabel (meta_Labels (nd_Meta nd)) \<and>
    taintExists (nd_Taints nd) (rabbitTaint TaintEffectNoSchedule) \<and>
    \<not> taintExists (nd_Taints nd) (rabbitTaint TaintEffectNoExecute)"
proof -
  note stages = labelsAndTaints_stages [OF store upd]
  have "allNodes nodeDone (nodes w3) (remdups rabbits)"
    using stages(3) [OF calls(3)] stages(2) [OF calls(2)] stages(1) [OF calls(1)] by blast
  then show ?thesis using assms(6,7) by (auto simp: allNodes_def nodeDone_def staleLabelOf_def)
qed

theorem taints_settle_witness:
  "\<exists>w1 w2 w3 nd. labelsAndTaints exKube [''rabbit-1''] [''rabbit-1'' \<mapsto> exRabbit [] []] = (Inr True, w1) \<and>
     labelsAndTaints exKube [''rabbit-1''] w1 = (Inr True, w2) \<and>
     labelsAndTaints exKube [''rabbit-1''] w2 = (Inr True, w3) \<and> exNodes w3 ''rabbit-1'' = Some nd \<and>
     hasLabel TaintsAndLabelsCompletedLabel (meta_Labels (nd_Meta nd))"
proof -
  let ?sel = "(RabbitNodeSelectorLabel, ''true'')" and ?full = "(TaintsAndLabelsCompletedLabel, ''true'')"
  let ?w1 = "[''rabbit-1'' \<mapsto> exRabbit [?sel] [rabbitTaint TaintEffectNoSchedule]]"
  let ?w2 = "[''rabbit-1'' \<mapsto> exRabbit [?sel] [rabbitTaint TaintEffectNoSchedule, rabbitTaint TaintEffectNoExecute]]"
  let ?nd = "exRabbit [?sel, ?full] [rabbitTaint TaintEffectNoSchedule]"
  have 1: "labelsAndTaints exKube [''rabbit-1''] [''rabbit-1'' \<mapsto> exRabbit [] []] = (Inr True, ?w1)"
    by (simp add: exKube_run)
  have 2: "labelsAndTaints exKube [''rabbit-1''] ?w1 = (Inr True, ?w2)"
    by (simp add: exKube_run)
  have 3: "labelsAndTaints exKube [''rabbit-1''] ?w2 = (Inr True, [''rabbit-1'' \<mapsto> ?nd])"
    by (simp add: exKube_run)
  have x: "''rabbit-1'' \<in> set [''rabbit-1'']" "exNodes [''rabbit-1'' \<mapsto> ?nd] ''rabbit-1'' = Some ?nd"
    by (simp_all add: exNodes_def exRabbit_def)
  have "hasLabel TaintsAndLabelsCompletedLabel (meta_Labels (nd_Meta ?nd))"
    using taints_settle [where k = exKube and nodes = exNodes and x = "''rabbit-1''", OF exKube_store 1 2 3 x] by (rule conjunct1)
  with 1 2 3 x(2) show ?thesis by blast
qed

text \<open>
  The configuration never becomes ready through this controller. Once the finalizer is there,
  no pass of the reconcile changes the resource, so \<^verbatim>\<open>Status.Ready\<close> keeps its value, and every pass
  that does not fail asks for another reconcile, also when nothing is left to do:
  \<^verbatim>\<open>labelsAndTaints\<close> answers \<^verbatim>\<open>true\<close> on every path that is no error, so that the assignment after it
  is never reached.
\<close>

theorem SystemConfiguration_never_ready:
  assumes "\<not> meta_Deleting (sc_Meta s)"
    and "ContainsFinalizer finalizerNnfSystemConfiguration (meta_Finalizers (sc_Meta s))"
    and "systemConfigBody k (s, w) = (r, (s', w'))"
  shows "s' = s \<and> (r = Inr requeueResult \<or> (\<exists>e. r = Inl e))"
proof -
  have "fst (labelsAndTaints k names w1) = Inr b \<Longrightarrow> b" for names w1 b
    by (auto simp: labelsAndTaints_def bindE_def retE_def split: prod.splits sum.splits)
  then have "labelsAndTaints k names w1 \<noteq> (Inr False, w2)" for names w1 w2 by (metis fst_conv)
  then show ?thesis
    using assms
    by (auto simp: systemConfigBody_def bindE_def getE_def sndE_def retE_def modifyE_def requeueResult_def
        split: prod.splits sum.splits if_splits)
qed

definition exConfig :: SystemConfiguration where
  "exConfig = \<lparr>sc_Meta = zeroMeta\<lparr>meta_Finalizers := [finalizerNnfSystemConfiguration]\<rparr>,
     sc_ExternalComputeNodes = [], sc_StorageNodes = [], sc_Status = \<lparr>sct_Ready = False, sct_Error = None\<rparr>\<rparr>"

theorem SystemConfiguration_never_ready_witness:
  "fst (snd (systemConfigBody exKube (exConfig, Map.empty))) = exConfig"
proof -
  obtain r s' w' where body: "systemConfigBody exKube (exConfig, Map.empty) = (r, (s', w'))" by (metis prod_cases3)
  have "\<not> meta_Deleting (sc_Meta exConfig)"
    "ContainsFinalizer finalizerNnfSystemConfiguration (meta_Finalizers (sc_Meta exConfig))"
    by (simp_all add: exConfig_def zeroMeta_def ContainsFinalizer_def)
  from SystemConfiguration_never_ready [OF this body] body show ?thesis by simp
qed

end
