(* ===== verification/DwsStorage.thy ===== *)
theory DwsStorage
  imports SystemConfig
begin

text \<open>
  \<^verbatim>\<open>internal/controller/dws_storage_controller.go\<close>: the controller that reports a Rabbit node to the
  workload manager. It copies what the NNF node knows of its servers and drives into the DWS
  storage resource and derives the overall status from the fencing of the node, the Kubernetes
  node and its taints. Types of \<^verbatim>\<open>nnfnode_types.go\<close>, \<^verbatim>\<open>nnf_resource_status_type.go\<close> and of the DWS storage.
\<close>

section \<open>Types\<close>

text \<open>A status is a string; an unknown one is converted to \<^verbatim>\<open>Unknown\<close>.\<close>

definition ConvertToDWSResourceStatus :: "string \<Rightarrow> string" where
  "ConvertToDWSResourceStatus rst =
     (if rst = ''Starting'' then ''Starting''
      else if rst = ''Ready'' then ''Ready''
      else if rst = ''Disabled'' then ''Disabled''
      else if rst = ''NotPresent'' then ''NotPresent''
      else if rst = ''Offline'' then ''Offline''
      else if rst = ''Failed'' then ''Failed''
      else if rst = ''Fenced'' then ''Fenced''
      else ''Unknown'')"

definition UpdateIfWorseThan :: "string \<Rightarrow> string \<Rightarrow> string" where
  "UpdateIfWorseThan rst status =
     (if rst \<in> {''Starting'', ''Offline'', ''NotPresent'', ''Disabled'', ''Fenced''}
      then if status = ''Ready'' then rst else status
      else if rst = ''Failed'' then ''Failed''
      else status)"

record NnfServerStatus =
  nsv_Hostname :: string
  nsv_Status :: string

record NnfDriveStatus =
  ndr_Model :: string
  ndr_SerialNumber :: string
  ndr_FirmwareVersion :: string
  ndr_Slot :: string
  ndr_Capacity :: int
  ndr_WearLevel :: int
  ndr_Status :: string

record NnfNodeStatus =
  nns_Status :: string
  nns_LNetNid :: string
  nns_Fenced :: bool
  nns_Capacity :: int
  nns_Servers :: "NnfServerStatus list"
  nns_Drives :: "NnfDriveStatus list"

record NnfNode =
  nn_Meta :: ObjectMeta
  nn_Status :: NnfNodeStatus

record StorageDevice =
  sde_Model :: string
  sde_SerialNumber :: string
  sde_FirmwareVersion :: string
  sde_Slot :: string
  sde_Capacity :: int
  sde_WearLevel :: "int option"
  sde_Status :: string

record StorageNode =
  sno_Name :: string
  sno_Status :: string

record StorageAccess =
  sac_Protocol :: string
  sac_Servers :: "StorageNode list"
  sac_Computes :: "StorageNode list"

record StorageStatus =
  sst_Type :: string
  sst_Devices :: "StorageDevice list"
  sst_Access :: StorageAccess
  sst_Capacity :: int
  sst_Status :: string
  sst_RebootRequired :: bool
  sst_Message :: string

record Storage =
  sto_Meta :: ObjectMeta
  sto_State :: string
  sto_Mode :: string
  sto_Status :: StorageStatus

abbreviation StorageTypeLabel :: string where
  "StorageTypeLabel \<equiv> ''dataworkflowservices.github.io/storage''"

abbreviation taintCrayNnfNodeDrainPrefix :: string where
  "taintCrayNnfNodeDrainPrefix \<equiv> ''cray.nnf.node.drain''"

record K8sNodeState =
  kns_nnfTaint :: string
  kns_nodeReady :: bool

record 'w storageKube =
  tk_Storage :: "(Storage, 'w) kclient"
  tk_NnfNode :: "(NnfNode, 'w) kclient"
  tk_Node :: "(Node, 'w) kclient"

section \<open>Operations\<close>

definition nodeStateOf :: "Node \<Rightarrow> K8sNodeState" where
  "nodeStateOf node =
     \<lparr>kns_nnfTaint = (case List.find (\<lambda>t. has_prefix (tnt_Key t) taintCrayNnfNodeDrainPrefix) (nd_Taints node) of
        None \<Rightarrow> [] | Some t \<Rightarrow> tnt_Key t),
      kns_nodeReady = list_ex (\<lambda>c. ncd_Type c = ''Ready'' \<and> ncd_Status c = ''True'') (nd_Conditions node)\<rparr>"

definition coreNodeState :: "'w storageKube \<Rightarrow> Storage \<Rightarrow> ('w, K8sNodeState) io" where
  "coreNodeState k storage =
     bindE (kc_Get (tk_Node k) [] (meta_Name (sto_Meta storage))) (\<lambda>node. retE (nodeStateOf node))"

definition deviceOf :: "NnfDriveStatus \<Rightarrow> StorageDevice" where
  "deviceOf drive =
     (if ndr_Status drive = ''Ready''
      then \<lparr>sde_Model = ndr_Model drive, sde_SerialNumber = ndr_SerialNumber drive,
            sde_FirmwareVersion = ndr_FirmwareVersion drive, sde_Slot = ndr_Slot drive,
            sde_Capacity = ndr_Capacity drive, sde_WearLevel = Some (ndr_WearLevel drive),
            sde_Status = ConvertToDWSResourceStatus (ndr_Status drive)\<rparr>
      else \<lparr>sde_Model = [], sde_SerialNumber = [], sde_FirmwareVersion = [], sde_Slot = ndr_Slot drive,
            sde_Capacity = 0, sde_WearLevel = None,
            sde_Status = ConvertToDWSResourceStatus (ndr_Status drive)\<rparr>)"

definition computesOf :: "NnfServerStatus list \<Rightarrow> StorageNode list" where
  "computesOf servers =
     map (\<lambda>s. \<lparr>sno_Name = nsv_Hostname s, sno_Status = ConvertToDWSResourceStatus (nsv_Status s)\<rparr>)
       (filter (\<lambda>s. length (nsv_Hostname s) \<noteq> 0) servers)"

definition setStorageStatus :: "(StorageStatus \<Rightarrow> StorageStatus) \<Rightarrow> Storage \<Rightarrow> Storage" where
  "setStorageStatus f s = s\<lparr>sto_Status := f (sto_Status s)\<rparr>"

text \<open>The part that does not depend on the servers, and the part that does.\<close>

definition fillCapacity :: "NnfNode \<Rightarrow> Storage \<Rightarrow> Storage" where
  "fillCapacity n = setStorageStatus (\<lambda>st. st\<lparr>sst_Type := ''NVMe'', sst_Capacity := nns_Capacity (nn_Status n),
     sst_Access := (sst_Access st)\<lparr>sac_Protocol := ''PCIe''\<rparr>\<rparr>)"

definition fillServers :: "NnfNode \<Rightarrow> Storage \<Rightarrow> Storage" where
  "fillServers n s =
     (let servers = nns_Servers (nn_Status n);
          rabbit = \<lparr>sno_Name = meta_Name (sto_Meta s), sno_Status = ConvertToDWSResourceStatus (nsv_Status (servers ! 0))\<rparr> in
      setStorageStatus (\<lambda>st. st\<lparr>
        sst_Access := (sst_Access st)\<lparr>sac_Servers := [rabbit],
          sac_Computes := (if length servers > 1 then computesOf (drop 1 servers) else sac_Computes (sst_Access st))\<rparr>,
        sst_Devices := map deviceOf (nns_Drives (nn_Status n))\<rparr>) s)"

definition setStatus :: "string \<Rightarrow> Storage \<Rightarrow> Storage" where
  "setStatus v = setStorageStatus (\<lambda>st. st\<lparr>sst_Status := v\<rparr>)"

definition setMessage :: "string \<Rightarrow> Storage \<Rightarrow> Storage" where
  "setMessage v = setStorageStatus (\<lambda>st. st\<lparr>sst_Message := v\<rparr>)"

definition setReboot :: "bool \<Rightarrow> Storage \<Rightarrow> Storage" where
  "setReboot b = setStorageStatus (\<lambda>st. st\<lparr>sst_RebootRequired := b\<rparr>)"

definition overallStatus :: "'w storageKube \<Rightarrow> NnfNode \<Rightarrow> (Storage \<times> 'w, unit) io" where
  "overallStatus k n =
     (if nns_Fenced (nn_Status n)
      then modifyE (\<lambda>s. setMessage ''Storage node requires reboot to recover from STONITH event''
             (setReboot True (setStatus ''Degraded'' s)))
      else bindE getE (\<lambda>s. bindE (sndE (coreNodeState k s)) (\<lambda>nodeState.
        if \<not> kns_nodeReady nodeState
        then modifyE (\<lambda>s. setMessage ''Kubernetes node is offline'' (setStatus ''Offline'' s))
        else if length (kns_nnfTaint nodeState) > 0
        then modifyE (\<lambda>s. setMessage (''Kubernetes node is tainted with '' @ kns_nnfTaint nodeState) (setStatus ''Drained'' s))
        else modifyE (setStatus (ConvertToDWSResourceStatus (nns_Status (nn_Status n)))))))"

text \<open>The status of a storage that was disabled and is enabled again: first the fence is cleared.\<close>

definition enabledStatus :: "'w storageKube \<Rightarrow> NnfNode \<Rightarrow> (Storage \<times> 'w, Result) io" where
  "enabledStatus k n = bindE getE (\<lambda>s.
     if sst_Status (sto_Status s) = ''Disabled'' then
       (if nns_Fenced (nn_Status n)
        then bindE (sndE (kc_UpdateStatus (tk_NnfNode k) (n\<lparr>nn_Status := (nn_Status n)\<lparr>nns_Fenced := False\<rparr>\<rparr>)))
               (\<lambda>_. retE doneResult)
        else bindE (modifyE (\<lambda>s. setMessage [] (setReboot False s))) (\<lambda>_.
             bindE (overallStatus k n) (\<lambda>_. retE doneResult)))
     else bindE (overallStatus k n) (\<lambda>_. retE doneResult))"

definition storageLive :: "'w storageKube \<Rightarrow> (Storage \<times> 'w, Result) io" where
  "storageLive k = bindE getE (\<lambda>s.
     bindE (sndE (tryE (kc_Get (tk_NnfNode k) (meta_Name (sto_Meta s)) ''nnf-nlc''))) (\<lambda>got.
       case got of
         Inl e \<Rightarrow> (case IgnoreNotFound e of None \<Rightarrow> retE doneResult | Some e' \<Rightarrow> failE e')
       | Inr n \<Rightarrow>
           bindE (modifyE (fillCapacity n)) (\<lambda>_.
             if length (nns_Servers (nn_Status n)) = 0 then retE doneResult
             else bindE (modifyE (fillServers n)) (\<lambda>_.
               if sto_State s = ''Disabled'' then retE doneResult
               else enabledStatus k n))))"

definition storageBody :: "'w storageKube \<Rightarrow> (Storage \<times> 'w, Result) io" where
  "storageBody k = bindE getE (\<lambda>s.
     if labelOf StorageTypeLabel (meta_Labels (sto_Meta s)) \<noteq> ''Rabbit'' then retE doneResult
     else if meta_Deleting (sto_Meta s) then retE doneResult
     else
       bindE (if sto_State s = ''Disabled''
              then modifyE (\<lambda>s. setMessage ''Storage node manually disabled'' (setStatus ''Disabled'' s))
              else retE ()) (\<lambda>_.
         if sto_Mode s \<noteq> ''Live'' then retE doneResult else storageLive k))"

definition Storage_Reconcile ::
  "'w storageKube \<Rightarrow> string \<Rightarrow> string \<Rightarrow> 'w \<Rightarrow> Storage option outcome \<times> 'w" where
  "Storage_Reconcile k namespace name =
     reconcileObject (tk_Storage k) sto_Status (\<lambda>_ s. s) namespace name (storageBody k)"

section \<open>Properties\<close>

lemma storage_simps [simp]:
  "sst_Status (sto_Status (setStatus v s)) = v" "sst_Status (sto_Status (setMessage m s)) = sst_Status (sto_Status s)"
  "sst_Status (sto_Status (setReboot b s)) = sst_Status (sto_Status s)"
  "sst_Status (sto_Status (fillCapacity n s)) = sst_Status (sto_Status s)"
  "sst_Status (sto_Status (fillServers n s)) = sst_Status (sto_Status s)"
  "sst_Message (sto_Status (setStatus v s)) = sst_Message (sto_Status s)" "sst_Message (sto_Status (setMessage m s)) = m"
  "sst_Message (sto_Status (setReboot b s)) = sst_Message (sto_Status s)"
  "sst_Message (sto_Status (fillCapacity n s)) = sst_Message (sto_Status s)"
  "sst_Message (sto_Status (fillServers n s)) = sst_Message (sto_Status s)"
  "sst_RebootRequired (sto_Status (setStatus v s)) = sst_RebootRequired (sto_Status s)"
  "sst_RebootRequired (sto_Status (setMessage m s)) = sst_RebootRequired (sto_Status s)"
  "sst_RebootRequired (sto_Status (setReboot b s)) = b"
  "sst_RebootRequired (sto_Status (fillCapacity n s)) = sst_RebootRequired (sto_Status s)"
  "sst_RebootRequired (sto_Status (fillServers n s)) = sst_RebootRequired (sto_Status s)"
  "sto_Meta (setStatus v s) = sto_Meta s" "sto_Meta (setMessage m s) = sto_Meta s" "sto_Meta (setReboot b s) = sto_Meta s"
  "sto_Meta (fillCapacity n s) = sto_Meta s" "sto_Meta (fillServers n s) = sto_Meta s"
  by (simp_all add: setStatus_def setMessage_def setReboot_def fillCapacity_def fillServers_def setStorageStatus_def Let_def)

text \<open>The status that the workload manager should see for an enabled Rabbit.\<close>

definition rabbitStatus :: "NnfNode \<Rightarrow> Node \<Rightarrow> string" where
  "rabbitStatus n node =
     (if nns_Fenced (nn_Status n) then ''Degraded''
      else if \<not> kns_nodeReady (nodeStateOf node) then ''Offline''
      else if kns_nnfTaint (nodeStateOf node) \<noteq> [] then ''Drained''
      else ConvertToDWSResourceStatus (nns_Status (nn_Status n)))"

text \<open>
  The workload manager sees the state of the Rabbit. A reconcile of an enabled, live storage whose
  NNF node has reported its servers ends with the status that the fence, the Kubernetes node and
  its taints call for: degraded while fenced, offline while the node is not ready, drained while a
  drain taint is there, and otherwise the status of the NNF node; the servers, the computes with a
  host name and the drives are those of the NNF node. One exception: while a storage that was
  disabled is still fenced, the reconcile only clears the fence.
\<close>

theorem Storage_status_follows_node:
  assumes "labelOf StorageTypeLabel (meta_Labels (sto_Meta s)) = ''Rabbit''" and "\<not> meta_Deleting (sto_Meta s)"
    and "sto_State s \<noteq> ''Disabled''" and "sto_Mode s = ''Live''"
    and "kc_Get (tk_NnfNode k) (meta_Name (sto_Meta s)) ''nnf-nlc'' w = (Inr n, w1)" and "nns_Servers (nn_Status n) \<noteq> []"
    and "kc_Get (tk_Node k) [] (meta_Name (sto_Meta s)) w1 = (Inr node, w2)"
    and "\<not> (sst_Status (sto_Status s) = ''Disabled'' \<and> nns_Fenced (nn_Status n))"
    and body: "storageBody k (s, w) = (r, (s', w'))"
  shows "r = Inr doneResult \<and> sst_Status (sto_Status s') = rabbitStatus n node \<and>
    sst_Devices (sto_Status s') = map deviceOf (nns_Drives (nn_Status n)) \<and>
    sst_Capacity (sto_Status s') = nns_Capacity (nn_Status n)"
proof -
  have live: "storageLive k (s, w) = enabledStatus k n (fillServers n (fillCapacity n s), w1)"
    using assms(3,5,6)
    by (simp add: storageLive_def tryE_def catchE_def sndE_def bindE_def getE_def modifyE_def retE_def)
  have "storageBody k (s, w) = storageLive k (s, w)"
    using assms(1-4) by (simp add: storageBody_def)
  with body live have e: "enabledStatus k n (fillServers n (fillCapacity n s), w1) = (r, (s', w'))" by simp
  have core: "coreNodeState k t w1 = (Inr (nodeStateOf node), w2)" if "sto_Meta t = sto_Meta s" for t
    using assms(7) that by (simp add: coreNodeState_def bindE_def retE_def)
  have "r = Inr doneResult \<and> sst_Status (sto_Status s') = rabbitStatus n node"
    using e core assms(8)
    by (auto simp: enabledStatus_def overallStatus_def rabbitStatus_def bindE_def sndE_def getE_def modifyE_def retE_def
        split: if_splits)
  moreover have "sst_Devices (sto_Status s') = map deviceOf (nns_Drives (nn_Status n)) \<and>
      sst_Capacity (sto_Status s') = nns_Capacity (nn_Status n)"
    using e core assms(8)
    by (auto simp: enabledStatus_def overallStatus_def bindE_def sndE_def getE_def modifyE_def retE_def
        setStatus_def setMessage_def setReboot_def fillCapacity_def fillServers_def setStorageStatus_def Let_def
        split: if_splits)
  ultimately show ?thesis by blast
qed

definition exStorageNode :: NnfNode where
  "exStorageNode = \<lparr>nn_Meta = zeroMeta, nn_Status = \<lparr>nns_Status = ''Ready'', nns_LNetNid = ''10.1.1.1@tcp'', nns_Fenced = False, nns_Capacity = 1000,
     nns_Servers = [\<lparr>nsv_Hostname = ''rabbit-1'', nsv_Status = ''Ready''\<rparr>], nns_Drives = []\<rparr>\<rparr>"

definition exK8sNode :: Node where
  "exK8sNode = \<lparr>nd_Meta = zeroMeta, nd_Taints = [], nd_Conditions = [\<lparr>ncd_Type = ''Ready'', ncd_Status = ''True''\<rparr>]\<rparr>"

definition exStorageKube :: "unit storageKube" where
  "exStorageKube = \<lparr>tk_Storage = echoClient, tk_NnfNode = echoClient\<lparr>kc_Get := (\<lambda>ns n w. (Inr exStorageNode, w))\<rparr>,
     tk_Node = echoClient\<lparr>kc_Get := (\<lambda>ns n w. (Inr exK8sNode, w))\<rparr>\<rparr>"

definition exStorage :: Storage where
  "exStorage = \<lparr>sto_Meta = zeroMeta\<lparr>meta_Name := ''rabbit-1'', meta_Labels := [(StorageTypeLabel, ''Rabbit'')]\<rparr>,
     sto_State = ''Enabled'', sto_Mode = ''Live'',
     sto_Status = \<lparr>sst_Type = [], sst_Devices = [], sst_Access = \<lparr>sac_Protocol = [], sac_Servers = [], sac_Computes = []\<rparr>,
       sst_Capacity = 0, sst_Status = ''Offline'', sst_RebootRequired = False, sst_Message = ''Kubernetes node is offline''\<rparr>\<rparr>"

theorem Storage_status_follows_node_witness:
  "fst (storageBody exStorageKube (exStorage, ())) = Inr doneResult \<and>
   sst_Status (sto_Status (fst (snd (storageBody exStorageKube (exStorage, ()))))) = ''Ready''"
proof -
  obtain r s' w' where body: "storageBody exStorageKube (exStorage, ()) = (r, (s', w'))" by (metis prod_cases3)
  have ready: "rabbitStatus exStorageNode exK8sNode = ''Ready''" by code_simp
  have "r = Inr doneResult \<and> sst_Status (sto_Status s') = rabbitStatus exStorageNode exK8sNode \<and>
      sst_Devices (sto_Status s') = map deviceOf (nns_Drives (nn_Status exStorageNode)) \<and>
      sst_Capacity (sto_Status s') = nns_Capacity (nn_Status exStorageNode)"
    by (rule Storage_status_follows_node [OF _ _ _ _ _ _ _ _ body])
      (simp_all add: exStorage_def exStorageKube_def exStorageNode_def labelOf_def zeroMeta_def)
  with body ready show ?thesis by simp
qed

text \<open>
  A message outlives its cause. When the Kubernetes node is back, without a drain taint and
  without a fence, the reconcile sets the status but leaves the message and the flag that a reboot is
  required as they were: only the way over a disabled storage clears them. So a storage is reported
  ready with the message that its node is offline.
\<close>

theorem Storage_message_goes_stale:
  assumes "sst_Status (sto_Status s) \<noteq> ''Disabled''" and "\<not> nns_Fenced (nn_Status n)"
    and "kc_Get (tk_Node k) [] (meta_Name (sto_Meta s)) w = (Inr node, w1)"
    and "kns_nodeReady (nodeStateOf node)" and "kns_nnfTaint (nodeStateOf node) = []"
  shows "enabledStatus k n (s, w) =
    (Inr doneResult, (setStatus (ConvertToDWSResourceStatus (nns_Status (nn_Status n))) s, w1)) \<and>
    sst_Message (sto_Status (fst (snd (enabledStatus k n (s, w))))) = sst_Message (sto_Status s) \<and>
    sst_RebootRequired (sto_Status (fst (snd (enabledStatus k n (s, w))))) = sst_RebootRequired (sto_Status s)"
proof -
  have "enabledStatus k n (s, w) =
      (Inr doneResult, (setStatus (ConvertToDWSResourceStatus (nns_Status (nn_Status n))) s, w1))"
    using assms by (simp add: enabledStatus_def overallStatus_def coreNodeState_def bindE_def sndE_def getE_def modifyE_def retE_def)
  then show ?thesis by simp
qed

theorem Storage_message_goes_stale_witness:
  "enabledStatus exStorageKube exStorageNode (exStorage, ()) = (Inr doneResult, (setStatus ''Ready'' exStorage, ())) \<and>
   sst_Message (sto_Status (setStatus ''Ready'' exStorage)) = ''Kubernetes node is offline''"
proof -
  have c: "sst_Status (sto_Status exStorage) \<noteq> ''Disabled''" "\<not> nns_Fenced (nn_Status exStorageNode)"
    "kc_Get (tk_Node exStorageKube) [] (meta_Name (sto_Meta exStorage)) () = (Inr exK8sNode, ())"
    "kns_nodeReady (nodeStateOf exK8sNode)" "kns_nnfTaint (nodeStateOf exK8sNode) = []"
    "ConvertToDWSResourceStatus (nns_Status (nn_Status exStorageNode)) = ''Ready''"
    by (simp_all add: exStorage_def exStorageNode_def exStorageKube_def exK8sNode_def nodeStateOf_def ConvertToDWSResourceStatus_def)
  show ?thesis
    using Storage_message_goes_stale [where k = exStorageKube, OF c(1-5)] c(6) by (simp add: exStorage_def)
qed

end
