(* ===== verification/PortManager.thy ===== *)
theory PortManager
  imports GoStrings Kube
begin

text \<open>
  \<^verbatim>\<open>internal/controller/nnf_port_manager_controller.go\<close>, with the types of
  \<^verbatim>\<open>api/v1alpha11/nnfportmanager_types.go\<close> and the port iterator of
  \<^verbatim>\<open>vendor/.../dws/utils/ports/ports.go\<close>: the reconciler that hands out TCP ports to requesters,
  keeps released ports in a cooldown, and never gives a port to two requesters at once.
\<close>

section \<open>Port iterator\<close>

type_synonym port = "16 word"

datatype IntOrString = IntVal int | StrVal string

abbreviation InvalidPort :: port where
  "InvalidPort \<equiv> 0"

record portIterator =
  it_ports :: "IntOrString list"
  it_index :: nat
  it_subindex :: nat

definition NewPortIterator :: "IntOrString list \<Rightarrow> portIterator" where
  "NewPortIterator ports = \<lparr>it_ports = ports, it_index = 0, it_subindex = 0\<rparr>"

text \<open>The two numbers of a range \<^verbatim>\<open>FIRST-LAST\<close>, or nothing where \<^verbatim>\<open>Next\<close> gives up.\<close>

definition parseRange :: "string \<Rightarrow> (nat \<times> nat) option" where
  "parseRange s =
     (case go_split2 (CHR ''-'') s of
        [a, b] \<Rightarrow> (case parse_uint 16 a of None \<Rightarrow> None
                  | Some first \<Rightarrow> (case parse_uint 16 b of None \<Rightarrow> None | Some final \<Rightarrow> Some (first, final)))
      | _ \<Rightarrow> None)"

definition Next :: "portIterator \<Rightarrow> port \<times> portIterator" where
  "Next itr =
     (if length (it_ports itr) \<le> it_index itr then (InvalidPort, itr)
      else case it_ports itr ! it_index itr of
        IntVal i \<Rightarrow> (word_of_int i, itr\<lparr>it_index := it_index itr + 1, it_subindex := 0\<rparr>)
      | StrVal s \<Rightarrow>
          (case parseRange s of
             None \<Rightarrow> (InvalidPort, itr)
           | Some (first, final) \<Rightarrow>
               let p = first + it_subindex itr;
                   itr1 = itr\<lparr>it_subindex := it_subindex itr + 1\<rparr>
               in (of_nat p,
                   if p = final then itr1\<lparr>it_index := it_index itr + 1, it_subindex := 0\<rparr> else itr1)))"

text \<open>
  The distance of the iterator to the end of the list: the entries that are left, and within a
  range the ports before the 16-bit value wraps to the invalid port.
\<close>

definition range_left :: "portIterator \<Rightarrow> nat" where
  "range_left itr =
     (if length (it_ports itr) \<le> it_index itr then 0
      else case it_ports itr ! it_index itr of
        IntVal i \<Rightarrow> 0
      | StrVal s \<Rightarrow> (case parseRange s of None \<Rightarrow> 0
          | Some (first, final) \<Rightarrow> (65536 - (first + it_subindex itr) mod 65536) mod 65536))"

lemma of_nat_port_zero: "(of_nat p :: port) = 0 \<longleftrightarrow> p mod 65536 = 0"
proof -
  have "(of_nat p :: port) = 0 \<longleftrightarrow> 2 ^ LENGTH(16) dvd p"
    by (rule word_of_nat_eq_0_iff)
  then show ?thesis by (simp add: dvd_eq_mod_eq_0)
qed

lemma wrap_distance:
  fixes n p :: nat
  assumes "p mod n \<noteq> 0" and "0 < n"
  shows "(n - Suc p mod n) mod n < (n - p mod n) mod n"
proof -
  have v: "p mod n < n" using assms(2) by simp
  then have now: "(n - p mod n) mod n = n - p mod n"
    using assms(1) by simp
  show ?thesis
  proof (cases "Suc (p mod n) = n")
    case True
    then show ?thesis using now v by (simp add: mod_Suc)
  next
    case False
    then have "(n - Suc p mod n) mod n \<le> n - Suc (p mod n)"
      by (simp add: mod_Suc)
    then show ?thesis using now v by linarith
  qed
qed

lemma Next_progress:
  assumes "Next itr = (p, itr')" and "p \<noteq> InvalidPort"
  shows "length (it_ports itr') - it_index itr' < length (it_ports itr) - it_index itr \<or>
    length (it_ports itr') - it_index itr' = length (it_ports itr) - it_index itr \<and>
    range_left itr' < range_left itr"
proof (cases "length (it_ports itr) \<le> it_index itr")
  case True
  then show ?thesis using assms by (simp add: Next_def)
next
  case False
  show ?thesis
  proof (cases "it_ports itr ! it_index itr")
    case (IntVal i)
    then show ?thesis using assms False by (auto simp: Next_def)
  next
    case (StrVal s)
    with assms False obtain a b where ab: "parseRange s = Some (a, b)"
      by (auto simp: Next_def split: option.splits)
    let ?q = "a + it_subindex itr"
    from assms False StrVal ab have p: "p = of_nat ?q" by (simp add: Next_def Let_def)
    with assms(2) have nz: "?q mod 65536 \<noteq> 0" by (simp add: of_nat_port_zero del: of_nat_add)
    show ?thesis
    proof (cases "?q = b")
      case True
      then show ?thesis using assms(1) False StrVal ab by (auto simp: Next_def Let_def)
    next
      case neq: False
      then have "itr' = itr\<lparr>it_subindex := it_subindex itr + 1\<rparr>"
        using assms(1) False StrVal ab by (auto simp: Next_def Let_def)
      then show ?thesis
        using False StrVal ab wrap_distance [OF nz] by (simp add: range_left_def)
    qed
  qed
qed

text \<open>All the ports the iterator yields before it returns \<^verbatim>\<open>InvalidPort\<close>.\<close>

function enumPorts :: "portIterator \<Rightarrow> port list" where
  "enumPorts itr =
     (let (p, itr') = Next itr in if p = InvalidPort then [] else p # enumPorts itr')"
  by pat_completeness auto
termination
  by (relation "measures [\<lambda>itr. length (it_ports itr) - it_index itr, range_left]")
    (auto dest!: Next_progress [OF sym])

declare enumPorts.simps [simp del]

section \<open>Data model\<close>

record SystemConfigurationPorts =
  cfg_Ports :: "IntOrString list"
  cfg_PortsCooldownInSeconds :: int

record AllocationSpec =
  spec_Requester :: ObjectReference
  spec_Count :: int

datatype AllocationStatusStatus =
  InUse | Free | Cooldown | InvalidConfiguration | InsufficientResources

record AllocationStatus =
  st_Requester :: "ObjectReference option"
  st_Ports :: "port list"
  st_Status :: AllocationStatusStatus
  st_TimeUnallocated :: "int option"

datatype NnfPortManagerStatusStatus = StatusReady | StatusSystemConfigurationNotFound

record NnfPortManager =
  pm_SystemConfiguration :: ObjectReference
  pm_SpecAllocations :: "AllocationSpec list"
  pm_Allocations :: "AllocationStatus list"
  pm_Status :: NnfPortManagerStatusStatus

section \<open>Freeing unused allocations\<close>

definition isAllocationNeeded :: "AllocationSpec list \<Rightarrow> AllocationStatus \<Rightarrow> bool" where
  "isAllocationNeeded specs status =
     (if st_Status status \<noteq> InUse \<and> st_Status status \<noteq> InsufficientResources then False
      else case st_Requester status of
        None \<Rightarrow> False
      | Some r \<Rightarrow> list_ex (\<lambda>desired. r = spec_Requester desired) specs)"

text \<open>The difference of two times saturates at the range of a 64-bit \<^verbatim>\<open>time.Duration\<close>.\<close>

definition time_Sub :: "int \<Rightarrow> int \<Rightarrow> int" where
  "time_Sub t u = max (- (2 ^ 63)) (min (2 ^ 63 - 1) (t - u))"

text \<open>
  The body of the first loop of \<^verbatim>\<open>cleanupUnusedAllocations\<close> for one entry: the entry afterwards and
  whether its index is appended to \<^verbatim>\<open>allocsToRemove\<close>. An entry in cooldown with no time stamp is a
  nil dereference.
\<close>

definition cleanupEntry ::
  "int \<Rightarrow> int \<Rightarrow> AllocationSpec list \<Rightarrow> AllocationStatus \<Rightarrow> (AllocationStatus \<times> bool) res" where
  "cleanupEntry now cooldown specs status =
     (if isAllocationNeeded specs status then Inr (status, False)
      else if cooldown = 0 then Inr (status, True)
      else if st_Status status = Cooldown then
        (case st_TimeUnallocated status of
           None \<Rightarrow> Inl (Panic ''nil pointer dereference'')
         | Some t \<Rightarrow> Inr (status, time_Sub now t \<ge> seconds cooldown))
      else if st_TimeUnallocated status = None then
        Inr (status\<lparr>st_TimeUnallocated := Some now, st_Status := Cooldown\<rparr>, False)
      else Inr (status, False))"

fun cleanupScan ::
  "(nat \<Rightarrow> int) \<Rightarrow> int \<Rightarrow> AllocationSpec list \<Rightarrow> nat \<Rightarrow> AllocationStatus list
   \<Rightarrow> (AllocationStatus list \<times> nat list) res" where
  "cleanupScan now cooldown specs idx [] = Inr ([], [])"
| "cleanupScan now cooldown specs idx (status # rest) =
     (case cleanupEntry (now idx) cooldown specs status of
        Inl e \<Rightarrow> Inl e
      | Inr (status', rm) \<Rightarrow>
          (case cleanupScan now cooldown specs (Suc idx) rest of
             Inl e \<Rightarrow> Inl e
           | Inr (rest', idxs) \<Rightarrow> Inr (status' # rest', if rm then idx # idxs else idxs)))"

text \<open>\<^verbatim>\<open>append(a[:i], a[i+1:]...)\<close>\<close>

definition removeAt :: "nat \<Rightarrow> 'a list \<Rightarrow> 'a list" where
  "removeAt i xs = take i xs @ drop (Suc i) xs"

definition cleanupUnusedAllocations ::
  "(nat \<Rightarrow> int) \<Rightarrow> int \<Rightarrow> AllocationSpec list \<Rightarrow> AllocationStatus list \<Rightarrow> AllocationStatus list res" where
  "cleanupUnusedAllocations now cooldown specs allocs =
     (case cleanupScan now cooldown specs 0 allocs of
        Inl e \<Rightarrow> Inl e
      | Inr (allocs', allocsToRemove) \<Rightarrow>
          Inr (foldl (\<lambda>a i. removeAt i a) allocs' (rev allocsToRemove)))"

section \<open>Claiming ports\<close>

text \<open>\<^verbatim>\<open>findAllocationStatus\<close> returns a pointer into the slice: here, the index of the entry.\<close>

fun findAllocationStatus :: "AllocationStatus list \<Rightarrow> AllocationSpec \<Rightarrow> nat option" where
  "findAllocationStatus [] spec = None"
| "findAllocationStatus (status # rest) spec =
     (if st_Requester status = Some (spec_Requester spec) then Some 0
      else map_option Suc (findAllocationStatus rest spec))"

definition isAllocated :: "AllocationStatus list \<Rightarrow> AllocationSpec \<Rightarrow> bool" where
  "isAllocated allocs spec = (findAllocationStatus allocs spec \<noteq> None)"

definition held :: "AllocationStatus \<Rightarrow> bool" where
  "held status = (st_Status status = InUse \<or> st_Status status = Cooldown)"

definition portsInUse :: "AllocationStatus list \<Rightarrow> port list" where
  "portsInUse allocs = concat (map st_Ports (filter held allocs))"

function claimFromConfig :: "port list \<Rightarrow> int \<Rightarrow> portIterator \<Rightarrow> port list \<Rightarrow> port list" where
  "claimFromConfig inUse cnt itr ports =
     (let (port, itr') = Next itr in
      if port = InvalidPort then ports
      else if port \<in> set inUse then claimFromConfig inUse cnt itr' ports
      else let ports' = ports @ [port] in
        if int (length ports') \<ge> cnt then ports' else claimFromConfig inUse cnt itr' ports')"
  by pat_completeness auto
termination
  by (relation "measures [\<lambda>(u, c, itr, p). length (it_ports itr) - it_index itr,
                          \<lambda>(u, c, itr, p). range_left itr]")
    (auto dest!: Next_progress [OF sym])

declare claimFromConfig.simps [simp del]

text \<open>The slice expression \<^verbatim>\<open>ports[:count]\<close>, for a count that the slice covers.\<close>

definition slicePorts :: "port list \<Rightarrow> int \<Rightarrow> port list res" where
  "slicePorts ports cnt =
     (if cnt < 0 then Inl (Panic ''slice bounds out of range'') else Inr (take (nat cnt) ports))"

fun firstFree :: "AllocationStatus list \<Rightarrow> nat option" where
  "firstFree [] = None"
| "firstFree (status # rest) =
     (if st_Status status = Free then Some 0 else map_option Suc (firstFree rest))"

lemma firstFree_Some: "firstFree allocs = Some i \<Longrightarrow> i < length allocs \<and> st_Status (allocs ! i) = Free"
  by (induction allocs arbitrary: i) (auto split: if_splits)

text \<open>The loop over \<^verbatim>\<open>claimPortsFromFreeAllocation\<close>: \<open>None\<close> when the search is exhausted.\<close>

function claimFromFree ::
  "int \<Rightarrow> AllocationStatus list \<Rightarrow> port list \<Rightarrow> AllocationStatus list \<times> port list option" where
  "claimFromFree cnt allocs ports =
     (if int (length ports) < cnt then
        (case firstFree allocs of
           None \<Rightarrow> (allocs, None)
         | Some idx \<Rightarrow> claimFromFree cnt (removeAt idx allocs) (ports @ st_Ports (allocs ! idx)))
      else (allocs, Some ports))"
  by pat_completeness auto
termination
  by (relation "measure (\<lambda>(c, allocs, p). length allocs)")
    (auto simp: removeAt_def dest!: firstFree_Some)

declare claimFromFree.simps [simp del]

definition findFreePorts ::
  "AllocationStatus list \<Rightarrow> SystemConfigurationPorts \<Rightarrow> AllocationSpec
   \<Rightarrow> (AllocationStatus list \<times> port list \<times> AllocationStatusStatus) res" where
  "findFreePorts allocs config spec =
     (let cnt = spec_Count spec;
          ports = claimFromConfig (portsInUse allocs) cnt (NewPortIterator (cfg_Ports config)) []
      in if int (length ports) \<ge> cnt then
           (case slicePorts ports cnt of Inl e \<Rightarrow> Inl e | Inr ps \<Rightarrow> Inr (allocs, ps, InUse))
         else
           (case claimFromFree cnt allocs ports of
              (allocs', None) \<Rightarrow> Inr (allocs', [], InsufficientResources)
            | (allocs', Some ports') \<Rightarrow>
                (case slicePorts ports' cnt of
                   Inl e \<Rightarrow> Inl e | Inr ps \<Rightarrow> Inr (allocs', ps, InUse))))"

section \<open>Reconcile\<close>

text \<open>
  One iteration of the loop over the requested allocations: the new slice and how many requests it
  left unsatisfied. The pointer \<^verbatim>\<open>allocationStatus\<close> was taken before \<^verbatim>\<open>findFreePorts\<close> may have
  shifted the slice in place, so the write goes to whatever entry is at that index now.
\<close>

definition reconcileSpec ::
  "NnfPortManagerStatusStatus \<Rightarrow> SystemConfigurationPorts \<Rightarrow> AllocationStatus list \<Rightarrow> AllocationSpec
   \<Rightarrow> (AllocationStatus list \<times> nat) res" where
  "reconcileSpec mgrStatus config allocs spec =
     (let ptr = findAllocationStatus allocs spec in
      if (case ptr of None \<Rightarrow> False | Some i \<Rightarrow> st_Status (allocs ! i) = InUse) then Inr (allocs, 0)
      else case (if mgrStatus \<noteq> StatusReady then Inr (allocs, [], InvalidConfiguration)
                 else findFreePorts allocs config spec) of
        Inl e \<Rightarrow> Inl e
      | Inr (allocs', ports, status) \<Rightarrow>
          let unsatisfied = (if status \<noteq> InUse then 1 else 0) in
          (case ptr of
             None \<Rightarrow> Inr (allocs' @ [\<lparr>st_Requester = Some (spec_Requester spec), st_Ports = ports,
                               st_Status = status, st_TimeUnallocated = None\<rparr>], unsatisfied)
           | Some i \<Rightarrow>
               Inr (if i < length allocs'
                    then allocs'[i := (allocs' ! i)\<lparr>st_Status := status, st_Ports := ports\<rparr>]
                    else allocs', unsatisfied)))"

fun reconcileSpecs ::
  "NnfPortManagerStatusStatus \<Rightarrow> SystemConfigurationPorts \<Rightarrow> AllocationStatus list \<Rightarrow> AllocationSpec list
   \<Rightarrow> (AllocationStatus list \<times> nat) res" where
  "reconcileSpecs mgrStatus config allocs [] = Inr (allocs, 0)"
| "reconcileSpecs mgrStatus config allocs (spec # specs) =
     (case reconcileSpec mgrStatus config allocs spec of
        Inl e \<Rightarrow> Inl e
      | Inr (allocs', n) \<Rightarrow>
          (case reconcileSpecs mgrStatus config allocs' specs of
             Inl e \<Rightarrow> Inl e | Inr (allocs'', k) \<Rightarrow> Inr (allocs'', n + k)))"

text \<open>A configuration that is not found keeps the zero values of its fields.\<close>

definition zeroConfig :: SystemConfigurationPorts where
  "zeroConfig = \<lparr>cfg_Ports = [], cfg_PortsCooldownInSeconds = 0\<rparr>"

definition reconcileWith ::
  "(nat \<Rightarrow> int) \<Rightarrow> NnfPortManager \<Rightarrow> NnfPortManagerStatusStatus \<Rightarrow> SystemConfigurationPorts \<Rightarrow> Result
   \<Rightarrow> NnfPortManager outcome" where
  "reconcileWith now mgr status config res =
     (case cleanupUnusedAllocations now (cfg_PortsCooldownInSeconds config) (pm_SpecAllocations mgr)
             (pm_Allocations mgr) of
        Inl e \<Rightarrow> Panicked (panicText e)
      | Inr allocs \<Rightarrow>
          (case reconcileSpecs status config allocs (pm_SpecAllocations mgr) of
             Inl e \<Rightarrow> Panicked (panicText e)
           | Inr (allocs', unsatisfiedRequests) \<Rightarrow>
               Returned (if unsatisfiedRequests > 0
                         then requeueAfter (seconds (cfg_PortsCooldownInSeconds config + 1)) else res)
                 None (mgr\<lparr>pm_Status := status, pm_Allocations := allocs'\<rparr>)))"

definition Reconcile ::
  "(nat \<Rightarrow> int) \<Rightarrow> NnfPortManager got \<Rightarrow> SystemConfigurationPorts got \<Rightarrow> NnfPortManager option outcome" where
  "Reconcile now gotMgr gotConfig =
     (case gotMgr of
        NotFound \<Rightarrow> Returned doneResult None None
      | GetError e \<Rightarrow> Returned doneResult (Some e) None
      | Found mgr \<Rightarrow>
          (case (case gotConfig of
                   GetError e \<Rightarrow> Returned doneResult (Some e) (mgr\<lparr>pm_Status := StatusReady\<rparr>)
                 | NotFound \<Rightarrow>
                     reconcileWith now mgr StatusSystemConfigurationNotFound zeroConfig requeueResult
                 | Found config \<Rightarrow> reconcileWith now mgr StatusReady config doneResult) of
             Panicked p \<Rightarrow> Panicked p
           | Hung \<Rightarrow> Hung
           | Returned res err mgr' \<Rightarrow> Returned res err (Some mgr')))"

section \<open>Reference definitions and their lemmas\<close>

text \<open>The reference for the removal by collected indices: drop the expired entries on the way.\<close>

fun cleanupList ::
  "(nat \<Rightarrow> int) \<Rightarrow> int \<Rightarrow> AllocationSpec list \<Rightarrow> nat \<Rightarrow> AllocationStatus list
   \<Rightarrow> AllocationStatus list res" where
  "cleanupList now cooldown specs idx [] = Inr []"
| "cleanupList now cooldown specs idx (status # rest) =
     (case cleanupEntry (now idx) cooldown specs status of
        Inl e \<Rightarrow> Inl e
      | Inr (status', rm) \<Rightarrow>
          (case cleanupList now cooldown specs (Suc idx) rest of
             Inl e \<Rightarrow> Inl e
           | Inr rest' \<Rightarrow> Inr (if rm then rest' else status' # rest')))"

lemma removeAt_append [simp]: "removeAt (length pre) (pre @ x # xs) = pre @ xs"
  by (simp add: removeAt_def)

lemma cleanupScan_list:
  "(case cleanupScan now cooldown specs (length pre) allocs of
      Inl e \<Rightarrow> Inl e
    | Inr (allocs', rm) \<Rightarrow> Inr (foldl (\<lambda>a i. removeAt i a) (pre @ allocs') (rev rm))) =
   (case cleanupList now cooldown specs (length pre) allocs of
      Inl e \<Rightarrow> Inl e | Inr r \<Rightarrow> Inr (pre @ r))"
proof (induction allocs arbitrary: pre)
  case Nil
  then show ?case by simp
next
  case (Cons a allocs)
  show ?case
  proof (cases "cleanupEntry (now (length pre)) cooldown specs a")
    case (Inl e)
    then show ?thesis by simp
  next
    case (Inr p)
    obtain a' rm where p: "p = (a', rm)" by (cases p)
    note IH = Cons.IH [of "pre @ [a']"]
    show ?thesis
      using IH Inr p
      by (auto split: sum.splits prod.splits)
  qed
qed

lemma cleanup_eq_list:
  "cleanupUnusedAllocations now cooldown specs allocs = cleanupList now cooldown specs 0 allocs"
  using cleanupScan_list [where pre = "[]" and now = now and cooldown = cooldown and specs = specs
      and allocs = allocs]
  by (simp add: cleanupUnusedAllocations_def split: sum.splits prod.splits)

text \<open>The ports of the configuration that are not held.\<close>

definition freePorts :: "AllocationStatus list \<Rightarrow> SystemConfigurationPorts \<Rightarrow> port list" where
  "freePorts allocs config =
     filter (\<lambda>p. p \<notin> set (portsInUse allocs)) (enumPorts (NewPortIterator (cfg_Ports config)))"

lemma claimFromConfig_eq:
  "claimFromConfig inUse cnt itr ports =
     ports @ take (max 1 (nat cnt - length ports)) (filter (\<lambda>p. p \<notin> set inUse) (enumPorts itr))"
proof (induction inUse cnt itr ports rule: claimFromConfig.induct)
  case (1 inUse cnt itr ports)
  obtain port itr' where nxt: "Next itr = (port, itr')" by (cases "Next itr")
  show ?case
  proof (cases "port = InvalidPort")
    case True
    then show ?thesis by (simp add: claimFromConfig.simps enumPorts.simps [of itr] nxt)
  next
    case valid: False
    show ?thesis
    proof (cases "port \<in> set inUse")
      case True
      then show ?thesis
        using "1.IH"(1) [OF nxt [symmetric] refl valid True] nxt valid
        by (simp add: claimFromConfig.simps [of inUse cnt itr] enumPorts.simps [of itr])
    next
      case False
      show ?thesis
      proof (cases "int (length (ports @ [port])) \<ge> cnt")
        case True
        then have "max 1 (nat cnt - length ports) = 1" by auto
        then show ?thesis
          using True nxt valid False
          by (simp add: claimFromConfig.simps [of inUse cnt itr] enumPorts.simps [of itr])
      next
        case more: False
        then have "max 1 (nat cnt - length ports) = Suc (max 1 (nat cnt - length (ports @ [port])))"
          by auto
        then show ?thesis
          using "1.IH"(2) [OF nxt [symmetric] refl valid False refl more] nxt valid False more
          by (simp add: claimFromConfig.simps [of inUse cnt itr] enumPorts.simps [of itr])
      qed
    qed
  qed
qed

lemma firstFree_None: "(\<forall>a \<in> set allocs. st_Status a \<noteq> Free) \<Longrightarrow> firstFree allocs = None"
  by (induction allocs) auto

lemma findFreePorts_eq:
  assumes "0 \<le> spec_Count spec" and "\<forall>a \<in> set allocs. st_Status a \<noteq> Free"
  shows "findFreePorts allocs config spec =
    Inr (allocs, if spec_Count spec \<le> int (length (freePorts allocs config))
                 then (take (nat (spec_Count spec)) (freePorts allocs config), InUse)
                 else ([], InsufficientResources))"
proof -
  let ?free = "freePorts allocs config" and ?n = "nat (spec_Count spec)"
  have ports: "claimFromConfig (portsInUse allocs) (spec_Count spec)
      (NewPortIterator (cfg_Ports config)) [] = take (max 1 ?n) ?free"
    by (simp add: claimFromConfig_eq freePorts_def)
  have enough: "spec_Count spec \<le> int (length (take (max 1 ?n) ?free)) \<longleftrightarrow>
      spec_Count spec \<le> int (length ?free)"
    using assms(1) by auto
  show ?thesis
    using assms(1) firstFree_None [OF assms(2)] enough
    by (auto simp: findFreePorts_def Let_def ports slicePorts_def claimFromFree.simps min_def)
qed

section \<open>Invariant\<close>

text \<open>
  No port is held twice, only held entries have ports, nothing is in the state \<^verbatim>\<open>Free\<close> (which no
  code path writes), and every entry in cooldown carries its time stamp.
\<close>

definition entry_ok :: "AllocationStatus \<Rightarrow> bool" where
  "entry_ok a = (st_Status a \<noteq> Free \<and> (held a \<or> st_Ports a = []) \<and>
     (st_Status a = Cooldown \<longrightarrow> st_TimeUnallocated a \<noteq> None))"

definition port_inv :: "AllocationStatus list \<Rightarrow> bool" where
  "port_inv allocs = (list_all entry_ok allocs \<and> distinct (portsInUse allocs))"

lemma portsInUse_all:
  "list_all entry_ok allocs \<Longrightarrow> portsInUse allocs = concat (map st_Ports allocs)"
  by (induction allocs) (auto simp: portsInUse_def entry_ok_def)

lemma cleanupEntry_ok:
  "entry_ok a \<Longrightarrow> \<exists>a' rm. cleanupEntry now cooldown specs a = Inr (a', rm) \<and> entry_ok a' \<and>
     st_Ports a' = st_Ports a \<and> (isAllocationNeeded specs a \<longrightarrow> a' = a \<and> \<not> rm)"
proof -
  assume a: "entry_ok a"
  show ?thesis
  proof (cases "isAllocationNeeded specs a \<or> cooldown = 0")
    case True
    then show ?thesis using a by (auto simp: cleanupEntry_def)
  next
    case False
    then show ?thesis
      using a by (cases "st_TimeUnallocated a") (auto simp: cleanupEntry_def entry_ok_def held_def)
  qed
qed

lemma cleanupList_ok:
  "list_all entry_ok allocs \<Longrightarrow> distinct (concat (map st_Ports allocs)) \<Longrightarrow>
   \<exists>r. cleanupList now cooldown specs idx allocs = Inr r \<and> list_all entry_ok r \<and>
     set (concat (map st_Ports r)) \<subseteq> set (concat (map st_Ports allocs)) \<and>
     distinct (concat (map st_Ports r))"
proof (induction allocs arbitrary: idx)
  case Nil
  then show ?case by simp
next
  case (Cons a allocs)
  then have a: "entry_ok a" and disj: "set (st_Ports a) \<inter> set (concat (map st_Ports allocs)) = {}"
    by auto
  obtain a' rm where e: "cleanupEntry (now idx) cooldown specs a = Inr (a', rm)" "entry_ok a'"
      "st_Ports a' = st_Ports a"
    using cleanupEntry_ok [OF a] by blast
  obtain r where r: "cleanupList now cooldown specs (Suc idx) allocs = Inr r" "list_all entry_ok r"
      "set (concat (map st_Ports r)) \<subseteq> set (concat (map st_Ports allocs))"
      "distinct (concat (map st_Ports r))"
    using Cons.IH [of "Suc idx"] Cons.prems by auto
  have "set (st_Ports a') \<inter> set (concat (map st_Ports r)) = {}"
    unfolding e(3) using disj r(3) by (meson disjoint_iff subsetD)
  moreover have "distinct (st_Ports a')" using Cons.prems e(3) by simp
  ultimately show ?case using e r by (cases rm) auto
qed

section \<open>One pass over the requests\<close>

text \<open>Entries keep their position and their requester, and those in use are not touched.\<close>

definition keeps :: "AllocationStatus list \<Rightarrow> AllocationStatus list \<Rightarrow> bool" where
  "keeps xs ys = (length xs \<le> length ys \<and>
     (\<forall>i < length xs. st_Requester (ys ! i) = st_Requester (xs ! i) \<and>
        (st_Status (xs ! i) = InUse \<longrightarrow> ys ! i = xs ! i)))"

lemma keeps_refl [simp]: "keeps xs xs"
  by (simp add: keeps_def)

lemma keeps_trans: "keeps xs ys \<Longrightarrow> keeps ys zs \<Longrightarrow> keeps xs zs"
  by (auto simp: keeps_def)

lemma keeps_mem: "keeps xs ys \<Longrightarrow> a \<in> set xs \<Longrightarrow> st_Status a = InUse \<Longrightarrow> a \<in> set ys"
  unfolding keeps_def in_set_conv_nth by (metis order_less_le_trans)

lemma keeps_update:
  "i < length xs \<Longrightarrow> st_Status (xs ! i) \<noteq> InUse \<Longrightarrow> st_Requester e = st_Requester (xs ! i)
   \<Longrightarrow> keeps xs (xs[i := e])"
  by (auto simp: keeps_def nth_list_update)

lemma findAllocationStatus_Some:
  "findAllocationStatus allocs spec = Some i \<longleftrightarrow>
     i < length allocs \<and> st_Requester (allocs ! i) = Some (spec_Requester spec) \<and>
     (\<forall>j < i. st_Requester (allocs ! j) \<noteq> Some (spec_Requester spec))"
proof (induction allocs arbitrary: i)
  case Nil
  then show ?case by simp
next
  case (Cons a allocs)
  then show ?case by (cases i) (auto simp: All_less_Suc2)
qed

lemma findAllocationStatus_None:
  "findAllocationStatus allocs spec = None \<longleftrightarrow>
     (\<forall>a \<in> set allocs. st_Requester a \<noteq> Some (spec_Requester spec))"
  by (induction allocs) auto

lemma find_keeps:
  assumes "keeps xs ys" and "findAllocationStatus xs spec = Some i"
  shows "findAllocationStatus ys spec = Some i"
  using assms by (auto simp: findAllocationStatus_Some keeps_def)

text \<open>What a request is answered with.\<close>

definition grant ::
  "NnfPortManagerStatusStatus \<Rightarrow> SystemConfigurationPorts \<Rightarrow> AllocationStatus list \<Rightarrow> AllocationSpec
   \<Rightarrow> port list \<times> AllocationStatusStatus" where
  "grant mgrStatus config allocs spec =
     (if mgrStatus \<noteq> StatusReady then ([], InvalidConfiguration)
      else if spec_Count spec \<le> int (length (freePorts allocs config))
      then (take (nat (spec_Count spec)) (freePorts allocs config), InUse)
      else ([], InsufficientResources))"

lemma reconcileSpec_grant:
  assumes inv: "list_all entry_ok allocs" and cnt: "0 \<le> spec_Count spec"
    and g: "grant mgrStatus config allocs spec = (ports, status)"
  shows "reconcileSpec mgrStatus config allocs spec =
    (case findAllocationStatus allocs spec of
       None \<Rightarrow> Inr (allocs @ [\<lparr>st_Requester = Some (spec_Requester spec), st_Ports = ports,
                     st_Status = status, st_TimeUnallocated = None\<rparr>], if status \<noteq> InUse then 1 else 0)
     | Some i \<Rightarrow> if st_Status (allocs ! i) = InUse then Inr (allocs, 0)
         else Inr (allocs[i := (allocs ! i)\<lparr>st_Status := status, st_Ports := ports\<rparr>],
                   if status \<noteq> InUse then 1 else 0))"
proof -
  have free: "\<forall>a \<in> set allocs. st_Status a \<noteq> Free"
    using inv by (auto simp: list_all_iff entry_ok_def)
  have ans: "(if mgrStatus \<noteq> StatusReady then Inr (allocs, [], InvalidConfiguration)
      else findFreePorts allocs config spec) = Inr (allocs, ports, status)"
    using g by (auto simp: findFreePorts_eq [OF cnt free] grant_def split: if_splits)
  show ?thesis
  proof (cases "findAllocationStatus allocs spec")
    case None
    then show ?thesis using ans by (simp add: reconcileSpec_def Let_def)
  next
    case (Some i)
    then have "i < length allocs" by (simp add: findAllocationStatus_Some)
    then show ?thesis using Some ans by (simp add: reconcileSpec_def Let_def)
  qed
qed

lemma grant_ok:
  assumes "grant mgrStatus config allocs spec = (ports, status)"
    and "distinct (enumPorts (NewPortIterator (cfg_Ports config)))"
  shows "distinct ports" and "set ports \<inter> set (portsInUse allocs) = {}"
    and "status \<noteq> InUse \<Longrightarrow> ports = []" and "status \<noteq> Free" and "status \<noteq> Cooldown"
  using assms by (auto simp: grant_def freePorts_def split: if_splits dest: in_set_takeD)

lemma distinct_concat_update:
  assumes "i < length xs" and "distinct (concat (map f xs))" and "distinct (f x)"
    and "set (f x) \<inter> set (concat (map f xs)) = {}"
  shows "distinct (concat (map f (xs[i := x])))"
proof -
  have xs: "xs = take i xs @ xs ! i # drop (Suc i) xs"
    using assms(1) by (rule id_take_nth_drop)
  define l r where "l = take i xs" and "r = drop (Suc i) xs"
  have "distinct (concat (map f (l @ xs ! i # r)))"
      "set (f x) \<inter> set (concat (map f (l @ xs ! i # r))) = {}"
    using assms xs by (simp_all add: l_def r_def)
  then have "distinct (concat (map f (l @ x # r)))"
    using assms(3) by auto
  then show ?thesis
    using upd_conv_take_nth_drop [OF assms(1), of x] by (simp add: l_def r_def)
qed

lemma reconcileSpec_step:
  assumes inv: "port_inv allocs" and cnt: "0 \<le> spec_Count spec"
    and dist: "distinct (enumPorts (NewPortIterator (cfg_Ports config)))"
  shows "\<exists>allocs' n i. reconcileSpec mgrStatus config allocs spec = Inr (allocs', n) \<and>
    port_inv allocs' \<and> keeps allocs allocs' \<and> findAllocationStatus allocs' spec = Some i \<and>
    (n = 0 \<longrightarrow> st_Status (allocs' ! i) = InUse)"
proof -
  obtain ports status where g: "grant mgrStatus config allocs spec = (ports, status)"
    by (cases "grant mgrStatus config allocs spec")
  have ok: "list_all entry_ok allocs" and d: "distinct (concat (map st_Ports allocs))"
    using inv by (auto simp: port_inv_def portsInUse_all)
  note grant = grant_ok [OF g dist]
  have fresh: "set ports \<inter> set (concat (map st_Ports allocs)) = {}"
    using grant(2) portsInUse_all [OF ok] by simp
  note step = reconcileSpec_grant [OF ok cnt g]
  show ?thesis
  proof (cases "findAllocationStatus allocs spec")
    case None
    let ?new = "\<lparr>st_Requester = Some (spec_Requester spec), st_Ports = ports,
       st_Status = status, st_TimeUnallocated = None\<rparr>"
    have "entry_ok ?new" using grant by (auto simp: entry_ok_def held_def)
    then have "port_inv (allocs @ [?new])"
      using ok d fresh grant(1) by (auto simp: port_inv_def portsInUse_all)
    moreover have "keeps allocs (allocs @ [?new])" by (simp add: keeps_def nth_append)
    moreover have "findAllocationStatus (allocs @ [?new]) spec = Some (length allocs)"
      using None by (auto simp: findAllocationStatus_Some findAllocationStatus_None nth_append)
    ultimately show ?thesis using step None by (auto simp: nth_append)
  next
    case (Some i)
    then have i: "i < length allocs" by (simp add: findAllocationStatus_Some)
    show ?thesis
    proof (cases "st_Status (allocs ! i) = InUse")
      case True
      then show ?thesis using step Some inv by auto
    next
      case False
      let ?e = "(allocs ! i)\<lparr>st_Status := status, st_Ports := ports\<rparr>"
      have "entry_ok ?e" using grant by (auto simp: entry_ok_def held_def)
      then have "list_all entry_ok (allocs[i := ?e])"
        using ok by (auto simp: list_all_iff dest!: set_update_subset_insert [THEN subsetD])
      moreover have "distinct (concat (map st_Ports (allocs[i := ?e])))"
        using distinct_concat_update [OF i d, of ?e] grant(1) fresh by simp
      moreover have "keeps allocs (allocs[i := ?e])"
        by (rule keeps_update [OF i False]) simp
      moreover have "findAllocationStatus (allocs[i := ?e]) spec = Some i"
        using find_keeps [OF \<open>keeps allocs (allocs[i := ?e])\<close> Some] .
      ultimately show ?thesis
        using step Some False i by (auto simp: port_inv_def portsInUse_all)
    qed
  qed
qed

lemma reconcileSpecs_steps:
  assumes "port_inv allocs" and "\<forall>spec \<in> set specs. 0 \<le> spec_Count spec"
    and dist: "distinct (enumPorts (NewPortIterator (cfg_Ports config)))"
  shows "\<exists>allocs' n. reconcileSpecs mgrStatus config allocs specs = Inr (allocs', n) \<and>
    port_inv allocs' \<and> keeps allocs allocs' \<and>
    (\<forall>spec \<in> set specs. \<exists>i. findAllocationStatus allocs' spec = Some i \<and>
        (n = 0 \<longrightarrow> st_Status (allocs' ! i) = InUse))"
  using assms(1,2)
proof (induction specs arbitrary: allocs)
  case Nil
  then show ?case by simp
next
  case (Cons spec specs)
  obtain a1 n1 i where s1: "reconcileSpec mgrStatus config allocs spec = Inr (a1, n1)"
      "port_inv a1" "keeps allocs a1" "findAllocationStatus a1 spec = Some i"
      "n1 = 0 \<longrightarrow> st_Status (a1 ! i) = InUse"
    using reconcileSpec_step [OF Cons.prems(1) _ dist] Cons.prems(2) by force
  obtain a2 n2 where s2: "reconcileSpecs mgrStatus config a1 specs = Inr (a2, n2)"
      "port_inv a2" "keeps a1 a2"
      "\<forall>spec \<in> set specs. \<exists>i. findAllocationStatus a2 spec = Some i \<and>
        (n2 = 0 \<longrightarrow> st_Status (a2 ! i) = InUse)"
    using Cons.IH [OF s1(2)] Cons.prems(2) by auto
  have "i < length a1" using s1(4) by (simp add: findAllocationStatus_Some)
  then have "findAllocationStatus a2 spec = Some i \<and> (n1 + n2 = 0 \<longrightarrow> st_Status (a2 ! i) = InUse)"
    using find_keeps [OF s2(3) s1(4)] s1(5) s2(3) by (auto simp: keeps_def)
  then show ?case
    using s1 s2 keeps_trans [OF s1(3) s2(3)] by auto
qed

lemma cleanup_port_inv:
  assumes "port_inv allocs"
  shows "\<exists>r. cleanupUnusedAllocations now cooldown specs allocs = Inr r \<and> port_inv r"
  using cleanupList_ok [of allocs now cooldown specs 0] assms
  by (auto simp: cleanup_eq_list port_inv_def portsInUse_all)

lemma cleanupList_mem_at:
  assumes "cleanupList now cooldown specs idx allocs = Inr r" and "a \<in> set allocs"
    and "\<And>i. cleanupEntry (now i) cooldown specs a = Inr (a, False)"
  shows "a \<in> set r"
  using assms
  by (induction allocs arbitrary: idx r) (auto split: sum.splits prod.splits if_splits)

text \<open>An entry that no request names is left alone by the pass over the requests.\<close>

lemma reconcileSpecs_other:
  assumes "reconcileSpecs mgrStatus config allocs specs = Inr r" and "port_inv allocs"
    and "a \<in> set allocs" and "\<forall>spec \<in> set specs. st_Requester a \<noteq> Some (spec_Requester spec)"
    and "\<forall>spec \<in> set specs. 0 \<le> spec_Count spec"
    and dist: "distinct (enumPorts (NewPortIterator (cfg_Ports config)))"
  shows "a \<in> set (fst r)"
  using assms(1-5)
proof (induction specs arbitrary: allocs r)
  case Nil
  then show ?case by auto
next
  case (Cons spec specs)
  obtain ports status where g: "grant mgrStatus config allocs spec = (ports, status)"
    by (cases "grant mgrStatus config allocs spec")
  have ok: "list_all entry_ok allocs" using Cons.prems(2) by (simp add: port_inv_def)
  have cnt: "0 \<le> spec_Count spec" using Cons.prems(5) by simp
  obtain a1 n1 where s1: "reconcileSpec mgrStatus config allocs spec = Inr (a1, n1)" "port_inv a1"
    using reconcileSpec_step [OF Cons.prems(2) cnt dist] by blast
  obtain r2 where r2: "reconcileSpecs mgrStatus config a1 specs = Inr r2" "fst r = fst r2"
    using Cons.prems(1) s1(1) by (auto split: sum.splits prod.splits)
  have "a \<in> set a1"
  proof (cases "findAllocationStatus allocs spec")
    case None
    then show ?thesis
      using reconcileSpec_grant [OF ok cnt g] s1(1) Cons.prems(3) by auto
  next
    case (Some i)
    then have i: "i < length allocs" "st_Requester (allocs ! i) = Some (spec_Requester spec)"
      by (auto simp: findAllocationStatus_Some)
    then have "allocs ! i \<noteq> a" using Cons.prems(4) by auto
    then have "a \<in> set (allocs[i := x])" for x
      using Cons.prems(3) by (metis in_set_conv_nth length_list_update nth_list_update_neq)
    then show ?thesis
      using reconcileSpec_grant [OF ok cnt g] s1(1) Cons.prems(3) Some by (auto split: if_splits)
  qed
  then show ?case using Cons.IH [OF r2(1) s1(2)] Cons.prems(4,5) r2(2) by simp
qed

section \<open>What the iterator yields\<close>

text \<open>The ports an entry of the configuration stands for.\<close>

definition expandPorts :: "IntOrString \<Rightarrow> port list" where
  "expandPorts e = (case e of
     IntVal i \<Rightarrow> [word_of_int i]
   | StrVal s \<Rightarrow> (case parseRange s of None \<Rightarrow> [] | Some (a, b) \<Rightarrow> map of_nat [a..<Suc b]))"

definition port_entry_ok :: "IntOrString \<Rightarrow> bool" where
  "port_entry_ok e = (case e of
     IntVal i \<Rightarrow> 0 < i \<and> i < 65536
   | StrVal s \<Rightarrow> (case parseRange s of None \<Rightarrow> False | Some (a, b) \<Rightarrow> 0 < a \<and> a \<le> b))"

lemma parseRange_bound: "parseRange s = Some (a, b) \<Longrightarrow> a < 65536 \<and> b < 65536"
  by (auto simp: parseRange_def parse_uint_def split: list.splits option.splits if_splits)

lemma of_nat_port_nz: "0 < p \<Longrightarrow> p < 65536 \<Longrightarrow> (of_nat p :: port) \<noteq> 0"
  by (simp add: of_nat_port_zero)

lemma enumPorts_range:
  assumes k: "k < length ports" "ports ! k = StrVal s" and ab: "parseRange s = Some (a, b)" "0 < a"
    and "a + j \<le> b"
  shows "enumPorts \<lparr>it_ports = ports, it_index = k, it_subindex = j\<rparr> =
    map of_nat [a + j..<Suc b] @ enumPorts \<lparr>it_ports = ports, it_index = Suc k, it_subindex = 0\<rparr>"
  using assms(5)
proof (induction "b - (a + j)" arbitrary: j)
  case 0
  then have "a + j = b" by simp
  moreover have "(of_nat b :: port) \<noteq> 0"
    using of_nat_port_nz [of b] parseRange_bound [OF ab(1)] ab(2) 0 by linarith
  ultimately show ?case
    using k ab by (subst enumPorts.simps) (auto simp: Next_def Let_def simp flip: of_nat_add)
next
  case (Suc n)
  then have lt: "a + j < b" by simp
  have "(of_nat (a + j) :: port) \<noteq> 0"
    using of_nat_port_nz [of "a + j"] parseRange_bound [OF ab(1)] ab(2) lt by simp
  then have "enumPorts \<lparr>it_ports = ports, it_index = k, it_subindex = j\<rparr> =
      of_nat (a + j) # enumPorts \<lparr>it_ports = ports, it_index = k, it_subindex = Suc j\<rparr>"
    using k ab lt by (subst enumPorts.simps) (auto simp: Next_def Let_def simp del: of_nat_add)
  also have "enumPorts \<lparr>it_ports = ports, it_index = k, it_subindex = Suc j\<rparr> =
      map of_nat [a + Suc j..<Suc b] @ enumPorts \<lparr>it_ports = ports, it_index = Suc k, it_subindex = 0\<rparr>"
    by (rule Suc.hyps(1)) (use Suc.hyps(2) lt in auto)
  finally show ?case using lt by (simp add: upt_conv_Cons del: of_nat_add upt_Suc)
qed

lemma enumPorts_from:
  assumes "\<forall>e \<in> set ports. port_entry_ok e" and "k \<le> length ports"
  shows "enumPorts \<lparr>it_ports = ports, it_index = k, it_subindex = 0\<rparr> =
    concat (map expandPorts (drop k ports))"
  using assms(2)
proof (induction "length ports - k" arbitrary: k)
  case 0
  then show ?case by (subst enumPorts.simps) (simp add: Next_def)
next
  case (Suc n)
  then have k: "k < length ports" by simp
  then have d: "drop k ports = ports ! k # drop (Suc k) ports" by (simp add: Cons_nth_drop_Suc)
  have ok: "port_entry_ok (ports ! k)" using assms(1) k by simp
  have IH: "enumPorts \<lparr>it_ports = ports, it_index = Suc k, it_subindex = 0\<rparr> =
      concat (map expandPorts (drop (Suc k) ports))"
    by (rule Suc.hyps(1)) (use Suc.hyps(2) k in auto)
  show ?case
  proof (cases "ports ! k")
    case (IntVal i)
    then have i: "0 < i" "i < 65536" using ok by (auto simp: port_entry_ok_def)
    then obtain n where n: "i = int n" "0 < n" "n < 65536"
      by (metis of_nat_0_less_iff of_nat_less_iff of_nat_numeral zero_less_imp_eq_int)
    then have "(word_of_int i :: port) \<noteq> 0" using of_nat_port_nz [of n] by simp
    then show ?thesis
      using IntVal k d IH by (subst enumPorts.simps) (simp add: Next_def expandPorts_def)
  next
    case (StrVal s)
    then obtain a b where ab: "parseRange s = Some (a, b)" "0 < a" "a \<le> b"
      using ok by (auto simp: port_entry_ok_def split: option.splits)
    then show ?thesis
      using enumPorts_range [OF k StrVal ab(1,2), of 0] StrVal d IH by (simp add: expandPorts_def)
  qed
qed

section \<open>Reachable states\<close>

text \<open>
  The life of a port manager: it starts with no allocations, clients edit the list of requests, and
  the controller reconciles against whatever it finds as the system configuration.
\<close>

definition config_ok :: "SystemConfigurationPorts got \<Rightarrow> bool" where
  "config_ok g = (case g of
     Found config \<Rightarrow> distinct (enumPorts (NewPortIterator (cfg_Ports config))) | _ \<Rightarrow> True)"

definition counts_ok :: "NnfPortManager \<Rightarrow> bool" where
  "counts_ok mgr = list_all (\<lambda>spec. 0 \<le> spec_Count spec) (pm_SpecAllocations mgr)"

inductive pm_reachable :: "NnfPortManager \<Rightarrow> bool" where
  init: "pm_Allocations mgr = [] \<Longrightarrow> counts_ok mgr \<Longrightarrow> pm_reachable mgr"
| client: "pm_reachable mgr \<Longrightarrow> counts_ok (mgr\<lparr>pm_SpecAllocations := specs\<rparr>)
    \<Longrightarrow> pm_reachable (mgr\<lparr>pm_SpecAllocations := specs\<rparr>)"
| reconcile: "pm_reachable mgr \<Longrightarrow> config_ok gotConfig
    \<Longrightarrow> Reconcile now (Found mgr) gotConfig = Returned res err (Some mgr') \<Longrightarrow> pm_reachable mgr'"

lemma enumPorts_Nil [simp]: "enumPorts (NewPortIterator []) = []"
  by (subst enumPorts.simps) (simp add: Next_def NewPortIterator_def)

lemma reconcileWith_ok:
  assumes "port_inv (pm_Allocations mgr)" and "counts_ok mgr"
    and "distinct (enumPorts (NewPortIterator (cfg_Ports config)))"
  obtains cleaned allocs n
  where "cleanupUnusedAllocations now (cfg_PortsCooldownInSeconds config) (pm_SpecAllocations mgr)
      (pm_Allocations mgr) = Inr cleaned" and "port_inv cleaned"
    and "reconcileSpecs status config cleaned (pm_SpecAllocations mgr) = Inr (allocs, n)"
    and "port_inv allocs" and "keeps cleaned allocs"
    and "\<forall>spec \<in> set (pm_SpecAllocations mgr). \<exists>i. findAllocationStatus allocs spec = Some i \<and>
        (n = 0 \<longrightarrow> st_Status (allocs ! i) = InUse)"
    and "reconcileWith now mgr status config res =
      Returned (if n > 0 then requeueAfter (seconds (cfg_PortsCooldownInSeconds config + 1)) else res)
        None (mgr\<lparr>pm_Status := status, pm_Allocations := allocs\<rparr>)"
proof -
  obtain cleaned where c: "cleanupUnusedAllocations now (cfg_PortsCooldownInSeconds config)
      (pm_SpecAllocations mgr) (pm_Allocations mgr) = Inr cleaned" "port_inv cleaned"
    using cleanup_port_inv [OF assms(1)] by blast
  have "\<forall>spec \<in> set (pm_SpecAllocations mgr). 0 \<le> spec_Count spec"
    using assms(2) by (simp add: counts_ok_def list_all_iff)
  from reconcileSpecs_steps [OF c(2) this assms(3), of status] obtain allocs n
    where r: "reconcileSpecs status config cleaned (pm_SpecAllocations mgr) = Inr (allocs, n)"
      "port_inv allocs" "keeps cleaned allocs"
      "\<forall>spec \<in> set (pm_SpecAllocations mgr). \<exists>i. findAllocationStatus allocs spec = Some i \<and>
        (n = 0 \<longrightarrow> st_Status (allocs ! i) = InUse)"
    by (elim exE conjE)
  have "reconcileWith now mgr status config res =
      Returned (if n > 0 then requeueAfter (seconds (cfg_PortsCooldownInSeconds config + 1)) else res)
        None (mgr\<lparr>pm_Status := status, pm_Allocations := allocs\<rparr>)"
    using c(1) r(1) by (simp add: reconcileWith_def)
  from that [OF c r this] show thesis .
qed

lemma Reconcile_ok:
  assumes "port_inv (pm_Allocations mgr)" and "counts_ok mgr" and "config_ok gotConfig"
  shows "\<exists>res err mgr'. Reconcile now (Found mgr) gotConfig = Returned res err (Some mgr') \<and>
    port_inv (pm_Allocations mgr') \<and> pm_SpecAllocations mgr' = pm_SpecAllocations mgr"
proof (cases gotConfig)
  case (Found config)
  then have "distinct (enumPorts (NewPortIterator (cfg_Ports config)))"
    using assms(3) by (simp add: config_ok_def)
  then show ?thesis
    by (rule reconcileWith_ok [OF assms(1,2), of config now StatusReady doneResult])
      (simp add: Reconcile_def Found)
next
  case NotFound
  have "distinct (enumPorts (NewPortIterator (cfg_Ports zeroConfig)))"
    by (simp add: zeroConfig_def)
  then show ?thesis
    by (rule reconcileWith_ok [OF assms(1,2), of zeroConfig now StatusSystemConfigurationNotFound requeueResult])
      (simp add: Reconcile_def NotFound)
next
  case (GetError e)
  then show ?thesis using assms(1) by (simp add: Reconcile_def)
qed

lemma pm_reachable_inv: "pm_reachable mgr \<Longrightarrow> port_inv (pm_Allocations mgr) \<and> counts_ok mgr"
proof (induction rule: pm_reachable.induct)
  case (init mgr)
  then show ?case by (simp add: port_inv_def portsInUse_def)
next
  case (client mgr specs)
  then show ?case by simp
next
  case (reconcile mgr gotConfig now res err mgr')
  then show ?case
    using Reconcile_ok [of mgr gotConfig now] by (auto simp: counts_ok_def)
qed

lemma distinct_concat_disjoint:
  assumes "distinct (concat (map f xs))" and "i < length xs" and "j < length xs" and "i \<noteq> j"
  shows "set (f (xs ! i)) \<inter> set (f (xs ! j)) = {}"
  using assms
proof (induction xs arbitrary: i j)
  case Nil
  then show ?case by simp
next
  case (Cons x xs)
  have disj: "set (f x) \<inter> set (f (xs ! n)) = {}" if "n < length xs" for n
    using Cons.prems(1) nth_mem [OF that] by auto
  show ?case
    using Cons disj by (cases i; cases j) auto
qed

section \<open>Properties\<close>


text \<open>A manager with two requesters, for the witnesses.\<close>

definition reqRef :: "string \<Rightarrow> ObjectReference" where
  "reqRef n = emptyRef\<lparr>ref_Name := n\<rparr>"

definition exMgr :: NnfPortManager where
  "exMgr = \<lparr>pm_SystemConfiguration = emptyRef,
     pm_SpecAllocations = [\<lparr>spec_Requester = reqRef ''a'', spec_Count = 2\<rparr>,
                           \<lparr>spec_Requester = reqRef ''b'', spec_Count = 1\<rparr>],
     pm_Allocations = [], pm_Status = StatusReady\<rparr>"

definition exConfig :: SystemConfigurationPorts where
  "exConfig = \<lparr>cfg_Ports = [StrVal ''5000-5002'', IntVal 6000], cfg_PortsCooldownInSeconds = 60\<rparr>"

definition exMgr1 :: NnfPortManager where
  "exMgr1 = exMgr\<lparr>pm_Allocations :=
     [\<lparr>st_Requester = Some (reqRef ''a''), st_Ports = [5000, 5001], st_Status = InUse,
       st_TimeUnallocated = None\<rparr>,
      \<lparr>st_Requester = Some (reqRef ''b''), st_Ports = [5002], st_Status = InUse,
       st_TimeUnallocated = None\<rparr>]\<rparr>"

lemma parse_5000_5002: "parseRange ''5000-5002'' = Some (5000, 5002)"
  by (simp add: parseRange_def go_split2_def parse_uint_def digit_val_def)

lemma exConfig_ports: "enumPorts (NewPortIterator (cfg_Ports exConfig)) = [5000, 5001, 5002, 6000]"
  using enumPorts_from [of "cfg_Ports exConfig" 0]
  by (simp add: NewPortIterator_def exConfig_def port_entry_ok_def expandPorts_def parse_5000_5002
      upt_rec)

lemma reqRef_eq [simp]: "reqRef m = reqRef n \<longleftrightarrow> m = n"
  by (simp add: reqRef_def emptyRef_def)

lemma exMgr_Reconcile:
  "Reconcile (\<lambda>_. 0) (Found exMgr) (Found exConfig) = Returned doneResult None (Some exMgr1)"
  by (simp add: Reconcile_def reconcileWith_def exMgr_def exMgr1_def cleanup_eq_list
      reconcileSpec_def findFreePorts_def claimFromConfig_eq exConfig_ports portsInUse_def held_def
      slicePorts_def Let_def)

lemma exMgr1_reachable: "pm_reachable exMgr1"
proof (rule pm_reachable.reconcile [OF _ _ exMgr_Reconcile])
  show "pm_reachable exMgr" by (rule pm_reachable.init) (simp_all add: exMgr_def counts_ok_def)
  show "config_ok (Found exConfig)" by (simp add: config_ok_def exConfig_ports)
qed




text \<open>
  The port search is exact: for a request of \<open>n \<ge> 0\<close> ports it returns the first \<open>n\<close> ports of the
  configuration, in the order of the configuration, that are neither in use nor cooling down, and
  reports insufficient resources exactly when there are fewer than \<open>n\<close> of them.
\<close>

theorem findFreePorts_exact:
  assumes "0 \<le> spec_Count spec" and "port_inv allocs"
  shows "findFreePorts allocs config spec =
    Inr (allocs, if spec_Count spec \<le> int (length (freePorts allocs config))
                 then (take (nat (spec_Count spec)) (freePorts allocs config), InUse)
                 else ([], InsufficientResources))"
  using findFreePorts_eq [OF assms(1)] assms(2) by (auto simp: port_inv_def list_all_iff entry_ok_def)

theorem findFreePorts_exact_witness:
  "findFreePorts (pm_Allocations exMgr1) exConfig \<lparr>spec_Requester = reqRef ''c'', spec_Count = 1\<rparr> =
     Inr (pm_Allocations exMgr1, [6000], InUse)"
proof -
  have free: "freePorts (pm_Allocations exMgr1) exConfig = [6000]"
    by (simp add: freePorts_def exConfig_ports portsInUse_def exMgr1_def held_def)
  show ?thesis
    using findFreePorts_exact [of "\<lparr>spec_Requester = reqRef ''c'', spec_Count = 1\<rparr>"
        "pm_Allocations exMgr1" exConfig] pm_reachable_inv [OF exMgr1_reachable] free by simp
qed

text \<open>
  An allocation that is in use and still requested survives every reconcile unchanged: it keeps
  its entry and its ports, whatever the configuration and the other requests are.
\<close>

theorem Reconcile_keeps_in_use:
  assumes "pm_reachable mgr" and "config_ok gotConfig"
    and "a \<in> set (pm_Allocations mgr)" and "st_Status a = InUse"
    and "isAllocationNeeded (pm_SpecAllocations mgr) a"
    and "Reconcile now (Found mgr) gotConfig = Returned res err (Some mgr')"
  shows "a \<in> set (pm_Allocations mgr')"
proof -
  have inv: "port_inv (pm_Allocations mgr)" "counts_ok mgr"
    using pm_reachable_inv [OF assms(1)] by auto
  have entry: "\<And>t c. cleanupEntry t c (pm_SpecAllocations mgr) a = Inr (a, False)"
    using assms(5) by (simp add: cleanupEntry_def)
  have kept: "a \<in> set (pm_Allocations m')"
    if dist: "distinct (enumPorts (NewPortIterator (cfg_Ports config)))"
      and ret: "reconcileWith now mgr st config r = Returned res err m'" for config st r m'
  proof -
    obtain cleaned allocs and n :: nat where c: "cleanupUnusedAllocations now (cfg_PortsCooldownInSeconds config)
          (pm_SpecAllocations mgr) (pm_Allocations mgr) = Inr cleaned" "keeps cleaned allocs"
        "reconcileWith now mgr st config r = Returned
          (if n > 0 then requeueAfter (seconds (cfg_PortsCooldownInSeconds config + 1)) else r)
          None (mgr\<lparr>pm_Status := st, pm_Allocations := allocs\<rparr>)"
      by (rule reconcileWith_ok [OF inv dist, of now st r]) blast
    have "a \<in> set cleaned"
      using cleanupList_mem_at [OF c(1) [unfolded cleanup_eq_list] assms(3) entry] .
    then have "a \<in> set allocs" by (rule keeps_mem [OF c(2) _ assms(4)])
    then show ?thesis using ret c(3) by auto
  qed
  show ?thesis
  proof (cases gotConfig)
    case (Found config)
    then show ?thesis
      using kept [of config StatusReady doneResult] assms(2,6)
      by (auto simp: Reconcile_def config_ok_def split: outcome.splits)
  next
    case NotFound
    then show ?thesis
      using kept [of zeroConfig StatusSystemConfigurationNotFound requeueResult] assms(6)
      by (auto simp: Reconcile_def zeroConfig_def split: outcome.splits)
  next
    case (GetError e)
    then show ?thesis using assms(3,6) by (auto simp: Reconcile_def)
  qed
qed

lemma exMgr1_again:
  "Reconcile (\<lambda>_. 0) (Found exMgr1) NotFound =
     Returned requeueResult None (Some (exMgr1\<lparr>pm_Status := StatusSystemConfigurationNotFound\<rparr>))"
  by (simp add: Reconcile_def reconcileWith_def exMgr_def exMgr1_def cleanup_eq_list cleanupEntry_def
      isAllocationNeeded_def reconcileSpec_def)

theorem Reconcile_keeps_in_use_witness:
  "pm_Allocations exMgr1 ! 0 \<in>
     set (pm_Allocations (exMgr1\<lparr>pm_Status := StatusSystemConfigurationNotFound\<rparr>))"
proof -
  have "config_ok NotFound" "pm_Allocations exMgr1 ! 0 \<in> set (pm_Allocations exMgr1)"
    "st_Status (pm_Allocations exMgr1 ! 0) = InUse"
    "isAllocationNeeded (pm_SpecAllocations exMgr1) (pm_Allocations exMgr1 ! 0)"
    by (simp_all add: config_ok_def exMgr1_def exMgr_def isAllocationNeeded_def)
  from Reconcile_keeps_in_use [OF exMgr1_reachable this exMgr1_again] show ?thesis .
qed

text \<open>
  Every request is answered: after a reconcile each requester has an entry, and unless the
  reconcile asks to be called again after the cooldown, every requester has an allocation that is in
  use.
\<close>

theorem Reconcile_answers:
  assumes "pm_reachable mgr" and "config_ok (Found config)"
    and "spec \<in> set (pm_SpecAllocations mgr)"
    and "Reconcile now (Found mgr) (Found config) = Returned res err (Some mgr')"
  shows "\<exists>i. findAllocationStatus (pm_Allocations mgr') spec = Some i \<and>
    (st_Status (pm_Allocations mgr' ! i) = InUse \<or>
     res = requeueAfter (seconds (cfg_PortsCooldownInSeconds config + 1)))"
proof -
  have inv: "port_inv (pm_Allocations mgr)" "counts_ok mgr"
    using pm_reachable_inv [OF assms(1)] by auto
  have dist: "distinct (enumPorts (NewPortIterator (cfg_Ports config)))"
    using assms(2) by (simp add: config_ok_def)
  obtain allocs and n :: nat where c:
      "\<forall>spec \<in> set (pm_SpecAllocations mgr). \<exists>i. findAllocationStatus allocs spec = Some i \<and>
        (n = 0 \<longrightarrow> st_Status (allocs ! i) = InUse)"
      "reconcileWith now mgr StatusReady config doneResult = Returned
        (if n > 0 then requeueAfter (seconds (cfg_PortsCooldownInSeconds config + 1)) else doneResult)
        None (mgr\<lparr>pm_Status := StatusReady, pm_Allocations := allocs\<rparr>)"
    by (rule reconcileWith_ok [OF inv dist, of now StatusReady doneResult]) blast
  have "mgr' = mgr\<lparr>pm_Status := StatusReady, pm_Allocations := allocs\<rparr>"
    and "res = (if n > 0 then requeueAfter (seconds (cfg_PortsCooldownInSeconds config + 1)) else doneResult)"
    using assms(4) c(2) by (auto simp: Reconcile_def)
  then show ?thesis using c(1) assms(3) by (cases "n = 0") force+
qed

theorem Reconcile_answers_witness:
  "\<exists>i. findAllocationStatus (pm_Allocations exMgr1) \<lparr>spec_Requester = reqRef ''b'', spec_Count = 1\<rparr> = Some i \<and>
     (st_Status (pm_Allocations exMgr1 ! i) = InUse \<or> doneResult = requeueAfter (seconds 61))"
proof -
  have r: "pm_reachable exMgr" by (rule pm_reachable.init) (simp_all add: exMgr_def counts_ok_def)
  have c: "config_ok (Found exConfig)" by (simp add: config_ok_def exConfig_ports)
  have s: "\<lparr>spec_Requester = reqRef ''b'', spec_Count = 1\<rparr> \<in> set (pm_SpecAllocations exMgr)"
    by (simp add: exMgr_def)
  from Reconcile_answers [OF r c s exMgr_Reconcile] show ?thesis by (simp add: exConfig_def)
qed

text \<open>
  Cooldown: an allocation that was released stays, with all its ports, as long as the cooldown
  has not passed on any of the clock readings of the reconcile and nobody asks for its requester
  again; so (with the exclusive ownership of the result) none of its ports is handed out.
\<close>

theorem Reconcile_cooldown_holds:
  assumes "pm_reachable mgr" and "config_ok (Found config)"
    and "a \<in> set (pm_Allocations mgr)" and "st_Status a = Cooldown" and "st_TimeUnallocated a = Some t"
    and "cfg_PortsCooldownInSeconds config \<noteq> 0"
    and "\<forall>i. time_Sub (now i) t < seconds (cfg_PortsCooldownInSeconds config)"
    and "\<forall>spec \<in> set (pm_SpecAllocations mgr). st_Requester a \<noteq> Some (spec_Requester spec)"
    and "Reconcile now (Found mgr) (Found config) = Returned res err (Some mgr')"
  shows "a \<in> set (pm_Allocations mgr') \<and> port_inv (pm_Allocations mgr')"
proof -
  have inv: "port_inv (pm_Allocations mgr)" "counts_ok mgr"
    using pm_reachable_inv [OF assms(1)] by auto
  obtain cleaned allocs where c:
      "cleanupUnusedAllocations now (cfg_PortsCooldownInSeconds config) (pm_SpecAllocations mgr)
        (pm_Allocations mgr) = Inr cleaned" "port_inv cleaned"
      "reconcileSpecs StatusReady config cleaned (pm_SpecAllocations mgr) = Inr allocs"
      "port_inv (fst allocs)" "pm_Allocations mgr' = fst allocs"
  proof -
    have dist: "distinct (enumPorts (NewPortIterator (cfg_Ports config)))"
      using assms(2) by (simp add: config_ok_def)
    show thesis
      by (rule reconcileWith_ok [OF inv dist, of now StatusReady doneResult], rule that)
        (use assms(9) in \<open>auto simp: Reconcile_def\<close>)
  qed
  have "a \<in> set cleaned"
    by (rule cleanupList_mem_at [OF c(1) [unfolded cleanup_eq_list] assms(3)])
      (use assms(4-7) in \<open>auto simp: cleanupEntry_def isAllocationNeeded_def not_le\<close>)
  then have "a \<in> set (fst allocs)"
    using reconcileSpecs_other [OF c(3) c(2) _ assms(8)] inv(2) assms(2)
    by (simp add: counts_ok_def list_all_iff config_ok_def)
  then show ?thesis using c by simp
qed

text \<open>The requester \<open>a\<close> of the example gives its ports back: they go into cooldown at time 0.\<close>

definition exMgr2 :: NnfPortManager where
  "exMgr2 = exMgr1\<lparr>pm_SpecAllocations := [\<lparr>spec_Requester = reqRef ''b'', spec_Count = 1\<rparr>],
     pm_Allocations :=
     [\<lparr>st_Requester = Some (reqRef ''a''), st_Ports = [5000, 5001], st_Status = Cooldown,
       st_TimeUnallocated = Some 0\<rparr>,
      \<lparr>st_Requester = Some (reqRef ''b''), st_Ports = [5002], st_Status = InUse,
       st_TimeUnallocated = None\<rparr>]\<rparr>"

lemma seconds_60 [simp]: "seconds 60 = 60000000000"
  by (simp add: seconds_def)

lemma exConfig_ok: "config_ok (Found exConfig)"
  by (simp add: config_ok_def exConfig_ports)

lemma exConfig_cooldown [simp]: "cfg_PortsCooldownInSeconds exConfig = 60"
  by (simp add: exConfig_def)

lemmas exRun = Reconcile_def reconcileWith_def cleanup_eq_list cleanupEntry_def
  isAllocationNeeded_def reconcileSpec_def findFreePorts_def claimFromConfig_eq exConfig_ports
  portsInUse_def held_def slicePorts_def Let_def time_Sub_def

lemma exMgr1_release:
  "Reconcile (\<lambda>_. 0)
     (Found (exMgr1\<lparr>pm_SpecAllocations := [\<lparr>spec_Requester = reqRef ''b'', spec_Count = 1\<rparr>]\<rparr>))
     (Found exConfig) = Returned doneResult None (Some exMgr2)"
  by (simp add: exRun exMgr_def exMgr1_def exMgr2_def)

lemma exMgr2_reachable: "pm_reachable exMgr2"
proof (rule pm_reachable.reconcile [OF _ exConfig_ok exMgr1_release])
  show "pm_reachable (exMgr1\<lparr>pm_SpecAllocations := [\<lparr>spec_Requester = reqRef ''b'', spec_Count = 1\<rparr>]\<rparr>)"
    by (rule pm_reachable.client [OF exMgr1_reachable]) (simp add: counts_ok_def)
qed

lemma exMgr2_again:
  "Reconcile (\<lambda>_. second) (Found exMgr2) (Found exConfig) = Returned doneResult None (Some exMgr2)"
  by (simp add: exRun exMgr_def exMgr1_def exMgr2_def)

theorem Reconcile_cooldown_holds_witness:
  "pm_Allocations exMgr2 ! 0 \<in> set (pm_Allocations exMgr2) \<and> st_Status (pm_Allocations exMgr2 ! 0) = Cooldown"
proof -
  have "pm_Allocations exMgr2 ! 0 \<in> set (pm_Allocations exMgr2)"
    and s: "st_Status (pm_Allocations exMgr2 ! 0) = Cooldown"
    and "st_TimeUnallocated (pm_Allocations exMgr2 ! 0) = Some 0"
    and "cfg_PortsCooldownInSeconds exConfig \<noteq> 0"
    and "\<forall>i::nat. time_Sub ((\<lambda>_. second) i) 0 < seconds (cfg_PortsCooldownInSeconds exConfig)"
    and "\<forall>spec \<in> set (pm_SpecAllocations exMgr2).
      st_Requester (pm_Allocations exMgr2 ! 0) \<noteq> Some (spec_Requester spec)"
    by (simp_all add: exMgr2_def time_Sub_def)
  from Reconcile_cooldown_holds [OF exMgr2_reachable exConfig_ok this exMgr2_again] s
  show ?thesis by simp
qed

text \<open>
  The port iterator enumerates the configuration: for entries that are a valid port number or a
  range of valid ports, the calls of \<^verbatim>\<open>Next\<close> up to the first invalid port yield the single ports and
  every port of each range, both ends included, in the order of the configuration.
\<close>

theorem enumPorts_expands:
  assumes "list_all port_entry_ok ports"
  shows "enumPorts (NewPortIterator ports) = concat (map expandPorts ports)"
  using enumPorts_from [of ports 0] assms by (simp add: NewPortIterator_def list_all_iff)

theorem enumPorts_expands_witness:
  "enumPorts (NewPortIterator [StrVal ''5000-5002'', IntVal 6000]) =
     concat (map expandPorts [StrVal ''5000-5002'', IntVal 6000])"
  by (rule enumPorts_expands) (simp add: port_entry_ok_def parse_5000_5002)

text \<open>
  Removal by collected indices, back to front, is the same as dropping each expired entry while
  walking over the allocations once: no other entry is lost, repeated or reordered.
\<close>

theorem cleanup_drops_expired:
  "cleanupUnusedAllocations now cooldown specs allocs = cleanupList now cooldown specs 0 allocs"
  by (rule cleanup_eq_list)

text \<open>
  A leak: when an entry in cooldown is requested again it becomes in use but keeps its old time
  stamp. Once such an entry is released for good, no reconcile with a non-zero cooldown ever takes
  its ports back, at whatever time it runs: the entry stays in use with all its ports.
\<close>

theorem reused_entry_leaks:
  assumes "pm_reachable mgr" and "config_ok (Found config)"
    and "a \<in> set (pm_Allocations mgr)" and "st_Status a = InUse" and "st_TimeUnallocated a = Some t"
    and "cfg_PortsCooldownInSeconds config \<noteq> 0"
    and "\<forall>spec \<in> set (pm_SpecAllocations mgr). st_Requester a \<noteq> Some (spec_Requester spec)"
    and "Reconcile now (Found mgr) (Found config) = Returned res err (Some mgr')"
  shows "a \<in> set (pm_Allocations mgr')"
proof -
  have inv: "port_inv (pm_Allocations mgr)" "counts_ok mgr"
    using pm_reachable_inv [OF assms(1)] by auto
  have dist: "distinct (enumPorts (NewPortIterator (cfg_Ports config)))"
    using assms(2) by (simp add: config_ok_def)
  have entry: "\<And>t. cleanupEntry t (cfg_PortsCooldownInSeconds config) (pm_SpecAllocations mgr) a = Inr (a, False)"
    using assms(4-7) by (auto simp: cleanupEntry_def isAllocationNeeded_def list_ex_iff)
  obtain cleaned allocs and n :: nat where c:
      "cleanupUnusedAllocations now (cfg_PortsCooldownInSeconds config)
        (pm_SpecAllocations mgr) (pm_Allocations mgr) = Inr cleaned" "keeps cleaned allocs"
      "reconcileWith now mgr StatusReady config doneResult = Returned
        (if n > 0 then requeueAfter (seconds (cfg_PortsCooldownInSeconds config + 1)) else doneResult)
        None (mgr\<lparr>pm_Status := StatusReady, pm_Allocations := allocs\<rparr>)"
    by (rule reconcileWith_ok [OF inv dist, of now StatusReady doneResult]) blast
  have "a \<in> set cleaned"
    using cleanupList_mem_at [OF c(1) [unfolded cleanup_eq_list] assms(3) entry] .
  then have "a \<in> set allocs" by (rule keeps_mem [OF c(2) _ assms(4)])
  then show ?thesis using assms(8) c(3) by (auto simp: Reconcile_def)
qed

text \<open>The requester \<open>a\<close> of the example comes back for one port and leaves again.\<close>

definition exMgr3 :: NnfPortManager where
  "exMgr3 = exMgr2\<lparr>pm_Allocations :=
     [\<lparr>st_Requester = Some (reqRef ''a''), st_Ports = [6000], st_Status = InUse,
       st_TimeUnallocated = Some 0\<rparr>,
      \<lparr>st_Requester = Some (reqRef ''b''), st_Ports = [5002], st_Status = InUse,
       st_TimeUnallocated = None\<rparr>]\<rparr>"

lemma exMgr2_reuse:
  "Reconcile (\<lambda>_. second)
     (Found (exMgr2\<lparr>pm_SpecAllocations := [\<lparr>spec_Requester = reqRef ''a'', spec_Count = 1\<rparr>,
        \<lparr>spec_Requester = reqRef ''b'', spec_Count = 1\<rparr>]\<rparr>)) (Found exConfig) =
   Returned doneResult None
     (Some (exMgr3\<lparr>pm_SpecAllocations := [\<lparr>spec_Requester = reqRef ''a'', spec_Count = 1\<rparr>,
        \<lparr>spec_Requester = reqRef ''b'', spec_Count = 1\<rparr>]\<rparr>))"
  by (simp add: exRun exMgr_def exMgr1_def exMgr2_def exMgr3_def)

lemma exMgr3_reachable: "pm_reachable exMgr3"
proof -
  let ?specs = "[\<lparr>spec_Requester = reqRef ''a'', spec_Count = 1\<rparr>, \<lparr>spec_Requester = reqRef ''b'', spec_Count = 1\<rparr>]"
  have "pm_reachable (exMgr2\<lparr>pm_SpecAllocations := ?specs\<rparr>)"
    by (rule pm_reachable.client [OF exMgr2_reachable]) (simp add: counts_ok_def)
  then have "pm_reachable (exMgr3\<lparr>pm_SpecAllocations := ?specs\<rparr>)"
    by (rule pm_reachable.reconcile [OF _ exConfig_ok exMgr2_reuse])
  then have "pm_reachable (exMgr3\<lparr>pm_SpecAllocations := ?specs, pm_SpecAllocations :=
      [\<lparr>spec_Requester = reqRef ''b'', spec_Count = 1\<rparr>]\<rparr>)"
    by (rule pm_reachable.client) (simp add: counts_ok_def)
  then show ?thesis by (simp add: exMgr3_def exMgr2_def exMgr1_def exMgr_def)
qed

lemma exMgr3_late:
  "Reconcile (\<lambda>_. 3600 * second) (Found exMgr3) (Found exConfig) = Returned doneResult None (Some exMgr3)"
  by (simp add: exRun exMgr_def exMgr1_def exMgr2_def exMgr3_def)

theorem reused_entry_leaks_witness:
  "pm_Allocations exMgr3 ! 0 \<in> set (pm_Allocations exMgr3) \<and> st_Ports (pm_Allocations exMgr3 ! 0) = [6000]"
proof -
  have "pm_Allocations exMgr3 ! 0 \<in> set (pm_Allocations exMgr3)"
    and "st_Status (pm_Allocations exMgr3 ! 0) = InUse"
    and "st_TimeUnallocated (pm_Allocations exMgr3 ! 0) = Some 0"
    and "cfg_PortsCooldownInSeconds exConfig \<noteq> 0"
    and "\<forall>spec \<in> set (pm_SpecAllocations exMgr3).
      st_Requester (pm_Allocations exMgr3 ! 0) \<noteq> Some (spec_Requester spec)"
    by (simp_all add: exMgr3_def exMgr2_def)
  from reused_entry_leaks [OF exMgr3_reachable exConfig_ok this exMgr3_late]
  show ?thesis by (simp add: exMgr3_def)
qed

end
