(* ===== verification/Json.thy ===== *)
theory Json
  imports GoStrings
begin

text \<open>
  What the program uses of Go's \<^verbatim>\<open>encoding/json\<close>: the grammar of JSON, and decoding of objects
  into structs whose fields are strings or slices of such structs. Texts are byte strings. Member
  names match field names up to the case of ASCII letters, as Go does; an unknown member is
  skipped, a \<^verbatim>\<open>null\<close> leaves the zero value, and a value of another type is an error.
  Decoding is deterministic, so what a caller sees is a value or an error; the text of the
  error is not modelled. Rendering (\<open>jrender\<close>) is the inverse used to state the round trip.
\<close>

section \<open>Values and their grammar\<close>

datatype json =
  JNull | JBool bool | JNum string | JStr string | JArr "json list" | JObj "(string \<times> json) list"

definition jspace :: "char \<Rightarrow> bool" where
  "jspace c = (c \<in> {CHR '' '', CHR 0x09, CHR 0x0A, CHR 0x0D})"

abbreviation skip_ws :: "string \<Rightarrow> string" where
  "skip_ws \<equiv> dropWhile jspace"

definition hex_val :: "char \<Rightarrow> nat option" where
  "hex_val c = (let n = of_char c in
     if 48 \<le> n \<and> n \<le> 57 then Some (n - 48)
     else if 97 \<le> n \<and> n \<le> 102 then Some (n - 87)
     else if 65 \<le> n \<and> n \<le> 70 then Some (n - 55) else (None :: nat option))"

definition hex4 :: "char \<Rightarrow> char \<Rightarrow> char \<Rightarrow> char \<Rightarrow> nat option" where
  "hex4 a b c d = (case (hex_val a, hex_val b, hex_val c, hex_val d) of
     (Some i, Some j, Some k, Some l) \<Rightarrow> Some (((i * 16 + j) * 16 + k) * 16 + l) | _ \<Rightarrow> None)"

text \<open>UTF-8 of a code point.\<close>

definition utf8 :: "nat \<Rightarrow> string" where
  "utf8 n = map char_of
     (if n < 128 then [n]
      else if n < 2048 then [192 + n div 64, 128 + n mod 64]
      else if n < 65536 then [224 + n div 4096, 128 + n div 64 mod 64, 128 + n mod 64]
      else [240 + n div 262144, 128 + n div 4096 mod 64, 128 + n div 64 mod 64, 128 + n mod 64])"

text \<open>A single UTF-16 surrogate is replaced by U+FFFD.\<close>

definition rune :: "nat \<Rightarrow> string" where
  "rune n = utf8 (if 55296 \<le> n \<and> n < 57344 then 65533 else n)"

definition simple_escape :: "char \<Rightarrow> char option" where
  "simple_escape c =
     (if c \<in> {CHR 0x22, CHR 0x5C, CHR ''/''} then Some c
      else if c = CHR ''b'' then Some (CHR 0x08) else if c = CHR ''f'' then Some (CHR 0x0C)
      else if c = CHR ''n'' then Some (CHR 0x0A) else if c = CHR ''r'' then Some (CHR 0x0D)
      else if c = CHR ''t'' then Some (CHR 0x09) else None)"

text \<open>The text after an opening quote: the string and what follows its closing quote.\<close>

fun jstring :: "string \<Rightarrow> (string \<times> string) option" where
  "jstring [] = None"
| "jstring (c # s) =
     (if c = CHR 0x22 then Some ([], s)
      else if c \<noteq> CHR 0x5C then
        (if of_char c < (32 :: nat) then None
         else case jstring s of None \<Rightarrow> None | Some (t, r) \<Rightarrow> Some (c # t, r))
      else case s of
        [] \<Rightarrow> None
      | e # s1 \<Rightarrow>
          (if e \<noteq> CHR ''u'' then
             (case simple_escape e of None \<Rightarrow> None
              | Some x \<Rightarrow> (case jstring s1 of None \<Rightarrow> None | Some (t, r) \<Rightarrow> Some (x # t, r)))
           else case s1 of
             h1 # h2 # h3 # h4 # s2 \<Rightarrow>
               (case hex4 h1 h2 h3 h4 of None \<Rightarrow> None
                | Some n \<Rightarrow>
                   (case s2 of
                      b1 # b2 # g1 # g2 # g3 # g4 # s3 \<Rightarrow>
                        (case (if b1 = CHR 0x5C \<and> b2 = CHR ''u'' \<and> 55296 \<le> n \<and> n < 56320
                               then hex4 g1 g2 g3 g4 else None) of
                           Some m \<Rightarrow>
                             (if 56320 \<le> m \<and> m < 57344 then
                                (case jstring s3 of None \<Rightarrow> None
                                 | Some (t, r) \<Rightarrow>
                                     Some (utf8 (65536 + (n - 55296) * 1024 + (m - 56320)) @ t, r))
                              else
                                (case jstring s2 of None \<Rightarrow> None
                                 | Some (t, r) \<Rightarrow> Some (rune n @ t, r)))
                         | None \<Rightarrow>
                             (case jstring s2 of None \<Rightarrow> None
                              | Some (t, r) \<Rightarrow> Some (rune n @ t, r)))
                    | _ \<Rightarrow>
                        (case jstring s2 of None \<Rightarrow> None
                         | Some (t, r) \<Rightarrow> Some (rune n @ t, r))))
           | _ \<Rightarrow> None))"

abbreviation isdigit :: "char \<Rightarrow> bool" where
  "isdigit c \<equiv> digit_val c \<noteq> None"

definition jdigits :: "string \<Rightarrow> (string \<times> string) option" where
  "jdigits s = (let d = takeWhile isdigit s in
     if d = [] then None else Some (d, dropWhile isdigit s))"

definition jint :: "string \<Rightarrow> (string \<times> string) option" where
  "jint s = (case s of
     [] \<Rightarrow> None
   | c # r \<Rightarrow> if c = CHR ''0'' then Some ([c], r) else jdigits s)"

definition jfrac :: "string \<Rightarrow> (string \<times> string) option" where
  "jfrac s = (case s of
     [] \<Rightarrow> Some ([], [])
   | c # r \<Rightarrow> if c = CHR ''.'' then map_option (\<lambda>(d, q). (c # d, q)) (jdigits r) else Some ([], s))"

definition jexp :: "string \<Rightarrow> (string \<times> string) option" where
  "jexp s = (case s of
     [] \<Rightarrow> Some ([], [])
   | c # r \<Rightarrow>
       if c \<noteq> CHR ''e'' \<and> c \<noteq> CHR ''E'' then Some ([], s)
       else case r of
         [] \<Rightarrow> None
       | g # q \<Rightarrow> if g = CHR ''+'' \<or> g = CHR ''-'' then map_option (\<lambda>(d, q'). (c # g # d, q')) (jdigits q)
                 else map_option (\<lambda>(d, q'). (c # d, q')) (jdigits r))"

definition jnumber :: "string \<Rightarrow> (string \<times> string) option" where
  "jnumber s =
     (let (sign, s0) = (case s of c # r \<Rightarrow> if c = CHR ''-'' then ([c], r) else ([], s) | [] \<Rightarrow> ([], s))
      in case jint s0 of None \<Rightarrow> None
         | Some (i, s1) \<Rightarrow> (case jfrac s1 of None \<Rightarrow> None
            | Some (f, s2) \<Rightarrow> (case jexp s2 of None \<Rightarrow> None
               | Some (e, s3) \<Rightarrow> Some (sign @ i @ f @ e, s3))))"

text \<open>
  The parser. The fuel bounds the depth of the calls; every two calls consume a character, so twice
  the length of the text is enough.
\<close>

fun jvalue :: "nat \<Rightarrow> string \<Rightarrow> (json \<times> string) option"
  and jelems :: "nat \<Rightarrow> string \<Rightarrow> (json list \<times> string) option"
  and jmembers :: "nat \<Rightarrow> string \<Rightarrow> ((string \<times> json) list \<times> string) option" where
  "jvalue 0 s = None"
| "jvalue (Suc n) s =
     (case skip_ws s of
        [] \<Rightarrow> None
      | c # r \<Rightarrow>
          if c = CHR 0x22 then map_option (\<lambda>(t, q). (JStr t, q)) (jstring r)
          else if c = CHR ''['' then
            (case skip_ws r of
               [] \<Rightarrow> None
             | d # q \<Rightarrow> if d = CHR '']'' then Some (JArr [], q)
                       else map_option (\<lambda>(xs, q). (JArr xs, q)) (jelems n (d # q)))
          else if c = CHR ''{'' then
            (case skip_ws r of
               [] \<Rightarrow> None
             | d # q \<Rightarrow> if d = CHR ''}'' then Some (JObj [], q)
                       else map_option (\<lambda>(ms, q). (JObj ms, q)) (jmembers n (d # q)))
          else if prefix ''null'' (c # r) then Some (JNull, drop 3 r)
          else if prefix ''true'' (c # r) then Some (JBool True, drop 3 r)
          else if prefix ''false'' (c # r) then Some (JBool False, drop 4 r)
          else map_option (\<lambda>(t, q). (JNum t, q)) (jnumber (c # r)))"
| "jelems 0 s = None"
| "jelems (Suc n) s =
     (case jvalue n s of
        None \<Rightarrow> None
      | Some (x, r) \<Rightarrow>
          (case skip_ws r of
             [] \<Rightarrow> None
           | c # q \<Rightarrow>
               if c = CHR '']'' then Some ([x], q)
               else if c = CHR '','' then map_option (\<lambda>(xs, q). (x # xs, q)) (jelems n q)
               else None))"
| "jmembers 0 s = None"
| "jmembers (Suc n) s =
     (case skip_ws s of
        [] \<Rightarrow> None
      | c0 # s0 \<Rightarrow>
          if c0 \<noteq> CHR 0x22 then None
          else case jstring s0 of
            None \<Rightarrow> None
          | Some (k, s1) \<Rightarrow>
              (case skip_ws s1 of
                 [] \<Rightarrow> None
               | c1 # s2 \<Rightarrow>
                   if c1 \<noteq> CHR '':'' then None
                   else case jvalue n s2 of
                     None \<Rightarrow> None
                   | Some (x, r) \<Rightarrow>
                       (case skip_ws r of
                          [] \<Rightarrow> None
                        | c # q \<Rightarrow>
                            if c = CHR ''}'' then Some ([(k, x)], q)
                            else if c = CHR '','' then
                              map_option (\<lambda>(ms, q). ((k, x) # ms, q)) (jmembers n q)
                            else None)))"

definition jparse :: "string \<Rightarrow> json option" where
  "jparse s = (case jvalue (2 * length s + 2) s of
     Some (j, r) \<Rightarrow> if skip_ws r = [] then Some j else None
   | None \<Rightarrow> None)"

section \<open>Decoding into structs\<close>

definition ascii_lower :: "char \<Rightarrow> char" where
  "ascii_lower c = (let n = of_char c in if 65 \<le> n \<and> n \<le> 90 then char_of (n + 32 :: nat) else c)"

definition same_field :: "string \<Rightarrow> string \<Rightarrow> bool" where
  "same_field f k = (map ascii_lower f = map ascii_lower k)"

text \<open>A string field of a struct: the last member of that name that is not \<^verbatim>\<open>null\<close>.\<close>

fun strField :: "string \<Rightarrow> string \<Rightarrow> (string \<times> json) list \<Rightarrow> string res" where
  "strField f v [] = Inr v"
| "strField f v ((k, j) # ms) =
     (if same_field f k then
        (case j of JStr t \<Rightarrow> strField f t ms
         | JNull \<Rightarrow> strField f v ms
         | _ \<Rightarrow> Inl (Fail ''json: cannot unmarshal value into Go struct field of type string''))
      else strField f v ms)"

text \<open>The members of a value that is decoded into a struct.\<close>

fun structOf :: "json \<Rightarrow> (string \<times> json) list res" where
  "structOf (JObj ms) = Inr ms"
| "structOf JNull = Inr []"
| "structOf _ = Inl (Fail ''json: cannot unmarshal value into Go value of struct type'')"

text \<open>A field that is a slice: the elements of the last member of that name.\<close>

fun arrField :: "string \<Rightarrow> json list \<Rightarrow> (string \<times> json) list \<Rightarrow> json list res" where
  "arrField f v [] = Inr v"
| "arrField f v ((k, j) # ms) =
     (if same_field f k then
        (case j of JArr xs \<Rightarrow> arrField f xs ms
         | JNull \<Rightarrow> arrField f [] ms
         | _ \<Rightarrow> Inl (Fail ''json: cannot unmarshal value into Go struct field of slice type''))
      else arrField f v ms)"

fun mapRes :: "('a \<Rightarrow> 'b res) \<Rightarrow> 'a list \<Rightarrow> 'b list res" where
  "mapRes f [] = Inr []"
| "mapRes f (x # xs) =
     (case f x of Inl e \<Rightarrow> Inl e
      | Inr y \<Rightarrow> (case mapRes f xs of Inl e \<Rightarrow> Inl e | Inr ys \<Rightarrow> Inr (y # ys)))"

definition bindR :: "'a res \<Rightarrow> ('a \<Rightarrow> 'b res) \<Rightarrow> 'b res" where
  "bindR r f = (case r of Inl e \<Rightarrow> Inl e | Inr x \<Rightarrow> f x)"

lemma bindR_simps [simp]: "bindR (Inl e) f = Inl e" "bindR (Inr x) f = f x"
  by (simp_all add: bindR_def)

section \<open>Rendering and the round trip\<close>

definition jescape :: "string \<Rightarrow> string" where
  "jescape s = concat (map (\<lambda>c. if c = CHR 0x22 \<or> c = CHR 0x5C then [CHR 0x5C, c] else [c]) s)"

definition jquote :: "string \<Rightarrow> string" where
  "jquote s = CHR 0x22 # jescape s @ [CHR 0x22]"

fun jrender :: "json \<Rightarrow> string" where
  "jrender JNull = ''null''"
| "jrender (JBool b) = (if b then ''true'' else ''false'')"
| "jrender (JNum t) = t"
| "jrender (JStr t) = jquote t"
| "jrender (JArr xs) = CHR ''['' # go_join '','' (map jrender xs) @ '']''"
| "jrender (JObj ms) = CHR ''{'' # go_join '','' (map (\<lambda>(k, j). jquote k @ CHR '':'' # jrender j) ms) @ ''}''"

text \<open>Printable texts and values without numbers, for which the round trip is stated.\<close>

definition printable :: "string \<Rightarrow> bool" where
  "printable s = list_all (\<lambda>c. (32 :: nat) \<le> of_char c) s"

fun jplain :: "json \<Rightarrow> bool" where
  "jplain JNull = True"
| "jplain (JBool b) = True"
| "jplain (JNum t) = False"
| "jplain (JStr t) = printable t"
| "jplain (JArr xs) = list_all jplain xs"
| "jplain (JObj ms) = list_all (\<lambda>(k, j). printable k \<and> jplain j) ms"

lemma jstring_escape: "printable t \<Longrightarrow> jstring (jescape t @ CHR 0x22 # r) = Some (t, r)"
proof (induction t)
  case Nil
  then show ?case by (simp add: jescape_def)
next
  case (Cons c t)
  then have IH: "jstring (jescape t @ CHR 0x22 # r) = Some (t, r)" and c: "\<not> of_char c < (32 :: nat)"
    by (auto simp: printable_def)
  have esc: "jescape (c # t) = (if c = CHR 0x22 \<or> c = CHR 0x5C then [CHR 0x5C, c] else [c]) @ jescape t"
    by (simp add: jescape_def)
  show ?case
  proof (cases "c = CHR 0x22 \<or> c = CHR 0x5C")
    case True
    then show ?thesis using IH esc by (auto simp: simple_escape_def)
  next
    case False
    then show ?thesis using IH esc c by auto
  qed
qed

lemma jrender_head:
  "jplain j \<Longrightarrow> \<exists>c t. jrender j = c # t \<and> c \<in> set ''ntf[{'' \<union> {CHR 0x22}"
  by (cases j) (auto simp: jquote_def)

lemma skip_ws_Cons: "\<not> jspace c \<Longrightarrow> skip_ws (c # s) = c # s"
  by simp

lemma head_not_space: "c \<in> set ''ntf[{'' \<union> {CHR 0x22} \<Longrightarrow> \<not> jspace c"
  by (auto simp: jspace_def)

lemma delim_not_space [simp]:
  "\<not> jspace (CHR '','')" "\<not> jspace (CHR '']'')" "\<not> jspace (CHR ''}'')" "\<not> jspace (CHR '':'')"
  "\<not> jspace (CHR 0x22)" "\<not> jspace (CHR ''['')" "\<not> jspace (CHR ''{'')"
  by (auto simp: jspace_def)

text \<open>The round trip for one value, with any fuel of at least twice the length of its text.\<close>

definition jround :: "json \<Rightarrow> bool" where
  "jround j = (\<forall>n r. 2 * length (jrender j) \<le> n \<longrightarrow> jvalue n (jrender j @ r) = Some (j, r))"

lemma jelems_round:
  assumes "\<forall>x \<in> set xs. jround x" and "xs \<noteq> []"
    and "2 * length (go_join '','' (map jrender xs)) + 1 \<le> n"
  shows "jelems n (go_join '','' (map jrender xs) @ CHR '']'' # r) = Some (xs, r)"
  using assms
proof (induction xs arbitrary: n)
  case Nil
  then show ?case by simp
next
  case (Cons x xs)
  then obtain m where n: "n = Suc m" by (cases n) auto
  show ?case
  proof (cases "xs = []")
    case True
    then show ?thesis using Cons.prems n by (simp add: jround_def)
  next
    case False
    then have j: "go_join '','' (map jrender (x # xs)) = jrender x @ CHR '','' # go_join '','' (map jrender xs)"
      by (simp add: go_join_Cons)
    have "jvalue m (jrender x @ CHR '','' # go_join '','' (map jrender xs) @ CHR '']'' # r) =
        Some (x, CHR '','' # go_join '','' (map jrender xs) @ CHR '']'' # r)"
      using Cons.prems n j by (simp add: jround_def)
    moreover have "jelems m (go_join '','' (map jrender xs) @ CHR '']'' # r) = Some (xs, r)"
      using Cons.IH [OF _ False] Cons.prems n j by simp
    ultimately show ?thesis using n j by simp
  qed
qed

abbreviation jmember :: "string \<times> json \<Rightarrow> string" where
  "jmember \<equiv> \<lambda>(k, j). jquote k @ CHR '':'' # jrender j"

lemma jmembers_round:
  assumes "\<forall>(k, j) \<in> set ms. printable k \<and> jround j" and "ms \<noteq> []"
    and "2 * length (go_join '','' (map jmember ms)) + 1 \<le> n"
  shows "jmembers n (go_join '','' (map jmember ms) @ CHR ''}'' # r) = Some (ms, r)"
  using assms
proof (induction ms arbitrary: n)
  case Nil
  then show ?case by simp
next
  case (Cons p ms)
  then obtain m k j where n: "n = Suc m" and p: "p = (k, j)" by (cases n; cases p) auto
  have k: "jstring (jescape k @ CHR 0x22 # s) = Some (k, s)" for s
    using Cons.prems(1) p by (intro jstring_escape) auto
  show ?case
  proof (cases "ms = []")
    case True
    then show ?thesis using Cons.prems n p k by (simp add: jround_def jquote_def)
  next
    case False
    then have e: "go_join '','' (map jmember (p # ms)) =
        jquote k @ CHR '':'' # jrender j @ CHR '','' # go_join '','' (map jmember ms)"
      using p by (simp add: go_join_Cons)
    have "jvalue m (jrender j @ CHR '','' # go_join '','' (map jmember ms) @ CHR ''}'' # r) =
        Some (j, CHR '','' # go_join '','' (map jmember ms) @ CHR ''}'' # r)"
      using Cons.prems n e p by (simp add: jround_def)
    moreover have "jmembers m (go_join '','' (map jmember ms) @ CHR ''}'' # r) = Some (ms, r)"
      using Cons.IH [OF _ False] Cons.prems n e by simp
    ultimately show ?thesis using n e k p by (simp add: jquote_def)
  qed
qed

lemma go_join_head:
  "xs \<noteq> [] \<Longrightarrow> f (hd xs) = c # t \<Longrightarrow> \<exists>t'. go_join sep (map f xs) = c # t'"
  by (cases xs; cases "tl xs") (auto simp: go_join_Cons)

lemma jround_arr:
  assumes "\<forall>x \<in> set xs. jround x \<and> jplain x"
  shows "jround (JArr xs)"
proof (cases "xs = []")
  case True
  have "jvalue n (''[]'' @ r) = Some (JArr [], r)" if "4 \<le> n" for n r
    using that by (cases n) auto
  then show ?thesis using True by (simp add: jround_def)
next
  case False
  obtain c t where ct: "jrender (hd xs) = c # t" "c \<in> set ''ntf[{'' \<union> {CHR 0x22}"
    using jrender_head [of "hd xs"] assms False by auto
  obtain t' where t': "go_join '','' (map jrender xs) = c # t'"
    using go_join_head [where f = jrender, OF False ct(1)] by blast
  have c: "\<not> jspace c" "c \<noteq> CHR '']''" using ct(2) by (auto simp: jspace_def)
  show ?thesis
    unfolding jround_def
  proof (intro allI impI)
    fix n r
    assume n: "2 * length (jrender (JArr xs)) \<le> n"
    then obtain m where m: "n = Suc m" by (cases n) auto
    have "jelems m (go_join '','' (map jrender xs) @ CHR '']'' # r) = Some (xs, r)"
      by (rule jelems_round) (use assms False n m in auto)
    then show "jvalue n (jrender (JArr xs) @ r) = Some (JArr xs, r)"
      using m t' c by simp
  qed
qed

lemma jround_obj:
  assumes "\<forall>(k, j) \<in> set ms. printable k \<and> jround j"
  shows "jround (JObj ms)"
proof (cases "ms = []")
  case True
  have "jvalue n (''{}'' @ r) = Some (JObj [], r)" if "4 \<le> n" for n r
    using that by (cases n) auto
  then show ?thesis using True by (simp add: jround_def)
next
  case False
  have "jmember (hd ms) = CHR 0x22 # jescape (fst (hd ms)) @ CHR 0x22 # CHR '':'' # jrender (snd (hd ms))"
    by (simp add: jquote_def split: prod.splits)
  from go_join_head [where f = jmember, OF False this]
  obtain t' where t': "go_join '','' (map jmember ms) = CHR 0x22 # t'" by blast
  show ?thesis
    unfolding jround_def
  proof (intro allI impI)
    fix n r
    assume n: "2 * length (jrender (JObj ms)) \<le> n"
    then obtain m where m: "n = Suc m" by (cases n) auto
    have "jmembers m (go_join '','' (map jmember ms) @ CHR ''}'' # r) = Some (ms, r)"
      by (rule jmembers_round) (use assms False n m in auto)
    then show "jvalue n (jrender (JObj ms) @ r) = Some (JObj ms, r)"
      using m t' by simp
  qed
qed

lemma jround_atoms: "jround JNull" "jround (JBool b)" "printable t \<Longrightarrow> jround (JStr t)"
proof -
  show "jround JNull"
    unfolding jround_def
  proof (intro allI impI)
    fix n and r :: string
    assume "2 * length (jrender JNull) \<le> n"
    then show "jvalue n (jrender JNull @ r) = Some (JNull, r)"
      by (cases n) (auto simp: jspace_def)
  qed
  show "jround (JBool b)"
    unfolding jround_def
  proof (intro allI impI)
    fix n and r :: string
    assume "2 * length (jrender (JBool b)) \<le> n"
    then show "jvalue n (jrender (JBool b) @ r) = Some (JBool b, r)"
      by (cases n; cases b) (auto simp: jspace_def)
  qed
  show "jround (JStr t)" if "printable t"
    unfolding jround_def
  proof (intro allI impI)
    fix n and r :: string
    assume "2 * length (jrender (JStr t)) \<le> n"
    then obtain m where "n = Suc m" by (cases n) (auto simp: jquote_def)
    then show "jvalue n (jrender (JStr t) @ r) = Some (JStr t, r)"
      using jstring_escape [OF that, of r] by (simp add: jquote_def)
  qed
qed

lemma jround_all: "jplain j \<Longrightarrow> jround j"
proof (induction j)
  case (JArr xs)
  then show ?case by (intro jround_arr) (auto simp: list_all_iff)
next
  case (JObj ms)
  then show ?case by (intro jround_obj) (auto simp: list_all_iff)
qed (use jround_atoms in auto)

lemma jparse_jrender:
  assumes "jplain j"
  shows "jparse (jrender j) = Some j"
proof -
  have "2 * length (jrender j) \<le> 2 * length (jrender j) + 2" by simp
  then have "jvalue (2 * length (jrender j) + 2) (jrender j @ []) = Some (j, [])"
    using jround_all [OF assms] unfolding jround_def by blast
  then show ?thesis by (simp only: jparse_def append_Nil2) simp
qed

end
