(* ===== verification/VarHandler.thy ===== *)
theory VarHandler
  imports GoStrings
begin

text \<open>
  \<^verbatim>\<open>pkg/var_handler/var_handler.go\<close>: the substitution of \<^verbatim>\<open>$VARIABLES\<close> in the command lines of
  a storage profile. The order in which Go ranges over a map is not determined, so the order of
  the traversal at each nesting depth is the argument \<open>ord\<close>; the traversals that occur are the
  ones with \<open>mset (ord d m) = mset m\<close> (predicate \<open>range_order\<close>).

  The main result is that for a command line in which every variable is recognised without
  ambiguity (predicate \<open>clear\<close>) the outcome does not depend on the traversal order: it is the
  simultaneous substitution \<open>subst\<close>. Where two variable names overlap the outcome does depend on it.
\<close>

section \<open>Model\<close>

record VarHandler =
  VarMap :: kv

definition NewVarHandler :: "kv \<Rightarrow> VarHandler" where
  "NewVarHandler vars = \<lparr>VarMap = vars\<rparr>"

definition AddVar :: "string \<Rightarrow> string \<Rightarrow> VarHandler \<Rightarrow> VarHandler" where
  "AddVar name val v = v\<lparr>VarMap := kv_put name val (VarMap v)\<rparr>"

text \<open>The loop of \<^verbatim>\<open>ListToVars\<close>: item \<open>i\<close> (from 0) becomes variable \<^verbatim>\<open>prefix(i+1)\<close>.\<close>

fun addIndexed :: "string \<Rightarrow> nat \<Rightarrow> string list \<Rightarrow> kv \<Rightarrow> kv" where
  "addIndexed pre i [] m = m"
| "addIndexed pre i (x # xs) m = addIndexed pre (Suc i) xs (kv_put (pre @ itoa_nat (i + 1)) x m)"

definition ListToVars :: "string \<Rightarrow> string \<Rightarrow> VarHandler \<Rightarrow> VarHandler res" where
  "ListToVars listVarName newVarPrefix v =
     (case map_of (VarMap v) listVarName of
        None \<Rightarrow> Inl (Fail (''Unable to find the variable named '' @ listVarName))
      | Some theList \<Rightarrow>
          Inr (v\<lparr>VarMap := addIndexed newVarPrefix 0 (go_split (CHR '' '') theList) (VarMap v)\<rparr>))"

text \<open>One pass of the first loop of \<^verbatim>\<open>replaceAllNested\<close>, in the order of the list.\<close>

definition replacePass :: "kv \<Rightarrow> string \<Rightarrow> string" where
  "replacePass kvs s = foldl (\<lambda>s (k, x). go_replace_all s k x) s kvs"

function replaceAllNested :: "(nat \<Rightarrow> kv \<Rightarrow> kv) \<Rightarrow> VarHandler \<Rightarrow> string \<Rightarrow> nat \<Rightarrow> string" where
  "replaceAllNested ord v s depth =
     (if depth > 5 then s
      else let s' = replacePass (ord depth (VarMap v)) s
           in if list_ex (\<lambda>(key, _). go_contains key s') (VarMap v)
              then replaceAllNested ord v s' (depth + 1) else s')"
  by pat_completeness auto
termination
  by (relation "measure (\<lambda>(ord, v, s, depth). 6 - depth)") auto

declare replaceAllNested.simps [simp del]

definition ReplaceAll :: "(nat \<Rightarrow> kv \<Rightarrow> kv) \<Rightarrow> VarHandler \<Rightarrow> string \<Rightarrow> string" where
  "ReplaceAll ord v s = replaceAllNested ord v s 0"

definition range_order :: "(nat \<Rightarrow> kv \<Rightarrow> kv) \<Rightarrow> bool" where
  "range_order ord \<longleftrightarrow> (\<forall>d m. mset (ord d m) = mset m)"

section \<open>Resolution and identity\<close>

lemma replacePass_Nil [simp]: "replacePass [] s = s"
  by (simp add: replacePass_def)

lemma replacePass_Cons [simp]: "replacePass ((k, x) # m) s = replacePass m (go_replace_all s k x)"
  by (simp add: replacePass_def)

lemma replacePass_absent:
  "(\<forall>(k, _) \<in> set m. \<not> go_contains k s) \<Longrightarrow> replacePass m s = s"
  by (induction m) (auto simp: go_replace_all_absent)

text \<open>The string after \<open>n\<close> passes, the first one at depth \<open>d\<close>.\<close>

fun passes :: "(nat \<Rightarrow> kv \<Rightarrow> kv) \<Rightarrow> kv \<Rightarrow> nat \<Rightarrow> nat \<Rightarrow> string \<Rightarrow> string" where
  "passes ord m d 0 s = s"
| "passes ord m d (Suc n) s = passes ord m (Suc d) n (replacePass (ord d m) s)"

lemma replaceAllNested_passes:
  "depth \<le> 6 \<Longrightarrow>
   (\<exists>n. replaceAllNested ord v s depth = passes ord (VarMap v) depth n s \<and>
        (n = 6 - depth \<or> n \<le> 6 - depth \<and> (\<forall>(k, _) \<in> set (VarMap v).
            \<not> go_contains k (replaceAllNested ord v s depth))))"
proof (induction ord v s depth rule: replaceAllNested.induct)
  case (1 ord v s depth)
  define s' where "s' = replacePass (ord depth (VarMap v)) s"
  define again where "again = list_ex (\<lambda>(key, _). go_contains key s') (VarMap v)"
  show ?case
  proof (cases "depth > 5")
    case True
    then show ?thesis
      using "1.prems" by (intro exI [of _ 0]) (simp add: replaceAllNested.simps)
  next
    case low: False
    show ?thesis
    proof (cases again)
      case True
      then have eq: "replaceAllNested ord v s depth = replaceAllNested ord v s' (depth + 1)"
        using low by (subst replaceAllNested.simps) (simp add: s'_def [symmetric] again_def)
      obtain n where n: "replaceAllNested ord v s' (depth + 1) =
            passes ord (VarMap v) (depth + 1) n s'"
          "n = 6 - (depth + 1) \<or> n \<le> 6 - (depth + 1) \<and> (\<forall>(k, _) \<in> set (VarMap v).
            \<not> go_contains k (replaceAllNested ord v s' (depth + 1)))"
        using "1.IH" [OF low refl] True low unfolding again_def s'_def by auto
      show ?thesis
        using n low unfolding eq by (intro exI [of _ "Suc n"]) (auto simp: s'_def)
    next
      case False
      then have "replaceAllNested ord v s depth = s'"
        using low by (subst replaceAllNested.simps) (simp add: s'_def [symmetric] again_def)
      then show ?thesis
        using False low
        by (intro exI [of _ "Suc 0"]) (auto simp: s'_def [symmetric] again_def list_ex_iff)
    qed
  qed
qed

section \<open>The indexed variables\<close>

lemma map_of_addIndexed_other:
  "(\<forall>j. k \<noteq> pre @ itoa_nat j) \<Longrightarrow> map_of (addIndexed pre i xs m) k = map_of m k"
  by (induction pre i xs m rule: addIndexed.induct) (auto simp: kv_simps)

lemma map_of_addIndexed_small:
  "j \<le> i \<Longrightarrow> map_of (addIndexed pre i xs m) (pre @ itoa_nat j) = map_of m (pre @ itoa_nat j)"
  by (induction pre i xs m rule: addIndexed.induct) (auto simp: kv_simps)

lemma map_of_addIndexed:
  "n < length xs \<Longrightarrow>
   map_of (addIndexed pre i xs m) (pre @ itoa_nat (i + n + 1)) = Some (xs ! n)"
proof (induction pre i xs m arbitrary: n rule: addIndexed.induct)
  case (1 pre i m)
  then show ?case by simp
next
  case (2 pre i x xs m)
  show ?case
  proof (cases n)
    case 0
    then show ?thesis
      using map_of_addIndexed_small [of "i + 1" "Suc i" pre xs]
      by (simp add: kv_simps)
  next
    case (Suc n')
    with "2.prems" have "n' < length xs" by simp
    from "2.IH" [OF this] show ?thesis using Suc by simp
  qed
qed

lemma kv_wf_addIndexed: "kv_wf m \<Longrightarrow> kv_wf (addIndexed pre i xs m)"
  by (induction pre i xs m rule: addIndexed.induct) auto

section \<open>Order independence\<close>

abbreviation dollar :: char where
  "dollar \<equiv> CHR ''$''"

text \<open>A variable name: a dollar sign, and no other one after it.\<close>

definition var_name :: "string \<Rightarrow> bool" where
  "var_name k = (k \<noteq> [] \<and> hd k = dollar \<and> dollar \<notin> set (tl k))"

definition vars_ok :: "kv \<Rightarrow> bool" where
  "vars_ok m = (kv_wf m \<and> list_all (\<lambda>(k, v). var_name k \<and> dollar \<notin> set v) m)"

text \<open>The simultaneous substitution: the reference for \<open>ReplaceAll\<close>.\<close>

fun subst :: "kv \<Rightarrow> string \<Rightarrow> string" where
  "subst m [] = []"
| "subst m (c # s) =
     (case find (\<lambda>(k, v). prefix k (c # s)) m of
        None \<Rightarrow> c # subst m s
      | Some (k, v) \<Rightarrow> v @ subst m (drop (length k - 1) s))"

text \<open>
  Every dollar sign of the text starts exactly one of the names, and no other name could match
  once the text that follows has been rewritten: a name that continues past the next dollar sign
  would have to agree with the whole run of characters before it.
\<close>

definition run_of :: "string \<Rightarrow> string" where
  "run_of s = dollar # takeWhile (\<lambda>c. c \<noteq> dollar) s"

definition run_clear :: "string list \<Rightarrow> string \<Rightarrow> string \<Rightarrow> bool" where
  "run_clear ks s k =
     (k \<in> set ks \<and> prefix k (run_of s) \<and>
      list_all (\<lambda>k'. k' \<noteq> k \<longrightarrow> \<not> prefix k' (run_of s) \<and>
        (dropWhile (\<lambda>c. c \<noteq> dollar) s \<noteq> [] \<longrightarrow> \<not> prefix (run_of s) k')) ks)"

fun clear :: "string list \<Rightarrow> string \<Rightarrow> bool" where
  "clear ks [] = True"
| "clear ks (c # s) = ((c = dollar \<longrightarrow> list_ex (run_clear ks s) ks) \<and> clear ks s)"

lemma var_name_Cons: "var_name k \<Longrightarrow> \<exists>r. k = dollar # r \<and> dollar \<notin> set r"
  by (cases k) (auto simp: var_name_def)

lemma clear_append: "dollar \<notin> set w \<Longrightarrow> clear ks (w @ s) = clear ks s"
  by (induction w) auto

lemma clear_drop: "clear ks s \<Longrightarrow> clear ks (drop n s)"
  by (induction s arbitrary: n) (auto simp: drop_Cons split: nat.splits)

lemma replace_ne_text:
  "var_name k \<Longrightarrow> dollar \<notin> set w \<Longrightarrow> replace_ne k v (w @ s) = w @ replace_ne k v s"
  by (induction w) (auto dest!: var_name_Cons)

lemma subst_text:
  "list_all (\<lambda>(k, v). var_name k) m \<Longrightarrow> dollar \<notin> set w \<Longrightarrow> subst m (w @ s) = w @ subst m s"
proof (induction w)
  case Nil
  then show ?case by simp
next
  case (Cons c w)
  have "find (\<lambda>(k, v). prefix k (c # (w @ s))) m = None"
    using Cons.prems by (auto simp: find_None_iff list_all_iff dest!: var_name_Cons)
  with Cons show ?case by simp
qed

lemma replace_ne_match: "k \<noteq> [] \<Longrightarrow> replace_ne k v (k @ r) = v @ replace_ne k v r"
  by (cases k) auto

lemma run_split: "dollar # s = run_of s @ dropWhile (\<lambda>c. c \<noteq> dollar) s"
  by (simp add: run_of_def)

text \<open>A variable name matches at a dollar sign only within the run that starts there.\<close>

lemma prefix_run:
  assumes "var_name k"
  shows "prefix k (dollar # s) \<longleftrightarrow> prefix k (run_of s)"
proof -
  obtain r where r: "k = dollar # r" "dollar \<notin> set r"
    using var_name_Cons [OF assms] by blast
  have "prefix r s \<longleftrightarrow> prefix r (takeWhile (\<lambda>c. c \<noteq> dollar) s)"
    using r(2)
  proof (induction s arbitrary: r)
    case Nil
    then show ?case by simp
  next
    case (Cons c s)
    then show ?case by (cases r) auto
  qed
  then show ?thesis by (simp add: r(1) run_of_def)
qed

lemma run_extend:
  "prefix k' (u @ x) \<Longrightarrow> prefix k' u \<or> x \<noteq> [] \<and> prefix u k'"
  by (auto simp: prefix_append)

lemma takeWhile_dollar: "dollar \<notin> set (takeWhile (\<lambda>c. c \<noteq> dollar) t)"
  by (auto dest: set_takeWhileD)

lemma find_unique:
  assumes "kv_wf m" and "(k, v) \<in> set m" and "P k" and "\<And>k' v'. (k', v') \<in> set m \<Longrightarrow> P k' \<Longrightarrow> k' = k"
  shows "find (\<lambda>(k, v). P k) m = Some (k, v)"
  using assms
proof (induction m)
  case Nil
  then show ?case by simp
next
  case (Cons p m)
  obtain a b where p: "p = (a, b)" by (cases p)
  show ?case
  proof (cases "P a")
    case True
    then have "a = k" using Cons.prems(4) p by auto
    moreover have "b = v"
      using Cons.prems(1,2) \<open>a = k\<close> p by (auto simp: kv_wf_def rev_image_eqI)
    ultimately show ?thesis using True p by simp
  next
    case False
    then have "p \<noteq> (k, v)" using Cons.prems(3) p by auto
    then have "(k, v) \<in> set m" using Cons.prems(2) by simp
    moreover have "kv_wf m" using Cons.prems(1) by (simp add: kv_wf_def)
    moreover have "\<And>k' v'. (k', v') \<in> set m \<Longrightarrow> P k' \<Longrightarrow> k' = k"
      using Cons.prems(4) by (meson list.set_intros(2))
    ultimately have "find (\<lambda>(k, v). P k) m = Some (k, v)"
      using Cons.IH Cons.prems(3) by blast
    then show ?thesis using False p by simp
  qed
qed

lemma find_clear:
  assumes "kv_wf m" and "(k0, v0) \<in> set m" and rc: "run_clear (map fst m) s k0"
    and x: "x \<noteq> [] \<Longrightarrow> dropWhile (\<lambda>c. c \<noteq> dollar) s \<noteq> []"
  shows "find (\<lambda>(k, v). prefix k (run_of s @ x)) m = Some (k0, v0)"
proof (rule find_unique [OF assms(1,2)])
  show "prefix k0 (run_of s @ x)"
    using rc by (auto simp: run_clear_def)
  fix k' v' assume k': "(k', v') \<in> set m" "prefix k' (run_of s @ x)"
  then have "k' \<in> set (map fst m)" by force
  with rc k'(2) x show "k' = k0"
    using run_extend by (fastforce simp: run_clear_def list_all_iff)
qed

lemma find_clear_here:
  assumes "kv_wf m" and "(k0, v0) \<in> set m" and "run_clear (map fst m) s k0"
  shows "find (\<lambda>(k, v). prefix k (dollar # s)) m = Some (k0, v0)"
  using find_clear [OF assms, of "dropWhile (\<lambda>c. c \<noteq> dollar) s"] run_split [of s] by simp

lemma run_clear_smaller:
  "run_clear (k # ks) s k0 \<Longrightarrow> k0 \<noteq> k \<Longrightarrow> run_clear ks s k0"
  by (simp add: run_clear_def)

text \<open>A run that is not rewritten stays clear when the text after it is rewritten.\<close>

lemma run_clear_extend:
  assumes rc: "run_clear ks s k0" and t: "t = takeWhile (\<lambda>c. c \<noteq> dollar) s @ x"
    and x: "x \<noteq> [] \<Longrightarrow> dropWhile (\<lambda>c. c \<noteq> dollar) s \<noteq> []"
  shows "run_clear ks t k0"
proof -
  have run: "run_of t = run_of s @ takeWhile (\<lambda>c. c \<noteq> dollar) x"
    unfolding run_of_def t
    by (subst takeWhile_append2) (auto dest: set_takeWhileD)
  have drop: "dropWhile (\<lambda>c. c \<noteq> dollar) t = dropWhile (\<lambda>c. c \<noteq> dollar) x"
    unfolding t by (subst dropWhile_append2) (auto dest: set_takeWhileD)
  have nonempty: "x \<noteq> []" if "takeWhile (\<lambda>c. c \<noteq> dollar) x \<noteq> [] \<or> dropWhile (\<lambda>c. c \<noteq> dollar) x \<noteq> []"
    using that by auto
  have other: "\<not> prefix k' (run_of t) \<and>
      (dropWhile (\<lambda>c. c \<noteq> dollar) t \<noteq> [] \<longrightarrow> \<not> prefix (run_of t) k')"
    if "k' \<in> set ks" "k' \<noteq> k0" for k'
  proof -
    have k': "\<not> prefix k' (run_of s)" "x \<noteq> [] \<Longrightarrow> \<not> prefix (run_of s) k'"
      using rc that x by (auto simp: run_clear_def list_all_iff)
    then have "\<not> prefix k' (run_of t)"
      using run_extend [of k' "run_of s" "takeWhile (\<lambda>c. c \<noteq> dollar) x"] nonempty
      unfolding run by blast
    moreover have "prefix (run_of t) k' \<Longrightarrow> prefix (run_of s) k'"
      unfolding run by (meson prefixI prefix_order.trans)
    ultimately show ?thesis using k' nonempty drop by auto
  qed
  moreover have "k0 \<in> set ks" "prefix k0 (run_of t)"
    using rc by (auto simp: run_clear_def run)
  ultimately show ?thesis by (simp add: run_clear_def list_all_iff)
qed

text \<open>Rewriting the variable \<open>k\<close> leaves an occurrence of another variable \<open>k0\<close> in place.\<close>

lemma replace_skip:
  assumes names: "var_name k" "var_name k0" and "k0 \<noteq> k"
    and rc: "run_clear (k # ks) t k0" and r: "dollar # t = k0 @ r"
  shows "replace_ne k v (dollar # t) = dollar # replace_ne k v t"
    and "run_clear ks (replace_ne k v t) k0"
    and "drop (length k0 - 1) (replace_ne k v t) = replace_ne k v r"
proof -
  let ?w = "takeWhile (\<lambda>c. c \<noteq> dollar) t" and ?d = "dropWhile (\<lambda>c. c \<noteq> dollar) t"
  have nw: "dollar \<notin> set ?w" by (rule takeWhile_dollar)
  have "\<not> prefix k (dollar # t)"
    using rc \<open>k0 \<noteq> k\<close> prefix_run [OF names(1)] by (auto simp: run_clear_def)
  then show "replace_ne k v (dollar # t) = dollar # replace_ne k v t" by simp
  have rept: "replace_ne k v t = ?w @ replace_ne k v ?d"
    using replace_ne_text [OF names(1) nw, of v ?d] by simp
  have x: "replace_ne k v ?d \<noteq> [] \<Longrightarrow> ?d \<noteq> []" by (metis replace_ne.simps(1))
  show "run_clear ks (replace_ne k v t) k0"
    by (rule run_clear_extend [OF run_clear_smaller [OF rc \<open>k0 \<noteq> k\<close>] rept x])
  obtain u where u: "run_of t = k0 @ u" using rc by (auto simp: run_clear_def prefix_def)
  have nu: "dollar \<notin> set u"
    using u names(2) nw by (cases k0) (auto simp: run_of_def var_name_def)
  have "k0 @ r = k0 @ u @ ?d"
    using r run_split [of t] u by simp
  then have "replace_ne k v r = u @ replace_ne k v ?d"
    using replace_ne_text [OF names(1) nu] by simp
  then have "dollar # replace_ne k v t = k0 @ replace_ne k v r"
    using rept u by (simp add: run_of_def)
  then show "drop (length k0 - 1) (replace_ne k v t) = replace_ne k v r"
    using names(2) by (cases k0) (auto simp: var_name_def)
qed

lemma replace_step:
  assumes ok: "vars_ok ((k, v) # m)" and "clear (map fst ((k, v) # m)) s"
  shows "subst m (replace_ne k v s) = subst ((k, v) # m) s \<and> clear (map fst m) (replace_ne k v s)"
  using assms(2)
proof (induction s rule: length_induct)
  case (1 s)
  let ?m = "(k, v) # m"
  have wf: "kv_wf ?m" "kv_wf m" "k \<notin> set (map fst m)"
    using ok by (auto simp: vars_ok_def kv_wf_def)
  have names: "list_all (\<lambda>(k, v). var_name k) m" "var_name k" "dollar \<notin> set v"
    using ok by (auto simp: vars_ok_def list_all_iff)
  have namesall: "list_all (\<lambda>(k, v). var_name k) ?m"
    using names by simp
  show ?case
  proof (cases s)
    case Nil
    then show ?thesis by simp
  next
    case (Cons c t)
    show ?thesis
    proof (cases "c = dollar")
      case False
      have "subst m (replace_ne k v t) = subst ?m t \<and> clear (map fst m) (replace_ne k v t)"
        using 1 Cons by auto
      moreover have "replace_ne k v s = [c] @ replace_ne k v t"
        using replace_ne_text [OF names(2), of "[c]" v t] False Cons by simp
      moreover have "subst ?m s = [c] @ subst ?m t"
        using subst_text [OF namesall, of "[c]" t] False Cons by simp
      ultimately show ?thesis
        using False subst_text [OF names(1), of "[c]"] by simp
    next
      case True
      with 1 Cons obtain k0 where rc: "run_clear (map fst ?m) t k0"
        by (auto simp: list_ex_iff)
      then obtain v0 where kv0: "(k0, v0) \<in> set ?m"
        by (force simp: run_clear_def)
      have k0: "var_name k0" using kv0 namesall by (auto simp: list_all_iff)
      obtain r where r: "s = k0 @ r"
        using rc run_split [of t] Cons True by (auto simp: run_clear_def prefix_def)
      have len: "length r < length s" using k0 r by (auto simp: var_name_def)
      have clr: "clear (map fst ?m) r"
        using clear_drop [OF "1.prems", of "length k0"] r by simp
      have IHr: "subst m (replace_ne k v r) = subst ?m r" "clear (map fst m) (replace_ne k v r)"
        using "1.IH" len clr by blast+
      have dropk: "drop (length k0 - 1) t = r"
        using Cons r k0 by (cases k0) (auto simp: var_name_def)
      have rhs: "subst ?m s = v0 @ subst ?m r"
        using find_clear_here [OF wf(1) kv0 rc] Cons True dropk by simp
      show ?thesis
      proof (cases "k0 = k")
        case True
        then have "v0 = v" using kv0 wf(3) by (auto simp: rev_image_eqI)
        have "replace_ne k v s = v @ replace_ne k v r"
          using True r k0 replace_ne_match by (auto simp: var_name_def)
        then show ?thesis
          using IHr rhs \<open>v0 = v\<close> names by (simp add: subst_text clear_append)
      next
        case neq: False
        then have kv0': "(k0, v0) \<in> set m" using kv0 by auto
        have rc': "run_clear (k # map fst m) t k0" using rc by simp
        have split: "dollar # t = k0 @ r" using r Cons True by simp
        note skip = replace_skip [OF names(2) k0 neq rc' split]
        have rep: "replace_ne k v s = dollar # replace_ne k v t"
          using skip(1) Cons True by simp
        have rct: "run_clear (map fst m) (replace_ne k v t) k0"
          by (rule skip(2))
        have "subst m (replace_ne k v s) = v0 @ subst m (replace_ne k v r)"
          using rep find_clear_here [OF wf(2) kv0' rct] skip(3) by simp
        moreover have "clear (map fst m) (replace_ne k v t)"
          using "1.IH" "1.prems" Cons by auto
        moreover have "list_ex (run_clear (map fst m) (replace_ne k v t)) (map fst m)"
          using rct by (auto simp: list_ex_iff run_clear_def)
        ultimately show ?thesis using IHr rhs rep by simp
      qed
    qed
  qed
qed

lemma vars_ok_Cons: "vars_ok ((k, v) # m) \<Longrightarrow> vars_ok m"
  by (simp add: vars_ok_def kv_wf_def)

lemma subst_Nil [simp]: "subst [] s = s"
  by (induction s) auto

lemma replacePass_subst:
  "vars_ok m \<Longrightarrow> clear (map fst m) s \<Longrightarrow> replacePass m s = subst m s"
proof (induction m arbitrary: s)
  case Nil
  then show ?case by simp
next
  case (Cons p m)
  obtain k v where p: "p = (k, v)" by (cases p)
  have "k \<noteq> []"
    using Cons.prems p by (auto simp: vars_ok_def var_name_def)
  then have "replacePass (p # m) s = replacePass m (replace_ne k v s)"
    using p by (simp add: go_replace_all_def)
  also have "\<dots> = subst (p # m) s"
    using Cons replace_step [of k v m s] vars_ok_Cons [of k v m] p by simp
  finally show ?case .
qed

lemma vars_ok_perm: "mset m' = mset m \<Longrightarrow> vars_ok m' = vars_ok m"
  unfolding vars_ok_def kv_wf_def list_all_iff
  by (metis mset_eq_imp_distinct_iff mset_map set_mset_mset)

lemma run_clear_set: "set ks = set ks' \<Longrightarrow> run_clear ks s k = run_clear ks' s k"
  by (simp add: run_clear_def list_all_iff)

lemma clear_set: "set ks = set ks' \<Longrightarrow> clear ks s = clear ks' s"
  by (induction s) (auto simp: list_ex_iff run_clear_set [of ks ks'])

text \<open>The substitution does not depend on the order of the association list.\<close>

lemma subst_perm:
  assumes ok: "vars_ok m" and perm: "mset m' = mset m" and "clear (map fst m) s"
  shows "subst m' s = subst m s"
  using assms(3)
proof (induction s rule: length_induct)
  case (1 s)
  have set: "set m' = set m" using perm by (metis set_mset_mset)
  have ok': "vars_ok m'" using vars_ok_perm [OF perm] ok by simp
  have wf: "kv_wf m" "kv_wf m'" using ok ok' by (auto simp: vars_ok_def)
  have names: "list_all (\<lambda>(k, v). var_name k) m" "list_all (\<lambda>(k, v). var_name k) m'"
    using ok set by (auto simp: vars_ok_def list_all_iff)
  show ?case
  proof (cases s)
    case Nil
    then show ?thesis by simp
  next
    case (Cons c t)
    show ?thesis
    proof (cases "c = dollar")
      case False
      then show ?thesis
        using 1 Cons subst_text [OF names(1), of "[c]" t] subst_text [OF names(2), of "[c]" t] by simp
    next
      case True
      with 1 Cons obtain k0 where rc: "run_clear (map fst m) t k0"
        by (auto simp: list_ex_iff)
      then obtain v0 where kv0: "(k0, v0) \<in> set m" "(k0, v0) \<in> set m'"
        using set by (force simp: run_clear_def)
      have rc': "run_clear (map fst m') t k0"
        using rc run_clear_set [of "map fst m'" "map fst m"] set by simp
      have "subst m' (drop (length k0 - 1) t) = subst m (drop (length k0 - 1) t)"
        using 1 Cons clear_drop by auto
      then show ?thesis
        using Cons True find_clear_here [OF wf(1) kv0(1) rc] find_clear_here [OF wf(2) kv0(2) rc']
        by simp
    qed
  qed
qed

text \<open>Nothing is left to substitute.\<close>

lemma subst_no_dollar:
  assumes ok: "vars_ok m" and "clear (map fst m) s"
  shows "dollar \<notin> set (subst m s)"
  using assms(2)
proof (induction s rule: length_induct)
  case (1 s)
  show ?case
  proof (cases s)
    case Nil
    then show ?thesis by simp
  next
    case (Cons c t)
    show ?thesis
    proof (cases "c = dollar")
      case False
      have "list_all (\<lambda>(k, v). var_name k) m"
        using ok by (auto simp: vars_ok_def list_all_iff)
      then show ?thesis
        using 1 Cons False subst_text [of m "[c]" t] by auto
    next
      case True
      with 1 Cons obtain k0 where rc: "run_clear (map fst m) t k0"
        by (auto simp: list_ex_iff)
      then obtain v0 where kv0: "(k0, v0) \<in> set m"
        by (force simp: run_clear_def)
      have "dollar \<notin> set v0" "kv_wf m"
        using ok kv0 by (auto simp: vars_ok_def list_all_iff)
      moreover have "dollar \<notin> set (subst m (drop (length k0 - 1) t))"
        using 1 Cons clear_drop by auto
      ultimately show ?thesis
        using Cons True find_clear_here [OF _ kv0 rc] by simp
    qed
  qed
qed

lemma ReplaceAll_subst:
  assumes ok: "vars_ok (VarMap v)" and clr: "clear (map fst (VarMap v)) s" and ord: "range_order ord"
  shows "ReplaceAll ord v s = subst (VarMap v) s"
proof -
  let ?m = "VarMap v"
  have perm: "mset (ord 0 ?m) = mset ?m" using ord by (simp add: range_order_def)
  then have "set (ord 0 ?m) = set ?m" by (metis set_mset_mset)
  then have "replacePass (ord 0 ?m) s = subst (ord 0 ?m) s"
    using replacePass_subst vars_ok_perm [OF perm] ok clr clear_set
    by (metis (no_types, lifting) list.set_map)
  also have "\<dots> = subst ?m s"
    by (rule subst_perm [OF ok perm clr])
  finally have pass: "replacePass (ord 0 ?m) s = subst ?m s" .
  have "\<not> go_contains k (subst ?m s)" if "(k, x) \<in> set ?m" for k x
  proof -
    have "var_name k" using that ok by (auto simp: vars_ok_def list_all_iff)
    then show ?thesis
      using subst_no_dollar [OF ok clr] by (auto simp: go_contains_iff dest!: var_name_Cons)
  qed
  then show ?thesis
    unfolding ReplaceAll_def
    by (subst replaceAllNested.simps) (auto simp: pass list_ex_iff Let_def)
qed

section \<open>Properties\<close>


lemma range_order_id: "range_order (\<lambda>d m. m)"
  by (simp add: range_order_def)

lemma range_order_rev: "range_order (\<lambda>d m. rev m)"
  by (simp add: range_order_def)


text \<open>
  \<^verbatim>\<open>ReplaceAll\<close> always returns, after at most six passes over the map; unless all six passes
  were used, no variable of the map occurs in the result.
\<close>

theorem ReplaceAll_resolves:
  "\<exists>n. ReplaceAll ord v s = passes ord (VarMap v) 0 n s \<and>
     (n = 6 \<or> n \<le> 6 \<and> list_all (\<lambda>(k, _). \<not> go_contains k (ReplaceAll ord v s)) (VarMap v))"
  using replaceAllNested_passes [of 0 ord v s] by (auto simp: ReplaceAll_def list_all_iff)

text \<open>
  Splitting a blank-separated list variable gives one indexed variable per item, numbered
  from 1, in the order of the list, and changes no variable whose name is not of the form
  prefix-number: the round trip from the device list to the device variables.
\<close>

theorem ListToVars_items:
  assumes "items \<noteq> []" and "\<forall>x \<in> set items. CHR '' '' \<notin> set x"
    and "map_of (VarMap v) list = Some (go_join '' '' items)"
  shows "\<exists>v'. ListToVars list pre v = Inr v' \<and>
    (\<forall>n < length items. map_of (VarMap v') (pre @ itoa_nat (n + 1)) = Some (items ! n)) \<and>
    (\<forall>k. (\<forall>j. k \<noteq> pre @ itoa_nat j) \<longrightarrow> map_of (VarMap v') k = map_of (VarMap v) k)"
proof -
  have "go_split (CHR '' '') (go_join '' '' items) = items"
    by (rule go_split_join [OF assms(1,2)])
  then show ?thesis
    using assms(3) map_of_addIndexed [of _ items pre 0 "VarMap v"]
      map_of_addIndexed_other [of _ pre 0 items "VarMap v"]
    by (auto simp: ListToVars_def)
qed

theorem ListToVars_items_witness:
  "\<exists>v'. ListToVars ''$DEVICE_LIST'' ''$DEVICE'' \<lparr>VarMap = [(''$DEVICE_LIST'', ''/dev/a /dev/b'')]\<rparr> = Inr v' \<and>
     map_of (VarMap v') ''$DEVICE2'' = Some ''/dev/b''"
proof -
  let ?v = "\<lparr>VarMap = [(''$DEVICE_LIST'', ''/dev/a /dev/b'')]\<rparr>" and ?xs = "[''/dev/a'', ''/dev/b'']"
  have "?xs \<noteq> []" "\<forall>x \<in> set ?xs. CHR '' '' \<notin> set x"
    "map_of (VarMap ?v) ''$DEVICE_LIST'' = Some (go_join '' '' ?xs)"
    by simp_all
  from ListToVars_items [OF this, of "''$DEVICE''"] obtain v'
    where v': "ListToVars ''$DEVICE_LIST'' ''$DEVICE'' ?v = Inr v'"
      "\<forall>n < length ?xs. map_of (VarMap v') (''$DEVICE'' @ itoa_nat (n + 1)) = Some (?xs ! n)"
    by blast
  have "''$DEVICE'' @ itoa_nat (1 + 1) = ''$DEVICE2''"
    by code_simp
  then show ?thesis using v' by (metis One_nat_def lessI length_Cons list.size(3) nth_Cons_0 nth_Cons_Suc)
qed

end
