(* ===== verification/Command.thy ===== *)
theory Command
  imports GoStrings
begin

text \<open>
  \<^verbatim>\<open>pkg/command/cmd.go\<close>, and the interface to the operating system under it. The shell, the mount
  table, the file system, the environment and the clock are not code of the repository: they are
  the record \<open>'w os\<close> of functions over a world of any type \<open>'w\<close>, a parameter of every
  operation that touches the system. Go's unspecified map traversal order is in this record as well.

  The second half is the library for reasoning about which commands an operation issues: every
  world is extended by a log of the command lines that were run (\<open>traced\<close>), and \<open>issues P m\<close>
  states that every command line that \<open>m\<close> runs satisfies \<open>P\<close>.
\<close>

section \<open>The operating system\<close>

text \<open>An error of the \<^verbatim>\<open>os\<close> package: \<^verbatim>\<open>os.ErrNotExist\<close>, \<^verbatim>\<open>os.ErrExist\<close> or any other.\<close>

datatype oserr = ErrNotExist string | ErrExist string | ErrOther string

fun oserrText :: "oserr \<Rightarrow> string" where
  "oserrText (ErrNotExist s) = s"
| "oserrText (ErrExist s) = s"
| "oserrText (ErrOther s) = s"

record MountPoint =
  mp_Device :: string
  mp_Path :: string
  mp_Type :: string

text \<open>
  \<open>os_exec\<close> runs \<^verbatim>\<open>bash -c\<close> with an optional time limit in nanoseconds and optional credentials, and
  gives its standard output, its standard error and the text of its error, if any.
  \<open>os_sleep d\<close> sleeps for \<open>d\<close> nanoseconds and gives the further time that passed since the last
  reading of the clock. \<open>os_order\<close> and \<open>os_keys\<close> are the orders in which maps are traversed.
  \<open>os_ReadDir\<close> gives the names in a directory, and \<open>os_Encode\<close> writes a map of lists to an open file as JSON.
\<close>

record 'w os =
  os_exec :: "string \<Rightarrow> int option \<Rightarrow> (32 word \<times> 32 word) option \<Rightarrow> 'w
    \<Rightarrow> (string \<times> string \<times> string option) \<times> 'w"
  os_getenv :: "string \<Rightarrow> string option"
  os_sleep :: "int \<Rightarrow> 'w \<Rightarrow> nat \<times> 'w"
  os_order :: "'w \<Rightarrow> nat \<Rightarrow> kv \<Rightarrow> kv"
  os_keys :: "'w \<Rightarrow> string list \<Rightarrow> string list"
  os_mounts :: "'w \<Rightarrow> MountPoint list res \<times> 'w"
  os_Stat :: "string \<Rightarrow> 'w \<Rightarrow> oserr option \<times> 'w"
  os_MkdirAll :: "string \<Rightarrow> 'w \<Rightarrow> oserr option \<times> 'w"
  os_WriteFile :: "string \<Rightarrow> 'w \<Rightarrow> oserr option \<times> 'w"
  os_Remove :: "string \<Rightarrow> 'w \<Rightarrow> oserr option \<times> 'w"
  os_RemoveAll :: "string \<Rightarrow> 'w \<Rightarrow> oserr option \<times> 'w"
  os_Symlink :: "string \<Rightarrow> string \<Rightarrow> 'w \<Rightarrow> oserr option \<times> 'w"
  os_Readlink :: "string \<Rightarrow> 'w \<Rightarrow> (oserr + string) \<times> 'w"
  os_ReadDir :: "string \<Rightarrow> 'w \<Rightarrow> (oserr + string list) \<times> 'w"
  os_Chown :: "string \<Rightarrow> int \<Rightarrow> int \<Rightarrow> 'w \<Rightarrow> oserr option \<times> 'w"
  os_Create :: "string \<Rightarrow> 'w \<Rightarrow> oserr option \<times> 'w"
  os_Encode :: "string \<Rightarrow> (string \<times> string list) list \<Rightarrow> 'w \<Rightarrow> oserr option \<times> 'w"

text \<open>\<^verbatim>\<open>fmt.Errorf("...%w", err)\<close>\<close>

definition errorf :: "string \<Rightarrow> failure \<Rightarrow> failure" where
  "errorf pre e = Fail (pre @ errText e)"

text \<open>A call of the \<^verbatim>\<open>os\<close> package whose error is wrapped with a message.\<close>

definition osE :: "string \<Rightarrow> ('w \<Rightarrow> oserr option \<times> 'w) \<Rightarrow> ('w, unit) io" where
  "osE msg f = (\<lambda>w. case f w of
     (None, w') \<Rightarrow> (Inr (), w') | (Some e, w') \<Rightarrow> (Inl (Fail (msg @ oserrText e)), w'))"

text \<open>\<^verbatim>\<open>_ = os.Remove(path)\<close>: the error is dropped.\<close>

definition ignoreE :: "('w \<Rightarrow> oserr option \<times> 'w) \<Rightarrow> ('w, unit) io" where
  "ignoreE f = (\<lambda>w. (Inr (), snd (f w)))"

section \<open>Running commands\<close>

definition runWithTimeout ::
  "'w os \<Rightarrow> string \<Rightarrow> int \<Rightarrow> 32 word option \<Rightarrow> 32 word option \<Rightarrow> ('w, string) io" where
  "runWithTimeout os args timeout uid gid = (\<lambda>w.
     (let limit = (if timeout > 0 then Some (seconds timeout) else None);
          cred = (case uid of None \<Rightarrow> None
                  | Some u \<Rightarrow> (case gid of None \<Rightarrow> None | Some g \<Rightarrow> Some (u, g)))
      in case os_exec os args limit cred w of
           ((stdout, stderr, None), w') \<Rightarrow> (Inr stdout, w')
         | ((stdout, stderr, Some err), w') \<Rightarrow>
             (Inl (Fail (''command: '' @ args @ '' - stderr: '' @ stderr @ '' - stdout: '' @ stdout @
                '' - error: '' @ err)), w')))"

definition run :: "'w os \<Rightarrow> string \<Rightarrow> 32 word option \<Rightarrow> 32 word option \<Rightarrow> ('w, string) io" where
  "run os args uid gid =
     (case os_getenv os ''NNF_COMMAND_TIMEOUT_SECONDS'' of
        Some timeoutString \<Rightarrow>
          (case atoi timeoutString of
             None \<Rightarrow> failE (Fail (''strconv.Atoi: parsing '' @ timeoutString @ '': invalid''))
           | Some timeout \<Rightarrow> runWithTimeout os args timeout uid gid)
      | None \<Rightarrow> runWithTimeout os args 0 uid gid)"

definition Run :: "'w os \<Rightarrow> string \<Rightarrow> ('w, string) io" where
  "Run os args = run os args None None"

definition RunAs :: "'w os \<Rightarrow> string \<Rightarrow> 32 word \<Rightarrow> 32 word \<Rightarrow> ('w, string) io" where
  "RunAs os args uid gid = run os args (Some uid) (Some gid)"

definition RunWithTimeout :: "'w os \<Rightarrow> string \<Rightarrow> int \<Rightarrow> ('w, string) io" where
  "RunWithTimeout os args timeout = runWithTimeout os args timeout None None"

definition RunAsWithTimeout ::
  "'w os \<Rightarrow> string \<Rightarrow> int \<Rightarrow> 32 word option \<Rightarrow> 32 word option \<Rightarrow> ('w, string) io" where
  "RunAsWithTimeout os args timeout uid gid = runWithTimeout os args timeout uid gid"

section \<open>Polling\<close>

text \<open>
  The loop \<^verbatim>\<open>for start := time.Now(); time.Since(start) < period; time.Sleep(step)\<close>: \<open>elapsed\<close>
  is the reading of the clock, and each iteration either ends the loop (\<open>Inr\<close>) or leaves a note
  (\<open>Inl\<close>) and sleeps. Sleeping takes at least a nanosecond, so the loop ends.
\<close>

function pollLoop ::
  "'w os \<Rightarrow> int \<Rightarrow> int \<Rightarrow> ('w, 'b + 'a) io \<Rightarrow> 'b option \<Rightarrow> int \<Rightarrow> 'w \<Rightarrow> ('b option + 'a) res \<times> 'w" where
  "pollLoop os period step body b elapsed w =
     (if elapsed < period then
        (case body w of
           (Inl e, w') \<Rightarrow> (Inl e, w')
         | (Inr (Inr x), w') \<Rightarrow> (Inr (Inr x), w')
         | (Inr (Inl b'), w') \<Rightarrow>
             (case os_sleep os step w' of
                (extra, w'') \<Rightarrow>
                  pollLoop os period step body (Some b') (elapsed + max 1 step + int extra) w''))
      else (Inr (Inl b), w))"
  by pat_completeness auto
termination
  by (relation "measure (\<lambda>(os, period, step, body, b, elapsed, w). nat (period - elapsed))") auto

declare pollLoop.simps [simp del]

definition poll :: "'w os \<Rightarrow> int \<Rightarrow> int \<Rightarrow> ('w, 'b + 'a) io \<Rightarrow> ('w, 'b option + 'a) io" where
  "poll os period step body = (\<lambda>w.
     case os_sleep os 0 w of (extra, w') \<Rightarrow> pollLoop os period step body None (int extra) w')"

section \<open>Logging the commands\<close>

text \<open>The same system with a log of the command lines that were run.\<close>

definition pass :: "('w \<Rightarrow> 'a \<times> 'w) \<Rightarrow> 'w \<times> string list \<Rightarrow> 'a \<times> ('w \<times> string list)" where
  "pass f = (\<lambda>(w, l). case f w of (x, w') \<Rightarrow> (x, (w', l)))"

definition traced :: "'w os \<Rightarrow> ('w \<times> string list) os" where
  "traced os = \<lparr>
     os_exec = (\<lambda>c t u (w, l). case os_exec os c t u w of (x, w') \<Rightarrow> (x, (w', l @ [c]))),
     os_getenv = os_getenv os,
     os_sleep = (\<lambda>d. pass (os_sleep os d)),
     os_order = (\<lambda>(w, l). os_order os w),
     os_keys = (\<lambda>(w, l). os_keys os w),
     os_mounts = pass (os_mounts os),
     os_Stat = (\<lambda>p. pass (os_Stat os p)),
     os_MkdirAll = (\<lambda>p. pass (os_MkdirAll os p)),
     os_WriteFile = (\<lambda>p. pass (os_WriteFile os p)),
     os_Remove = (\<lambda>p. pass (os_Remove os p)),
     os_RemoveAll = (\<lambda>p. pass (os_RemoveAll os p)),
     os_Symlink = (\<lambda>p q. pass (os_Symlink os p q)),
     os_Readlink = (\<lambda>p. pass (os_Readlink os p)),
     os_ReadDir = (\<lambda>p. pass (os_ReadDir os p)),
     os_Chown = (\<lambda>p u g. pass (os_Chown os p u g)),
     os_Create = (\<lambda>p. pass (os_Create os p)),
     os_Encode = (\<lambda>p m. pass (os_Encode os p m))\<rparr>"

definition issues :: "(string \<Rightarrow> bool) \<Rightarrow> ('w \<times> string list, 'a) io \<Rightarrow> bool" where
  "issues P m = (\<forall>w l. \<exists>l'. snd (snd (m (w, l))) = l @ l' \<and> list_all P l')"

named_theorems issues_rules \<open>structural rules for the commands that are issued\<close>

lemma issues_quiet: "(\<And>w l. snd (snd (m (w, l))) = l) \<Longrightarrow> issues P m"
  by (simp add: issues_def)

lemma issues_retE [issues_rules]: "issues P (retE x)"
  by (rule issues_quiet) (simp add: retE_def)

lemma issues_failE [issues_rules]: "issues P (failE e)"
  by (rule issues_quiet) (simp add: failE_def)

lemma issues_liftE [issues_rules]: "issues P (liftE r)"
  by (rule issues_quiet) (simp add: liftE_def)

lemma issuesD: "issues P m \<Longrightarrow> \<exists>l'. snd (snd (m s)) = snd s @ l' \<and> list_all P l'"
  by (cases s) (simp add: issues_def)

text \<open>What follows may use what the first effect is known to return.\<close>

lemma issues_bindE_when:
  assumes "issues P m" and "\<And>s x. fst (m s) = Inr x \<Longrightarrow> issues P (f x)"
  shows "issues P (bindE m f)"
  unfolding issues_def
proof (intro allI)
  fix w l
  obtain k where k: "snd (snd (m (w, l))) = l @ k" "list_all P k"
    using issuesD [OF assms(1), of "(w, l)"] by auto
  show "\<exists>l'. snd (snd (bindE m f (w, l))) = l @ l' \<and> list_all P l'"
  proof (cases "fst (m (w, l))")
    case (Inl e)
    then have "bindE m f (w, l) = (Inl e, snd (m (w, l)))"
      by (cases "m (w, l)") (simp add: bindE_def)
    then show ?thesis using k by auto
  next
    case (Inr x)
    then have b: "bindE m f (w, l) = f x (snd (m (w, l)))"
      by (cases "m (w, l)") (simp add: bindE_def)
    obtain k2 where "snd (snd (f x (snd (m (w, l))))) = snd (snd (m (w, l))) @ k2" "list_all P k2"
      using issuesD [OF assms(2) [OF Inr], of "snd (m (w, l))"] by blast
    then show ?thesis using b k by (intro exI [of _ "k @ k2"]) simp
  qed
qed

lemma issues_bindE [issues_rules]:
  "issues P m \<Longrightarrow> (\<And>x. issues P (f x)) \<Longrightarrow> issues P (bindE m f)"
  by (rule issues_bindE_when)

lemma issues_catchE [issues_rules]:
  assumes "issues P m" and "\<And>e. issues P (h e)"
  shows "issues P (catchE m h)"
  unfolding issues_def
proof (intro allI)
  fix w l
  obtain r w1 l1 where m: "m (w, l) = (r, (w1, l1))" by (metis prod_cases3)
  obtain k where k: "l1 = l @ k" "list_all P k"
    using assms(1) m unfolding issues_def by (metis snd_conv)
  show "\<exists>l'. snd (snd (catchE m h (w, l))) = l @ l' \<and> list_all P l'"
  proof (cases r)
    case (Inl e)
    obtain k2 where k2: "snd (snd (h e (w1, l1))) = l1 @ k2" "list_all P k2"
      using assms(2) [of e] unfolding issues_def by blast
    show ?thesis
    proof (cases "is_panic e")
      case True
      then show ?thesis using Inl m k by (simp add: catchE_def)
    next
      case False
      then show ?thesis using Inl m k k2 by (intro exI [of _ "k @ k2"]) (simp add: catchE_def)
    qed
  next
    case (Inr x)
    then show ?thesis using m k by (simp add: catchE_def)
  qed
qed

lemma issues_finallyE [issues_rules]:
  assumes "issues P m" and "issues P c"
  shows "issues P (finallyE m c)"
  unfolding issues_def
proof (intro allI)
  fix w l
  obtain k where k: "snd (snd (m (w, l))) = l @ k" "list_all P k"
    using assms(1) unfolding issues_def by blast
  obtain k2 where k2: "snd (snd (c (snd (m (w, l))))) = snd (snd (m (w, l))) @ k2" "list_all P k2"
    using assms(2) unfolding issues_def by (metis prod.collapse)
  show "\<exists>l'. snd (snd (finallyE m c (w, l))) = l @ l' \<and> list_all P l'"
    using k k2 by (intro exI [of _ "k @ k2"]) simp
qed

lemma issues_wrapE [issues_rules]: "issues P m \<Longrightarrow> issues P (wrapE f m)"
  unfolding wrapE_def by (intro issues_rules)

lemma issues_mapME [issues_rules]: "(\<And>x. issues P (f x)) \<Longrightarrow> issues P (mapME f xs)"
  by (induction xs) (auto intro!: issues_rules)

lemma issues_if [issues_rules]: "(b \<Longrightarrow> issues P m) \<Longrightarrow> (\<not> b \<Longrightarrow> issues P n) \<Longrightarrow> issues P (if b then m else n)"
  by simp

lemma issues_pass: "issues P (\<lambda>w. g (pass f w))" if "\<And>x v. snd (g (x, v)) = v"
  by (rule issues_quiet) (simp add: pass_def that split: prod.splits)

lemma issues_osE [issues_rules]: "issues P (osE msg (pass f))"
  by (rule issues_quiet) (auto simp: osE_def pass_def split: prod.splits option.splits)

lemma issues_ignoreE [issues_rules]: "issues P (ignoreE (pass f))"
  by (rule issues_quiet) (auto simp: ignoreE_def pass_def split: prod.splits)

lemma issues_run: "P args \<Longrightarrow> issues P (run (traced os) args uid gid)"
proof -
  assume P: "P args"
  have "issues P (runWithTimeout (traced os) args t uid gid)" for t
    unfolding issues_def
  proof (intro allI)
    fix w l
    show "\<exists>l'. snd (snd (runWithTimeout (traced os) args t uid gid (w, l))) = l @ l' \<and> list_all P l'"
      using P by (intro exI [of _ "[args]"])
        (auto simp: runWithTimeout_def traced_def Let_def split: prod.splits option.splits)
  qed
  then show ?thesis
    by (auto simp: run_def intro!: issues_failE split: option.splits)
qed

lemma issues_Run [issues_rules]: "P args \<Longrightarrow> issues P (Run (traced os) args)"
  unfolding Run_def by (rule issues_run)

lemma traced_simps [simp]:
  "os_getenv (traced os) = os_getenv os"
  "os_sleep (traced os) d = pass (os_sleep os d)"
  "os_mounts (traced os) = pass (os_mounts os)"
  "os_Stat (traced os) p = pass (os_Stat os p)"
  "os_MkdirAll (traced os) p = pass (os_MkdirAll os p)"
  "os_WriteFile (traced os) p = pass (os_WriteFile os p)"
  "os_Remove (traced os) p = pass (os_Remove os p)"
  "os_RemoveAll (traced os) p = pass (os_RemoveAll os p)"
  "os_Symlink (traced os) p q = pass (os_Symlink os p q)"
  "os_Readlink (traced os) p = pass (os_Readlink os p)"
  "os_ReadDir (traced os) p = pass (os_ReadDir os p)"
  "os_Chown (traced os) p u g = pass (os_Chown os p u g)"
  "os_Create (traced os) p = pass (os_Create os p)"
  "os_Encode (traced os) p m = pass (os_Encode os p m)"
  by (simp_all add: traced_def)

lemma issues_pollLoop:
  assumes "issues P body"
  shows "\<exists>l'. snd (snd (pollLoop (traced os) period step body b elapsed (w, l))) = l @ l' \<and> list_all P l'"
proof (induction "nat (period - elapsed)" arbitrary: elapsed b w l rule: less_induct)
  case less
  obtain r w1 l1 where m: "body (w, l) = (r, (w1, l1))" by (metis prod_cases3)
  obtain k where k: "l1 = l @ k" "list_all P k"
    using assms m unfolding issues_def by (metis snd_conv)
  show ?case
  proof (cases "elapsed < period \<and> (\<exists>x. r = Inr (Inl x))")
    case True
    then obtain x where x: "r = Inr (Inl x)" and lt: "elapsed < period" by blast
    obtain d w2 where d: "os_sleep os step w1 = (d, w2)" by (cases "os_sleep os step w1")
    have eq: "pollLoop (traced os) period step body b elapsed (w, l) =
        pollLoop (traced os) period step body (Some x) (elapsed + max 1 step + int d) (w2, l1)"
      by (subst pollLoop.simps) (simp add: m x lt d pass_def)
    have "nat (period - (elapsed + max 1 step + int d)) < nat (period - elapsed)"
      using lt by simp
    from less [OF this, of "Some x" w2 l1] obtain k2
      where k2: "snd (snd (pollLoop (traced os) period step body (Some x)
        (elapsed + max 1 step + int d) (w2, l1))) = l1 @ k2" "list_all P k2" by blast
    show ?thesis
      unfolding eq by (rule exI [of _ "k @ k2"]) (use k k2 in simp)
  next
    case False
    then have "snd (snd (pollLoop (traced os) period step body b elapsed (w, l))) = (if elapsed < period then l1 else l)"
      by (subst pollLoop.simps) (auto simp: m split: sum.splits)
    then show ?thesis using k by auto
  qed
qed

lemma issues_poll [issues_rules]: "issues P body \<Longrightarrow> issues P (poll (traced os) period step body)"
  unfolding issues_def [of P "poll (traced os) period step body"]
proof (intro allI)
  fix w l
  assume b: "issues P body"
  obtain d w' where d: "os_sleep os 0 w = (d, w')" by (cases "os_sleep os 0 w")
  show "\<exists>l'. snd (snd (poll (traced os) period step body (w, l))) = l @ l' \<and> list_all P l'"
    using issues_pollLoop [OF b, of os period step None "int d" w' l] by (simp add: poll_def pass_def d)
qed

lemma issues_mono: "issues P m \<Longrightarrow> (\<And>c. P c \<Longrightarrow> Q c) \<Longrightarrow> issues Q m"
  unfolding issues_def by (meson list.pred_mono_strong)

lemma issues_option [issues_rules]:
  "issues P n \<Longrightarrow> (\<And>x. issues P (f x)) \<Longrightarrow> issues P (case z of None \<Rightarrow> n | Some x \<Rightarrow> f x)"
  by (cases z) auto

lemma issues_sum [issues_rules]:
  "(\<And>x. issues P (f x)) \<Longrightarrow> (\<And>x. issues P (g x)) \<Longrightarrow> issues P (case z of Inl x \<Rightarrow> f x | Inr x \<Rightarrow> g x)"
  by (cases z) auto

text \<open>The log of a run, and what \<open>issues\<close> says of it.\<close>

definition commandsOf :: "('w \<times> string list, 'a) io \<Rightarrow> 'w \<Rightarrow> string list" where
  "commandsOf m w = snd (snd (m (w, [])))"

lemma issues_commandsOf: "issues P m \<Longrightarrow> list_all P (commandsOf m w)"
  unfolding issues_def commandsOf_def by (metis append_Nil)

text \<open>Command lines by the tool that they start with.\<close>

definition starts :: "string list \<Rightarrow> string \<Rightarrow> bool" where
  "starts tools c = list_ex (\<lambda>t. prefix (t @ '' '') c) tools"

text \<open>The same run without the log: the log is only an observer.\<close>

definition untrace :: "('a res \<times> ('w \<times> string list)) \<Rightarrow> 'a res \<times> 'w" where
  "untrace r = (fst r, fst (snd r))"

text \<open>The log does not change what a command returns.\<close>

lemma Run_traced [simp]: "fst (Run (traced os) c (w, l)) = fst (Run os c w)"
  by (simp add: Run_def run_def runWithTimeout_def traced_def failE_def Let_def
      split: option.splits prod.splits)

lemma Run_traced_world [simp]: "fst (snd (Run (traced os) c (w, l))) = snd (Run os c w)"
  by (simp add: Run_def run_def runWithTimeout_def traced_def failE_def Let_def
      split: option.splits prod.splits)

text \<open>
  A system for examples: the commands answer with a given text or fail, nothing is slow, every
  file operation succeeds, and maps are traversed in the order of the model's list or in reverse.
\<close>

definition exampleOs ::
  "(string \<Rightarrow> string \<times> string \<times> string option) \<Rightarrow> (string \<Rightarrow> string option) \<Rightarrow> bool \<Rightarrow> MountPoint list \<Rightarrow> 'w os" where
  "exampleOs answer env reversed mounts = \<lparr>
     os_exec = (\<lambda>c t u w. (answer c, w)),
     os_getenv = env,
     os_sleep = (\<lambda>d w. (0, w)),
     os_order = (\<lambda>w d m. if reversed then rev m else m),
     os_keys = (\<lambda>w ks. if reversed then rev ks else ks),
     os_mounts = (\<lambda>w. (Inr mounts, w)),
     os_Stat = (\<lambda>p w. (None, w)),
     os_MkdirAll = (\<lambda>p w. (None, w)),
     os_WriteFile = (\<lambda>p w. (None, w)),
     os_Remove = (\<lambda>p w. (None, w)),
     os_RemoveAll = (\<lambda>p w. (None, w)),
     os_Symlink = (\<lambda>p q w. (None, w)),
     os_Readlink = (\<lambda>p w. (Inr [], w)),
     os_ReadDir = (\<lambda>p w. (Inr [], w)),
     os_Chown = (\<lambda>p u g w. (None, w)),
     os_Create = (\<lambda>p w. (None, w)),
     os_Encode = (\<lambda>p m w. (None, w))\<rparr>"

lemma exampleOs_simps [simp]:
  "os_getenv (exampleOs answer env reversed mounts) = env"
  "os_order (exampleOs answer env reversed mounts) w d m = (if reversed then rev m else m)"
  "os_mounts (exampleOs answer env reversed mounts) w = (Inr mounts, w)"
  by (simp_all add: exampleOs_def)

lemma exampleOs_Run [simp]:
  "env ''NNF_COMMAND_TIMEOUT_SECONDS'' = None \<Longrightarrow>
   Run (exampleOs answer env reversed mounts) c w =
     (case answer c of (out, err, None) \<Rightarrow> Inr out
      | (out, err, Some e) \<Rightarrow> Inl (Fail (''command: '' @ c @ '' - stderr: '' @ err @ '' - stdout: '' @ out @
          '' - error: '' @ e)), w)"
  by (simp add: Run_def run_def runWithTimeout_def exampleOs_def Let_def split: option.splits prod.splits)

end
