(* ===== verification/LvmVolumes.thy ===== *)
theory LvmVolumes
  imports Json VarHandler Command
begin

text \<open>
  \<^verbatim>\<open>pkg/blockdevice/lvm\<close>: physical volumes, volume groups and logical volumes, driven through the
  LVM command line tools. The listings come from the JSON reports of \<^verbatim>\<open>pvs\<close>, \<^verbatim>\<open>vgs\<close> and \<^verbatim>\<open>lvs\<close>; the
  argument strings of a storage profile are expanded with the variable handler. Every operation
  is an effect on the world of the operating system record \<open>os\<close>.
\<close>

section \<open>Listings\<close>

record pvsPhysicalVolume =
  pvs_Name :: string
  pvs_VGName :: string
  pvs_Attrs :: string
  pvs_Size :: string

record vgsVolumeGroup =
  vgs_Name :: string
  vgs_PVCount :: string
  vgs_LVCount :: string
  vgs_Attrs :: string
  vgs_Size :: string
  vgs_ExtentSize :: string

record lvsLogicalVolume =
  lvs_Name :: string
  lvs_VGName :: string
  lvs_Attrs :: string
  lvs_Size :: string
  lvs_PVCount :: string
  lvs_VGMissingPVCount :: string
  lvs_LVHealthStatus :: string
  lvs_LVTags :: string
  lvs_SyncPercent :: string
  lvs_LVLayout :: string

text \<open>
  \<^verbatim>\<open>json.Unmarshal\<close> into the report structs, and the concatenation of all reports into one list.
\<close>

definition unmarshalReports :: "string \<Rightarrow> (json \<Rightarrow> 'a res) \<Rightarrow> string \<Rightarrow> 'a list res" where
  "unmarshalReports field dec output =
     (case jparse output of
        None \<Rightarrow> Inl (Fail ''invalid JSON text'')
      | Some j \<Rightarrow>
          bindR (structOf j) (\<lambda>ms.
          bindR (arrField ''report'' [] ms) (\<lambda>reports.
          bindR (mapRes (\<lambda>r. bindR (structOf r) (\<lambda>ms. bindR (arrField field [] ms) (mapRes dec))) reports)
            (\<lambda>vols. Inr (concat vols)))))"

definition pvsDecode :: "json \<Rightarrow> pvsPhysicalVolume res" where
  "pvsDecode j =
     bindR (structOf j) (\<lambda>ms.
     bindR (strField ''pv_name'' [] ms) (\<lambda>name.
     bindR (strField ''vg_name'' [] ms) (\<lambda>vg.
     bindR (strField ''pv_attr'' [] ms) (\<lambda>attrs.
     bindR (strField ''pv_size'' [] ms) (\<lambda>sz.
       Inr \<lparr>pvs_Name = name, pvs_VGName = vg, pvs_Attrs = attrs, pvs_Size = sz\<rparr>)))))"

definition vgsDecode :: "json \<Rightarrow> vgsVolumeGroup res" where
  "vgsDecode j =
     bindR (structOf j) (\<lambda>ms.
     bindR (strField ''vg_name'' [] ms) (\<lambda>name.
     bindR (strField ''pv_count'' [] ms) (\<lambda>pvs.
     bindR (strField ''lv_count'' [] ms) (\<lambda>lvs.
     bindR (strField ''vg_attr'' [] ms) (\<lambda>attrs.
     bindR (strField ''vg_size'' [] ms) (\<lambda>sz.
     bindR (strField ''vg_extent_size'' [] ms) (\<lambda>ext.
       Inr \<lparr>vgs_Name = name, vgs_PVCount = pvs, vgs_LVCount = lvs, vgs_Attrs = attrs,
            vgs_Size = sz, vgs_ExtentSize = ext\<rparr>)))))))"

definition lvsDecode :: "json \<Rightarrow> lvsLogicalVolume res" where
  "lvsDecode j =
     bindR (structOf j) (\<lambda>ms.
     bindR (strField ''lv_name'' [] ms) (\<lambda>name.
     bindR (strField ''vg_name'' [] ms) (\<lambda>vg.
     bindR (strField ''lv_attr'' [] ms) (\<lambda>attrs.
     bindR (strField ''lv_size'' [] ms) (\<lambda>sz.
     bindR (strField ''pv_count'' [] ms) (\<lambda>pvs.
     bindR (strField ''vg_missing_pv_count'' [] ms) (\<lambda>missing.
     bindR (strField ''lv_health_status'' [] ms) (\<lambda>health.
     bindR (strField ''lv_tags'' [] ms) (\<lambda>tags.
     bindR (strField ''sync_percent'' [] ms) (\<lambda>sync.
     bindR (strField ''lv_layout'' [] ms) (\<lambda>layout.
       Inr \<lparr>lvs_Name = name, lvs_VGName = vg, lvs_Attrs = attrs, lvs_Size = sz, lvs_PVCount = pvs,
            lvs_VGMissingPVCount = missing, lvs_LVHealthStatus = health, lvs_LVTags = tags,
            lvs_SyncPercent = sync, lvs_LVLayout = layout\<rparr>)))))))))))"

definition pvsListVolumes :: "'w os \<Rightarrow> ('w, pvsPhysicalVolume list) io" where
  "pvsListVolumes os =
     bindE (wrapE (errorf ''could not list physical volumes: '') (Run os ''pvs --reportformat json''))
       (\<lambda>output. liftE (unmarshalReports ''pv'' pvsDecode output))"

definition vgsListVolumes :: "'w os \<Rightarrow> ('w, vgsVolumeGroup list) io" where
  "vgsListVolumes os =
     bindE (wrapE (errorf ''could not list volume groups: '') (Run os ''vgs --nolock -v --reportformat json''))
       (\<lambda>output. liftE (unmarshalReports ''vg'' vgsDecode output))"

definition lvsListVolumes :: "'w os \<Rightarrow> ('w, lvsLogicalVolume list) io" where
  "lvsListVolumes os =
     bindE (wrapE (errorf ''could not list logical volumes: '') (Run os ''lvs -o all --nolock --reportformat json''))
       (\<lambda>output. liftE (unmarshalReports ''lv'' lvsDecode output))"

section \<open>Physical volumes\<close>

record PhysicalVolume =
  pv_Device :: string
  pv_Vars :: kv

definition NewPhysicalVolume :: "string \<Rightarrow> PhysicalVolume" where
  "NewPhysicalVolume device = \<lparr>pv_Device = device, pv_Vars = []\<rparr>"

text \<open>\<^verbatim>\<open>ReplaceAll\<close>, with the traversal order that the world gives.\<close>

definition replaceE :: "'w os \<Rightarrow> VarHandler \<Rightarrow> string \<Rightarrow> ('w, string) io" where
  "replaceE os v args = (\<lambda>w. (Inr (ReplaceAll (os_order os w) v args), w))"

definition PhysicalVolume_parseArgs :: "'w os \<Rightarrow> PhysicalVolume \<Rightarrow> string \<Rightarrow> string \<Rightarrow> ('w, string) io" where
  "PhysicalVolume_parseArgs os pv args device =
     replaceE os (NewVarHandler (kv_merge [(''$DEVICE'', device)] (pv_Vars pv))) args"

definition PhysicalVolume_Create :: "'w os \<Rightarrow> PhysicalVolume \<Rightarrow> string \<Rightarrow> ('w, bool) io" where
  "PhysicalVolume_Create os pv rawArgs =
     (if rawArgs = [] then retE False
      else bindE (PhysicalVolume_parseArgs os pv rawArgs (pv_Device pv)) (\<lambda>args.
           bindE (pvsListVolumes os) (\<lambda>existingPVs.
             if list_ex (\<lambda>e. pvs_Name e = pv_Device pv) existingPVs then retE False
             else bindE (wrapE (errorf ''could not create LVM physical volume: '')
                           (Run os (''pvcreate '' @ args))) (\<lambda>_. retE True))))"

definition PhysicalVolume_Remove :: "'w os \<Rightarrow> PhysicalVolume \<Rightarrow> string \<Rightarrow> ('w, bool) io" where
  "PhysicalVolume_Remove os pv rawArgs =
     (if rawArgs = [] then retE False
      else bindE (PhysicalVolume_parseArgs os pv rawArgs (pv_Device pv)) (\<lambda>args.
           bindE (pvsListVolumes os) (\<lambda>existingPVs.
             if list_ex (\<lambda>e. pvs_Name e = pv_Device pv) existingPVs
             then bindE (wrapE (errorf ''could not destroy LVM physical volume: '')
                           (Run os (''pvremove --yes '' @ args))) (\<lambda>_. retE True)
             else retE False)))"

section \<open>Volume groups\<close>

record VolumeGroup =
  vg_Name :: string
  vg_PhysicalVolumes :: "PhysicalVolume list"
  vg_Shared :: bool
  vg_Vars :: kv

definition NewVolumeGroup :: "string \<Rightarrow> PhysicalVolume list \<Rightarrow> VolumeGroup" where
  "NewVolumeGroup name pvs = \<lparr>vg_Name = name, vg_PhysicalVolumes = pvs, vg_Shared = False, vg_Vars = []\<rparr>"

definition VolumeGroup_Exists :: "'w os \<Rightarrow> VolumeGroup \<Rightarrow> ('w, bool) io" where
  "VolumeGroup_Exists os vg =
     bindE (vgsListVolumes os) (\<lambda>existingVGs. retE (list_ex (\<lambda>e. vgs_Name e = vg_Name vg) existingVGs))"

text \<open>The time to wait, with the override of the environment.\<close>

definition mapperWait :: "'w os \<Rightarrow> int \<Rightarrow> int" where
  "mapperWait os dflt =
     (case os_getenv os ''NNF_MAPPER_WAIT_TIMEOUT'' of
        None \<Rightarrow> dflt
      | Some timeoutString \<Rightarrow>
          (case atoi timeoutString of
             None \<Rightarrow> dflt
           | Some timeout \<Rightarrow> if timeout > 0 then seconds timeout else dflt))"

definition VolumeGroup_WaitForAppearance :: "'w os \<Rightarrow> VolumeGroup \<Rightarrow> ('w, bool) io" where
  "VolumeGroup_WaitForAppearance os vg =
     bindE (poll os (mapperWait os 1000000000) 100000000
              (bindE (VolumeGroup_Exists os vg) (\<lambda>exists. retE (if exists then Inr True else Inl ()))))
       (\<lambda>r. case r of Inr b \<Rightarrow> retE b | Inl _ \<Rightarrow> failE (Fail ''timeout waiting for VG''))"

text \<open>The variables that volume groups and logical volumes share.\<close>

definition deviceVars :: "string list \<Rightarrow> string \<Rightarrow> kv" where
  "deviceVars deviceNames vgName =
     [(''$DEVICE_NUM'', itoa (int (length deviceNames))),
      (''$DEVICE_NUM-1'', itoa (int (length deviceNames) - 1)),
      (''$DEVICE_NUM-2'', itoa (int (length deviceNames) - 2)),
      (''$DEVICE_LIST'', go_join '' '' deviceNames),
      (''$VG_NAME'', vgName)]"

definition expandVars :: "'w os \<Rightarrow> kv \<Rightarrow> kv list \<Rightarrow> string \<Rightarrow> ('w, string) io" where
  "expandVars os vars extra args =
     bindE (wrapE (errorf ''invalid internal device list: '')
              (liftE (ListToVars ''$DEVICE_LIST'' ''$DEVICE'' (NewVarHandler vars))))
       (\<lambda>v. replaceE os (v\<lparr>VarMap := foldl kv_merge (VarMap v) extra\<rparr>) args)"

definition VolumeGroup_parseArgs :: "'w os \<Rightarrow> VolumeGroup \<Rightarrow> string \<Rightarrow> kv \<Rightarrow> ('w, string) io" where
  "VolumeGroup_parseArgs os vg args vars =
     expandVars os (deviceVars (map pv_Device (vg_PhysicalVolumes vg)) (vg_Name vg))
       [vg_Vars vg, vars] args"

definition VolumeGroup_Create :: "'w os \<Rightarrow> VolumeGroup \<Rightarrow> string \<Rightarrow> ('w, bool) io" where
  "VolumeGroup_Create os vg rawArgs =
     (if rawArgs = [] then retE False
      else bindE (VolumeGroup_parseArgs os vg rawArgs []) (\<lambda>args.
           bindE (vgsListVolumes os) (\<lambda>existingVGs.
             if list_ex (\<lambda>e. vgs_Name e = vg_Name vg) existingVGs then retE False
             else bindE (wrapE (errorf ''could not create volume group: '')
                           (Run os (''vgcreate '' @ args))) (\<lambda>_. retE True))))"

definition VolumeGroup_Change :: "'w os \<Rightarrow> VolumeGroup \<Rightarrow> string \<Rightarrow> ('w, bool) io" where
  "VolumeGroup_Change os vg rawArgs =
     (if rawArgs = [] then retE False
      else bindE (VolumeGroup_parseArgs os vg rawArgs []) (\<lambda>args.
           bindE (Run os (''vgchange '' @ args)) (\<lambda>_. retE True)))"

definition VolumeGroup_LockStart :: "'w os \<Rightarrow> VolumeGroup \<Rightarrow> string \<Rightarrow> ('w, bool) io" where
  "VolumeGroup_LockStart os vg rawArgs =
     (if rawArgs = [] then retE False
      else bindE (VolumeGroup_WaitForAppearance os vg) (\<lambda>exists.
             if \<not> exists then retE False else VolumeGroup_Change os vg rawArgs))"

text \<open>\<^verbatim>\<open>lv.Attrs[4] == 'a'\<close>: an attribute string that is too short is an index out of range.\<close>

definition isActive :: "lvsLogicalVolume \<Rightarrow> bool res" where
  "isActive lv = (if 4 < length (lvs_Attrs lv) then Inr (lvs_Attrs lv ! 4 = CHR ''a'')
                  else Inl (Panic ''index out of range''))"

fun anyActive :: "string \<Rightarrow> lvsLogicalVolume list \<Rightarrow> bool res" where
  "anyActive name [] = Inr False"
| "anyActive name (lv # lvs) =
     (if lvs_VGName lv = name then
        bindR (isActive lv) (\<lambda>active. if active then Inr True else anyActive name lvs)
      else anyActive name lvs)"

definition VolumeGroup_LockStop :: "'w os \<Rightarrow> VolumeGroup \<Rightarrow> string \<Rightarrow> ('w, bool) io" where
  "VolumeGroup_LockStop os vg rawArgs =
     (if rawArgs = [] then retE False
      else bindE (VolumeGroup_Exists os vg) (\<lambda>exists.
             if \<not> exists then retE False
             else bindE (wrapE (errorf ''could not list logical volumes for lock-stop check: '')
                           (lvsListVolumes os)) (\<lambda>lvs.
                  bindE (liftE (anyActive (vg_Name vg) lvs)) (\<lambda>active.
                    if active then retE False
                    else catchE (VolumeGroup_Change os vg rawArgs)
                           (\<lambda>e. if go_contains ''lvmlockd process is not running'' (errText e)
                                then retE False else failE e)))))"

definition VolumeGroup_Remove :: "'w os \<Rightarrow> VolumeGroup \<Rightarrow> string \<Rightarrow> ('w, bool) io" where
  "VolumeGroup_Remove os vg rawArgs =
     (if rawArgs = [] then retE False
      else bindE (VolumeGroup_parseArgs os vg rawArgs []) (\<lambda>args.
           bindE (vgsListVolumes os) (\<lambda>existingVGs.
             if list_ex (\<lambda>e. vgs_Name e = vg_Name vg) existingVGs
             then bindE (wrapE (errorf ''could not destroy volume group: '')
                           (Run os (''vgremove --yes '' @ args))) (\<lambda>_. retE True)
             else retE False)))"

text \<open>
  The inner loop of \<^verbatim>\<open>Extend\<close> over the physical volumes that exist, for one wanted device: the
  value is whether the group was extended.
\<close>

fun extendWith :: "'w os \<Rightarrow> VolumeGroup \<Rightarrow> string \<Rightarrow> string \<Rightarrow> pvsPhysicalVolume list \<Rightarrow> ('w, bool) io" where
  "extendWith os vg rawArgs device [] = retE False"
| "extendWith os vg rawArgs device (e # rest) =
     (if pvs_Name e \<noteq> device then extendWith os vg rawArgs device rest
      else if pvs_VGName e \<noteq> [] then
        (if pvs_VGName e \<noteq> vg_Name vg then
           failE (Fail (''physical volume: '' @ pvs_Name e @ '' attached to incorrect volume group: '' @
                   pvs_VGName e @ ''. Expected: '' @ vg_Name vg))
         else extendWith os vg rawArgs device rest)
      else bindE (VolumeGroup_parseArgs os vg rawArgs [(''$DEVICE'', device)]) (\<lambda>args.
           bindE (wrapE (errorf ''could not extend volume group: '') (Run os (''vgextend '' @ args))) (\<lambda>_.
           bindE (extendWith os vg rawArgs device rest) (\<lambda>_. retE True))))"

definition VolumeGroup_Extend :: "'w os \<Rightarrow> VolumeGroup \<Rightarrow> string \<Rightarrow> ('w, bool) io" where
  "VolumeGroup_Extend os vg rawArgs =
     (if rawArgs = [] then retE False
      else bindE (pvsListVolumes os) (\<lambda>existingPVs.
           bindE (mapME (\<lambda>pv. extendWith os vg rawArgs (pv_Device pv) existingPVs) (vg_PhysicalVolumes vg))
             (\<lambda>extended. retE (list_ex id extended))))"

definition VolumeGroup_Reduce :: "'w os \<Rightarrow> VolumeGroup \<Rightarrow> string \<Rightarrow> ('w, bool) io" where
  "VolumeGroup_Reduce os vg rawArgs =
     (if rawArgs = [] then retE False
      else bindE (VolumeGroup_parseArgs os vg rawArgs []) (\<lambda>args.
           bindE (wrapE (errorf ''could not reduce volume group: '') (Run os (''vgreduce '' @ args)))
             (\<lambda>_. retE True)))"

definition VolumeGroup_NumLVs :: "'w os \<Rightarrow> VolumeGroup \<Rightarrow> ('w, nat) io" where
  "VolumeGroup_NumLVs os vg =
     bindE (lvsListVolumes os) (\<lambda>lvs. retE (length (filter (\<lambda>lv. lvs_VGName lv = vg_Name vg) lvs)))"

section \<open>Logical volumes\<close>

record LogicalVolume =
  lv_Name :: string
  lv_Size :: int
  lv_PercentVG :: int
  lv_VolumeGroup :: VolumeGroup
  lv_Vars :: kv

definition NewLogicalVolume :: "string \<Rightarrow> VolumeGroup \<Rightarrow> int \<Rightarrow> int \<Rightarrow> LogicalVolume" where
  "NewLogicalVolume name vg sz percentVG =
     \<lparr>lv_Name = name, lv_Size = sz, lv_PercentVG = percentVG, lv_VolumeGroup = vg, lv_Vars = []\<rparr>"

text \<open>The row of a listing that describes the logical volume: the first one of that name and group.\<close>

definition sameLV :: "LogicalVolume \<Rightarrow> lvsLogicalVolume \<Rightarrow> bool" where
  "sameLV lv e = (lvs_Name e = lv_Name lv \<and> lvs_VGName e = vg_Name (lv_VolumeGroup lv))"

definition lvPath :: "LogicalVolume \<Rightarrow> string" where
  "lvPath lv = vg_Name (lv_VolumeGroup lv) @ ''/'' @ lv_Name lv"

definition LogicalVolume_Exists :: "'w os \<Rightarrow> LogicalVolume \<Rightarrow> ('w, bool) io" where
  "LogicalVolume_Exists os lv =
     bindE (lvsListVolumes os) (\<lambda>existingLVs. retE (list_ex (sameLV lv) existingLVs))"

definition LogicalVolume_ParseArgs :: "'w os \<Rightarrow> LogicalVolume \<Rightarrow> string \<Rightarrow> ('w, string) io" where
  "LogicalVolume_ParseArgs os lv args =
     expandVars os
       (deviceVars (map pv_Device (vg_PhysicalVolumes (lv_VolumeGroup lv))) (vg_Name (lv_VolumeGroup lv)) @
        [(''$LV_NAME'', lv_Name lv),
         (''$LV_SIZE'', itoa (go_quot (lv_Size lv) 1024) @ ''K''),
         (''$PERCENT_VG'', itoa (lv_PercentVG lv) @ ''%VG'')])
       [lv_Vars lv] args"

definition LogicalVolume_Create :: "'w os \<Rightarrow> LogicalVolume \<Rightarrow> string \<Rightarrow> ('w, bool) io" where
  "LogicalVolume_Create os lv rawArgs =
     (if rawArgs = [] then retE False
      else bindE (LogicalVolume_ParseArgs os lv rawArgs) (\<lambda>args.
           bindE (lvsListVolumes os) (\<lambda>existingLVs.
             if list_ex (sameLV lv) existingLVs then retE False
             else bindE (wrapE (errorf (''could not create logical volume '' @ lvPath lv @ '': ''))
                           (Run os (''lvcreate --yes '' @ args))) (\<lambda>_. retE True))))"

definition LogicalVolume_Remove :: "'w os \<Rightarrow> LogicalVolume \<Rightarrow> string \<Rightarrow> ('w, bool) io" where
  "LogicalVolume_Remove os lv rawArgs =
     (if rawArgs = [] then retE False
      else bindE (LogicalVolume_ParseArgs os lv rawArgs) (\<lambda>args.
           bindE (lvsListVolumes os) (\<lambda>existingLVs.
             if list_ex (sameLV lv) existingLVs
             then bindE (wrapE (errorf (''could not destroy logical volume '' @ lvPath lv @ '': ''))
                           (Run os (''lvremove --yes '' @ args))) (\<lambda>_. retE True)
             else retE True)))"

definition LogicalVolume_Change :: "'w os \<Rightarrow> LogicalVolume \<Rightarrow> string \<Rightarrow> ('w, bool) io" where
  "LogicalVolume_Change os lv rawArgs =
     (if rawArgs = [] then retE False
      else bindE (LogicalVolume_ParseArgs os lv rawArgs) (\<lambda>args.
           bindE (wrapE (errorf (''could not change logical volume '' @ lvPath lv @ '': ''))
                    (Run os (''lvchange '' @ args))) (\<lambda>_. retE True)))"

definition LogicalVolume_Activate :: "'w os \<Rightarrow> LogicalVolume \<Rightarrow> string \<Rightarrow> ('w, bool) io" where
  "LogicalVolume_Activate os lv rawArgs =
     (if rawArgs = [] then retE False
      else bindE (lvsListVolumes os) (\<lambda>existingLVs.
             case find (sameLV lv) existingLVs of
               None \<Rightarrow> failE (Fail (''could not find logical volume '' @ lvPath lv))
             | Some e \<Rightarrow> bindE (liftE (isActive e)) (\<lambda>active.
                   if active then retE False else LogicalVolume_Change os lv rawArgs)))"

definition LogicalVolume_Deactivate :: "'w os \<Rightarrow> LogicalVolume \<Rightarrow> string \<Rightarrow> ('w, bool) io" where
  "LogicalVolume_Deactivate os lv rawArgs =
     (if rawArgs = [] then retE False
      else bindE (lvsListVolumes os) (\<lambda>existingLVs.
             case find (sameLV lv) existingLVs of
               None \<Rightarrow> retE False
             | Some e \<Rightarrow> bindE (liftE (isActive e)) (\<lambda>active.
                   if \<not> active then retE False else LogicalVolume_Change os lv rawArgs)))"

definition LogicalVolume_IsHealthy :: "'w os \<Rightarrow> LogicalVolume \<Rightarrow> ('w, bool) io" where
  "LogicalVolume_IsHealthy os lv =
     bindE (lvsListVolumes os) (\<lambda>existingLVs.
       case find (sameLV lv) existingLVs of
         None \<Rightarrow> failE (Fail (''could not find logical volume '' @ lvPath lv))
       | Some e \<Rightarrow> retE (lvs_LVHealthStatus e = [] \<and> lvs_VGMissingPVCount e = ''0''))"

definition LogicalVolume_Repair :: "'w os \<Rightarrow> LogicalVolume \<Rightarrow> string \<Rightarrow> ('w, bool) io" where
  "LogicalVolume_Repair os lv rawArgs =
     (if rawArgs = [] then retE True
      else bindE (LogicalVolume_ParseArgs os lv rawArgs) (\<lambda>args.
           bindE (wrapE (errorf (''could not change repair logical volume '' @ lvPath lv @ '': ''))
                    (Run os (''lvconvert --repair '' @ args))) (\<lambda>_. retE True)))"

definition LogicalVolume_IsSynced :: "'w os \<Rightarrow> LogicalVolume \<Rightarrow> ('w, bool) io" where
  "LogicalVolume_IsSynced os lv =
     bindE (lvsListVolumes os) (\<lambda>existingLVs.
       case find (sameLV lv) existingLVs of
         None \<Rightarrow> failE (Fail (''could not find logical volume '' @ lvPath lv))
       | Some e \<Rightarrow> retE (lvs_LVLayout e = ''striped'' \<or> lvs_SyncPercent e = ''100.00''))"

section \<open>The commands that are issued\<close>

lemma issues_listing [issues_rules]:
  "P ''pvs --reportformat json'' \<Longrightarrow> issues P (pvsListVolumes (traced os))"
  "P ''vgs --nolock -v --reportformat json'' \<Longrightarrow> issues P (vgsListVolumes (traced os))"
  "P ''lvs -o all --nolock --reportformat json'' \<Longrightarrow> issues P (lvsListVolumes (traced os))"
  by (auto simp: pvsListVolumes_def vgsListVolumes_def lvsListVolumes_def intro!: issues_rules)

lemma issues_replaceE [issues_rules]: "issues P (replaceE os v args)"
  by (rule issues_quiet) (simp add: replaceE_def)

lemma issues_parseArgs [issues_rules]:
  "issues P (PhysicalVolume_parseArgs os pv args device)"
  "issues P (VolumeGroup_parseArgs os vg args vars)"
  "issues P (LogicalVolume_ParseArgs os lv args)"
  by (auto simp: PhysicalVolume_parseArgs_def VolumeGroup_parseArgs_def LogicalVolume_ParseArgs_def
      expandVars_def intro!: issues_rules)

text \<open>Sets of command lines that hold the listings, and those with a given tool.\<close>

definition lists_ok :: "(string \<Rightarrow> bool) \<Rightarrow> bool" where
  "lists_ok P = (P ''pvs --reportformat json'' \<and> P ''vgs --nolock -v --reportformat json'' \<and>
     P ''lvs -o all --nolock --reportformat json'')"

lemma lists_okD:
  assumes "lists_ok P"
  shows "issues P (pvsListVolumes (traced os))" "issues P (vgsListVolumes (traced os))"
    "issues P (lvsListVolumes (traced os))"
  using assms by (auto simp: lists_ok_def intro!: issues_rules)

lemma issues_pv:
  assumes "lists_ok P"
  shows "(\<And>a. P (''pvcreate '' @ a)) \<Longrightarrow> issues P (PhysicalVolume_Create (traced os) pv r)"
    and "(\<And>a. P (''pvremove --yes '' @ a)) \<Longrightarrow> issues P (PhysicalVolume_Remove (traced os) pv r)"
  unfolding PhysicalVolume_Create_def PhysicalVolume_Remove_def
  by (intro issues_rules lists_okD [OF assms]; simp)+

lemma issues_vg_read:
  assumes "lists_ok P"
  shows "issues P (VolumeGroup_Exists (traced os) vg)"
    and "issues P (VolumeGroup_WaitForAppearance (traced os) vg)"
    and "issues P (VolumeGroup_NumLVs (traced os) vg)"
  unfolding VolumeGroup_WaitForAppearance_def VolumeGroup_Exists_def VolumeGroup_NumLVs_def
  by (intro issues_rules lists_okD [OF assms])+

lemma issues_vg_change:
  assumes "lists_ok P" and "\<And>a. P (''vgchange '' @ a)"
  shows "issues P (VolumeGroup_Change (traced os) vg r)"
    and "issues P (VolumeGroup_LockStart (traced os) vg r)"
    and "issues P (VolumeGroup_LockStop (traced os) vg r)"
  unfolding VolumeGroup_LockStart_def VolumeGroup_LockStop_def VolumeGroup_Change_def
  by (intro issues_rules lists_okD [OF assms(1)] issues_vg_read [OF assms(1)] assms(2))+

lemma issues_vg_write:
  assumes "lists_ok P"
  shows "(\<And>a. P (''vgcreate '' @ a)) \<Longrightarrow> issues P (VolumeGroup_Create (traced os) vg r)"
    and "(\<And>a. P (''vgremove --yes '' @ a)) \<Longrightarrow> issues P (VolumeGroup_Remove (traced os) vg r)"
    and "(\<And>a. P (''vgreduce '' @ a)) \<Longrightarrow> issues P (VolumeGroup_Reduce (traced os) vg r)"
  unfolding VolumeGroup_Create_def VolumeGroup_Remove_def VolumeGroup_Reduce_def
  by (intro issues_rules lists_okD [OF assms]; simp)+

lemma issues_extendWith:
  assumes "\<And>a. P (''vgextend '' @ a)"
  shows "issues P (extendWith (traced os) vg r d pvs)"
proof (induction pvs)
  case Nil
  then show ?case by (simp add: issues_retE)
next
  case (Cons e pvs)
  then show ?case by (simp only: extendWith.simps) (intro issues_rules assms)
qed

lemma issues_vg_extend:
  assumes "lists_ok P" and "\<And>a. P (''vgextend '' @ a)"
  shows "issues P (VolumeGroup_Extend (traced os) vg r)"
  unfolding VolumeGroup_Extend_def
  by (intro issues_rules lists_okD [OF assms(1)] issues_extendWith assms(2))

lemma issues_lv:
  assumes "lists_ok P"
  shows "issues P (LogicalVolume_Exists (traced os) lv)"
    and "issues P (LogicalVolume_IsHealthy (traced os) lv)"
    and "issues P (LogicalVolume_IsSynced (traced os) lv)"
    and "(\<And>a. P (''lvcreate --yes '' @ a)) \<Longrightarrow> issues P (LogicalVolume_Create (traced os) lv r)"
    and "(\<And>a. P (''lvremove --yes '' @ a)) \<Longrightarrow> issues P (LogicalVolume_Remove (traced os) lv r)"
    and "(\<And>a. P (''lvconvert --repair '' @ a)) \<Longrightarrow> issues P (LogicalVolume_Repair (traced os) lv r)"
  unfolding LogicalVolume_Exists_def LogicalVolume_IsHealthy_def LogicalVolume_IsSynced_def
    LogicalVolume_Create_def LogicalVolume_Remove_def LogicalVolume_Repair_def
  by (intro issues_rules lists_okD [OF assms]; simp)+

lemma issues_lv_change:
  assumes "lists_ok P" and "\<And>a. P (''lvchange '' @ a)"
  shows "issues P (LogicalVolume_Activate (traced os) lv r)"
    and "issues P (LogicalVolume_Deactivate (traced os) lv r)"
  unfolding LogicalVolume_Activate_def LogicalVolume_Deactivate_def LogicalVolume_Change_def
  by (intro issues_rules lists_okD [OF assms(1)] assms(2))+

lemma lvsListVolumes_traced:
  "fst (lvsListVolumes (traced os) (w, l)) = fst (lvsListVolumes os w)"
  by (simp add: lvsListVolumes_def fst_bindE_liftE)

lemma NumLVs_traced: "fst (VolumeGroup_NumLVs (traced os) vg (w, l)) = fst (VolumeGroup_NumLVs os vg w)"
  by (simp add: VolumeGroup_NumLVs_def fst_bindE_retE lvsListVolumes_traced)

section \<open>The round trip of a listing\<close>

definition lvsJson :: "lvsLogicalVolume \<Rightarrow> json" where
  "lvsJson v = JObj [(''lv_name'', JStr (lvs_Name v)), (''vg_name'', JStr (lvs_VGName v)),
     (''lv_attr'', JStr (lvs_Attrs v)), (''lv_size'', JStr (lvs_Size v)),
     (''pv_count'', JStr (lvs_PVCount v)), (''vg_missing_pv_count'', JStr (lvs_VGMissingPVCount v)),
     (''lv_health_status'', JStr (lvs_LVHealthStatus v)), (''lv_tags'', JStr (lvs_LVTags v)),
     (''sync_percent'', JStr (lvs_SyncPercent v)), (''lv_layout'', JStr (lvs_LVLayout v))]"

definition reportJson :: "string \<Rightarrow> json list list \<Rightarrow> json" where
  "reportJson field reports =
     JObj [(''report'', JArr (map (\<lambda>vols. JObj [(field, JArr vols)]) reports))]"

definition lvsPrintable :: "lvsLogicalVolume \<Rightarrow> bool" where
  "lvsPrintable v = list_all printable [lvs_Name v, lvs_VGName v, lvs_Attrs v, lvs_Size v,
     lvs_PVCount v, lvs_VGMissingPVCount v, lvs_LVHealthStatus v, lvs_LVTags v, lvs_SyncPercent v,
     lvs_LVLayout v]"

lemma ascii_lower_field [simp]:
  "list_all (\<lambda>c. ascii_lower c = c) ''abcdefghijklmnopqrstuvwxyz_''"
  by code_simp

lemma same_field_lower:
  assumes "list_all (\<lambda>c. c \<in> set ''abcdefghijklmnopqrstuvwxyz_'') f"
    and "list_all (\<lambda>c. c \<in> set ''abcdefghijklmnopqrstuvwxyz_'') k"
  shows "same_field f k \<longleftrightarrow> f = k"
proof -
  have "map ascii_lower s = s" if "list_all (\<lambda>c. c \<in> set ''abcdefghijklmnopqrstuvwxyz_'') s" for s
    using that ascii_lower_field unfolding list_all_iff by (metis map_idI)
  then show ?thesis using assms by (simp add: same_field_def)
qed

lemma lvsDecode_lvsJson: "lvsDecode (lvsJson v) = Inr v"
  by (simp add: lvsDecode_def lvsJson_def same_field_lower)

lemma mapRes_map: "(\<And>x. f (g x) = Inr x) \<Longrightarrow> mapRes f (map g xs) = Inr xs"
  by (induction xs) auto

lemma unmarshalReports_reportJson:
  assumes "\<And>x. dec (enc x) = Inr x" and "jplain (reportJson field (map (map enc) reports))"
  shows "unmarshalReports field dec (jrender (reportJson field (map (map enc) reports))) = Inr (concat reports)"
proof -
  have "mapRes (\<lambda>r. bindR (structOf r) (\<lambda>ms. bindR (arrField field [] ms) (mapRes dec)))
      (map (\<lambda>vols. JObj [(field, JArr (map enc vols))]) reports) = Inr reports"
    by (rule mapRes_map) (simp add: same_field_def mapRes_map assms(1))
  then show ?thesis
    unfolding unmarshalReports_def jparse_jrender [OF assms(2)]
    by (simp add: reportJson_def same_field_def comp_def)
qed

lemma printable_field:
  "list_all (\<lambda>c. c \<in> set ''abcdefghijklmnopqrstuvwxyz_'') f \<Longrightarrow> printable f"
proof -
  have "list_all (\<lambda>c. (32 :: nat) \<le> of_char c) ''abcdefghijklmnopqrstuvwxyz_''" by code_simp
  then show "list_all (\<lambda>c. c \<in> set ''abcdefghijklmnopqrstuvwxyz_'') f \<Longrightarrow> printable f"
    unfolding printable_def list_all_iff by blast
qed

lemma jplain_lvsJson: "lvsPrintable v \<Longrightarrow> jplain (lvsJson v)"
  by (simp add: lvsJson_def lvsPrintable_def printable_field)

lemma jplain_report:
  "list_all (list_all jplain) reports \<Longrightarrow> printable field \<Longrightarrow> jplain (reportJson field reports)"
  by (auto simp: reportJson_def list_all_iff printable_field)

section \<open>Expansion of the variables\<close>

definition expandMap :: "kv \<Rightarrow> kv list \<Rightarrow> kv" where
  "expandMap vars extra =
     foldl kv_merge (addIndexed ''$DEVICE'' 0
       (go_split (CHR '' '') (the (map_of vars ''$DEVICE_LIST''))) vars) extra"

lemma expandVars_eq:
  assumes "map_of vars ''$DEVICE_LIST'' = Some devs"
  shows "expandVars os vars extra args w =
    (Inr (ReplaceAll (os_order os w) \<lparr>VarMap = expandMap vars extra\<rparr> args), w)"
  using assms by (simp add: expandVars_def ListToVars_def NewVarHandler_def expandMap_def replaceE_def
      bindE_def liftE_def wrapE_def catchE_def)

definition LogicalVolume_vars :: "LogicalVolume \<Rightarrow> kv" where
  "LogicalVolume_vars lv =
     expandMap (deviceVars (map pv_Device (vg_PhysicalVolumes (lv_VolumeGroup lv))) (vg_Name (lv_VolumeGroup lv)) @
        [(''$LV_NAME'', lv_Name lv),
         (''$LV_SIZE'', itoa (go_quot (lv_Size lv) 1024) @ ''K''),
         (''$PERCENT_VG'', itoa (lv_PercentVG lv) @ ''%VG'')]) [lv_Vars lv]"

lemma LogicalVolume_ParseArgs_eq:
  "LogicalVolume_ParseArgs os lv args w =
     (Inr (ReplaceAll (os_order os w) \<lparr>VarMap = LogicalVolume_vars lv\<rparr> args), w)"
  unfolding LogicalVolume_ParseArgs_def LogicalVolume_vars_def
  by (rule expandVars_eq) (simp add: deviceVars_def)

section \<open>Properties\<close>


text \<open>A volume for the examples.\<close>

definition exRow :: "string \<Rightarrow> string \<Rightarrow> string \<Rightarrow> lvsLogicalVolume" where
  "exRow name vg attrs = \<lparr>lvs_Name = name, lvs_VGName = vg, lvs_Attrs = attrs, lvs_Size = [],
     lvs_PVCount = [], lvs_VGMissingPVCount = ''0'', lvs_LVHealthStatus = [], lvs_LVTags = [],
     lvs_SyncPercent = [], lvs_LVLayout = ''striped''\<rparr>"

definition lvsOs :: "lvsLogicalVolume list list \<Rightarrow> 'w os" where
  "lvsOs reports = exampleOs (\<lambda>c. (jrender (reportJson ''lv'' (map (map lvsJson) reports)), [], None))
     (\<lambda>_. None) False []"


text \<open>
  The command lines of a logical volume are well defined: when the variables of the volume are
  well formed and the profile's text names each of them without ambiguity, the expansion is the
  simultaneous substitution in every world and in every order of traversal of Go's maps.
\<close>

theorem LogicalVolume_ParseArgs_deterministic:
  assumes "vars_ok (LogicalVolume_vars lv)" and "clear (map fst (LogicalVolume_vars lv)) args"
    and "range_order (os_order os w)"
  shows "LogicalVolume_ParseArgs os lv args w = (Inr (subst (LogicalVolume_vars lv) args), w)"
  using ReplaceAll_subst [of "\<lparr>VarMap = LogicalVolume_vars lv\<rparr>" args] assms
  by (simp add: LogicalVolume_ParseArgs_eq)

definition exLv :: LogicalVolume where
  "exLv = NewLogicalVolume ''lv'' (NewVolumeGroup ''vg'' [NewPhysicalVolume ''/dev/a'', NewPhysicalVolume ''/dev/b'']) 4096 100"

theorem LogicalVolume_ParseArgs_deterministic_witness:
  "LogicalVolume_ParseArgs (exampleOs (\<lambda>_. ([], [], None)) (\<lambda>_. None) True []) exLv
     ''-l $PERCENT_VG -n $LV_NAME $VG_NAME'' () = (Inr ''-l 100%VG -n lv vg'', ())"
proof -
  let ?os = "exampleOs (\<lambda>_. ([], [], None)) (\<lambda>_. None) True [] :: unit os"
  have "vars_ok (LogicalVolume_vars exLv)"
    "clear (map fst (LogicalVolume_vars exLv)) ''-l $PERCENT_VG -n $LV_NAME $VG_NAME''"
    by code_simp+
  moreover have "range_order (os_order ?os ())" by (simp add: range_order_def)
  ultimately have "LogicalVolume_ParseArgs ?os exLv ''-l $PERCENT_VG -n $LV_NAME $VG_NAME'' () =
      (Inr (subst (LogicalVolume_vars exLv) ''-l $PERCENT_VG -n $LV_NAME $VG_NAME''), ())"
    by (rule LogicalVolume_ParseArgs_deterministic)
  also have "subst (LogicalVolume_vars exLv) ''-l $PERCENT_VG -n $LV_NAME $VG_NAME'' = ''-l 100%VG -n lv vg''"
    by code_simp
  finally show ?thesis .
qed

text \<open>
  Where names overlap the command line is not determined: for a volume on two devices the text
  \<^verbatim>\<open>--stripes $DEVICE_NUM-1\<close> becomes \<^verbatim>\<open>--stripes 1\<close> or \<^verbatim>\<open>--stripes 2-1\<close>, depending on the order in which the
  Go runtime happens to traverse the map of variables.
\<close>

theorem ParseArgs_order_dependent:
  "fst (LogicalVolume_ParseArgs (exampleOs answer env True mounts) exLv ''--stripes $DEVICE_NUM-1'' w) =
     Inr ''--stripes 1'' \<and>
   fst (LogicalVolume_ParseArgs (exampleOs answer env False mounts) exLv ''--stripes $DEVICE_NUM-1'' w) =
     Inr ''--stripes 2-1''"
proof -
  have "ReplaceAll (\<lambda>d m. rev m) \<lparr>VarMap = LogicalVolume_vars exLv\<rparr> ''--stripes $DEVICE_NUM-1'' = ''--stripes 1''"
    "ReplaceAll (\<lambda>d m. m) \<lparr>VarMap = LogicalVolume_vars exLv\<rparr> ''--stripes $DEVICE_NUM-1'' = ''--stripes 2-1''"
    by code_simp+
  moreover have "os_order (exampleOs answer env True mounts) w = (\<lambda>d m. rev m)"
    "os_order (exampleOs answer env False mounts) w = (\<lambda>d m. m)"
    by (simp_all add: fun_eq_iff)
  ultimately show ?thesis by (simp only: LogicalVolume_ParseArgs_eq fst_conv)
qed

text \<open>
  The lock space of a shared volume group is not stopped under an active volume: as long as the
  listing shows an active logical volume in the group, \<^verbatim>\<open>LockStop\<close> runs no \<^verbatim>\<open>vgchange\<close>, in any world and
  for any profile text.
\<close>

theorem LockStop_spares_active:
  assumes "\<And>w. \<exists>lvs. fst (lvsListVolumes os w) = Inr lvs \<and> anyActive (vg_Name vg) lvs = Inr True"
  shows "list_all (\<lambda>c. \<not> prefix ''vgchange '' c)
    (commandsOf (VolumeGroup_LockStop (traced os) vg rawArgs) w)"
proof (rule issues_commandsOf)
  let ?P = "\<lambda>c. \<not> prefix ''vgchange '' c"
  have lists: "lists_ok ?P" by (simp add: lists_ok_def)
  have active: "anyActive (vg_Name vg) lvs = Inr True"
    if "fst (wrapE f (lvsListVolumes (traced os)) s) = Inr lvs" for f s lvs
  proof -
    have "fst (lvsListVolumes os (fst s)) = Inr lvs"
      using that [unfolded fst_wrapE_Inr] lvsListVolumes_traced [of os "fst s" "snd s"] by simp
    then show ?thesis using assms [of "fst s"] by auto
  qed
  have tail: "issues ?P (bindE (wrapE f (lvsListVolumes (traced os)))
      (\<lambda>lvs. bindE (liftE (anyActive (vg_Name vg) lvs)) (\<lambda>b. if b then retE False else m)))" for f m
    by (rule issues_bindE_when [OF issues_wrapE [OF lists_okD(3) [OF lists]]])
      (simp add: active issues_retE)
  show "issues ?P (VolumeGroup_LockStop (traced os) vg rawArgs)"
    unfolding VolumeGroup_LockStop_def
    by (intro issues_if issues_retE issues_bindE [OF issues_vg_read(1) [OF lists]] tail)
qed

lemma lvsOs_list:
  assumes "list_all (list_all lvsPrintable) reports"
  shows "lvsListVolumes (lvsOs reports) w = (Inr (concat reports), w)"
proof -
  define t where "t = jrender (reportJson ''lv'' (map (map lvsJson) reports))"
  have "jplain (reportJson ''lv'' (map (map lvsJson) reports))"
    using assms by (intro jplain_report) (auto simp: list_all_iff jplain_lvsJson printable_field)
  then have dec: "unmarshalReports ''lv'' lvsDecode t = Inr (concat reports)"
    unfolding t_def by (rule unmarshalReports_reportJson [OF lvsDecode_lvsJson])
  have run: "Run (lvsOs reports) c w = (Inr t, w)" for c
    by (simp add: lvsOs_def t_def [symmetric])
  show ?thesis
    by (simp add: lvsListVolumes_def bindE_def wrapE_def catchE_def liftE_def run dec)
qed

theorem LockStop_spares_active_witness:
  "list_all (\<lambda>c. \<not> prefix ''vgchange '' c)
     (commandsOf (VolumeGroup_LockStop (traced (lvsOs [[exRow ''lv'' ''vg'' ''-wi-a-----'']]))
        (NewVolumeGroup ''vg'' []) ''--lockstop $VG_NAME'') ())"
proof (rule LockStop_spares_active)
  fix w :: unit
  have "list_all (list_all lvsPrintable) [[exRow ''lv'' ''vg'' ''-wi-a-----'']]"
    and "anyActive ''vg'' [exRow ''lv'' ''vg'' ''-wi-a-----''] = Inr True"
    by code_simp+
  then show "\<exists>lvs. fst (lvsListVolumes (lvsOs [[exRow ''lv'' ''vg'' ''-wi-a-----'']]) w) = Inr lvs \<and>
      anyActive (vg_Name (NewVolumeGroup ''vg'' [])) lvs = Inr True"
    by (simp add: lvsOs_list NewVolumeGroup_def)
qed

end
