(* ===== verification/BlockDevice.thy ===== *)
theory BlockDevice
  imports LvmVolumes
begin

text \<open>
  \<^verbatim>\<open>pkg/blockdevice\<close>: the \<^verbatim>\<open>BlockDevice\<close> interface and its implementations on LVM
  (\<^verbatim>\<open>lvm.go\<close>), on ZFS pools (\<^verbatim>\<open>zpool.go\<close>) and as a mock (\<^verbatim>\<open>mock.go\<close>). A value of the interface is the
  datatype \<open>BlockDevice\<close>, and a method call dispatches on it. No method changes its receiver (the
  user commands are run with no extra variables), so a method is an effect on the system only.
\<close>

section \<open>LVM\<close>

record LvmPvCommandArgs =
  pva_Create :: string
  pva_Remove :: string

record LvmVgCommandArgs =
  vga_Create :: string
  vga_Remove :: string
  vga_LockStart :: string
  vga_LockStop :: string
  vga_Extend :: string
  vga_Reduce :: string

record LvmLvCommandArgs =
  lva_Create :: string
  lva_Remove :: string
  lva_Activate :: string
  lva_Deactivate :: string
  lva_Repair :: string

record LvmUserCommandArgs =
  lua_PreActivate :: "string list"
  lua_PostActivate :: "string list"
  lua_PreDeactivate :: "string list"
  lua_PostDeactivate :: "string list"
  lua_PostTeardown :: "string list"

record LvmCommandArgs =
  lca_PvArgs :: LvmPvCommandArgs
  lca_VgArgs :: LvmVgCommandArgs
  lca_LvArgs :: LvmLvCommandArgs
  lca_UserArgs :: LvmUserCommandArgs
  lca_Vars :: kv

record Lvm =
  lvm_CommandArgs :: LvmCommandArgs
  lvm_PhysicalVolumes :: "PhysicalVolume list"
  lvm_VolumeGroup :: VolumeGroup
  lvm_LogicalVolume :: LogicalVolume

abbreviation pvArgs :: "Lvm \<Rightarrow> LvmPvCommandArgs" where
  "pvArgs l \<equiv> lca_PvArgs (lvm_CommandArgs l)"

abbreviation vgArgs :: "Lvm \<Rightarrow> LvmVgCommandArgs" where
  "vgArgs l \<equiv> lca_VgArgs (lvm_CommandArgs l)"

abbreviation lvArgs :: "Lvm \<Rightarrow> LvmLvCommandArgs" where
  "lvArgs l \<equiv> lca_LvArgs (lvm_CommandArgs l)"

abbreviation userArgs :: "Lvm \<Rightarrow> LvmUserCommandArgs" where
  "userArgs l \<equiv> lca_UserArgs (lvm_CommandArgs l)"

text \<open>A step that is skipped when its argument string is empty.\<close>

definition whenArgs :: "string \<Rightarrow> ('w, bool) io \<Rightarrow> ('w, bool) io" where
  "whenArgs args m = (if length args > 0 then m else retE False)"

definition Lvm_Create :: "'w os \<Rightarrow> Lvm \<Rightarrow> bool \<Rightarrow> ('w, bool) io" where
  "Lvm_Create os l complete =
     (if complete then retE False
      else bindE (whenArgs (pva_Create (pvArgs l))
                    (bindE (mapME (\<lambda>pv. PhysicalVolume_Create os pv (pva_Create (pvArgs l)))
                              (lvm_PhysicalVolumes l)) (\<lambda>created. retE (list_ex id created)))) (\<lambda>c1.
           bindE (whenArgs (vga_Create (vgArgs l))
                    (VolumeGroup_Create os (lvm_VolumeGroup l) (vga_Create (vgArgs l)))) (\<lambda>c2.
           bindE (whenArgs (vga_LockStart (vgArgs l))
                    (VolumeGroup_LockStart os (lvm_VolumeGroup l) (vga_LockStart (vgArgs l)))) (\<lambda>c3.
           bindE (whenArgs (lva_Create (lvArgs l))
                    (LogicalVolume_Create os (lvm_LogicalVolume l) (lva_Create (lvArgs l)))) (\<lambda>c4.
             retE (c1 \<or> c2 \<or> c3 \<or> c4))))))"

definition Lvm_Destroy :: "'w os \<Rightarrow> Lvm \<Rightarrow> ('w, bool) io" where
  "Lvm_Destroy os l =
     bindE (VolumeGroup_Exists os (lvm_VolumeGroup l)) (\<lambda>vgExists.
     bindE (if vgExists \<and> length (vga_LockStart (vgArgs l)) > 0
            then VolumeGroup_LockStart os (lvm_VolumeGroup l) (vga_LockStart (vgArgs l))
            else retE False) (\<lambda>d1.
     bindE (whenArgs (lva_Remove (lvArgs l))
              (LogicalVolume_Remove os (lvm_LogicalVolume l) (lva_Remove (lvArgs l)))) (\<lambda>d2.
     bindE (if length (vga_Remove (vgArgs l)) > 0
            then bindE (VolumeGroup_NumLVs os (lvm_VolumeGroup l)) (\<lambda>cnt.
                   if cnt \<noteq> 0 then retE None
                   else bindE (VolumeGroup_Remove os (lvm_VolumeGroup l) (vga_Remove (vgArgs l)))
                          (\<lambda>d. retE (Some d)))
            else retE (Some False)) (\<lambda>removal.
       case removal of
         None \<Rightarrow> retE (d1 \<or> d2)
       | Some d3 \<Rightarrow>
           bindE (whenArgs (pva_Remove (pvArgs l))
                    (bindE (mapME (\<lambda>pv. PhysicalVolume_Remove os pv (pva_Remove (pvArgs l)))
                              (lvm_PhysicalVolumes l)) (\<lambda>ds. retE (list_ex id ds)))) (\<lambda>d4.
             retE (d1 \<or> d2 \<or> d3 \<or> d4))))))"

definition Lvm_GetDevice :: "Lvm \<Rightarrow> string" where
  "Lvm_GetDevice l =
     ''/dev/mapper/'' @ go_replace_all (vg_Name (lvm_VolumeGroup l)) ''-'' ''--'' @ ''-'' @
     go_replace_all (lv_Name (lvm_LogicalVolume l)) ''-'' ''--''"

text \<open>One look for the device: found, not there yet, or another error.\<close>

definition statDevice :: "'w os \<Rightarrow> string \<Rightarrow> ('w, string + unit) io" where
  "statDevice os device = (\<lambda>w. case os_Stat os device w of
     (None, w') \<Rightarrow> (Inr (Inr ()), w')
   | (Some (ErrNotExist s), w') \<Rightarrow> (Inr (Inl s), w')
   | (Some e, w') \<Rightarrow> (Inl (Fail (''could not stat device '' @ oserrText e)), w'))"

definition Lvm_waitForMapper :: "'w os \<Rightarrow> Lvm \<Rightarrow> ('w, unit) io" where
  "Lvm_waitForMapper os l =
     bindE (poll os (mapperWait os 10000000000) 1000000000 (statDevice os (Lvm_GetDevice l)))
       (\<lambda>r. case r of
          Inr _ \<Rightarrow> retE ()
        | Inl err \<Rightarrow> failE (Fail (''timeout waiting for device '' @
            (case err of None \<Rightarrow> ''%!w(<nil>)'' | Some s \<Rightarrow> s))))"

definition Lvm_Activate :: "'w os \<Rightarrow> Lvm \<Rightarrow> ('w, bool) io" where
  "Lvm_Activate os l =
     bindE (whenArgs (vga_LockStart (vgArgs l))
              (VolumeGroup_LockStart os (lvm_VolumeGroup l) (vga_LockStart (vgArgs l)))) (\<lambda>_.
     bindE (whenArgs (lva_Activate (lvArgs l))
              (bindE (LogicalVolume_Activate os (lvm_LogicalVolume l) (lva_Activate (lvArgs l))) (\<lambda>_.
               bindE (Lvm_waitForMapper os l) (\<lambda>_. retE False)))) (\<lambda>_. retE False))"

definition Lvm_Deactivate :: "'w os \<Rightarrow> Lvm \<Rightarrow> bool \<Rightarrow> ('w, bool) io" where
  "Lvm_Deactivate os l full =
     bindE (whenArgs (lva_Deactivate (lvArgs l))
              (LogicalVolume_Deactivate os (lvm_LogicalVolume l) (lva_Deactivate (lvArgs l)))) (\<lambda>_.
     bindE (if full \<and> length (vga_LockStop (vgArgs l)) > 0
            then VolumeGroup_LockStop os (lvm_VolumeGroup l) (vga_LockStop (vgArgs l))
            else retE False) (\<lambda>_. retE False))"

definition Lvm_CheckFormatted :: "'w os \<Rightarrow> Lvm \<Rightarrow> ('w, bool) io" where
  "Lvm_CheckFormatted os l =
     bindE (wrapE (errorf ''could not run wipefs to determine if device is formatted: '')
              (Run os (''wipefs --noheadings --output type '' @ Lvm_GetDevice l)))
       (\<lambda>output. retE (length output \<noteq> 0))"

definition Lvm_CheckExists :: "'w os \<Rightarrow> Lvm \<Rightarrow> ('w, bool) io" where
  "Lvm_CheckExists os l =
     bindE (VolumeGroup_Exists os (lvm_VolumeGroup l)) (\<lambda>vgExists.
       if \<not> vgExists then retE False else LogicalVolume_Exists os (lvm_LogicalVolume l))"

definition Lvm_CheckHealth :: "'w os \<Rightarrow> Lvm \<Rightarrow> ('w, bool) io" where
  "Lvm_CheckHealth os l =
     (if length (lva_Create (lvArgs l)) = 0 then retE True
      else LogicalVolume_IsHealthy os (lvm_LogicalVolume l))"

definition Lvm_CheckReady :: "'w os \<Rightarrow> Lvm \<Rightarrow> ('w, bool) io" where
  "Lvm_CheckReady os l =
     (if length (lva_Create (lvArgs l)) = 0 then retE True
      else LogicalVolume_IsSynced os (lvm_LogicalVolume l))"

definition Lvm_Repair :: "'w os \<Rightarrow> Lvm \<Rightarrow> ('w, unit) io" where
  "Lvm_Repair os l =
     bindE (whenArgs (pva_Create (pvArgs l))
              (bindE (mapME (\<lambda>pv. PhysicalVolume_Create os pv (pva_Create (pvArgs l)))
                        (lvm_PhysicalVolumes l)) (\<lambda>_. retE False))) (\<lambda>_.
     bindE (VolumeGroup_Extend os (lvm_VolumeGroup l) (vga_Extend (vgArgs l))) (\<lambda>_.
     bindE (Lvm_Activate os l) (\<lambda>_.
       finallyE
         (bindE (LogicalVolume_Repair os (lvm_LogicalVolume l) (lva_Repair (lvArgs l))) (\<lambda>_.
          bindE (VolumeGroup_Reduce os (lvm_VolumeGroup l) (vga_Reduce (vgArgs l))) (\<lambda>_. retE ())))
         (Lvm_Deactivate os l False))))"

text \<open>
  The user commands of a phase. The extra variables go to \<^verbatim>\<open>l.CommandArgs.Vars\<close>, which
  \<^verbatim>\<open>LogicalVolume.ParseArgs\<close> does not read.
\<close>

definition Lvm_RunCommands :: "'w os \<Rightarrow> Lvm \<Rightarrow> bool \<Rightarrow> string list \<Rightarrow> string \<Rightarrow> ('w, bool) io" where
  "Lvm_RunCommands os l complete commands phase =
     (if length commands = 0 then retE False
      else if complete then retE False
      else bindE (mapME (\<lambda>rawCommand.
             bindE (wrapE (errorf (''could not format '' @ phase @ '' command: '' @ rawCommand @ '': ''))
                      (LogicalVolume_ParseArgs os (lvm_LogicalVolume l) rawCommand)) (\<lambda>formattedCommand.
               wrapE (errorf (''could not run '' @ phase @ '' command: '' @ formattedCommand @ '': ''))
                 (Run os formattedCommand))) commands) (\<lambda>_. retE True))"

definition Lvm_PreActivate :: "'w os \<Rightarrow> Lvm \<Rightarrow> bool \<Rightarrow> ('w, bool) io" where
  "Lvm_PreActivate os l complete = Lvm_RunCommands os l complete (lua_PreActivate (userArgs l)) ''PreActivate''"

definition Lvm_PostActivate :: "'w os \<Rightarrow> Lvm \<Rightarrow> bool \<Rightarrow> ('w, bool) io" where
  "Lvm_PostActivate os l complete = Lvm_RunCommands os l complete (lua_PostActivate (userArgs l)) ''PostActivate''"

definition Lvm_PreDeactivate :: "'w os \<Rightarrow> Lvm \<Rightarrow> bool \<Rightarrow> ('w, bool) io" where
  "Lvm_PreDeactivate os l complete = Lvm_RunCommands os l complete (lua_PreDeactivate (userArgs l)) ''PreDeactivate''"

definition Lvm_PostDeactivate :: "'w os \<Rightarrow> Lvm \<Rightarrow> bool \<Rightarrow> ('w, bool) io" where
  "Lvm_PostDeactivate os l complete = Lvm_RunCommands os l complete (lua_PostDeactivate (userArgs l)) ''PostDeactivate''"

definition Lvm_PostTeardown :: "'w os \<Rightarrow> Lvm \<Rightarrow> bool \<Rightarrow> ('w, bool) io" where
  "Lvm_PostTeardown os l complete = Lvm_RunCommands os l complete (lua_PostTeardown (userArgs l)) ''PostTeardown''"

section \<open>ZFS pools\<close>

record ZpoolCommandArgs =
  zca_Create :: string
  zca_Destroy :: string
  zca_Replace :: string
  zca_PreActivate :: "string list"
  zca_PostActivate :: "string list"
  zca_PreDeactivate :: "string list"
  zca_PostDeactivate :: "string list"
  zca_PostTeardown :: "string list"
  zca_Vars :: kv

record Zpool =
  zp_CommandArgs :: ZpoolCommandArgs
  zp_Devices :: "string list"
  zp_Name :: string
  zp_DataSet :: string

definition Zpool_vars :: "Zpool \<Rightarrow> kv \<Rightarrow> kv" where
  "Zpool_vars z vars =
     kv_merge (kv_merge
       [(''$DEVICE_NUM'', itoa (int (length (zp_Devices z)))),
        (''$DEVICE_NUM-1'', itoa (int (length (zp_Devices z)) - 1)),
        (''$DEVICE_NUM-2'', itoa (int (length (zp_Devices z)) - 2)),
        (''$DEVICE_LIST'', go_join '' '' (zp_Devices z)),
        (''$POOL_NAME'', zp_Name z)]
       (zca_Vars (zp_CommandArgs z))) vars"

definition Zpool_parseArgs :: "'w os \<Rightarrow> Zpool \<Rightarrow> string \<Rightarrow> kv \<Rightarrow> ('w, string) io" where
  "Zpool_parseArgs os z args vars = replaceE os (NewVarHandler (Zpool_vars z vars)) args"

text \<open>
  The line of \<^verbatim>\<open>zpool list -H\<close> that describes the pool: its columns. The tenth field is the health; a
  shorter line is an index out of range.
\<close>

definition zpoolLine :: "string \<Rightarrow> string \<Rightarrow> string list option" where
  "zpoolLine name output =
     find (\<lambda>cols. length cols > 0 \<and> cols ! 0 = name) (map go_fields (go_split (CHR 0x0A) output))"

definition zpoolHealth :: "string list \<Rightarrow> string res" where
  "zpoolHealth cols = (if 9 < length cols then Inr (cols ! 9) else Inl (Panic ''index out of range''))"

definition listZpools :: "'w os \<Rightarrow> string \<Rightarrow> ('w, string) io" where
  "listZpools os cmd = wrapE (\<lambda>_. Fail ''could not list zpools'') (Run os cmd)"

definition Zpool_Create :: "'w os \<Rightarrow> Zpool \<Rightarrow> bool \<Rightarrow> ('w, bool) io" where
  "Zpool_Create os z complete =
     (if length (zca_Create (zp_CommandArgs z)) = 0 then retE False
      else if complete then retE False
      else bindE (listZpools os ''zpool list -H'') (\<lambda>output.
             case zpoolLine (zp_Name z) output of
               Some cols \<Rightarrow> bindE (liftE (zpoolHealth cols)) (\<lambda>health.
                 if health = ''ONLINE'' then retE False
                 else failE (Fail (''zpool has unexpected health '' @ health)))
             | None \<Rightarrow>
                 bindE (Zpool_parseArgs os z (zca_Create (zp_CommandArgs z)) []) (\<lambda>args.
                 bindE (wrapE (errorf ''could not create file system: '') (Run os (''zpool create '' @ args)))
                   (\<lambda>_. retE True))))"

definition Zpool_Destroy :: "'w os \<Rightarrow> Zpool \<Rightarrow> ('w, bool) io" where
  "Zpool_Destroy os z =
     (if length (zca_Destroy (zp_CommandArgs z)) = 0 then retE False
      else bindE (Zpool_parseArgs os z (zca_Destroy (zp_CommandArgs z)) []) (\<lambda>args.
           bindE (catchE (Run os (''zpool destroy '' @ args))
                    (\<lambda>e. if go_contains ''no such pool'' (errText e) then retE []
                         else failE (Fail (''could not destroy zpool '' @ zp_Name z)))) (\<lambda>_. retE True)))"

definition Zpool_GetDevice :: "Zpool \<Rightarrow> string" where
  "Zpool_GetDevice z = zp_Name z @ ''/'' @ zp_DataSet z"

definition Zpool_CheckFormatted :: "'w os \<Rightarrow> Zpool \<Rightarrow> ('w, bool) io" where
  "Zpool_CheckFormatted os z =
     bindE (catchE (bindE (Run os (''zfs get -H lustre:fsname '' @ Zpool_GetDevice z)) (\<lambda>out. retE (Some out)))
              (\<lambda>e. if go_contains ''dataset does not exist'' (errText e) then retE None
                   else failE (errorf ''could not run 'zfs get' to check for zpool device '' e)))
       (\<lambda>r. case r of
          None \<Rightarrow> retE False
        | Some output \<Rightarrow>
            if length output = 0 then failE (Fail '''zfs get' returned no output'') else retE True)"

definition Zpool_CheckExists :: "'w os \<Rightarrow> Zpool \<Rightarrow> ('w, bool) io" where
  "Zpool_CheckExists os z =
     bindE (listZpools os ''zpool list -H'') (\<lambda>output. retE (zpoolLine (zp_Name z) output \<noteq> None))"

definition Zpool_CheckHealth :: "'w os \<Rightarrow> Zpool \<Rightarrow> ('w, bool) io" where
  "Zpool_CheckHealth os z =
     bindE (listZpools os ''zpool list -H'') (\<lambda>output.
       case zpoolLine (zp_Name z) output of
         None \<Rightarrow> retE False
       | Some cols \<Rightarrow> bindE (liftE (zpoolHealth cols)) (\<lambda>health. retE (health = ''ONLINE'')))"

text \<open>A wanted device counts as present when a line with its name as a prefix is online.\<close>

definition devicePresent :: "string \<Rightarrow> string \<Rightarrow> bool" where
  "devicePresent output device =
     list_ex (\<lambda>cols. length cols > 1 \<and> has_prefix (cols ! 0) device \<and> cols ! 1 = ''ONLINE'')
       (map go_fields (go_split (CHR 0x0A) output))"

definition unhealthyDevices :: "string \<Rightarrow> string list" where
  "unhealthyDevices output =
     map (\<lambda>cols. cols ! 0)
       (filter (\<lambda>cols. length cols > 1 \<and> has_prefix (cols ! 0) ''/dev'' \<and> cols ! 1 \<noteq> ''ONLINE'')
          (map go_fields (go_split (CHR 0x0A) output)))"

text \<open>
  The replacement loop over the devices that are not present: the \<open>i\<close>-th of them takes the place
  of the \<open>i\<close>-th unhealthy device; if there is none, the index is out of range.
\<close>

fun replaceDevices :: "'w os \<Rightarrow> Zpool \<Rightarrow> string list \<Rightarrow> string list \<Rightarrow> ('w, unit) io" where
  "replaceDevices os z unhealthy [] = retE ()"
| "replaceDevices os z [] (device # devices) = failE (Panic ''index out of range'')"
| "replaceDevices os z (old # unhealthy) (device # devices) =
     bindE (Zpool_parseArgs os z (zca_Replace (zp_CommandArgs z))
              [(''$OLD_DEVICE'', old), (''$NEW_DEVICE'', device)]) (\<lambda>args.
     bindE (wrapE (\<lambda>_. Fail ''could not run zpool replace'') (Run os (''zpool replace '' @ args)))
       (\<lambda>_. replaceDevices os z unhealthy devices))"

definition Zpool_Repair :: "'w os \<Rightarrow> Zpool \<Rightarrow> ('w, unit) io" where
  "Zpool_Repair os z =
     (if length (zca_Replace (zp_CommandArgs z)) = 0 then retE ()
      else bindE (listZpools os (''zpool status -P '' @ zp_Name z)) (\<lambda>output.
           bindE (listZpools os (''zpool status -eP '' @ zp_Name z)) (\<lambda>errors.
             (\<lambda>w. replaceDevices os z (unhealthyDevices errors)
                (filter (\<lambda>d. \<not> devicePresent output d) (os_keys os w (remdups (zp_Devices z)))) w))))"

definition ZpoolImportAll :: "'w os \<Rightarrow> ('w, bool) io" where
  "ZpoolImportAll os =
     (if os_getenv os ''NNF_TEST_ENVIRONMENT'' \<noteq> None \<or> os_getenv os ''ENVIRONMENT'' = Some ''kind''
      then retE False
      else catchE (bindE (Run os ''zpool import -a'') (\<lambda>_. retE True))
             (\<lambda>e. if go_contains ''no pools available'' (errText e) then retE False
                  else failE (errorf ''could not import zpools: '' e)))"

definition Zpool_RunCommands :: "'w os \<Rightarrow> Zpool \<Rightarrow> bool \<Rightarrow> string list \<Rightarrow> string \<Rightarrow> ('w, bool) io" where
  "Zpool_RunCommands os z complete commands phase =
     (if length commands = 0 then retE False
      else if complete then retE False
      else bindE (mapME (\<lambda>rawCommand.
             bindE (Zpool_parseArgs os z rawCommand []) (\<lambda>formattedCommand.
               wrapE (errorf (''could not run '' @ phase @ '' command: '' @ formattedCommand @ '': ''))
                 (Run os formattedCommand))) commands) (\<lambda>_. retE True))"

definition Zpool_Activate :: "'w os \<Rightarrow> Zpool \<Rightarrow> ('w, bool) io" where
  "Zpool_Activate os z = retE False"

definition Zpool_Deactivate :: "'w os \<Rightarrow> Zpool \<Rightarrow> bool \<Rightarrow> ('w, bool) io" where
  "Zpool_Deactivate os z full = retE False"

definition Zpool_CheckReady :: "'w os \<Rightarrow> Zpool \<Rightarrow> ('w, bool) io" where
  "Zpool_CheckReady os z = retE True"

definition Zpool_PreActivate :: "'w os \<Rightarrow> Zpool \<Rightarrow> bool \<Rightarrow> ('w, bool) io" where
  "Zpool_PreActivate os z complete =
     Zpool_RunCommands os z complete (zca_PreActivate (zp_CommandArgs z)) ''PreActivate''"

definition Zpool_PostActivate :: "'w os \<Rightarrow> Zpool \<Rightarrow> bool \<Rightarrow> ('w, bool) io" where
  "Zpool_PostActivate os z complete =
     Zpool_RunCommands os z complete (zca_PostActivate (zp_CommandArgs z)) ''PostActivate''"

definition Zpool_PreDeactivate :: "'w os \<Rightarrow> Zpool \<Rightarrow> bool \<Rightarrow> ('w, bool) io" where
  "Zpool_PreDeactivate os z complete =
     Zpool_RunCommands os z complete (zca_PreDeactivate (zp_CommandArgs z)) ''PreDeactivate''"

definition Zpool_PostDeactivate :: "'w os \<Rightarrow> Zpool \<Rightarrow> bool \<Rightarrow> ('w, bool) io" where
  "Zpool_PostDeactivate os z complete =
     Zpool_RunCommands os z complete (zca_PostDeactivate (zp_CommandArgs z)) ''PostDeactivate''"

definition Zpool_PostTeardown :: "'w os \<Rightarrow> Zpool \<Rightarrow> bool \<Rightarrow> ('w, bool) io" where
  "Zpool_PostTeardown os z complete =
     Zpool_RunCommands os z complete (zca_PostTeardown (zp_CommandArgs z)) ''PostTeardown''"

section \<open>The mock\<close>

definition MockBlockDevice_Create :: "bool \<Rightarrow> ('w, bool) io" where
  "MockBlockDevice_Create complete = (if complete then retE False else retE True)"

definition MockBlockDevice_PreActivate :: "bool \<Rightarrow> ('w, bool) io" where
  "MockBlockDevice_PreActivate complete = (if complete then retE False else retE True)"

definition MockBlockDevice_PostActivate :: "bool \<Rightarrow> ('w, bool) io" where
  "MockBlockDevice_PostActivate complete = (if complete then retE False else retE True)"

definition MockBlockDevice_PreDeactivate :: "bool \<Rightarrow> ('w, bool) io" where
  "MockBlockDevice_PreDeactivate complete = (if complete then retE False else retE True)"

definition MockBlockDevice_PostDeactivate :: "bool \<Rightarrow> ('w, bool) io" where
  "MockBlockDevice_PostDeactivate complete = (if complete then retE False else retE True)"

definition MockBlockDevice_PostTeardown :: "bool \<Rightarrow> ('w, bool) io" where
  "MockBlockDevice_PostTeardown complete = (if complete then retE False else retE True)"

definition MockBlockDevice_Destroy :: "('w, bool) io" where
  "MockBlockDevice_Destroy = retE True"

definition MockBlockDevice_Activate :: "('w, bool) io" where
  "MockBlockDevice_Activate = retE True"

definition MockBlockDevice_Deactivate :: "bool \<Rightarrow> ('w, bool) io" where
  "MockBlockDevice_Deactivate full = retE True"

definition MockBlockDevice_CheckExists :: "('w, bool) io" where
  "MockBlockDevice_CheckExists = retE True"

definition MockBlockDevice_CheckHealth :: "('w, bool) io" where
  "MockBlockDevice_CheckHealth = retE True"

definition MockBlockDevice_CheckReady :: "('w, bool) io" where
  "MockBlockDevice_CheckReady = retE True"

definition MockBlockDevice_CheckFormatted :: "('w, bool) io" where
  "MockBlockDevice_CheckFormatted = retE True"

definition MockBlockDevice_Repair :: "('w, unit) io" where
  "MockBlockDevice_Repair = retE ()"

definition MockBlockDevice_GetDevice :: string where
  "MockBlockDevice_GetDevice = ''/dev/mock''"

section \<open>The interface\<close>

datatype BlockDevice = LvmDevice Lvm | ZpoolDevice Zpool | MockDevice

fun BlockDevice_Create :: "'w os \<Rightarrow> BlockDevice \<Rightarrow> bool \<Rightarrow> ('w, bool) io" where
  "BlockDevice_Create os (LvmDevice l) complete = Lvm_Create os l complete"
| "BlockDevice_Create os (ZpoolDevice z) complete = Zpool_Create os z complete"
| "BlockDevice_Create os MockDevice complete = MockBlockDevice_Create complete"

fun BlockDevice_Destroy :: "'w os \<Rightarrow> BlockDevice \<Rightarrow> ('w, bool) io" where
  "BlockDevice_Destroy os (LvmDevice l) = Lvm_Destroy os l"
| "BlockDevice_Destroy os (ZpoolDevice z) = Zpool_Destroy os z"
| "BlockDevice_Destroy os MockDevice = MockBlockDevice_Destroy"

fun BlockDevice_Activate :: "'w os \<Rightarrow> BlockDevice \<Rightarrow> ('w, bool) io" where
  "BlockDevice_Activate os (LvmDevice l) = Lvm_Activate os l"
| "BlockDevice_Activate os (ZpoolDevice z) = Zpool_Activate os z"
| "BlockDevice_Activate os MockDevice = MockBlockDevice_Activate"

fun BlockDevice_Deactivate :: "'w os \<Rightarrow> BlockDevice \<Rightarrow> bool \<Rightarrow> ('w, bool) io" where
  "BlockDevice_Deactivate os (LvmDevice l) full = Lvm_Deactivate os l full"
| "BlockDevice_Deactivate os (ZpoolDevice z) full = Zpool_Deactivate os z full"
| "BlockDevice_Deactivate os MockDevice full = MockBlockDevice_Deactivate full"

fun BlockDevice_CheckExists :: "'w os \<Rightarrow> BlockDevice \<Rightarrow> ('w, bool) io" where
  "BlockDevice_CheckExists os (LvmDevice l) = Lvm_CheckExists os l"
| "BlockDevice_CheckExists os (ZpoolDevice z) = Zpool_CheckExists os z"
| "BlockDevice_CheckExists os MockDevice = MockBlockDevice_CheckExists"

fun BlockDevice_CheckHealth :: "'w os \<Rightarrow> BlockDevice \<Rightarrow> ('w, bool) io" where
  "BlockDevice_CheckHealth os (LvmDevice l) = Lvm_CheckHealth os l"
| "BlockDevice_CheckHealth os (ZpoolDevice z) = Zpool_CheckHealth os z"
| "BlockDevice_CheckHealth os MockDevice = MockBlockDevice_CheckHealth"

fun BlockDevice_CheckReady :: "'w os \<Rightarrow> BlockDevice \<Rightarrow> ('w, bool) io" where
  "BlockDevice_CheckReady os (LvmDevice l) = Lvm_CheckReady os l"
| "BlockDevice_CheckReady os (ZpoolDevice z) = Zpool_CheckReady os z"
| "BlockDevice_CheckReady os MockDevice = MockBlockDevice_CheckReady"

fun BlockDevice_CheckFormatted :: "'w os \<Rightarrow> BlockDevice \<Rightarrow> ('w, bool) io" where
  "BlockDevice_CheckFormatted os (LvmDevice l) = Lvm_CheckFormatted os l"
| "BlockDevice_CheckFormatted os (ZpoolDevice z) = Zpool_CheckFormatted os z"
| "BlockDevice_CheckFormatted os MockDevice = MockBlockDevice_CheckFormatted"

fun BlockDevice_Repair :: "'w os \<Rightarrow> BlockDevice \<Rightarrow> ('w, unit) io" where
  "BlockDevice_Repair os (LvmDevice l) = Lvm_Repair os l"
| "BlockDevice_Repair os (ZpoolDevice z) = Zpool_Repair os z"
| "BlockDevice_Repair os MockDevice = MockBlockDevice_Repair"

fun BlockDevice_PreActivate :: "'w os \<Rightarrow> BlockDevice \<Rightarrow> bool \<Rightarrow> ('w, bool) io" where
  "BlockDevice_PreActivate os (LvmDevice l) complete = Lvm_PreActivate os l complete"
| "BlockDevice_PreActivate os (ZpoolDevice z) complete = Zpool_PreActivate os z complete"
| "BlockDevice_PreActivate os MockDevice complete = MockBlockDevice_PreActivate complete"

fun BlockDevice_PostActivate :: "'w os \<Rightarrow> BlockDevice \<Rightarrow> bool \<Rightarrow> ('w, bool) io" where
  "BlockDevice_PostActivate os (LvmDevice l) complete = Lvm_PostActivate os l complete"
| "BlockDevice_PostActivate os (ZpoolDevice z) complete = Zpool_PostActivate os z complete"
| "BlockDevice_PostActivate os MockDevice complete = MockBlockDevice_PostActivate complete"

fun BlockDevice_PreDeactivate :: "'w os \<Rightarrow> BlockDevice \<Rightarrow> bool \<Rightarrow> ('w, bool) io" where
  "BlockDevice_PreDeactivate os (LvmDevice l) complete = Lvm_PreDeactivate os l complete"
| "BlockDevice_PreDeactivate os (ZpoolDevice z) complete = Zpool_PreDeactivate os z complete"
| "BlockDevice_PreDeactivate os MockDevice complete = MockBlockDevice_PreDeactivate complete"

fun BlockDevice_PostDeactivate :: "'w os \<Rightarrow> BlockDevice \<Rightarrow> bool \<Rightarrow> ('w, bool) io" where
  "BlockDevice_PostDeactivate os (LvmDevice l) complete = Lvm_PostDeactivate os l complete"
| "BlockDevice_PostDeactivate os (ZpoolDevice z) complete = Zpool_PostDeactivate os z complete"
| "BlockDevice_PostDeactivate os MockDevice complete = MockBlockDevice_PostDeactivate complete"

fun BlockDevice_PostTeardown :: "'w os \<Rightarrow> BlockDevice \<Rightarrow> bool \<Rightarrow> ('w, bool) io" where
  "BlockDevice_PostTeardown os (LvmDevice l) complete = Lvm_PostTeardown os l complete"
| "BlockDevice_PostTeardown os (ZpoolDevice z) complete = Zpool_PostTeardown os z complete"
| "BlockDevice_PostTeardown os MockDevice complete = MockBlockDevice_PostTeardown complete"

fun BlockDevice_GetDevice :: "BlockDevice \<Rightarrow> string" where
  "BlockDevice_GetDevice (LvmDevice l) = Lvm_GetDevice l"
| "BlockDevice_GetDevice (ZpoolDevice z) = Zpool_GetDevice z"
| "BlockDevice_GetDevice MockDevice = MockBlockDevice_GetDevice"

section \<open>The commands of a device\<close>

lemma issues_whenArgs [issues_rules]: "issues P m \<Longrightarrow> issues P (whenArgs args m)"
  by (simp add: whenArgs_def issues_retE)

lemma issues_statDevice [issues_rules]: "issues P (statDevice (traced os) device)"
  by (rule issues_quiet) (auto simp: statDevice_def pass_def split: prod.splits option.splits oserr.splits)

lemma issues_waitForMapper [issues_rules]: "issues P (Lvm_waitForMapper (traced os) l)"
  unfolding Lvm_waitForMapper_def by (intro issues_rules)

text \<open>The tools that switch a device on and off, or look at it.\<close>

abbreviation switchTools :: "string list" where
  "switchTools \<equiv> [''pvs'', ''vgs'', ''lvs'', ''vgchange'', ''lvchange'']"

lemma starts_switch: "lists_ok (starts switchTools)"
  by (simp add: lists_ok_def starts_def)

lemma starts_switch_change:
  "starts switchTools (''vgchange '' @ a)" "starts switchTools (''lvchange '' @ a)"
  by (simp_all add: starts_def)

lemma issues_Lvm_Activate: "issues (starts switchTools) (Lvm_Activate (traced os) l)"
  unfolding Lvm_Activate_def
  by (intro issues_rules issues_vg_change issues_lv_change starts_switch starts_switch_change)

lemma issues_Lvm_Deactivate: "issues (starts switchTools) (Lvm_Deactivate (traced os) l full)"
  unfolding Lvm_Deactivate_def
  by (intro issues_rules issues_vg_change issues_lv_change starts_switch starts_switch_change)

section \<open>Contracts\<close>

text \<open>
  What a caller may rely on for the phases that take a \<^verbatim>\<open>complete\<close> flag: a phase that is complete does
  nothing. Any sequence of complete phases is then a no-op.
\<close>

locale block_device =
  fixes create :: "'d \<Rightarrow> bool \<Rightarrow> ('w, bool) io"
    and phases :: "('d \<Rightarrow> bool \<Rightarrow> ('w, bool) io) list"
  assumes create_complete: "create d True = retE False"
    and phase_complete: "op \<in> set phases \<Longrightarrow> op d True = retE False"
begin

lemma complete_noop: "op \<in> set (create # phases) \<Longrightarrow> op d True w = (Inr False, w)"
  using create_complete phase_complete by (auto simp: retE_def)

lemma complete_sequence:
  "set ops \<subseteq> set (create # phases) \<Longrightarrow>
   mapME (\<lambda>op. op d True) ops w = (Inr (map (\<lambda>_. False) ops), w)"
proof (induction ops arbitrary: w)
  case Nil
  then show ?case by (simp add: retE_def)
next
  case (Cons op ops)
  then have "op d True w = (Inr False, w)" by (intro complete_noop) auto
  then show ?case using Cons by (simp add: bindE_def retE_def)
qed

end

text \<open>Switching a device on and off issues only commands of a given set; so does a whole session.\<close>

locale device_switch =
  fixes allowed :: "string \<Rightarrow> bool"
    and activate :: "'d \<Rightarrow> ('w \<times> string list, bool) io"
    and deactivate :: "'d \<Rightarrow> bool \<Rightarrow> ('w \<times> string list, bool) io"
  assumes activate_issues: "issues allowed (activate d)"
    and deactivate_issues: "issues allowed (deactivate d full)"
begin

lemma session_issues:
  "issues allowed m \<Longrightarrow> issues allowed (bindE (activate d) (\<lambda>_. finallyE m (deactivate d full)))"
  by (intro issues_rules activate_issues deactivate_issues)

lemma switch_commands:
  "list_all allowed (commandsOf (activate d) w) \<and> list_all allowed (commandsOf (deactivate d full) w)"
  using issues_commandsOf [OF activate_issues] issues_commandsOf [OF deactivate_issues] by blast

end

lemmas complete_defs = Lvm_Create_def Zpool_Create_def Lvm_RunCommands_def Zpool_RunCommands_def
  Lvm_PreActivate_def Lvm_PostActivate_def Lvm_PreDeactivate_def Lvm_PostDeactivate_def
  Lvm_PostTeardown_def Zpool_PreActivate_def Zpool_PostActivate_def Zpool_PreDeactivate_def
  Zpool_PostDeactivate_def Zpool_PostTeardown_def MockBlockDevice_Create_def
  MockBlockDevice_PreActivate_def MockBlockDevice_PostActivate_def MockBlockDevice_PreDeactivate_def
  MockBlockDevice_PostDeactivate_def MockBlockDevice_PostTeardown_def

interpretation bd: block_device "BlockDevice_Create os"
  "[BlockDevice_PreActivate os, BlockDevice_PostActivate os, BlockDevice_PreDeactivate os,
    BlockDevice_PostDeactivate os, BlockDevice_PostTeardown os]" for os
proof
  show "BlockDevice_Create os d True = retE False" for d
    by (cases d) (simp_all add: complete_defs)
  show "op d True = retE False"
    if "op \<in> set [BlockDevice_PreActivate os, BlockDevice_PostActivate os, BlockDevice_PreDeactivate os,
      BlockDevice_PostDeactivate os, BlockDevice_PostTeardown os]" for op d
    using that by (cases d) (auto simp: complete_defs)
qed

interpretation sw: device_switch "starts switchTools" "BlockDevice_Activate (traced os)"
  "BlockDevice_Deactivate (traced os)" for os
proof
  show "issues (starts switchTools) (BlockDevice_Activate (traced os) d)" for d
    by (cases d) (simp_all add: issues_Lvm_Activate Zpool_Activate_def MockBlockDevice_Activate_def issues_retE)
  show "issues (starts switchTools) (BlockDevice_Deactivate (traced os) d full)" for d full
    by (cases d) (simp_all add: issues_Lvm_Deactivate Zpool_Deactivate_def MockBlockDevice_Deactivate_def issues_retE)
qed

section \<open>Names in the device mapper\<close>

text \<open>The inverse of the escaping: up to the first hyphen that is not doubled.\<close>

fun dmSplit :: "string \<Rightarrow> string \<times> string" where
  "dmSplit [] = ([], [])"
| "dmSplit (c # s) =
     (if c \<noteq> CHR ''-'' then (c # fst (dmSplit s), snd (dmSplit s))
      else case s of
        [] \<Rightarrow> ([], [])
      | d # t \<Rightarrow> if d = CHR ''-'' then (d # fst (dmSplit t), snd (dmSplit t)) else ([], s))"

abbreviation dmEscape :: "string \<Rightarrow> string" where
  "dmEscape s \<equiv> go_replace_all s ''-'' ''--''"

lemma dmEscape_Cons:
  "dmEscape (c # s) = (if c = CHR ''-'' then ''--'' else [c]) @ dmEscape s"
  by (auto simp: go_replace_all_def)

lemma dmEscape_Nil [simp]: "dmEscape [] = []"
  by (simp add: go_replace_all_def)

lemma dmSplit_escape:
  assumes "rest = [] \<or> hd rest \<noteq> CHR ''-''"
  shows "dmSplit (dmEscape vg @ CHR ''-'' # rest) = (vg, rest)"
proof (induction vg)
  case Nil
  then show ?case using assms by (cases rest) auto
next
  case (Cons c vg)
  then show ?case by (simp add: dmEscape_Cons)
qed

lemma dmEscape_inject: "dmEscape a = dmEscape b \<Longrightarrow> a = b"
proof (induction a arbitrary: b)
  case Nil
  then show ?case by (cases b) (auto simp: dmEscape_Cons split: if_splits)
next
  case (Cons c a)
  then show ?case by (cases b) (auto simp: dmEscape_Cons split: if_splits)
qed

lemma dmEscape_hd: "s \<noteq> [] \<Longrightarrow> hd s \<noteq> CHR ''-'' \<Longrightarrow> dmEscape s = [] \<or> hd (dmEscape s) \<noteq> CHR ''-''"
  by (cases s) (auto simp: dmEscape_Cons)

section \<open>Properties\<close>

text \<open>
  A phase that is marked complete is skipped: for every kind of block device and in every world,
  creation and all the user command phases return false and leave the world as it is when they
  are called with the complete flag.
\<close>

theorem BlockDevice_complete_skips:
  "list_all (\<lambda>phase. phase os d True w = (Inr False, w))
     [BlockDevice_Create, BlockDevice_PreActivate, BlockDevice_PostActivate, BlockDevice_PreDeactivate,
      BlockDevice_PostDeactivate, BlockDevice_PostTeardown]"
proof -
  have "\<forall>phase \<in> set [BlockDevice_Create os, BlockDevice_PreActivate os, BlockDevice_PostActivate os,
      BlockDevice_PreDeactivate os, BlockDevice_PostDeactivate os, BlockDevice_PostTeardown os].
      phase d True w = (Inr False, w)"
    by (intro ballI bd.complete_noop)
  then show ?thesis by simp
qed

text \<open>
  Switching is harmless: whatever the profile says, activating or deactivating a block device, with
  or without stopping the lock space, runs no command other than the LVM listings, \<^verbatim>\<open>vgchange\<close> and
  \<^verbatim>\<open>lvchange\<close>. Nothing is created, removed, extended or formatted.
\<close>

theorem BlockDevice_switch_harmless:
  "list_all (starts switchTools) (commandsOf (BlockDevice_Activate (traced os) d) w) \<and>
   list_all (starts switchTools) (commandsOf (BlockDevice_Deactivate (traced os) d full) w)"
  by (rule sw.switch_commands)

text \<open>
  C28. A shared volume group outlives its users: as long as the listing still shows a logical volume
  in the group (or fails), destroying an LVM device removes neither the group nor any of the physical
  volumes under it.
\<close>

theorem Lvm_Destroy_keeps_shared_group:
  assumes "\<And>w. fst (VolumeGroup_NumLVs os (lvm_VolumeGroup l) w) \<noteq> Inr 0"
    and "vga_Remove (vgArgs l) \<noteq> []"
  shows "list_all (\<lambda>c. \<not> starts [''vgremove'', ''pvremove''] c) (commandsOf (Lvm_Destroy (traced os) l) w)"
proof (rule issues_commandsOf)
  let ?P = "\<lambda>c. \<not> starts [''vgremove'', ''pvremove''] c"
  have lists: "lists_ok ?P" by (simp add: lists_ok_def starts_def)
  have ok: "?P (''vgchange '' @ a)" "?P (''lvremove --yes '' @ a)" for a
    by (simp_all add: starts_def)
  have some: "n \<noteq> 0" if "fst (VolumeGroup_NumLVs (traced os) (lvm_VolumeGroup l) s) = Inr n" for s n
  proof -
    have "fst (VolumeGroup_NumLVs os (lvm_VolumeGroup l) (fst s)) = Inr n"
      using that NumLVs_traced [of os "lvm_VolumeGroup l" "fst s" "snd s"] by simp
    then show ?thesis using assms(1) by metis
  qed
  have num: "issues ?P (bindE (bindE (VolumeGroup_NumLVs (traced os) (lvm_VolumeGroup l))
      (\<lambda>cnt. if cnt \<noteq> 0 then retE None else m)) k)"
    if "issues ?P (k None)" for m k
    unfolding bindE_assoc
    by (rule issues_bindE_when [OF issues_vg_read(3) [OF lists]]) (use some that in auto)
  have removal: "issues ?P (bindE (if 0 < length (vga_Remove (vgArgs l)) then bindE
      (VolumeGroup_NumLVs (traced os) (lvm_VolumeGroup l)) (\<lambda>cnt. if cnt \<noteq> 0 then retE None else m)
      else n) k)" if "issues ?P (k None)" for m n k
    using num [of k m, OF that] assms(2) by (simp only: length_greater_0_conv if_True not_False_eq_True)
  show "issues ?P (Lvm_Destroy (traced os) l)"
    unfolding Lvm_Destroy_def
    by (intro issues_bindE [OF issues_vg_read(1) [OF lists]] issues_bindE
        [OF issues_if [OF issues_vg_change(2) [OF lists ok(1)] issues_retE]]
        issues_bindE [OF issues_whenArgs [OF issues_lv(5) [OF lists ok(2)]]] removal)
      (simp add: issues_retE)
qed

definition exLvm :: Lvm where
  "exLvm = \<lparr>lvm_CommandArgs = \<lparr>
       lca_PvArgs = \<lparr>pva_Create = ''$DEVICE'', pva_Remove = ''$DEVICE''\<rparr>,
       lca_VgArgs = \<lparr>vga_Create = ''--shared $VG_NAME $DEVICE_LIST'', vga_Remove = ''$VG_NAME'',
         vga_LockStart = ''--lock-start $VG_NAME'', vga_LockStop = ''--lock-stop $VG_NAME'',
         vga_Extend = ''$VG_NAME $DEVICE_LIST'', vga_Reduce = ''--removemissing $VG_NAME''\<rparr>,
       lca_LvArgs = \<lparr>lva_Create = ''-l $PERCENT_VG -n $LV_NAME $VG_NAME'', lva_Remove = ''$VG_NAME/$LV_NAME'',
         lva_Activate = ''--activate ys $VG_NAME/$LV_NAME'', lva_Deactivate = ''--activate n $VG_NAME/$LV_NAME'',
         lva_Repair = ''$VG_NAME/$LV_NAME''\<rparr>,
       lca_UserArgs = \<lparr>lua_PreActivate = [], lua_PostActivate = [], lua_PreDeactivate = [],
         lua_PostDeactivate = [], lua_PostTeardown = []\<rparr>,
       lca_Vars = []\<rparr>,
     lvm_PhysicalVolumes = [NewPhysicalVolume ''/dev/a'', NewPhysicalVolume ''/dev/b''],
     lvm_VolumeGroup = NewVolumeGroup ''vg'' [NewPhysicalVolume ''/dev/a'', NewPhysicalVolume ''/dev/b''],
     lvm_LogicalVolume = exLv\<rparr>"

theorem Lvm_Destroy_keeps_shared_group_witness:
  "list_all (\<lambda>c. \<not> starts [''vgremove'', ''pvremove''] c)
     (commandsOf (Lvm_Destroy (traced (lvsOs [[exRow ''other'' ''vg'' ''-wi-a-----'']])) exLvm) ())"
proof (rule Lvm_Destroy_keeps_shared_group)
  show "vga_Remove (vgArgs exLvm) \<noteq> []" by (simp add: exLvm_def)
  fix w :: unit
  have "list_all (list_all lvsPrintable) [[exRow ''other'' ''vg'' ''-wi-a-----'']]" by code_simp
  then show "fst (VolumeGroup_NumLVs (lvsOs [[exRow ''other'' ''vg'' ''-wi-a-----'']])
      (lvm_VolumeGroup exLvm) w) \<noteq> Inr 0"
    by (simp add: VolumeGroup_NumLVs_def lvsOs_list fst_bindE_retE exLvm_def NewVolumeGroup_def exRow_def)
qed

lemma GetDevice_inject:
  assumes "Lvm_GetDevice a = Lvm_GetDevice b"
    and "\<not> prefix ''-'' (lv_Name (lvm_LogicalVolume a))" "\<not> prefix ''-'' (lv_Name (lvm_LogicalVolume b))"
  shows "vg_Name (lvm_VolumeGroup a) = vg_Name (lvm_VolumeGroup b) \<and>
    lv_Name (lvm_LogicalVolume a) = lv_Name (lvm_LogicalVolume b)"
proof -
  let ?vg = "\<lambda>l. vg_Name (lvm_VolumeGroup l)" and ?lv = "\<lambda>l. lv_Name (lvm_LogicalVolume l)"
  have eq: "dmEscape (?vg a) @ CHR ''-'' # dmEscape (?lv a) = dmEscape (?vg b) @ CHR ''-'' # dmEscape (?lv b)"
    using assms(1) by (simp add: Lvm_GetDevice_def)
  have "dmEscape (?lv l) = [] \<or> hd (dmEscape (?lv l)) \<noteq> CHR ''-''" if "l = a \<or> l = b" for l
    using that assms(2,3) by (cases "?lv l") (auto simp: dmEscape_Cons)
  then have split: "dmSplit (dmEscape (?vg l) @ CHR ''-'' # dmEscape (?lv l)) = (?vg l, dmEscape (?lv l))"
    if "l = a \<or> l = b" for l
    using that dmSplit_escape by blast
  have "(?vg a, dmEscape (?lv a)) = (?vg b, dmEscape (?lv b))"
    using arg_cong [OF eq, of dmSplit] by (simp only: split simp_thms)
  then show ?thesis using dmEscape_inject by simp
qed

text \<open>
  Two LVM devices share a device-mapper path only if they are the same volume of the same group:
  doubling the hyphens keeps \<^verbatim>\<open>a-b/c\<close> and \<^verbatim>\<open>a/b-c\<close> apart, for all names LVM accepts (it refuses one that
  starts with a hyphen).
\<close>

theorem Lvm_GetDevice_injective:
  assumes "Lvm_GetDevice a = Lvm_GetDevice b"
    and "\<not> prefix ''-'' (lv_Name (lvm_LogicalVolume a))" "\<not> prefix ''-'' (lv_Name (lvm_LogicalVolume b))"
  shows "vg_Name (lvm_VolumeGroup a) = vg_Name (lvm_VolumeGroup b) \<and>
    lv_Name (lvm_LogicalVolume a) = lv_Name (lvm_LogicalVolume b)"
  using assms by (rule GetDevice_inject)

theorem Lvm_GetDevice_injective_witness:
  "vg_Name (lvm_VolumeGroup exLvm) = ''vg'' \<and> lv_Name (lvm_LogicalVolume exLvm) = ''lv''"
proof -
  have "Lvm_GetDevice exLvm = Lvm_GetDevice (exLvm\<lparr>lvm_PhysicalVolumes := [],
      lvm_VolumeGroup := NewVolumeGroup ''vg'' [], lvm_LogicalVolume := NewLogicalVolume ''lv'' (NewVolumeGroup ''vg'' []) 1 2\<rparr>)"
    by (simp add: Lvm_GetDevice_def exLvm_def exLv_def NewVolumeGroup_def NewLogicalVolume_def)
  then show ?thesis
    by (drule_tac Lvm_GetDevice_injective)
      (simp_all add: exLvm_def exLv_def NewVolumeGroup_def NewLogicalVolume_def)
qed

definition exZpool :: "string list \<Rightarrow> Zpool" where
  "exZpool devices = \<lparr>zp_CommandArgs = \<lparr>zca_Create = ''$POOL_NAME $DEVICE_LIST'', zca_Destroy = ''$POOL_NAME'',
       zca_Replace = ''$POOL_NAME $OLD_DEVICE $NEW_DEVICE'', zca_PreActivate = [], zca_PostActivate = [],
       zca_PreDeactivate = [], zca_PostDeactivate = [], zca_PostTeardown = [], zca_Vars = []\<rparr>,
     zp_Devices = devices, zp_Name = ''pool'', zp_DataSet = ''mdt0''\<rparr>"

definition zpoolStatusOs :: "string \<Rightarrow> string \<Rightarrow> unit os" where
  "zpoolStatusOs status errors = exampleOs
     (\<lambda>c. (if c = ''zpool status -P pool'' then status else errors, [], None)) (\<lambda>_. None) False []"

text \<open>
  Repairing a pool compares device names by prefix and pairs the absent devices with the
  unhealthy ones by position. A wanted device that is missing counts as present when the name of an
  online device extends it (\<^verbatim>\<open>/dev/nvme1n1\<close> and \<^verbatim>\<open>/dev/nvme1n10\<close>): nothing is replaced and the repair succeeds
  with the faulted device still in the pool. With more absent than unhealthy devices the repair
  panics on the index.
\<close>

theorem Zpool_Repair_prefix:
  "fst (Zpool_Repair (zpoolStatusOs ''/dev/nvme1n10 ONLINE'' ''/dev/nvme1n2 FAULTED'')
      (exZpool [''/dev/nvme1n1'', ''/dev/nvme1n10'']) ()) = Inr () \<and>
   commandsOf (Zpool_Repair (traced (zpoolStatusOs ''/dev/nvme1n10 ONLINE'' ''/dev/nvme1n2 FAULTED''))
      (exZpool [''/dev/nvme1n1'', ''/dev/nvme1n10''])) () =
     [''zpool status -P pool'', ''zpool status -eP pool''] \<and>
   fst (Zpool_Repair (zpoolStatusOs ''/dev/nvme1n10 ONLINE'' [])
      (exZpool [''/dev/nvme2n1'', ''/dev/nvme1n10'']) ()) = Inl (Panic ''index out of range'')"
  by code_simp

end
