(* ===== verification/FileSystem.thy ===== *)
theory FileSystem
  imports BlockDevice
begin

text \<open>
  \<^verbatim>\<open>pkg/filesystem\<close>: the \<^verbatim>\<open>FileSystem\<close> interface and its implementations for simple file systems
  (\<^verbatim>\<open>simple.go\<close>: xfs, gfs2, raw bind mounts), Lustre targets and clients (\<^verbatim>\<open>lustre.go\<close>), the kind
  environment (\<^verbatim>\<open>kind.go\<close>) and a mock (\<^verbatim>\<open>mock.go\<close>). Mounting and the user commands store
  \<^verbatim>\<open>$MOUNT_PATH\<close> in the receiver, where later calls see it, so a method is an effect on the
  pair of the receiver and the world.
\<close>

section \<open>Shared steps\<close>

definition squote :: "string \<Rightarrow> string" where
  "squote s = CHR 0x27 # s @ [CHR 0x27]"

definition mountAt :: "string \<Rightarrow> MountPoint list \<Rightarrow> MountPoint option" where
  "mountAt path mounts = find (\<lambda>m. mp_Path m = path) mounts"

definition unexpectedMount :: "string \<Rightarrow> MountPoint \<Rightarrow> failure" where
  "unexpectedMount path m =
     Fail (''unexpected mount at path '' @ path @ ''. Device '' @ mp_Device m @ '' type '' @ mp_Type m)"

section \<open>Simple file systems\<close>

record SimpleFileSystemCommandArgs =
  sca_Mkfs :: string
  sca_Mount :: string
  sca_Unmount :: string
  sca_PreActivate :: "string list"
  sca_PostActivate :: "string list"
  sca_PreDeactivate :: "string list"
  sca_PostDeactivate :: "string list"
  sca_PreMount :: "string list"
  sca_PostMount :: "string list"
  sca_PreUnmount :: "string list"
  sca_PostUnmount :: "string list"
  sca_PostSetup :: "string list"
  sca_PreTeardown :: "string list"
  sca_Vars :: kv

record SimpleFileSystem =
  sfs_CommandArgs :: SimpleFileSystemCommandArgs
  sfs_Type :: string
  sfs_MountTarget :: string
  sfs_TempDir :: string
  sfs_BlockDevice :: BlockDevice

definition Simple_setVars :: "kv \<Rightarrow> SimpleFileSystem \<Rightarrow> SimpleFileSystem" where
  "Simple_setVars args f =
     f\<lparr>sfs_CommandArgs := (sfs_CommandArgs f)\<lparr>sca_Vars := kv_merge (sca_Vars (sfs_CommandArgs f)) args\<rparr>\<rparr>"

definition Simple_vars :: "SimpleFileSystem \<Rightarrow> kv" where
  "Simple_vars f =
     kv_merge [(''$DEVICE'', BlockDevice_GetDevice (sfs_BlockDevice f)), (''$FSTYPE'', sfs_Type f),
               (''$MOUNT_TARGET'', sfs_MountTarget f), (''$TEMP_DIR'', sfs_TempDir f)]
       (sca_Vars (sfs_CommandArgs f))"

definition Simple_parseArgs :: "'w os \<Rightarrow> string \<Rightarrow> (SimpleFileSystem \<times> 'w, string) io" where
  "Simple_parseArgs os args =
     bindE getE (\<lambda>f. sndE (replaceE os (NewVarHandler (Simple_vars f)) args))"

definition Simple_Create :: "'w os \<Rightarrow> bool \<Rightarrow> (SimpleFileSystem \<times> 'w, bool) io" where
  "Simple_Create os complete = bindE getE (\<lambda>f.
     if length (sca_Mkfs (sfs_CommandArgs f)) = 0 then retE False
     else if complete then retE False
     else if sfs_Type f = ''none'' then retE False
     else bindE (wrapE (errorf ''could not determine if device is formatted: '')
                   (sndE (BlockDevice_CheckFormatted os (sfs_BlockDevice f)))) (\<lambda>formatted.
       if formatted then retE False
       else bindE (Simple_parseArgs os (sca_Mkfs (sfs_CommandArgs f))) (\<lambda>args.
            bindE (wrapE (errorf ''could not create file system: '')
                     (sndE (Run os (''mkfs -t '' @ sfs_Type f @ '' '' @ args)))) (\<lambda>_. retE True))))"

text \<open>The path of a mount: cleaned, stored as \<^verbatim>\<open>$MOUNT_PATH\<close>, and expanded.\<close>

definition Simple_enterPath :: "'w os \<Rightarrow> string \<Rightarrow> (SimpleFileSystem \<times> 'w, string) io" where
  "Simple_enterPath os path =
     bindE (modifyE (Simple_setVars [(''$MOUNT_PATH'', filepath_Clean path)])) (\<lambda>_.
       Simple_parseArgs os (filepath_Clean path))"

definition Simple_makeTarget :: "'w os \<Rightarrow> SimpleFileSystem \<Rightarrow> string \<Rightarrow> ('w, unit) io" where
  "Simple_makeTarget os f path =
     (if sfs_MountTarget f = ''directory'' then
        osE (''could not create mount directory '' @ path @ '': '') (os_MkdirAll os path)
      else if sfs_MountTarget f = ''file'' then
        bindE (osE (''could not create parent mount directory '' @ filepath_Dir path @ '': '')
                 (os_MkdirAll os (filepath_Dir path))) (\<lambda>_.
          osE (''could not create mount file '' @ path @ '': '') (os_WriteFile os path))
      else retE ())"

definition Simple_Mount :: "'w os \<Rightarrow> string \<Rightarrow> bool \<Rightarrow> (SimpleFileSystem \<times> 'w, bool) io" where
  "Simple_Mount os rawPath complete = bindE getE (\<lambda>f.
     if length (sca_Mount (sfs_CommandArgs f)) = 0 then retE False
     else bindE (Simple_enterPath os rawPath) (\<lambda>path.
          bindE (sndE (os_mounts os)) (\<lambda>mounts.
            case mountAt path mounts of
              Some m \<Rightarrow>
                (if sfs_Type f = ''none'' then retE False
                 else if mp_Device m \<noteq> BlockDevice_GetDevice (sfs_BlockDevice f) \<or> mp_Type m \<noteq> sfs_Type f
                 then failE (unexpectedMount path m) else retE False)
            | None \<Rightarrow>
                bindE (sndE (Simple_makeTarget os f path)) (\<lambda>_.
                bindE (Simple_parseArgs os (sca_Mount (sfs_CommandArgs f))) (\<lambda>args.
                bindE (wrapE (errorf (''could not mount file system '' @ path @ '': ''))
                         (sndE (Run os (''mount -t '' @ sfs_Type f @ '' '' @ args)))) (\<lambda>_. retE True))))))"

definition Simple_Unmount :: "'w os \<Rightarrow> string \<Rightarrow> (SimpleFileSystem \<times> 'w, bool) io" where
  "Simple_Unmount os rawPath = bindE getE (\<lambda>f.
     if length (sca_Unmount (sfs_CommandArgs f)) = 0 then retE False
     else bindE (Simple_enterPath os rawPath) (\<lambda>path.
          bindE (sndE (os_mounts os)) (\<lambda>mounts.
            case mountAt path mounts of
              Some m \<Rightarrow>
                (if sfs_Type f \<noteq> ''none'' \<and>
                    (mp_Device m \<noteq> BlockDevice_GetDevice (sfs_BlockDevice f) \<or> mp_Type m \<noteq> sfs_Type f)
                 then failE (unexpectedMount path m)
                 else bindE (Simple_parseArgs os (sca_Unmount (sfs_CommandArgs f))) (\<lambda>args.
                      bindE (wrapE (errorf (''could not unmount file system '' @ path @ '': ''))
                               (sndE (Run os (''umount '' @ args)))) (\<lambda>_.
                      bindE (sndE (ignoreE (os_Remove os path))) (\<lambda>_. retE True))))
            | None \<Rightarrow> retE False)))"

definition Simple_RunCommands ::
  "'w os \<Rightarrow> bool \<Rightarrow> string list \<Rightarrow> string \<Rightarrow> kv \<Rightarrow> (SimpleFileSystem \<times> 'w, bool) io" where
  "Simple_RunCommands os complete commands phase args =
     (if length commands = 0 then retE False
      else if complete then retE False
      else bindE (modifyE (Simple_setVars args)) (\<lambda>_.
           bindE (mapME (\<lambda>rawCommand.
             bindE (Simple_parseArgs os rawCommand) (\<lambda>formattedCommand.
               wrapE (errorf (''could not run '' @ phase @ '' command: '' @ formattedCommand @ '': ''))
                 (sndE (Run os formattedCommand)))) commands) (\<lambda>_. retE True)))"

definition Simple_PreMount :: "'w os \<Rightarrow> string \<Rightarrow> bool \<Rightarrow> (SimpleFileSystem \<times> 'w, bool) io" where
  "Simple_PreMount os path complete = bindE getE (\<lambda>f.
     Simple_RunCommands os complete (sca_PreMount (sfs_CommandArgs f)) ''PreMount'' [(''$MOUNT_PATH'', path)])"

definition Simple_PostMount :: "'w os \<Rightarrow> string \<Rightarrow> bool \<Rightarrow> (SimpleFileSystem \<times> 'w, bool) io" where
  "Simple_PostMount os path complete = bindE getE (\<lambda>f.
     Simple_RunCommands os complete (sca_PostMount (sfs_CommandArgs f)) ''PostMount'' [(''$MOUNT_PATH'', path)])"

definition Simple_PreUnmount :: "'w os \<Rightarrow> string \<Rightarrow> bool \<Rightarrow> (SimpleFileSystem \<times> 'w, bool) io" where
  "Simple_PreUnmount os path complete = bindE getE (\<lambda>f.
     Simple_RunCommands os complete (sca_PreUnmount (sfs_CommandArgs f)) ''PreUnmount'' [(''$MOUNT_PATH'', path)])"

definition Simple_PostUnmount :: "'w os \<Rightarrow> string \<Rightarrow> bool \<Rightarrow> (SimpleFileSystem \<times> 'w, bool) io" where
  "Simple_PostUnmount os path complete = bindE getE (\<lambda>f.
     Simple_RunCommands os complete (sca_PostUnmount (sfs_CommandArgs f)) ''PostUnmount'' [(''$MOUNT_PATH'', path)])"

definition Simple_PostActivate :: "'w os \<Rightarrow> bool \<Rightarrow> (SimpleFileSystem \<times> 'w, bool) io" where
  "Simple_PostActivate os complete = bindE getE (\<lambda>f.
     Simple_RunCommands os complete (sca_PostActivate (sfs_CommandArgs f)) ''PostActivate'' [])"

definition Simple_PreDeactivate :: "'w os \<Rightarrow> bool \<Rightarrow> (SimpleFileSystem \<times> 'w, bool) io" where
  "Simple_PreDeactivate os complete = bindE getE (\<lambda>f.
     Simple_RunCommands os complete (sca_PreDeactivate (sfs_CommandArgs f)) ''PreDeactivate'' [])"

text \<open>
  The body of \<^verbatim>\<open>PostSetup\<close> and \<^verbatim>\<open>PreTeardown\<close>: mount at the temporary directory, run the commands
  there, unmount. A command that fails is followed by an unmount as well.
\<close>

definition Simple_command :: "'w os \<Rightarrow> string \<Rightarrow> string \<Rightarrow> string \<Rightarrow> (SimpleFileSystem \<times> 'w, unit) io" where
  "Simple_command os phase tempDir rawCommand =
     bindE (Simple_parseArgs os rawCommand) (\<lambda>formattedCommand.
     bindE (catchE (sndE (Run os formattedCommand)) (\<lambda>err.
              bindE (wrapE (errorf (''could not unmount after '' @ phase @ '' command failed: '' @
                              formattedCommand @ '': '')) (Simple_Unmount os tempDir)) (\<lambda>_.
                failE (errorf (''could not run '' @ phase @ '' command: '' @ formattedCommand @ '': '') err))))
       (\<lambda>_. retE ()))"

definition Simple_mounted ::
  "'w os \<Rightarrow> string \<Rightarrow> string \<Rightarrow> string list \<Rightarrow> bool \<Rightarrow> (SimpleFileSystem \<times> 'w, bool) io" where
  "Simple_mounted os phase lastMsg commands complete = bindE getE (\<lambda>f.
     if length commands = 0 then retE False
     else if complete then retE False
     else if sfs_Type f = ''none'' then retE False
     else bindE (wrapE (errorf (''could not mount temp dir '' @ squote (sfs_TempDir f) @ '' for '' @ phase @ '': ''))
                   (Simple_Mount os (sfs_TempDir f) False)) (\<lambda>_.
          bindE (modifyE (Simple_setVars [(''$MOUNT_PATH'', sfs_TempDir f)])) (\<lambda>_.
          bindE (mapME (Simple_command os phase (sfs_TempDir f)) commands) (\<lambda>_.
          bindE (wrapE (errorf (lastMsg @ squote (sfs_TempDir f) @ '': ''))
                   (Simple_Unmount os (sfs_TempDir f))) (\<lambda>_. retE True)))))"

definition Simple_PostSetup :: "'w os \<Rightarrow> bool \<Rightarrow> (SimpleFileSystem \<times> 'w, bool) io" where
  "Simple_PostSetup os complete = bindE getE (\<lambda>f.
     Simple_mounted os ''PostSetup'' ''could not unmount after PostSetup '' (sca_PostSetup (sfs_CommandArgs f)) complete)"

definition Simple_PreTeardown :: "'w os \<Rightarrow> bool \<Rightarrow> (SimpleFileSystem \<times> 'w, bool) io" where
  "Simple_PreTeardown os complete = bindE getE (\<lambda>f.
     Simple_mounted os ''PreTeardown'' ''could not unmount after PreTeardown'' (sca_PreTeardown (sfs_CommandArgs f)) complete)"

section \<open>Lustre\<close>

record LustreFileSystemCommandArgs =
  lfa_Mkfs :: string
  lfa_MountTarget :: string
  lfa_UnmountTarget :: string
  lfa_Mount :: string
  lfa_Unmount :: string
  lfa_PreMount :: "string list"
  lfa_PostMount :: "string list"
  lfa_PreUnmount :: "string list"
  lfa_PostUnmount :: "string list"
  lfa_PostSetup :: "string list"
  lfa_PreTeardown :: "string list"
  lfa_PostActivate :: "string list"
  lfa_PreDeactivate :: "string list"
  lfa_Vars :: kv

record LustreFileSystem =
  lfs_CommandArgs :: LustreFileSystemCommandArgs
  lfs_Name :: string
  lfs_TargetType :: string
  lfs_TargetPath :: string
  lfs_MgsAddress :: string
  lfs_Index :: int
  lfs_BackFs :: string
  lfs_TempDir :: string
  lfs_BlockDevice :: BlockDevice

definition Lustre_setVars :: "kv \<Rightarrow> LustreFileSystem \<Rightarrow> LustreFileSystem" where
  "Lustre_setVars args l =
     l\<lparr>lfs_CommandArgs := (lfs_CommandArgs l)\<lparr>lfa_Vars := kv_merge (lfa_Vars (lfs_CommandArgs l)) args\<rparr>\<rparr>"

text \<open>\<^verbatim>\<open>%04d\<close>\<close>

definition pad4 :: "int \<Rightarrow> string" where
  "pad4 i = (if 0 \<le> i then itoa_pad 4 (nat i) else ''-'' @ itoa_pad 3 (nat (- i)))"

definition Lustre_vars :: "LustreFileSystem \<Rightarrow> kv" where
  "Lustre_vars l =
     kv_merge [(''$DEVICE'', BlockDevice_GetDevice (lfs_BlockDevice l)),
               (''$ZVOL_NAME'', BlockDevice_GetDevice (lfs_BlockDevice l)),
               (''$MGS_NID'', lfs_MgsAddress l), (''$INDEX'', itoa (lfs_Index l)),
               (''$FS_NAME'', lfs_Name l), (''$BACKFS'', lfs_BackFs l),
               (''$TARGET_NAME'', lfs_Name l @ ''-'' @ to_upper (lfs_TargetType l) @ pad4 (lfs_Index l))]
       (lfa_Vars (lfs_CommandArgs l))"

definition Lustre_parseArgs :: "'w os \<Rightarrow> string \<Rightarrow> (LustreFileSystem \<times> 'w, string) io" where
  "Lustre_parseArgs os args =
     bindE getE (\<lambda>l. sndE (replaceE os (NewVarHandler (Lustre_vars l)) args))"

definition Lustre_Create :: "'w os \<Rightarrow> bool \<Rightarrow> (LustreFileSystem \<times> 'w, bool) io" where
  "Lustre_Create os complete = bindE getE (\<lambda>l.
     if length (lfa_Mkfs (lfs_CommandArgs l)) = 0 then retE False
     else if complete then retE False
     else bindE (wrapE (errorf ''could not determine if device is formatted: '')
                   (sndE (BlockDevice_CheckFormatted os (lfs_BlockDevice l)))) (\<lambda>formatted.
       if formatted then retE False
       else bindE (Lustre_parseArgs os (lfa_Mkfs (lfs_CommandArgs l))) (\<lambda>args.
            bindE (wrapE (errorf ''could not create file system: '')
                     (sndE (Run os (''mkfs -t lustre '' @ args)))) (\<lambda>_. retE True))))"

definition Lustre_enterPath :: "'w os \<Rightarrow> string \<Rightarrow> (LustreFileSystem \<times> 'w, string) io" where
  "Lustre_enterPath os path =
     bindE (modifyE (Lustre_setVars [(''$MOUNT_PATH'', filepath_Clean path)])) (\<lambda>_.
       Lustre_parseArgs os (filepath_Clean path))"

definition Lustre_Activate :: "'w os \<Rightarrow> bool \<Rightarrow> (LustreFileSystem \<times> 'w, bool) io" where
  "Lustre_Activate os complete = bindE getE (\<lambda>l.
     if length (lfa_MountTarget (lfs_CommandArgs l)) = 0 then retE False
     else bindE (Lustre_enterPath os (lfs_TargetPath l)) (\<lambda>path.
          bindE (sndE (os_mounts os)) (\<lambda>mounts.
            case mountAt path mounts of
              Some m \<Rightarrow>
                (if mp_Device m \<noteq> BlockDevice_GetDevice (lfs_BlockDevice l) \<or> mp_Type m \<noteq> ''lustre''
                 then failE (unexpectedMount path m) else retE False)
            | None \<Rightarrow>
                bindE (sndE (osE (''could not create mount directory '' @ path @ '': '') (os_MkdirAll os path))) (\<lambda>_.
                bindE (wrapE (errorf (''could not activate block device for mounting '' @ path @ '': ''))
                         (sndE (BlockDevice_Activate os (lfs_BlockDevice l)))) (\<lambda>_.
                bindE (Lustre_parseArgs os (lfa_MountTarget (lfs_CommandArgs l))) (\<lambda>args.
                bindE (catchE (sndE (Run os (''mount -t lustre '' @ args))) (\<lambda>err.
                         bindE (wrapE (errorf (''could not deactivate block device after failed mount '' @ path @ '': ''))
                                  (sndE (BlockDevice_Deactivate os (lfs_BlockDevice l) False))) (\<lambda>_.
                           failE (errorf (''could not mount file system '' @ path @ '': '') err))))
                  (\<lambda>_. retE True)))))))"

definition Lustre_Deactivate :: "'w os \<Rightarrow> (LustreFileSystem \<times> 'w, bool) io" where
  "Lustre_Deactivate os = bindE getE (\<lambda>l.
     if length (lfa_UnmountTarget (lfs_CommandArgs l)) = 0 then retE False
     else bindE (Lustre_enterPath os (lfs_TargetPath l)) (\<lambda>path.
          bindE (sndE (os_mounts os)) (\<lambda>mounts.
            let deactivate = wrapE (errorf (''could not deactivate block device after unmount '' @ path @ '': ''))
                  (sndE (BlockDevice_Deactivate os (lfs_BlockDevice l) False))
            in case mountAt path mounts of
              Some m \<Rightarrow>
                (if mp_Device m \<noteq> BlockDevice_GetDevice (lfs_BlockDevice l) \<or> mp_Type m \<noteq> ''lustre''
                 then failE (unexpectedMount path m)
                 else bindE (Lustre_parseArgs os (lfa_UnmountTarget (lfs_CommandArgs l))) (\<lambda>args.
                      bindE (wrapE (errorf (''could not unmount file system '' @ path @ '': ''))
                               (sndE (Run os (''umount '' @ args)))) (\<lambda>_.
                      bindE (sndE (ignoreE (os_Remove os path))) (\<lambda>_.
                      bindE deactivate (\<lambda>_. retE True)))))
            | None \<Rightarrow> bindE deactivate (\<lambda>_. retE False))))"

definition Lustre_devStr :: "LustreFileSystem \<Rightarrow> string" where
  "Lustre_devStr l = lfs_MgsAddress l @ '':/'' @ lfs_Name l"

definition Lustre_unexpected :: "LustreFileSystem \<Rightarrow> string \<Rightarrow> MountPoint \<Rightarrow> failure" where
  "Lustre_unexpected l path m =
     Fail (''unexpected mount at path '' @ path @ ''. Expected device '' @ Lustre_devStr l @
           '' of type lustre, found device '' @ mp_Device m @ '' type '' @ mp_Type m)"

definition Lustre_Mount :: "'w os \<Rightarrow> string \<Rightarrow> bool \<Rightarrow> (LustreFileSystem \<times> 'w, bool) io" where
  "Lustre_Mount os rawPath complete = bindE getE (\<lambda>l.
     if length (lfa_Mount (lfs_CommandArgs l)) = 0 then retE False
     else bindE (Lustre_enterPath os rawPath) (\<lambda>path.
          bindE (sndE (os_mounts os)) (\<lambda>mounts.
            case mountAt path mounts of
              Some m \<Rightarrow>
                (if mp_Device m \<noteq> Lustre_devStr l \<or> mp_Type m \<noteq> ''lustre''
                 then failE (Lustre_unexpected l path m) else retE False)
            | None \<Rightarrow>
                bindE (sndE (osE (''could not create mount directory '' @ path @ '': '') (os_MkdirAll os path))) (\<lambda>_.
                bindE (Lustre_parseArgs os (lfa_Mount (lfs_CommandArgs l))) (\<lambda>args.
                bindE (wrapE (errorf (''could not mount file system '' @ path @ '': ''))
                         (sndE (Run os (''mount -t lustre '' @ args)))) (\<lambda>_. retE True))))))"

definition Lustre_Unmount :: "'w os \<Rightarrow> string \<Rightarrow> (LustreFileSystem \<times> 'w, bool) io" where
  "Lustre_Unmount os rawPath = bindE getE (\<lambda>l.
     bindE (Lustre_enterPath os rawPath) (\<lambda>path.
     bindE (sndE (os_mounts os)) (\<lambda>mounts.
       case mountAt path mounts of
         Some m \<Rightarrow>
           (if mp_Device m \<noteq> Lustre_devStr l \<or> mp_Type m \<noteq> ''lustre''
            then failE (Lustre_unexpected l path m)
            else if length (lfa_Unmount (lfs_CommandArgs l)) = 0 then retE False
            else bindE (Lustre_parseArgs os (lfa_Unmount (lfs_CommandArgs l))) (\<lambda>args.
                 bindE (wrapE (errorf (''could not unmount file system '' @ path @ '': ''))
                          (sndE (Run os (''umount '' @ args)))) (\<lambda>_.
                 bindE (sndE (ignoreE (os_Remove os path))) (\<lambda>_. retE True))))
       | None \<Rightarrow> retE False)))"

definition Lustre_RunCommands ::
  "'w os \<Rightarrow> bool \<Rightarrow> string list \<Rightarrow> string \<Rightarrow> kv \<Rightarrow> (LustreFileSystem \<times> 'w, bool) io" where
  "Lustre_RunCommands os complete commands phase args =
     (if length commands = 0 then retE False
      else if complete then retE False
      else bindE (modifyE (Lustre_setVars args)) (\<lambda>_.
           bindE (mapME (\<lambda>rawCommand.
             bindE (Lustre_parseArgs os rawCommand) (\<lambda>formattedCommand.
               wrapE (errorf (''could not run '' @ phase @ '' command: '' @ formattedCommand @ '': ''))
                 (sndE (Run os formattedCommand)))) commands) (\<lambda>_. retE False)))"

definition Lustre_PreMount :: "'w os \<Rightarrow> string \<Rightarrow> bool \<Rightarrow> (LustreFileSystem \<times> 'w, bool) io" where
  "Lustre_PreMount os path complete = bindE getE (\<lambda>l.
     Lustre_RunCommands os complete (lfa_PreMount (lfs_CommandArgs l)) ''PreMount''
       [(''$MOUNT_PATH'', filepath_Clean path)])"

definition Lustre_PostMount :: "'w os \<Rightarrow> string \<Rightarrow> bool \<Rightarrow> (LustreFileSystem \<times> 'w, bool) io" where
  "Lustre_PostMount os path complete = bindE getE (\<lambda>l.
     Lustre_RunCommands os complete (lfa_PostMount (lfs_CommandArgs l)) ''PostMount''
       [(''$MOUNT_PATH'', filepath_Clean path)])"

definition Lustre_PreUnmount :: "'w os \<Rightarrow> string \<Rightarrow> bool \<Rightarrow> (LustreFileSystem \<times> 'w, bool) io" where
  "Lustre_PreUnmount os path complete = bindE getE (\<lambda>l.
     Lustre_RunCommands os complete (lfa_PreUnmount (lfs_CommandArgs l)) ''PreUnmount''
       [(''$MOUNT_PATH'', filepath_Clean path)])"

definition Lustre_PostUnmount :: "'w os \<Rightarrow> string \<Rightarrow> bool \<Rightarrow> (LustreFileSystem \<times> 'w, bool) io" where
  "Lustre_PostUnmount os path complete = bindE getE (\<lambda>l.
     Lustre_RunCommands os complete (lfa_PostUnmount (lfs_CommandArgs l)) ''PostUnmount'' [])"

definition Lustre_PostActivate :: "'w os \<Rightarrow> bool \<Rightarrow> (LustreFileSystem \<times> 'w, bool) io" where
  "Lustre_PostActivate os complete = bindE getE (\<lambda>l.
     Lustre_RunCommands os complete (lfa_PostActivate (lfs_CommandArgs l)) ''PostActivate''
       [(''$MOUNT_PATH'', filepath_Clean (lfs_TargetPath l))])"

definition Lustre_PreDeactivate :: "'w os \<Rightarrow> bool \<Rightarrow> (LustreFileSystem \<times> 'w, bool) io" where
  "Lustre_PreDeactivate os complete = bindE getE (\<lambda>l.
     Lustre_RunCommands os complete (lfa_PreDeactivate (lfs_CommandArgs l)) ''PreDeactivate''
       [(''$MOUNT_PATH'', filepath_Clean (lfs_TargetPath l))])"

definition Lustre_command :: "'w os \<Rightarrow> string \<Rightarrow> string \<Rightarrow> string \<Rightarrow> (LustreFileSystem \<times> 'w, unit) io" where
  "Lustre_command os phase tempDir rawCommand =
     bindE (Lustre_parseArgs os rawCommand) (\<lambda>formattedCommand.
     bindE (catchE (sndE (Run os formattedCommand)) (\<lambda>err.
              bindE (wrapE (errorf (''could not unmount after '' @ phase @ '' command failed: '' @
                              formattedCommand @ '': '')) (Lustre_Unmount os tempDir)) (\<lambda>_.
                failE (errorf (''could not run '' @ phase @ '' command: '' @ formattedCommand @ '': '') err))))
       (\<lambda>_. retE ()))"

definition Lustre_mounted ::
  "'w os \<Rightarrow> string \<Rightarrow> string list \<Rightarrow> bool \<Rightarrow> (LustreFileSystem \<times> 'w, bool) io" where
  "Lustre_mounted os phase commands complete = bindE getE (\<lambda>l.
     if length commands = 0 then retE False
     else if complete then retE False
     else if lfs_TargetType l = ''none'' then retE False
     else bindE (wrapE (errorf (''could not mount temp dir '' @ squote (lfs_TempDir l) @ '' for '' @ phase @ '': ''))
                   (Lustre_Mount os (lfs_TempDir l) False)) (\<lambda>_.
          bindE (modifyE (Lustre_setVars [(''$MOUNT_PATH'', filepath_Clean (lfs_TempDir l))])) (\<lambda>_.
          bindE (mapME (Lustre_command os phase (lfs_TempDir l)) commands) (\<lambda>_.
          bindE (wrapE (errorf (''could not unmount after '' @ phase @ '' '' @ squote (lfs_TempDir l) @ '': ''))
                   (Lustre_Unmount os (lfs_TempDir l))) (\<lambda>_. retE True)))))"

definition Lustre_PostSetup :: "'w os \<Rightarrow> bool \<Rightarrow> (LustreFileSystem \<times> 'w, bool) io" where
  "Lustre_PostSetup os complete = bindE getE (\<lambda>l.
     Lustre_mounted os ''PostSetup'' (lfa_PostSetup (lfs_CommandArgs l)) complete)"

definition Lustre_PreTeardown :: "'w os \<Rightarrow> bool \<Rightarrow> (LustreFileSystem \<times> 'w, bool) io" where
  "Lustre_PreTeardown os complete = bindE getE (\<lambda>l.
     Lustre_mounted os ''PreTeardown'' (lfa_PreTeardown (lfs_CommandArgs l)) complete)"

section \<open>Kind and mock\<close>

definition Kind_Create :: "'w os \<Rightarrow> string \<Rightarrow> bool \<Rightarrow> ('w, bool) io" where
  "Kind_Create os fsPath complete =
     (if complete then retE False
      else bindE (osE (''could not create mount directory '' @ fsPath @ '': '') (os_MkdirAll os fsPath))
             (\<lambda>_. retE True))"

definition Kind_Destroy :: "'w os \<Rightarrow> string \<Rightarrow> ('w, bool) io" where
  "Kind_Destroy os fsPath = bindE (ignoreE (os_RemoveAll os fsPath)) (\<lambda>_. retE True)"

text \<open>A symbolic link that exists is accepted when it points to the file system.\<close>

definition Kind_symlink :: "'w os \<Rightarrow> string \<Rightarrow> string \<Rightarrow> ('w, unit) io" where
  "Kind_symlink os fsPath path = (\<lambda>w. case os_Symlink os fsPath path w of
     (None, w1) \<Rightarrow> (Inr (), w1)
   | (Some (ErrExist s), w1) \<Rightarrow>
       (case os_Readlink os path w1 of
          (Inl e, w2) \<Rightarrow>
            (Inl (Fail (''could not read existing symlink '' @ path @ '': '' @ oserrText e)), w2)
        | (Inr existing, w2) \<Rightarrow>
            (if existing \<noteq> fsPath then
               Inl (Fail (''symlink '' @ path @ '' exists but points to '' @ existing @ '', expected '' @ fsPath))
             else Inr (), w2))
   | (Some e, w1) \<Rightarrow> (Inl (Fail (''could not create symlink mount '' @ path @ '': '' @ oserrText e)), w1))"

definition Kind_Mount :: "'w os \<Rightarrow> string \<Rightarrow> string \<Rightarrow> bool \<Rightarrow> ('w, bool) io" where
  "Kind_Mount os fsPath path complete =
     (if complete then retE False
      else bindE (osE (''could not create directory for symlink '' @ filepath_Dir path @ '': '')
                    (os_MkdirAll os (filepath_Dir path))) (\<lambda>_.
           bindE (Kind_symlink os fsPath path) (\<lambda>_. retE True)))"

definition Kind_Unmount :: "'w os \<Rightarrow> string \<Rightarrow> ('w, bool) io" where
  "Kind_Unmount os path = bindE (ignoreE (os_Remove os path)) (\<lambda>_. retE True)"

definition Simple_Destroy :: "'w os \<Rightarrow> (SimpleFileSystem \<times> 'w, bool) io" where
  "Simple_Destroy os = retE False"

definition Simple_Activate :: "'w os \<Rightarrow> bool \<Rightarrow> (SimpleFileSystem \<times> 'w, bool) io" where
  "Simple_Activate os complete = retE False"

definition Simple_Deactivate :: "'w os \<Rightarrow> (SimpleFileSystem \<times> 'w, bool) io" where
  "Simple_Deactivate os = retE False"

definition Lustre_Destroy :: "'w os \<Rightarrow> (LustreFileSystem \<times> 'w, bool) io" where
  "Lustre_Destroy os = retE False"

definition Kind_Activate :: "bool \<Rightarrow> ('w, bool) io" where
  "Kind_Activate complete = (if complete then retE False else retE True)"

definition Kind_PostActivate :: "bool \<Rightarrow> ('w, bool) io" where
  "Kind_PostActivate complete = (if complete then retE False else retE True)"

definition Kind_PreDeactivate :: "bool \<Rightarrow> ('w, bool) io" where
  "Kind_PreDeactivate complete = (if complete then retE False else retE True)"

definition Kind_PostSetup :: "bool \<Rightarrow> ('w, bool) io" where
  "Kind_PostSetup complete = (if complete then retE False else retE True)"

definition Kind_PreTeardown :: "bool \<Rightarrow> ('w, bool) io" where
  "Kind_PreTeardown complete = (if complete then retE False else retE True)"

definition Kind_PreMount :: "string \<Rightarrow> bool \<Rightarrow> ('w, bool) io" where
  "Kind_PreMount path complete = (if complete then retE False else retE True)"

definition Kind_PostMount :: "string \<Rightarrow> bool \<Rightarrow> ('w, bool) io" where
  "Kind_PostMount path complete = (if complete then retE False else retE True)"

definition Kind_PreUnmount :: "string \<Rightarrow> bool \<Rightarrow> ('w, bool) io" where
  "Kind_PreUnmount path complete = (if complete then retE False else retE True)"

definition Kind_PostUnmount :: "string \<Rightarrow> bool \<Rightarrow> ('w, bool) io" where
  "Kind_PostUnmount path complete = (if complete then retE False else retE True)"

definition Kind_Deactivate :: "('w, bool) io" where
  "Kind_Deactivate = retE True"

definition MockFileSystem_Activate :: "bool \<Rightarrow> ('w, bool) io" where
  "MockFileSystem_Activate complete = (if complete then retE False else retE True)"

definition MockFileSystem_PostActivate :: "bool \<Rightarrow> ('w, bool) io" where
  "MockFileSystem_PostActivate complete = (if complete then retE False else retE True)"

definition MockFileSystem_PreDeactivate :: "bool \<Rightarrow> ('w, bool) io" where
  "MockFileSystem_PreDeactivate complete = (if complete then retE False else retE True)"

definition MockFileSystem_PostSetup :: "bool \<Rightarrow> ('w, bool) io" where
  "MockFileSystem_PostSetup complete = (if complete then retE False else retE True)"

definition MockFileSystem_PreTeardown :: "bool \<Rightarrow> ('w, bool) io" where
  "MockFileSystem_PreTeardown complete = (if complete then retE False else retE True)"

definition MockFileSystem_Create :: "bool \<Rightarrow> ('w, bool) io" where
  "MockFileSystem_Create complete = (if complete then retE False else retE True)"

definition MockFileSystem_PreMount :: "string \<Rightarrow> bool \<Rightarrow> ('w, bool) io" where
  "MockFileSystem_PreMount path complete = (if complete then retE False else retE True)"

definition MockFileSystem_PostMount :: "string \<Rightarrow> bool \<Rightarrow> ('w, bool) io" where
  "MockFileSystem_PostMount path complete = (if complete then retE False else retE True)"

definition MockFileSystem_PreUnmount :: "string \<Rightarrow> bool \<Rightarrow> ('w, bool) io" where
  "MockFileSystem_PreUnmount path complete = (if complete then retE False else retE True)"

definition MockFileSystem_PostUnmount :: "string \<Rightarrow> bool \<Rightarrow> ('w, bool) io" where
  "MockFileSystem_PostUnmount path complete = (if complete then retE False else retE True)"

definition MockFileSystem_Mount :: "string \<Rightarrow> bool \<Rightarrow> ('w, bool) io" where
  "MockFileSystem_Mount path complete = (if complete then retE False else retE True)"

definition MockFileSystem_Deactivate :: "('w, bool) io" where
  "MockFileSystem_Deactivate = retE True"

definition MockFileSystem_Destroy :: "('w, bool) io" where
  "MockFileSystem_Destroy = retE True"

definition MockFileSystem_Unmount :: "string \<Rightarrow> ('w, bool) io" where
  "MockFileSystem_Unmount path = retE True"

section \<open>The interface\<close>

datatype FileSystem =
  SimpleFS SimpleFileSystem | LustreFS LustreFileSystem | KindFS string | MockFS string

definition withSimple :: "(SimpleFileSystem \<times> 'w, 'a) io \<Rightarrow> SimpleFileSystem \<Rightarrow> (FileSystem \<times> 'w, 'a) io" where
  "withSimple m f = (\<lambda>(_, w). case m (f, w) of (r, (f', w')) \<Rightarrow> (r, (SimpleFS f', w')))"

definition withLustre :: "(LustreFileSystem \<times> 'w, 'a) io \<Rightarrow> LustreFileSystem \<Rightarrow> (FileSystem \<times> 'w, 'a) io" where
  "withLustre m l = (\<lambda>(_, w). case m (l, w) of (r, (l', w')) \<Rightarrow> (r, (LustreFS l', w')))"

text \<open>A method call: the receiver decides which implementation runs.\<close>

definition dispatch ::
  "(SimpleFileSystem \<times> 'w, 'a) io \<Rightarrow> (LustreFileSystem \<times> 'w, 'a) io \<Rightarrow> (string \<Rightarrow> ('w, 'a) io)
   \<Rightarrow> (string \<Rightarrow> ('w, 'a) io) \<Rightarrow> (FileSystem \<times> 'w, 'a) io" where
  "dispatch simple lustre kind mock = bindE getE (\<lambda>fs. case fs of
     SimpleFS f \<Rightarrow> withSimple simple f
   | LustreFS l \<Rightarrow> withLustre lustre l
   | KindFS p \<Rightarrow> sndE (kind p)
   | MockFS p \<Rightarrow> sndE (mock p))"

definition FileSystem_Create :: "'w os \<Rightarrow> bool \<Rightarrow> (FileSystem \<times> 'w, bool) io" where
  "FileSystem_Create os complete =
     dispatch (Simple_Create os complete) (Lustre_Create os complete) (\<lambda>p. Kind_Create os p complete) (\<lambda>_. MockFileSystem_Create complete)"

definition FileSystem_Destroy :: "'w os \<Rightarrow> (FileSystem \<times> 'w, bool) io" where
  "FileSystem_Destroy os =
     dispatch (Simple_Destroy os) (Lustre_Destroy os) (Kind_Destroy os) (\<lambda>_. MockFileSystem_Destroy)"

definition FileSystem_Activate :: "'w os \<Rightarrow> bool \<Rightarrow> (FileSystem \<times> 'w, bool) io" where
  "FileSystem_Activate os complete =
     dispatch (Simple_Activate os complete) (Lustre_Activate os complete) (\<lambda>_. Kind_Activate complete) (\<lambda>_. MockFileSystem_Activate complete)"

definition FileSystem_Deactivate :: "'w os \<Rightarrow> (FileSystem \<times> 'w, bool) io" where
  "FileSystem_Deactivate os =
     dispatch (Simple_Deactivate os) (Lustre_Deactivate os) (\<lambda>_. Kind_Deactivate) (\<lambda>_. MockFileSystem_Deactivate)"

definition FileSystem_Mount :: "'w os \<Rightarrow> string \<Rightarrow> bool \<Rightarrow> (FileSystem \<times> 'w, bool) io" where
  "FileSystem_Mount os path complete =
     dispatch (Simple_Mount os path complete) (Lustre_Mount os path complete) (\<lambda>p. Kind_Mount os p path complete) (\<lambda>_. MockFileSystem_Mount path complete)"

definition FileSystem_Unmount :: "'w os \<Rightarrow> string \<Rightarrow> (FileSystem \<times> 'w, bool) io" where
  "FileSystem_Unmount os path =
     dispatch (Simple_Unmount os path) (Lustre_Unmount os path) (\<lambda>_. Kind_Unmount os path) (\<lambda>_. MockFileSystem_Unmount path)"

definition FileSystem_PreMount :: "'w os \<Rightarrow> string \<Rightarrow> bool \<Rightarrow> (FileSystem \<times> 'w, bool) io" where
  "FileSystem_PreMount os path complete =
     dispatch (Simple_PreMount os path complete) (Lustre_PreMount os path complete) (\<lambda>_. Kind_PreMount path complete) (\<lambda>_. MockFileSystem_PreMount path complete)"

definition FileSystem_PostMount :: "'w os \<Rightarrow> string \<Rightarrow> bool \<Rightarrow> (FileSystem \<times> 'w, bool) io" where
  "FileSystem_PostMount os path complete =
     dispatch (Simple_PostMount os path complete) (Lustre_PostMount os path complete) (\<lambda>_. Kind_PostMount path complete) (\<lambda>_. MockFileSystem_PostMount path complete)"

definition FileSystem_PreUnmount :: "'w os \<Rightarrow> string \<Rightarrow> bool \<Rightarrow> (FileSystem \<times> 'w, bool) io" where
  "FileSystem_PreUnmount os path complete =
     dispatch (Simple_PreUnmount os path complete) (Lustre_PreUnmount os path complete) (\<lambda>_. Kind_PreUnmount path complete) (\<lambda>_. MockFileSystem_PreUnmount path complete)"

definition FileSystem_PostUnmount :: "'w os \<Rightarrow> string \<Rightarrow> bool \<Rightarrow> (FileSystem \<times> 'w, bool) io" where
  "FileSystem_PostUnmount os path complete =
     dispatch (Simple_PostUnmount os path complete) (Lustre_PostUnmount os path complete) (\<lambda>_. Kind_PostUnmount path complete) (\<lambda>_. MockFileSystem_PostUnmount path complete)"

definition FileSystem_PostActivate :: "'w os \<Rightarrow> bool \<Rightarrow> (FileSystem \<times> 'w, bool) io" where
  "FileSystem_PostActivate os complete =
     dispatch (Simple_PostActivate os complete) (Lustre_PostActivate os complete) (\<lambda>_. Kind_PostActivate complete) (\<lambda>_. MockFileSystem_PostActivate complete)"

definition FileSystem_PreDeactivate :: "'w os \<Rightarrow> bool \<Rightarrow> (FileSystem \<times> 'w, bool) io" where
  "FileSystem_PreDeactivate os complete =
     dispatch (Simple_PreDeactivate os complete) (Lustre_PreDeactivate os complete) (\<lambda>_. Kind_PreDeactivate complete) (\<lambda>_. MockFileSystem_PreDeactivate complete)"

definition FileSystem_PostSetup :: "'w os \<Rightarrow> bool \<Rightarrow> (FileSystem \<times> 'w, bool) io" where
  "FileSystem_PostSetup os complete =
     dispatch (Simple_PostSetup os complete) (Lustre_PostSetup os complete) (\<lambda>_. Kind_PostSetup complete) (\<lambda>_. MockFileSystem_PostSetup complete)"

definition FileSystem_PreTeardown :: "'w os \<Rightarrow> bool \<Rightarrow> (FileSystem \<times> 'w, bool) io" where
  "FileSystem_PreTeardown os complete =
     dispatch (Simple_PreTeardown os complete) (Lustre_PreTeardown os complete) (\<lambda>_. Kind_PreTeardown complete) (\<lambda>_. MockFileSystem_PreTeardown complete)"

section \<open>Lemmas\<close>

lemma dispatch_retE [simp]: "dispatch (retE x) (retE x) (\<lambda>_. retE x) (\<lambda>_. retE x) = retE x"
  by (auto simp: dispatch_def getE_def bindE_def retE_def sndE_def withSimple_def withLustre_def
      fun_eq_iff split: FileSystem.splits)

lemma dispatch_apply:
  "dispatch a b c d (SimpleFS f, w) = (case a (f, w) of (r, (f', w')) \<Rightarrow> (r, (SimpleFS f', w')))"
  "dispatch a b c d (LustreFS l, w) = (case b (l, w) of (r, (l', w')) \<Rightarrow> (r, (LustreFS l', w')))"
  "dispatch a b c d (KindFS p, w) = (case c p w of (r, w') \<Rightarrow> (r, (KindFS p, w')))"
  "dispatch a b c d (MockFS p, w) = (case d p w of (r, w') \<Rightarrow> (r, (MockFS p, w')))"
  by (simp_all add: dispatch_def withSimple_def withLustre_def sndE_def)

lemma Simple_parseArgs_apply [simp]:
  "Simple_parseArgs os args (f, w) = (Inr (ReplaceAll (os_order os w) (NewVarHandler (Simple_vars f)) args), (f, w))"
  by (simp add: Simple_parseArgs_def replaceE_def sndE_apply)

lemma Lustre_parseArgs_apply [simp]:
  "Lustre_parseArgs os args (l, w) = (Inr (ReplaceAll (os_order os w) (NewVarHandler (Lustre_vars l)) args), (l, w))"
  by (simp add: Lustre_parseArgs_def replaceE_def sndE_apply)

text \<open>The path of a mount as the code looks it up in the mount table.\<close>

definition Simple_pathOf :: "'w os \<Rightarrow> string \<Rightarrow> SimpleFileSystem \<Rightarrow> 'w \<Rightarrow> string" where
  "Simple_pathOf os path f w = ReplaceAll (os_order os w)
     (NewVarHandler (Simple_vars (Simple_setVars [(''$MOUNT_PATH'', filepath_Clean path)] f))) (filepath_Clean path)"

definition Lustre_pathOf :: "'w os \<Rightarrow> string \<Rightarrow> LustreFileSystem \<Rightarrow> 'w \<Rightarrow> string" where
  "Lustre_pathOf os path l w = ReplaceAll (os_order os w)
     (NewVarHandler (Lustre_vars (Lustre_setVars [(''$MOUNT_PATH'', filepath_Clean path)] l))) (filepath_Clean path)"

lemma Simple_enterPath_apply [simp]:
  "Simple_enterPath os path (f, w) =
     (Inr (Simple_pathOf os path f w), (Simple_setVars [(''$MOUNT_PATH'', filepath_Clean path)] f, w))"
  by (simp add: Simple_enterPath_def Simple_pathOf_def)

lemma Lustre_enterPath_apply [simp]:
  "Lustre_enterPath os path (l, w) =
     (Inr (Lustre_pathOf os path l w), (Lustre_setVars [(''$MOUNT_PATH'', filepath_Clean path)] l, w))"
  by (simp add: Lustre_enterPath_def Lustre_pathOf_def)

section \<open>The contract of the phases\<close>

text \<open>
  What a caller may rely on: a phase that is complete does nothing. Some phases take the path of the
  mount. As an interface it gives that of a block device, with the path in the role of the device.
\<close>

locale file_system =
  fixes create :: "bool \<Rightarrow> ('w, bool) io"
    and phases :: "(bool \<Rightarrow> ('w, bool) io) list"
    and pathPhases :: "(string \<Rightarrow> bool \<Rightarrow> ('w, bool) io) list"
  assumes create_complete: "create True = retE False"
    and phase_complete: "op \<in> set phases \<Longrightarrow> op True = retE False"
    and pathPhase_complete: "op' \<in> set pathPhases \<Longrightarrow> op' path True = retE False"

sublocale file_system \<subseteq> phase: block_device "\<lambda>_. create" "map (\<lambda>op _. op) phases @ pathPhases"
  by unfold_locales (auto simp: create_complete phase_complete pathPhase_complete)

lemmas fs_complete_defs =
  FileSystem_Create_def FileSystem_PostActivate_def FileSystem_PreDeactivate_def FileSystem_PostSetup_def
  FileSystem_PreTeardown_def FileSystem_PreMount_def FileSystem_PostMount_def FileSystem_PreUnmount_def
  FileSystem_PostUnmount_def Simple_Create_def Lustre_Create_def Kind_Create_def MockFileSystem_Create_def
  Simple_RunCommands_def Lustre_RunCommands_def Simple_mounted_def Lustre_mounted_def
  Simple_PostActivate_def Simple_PreDeactivate_def Simple_PostSetup_def Simple_PreTeardown_def
  Simple_PreMount_def Simple_PostMount_def Simple_PreUnmount_def Simple_PostUnmount_def
  Lustre_PostActivate_def Lustre_PreDeactivate_def Lustre_PostSetup_def Lustre_PreTeardown_def
  Lustre_PreMount_def Lustre_PostMount_def Lustre_PreUnmount_def Lustre_PostUnmount_def
  Kind_PostActivate_def Kind_PreDeactivate_def Kind_PostSetup_def Kind_PreTeardown_def
  Kind_PreMount_def Kind_PostMount_def Kind_PreUnmount_def Kind_PostUnmount_def
  MockFileSystem_PostActivate_def MockFileSystem_PreDeactivate_def MockFileSystem_PostSetup_def
  MockFileSystem_PreTeardown_def MockFileSystem_PreMount_def MockFileSystem_PostMount_def
  MockFileSystem_PreUnmount_def MockFileSystem_PostUnmount_def

interpretation fsys: file_system "FileSystem_Create os"
  "[FileSystem_PostActivate os, FileSystem_PreDeactivate os, FileSystem_PostSetup os, FileSystem_PreTeardown os]"
  "[FileSystem_PreMount os, FileSystem_PostMount os, FileSystem_PreUnmount os, FileSystem_PostUnmount os]" for os
  by unfold_locales (auto simp: fs_complete_defs cong: if_cong)

section \<open>Properties\<close>

text \<open>
  The phases of a file system can be repeated: for every kind of file system, any sequence of
  phases (creation, the user command phases, and those that mount a temporary directory) that are
  marked complete returns false each time and changes neither the object nor the world. Mounting and
  activation are not among them: their implementations look at the mount table instead.
\<close>

theorem FileSystem_complete_sequence:
  assumes "set ops \<subseteq> {\<lambda>_. FileSystem_Create os, \<lambda>_. FileSystem_PostActivate os, \<lambda>_. FileSystem_PreDeactivate os,
    \<lambda>_. FileSystem_PostSetup os, \<lambda>_. FileSystem_PreTeardown os, FileSystem_PreMount os,
    FileSystem_PostMount os, FileSystem_PreUnmount os, FileSystem_PostUnmount os}"
  shows "mapME (\<lambda>op. op path True) ops (fs, w) = (Inr (map (\<lambda>_. False) ops), (fs, w))"
  by (rule fsys.phase.complete_sequence) (use assms in auto)

definition plainOs :: "MountPoint list \<Rightarrow> unit os" where
  "plainOs mounts = exampleOs (\<lambda>_. ([], [], None)) (\<lambda>_. None) False mounts"

theorem FileSystem_complete_sequence_witness:
  "mapME (\<lambda>op. op ''/mnt'' True) [\<lambda>_. FileSystem_Create (plainOs []), FileSystem_PreMount (plainOs []),
     \<lambda>_. FileSystem_PostSetup (plainOs [])] (KindFS ''/mnt/nnf'', ()) =
   (Inr [False, False, False], (KindFS ''/mnt/nnf'', ()))"
  using FileSystem_complete_sequence [of "[\<lambda>_. FileSystem_Create (plainOs []), FileSystem_PreMount (plainOs []),
    \<lambda>_. FileSystem_PostSetup (plainOs [])]" "plainOs []" "''/mnt''" "KindFS ''/mnt/nnf''" "()"] by simp

text \<open>The views of a file system that the statements below need.\<close>

fun deviceOf :: "FileSystem \<Rightarrow> BlockDevice option" where
  "deviceOf (SimpleFS f) = Some (sfs_BlockDevice f)"
| "deviceOf (LustreFS l) = Some (lfs_BlockDevice l)"
| "deviceOf _ = None"

fun mountPathOf :: "'w os \<Rightarrow> string \<Rightarrow> FileSystem \<Rightarrow> 'w \<Rightarrow> string option" where
  "mountPathOf os path (SimpleFS f) w =
     (if sca_Mount (sfs_CommandArgs f) = [] then None else Some (Simple_pathOf os path f w))"
| "mountPathOf os path (LustreFS l) w =
     (if lfa_Mount (lfs_CommandArgs l) = [] then None else Some (Lustre_pathOf os path l w))"
| "mountPathOf os path _ w = None"

fun expectedMount :: "FileSystem \<Rightarrow> MountPoint \<Rightarrow> bool" where
  "expectedMount (SimpleFS f) m =
     (sfs_Type f = ''none'' \<or> mp_Device m = BlockDevice_GetDevice (sfs_BlockDevice f) \<and> mp_Type m = sfs_Type f)"
| "expectedMount (LustreFS l) m = (mp_Device m = Lustre_devStr l \<and> mp_Type m = ''lustre'')"
| "expectedMount _ m = False"

text \<open>
  C27. Data is never formatted over: unless the check of the block device answers that it is not
  formatted, creating a file system on it (simple or Lustre) does nothing beyond that check. An
  error of the check counts as possibly formatted.
\<close>

theorem FileSystem_Create_spares_data:
  assumes "deviceOf fs = Some d" and "fst (BlockDevice_CheckFormatted os d w) \<noteq> Inr False"
  shows "snd (FileSystem_Create os complete (fs, w)) \<in>
    {(fs, w), (fs, snd (BlockDevice_CheckFormatted os d w))}"
proof -
  obtain r w' where c: "BlockDevice_CheckFormatted os d w = (r, w')" by fastforce
  show ?thesis
  proof (cases fs)
    case (SimpleFS f)
    then show ?thesis using assms c
      by (cases r) (auto simp: FileSystem_Create_def dispatch_apply Simple_Create_def retE_def bindE_def getE_def
        wrapE_def catchE_def failE_def sndE_apply)
  next
    case (LustreFS l)
    then show ?thesis using assms c
      by (cases r) (auto simp: FileSystem_Create_def dispatch_apply Lustre_Create_def retE_def bindE_def getE_def
        wrapE_def catchE_def failE_def sndE_apply)
  qed (use assms in simp_all)
qed

text \<open>
  Nothing is mounted over an existing mount: when the mount table has an entry at the path, mounting
  runs no command and touches no directory. It reports that nothing was done if the entry is
  the file system's own (any entry will do for a bind mount), and fails if it is another's.
\<close>

theorem FileSystem_Mount_respects_table:
  assumes "os_mounts os w = (Inr mounts, w')" and "mountPathOf os path fs w = Some p"
    and "mountAt p mounts = Some m"
  shows "snd (snd (FileSystem_Mount os path complete (fs, w))) = w' \<and>
    (fst (FileSystem_Mount os path complete (fs, w)) = Inr False \<longleftrightarrow> expectedMount fs m) \<and>
    (\<not> expectedMount fs m \<longrightarrow> (\<exists>msg. fst (FileSystem_Mount os path complete (fs, w)) = Inl (Fail msg)))"
proof (cases fs)
  case (SimpleFS f)
  then show ?thesis using assms
    by (auto simp: FileSystem_Mount_def dispatch_apply Simple_Mount_def bindE_def getE_def retE_def failE_def
      sndE_apply unexpectedMount_def split: if_splits)
next
  case (LustreFS l)
  then show ?thesis using assms
    by (auto simp: FileSystem_Mount_def dispatch_apply Lustre_Mount_def bindE_def getE_def retE_def failE_def
      sndE_apply Lustre_unexpected_def split: if_splits)
qed (use assms in simp_all)

definition exSimple :: SimpleFileSystem where
  "exSimple = \<lparr>sfs_CommandArgs = \<lparr>sca_Mkfs = ''$DEVICE'', sca_Mount = ''$DEVICE $MOUNT_PATH'',
       sca_Unmount = ''$MOUNT_PATH'', sca_PreActivate = [], sca_PostActivate = [], sca_PreDeactivate = [],
       sca_PostDeactivate = [], sca_PreMount = [], sca_PostMount = [], sca_PreUnmount = [], sca_PostUnmount = [],
       sca_PostSetup = [''chown 1:2 $MOUNT_PATH''], sca_PreTeardown = [''sync''], sca_Vars = []\<rparr>,
     sfs_Type = ''xfs'', sfs_MountTarget = ''directory'', sfs_TempDir = ''/tmp/m'', sfs_BlockDevice = LvmDevice exLvm\<rparr>"

theorem FileSystem_Create_spares_data_witness:
  "snd (FileSystem_Create (exampleOs (\<lambda>_. (''xfs'', [], None)) (\<lambda>_. None) False []) False (SimpleFS exSimple, ())) =
     (SimpleFS exSimple, ())"
proof -
  let ?os = "exampleOs (\<lambda>_. (''xfs'', [], None)) (\<lambda>_. None) False [] :: unit os"
  have "fst (BlockDevice_CheckFormatted ?os (LvmDevice exLvm) ()) \<noteq> Inr False"
    by (simp add: Lvm_CheckFormatted_def bindE_def wrapE_def catchE_def retE_def)
  then have "snd (FileSystem_Create ?os False (SimpleFS exSimple, ())) \<in>
      {(SimpleFS exSimple, ()), (SimpleFS exSimple, snd (BlockDevice_CheckFormatted ?os (LvmDevice exLvm) ()))}"
    by (intro FileSystem_Create_spares_data) (simp_all add: exSimple_def)
  then show ?thesis by simp
qed

theorem FileSystem_Mount_respects_table_witness:
  "\<exists>msg. fst (FileSystem_Mount (plainOs [\<lparr>mp_Device = ''/dev/sda1'', mp_Path = ''/mnt/a'', mp_Type = ''ext4''\<rparr>])
     ''/mnt/a/'' False (SimpleFS exSimple, ())) = Inl (Fail msg)"
proof -
  let ?m = "\<lparr>mp_Device = ''/dev/sda1'', mp_Path = ''/mnt/a'', mp_Type = ''ext4''\<rparr>"
  have "Simple_pathOf (plainOs [?m]) ''/mnt/a/'' exSimple () = ''/mnt/a''" by code_simp
  then have path: "mountPathOf (plainOs [?m]) ''/mnt/a/'' (SimpleFS exSimple) () = Some ''/mnt/a''"
    by (simp add: exSimple_def)
  have table: "os_mounts (plainOs [?m]) () = (Inr [?m], ())" by (simp add: plainOs_def exampleOs_def)
  have entry: "mountAt ''/mnt/a'' [?m] = Some ?m" by (simp add: mountAt_def)
  have "\<not> expectedMount (SimpleFS exSimple) ?m" by (simp add: exSimple_def)
  then show ?thesis using FileSystem_Mount_respects_table [OF table path entry] by blast
qed

section \<open>Temporary mounts are undone\<close>

lemma Run_no_panic: "Run os c w = (Inl e, w') \<Longrightarrow> \<not> is_panic e"
  by (auto simp: Run_def run_def runWithTimeout_def failE_def is_panic_def Let_def
      split: option.splits prod.splits)

lemma Simple_command_fails:
  assumes "Simple_command os phase t c (f, w) = (Inl e, s)"
  shows "\<exists>w'. s = snd (Simple_Unmount os t (f, w'))"
proof -
  define c' where "c' = ReplaceAll (os_order os w) (NewVarHandler (Simple_vars f)) c"
  obtain r w1 where run: "Run os c' w = (r, w1)" by fastforce
  obtain u s2 where u: "Simple_Unmount os t (f, w1) = (u, s2)"
    by (cases "Simple_Unmount os t (f, w1)")
  show ?thesis
  proof (cases r)
    case (Inr x)
    then show ?thesis using assms run
      by (simp add: Simple_command_def bindE_def catchE_def sndE_apply retE_def c'_def)
  next
    case (Inl err)
    then have "s = s2" using assms run u Run_no_panic [OF run [unfolded Inl]]
      by (cases u) (auto simp: Simple_command_def bindE_def catchE_def wrapE_def sndE_apply failE_def c'_def
        split: if_splits)
    then show ?thesis using u by (intro exI [of _ w1]) simp
  qed
qed

lemma Simple_command_succeeds:
  "Simple_command os phase t c (f, w) = (Inr x, (f1, w1)) \<Longrightarrow> f1 = f"
  by (auto simp: Simple_command_def bindE_def catchE_def wrapE_def sndE_apply retE_def failE_def
      split: if_splits sum.splits prod.splits)

lemma Simple_commands_end:
  assumes "mapME (Simple_command os phase t) cs (f, w) = (r, s)"
  shows "case r of Inl e \<Rightarrow> (\<exists>w'. s = snd (Simple_Unmount os t (f, w'))) | Inr x \<Rightarrow> fst s = f"
  using assms
proof (induction cs arbitrary: w r s)
  case Nil
  then show ?case by (auto simp: retE_def)
next
  case (Cons c cs)
  obtain q f1 w1 where c: "Simple_command os phase t c (f, w) = (q, (f1, w1))" by (metis prod_cases3)
  show ?case
  proof (cases q)
    case (Inl e')
    then show ?thesis using Cons.prems c Simple_command_fails [of os phase t c f w] by (auto simp: bindE_def)
  next
    case (Inr x)
    then have "f1 = f" using Simple_command_succeeds [of os phase t c f w x f1 w1] c by simp
    moreover obtain q2 s2 where rest: "mapME (Simple_command os phase t) cs (f, w1) = (q2, s2)"
      by (cases "mapME (Simple_command os phase t) cs (f, w1)")
    ultimately show ?thesis using Cons.IH [OF rest] Cons.prems c Inr
      by (cases q2) (auto simp: bindE_def retE_def)
  qed
qed

lemma Simple_mounted_ends:
  assumes "commands \<noteq> []" "sfs_Type f \<noteq> ''none''"
    and m: "Simple_Mount os (sfs_TempDir f) False (f, w) = (Inr b, (f1, w1))"
  shows "\<exists>w'. snd (Simple_mounted os phase msg commands False (f, w)) =
    snd (Simple_Unmount os (sfs_TempDir f) (Simple_setVars [(''$MOUNT_PATH'', sfs_TempDir f)] f1, w'))"
proof -
  let ?t = "sfs_TempDir f"
  let ?f2 = "Simple_setVars [(''$MOUNT_PATH'', ?t)] f1"
  obtain r f3 w3 where c: "mapME (Simple_command os phase ?t) commands (?f2, w1) = (r, (f3, w3))"
    by (metis prod_cases3)
  have run: "Simple_mounted os phase msg commands False (f, w) =
      bindE (mapME (Simple_command os phase ?t) commands) (\<lambda>_.
        bindE (wrapE (errorf (msg @ squote ?t @ '': '')) (Simple_Unmount os ?t)) (\<lambda>_. retE True)) (?f2, w1)"
    using assms(1,2)
    by (simp add: Simple_mounted_def bindE_wrapE_Inr [of "Simple_Mount os ?t False" "(f, w)", OF m])
  show ?thesis
  proof (cases r)
    case (Inl e)
    then show ?thesis using Simple_commands_end [OF c] run c by (auto simp: bindE_Inl)
  next
    case (Inr x)
    then show ?thesis using Simple_commands_end [OF c] run c by (auto simp: bindE_Inr snd_bindE_wrapE)
  qed
qed

text \<open>
  A temporary mount is always undone: once \<^verbatim>\<open>PostSetup\<close> or \<^verbatim>\<open>PreTeardown\<close> has mounted a simple file
  system at its temporary directory, whatever unmounting that directory establishes in the world
  holds when it returns, also when one of the user commands fails.
\<close>

theorem Simple_temporary_mount_undone:
  assumes "Simple_Mount os (sfs_TempDir f) False (f, w) = (Inr b, (f1, w1))"
    and "\<And>w'. unmounted (snd (snd (Simple_Unmount os (sfs_TempDir f)
          (Simple_setVars [(''$MOUNT_PATH'', sfs_TempDir f)] f1, w'))))"
    and "sfs_Type f \<noteq> ''none''"
  shows "(sca_PostSetup (sfs_CommandArgs f) \<noteq> [] \<longrightarrow> unmounted (snd (snd (Simple_PostSetup os False (f, w))))) \<and>
    (sca_PreTeardown (sfs_CommandArgs f) \<noteq> [] \<longrightarrow> unmounted (snd (snd (Simple_PreTeardown os False (f, w)))))"
proof -
  have "unmounted (snd (snd (Simple_mounted os phase msg commands False (f, w))))" if "commands \<noteq> []" for phase msg commands
    using Simple_mounted_ends [OF that assms(3,1), of phase msg] assms(2) by metis
  then show ?thesis by (simp add: Simple_PostSetup_def Simple_PreTeardown_def)
qed

text \<open>A system whose world is the state of one mount, and where every other command fails.\<close>

definition mountOs :: "bool os" where
  "mountOs = (exampleOs (\<lambda>_. ([], [], None)) (\<lambda>_. None) False [])\<lparr>
     os_exec := (\<lambda>c t u w.
       if prefix ''mount '' c then (([], [], None), True)
       else if prefix ''umount '' c then (([], [], None), False)
       else (([], [], Some ''exit status 1''), w)),
     os_mounts := (\<lambda>w. (Inr (if w then [\<lparr>mp_Device = ''/dev/mapper/vg-lv'', mp_Path = ''/tmp/m'', mp_Type = ''xfs''\<rparr>] else []), w))\<rparr>"

definition mountedSimple :: SimpleFileSystem where
  "mountedSimple = Simple_setVars [(''$MOUNT_PATH'', ''/tmp/m'')] exSimple"

theorem Simple_temporary_mount_undone_witness:
  "\<not> snd (snd (Simple_PostSetup mountOs False (exSimple, False)))"
proof -
  have mount: "fst (Simple_Mount mountOs ''/tmp/m'' False (exSimple, False)) = Inr True"
    "fst (snd (Simple_Mount mountOs ''/tmp/m'' False (exSimple, False))) = mountedSimple"
    "snd (snd (Simple_Mount mountOs ''/tmp/m'' False (exSimple, False))) = True"
    by code_simp+
  have "\<not> snd (snd (Simple_Unmount mountOs ''/tmp/m'' (Simple_setVars [(''$MOUNT_PATH'', ''/tmp/m'')] mountedSimple, True)))"
    "\<not> snd (snd (Simple_Unmount mountOs ''/tmp/m'' (Simple_setVars [(''$MOUNT_PATH'', ''/tmp/m'')] mountedSimple, False)))"
    by code_simp+
  then have unmount: "\<not> snd (snd (Simple_Unmount mountOs ''/tmp/m''
      (Simple_setVars [(''$MOUNT_PATH'', ''/tmp/m'')] mountedSimple, w')))" for w'
    by (cases w') simp_all
  have f: "sfs_TempDir exSimple = ''/tmp/m''" "sfs_Type exSimple = ''xfs''" "sca_PostSetup (sfs_CommandArgs exSimple) \<noteq> []"
    by (simp_all add: exSimple_def)
  have "Simple_Mount mountOs (sfs_TempDir exSimple) False (exSimple, False) = (Inr True, (mountedSimple, True))"
    using mount f(1) by (metis prod.collapse)
  then show ?thesis
    using Simple_temporary_mount_undone [of mountOs exSimple False True mountedSimple True "\<lambda>w. \<not> w"] unmount f
    by simp
qed

end
