(* ===== verification/StorageProfile.thy ===== *)
theory StorageProfile
  imports Client
begin

text \<open>
  \<^verbatim>\<open>api/v1alpha11/nnfstorageprofile_types.go\<close>, the validating webhook
  \<^verbatim>\<open>nnfstorageprofile_webhook.go\<close>, and \<^verbatim>\<open>internal/controller/nnfstorageprofile_helpers.go\<close>: the
  storage profile that holds the command lines of an allocation, what the webhook admits, and how a
  profile is found and pinned. The structs that the source embeds (\<^verbatim>\<open>TargetOptions\<close> in the
  Lustre options, the shared data of xfs, gfs2 and raw) are fields here.
\<close>

section \<open>Types\<close>

record NnfStorageProfileLustreClientCmdLines =
  cc_MountRabbit :: string
  cc_RabbitPostSetup :: "string list"
  cc_RabbitPreTeardown :: "string list"
  cc_RabbitPostTeardown :: "string list"
  cc_MountCompute :: string
  cc_UnmountRabbit :: string
  cc_UnmountCompute :: string
  cc_RabbitPreMount :: "string list"
  cc_RabbitPostMount :: "string list"
  cc_RabbitPreUnmount :: "string list"
  cc_RabbitPostUnmount :: "string list"
  cc_ComputePreMount :: "string list"
  cc_ComputePostMount :: "string list"
  cc_ComputePreUnmount :: "string list"
  cc_ComputePostUnmount :: "string list"

record NnfStorageProfileLustreClientOptions =
  co_CmdLines :: NnfStorageProfileLustreClientCmdLines
  co_VariableOverride :: kv

record NnfStorageProfileLustreCmdLines =
  lc_ZpoolCreate :: string
  lc_ZpoolDestroy :: string
  lc_ZpoolReplace :: string
  lc_Mkfs :: string
  lc_MountTarget :: string
  lc_UnmountTarget :: string
  lc_PostActivate :: "string list"
  lc_PreDeactivate :: "string list"

record NnfStorageProfileLustreTargetOptions =
  lto_CmdLines :: NnfStorageProfileLustreCmdLines
  lto_VariableOverride :: kv
  lto_ColocateComputes :: bool
  lto_Count :: int
  lto_Scale :: int
  lto_StorageLabels :: "string list"

record NnfStorageProfileLustreMgtOptions =
  mgt_ExternalMGS :: string
  mgt_StandaloneMGTPoolName :: string
  mgt_Capacity :: string
  mgt_TargetOptions :: NnfStorageProfileLustreTargetOptions
  mgt_PreMountCommands :: "string list"

record NnfStorageProfileLustreMdtOptions =
  mdt_Capacity :: string
  mdt_Exclusive :: bool
  mdt_TargetOptions :: NnfStorageProfileLustreTargetOptions

record NnfStorageProfileLustreMgtMdtOptions =
  mgtmdt_Capacity :: string
  mgtmdt_TargetOptions :: NnfStorageProfileLustreTargetOptions

record NnfStorageProfileLustreOstOptions =
  ost_CapacityScalingFactor :: string
  ost_TargetOptions :: NnfStorageProfileLustreTargetOptions

record NnfStorageProfileLustreData =
  ld_CombinedMGTMDT :: bool
  ld_MgtOptions :: NnfStorageProfileLustreMgtOptions
  ld_MdtOptions :: NnfStorageProfileLustreMdtOptions
  ld_MgtMdtOptions :: NnfStorageProfileLustreMgtMdtOptions
  ld_OstOptions :: NnfStorageProfileLustreOstOptions
  ld_ClientOptions :: NnfStorageProfileLustreClientOptions

record NnfStorageProfileBlockDeviceUserCommands =
  bu_PreActivate :: "string list"
  bu_PostActivate :: "string list"
  bu_PreDeactivate :: "string list"
  bu_PostDeactivate :: "string list"

record NnfStorageProfileLVMRebuildCmdLines =
  rb_VgExtend :: string
  rb_VgReduce :: string
  rb_LvRepair :: string

record NnfStorageProfileLVMVgChangeCmdLines =
  vgc_LockStart :: string
  vgc_LockStop :: string

record NnfStorageProfileLVMLvChangeCmdLines =
  lvc_Activate :: string
  lvc_Deactivate :: string

record NnfStorageProfileRabbitBlockDeviceCommands =
  rbd_PvCreate :: string
  rbd_PvRemove :: string
  rbd_VgCreate :: string
  rbd_VgChange :: NnfStorageProfileLVMVgChangeCmdLines
  rbd_LVMRebuild :: NnfStorageProfileLVMRebuildCmdLines
  rbd_VgRemove :: string
  rbd_LvCreate :: string
  rbd_LvChange :: NnfStorageProfileLVMLvChangeCmdLines
  rbd_LvRemove :: string
  rbd_UserCommands :: NnfStorageProfileBlockDeviceUserCommands

record NnfStorageProfileComputeBlockDeviceCommands =
  cbd_VgChange :: NnfStorageProfileLVMVgChangeCmdLines
  cbd_LvChange :: NnfStorageProfileLVMLvChangeCmdLines
  cbd_UserCommands :: NnfStorageProfileBlockDeviceUserCommands

record NnfStorageProfileBlockDevice =
  bd_SharedVg :: bool
  bd_RabbitCommands :: NnfStorageProfileRabbitBlockDeviceCommands
  bd_ComputeCommands :: NnfStorageProfileComputeBlockDeviceCommands

record NnfStorageProfileFileSystemUserCommands =
  fu_PreMount :: "string list"
  fu_PostMount :: "string list"
  fu_PreUnmount :: "string list"
  fu_PostUnmount :: "string list"

record NnfStorageProfileRabbitFileSystemCommands =
  rfs_Mkfs :: string
  rfs_Mount :: string
  rfs_Unmount :: string
  rfs_UserCommands :: NnfStorageProfileFileSystemUserCommands

record NnfStorageProfileComputeFileSystemCommands =
  cfs_Mount :: string
  cfs_Unmount :: string
  cfs_UserCommands :: NnfStorageProfileFileSystemUserCommands

record NnfStorageProfileFileSystem =
  pfs_RabbitCommands :: NnfStorageProfileRabbitFileSystemCommands
  pfs_ComputeCommands :: NnfStorageProfileComputeFileSystemCommands

record NnfStorageProfileUserCommands =
  uc_PostActivate :: "string list"
  uc_PreDeactivate :: "string list"
  uc_PostSetup :: "string list"
  uc_PreTeardown :: "string list"
  uc_PostTeardown :: "string list"

record NnfStorageProfileSharedData =
  sd_FileSystemCommands :: NnfStorageProfileFileSystem
  sd_BlockDeviceCommands :: NnfStorageProfileBlockDevice
  sd_UserCommands :: NnfStorageProfileUserCommands
  sd_SharedAllocation :: bool
  sd_StorageLabels :: "string list"
  sd_CapacityScalingFactor :: string
  sd_AllocationPadding :: string
  sd_VariableOverride :: kv

record NnfStorageProfileData =
  pd_Default :: bool
  pd_Pinned :: bool
  pd_LustreStorage :: NnfStorageProfileLustreData
  pd_GFS2Storage :: NnfStorageProfileSharedData
  pd_XFSStorage :: NnfStorageProfileSharedData
  pd_RawStorage :: NnfStorageProfileSharedData

record NnfStorageProfile =
  prof_Meta :: ObjectMeta
  prof_Data :: NnfStorageProfileData

section \<open>Zero values\<close>

text \<open>The Go zero value of each struct: what a field that a profile leaves out decodes to.\<close>

definition zeroLustreClientCmdLines :: NnfStorageProfileLustreClientCmdLines where
  "zeroLustreClientCmdLines = \<lparr>cc_MountRabbit = [], cc_RabbitPostSetup = [],
     cc_RabbitPreTeardown = [], cc_RabbitPostTeardown = [], cc_MountCompute = [],
     cc_UnmountRabbit = [], cc_UnmountCompute = [], cc_RabbitPreMount = [],
     cc_RabbitPostMount = [], cc_RabbitPreUnmount = [], cc_RabbitPostUnmount = [],
     cc_ComputePreMount = [], cc_ComputePostMount = [], cc_ComputePreUnmount = [],
     cc_ComputePostUnmount = []\<rparr>"

definition zeroLustreClientOptions :: NnfStorageProfileLustreClientOptions where
  "zeroLustreClientOptions = \<lparr>co_CmdLines = zeroLustreClientCmdLines,
     co_VariableOverride = []\<rparr>"

definition zeroLustreCmdLines :: NnfStorageProfileLustreCmdLines where
  "zeroLustreCmdLines = \<lparr>lc_ZpoolCreate = [], lc_ZpoolDestroy = [], lc_ZpoolReplace = [],
     lc_Mkfs = [], lc_MountTarget = [], lc_UnmountTarget = [], lc_PostActivate = [],
     lc_PreDeactivate = []\<rparr>"

definition zeroLustreTargetOptions :: NnfStorageProfileLustreTargetOptions where
  "zeroLustreTargetOptions = \<lparr>lto_CmdLines = zeroLustreCmdLines, lto_VariableOverride = [],
     lto_ColocateComputes = False, lto_Count = 0, lto_Scale = 0, lto_StorageLabels = []\<rparr>"

definition zeroLustreMgtOptions :: NnfStorageProfileLustreMgtOptions where
  "zeroLustreMgtOptions = \<lparr>mgt_ExternalMGS = [], mgt_StandaloneMGTPoolName = [],
     mgt_Capacity = [], mgt_TargetOptions = zeroLustreTargetOptions,
     mgt_PreMountCommands = []\<rparr>"

definition zeroLustreMdtOptions :: NnfStorageProfileLustreMdtOptions where
  "zeroLustreMdtOptions = \<lparr>mdt_Capacity = [], mdt_Exclusive = False,
     mdt_TargetOptions = zeroLustreTargetOptions\<rparr>"

definition zeroLustreMgtMdtOptions :: NnfStorageProfileLustreMgtMdtOptions where
  "zeroLustreMgtMdtOptions = \<lparr>mgtmdt_Capacity = [], mgtmdt_TargetOptions = zeroLustreTargetOptions\<rparr>"

definition zeroLustreOstOptions :: NnfStorageProfileLustreOstOptions where
  "zeroLustreOstOptions = \<lparr>ost_CapacityScalingFactor = [],
     ost_TargetOptions = zeroLustreTargetOptions\<rparr>"

definition zeroLustreData :: NnfStorageProfileLustreData where
  "zeroLustreData = \<lparr>ld_CombinedMGTMDT = False, ld_MgtOptions = zeroLustreMgtOptions,
     ld_MdtOptions = zeroLustreMdtOptions, ld_MgtMdtOptions = zeroLustreMgtMdtOptions,
     ld_OstOptions = zeroLustreOstOptions, ld_ClientOptions = zeroLustreClientOptions\<rparr>"

definition zeroBlockDeviceUserCommands :: NnfStorageProfileBlockDeviceUserCommands where
  "zeroBlockDeviceUserCommands = \<lparr>bu_PreActivate = [], bu_PostActivate = [],
     bu_PreDeactivate = [], bu_PostDeactivate = []\<rparr>"

definition zeroLVMRebuildCmdLines :: NnfStorageProfileLVMRebuildCmdLines where
  "zeroLVMRebuildCmdLines = \<lparr>rb_VgExtend = [], rb_VgReduce = [], rb_LvRepair = []\<rparr>"

definition zeroLVMVgChangeCmdLines :: NnfStorageProfileLVMVgChangeCmdLines where
  "zeroLVMVgChangeCmdLines = \<lparr>vgc_LockStart = [], vgc_LockStop = []\<rparr>"

definition zeroLVMLvChangeCmdLines :: NnfStorageProfileLVMLvChangeCmdLines where
  "zeroLVMLvChangeCmdLines = \<lparr>lvc_Activate = [], lvc_Deactivate = []\<rparr>"

definition zeroRabbitBlockDeviceCommands :: NnfStorageProfileRabbitBlockDeviceCommands where
  "zeroRabbitBlockDeviceCommands = \<lparr>rbd_PvCreate = [], rbd_PvRemove = [], rbd_VgCreate = [],
     rbd_VgChange = zeroLVMVgChangeCmdLines, rbd_LVMRebuild = zeroLVMRebuildCmdLines,
     rbd_VgRemove = [], rbd_LvCreate = [], rbd_LvChange = zeroLVMLvChangeCmdLines,
     rbd_LvRemove = [], rbd_UserCommands = zeroBlockDeviceUserCommands\<rparr>"

definition zeroComputeBlockDeviceCommands :: NnfStorageProfileComputeBlockDeviceCommands where
  "zeroComputeBlockDeviceCommands = \<lparr>cbd_VgChange = zeroLVMVgChangeCmdLines,
     cbd_LvChange = zeroLVMLvChangeCmdLines, cbd_UserCommands = zeroBlockDeviceUserCommands\<rparr>"

definition zeroBlockDevice :: NnfStorageProfileBlockDevice where
  "zeroBlockDevice = \<lparr>bd_SharedVg = False, bd_RabbitCommands = zeroRabbitBlockDeviceCommands, bd_ComputeCommands = zeroComputeBlockDeviceCommands\<rparr>"

definition zeroFileSystemUserCommands :: NnfStorageProfileFileSystemUserCommands where
  "zeroFileSystemUserCommands = \<lparr>fu_PreMount = [], fu_PostMount = [], fu_PreUnmount = [],
     fu_PostUnmount = []\<rparr>"

definition zeroRabbitFileSystemCommands :: NnfStorageProfileRabbitFileSystemCommands where
  "zeroRabbitFileSystemCommands = \<lparr>rfs_Mkfs = [], rfs_Mount = [], rfs_Unmount = [],
     rfs_UserCommands = zeroFileSystemUserCommands\<rparr>"

definition zeroComputeFileSystemCommands :: NnfStorageProfileComputeFileSystemCommands where
  "zeroComputeFileSystemCommands = \<lparr>cfs_Mount = [], cfs_Unmount = [],
     cfs_UserCommands = zeroFileSystemUserCommands\<rparr>"

definition zeroFileSystem :: NnfStorageProfileFileSystem where
  "zeroFileSystem = \<lparr>pfs_RabbitCommands = zeroRabbitFileSystemCommands,
     pfs_ComputeCommands = zeroComputeFileSystemCommands\<rparr>"

definition zeroUserCommands :: NnfStorageProfileUserCommands where
  "zeroUserCommands = \<lparr>uc_PostActivate = [], uc_PreDeactivate = [], uc_PostSetup = [],
     uc_PreTeardown = [], uc_PostTeardown = []\<rparr>"

definition zeroSharedData :: NnfStorageProfileSharedData where
  "zeroSharedData = \<lparr>sd_FileSystemCommands = zeroFileSystem,
     sd_BlockDeviceCommands = zeroBlockDevice, sd_UserCommands = zeroUserCommands,
     sd_SharedAllocation = False, sd_StorageLabels = [], sd_CapacityScalingFactor = [],
     sd_AllocationPadding = [], sd_VariableOverride = []\<rparr>"

definition zeroData :: NnfStorageProfileData where
  "zeroData = \<lparr>pd_Default = False, pd_Pinned = False, pd_LustreStorage = zeroLustreData,
     pd_GFS2Storage = zeroSharedData, pd_XFSStorage = zeroSharedData,
     pd_RawStorage = zeroSharedData\<rparr>"

definition zeroProfile :: NnfStorageProfile where
  "zeroProfile = \<lparr>prof_Meta = zeroMeta, prof_Data = zeroData\<rparr>"

definition GetLustreTargetOptions ::
  "NnfStorageProfile \<Rightarrow> string \<Rightarrow> NnfStorageProfileLustreTargetOptions res" where
  "GetLustreTargetOptions n target =
     (let ls = pd_LustreStorage (prof_Data n) in
      if target = ''mgt'' then Inr (mgt_TargetOptions (ld_MgtOptions ls))
      else if target = ''mdt'' then Inr (mdt_TargetOptions (ld_MdtOptions ls))
      else if target = ''mgtmdt'' then Inr (mgtmdt_TargetOptions (ld_MgtMdtOptions ls))
      else if target = ''ost'' then Inr (ost_TargetOptions (ld_OstOptions ls))
      else Inl (Panic ''Invalid target type''))"

section \<open>Webhook\<close>

definition validKeys :: "string list" where
  "validKeys =
     [''$FS_NAME'', ''$MGS_NID'', ''$INDEX'', ''$BACKFS'', ''$POOL_NAME'', ''$ZPOOL_NAME'',
      ''$ZPOOL_DATA_SET'', ''$ZVOL_NAME'', ''$DEVICE'', ''$DEVICE_LIST'', ''$DEVICE_NUM'',
      ''$MOUNT_PATH'', ''$TARGET_TYPE'', ''$TARGET_PATH'', ''$VG_NAME'', ''$LV_NAME'', ''$LV_SIZE'',
      ''$LV_INDEX'', ''$PERCENT_VG'', ''$FSTYPE'', ''$MOUNT_TARGET'', ''$TEMP_DIR'', ''$JOBID'',
      ''$USERID'', ''$GROUPID'', ''$CLUSTER_NAME'', ''$LOCK_SPACE'', ''$PROTOCOL'', ''$NUM_OSTS'',
      ''$NUM_NNFNODES'']"

text \<open>
  The keys are checked in the order in which the map is traversed: the order of the list. The value
  is the error, if any.
\<close>

fun validateVariableOverrideKeys :: "kv \<Rightarrow> failure option" where
  "validateVariableOverrideKeys [] = None"
| "validateVariableOverrideKeys ((key, _) # rest) =
     (if length key = 0 then Some (Fail ''variableOverride key cannot be empty'')
      else if key ! 0 \<noteq> CHR ''$'' then
        Some (Fail (''variableOverride key '' @ (CHR 0x27 # key @ [CHR 0x27]) @ '' must start with '' @ [CHR 0x27, CHR ''$'', CHR 0x27]))
      else if key \<notin> set validKeys then
        Some (Fail (''variableOverride key '' @ (CHR 0x27 # key @ [CHR 0x27]) @ '' is not a recognized variable name''))
      else validateVariableOverrideKeys rest)"

definition validateLustreTargetOptions :: "NnfStorageProfileLustreTargetOptions \<Rightarrow> failure option" where
  "validateLustreTargetOptions targetOptions =
     (if lto_Count targetOptions > 0 \<and> lto_Scale targetOptions > 0
      then Some (Fail ''count and scale cannot both be specified in Lustre target options'')
      else validateVariableOverrideKeys (lto_VariableOverride targetOptions))"

fun validateTargets :: "NnfStorageProfile \<Rightarrow> string list \<Rightarrow> failure option" where
  "validateTargets r [] = None"
| "validateTargets r (target # targets) =
     (case GetLustreTargetOptions r target of
        Inl e \<Rightarrow> Some e
      | Inr targetOptions \<Rightarrow>
          (case validateLustreTargetOptions targetOptions of
             Some e \<Rightarrow> Some e
           | None \<Rightarrow> validateTargets r targets))"

definition validateContentLustre :: "NnfStorageProfile \<Rightarrow> failure option" where
  "validateContentLustre r =
     (let ls = pd_LustreStorage (prof_Data r); mgt = ld_MgtOptions ls in
      if ld_CombinedMGTMDT ls \<and> length (mgt_ExternalMGS mgt) > 0
      then Some (Fail ''cannot set both combinedMgtMdt and externalMgs'')
      else if length (mgt_StandaloneMGTPoolName mgt) > 0 \<and> length (mgt_ExternalMGS mgt) > 0
      then Some (Fail ''cannot set both standaloneMgtPoolName and externalMgs'')
      else if length (mgt_StandaloneMGTPoolName mgt) > 0 \<and> ld_CombinedMGTMDT ls
      then Some (Fail ''cannot set standaloneMgtPoolName and combinedMgtMdt'')
      else case validateTargets r [''mgt'', ''mdt'', ''mgtmdt'', ''ost''] of
        Some e \<Rightarrow> Some e
      | None \<Rightarrow> validateVariableOverrideKeys (co_VariableOverride (ld_ClientOptions ls)))"

definition prefixError :: "string \<Rightarrow> failure option \<Rightarrow> failure option" where
  "prefixError pre err = map_option (\<lambda>e. if is_panic e then e else Fail (pre @ errText e)) err"

definition validateContentShared :: "NnfStorageProfile \<Rightarrow> failure option" where
  "validateContentShared r =
     (case prefixError ''xfsStorage: '' (validateVariableOverrideKeys (sd_VariableOverride (pd_XFSStorage (prof_Data r)))) of
        Some e \<Rightarrow> Some e
      | None \<Rightarrow>
          (case prefixError ''gfs2Storage: '' (validateVariableOverrideKeys (sd_VariableOverride (pd_GFS2Storage (prof_Data r)))) of
             Some e \<Rightarrow> Some e
           | None \<Rightarrow>
               prefixError ''rawStorage: '' (validateVariableOverrideKeys (sd_VariableOverride (pd_RawStorage (prof_Data r))))))"

definition validateContent :: "NnfStorageProfile \<Rightarrow> failure option" where
  "validateContent r =
     (if pd_Default (prof_Data r) \<and> pd_Pinned (prof_Data r)
      then Some (Fail ''the NnfStorageProfile cannot be both default and pinned'')
      else case validateContentLustre r of
        Some e \<Rightarrow> Some e
      | None \<Rightarrow> validateContentShared r)"

text \<open>\<open>profileNamespace\<close> is the value of \<^verbatim>\<open>NNF_STORAGE_PROFILE_NAMESPACE\<close>, empty when it is not set.\<close>

definition ValidateCreate :: "string \<Rightarrow> NnfStorageProfile \<Rightarrow> failure option" where
  "ValidateCreate profileNamespace r =
     (if \<not> pd_Pinned (prof_Data r) \<and> meta_Namespace (prof_Meta r) \<noteq> profileNamespace
      then Some (Fail (''incorrect namespace for profile that is intended to be selected by users; the namespace should be '' @
             (CHR 0x27 # profileNamespace @ [CHR 0x27])))
      else validateContent r)"

definition ValidateUpdate :: "NnfStorageProfile \<Rightarrow> NnfStorageProfile \<Rightarrow> failure option" where
  "ValidateUpdate old r =
     (if pd_Pinned (prof_Data old) \<noteq> pd_Pinned (prof_Data r)
      then Some (Fail ''the pinned flag is immutable'')
      else validateContent r)"

definition ValidateDelete :: "NnfStorageProfile \<Rightarrow> failure option" where
  "ValidateDelete r = None"

section \<open>Finding and pinning a profile\<close>

text \<open>
  The Kubernetes client, as far as profiles go: list and get are reads, create may find that the
  object exists. It is a parameter.
\<close>

datatype created = Created | AlreadyExists | CreateError failure

record 'w profileClient =
  pc_List :: "string \<Rightarrow> 'w \<Rightarrow> NnfStorageProfile list res \<times> 'w"
  pc_Get :: "string \<Rightarrow> string \<Rightarrow> 'w \<Rightarrow> NnfStorageProfile got \<times> 'w"
  pc_Create :: "NnfStorageProfile \<Rightarrow> 'w \<Rightarrow> created \<times> 'w"

definition userFatal :: "string \<Rightarrow> failure" where
  "userFatal msg = ResErr (WithFatal (WithUser (WithUserMessage msg (NewResourceError []))))"

definition defaultProfiles :: "NnfStorageProfile list \<Rightarrow> string list" where
  "defaultProfiles items =
     map (\<lambda>p. meta_Name (prof_Meta p)) (filter (\<lambda>p. pd_Default (prof_Data p)) items)"

definition findDefaultName :: "'w profileClient \<Rightarrow> string \<Rightarrow> ('w, string) io" where
  "findDefaultName clnt profileNamespace =
     bindE (pc_List clnt profileNamespace) (\<lambda>items.
       let profilesFound = defaultProfiles items in
       if length profilesFound = 0 then
         failE (ResErr (WithFatal (WithUserMessage ''Unable to find a default NnfStorageProfile to use''
           (NewResourceError []))))
       else if length profilesFound > 1 then
         failE (ResErr (WithFatal (WithUserMessage
           (''More than one default NnfStorageProfile found; unable to pick one: ['' @
            go_join '' '' profilesFound @ '']'') (NewResourceError []))))
       else retE (profilesFound ! 0))"

definition findProfileToUse ::
  "'w profileClient \<Rightarrow> string \<Rightarrow> kv \<Rightarrow> ('w, NnfStorageProfile) io" where
  "findProfileToUse clnt profileNamespace args =
     bindE (case map_of args ''profile'' of
              Some name \<Rightarrow> retE name
            | None \<Rightarrow> findDefaultName clnt profileNamespace) (\<lambda>profileName.
       if length profileName = 0 then failE (userFatal ''Unable to find an NnfStorageProfile name'')
       else (\<lambda>w. case pc_Get clnt profileNamespace profileName w of
               (Found p, w') \<Rightarrow> (Inr p, w')
             | (_, w') \<Rightarrow> (Inl (userFatal (''Unable to find NnfStorageProfile: '' @ profileName)), w')))"

definition findPinnedProfile ::
  "'w profileClient \<Rightarrow> string \<Rightarrow> string \<Rightarrow> 'w \<Rightarrow> NnfStorageProfile got \<times> 'w" where
  "findPinnedProfile clnt namespace pinnedName w =
     (case pc_Get clnt namespace pinnedName w of
        (Found p, w') \<Rightarrow>
          (if \<not> pd_Pinned (prof_Data p) then
             GetError (ResErr (WithFatal (NewResourceError
               (''Expected pinned NnfStorageProfile, but it was not pinned: '' @ pinnedName))))
           else Found p, w')
      | (r, w') \<Rightarrow> (r, w'))"

text \<open>The pinned copy of a profile. An error of \<^verbatim>\<open>SetControllerReference\<close> is not looked at.\<close>

definition pinnedCopy :: "string \<Rightarrow> ObjectMeta \<Rightarrow> string \<Rightarrow> NnfStorageProfile \<Rightarrow> NnfStorageProfile" where
  "pinnedCopy kind owner pinnedName p =
     \<lparr>prof_Meta = AddOwnerLabels kind owner
        (let m = zeroMeta\<lparr>meta_Name := pinnedName, meta_Namespace := meta_Namespace owner\<rparr> in
         case SetControllerReference kind owner m of Inl _ \<Rightarrow> m | Inr m' \<Rightarrow> m'),
      prof_Data = (prof_Data p)\<lparr>pd_Pinned := True, pd_Default := False\<rparr>\<rparr>"

definition createPinnedProfile ::
  "'w profileClient \<Rightarrow> string \<Rightarrow> kv \<Rightarrow> string \<Rightarrow> ObjectMeta \<Rightarrow> string \<Rightarrow> ('w, NnfStorageProfile) io" where
  "createPinnedProfile clnt profileNamespace args kind owner pinnedName = (\<lambda>w.
     case findPinnedProfile clnt (meta_Namespace owner) pinnedName w of
       (Found p, w1) \<Rightarrow> (Inr p, w1)
     | (GetError e, w1) \<Rightarrow> (Inl e, w1)
     | (NotFound, w1) \<Rightarrow>
         bindE (findProfileToUse clnt profileNamespace args) (\<lambda>p w2.
           case pc_Create clnt (pinnedCopy kind owner pinnedName p) w2 of
             (CreateError e, w3) \<Rightarrow> (Inl e, w3)
           | (_, w3) \<Rightarrow> (Inr (pinnedCopy kind owner pinnedName p), w3)) w1)"

abbreviation PinnedStorageProfileLabelName :: string where
  "PinnedStorageProfileLabelName \<equiv> ''nnf.cray.hpe.com/pinned_storage_profile_name''"

abbreviation PinnedStorageProfileLabelNameSpace :: string where
  "PinnedStorageProfileLabelNameSpace \<equiv> ''nnf.cray.hpe.com/pinned_storage_profile_namespace''"

definition addPinnedStorageProfileLabel :: "ObjectMeta \<Rightarrow> NnfStorageProfile \<Rightarrow> ObjectMeta" where
  "addPinnedStorageProfileLabel obj p =
     obj\<lparr>meta_Labels := kv_put PinnedStorageProfileLabelNameSpace (meta_Namespace (prof_Meta p))
       (kv_put PinnedStorageProfileLabelName (meta_Name (prof_Meta p)) (meta_Labels obj))\<rparr>"

definition getPinnedStorageProfileFromLabel ::
  "'w profileClient \<Rightarrow> ObjectMeta \<Rightarrow> 'w \<Rightarrow> NnfStorageProfile got \<times> 'w" where
  "getPinnedStorageProfileFromLabel clnt obj w =
     (if meta_Labels obj = [] then
        (GetError (ResErr (WithFatal (NewResourceError ''unable to find labels''))), w)
      else case map_of (meta_Labels obj) PinnedStorageProfileLabelName of
        None \<Rightarrow> (GetError (ResErr (WithFatal (NewResourceError
                   (''unable to find '' @ PinnedStorageProfileLabelName @ '' label'')))), w)
      | Some pinnedName \<Rightarrow>
          (case map_of (meta_Labels obj) PinnedStorageProfileLabelNameSpace of
             None \<Rightarrow> (GetError (ResErr (WithFatal (NewResourceError
                   (''unable to find '' @ PinnedStorageProfileLabelNameSpace @ '' label'')))), w)
           | Some pinnedNamespace \<Rightarrow> findPinnedProfile clnt pinnedNamespace pinnedName w))"

section \<open>Properties\<close>

lemma validKeys_dollar: "list_all (\<lambda>k. k \<noteq> [] \<and> hd k = CHR ''$'') validKeys"
  by (simp add: validKeys_def)

lemma overrideKeys_iff: "validateVariableOverrideKeys m = None \<longleftrightarrow> set (map fst m) \<subseteq> set validKeys"
proof (induction m rule: validateVariableOverrideKeys.induct)
  case 1
  then show ?case by simp
next
  case (2 key v rest)
  have "key \<in> set validKeys \<Longrightarrow> key \<noteq> [] \<and> key ! 0 = CHR ''$''"
    using validKeys_dollar by (auto simp: list_all_iff hd_conv_nth)
  then show ?case using 2 by auto
qed

text \<open>The overrides that a profile holds, and the conditions of its Lustre options.\<close>

definition profileOverrides :: "NnfStorageProfile \<Rightarrow> kv list" where
  "profileOverrides r =
     (let d = prof_Data r; ls = pd_LustreStorage d in
      [lto_VariableOverride (mgt_TargetOptions (ld_MgtOptions ls)),
       lto_VariableOverride (mdt_TargetOptions (ld_MdtOptions ls)),
       lto_VariableOverride (mgtmdt_TargetOptions (ld_MgtMdtOptions ls)),
       lto_VariableOverride (ost_TargetOptions (ld_OstOptions ls)),
       co_VariableOverride (ld_ClientOptions ls),
       sd_VariableOverride (pd_XFSStorage d), sd_VariableOverride (pd_GFS2Storage d),
       sd_VariableOverride (pd_RawStorage d)])"

definition countScaleOk :: "NnfStorageProfileLustreTargetOptions \<Rightarrow> bool" where
  "countScaleOk t = (lto_Count t \<le> 0 \<or> lto_Scale t \<le> 0)"

definition lustreOptionsOk :: "NnfStorageProfile \<Rightarrow> bool" where
  "lustreOptionsOk r =
     (let ls = pd_LustreStorage (prof_Data r); mgt = ld_MgtOptions ls;
          sources = [ld_CombinedMGTMDT ls, mgt_ExternalMGS mgt \<noteq> [], mgt_StandaloneMGTPoolName mgt \<noteq> []]
      in length (filter id sources) \<le> 1 \<and>
         countScaleOk (mgt_TargetOptions mgt) \<and> countScaleOk (mdt_TargetOptions (ld_MdtOptions ls)) \<and>
         countScaleOk (mgtmdt_TargetOptions (ld_MgtMdtOptions ls)) \<and>
         countScaleOk (ost_TargetOptions (ld_OstOptions ls)))"

lemma targetOptions_iff:
  "validateLustreTargetOptions t = None \<longleftrightarrow>
     countScaleOk t \<and> set (map fst (lto_VariableOverride t)) \<subseteq> set validKeys"
  by (auto simp: validateLustreTargetOptions_def countScaleOk_def overrideKeys_iff not_less)

lemma validateTargets_iff:
  "validateTargets r [''mgt'', ''mdt'', ''mgtmdt'', ''ost''] = None \<longleftrightarrow>
     (let ls = pd_LustreStorage (prof_Data r) in
      validateLustreTargetOptions (mgt_TargetOptions (ld_MgtOptions ls)) = None \<and>
      validateLustreTargetOptions (mdt_TargetOptions (ld_MdtOptions ls)) = None \<and>
      validateLustreTargetOptions (mgtmdt_TargetOptions (ld_MgtMdtOptions ls)) = None \<and>
      validateLustreTargetOptions (ost_TargetOptions (ld_OstOptions ls)) = None)"
  by (simp add: GetLustreTargetOptions_def Let_def split: option.split)

lemma first_error [simp]: "(case a of None \<Rightarrow> b | Some e \<Rightarrow> Some e) = None \<longleftrightarrow> a = None \<and> b = None"
  by (cases a) auto

lemma prefixError_None [simp]: "prefixError pre err = None \<longleftrightarrow> err = None"
  by (simp add: prefixError_def)

lemma guarded_error: "(if c then Some e else r) = None \<longleftrightarrow> \<not> c \<and> r = None"
  by simp

lemma validateContentLustre_iff:
  "validateContentLustre r = None \<longleftrightarrow> lustreOptionsOk r \<and>
     list_all (\<lambda>m. set (map fst m) \<subseteq> set validKeys) (take 5 (profileOverrides r))"
proof -
  define ls where "ls = pd_LustreStorage (prof_Data r)"
  define mgt where "mgt = ld_MgtOptions ls"
  have "validateContentLustre r = None \<longleftrightarrow>
      \<not> (ld_CombinedMGTMDT ls \<and> mgt_ExternalMGS mgt \<noteq> []) \<and>
      \<not> (mgt_StandaloneMGTPoolName mgt \<noteq> [] \<and> mgt_ExternalMGS mgt \<noteq> []) \<and>
      \<not> (mgt_StandaloneMGTPoolName mgt \<noteq> [] \<and> ld_CombinedMGTMDT ls) \<and>
      validateTargets r [''mgt'', ''mdt'', ''mgtmdt'', ''ost''] = None \<and>
      validateVariableOverrideKeys (co_VariableOverride (ld_ClientOptions ls)) = None"
    by (simp only: validateContentLustre_def Let_def guarded_error first_error ls_def mgt_def length_greater_0_conv)
  then show ?thesis
    by (simp only: validateTargets_iff targetOptions_iff overrideKeys_iff Let_def)
      (auto simp: lustreOptionsOk_def profileOverrides_def ls_def mgt_def Let_def)
qed

lemma validateContentShared_iff:
  "validateContentShared r = None \<longleftrightarrow>
     list_all (\<lambda>m. set (map fst m) \<subseteq> set validKeys) (drop 5 (profileOverrides r))"
  by (simp add: validateContentShared_def overrideKeys_iff profileOverrides_def Let_def)

lemma validateContent_iff:
  "validateContent r = None \<longleftrightarrow>
     \<not> (pd_Default (prof_Data r) \<and> pd_Pinned (prof_Data r)) \<and> lustreOptionsOk r \<and>
     list_all (\<lambda>m. set (map fst m) \<subseteq> set validKeys) (profileOverrides r)"
proof -
  have "list_all P (profileOverrides r) \<longleftrightarrow>
      list_all P (take 5 (profileOverrides r)) \<and> list_all P (drop 5 (profileOverrides r))" for P
    by (metis append_take_drop_id list_all_append)
  then show ?thesis
    by (simp only: validateContent_def guarded_error first_error validateContentLustre_iff
        validateContentShared_iff) blast
qed

text \<open>
  C38. The webhook admits exactly the consistent profiles. A profile may be created if and only if
  it is pinned or in the profile namespace, is not both default and pinned, names at most one
  source of the MGT (combined, external, standalone pool), gives no Lustre target both a count and
  a scale, and overrides only known variables, in all eight override maps and whatever the
  order in which they are traversed.
\<close>

theorem ValidateCreate_exact:
  "ValidateCreate ns r = None \<longleftrightarrow>
     (pd_Pinned (prof_Data r) \<or> meta_Namespace (prof_Meta r) = ns) \<and>
     \<not> (pd_Default (prof_Data r) \<and> pd_Pinned (prof_Data r)) \<and> lustreOptionsOk r \<and>
     list_all (\<lambda>m. set (map fst m) \<subseteq> set validKeys) (profileOverrides r)"
  by (auto simp: ValidateCreate_def validateContent_iff)

text \<open>
  An update that the webhook accepts keeps the pinned flag and leaves a profile that a create
  in its namespace would accept: no sequence of updates leads to a profile that could not have
  been created.
\<close>

theorem ValidateUpdate_keeps:
  "ValidateUpdate old r = None \<longleftrightarrow>
     pd_Pinned (prof_Data r) = pd_Pinned (prof_Data old) \<and>
     ValidateCreate (meta_Namespace (prof_Meta r)) r = None"
  by (auto simp: ValidateUpdate_def ValidateCreate_def)

lemma pinnedCopy_content:
  "lustreOptionsOk (pinnedCopy kind owner name p) = lustreOptionsOk p"
  "profileOverrides (pinnedCopy kind owner name p) = profileOverrides p"
  by (simp_all add: lustreOptionsOk_def profileOverrides_def pinnedCopy_def Let_def)

text \<open>
  Pinning never runs into the webhook: if a profile was admitted then its pinned copy is
  admitted too, in the namespace of any owner and under any name, and the copy is pinned, is
  not a default, and carries the name and the namespace under which it is looked up.
\<close>

theorem pinnedCopy_admitted:
  assumes "ValidateCreate ns p = None"
  shows "ValidateCreate ns' (pinnedCopy kind owner name p) = None \<and>
    pd_Pinned (prof_Data (pinnedCopy kind owner name p)) \<and>
    \<not> pd_Default (prof_Data (pinnedCopy kind owner name p)) \<and>
    meta_Name (prof_Meta (pinnedCopy kind owner name p)) = name \<and>
    meta_Namespace (prof_Meta (pinnedCopy kind owner name p)) = meta_Namespace owner"
proof -
  have ok: "lustreOptionsOk p" "list_all (\<lambda>m. set (map fst m) \<subseteq> set validKeys) (profileOverrides p)"
    using assms by (auto simp: ValidateCreate_def validateContent_iff split: if_splits)
  have flags: "pd_Pinned (prof_Data (pinnedCopy kind owner name p))"
    "\<not> pd_Default (prof_Data (pinnedCopy kind owner name p))"
    "meta_Name (prof_Meta (pinnedCopy kind owner name p)) = name"
    "meta_Namespace (prof_Meta (pinnedCopy kind owner name p)) = meta_Namespace owner"
    by (auto simp: pinnedCopy_def AddOwnerLabels_def Let_def dest!: SetControllerReference_only split: sum.splits)
  then have "validateContent (pinnedCopy kind owner name p) = None"
    using ok by (simp only: validateContent_iff pinnedCopy_content) simp
  then show ?thesis using flags by (simp add: ValidateCreate_def)
qed

lemma zeroProfile_admitted: "ValidateCreate [] zeroProfile = None"
proof -
  have "lustreOptionsOk zeroProfile"
    by (simp add: lustreOptionsOk_def zeroProfile_def zeroData_def zeroLustreData_def zeroLustreMgtOptions_def
        zeroLustreMdtOptions_def zeroLustreMgtMdtOptions_def zeroLustreOstOptions_def
        zeroLustreTargetOptions_def countScaleOk_def)
  moreover have "list_all (\<lambda>m. set (map fst m) \<subseteq> set validKeys) (profileOverrides zeroProfile)"
    by (simp add: profileOverrides_def zeroProfile_def zeroData_def zeroLustreData_def zeroLustreMgtOptions_def
        zeroLustreMdtOptions_def zeroLustreMgtMdtOptions_def zeroLustreOstOptions_def
        zeroLustreTargetOptions_def zeroLustreClientOptions_def zeroSharedData_def)
  moreover have "\<not> pd_Default (prof_Data zeroProfile)" "meta_Namespace (prof_Meta zeroProfile) = []"
    by (simp_all add: zeroProfile_def zeroData_def zeroMeta_def)
  ultimately show ?thesis by (simp add: ValidateCreate_def validateContent_iff)
qed

theorem pinnedCopy_admitted_witness:
  "ValidateCreate ''users'' (pinnedCopy ''Workflow'' zeroMeta ''pin-0'' zeroProfile) = None"
  using pinnedCopy_admitted [OF zeroProfile_admitted, of "''users''" "''Workflow''" zeroMeta "''pin-0''"] by simp

text \<open>
  A profile is only used once it is pinned: whenever \<^verbatim>\<open>createPinnedProfile\<close> or the lookup through
  the labels of a resource succeeds, the profile it gives is pinned, whatever the API server
  holds; a profile of that name that is not pinned is a fatal error.
\<close>

theorem pinned_profile_only:
  "(case fst (createPinnedProfile clnt ns args kind owner name w) of
      Inr p \<Rightarrow> pd_Pinned (prof_Data p) | Inl _ \<Rightarrow> True) \<and>
   (case fst (getPinnedStorageProfileFromLabel clnt obj w) of
      Found p \<Rightarrow> pd_Pinned (prof_Data p) | _ \<Rightarrow> True)"
proof
  have found: "pd_Pinned (prof_Data p)" if "findPinnedProfile clnt n m w = (Found p, w')" for n m p w'
    using that by (auto simp: findPinnedProfile_def split: prod.splits got.splits if_splits)
  show "case fst (getPinnedStorageProfileFromLabel clnt obj w) of
      Found p \<Rightarrow> pd_Pinned (prof_Data p) | _ \<Rightarrow> True"
    by (auto simp: getPinnedStorageProfileFromLabel_def split: option.splits got.splits)
      (metis found prod.collapse)
  have "pd_Pinned (prof_Data (pinnedCopy kind owner name p))" for p
    by (simp add: pinnedCopy_def)
  then show "case fst (createPinnedProfile clnt ns args kind owner name w) of
      Inr p \<Rightarrow> pd_Pinned (prof_Data p) | Inl _ \<Rightarrow> True"
    using found
    by (auto simp: createPinnedProfile_def bindE_def split: prod.splits got.splits sum.splits created.splits)
qed

end
