(* ===== verification/FilesystemHelpers.thy ===== *)
theory FilesystemHelpers
  imports FileSystem StorageProfile
begin

text \<open>
  \<^verbatim>\<open>internal/controller/filesystem_helpers.go\<close>: from an \<^verbatim>\<open>NnfNodeStorage\<close> resource and its pinned
  storage profile to the block device and the file system of one allocation, with the names, the
  command variables and the overrides. The resource types are those of
  \<^verbatim>\<open>nnfnodestorage_types.go\<close>, \<^verbatim>\<open>nnfstorage_types.go\<close> and \<^verbatim>\<open>nnfnodeblockstorage_types.go\<close>.
\<close>

section \<open>Resources\<close>

record NnfStorageLustreComponents =
  lcomp_MDTs :: "string list"
  lcomp_MGTs :: "string list"
  lcomp_MGTMDTs :: "string list"
  lcomp_OSTs :: "string list"
  lcomp_NNFNodes :: "string list"

record CommandVariablesSpec =
  cv_Indexed :: bool
  cv_Name :: string
  cv_Value :: string
  cv_IndexedValues :: "string list"

record LustreStorageSpec =
  lss_FileSystemName :: string
  lss_TargetType :: string
  lss_StartIndex :: int
  lss_MgsAddress :: string
  lss_BackFs :: string
  lss_LustreComponents :: NnfStorageLustreComponents

record NnfNodeStorageSpec =
  nss_Count :: int
  nss_SharedAllocation :: bool
  nss_Capacity :: int
  nss_UserID :: "32 word"
  nss_GroupID :: "32 word"
  nss_CommandVariables :: "CommandVariablesSpec list"
  nss_FileSystemType :: string
  nss_LustreStorage :: LustreStorageSpec
  nss_BlockReference :: ObjectReference

datatype NnfStorageHealth = HealthUnset | Healthy | Degraded | Faulted

record NnfNodeStorageAllocationStatus =
  nsa_VolumeGroup :: string
  nsa_LogicalVolume :: string
  nsa_Health :: NnfStorageHealth
  nsa_Ready :: bool

record NnfNodeStorageStatus =
  nst_Allocations :: "NnfNodeStorageAllocationStatus list"
  nst_Health :: NnfStorageHealth
  nst_Ready :: bool
  nst_Error :: "ResourceErrorInfo option"

record NnfNodeStorage =
  ns_Meta :: ObjectMeta
  ns_Spec :: NnfNodeStorageSpec
  ns_Status :: NnfNodeStorageStatus

record NnfNodeBlockStorageAccessStatus =
  nba_DevicePaths :: "string list"
  nba_StorageGroupId :: string

record NnfNodeBlockStorageDeviceStatus =
  nbd_NQN :: string
  nbd_NamespaceId :: string
  nbd_CapacityAllocated :: int

record NnfNodeBlockStorageAllocationStatus =
  nbl_Accesses :: "(string \<times> NnfNodeBlockStorageAccessStatus) list"
  nbl_Devices :: "NnfNodeBlockStorageDeviceStatus list"
  nbl_CapacityAllocated :: int
  nbl_StoragePoolId :: string

record NnfNodeBlockStorageAllocationSpec =
  nbp_Capacity :: int
  nbp_Access :: "string list"

record NnfNodeBlockStorageSpec =
  nbsp_SharedAllocation :: bool
  nbsp_Allocations :: "NnfNodeBlockStorageAllocationSpec list"

text \<open>A time is a number.\<close>

record NnfNodeBlockStorageStatus =
  nbs_Allocations :: "NnfNodeBlockStorageAllocationStatus list"
  nbs_Error :: "ResourceErrorInfo option"
  nbs_PodStartTime :: int
  nbs_Ready :: bool

record NnfNodeBlockStorage =
  nb_Meta :: ObjectMeta
  nb_Spec :: NnfNodeBlockStorageSpec
  nb_Status :: NnfNodeBlockStorageStatus

text \<open>A pod: the name of each container and, if it runs, when it was started.\<close>

type_synonym Pod = "(string \<times> int option) list"

datatype updated = Updated | Conflict | UpdateError failure

text \<open>The Kubernetes client of the node controllers, a parameter.\<close>

record 'w kube =
  k_Profiles :: "'w profileClient"
  k_GetBlockStorage :: "string \<Rightarrow> string \<Rightarrow> 'w \<Rightarrow> NnfNodeBlockStorage got \<times> 'w"
  k_GetPod :: "string \<Rightarrow> string \<Rightarrow> 'w \<Rightarrow> Pod got \<times> 'w"
  k_GetNodeStorage :: "'w \<Rightarrow> NnfNodeStorage got \<times> 'w"
  k_UpdateBlockStorage :: "NnfNodeBlockStorage \<Rightarrow> 'w \<Rightarrow> updated \<times> 'w"
  k_UpdateNodeStorage :: "NnfNodeStorage \<Rightarrow> 'w \<Rightarrow> updated \<times> 'w"

definition gotE :: "(failure \<Rightarrow> failure) \<Rightarrow> ('w \<Rightarrow> 'a got \<times> 'w) \<Rightarrow> ('w, 'a) io" where
  "gotE wrap get = (\<lambda>w. case get w of
     (Found x, w') \<Rightarrow> (Inr x, w')
   | (NotFound, w') \<Rightarrow> (Inl (wrap (Fail ''not found'')), w')
   | (GetError e, w') \<Rightarrow> (Inl (wrap e), w'))"

definition getenv :: "'w os \<Rightarrow> string \<Rightarrow> string" where
  "getenv os name = (case os_getenv os name of None \<Rightarrow> [] | Some v \<Rightarrow> v)"

section \<open>Variables and names\<close>

fun unpackVariables :: "nat \<Rightarrow> CommandVariablesSpec list \<Rightarrow> kv \<Rightarrow> kv res" where
  "unpackVariables index [] variables = Inr variables"
| "unpackVariables index (v # vs) variables =
     (if \<not> cv_Indexed v then unpackVariables index vs (kv_put (cv_Name v) (cv_Value v) variables)
      else if index < length (cv_IndexedValues v)
      then unpackVariables index vs (kv_put (cv_Name v) (cv_IndexedValues v ! index) variables)
      else Inl (Panic ''index out of range''))"

definition unpackCommandVariables :: "NnfNodeStorage \<Rightarrow> nat \<Rightarrow> kv res" where
  "unpackCommandVariables nnfNodeStorage index =
     unpackVariables index (nss_CommandVariables (ns_Spec nnfNodeStorage)) []"

definition mergeVariables :: "kv \<Rightarrow> kv \<Rightarrow> kv" where
  "mergeVariables baseVars overrideVars = kv_merge baseVars overrideVars"

definition useOverrideIfPresent :: "kv \<Rightarrow> string \<Rightarrow> string \<Rightarrow> string" where
  "useOverrideIfPresent overrideVars key defaultValue =
     (case map_of overrideVars key of Some val \<Rightarrow> val | None \<Rightarrow> defaultValue)"

abbreviation DirectiveIndexLabel :: string where
  "DirectiveIndexLabel \<equiv> ''nnf.cray.hpe.com/directive_index''"

definition ownerUid :: "NnfNodeStorage \<Rightarrow> string res" where
  "ownerUid s = (case map_of (meta_Labels (ns_Meta s)) OwnerUidLabel of
     Some uid \<Rightarrow> Inr uid | None \<Rightarrow> Inl (Fail ''missing Owner UID label on NnfNodeStorage''))"

definition lustreTargetPath :: "NnfNodeStorage \<Rightarrow> string \<Rightarrow> int \<Rightarrow> string res" where
  "lustreTargetPath s targetType index =
     bindR (ownerUid s) (\<lambda>uid. Inr (''/mnt/nnf/'' @ uid @ ''-'' @ targetType @ ''-'' @ itoa index))"

definition zpoolName :: "NnfNodeStorage \<Rightarrow> string \<Rightarrow> int \<Rightarrow> string res" where
  "zpoolName s targetType index =
     bindR (ownerUid s) (\<lambda>uid. Inr (''pool-'' @ uid @ ''-'' @ targetType @ ''-'' @ itoa index))"

definition volumeGroupName :: "NnfNodeStorage \<Rightarrow> nat \<Rightarrow> string res" where
  "volumeGroupName s index =
     bindR (ownerUid s) (\<lambda>uid.
       case map_of (meta_Labels (ns_Meta s)) DirectiveIndexLabel of
         None \<Rightarrow> Inl (Fail ''missing directive index label on NnfNodeStorage'')
       | Some directiveIndex \<Rightarrow>
           if nss_SharedAllocation (ns_Spec s) then Inr (uid @ ''_'' @ directiveIndex)
           else Inr (uid @ ''_'' @ directiveIndex @ ''_'' @ itoa_nat index))"

definition logicalVolumeName :: "NnfNodeStorage \<Rightarrow> nat \<Rightarrow> string" where
  "logicalVolumeName s index =
     (if nss_SharedAllocation (ns_Spec s) then ''lv-'' @ itoa_nat index else ''lv'')"

section \<open>Block devices\<close>

fun managerCurrent :: "Pod \<Rightarrow> int \<Rightarrow> bool" where
  "managerCurrent [] started = False"
| "managerCurrent ((name, running) # rest) started =
     (if name \<noteq> ''manager'' then managerCurrent rest started
      else case running of None \<Rightarrow> False | Some t \<Rightarrow> t = started)"

definition isNodeBlockStorageCurrent ::
  "'w kube \<Rightarrow> 'w os \<Rightarrow> NnfNodeBlockStorage \<Rightarrow> ('w, bool) io" where
  "isNodeBlockStorageCurrent k os b =
     (if os_getenv os ''NNF_TEST_ENVIRONMENT'' \<noteq> None then retE True
      else let name = getenv os ''NNF_POD_NAME''; namespace = getenv os ''NNF_POD_NAMESPACE'' in
           bindE (gotE (\<lambda>e. ResErr (WithError (Some e)
                     (NewResourceError (''could not get pod: '' @ namespace @ ''/'' @ name))))
                    (k_GetPod k namespace name))
             (\<lambda>pod. retE (managerCurrent pod (nbs_PodStartTime (nb_Status b)))))"

abbreviation blockStorageKind :: string where
  "blockStorageKind \<equiv> ''NnfNodeBlockStorage''"

text \<open>The block storage of the same name, which has to be ready and written by this pod.\<close>

definition currentBlockStorage ::
  "'w kube \<Rightarrow> 'w os \<Rightarrow> NnfNodeStorage \<Rightarrow> ('w, NnfNodeBlockStorage) io" where
  "currentBlockStorage k os s =
     (let key = objectKey (ns_Meta s) in
      bindE (gotE (\<lambda>e. ResErr (WithMajor (WithUserMessage ''could not find storage allocation''
                (WithError (Some e) (NewResourceError (''could not get NnfNodeBlockStorage: '' @ key))))))
               (k_GetBlockStorage k (meta_Namespace (ns_Meta s)) (meta_Name (ns_Meta s)))) (\<lambda>b.
        if \<not> nbs_Ready (nb_Status b)
        then failE (ResErr (NewResourceError (''NnfNodeBlockStorage: '' @ key @ '' not ready'')))
        else bindE (isNodeBlockStorageCurrent k os b) (\<lambda>current.
          if \<not> current
          then failE (ResErr (NewResourceError (''NnfNodeBlockStorage: '' @ key @ '' has stale status'')))
          else retE b)))"

text \<open>\<^verbatim>\<open>Allocations[i].Accesses[node].DevicePaths\<close>: no entry for the node gives no paths.\<close>

definition devicePaths :: "NnfNodeBlockStorage \<Rightarrow> nat \<Rightarrow> string \<Rightarrow> string list res" where
  "devicePaths b i node =
     (if i < length (nbs_Allocations (nb_Status b))
      then Inr (case map_of (nbl_Accesses (nbs_Allocations (nb_Status b) ! i)) node of
                  None \<Rightarrow> [] | Some a \<Rightarrow> nba_DevicePaths a)
      else Inl (Panic ''index out of range''))"

definition newZpoolBlockDevice ::
  "'w kube \<Rightarrow> 'w os \<Rightarrow> NnfNodeStorage \<Rightarrow> NnfStorageProfileLustreTargetOptions
   \<Rightarrow> NnfStorageProfileLustreClientOptions \<Rightarrow> nat \<Rightarrow> ('w, BlockDevice) io" where
  "newZpoolBlockDevice k os s targetOptions clientOptions index =
     (let lustre = nss_LustreStorage (ns_Spec s); cmds = lto_CmdLines targetOptions;
          override = lto_VariableOverride targetOptions in
      if ref_Kind (nss_BlockReference (ns_Spec s)) \<noteq> blockStorageKind then retE MockDevice
      else bindE (currentBlockStorage k os s) (\<lambda>b.
           bindE (wrapE (majorError ''could not create zpool name'')
                    (liftE (zpoolName s (lss_TargetType lustre) (lss_StartIndex lustre + int index)))) (\<lambda>name.
           bindE (liftE (devicePaths b index (getenv os ''NNF_NODE_NAME''))) (\<lambda>devices.
           bindE (liftE (unpackCommandVariables s index)) (\<lambda>vars.
             retE (ZpoolDevice \<lparr>
               zp_CommandArgs = \<lparr>zca_Create = lc_ZpoolCreate cmds, zca_Destroy = lc_ZpoolDestroy cmds,
                 zca_Replace = lc_ZpoolReplace cmds, zca_PreActivate = [], zca_PostActivate = [],
                 zca_PreDeactivate = [], zca_PostDeactivate = [],
                 zca_PostTeardown = cc_RabbitPostTeardown (co_CmdLines clientOptions),
                 zca_Vars = mergeVariables vars override\<rparr>,
               zp_Devices = devices,
               zp_Name = useOverrideIfPresent override ''$ZPOOL_NAME'' name,
               zp_DataSet = useOverrideIfPresent override ''$ZPOOL_DATA_SET'' (lss_TargetType lustre)\<rparr>))))))"

text \<open>
  \<^verbatim>\<open>fmt.Sscanf(s, "%d", &n)\<close>: blanks, a sign and digits; what follows is ignored, and a text with no
  number in it leaves \<open>n\<close> alone.
\<close>

definition sscanf_d :: "string \<Rightarrow> int \<Rightarrow> int" where
  "sscanf_d s n =
     (let t = dropWhile (\<lambda>c. is_space c \<and> c \<noteq> CHR 0x0A) s;
          neg = has_prefix t ''-''; u = (if neg \<or> has_prefix t ''+'' then tl t else t)
      in case digits_val 0 (takeWhile (\<lambda>c. digit_val c \<noteq> None) u) of
           None \<Rightarrow> n
         | Some v \<Rightarrow>
             if takeWhile (\<lambda>c. digit_val c \<noteq> None) u = [] then n
             else let i = (if neg then - int v else int v)
                  in if - (2 ^ 63) \<le> i \<and> i < 2 ^ 63 then i else n)"

definition percentVG :: "NnfNodeStorageSpec \<Rightarrow> kv \<Rightarrow> int res" where
  "percentVG spec override =
     bindR (if nss_SharedAllocation spec
            then (if nss_Count spec = 0 then Inl (Panic ''integer divide by zero'')
                  else Inr (if nss_Count spec > 0 then go_quot 100 (nss_Count spec)
                            else - go_quot 100 (- nss_Count spec)))
            else Inr 100) (\<lambda>p.
       let str = useOverrideIfPresent override ''$PERCENT_VG'' [] in
       Inr (if length str > 0 then sscanf_d str p else p))"

definition lvmCommandArgs ::
  "'w os \<Rightarrow> NnfStorageProfileSharedData \<Rightarrow> LvmCommandArgs" where
  "lvmCommandArgs os p =
     (let rabbit = bd_RabbitCommands (sd_BlockDeviceCommands p);
          compute = bd_ComputeCommands (sd_BlockDeviceCommands p) in
      if os_getenv os ''RABBIT_NODE'' \<noteq> None then
        \<lparr>lca_PvArgs = \<lparr>pva_Create = rbd_PvCreate rabbit, pva_Remove = rbd_PvRemove rabbit\<rparr>,
         lca_VgArgs = \<lparr>vga_Create = rbd_VgCreate rabbit, vga_Remove = rbd_VgRemove rabbit,
           vga_LockStart = vgc_LockStart (rbd_VgChange rabbit), vga_LockStop = vgc_LockStop (rbd_VgChange rabbit),
           vga_Extend = rb_VgExtend (rbd_LVMRebuild rabbit), vga_Reduce = rb_VgReduce (rbd_LVMRebuild rabbit)\<rparr>,
         lca_LvArgs = \<lparr>lva_Create = rbd_LvCreate rabbit, lva_Remove = rbd_LvRemove rabbit,
           lva_Activate = lvc_Activate (rbd_LvChange rabbit), lva_Deactivate = lvc_Deactivate (rbd_LvChange rabbit),
           lva_Repair = rb_LvRepair (rbd_LVMRebuild rabbit)\<rparr>,
         lca_UserArgs = \<lparr>lua_PreActivate = bu_PreActivate (rbd_UserCommands rabbit),
           lua_PostActivate = bu_PostActivate (rbd_UserCommands rabbit),
           lua_PreDeactivate = bu_PreDeactivate (rbd_UserCommands rabbit),
           lua_PostDeactivate = bu_PostDeactivate (rbd_UserCommands rabbit),
           lua_PostTeardown = uc_PostTeardown (sd_UserCommands p)\<rparr>,
         lca_Vars = []\<rparr>
      else
        \<lparr>lca_PvArgs = \<lparr>pva_Create = [], pva_Remove = []\<rparr>,
         lca_VgArgs = \<lparr>vga_Create = [], vga_Remove = [],
           vga_LockStart = vgc_LockStart (cbd_VgChange compute), vga_LockStop = vgc_LockStop (cbd_VgChange compute),
           vga_Extend = [], vga_Reduce = []\<rparr>,
         lca_LvArgs = \<lparr>lva_Create = [], lva_Remove = [],
           lva_Activate = lvc_Activate (cbd_LvChange compute), lva_Deactivate = lvc_Deactivate (cbd_LvChange compute),
           lva_Repair = []\<rparr>,
         lca_UserArgs = \<lparr>lua_PreActivate = bu_PreActivate (cbd_UserCommands compute),
           lua_PostActivate = bu_PostActivate (cbd_UserCommands compute),
           lua_PreDeactivate = bu_PreDeactivate (cbd_UserCommands compute),
           lua_PostDeactivate = bu_PostDeactivate (cbd_UserCommands compute),
           lua_PostTeardown = []\<rparr>,
         lca_Vars = []\<rparr>)"

text \<open>The devices of an LVM allocation; no allocation or no access in the status gives none.\<close>

definition lvmDevices :: "'w kube \<Rightarrow> 'w os \<Rightarrow> NnfNodeStorage \<Rightarrow> nat \<Rightarrow> ('w, string list) io" where
  "lvmDevices k os s blockIndex =
     (if ref_Kind (nss_BlockReference (ns_Spec s)) \<noteq> blockStorageKind then retE []
      else bindE (currentBlockStorage k os s) (\<lambda>b.
        if length (nbs_Allocations (nb_Status b)) = 0 then retE []
        else if blockIndex \<ge> length (nbs_Allocations (nb_Status b)) then failE (Panic ''index out of range'')
        else if length (nbl_Accesses (nbs_Allocations (nb_Status b) ! blockIndex)) = 0 then retE []
        else liftE (devicePaths b blockIndex (getenv os ''NNF_NODE_NAME''))))"

definition newLvmBlockDevice ::
  "'w kube \<Rightarrow> 'w os \<Rightarrow> NnfNodeStorage \<Rightarrow> NnfStorageProfileSharedData \<Rightarrow> nat \<Rightarrow> ('w, BlockDevice) io" where
  "newLvmBlockDevice k os s profileCommands index =
     (let blockIndex = (if nss_SharedAllocation (ns_Spec s) then 0 else index);
          override = sd_VariableOverride profileCommands in
      bindE (lvmDevices k os s blockIndex) (\<lambda>devices.
      bindE (if devices = [] then retE [] else liftE (unpackCommandVariables s index)) (\<lambda>pvVars.
      bindE (wrapE (majorError ''could not get volume group name'') (liftE (volumeGroupName s blockIndex))) (\<lambda>vg0.
      bindE (liftE (percentVG (ns_Spec s) override)) (\<lambda>percent.
      bindE (liftE (unpackCommandVariables s index)) (\<lambda>vars.
        let pvs = map (\<lambda>d. (NewPhysicalVolume d)\<lparr>pv_Vars := mergeVariables pvVars override\<rparr>) devices;
            vgName = useOverrideIfPresent override ''$VG_NAME'' vg0;
            lvName = useOverrideIfPresent override ''$LV_NAME'' (logicalVolumeName s index);
            vg = (NewVolumeGroup vgName pvs)\<lparr>vg_Vars := mergeVariables vars override\<rparr>;
            lv = (NewLogicalVolume lvName vg (nss_Capacity (ns_Spec s)) percent)\<lparr>
                   lv_Vars := mergeVariables (kv_put ''$LV_INDEX'' (itoa_nat index) vars) override\<rparr>
        in retE (LvmDevice \<lparr>lvm_CommandArgs = lvmCommandArgs os profileCommands,
             lvm_PhysicalVolumes = pvs, lvm_VolumeGroup = vg, lvm_LogicalVolume = lv\<rparr>)))))))"

section \<open>File systems\<close>

definition tempDir :: "NnfNodeStorage \<Rightarrow> nat \<Rightarrow> string" where
  "tempDir s index = ''/mnt/temp/'' @ meta_Name (ns_Meta s) @ ''-'' @ itoa_nat index"

text \<open>
  The command lines of a simple file system: on a Rabbit node all of them, on a compute node only
  those of the mounts. \<open>mkfs\<close> is what the kind of file system takes as its mkfs line.
\<close>

definition simpleCommandArgs ::
  "'w os \<Rightarrow> NnfStorageProfileSharedData \<Rightarrow> string \<Rightarrow> kv \<Rightarrow> SimpleFileSystemCommandArgs" where
  "simpleCommandArgs os p mkfs vars =
     (let rabbit = pfs_RabbitCommands (sd_FileSystemCommands p);
          compute = pfs_ComputeCommands (sd_FileSystemCommands p);
          user = sd_UserCommands p in
      if os_getenv os ''RABBIT_NODE'' \<noteq> None then
        \<lparr>sca_Mkfs = mkfs, sca_Mount = rfs_Mount rabbit, sca_Unmount = rfs_Unmount rabbit,
         sca_PreActivate = [], sca_PostActivate = uc_PostActivate user,
         sca_PreDeactivate = uc_PreDeactivate user, sca_PostDeactivate = [],
         sca_PreMount = fu_PreMount (rfs_UserCommands rabbit), sca_PostMount = fu_PostMount (rfs_UserCommands rabbit),
         sca_PreUnmount = fu_PreUnmount (rfs_UserCommands rabbit),
         sca_PostUnmount = fu_PostUnmount (rfs_UserCommands rabbit),
         sca_PostSetup = uc_PostSetup user, sca_PreTeardown = uc_PreTeardown user, sca_Vars = vars\<rparr>
      else
        \<lparr>sca_Mkfs = [], sca_Mount = cfs_Mount compute, sca_Unmount = cfs_Unmount compute,
         sca_PreActivate = [], sca_PostActivate = [], sca_PreDeactivate = [], sca_PostDeactivate = [],
         sca_PreMount = fu_PreMount (cfs_UserCommands compute), sca_PostMount = fu_PostMount (cfs_UserCommands compute),
         sca_PreUnmount = fu_PreUnmount (cfs_UserCommands compute),
         sca_PostUnmount = fu_PostUnmount (cfs_UserCommands compute),
         sca_PostSetup = [], sca_PreTeardown = [], sca_Vars = vars\<rparr>)"

definition simpleFileSystem ::
  "NnfNodeStorage \<Rightarrow> kv \<Rightarrow> SimpleFileSystemCommandArgs \<Rightarrow> string \<Rightarrow> string \<Rightarrow> BlockDevice \<Rightarrow> nat \<Rightarrow> FileSystem" where
  "simpleFileSystem s override args fsType target blockDevice index =
     SimpleFS \<lparr>sfs_CommandArgs = args,
       sfs_Type = useOverrideIfPresent override ''$FSTYPE'' fsType,
       sfs_MountTarget = useOverrideIfPresent override ''$MOUNT_TARGET'' target,
       sfs_TempDir = useOverrideIfPresent override ''$TEMP_DIR'' (tempDir s index),
       sfs_BlockDevice = blockDevice\<rparr>"

definition newBindFileSystem ::
  "'w os \<Rightarrow> NnfNodeStorage \<Rightarrow> NnfStorageProfileSharedData \<Rightarrow> BlockDevice \<Rightarrow> nat \<Rightarrow> FileSystem res" where
  "newBindFileSystem os s p blockDevice index =
     bindR (unpackCommandVariables s index) (\<lambda>vars.
       Inr (simpleFileSystem s (sd_VariableOverride p)
         (simpleCommandArgs os p [] (mergeVariables vars (sd_VariableOverride p)))
         ''none'' ''file'' blockDevice index))"

text \<open>\<^verbatim>\<open>fs-%02d-%x\<close> of the index and the first five bytes of the UID\<close>

definition lockSpace :: "nat \<Rightarrow> string \<Rightarrow> string res" where
  "lockSpace index uid =
     (if length uid < 5 then Inl (Panic ''slice bounds out of range'')
      else Inr (''fs-'' @ itoa_pad 2 index @ ''-'' @ hex_string (take 5 uid)))"

definition newGfs2FileSystem ::
  "'w os \<Rightarrow> NnfNodeStorage \<Rightarrow> NnfStorageProfileSharedData \<Rightarrow> BlockDevice \<Rightarrow> nat \<Rightarrow> FileSystem res" where
  "newGfs2FileSystem os s p blockDevice index =
     bindR (unpackCommandVariables s index) (\<lambda>vars.
     bindR (lockSpace index (meta_UID (ns_Meta s))) (\<lambda>space.
       let vars1 = kv_put ''$PROTOCOL'' ''lock_dlm'' (kv_put ''$LOCK_SPACE'' space
                     (kv_put ''$CLUSTER_NAME'' (meta_Namespace (ns_Meta s)) vars))
       in Inr (simpleFileSystem s (sd_VariableOverride p)
            (simpleCommandArgs os p
               (''-O '' @ rfs_Mkfs (pfs_RabbitCommands (sd_FileSystemCommands p)))
               (mergeVariables vars1 (sd_VariableOverride p)))
            ''gfs2'' ''directory'' blockDevice index)))"

definition newXfsFileSystem ::
  "'w os \<Rightarrow> NnfNodeStorage \<Rightarrow> NnfStorageProfileSharedData \<Rightarrow> BlockDevice \<Rightarrow> nat \<Rightarrow> FileSystem res" where
  "newXfsFileSystem os s p blockDevice index =
     bindR (unpackCommandVariables s index) (\<lambda>vars.
       Inr (simpleFileSystem s (sd_VariableOverride p)
         (simpleCommandArgs os p (rfs_Mkfs (pfs_RabbitCommands (sd_FileSystemCommands p)))
            (mergeVariables vars (sd_VariableOverride p)))
         ''xfs'' ''directory'' blockDevice index))"

definition lustreCommandArgs ::
  "'w os \<Rightarrow> NnfStorageProfileLustreCmdLines \<Rightarrow> NnfStorageProfileLustreClientCmdLines \<Rightarrow> kv
   \<Rightarrow> LustreFileSystemCommandArgs" where
  "lustreCommandArgs os target clnt vars =
     (if os_getenv os ''RABBIT_NODE'' \<noteq> None then
        \<lparr>lfa_Mkfs = lc_Mkfs target, lfa_MountTarget = lc_MountTarget target,
         lfa_UnmountTarget = lc_UnmountTarget target,
         lfa_Mount = cc_MountRabbit clnt, lfa_Unmount = cc_UnmountRabbit clnt,
         lfa_PreMount = cc_RabbitPreMount clnt, lfa_PostMount = cc_RabbitPostMount clnt,
         lfa_PreUnmount = cc_RabbitPreUnmount clnt, lfa_PostUnmount = cc_RabbitPostUnmount clnt,
         lfa_PostSetup = cc_RabbitPostSetup clnt, lfa_PreTeardown = cc_RabbitPreTeardown clnt,
         lfa_PostActivate = lc_PostActivate target, lfa_PreDeactivate = lc_PreDeactivate target,
         lfa_Vars = vars\<rparr>
      else
        \<lparr>lfa_Mkfs = lc_Mkfs target, lfa_MountTarget = lc_MountTarget target,
         lfa_UnmountTarget = lc_UnmountTarget target,
         lfa_Mount = cc_MountCompute clnt, lfa_Unmount = cc_UnmountCompute clnt,
         lfa_PreMount = cc_ComputePreMount clnt, lfa_PostMount = cc_ComputePostMount clnt,
         lfa_PreUnmount = cc_ComputePreUnmount clnt, lfa_PostUnmount = cc_ComputePostUnmount clnt,
         lfa_PostSetup = [], lfa_PreTeardown = [], lfa_PostActivate = [], lfa_PreDeactivate = [],
         lfa_Vars = vars\<rparr>)"

definition lustreCountVars :: "NnfStorageLustreComponents \<Rightarrow> kv" where
  "lustreCountVars c =
     [(''$NUM_MDTS'', itoa_nat (length (lcomp_MDTs c))), (''$NUM_MGTS'', itoa_nat (length (lcomp_MGTs c))),
      (''$NUM_MGTMDTS'', itoa_nat (length (lcomp_MGTMDTs c))), (''$NUM_OSTS'', itoa_nat (length (lcomp_OSTs c))),
      (''$NUM_NNFNODES'', itoa_nat (length (lcomp_NNFNodes c)))]"

definition newLustreFileSystem ::
  "'w os \<Rightarrow> NnfNodeStorage \<Rightarrow> NnfStorageProfileLustreTargetOptions \<Rightarrow> NnfStorageProfileLustreClientOptions
   \<Rightarrow> BlockDevice \<Rightarrow> nat \<Rightarrow> FileSystem res" where
  "newLustreFileSystem os s targetOptions clientOptions blockDevice index =
     (let lustre = nss_LustreStorage (ns_Spec s); override = lto_VariableOverride targetOptions in
      case lustreTargetPath s (lss_TargetType lustre) (lss_StartIndex lustre + int index) of
        Inl e \<Rightarrow> Inl (majorError ''could not get lustre target mount path'' e)
      | Inr targetPath \<Rightarrow>
          bindR (unpackCommandVariables s index) (\<lambda>vars0.
            let vars = kv_merge vars0 (lustreCountVars (lss_LustreComponents lustre));
                merged = mergeVariables vars
                  (if ref_Kind (nss_BlockReference (ns_Spec s)) \<noteq> blockStorageKind
                   then co_VariableOverride clientOptions else override)
            in Inr (LustreFS \<lparr>
                 lfs_CommandArgs = lustreCommandArgs os (lto_CmdLines targetOptions) (co_CmdLines clientOptions) merged,
                 lfs_Name = useOverrideIfPresent override ''$FSNAME'' (lss_FileSystemName lustre),
                 lfs_TargetType = useOverrideIfPresent override ''$TARGET_TYPE'' (lss_TargetType lustre),
                 lfs_TargetPath = useOverrideIfPresent override ''$TARGET_PATH'' targetPath,
                 lfs_MgsAddress = useOverrideIfPresent override ''$MGS_NID'' (lss_MgsAddress lustre),
                 lfs_Index = lss_StartIndex lustre + int index,
                 lfs_BackFs = useOverrideIfPresent override ''$BACKFS'' (lss_BackFs lustre),
                 lfs_TempDir = tempDir s index,
                 lfs_BlockDevice = blockDevice\<rparr>)))"

definition mockPath :: "'w os \<Rightarrow> string \<Rightarrow> NnfNodeStorage \<Rightarrow> nat \<Rightarrow> string" where
  "mockPath os dflt s index =
     (let p = getenv os ''MOCK_FILE_SYSTEM_PATH''; path = (if length p = 0 then dflt else p)
      in ''/'' @ path @ ''/'' @ meta_Name (ns_Meta s) @ ''-'' @ itoa_nat index)"

definition newMockFileSystem :: "'w os \<Rightarrow> NnfNodeStorage \<Rightarrow> nat \<Rightarrow> FileSystem" where
  "newMockFileSystem os s index = MockFS (mockPath os ''/mnt/filesystems'' s index)"

definition newKindFileSystem :: "'w os \<Rightarrow> NnfNodeStorage \<Rightarrow> nat \<Rightarrow> FileSystem" where
  "newKindFileSystem os s index = KindFS (mockPath os ''/mnt/nnf'' s index)"

section \<open>Both\<close>

definition lustreTargetOptions ::
  "NnfStorageProfile \<Rightarrow> string \<Rightarrow> NnfStorageProfileLustreTargetOptions res" where
  "lustreTargetOptions p targetType =
     (let ls = pd_LustreStorage (prof_Data p) in
      if targetType = ''mgt'' then Inr (mgt_TargetOptions (ld_MgtOptions ls))
      else if targetType = ''mgtmdt'' then Inr (mgtmdt_TargetOptions (ld_MgtMdtOptions ls))
      else if targetType = ''mdt'' then Inr (mdt_TargetOptions (ld_MdtOptions ls))
      else if targetType = ''ost'' then Inr (ost_TargetOptions (ld_OstOptions ls))
      else Inl (ResErr (WithFatal (NewResourceError (''invalid Lustre target type '' @ targetType)))))"

text \<open>An LVM device and the file system that \<open>mk\<close> builds on it.\<close>

definition lvmAnd ::
  "'w kube \<Rightarrow> 'w os \<Rightarrow> NnfNodeStorage \<Rightarrow> NnfStorageProfileSharedData \<Rightarrow> nat \<Rightarrow> string
   \<Rightarrow> (BlockDevice \<Rightarrow> FileSystem res) \<Rightarrow> ('w, BlockDevice \<times> FileSystem) io" where
  "lvmAnd k os s shared index msg mk =
     bindE (wrapE (majorError ''could not create LVM block device'') (newLvmBlockDevice k os s shared index)) (\<lambda>b.
     bindE (wrapE (majorError msg) (liftE (mk b))) (\<lambda>fs. retE (b, fs)))"

definition getBlockDeviceAndFileSystem ::
  "'w kube \<Rightarrow> 'w os \<Rightarrow> NnfNodeStorage \<Rightarrow> nat \<Rightarrow> ('w, BlockDevice \<times> FileSystem) io" where
  "getBlockDeviceAndFileSystem k os s index =
     (if os_getenv os ''NNF_TEST_ENVIRONMENT'' \<noteq> None then retE (MockDevice, newMockFileSystem os s index)
      else if getenv os ''ENVIRONMENT'' = ''kind'' then retE (MockDevice, newKindFileSystem os s index)
      else bindE (gotE (\<lambda>e. ResErr (WithFatal (WithError (Some e)
                     (NewResourceError ''could not find pinned storage profile''))))
                    (getPinnedStorageProfileFromLabel (k_Profiles k) (ns_Meta s))) (\<lambda>profile.
        let d = prof_Data profile; fsType = nss_FileSystemType (ns_Spec s) in
        if fsType = ''raw'' then
          lvmAnd k os s (pd_RawStorage d) index ''could not create XFS file system''
            (\<lambda>b. newBindFileSystem os s (pd_RawStorage d) b index)
        else if fsType = ''xfs'' then
          lvmAnd k os s (pd_XFSStorage d) index ''could not create XFS file system''
            (\<lambda>b. newXfsFileSystem os s (pd_XFSStorage d) b index)
        else if fsType = ''gfs2'' then
          lvmAnd k os s (pd_GFS2Storage d) index ''could not create GFS2 file system''
            (\<lambda>b. newGfs2FileSystem os s (pd_GFS2Storage d) b index)
        else if fsType = ''lustre'' then
          bindE (liftE (lustreTargetOptions profile (lss_TargetType (nss_LustreStorage (ns_Spec s))))) (\<lambda>t.
          bindE (wrapE (majorError ''could not create zpool block device'')
                   (newZpoolBlockDevice k os s t (ld_ClientOptions (pd_LustreStorage d)) index)) (\<lambda>b.
          bindE (wrapE (majorError ''could not create lustre file system'')
                   (liftE (newLustreFileSystem os s t (ld_ClientOptions (pd_LustreStorage d)) b index))) (\<lambda>fs.
            retE (b, fs))))
        else failE (ResErr (WithMajor (NewResourceError (''unsupported file system type '' @ fsType))))))"

section \<open>What the constructed devices have in common\<close>

lemma newLvm_device:
  assumes "newLvmBlockDevice k os s p i w = (Inr d, w1)"
  shows "\<exists>l. d = LvmDevice l \<and> lvm_CommandArgs l = lvmCommandArgs os p \<and>
    (\<exists>vg. volumeGroupName s (if nss_SharedAllocation (ns_Spec s) then 0 else i) = Inr vg \<and>
      vg_Name (lvm_VolumeGroup l) = useOverrideIfPresent (sd_VariableOverride p) ''$VG_NAME'' vg) \<and>
    lv_Name (lvm_LogicalVolume l) =
      useOverrideIfPresent (sd_VariableOverride p) ''$LV_NAME'' (logicalVolumeName s i)"
  using assms unfolding newLvmBlockDevice_def Let_def
  by (auto simp: bindE_eq_Inr wrapE_eq_Inr liftE_def retE_def NewVolumeGroup_def NewLogicalVolume_def)

lemma newLvm_names:
  assumes "newLvmBlockDevice k os s p i w = (Inr (LvmDevice l), w1)"
    and "map_of (sd_VariableOverride p) ''$VG_NAME'' = None" "map_of (sd_VariableOverride p) ''$LV_NAME'' = None"
  shows "volumeGroupName s (if nss_SharedAllocation (ns_Spec s) then 0 else i) = Inr (vg_Name (lvm_VolumeGroup l))"
    and "lv_Name (lvm_LogicalVolume l) = logicalVolumeName s i"
  using newLvm_device [OF assms(1)] assms(2,3) by (auto simp: useOverrideIfPresent_def)

text \<open>
  The allocations of a resource never share a volume: as long as the profile does not override the
  names, the LVM devices built for two different indices of the same resource have different
  device paths, whether the volume group is shared or not, at whatever time they are built.
\<close>

theorem newLvm_paths_distinct:
  assumes "newLvmBlockDevice k os s p i w = (Inr (LvmDevice a), w1)"
    and "newLvmBlockDevice k os s p j w' = (Inr (LvmDevice b), w2)"
    and "map_of (sd_VariableOverride p) ''$VG_NAME'' = None" "map_of (sd_VariableOverride p) ''$LV_NAME'' = None"
    and "i \<noteq> j"
  shows "Lvm_GetDevice a \<noteq> Lvm_GetDevice b"
proof
  assume eq: "Lvm_GetDevice a = Lvm_GetDevice b"
  note a = newLvm_names [OF assms(1,3,4)] and b = newLvm_names [OF assms(2,3,4)]
  have "\<not> prefix ''-'' (lv_Name (lvm_LogicalVolume a))" "\<not> prefix ''-'' (lv_Name (lvm_LogicalVolume b))"
    by (simp_all add: a b logicalVolumeName_def)
  with eq have names: "vg_Name (lvm_VolumeGroup a) = vg_Name (lvm_VolumeGroup b)"
    "logicalVolumeName s i = logicalVolumeName s j"
    using GetDevice_inject a(2) b(2) by metis+
  show False
  proof (cases "nss_SharedAllocation (ns_Spec s)")
    case True
    then show ?thesis using names(2) assms(5) by (simp add: logicalVolumeName_def)
  next
    case False
    then have same: "volumeGroupName s i = volumeGroupName s j" using a(1) b(1) names(1) by simp
    obtain uid d where "ownerUid s = Inr uid" "map_of (meta_Labels (ns_Meta s)) DirectiveIndexLabel = Some d"
      using a(1) False by (auto simp: volumeGroupName_def bindR_def split: sum.splits option.splits)
    then show ?thesis using same assms(5) False by (simp add: volumeGroupName_def bindR_def)
  qed
qed

text \<open>
  A compute node neither creates nor destroys storage: where \<^verbatim>\<open>RABBIT_NODE\<close> is not set, creating or
  destroying the LVM device that was built for an allocation runs no command other than listings,
  \<^verbatim>\<open>vgchange\<close> and \<^verbatim>\<open>lvchange\<close>, whatever the profile says for the Rabbit nodes.
\<close>

theorem compute_node_creates_nothing:
  assumes "os_getenv os ''RABBIT_NODE'' = None"
    and "newLvmBlockDevice k os s p i w = (Inr d, w1)"
  shows "list_all (starts switchTools) (commandsOf (BlockDevice_Create (traced os) d complete) w2) \<and>
    list_all (starts switchTools) (commandsOf (BlockDevice_Destroy (traced os) d) w2)"
proof -
  obtain l where d: "d = LvmDevice l" "lvm_CommandArgs l = lvmCommandArgs os p"
    using newLvm_device [OF assms(2)] by blast
  then have args: "pva_Create (pvArgs l) = []" "vga_Create (vgArgs l) = []" "lva_Create (lvArgs l) = []"
    "pva_Remove (pvArgs l) = []" "vga_Remove (vgArgs l) = []" "lva_Remove (lvArgs l) = []"
    using assms(1) by (simp_all add: lvmCommandArgs_def Let_def)
  have "issues (starts switchTools) (Lvm_Create (traced os) l complete)"
    unfolding Lvm_Create_def args whenArgs_def
    by (simp; intro conjI impI issues_rules issues_vg_change [OF starts_switch starts_switch_change(1)])
  moreover have "issues (starts switchTools) (Lvm_Destroy (traced os) l)"
    unfolding Lvm_Destroy_def args whenArgs_def
    by (simp; intro conjI impI issues_rules issues_vg_read [OF starts_switch]
      issues_vg_change [OF starts_switch starts_switch_change(1)])
  ultimately show ?thesis unfolding d(1) BlockDevice_Create.simps BlockDevice_Destroy.simps
    by (intro conjI issues_commandsOf)
qed

text \<open>
  The logical volumes of a shared group fit: without an override, the percentage each of the
  \<open>n > 0\<close> volumes takes is the largest whole number with \<open>n\<close> times it at most 100. More than a
  hundred volumes get zero percent each.
\<close>

theorem percentVG_fits:
  assumes "nss_SharedAllocation spec" and "nss_Count spec > 0" and "map_of override ''$PERCENT_VG'' = None"
  shows "\<exists>q. percentVG spec override = Inr q \<and> 0 \<le> q \<and> nss_Count spec * q \<le> 100 \<and>
    100 < nss_Count spec * (q + 1) \<and> (nss_Count spec > 100 \<longrightarrow> q = 0)"
proof -
  let ?n = "nss_Count spec" and ?q = "100 div nss_Count spec"
  have "percentVG spec override = Inr ?q"
    using assms by (simp add: percentVG_def bindR_def useOverrideIfPresent_def go_quot_def Let_def)
  moreover have "?n * ?q + 100 mod ?n = 100" by (rule mult_div_mod_eq)
  moreover have "0 \<le> 100 mod ?n" "100 mod ?n < ?n" "0 \<le> ?q"
    using assms(2) by (simp_all add: pos_imp_zdiv_nonneg_iff)
  moreover have "?n * (?q + 1) = ?n * ?q + ?n" by (simp only: distrib_left mult_1_right)
  ultimately have "?n * ?q \<le> 100" "100 < ?n * (?q + 1)" "0 \<le> ?q" by linarith+
  moreover have "?n > 100 \<longrightarrow> ?q = 0" by simp
  ultimately show ?thesis using \<open>percentVG spec override = Inr ?q\<close> by blast
qed

end
