(* ===== verification/StorageTypes.thy ===== *)
theory StorageTypes
  imports FilesystemHelpers Client
begin

text \<open>
  \<^verbatim>\<open>api/v1alpha11/nnfstorage_types.go\<close>: the resource that describes the allocations of one file
  system on all Rabbit nodes. The servers, storage, access and workflow controllers share it.
\<close>

abbreviation AllocationSetLabel :: string where
  "AllocationSetLabel \<equiv> ''nnf.cray.hpe.com/allocationset''"

abbreviation AllocationSetOST0Label :: string where
  "AllocationSetOST0Label \<equiv> ''nnf.cray.hpe.com/allocationset_ost0''"

record NnfStorageAllocationNodes =
  san_Name :: string
  san_Count :: int

record NnfStorageLustreSpec =
  sls_TargetType :: string
  sls_BackFs :: string
  sls_MgsAddress :: string
  sls_PersistentMgsReference :: ObjectReference

record NnfStorageAllocationSetSpec =
  sas_Name :: string
  sas_Capacity :: int
  sas_Lustre :: NnfStorageLustreSpec
  sas_SharedAllocation :: bool
  sas_CommandVariables :: "CommandVariablesSpec list"
  sas_Nodes :: "NnfStorageAllocationNodes list"

record NnfStorageSpec =
  ssp_FileSystemType :: string
  ssp_UserID :: "32 word"
  ssp_GroupID :: "32 word"
  ssp_AllocationSets :: "NnfStorageAllocationSetSpec list"

record NnfStorageAllocationSetStatus =
  sts_Ready :: bool
  sts_Health :: NnfStorageHealth
  sts_AllocationCount :: int

record NnfStorageLustreStatus =
  slu_MgsAddress :: string
  slu_FileSystemName :: string
  slu_LustreMgtReference :: ObjectReference
  slu_LustreComponents :: NnfStorageLustreComponents

record NnfStorageStatus =
  nsts_Lustre :: NnfStorageLustreStatus
  nsts_AllocationSets :: "NnfStorageAllocationSetStatus list"
  nsts_Error :: "ResourceErrorInfo option"
  nsts_Health :: NnfStorageHealth
  nsts_Ready :: bool

record NnfStorage =
  nstg_Meta :: ObjectMeta
  nstg_Spec :: NnfStorageSpec
  nstg_Status :: NnfStorageStatus

text \<open>Signed integers of 64 bits wrap around.\<close>

definition wrap64 :: "int \<Rightarrow> int" where
  "wrap64 x = (x + 2 ^ 63) mod 2 ^ 64 - 2 ^ 63"

lemma wrap64_id: "- (2 ^ 63) \<le> x \<Longrightarrow> x < 2 ^ 63 \<Longrightarrow> wrap64 x = x"
  by (simp add: wrap64_def)

lemma wrap64_bounds: "- (2 ^ 63) \<le> wrap64 x" "wrap64 x < 2 ^ 63"
proof -
  have "0 \<le> (x + 2 ^ 63) mod (2 ^ 64)" and "(x + 2 ^ 63) mod (2 ^ 64) < 2 ^ 64"
    by simp_all
  then show "- (2 ^ 63) \<le> wrap64 x" "wrap64 x < 2 ^ 63"
    by (simp_all add: wrap64_def)
qed

lemma wrap64_add: "wrap64 (wrap64 x + y) = wrap64 (x + y)"
  unfolding wrap64_def by (simp add: algebra_simps mod_simps)

end
