(* ===== verification/GoFloat.thy ===== *)
theory GoFloat
  imports Complex_Main StorageTypes
begin

text \<open>
  What the code uses of Go's \<^verbatim>\<open>float64\<close>: IEEE 754 double precision with rounding to nearest, ties
  to even. A finite number is the rational it denotes; the sign of zero is not kept (no operation
  of the code can tell the two zeros apart). With it \<^verbatim>\<open>strconv.ParseFloat\<close>, \<^verbatim>\<open>math.Round\<close> and the
  conversions from and to \<^verbatim>\<open>int64\<close>.
\<close>

section \<open>Rounding\<close>

datatype float64 = Finite rat | PInf | NInf | NaN

fun ilog2 :: "nat \<Rightarrow> nat" where
  "ilog2 n = (if n < 2 then 0 else Suc (ilog2 (n div 2)))"

declare ilog2.simps [simp del]

definition pow2 :: "int \<Rightarrow> rat" where
  "pow2 e = (if 0 \<le> e then 2 ^ nat e else 1 / 2 ^ nat (- e))"

text \<open>The exponent \<open>e\<close> with \<open>2\<^sup>e \<le> q < 2\<^sup>e\<^sup>+\<^sup>1\<close>, for positive \<open>q\<close>.\<close>

definition exponent2 :: "rat \<Rightarrow> int" where
  "exponent2 q =
     (if 1 \<le> q then int (ilog2 (nat \<lfloor>q\<rfloor>))
      else - int (ilog2 (nat (\<lceil>1 / q\<rceil> - 1))) - 1)"

definition roundHalfEven :: "rat \<Rightarrow> int" where
  "roundHalfEven q =
     (let f = \<lfloor>q\<rfloor>; d = q - of_int f in
      if d < 1 / 2 then f else if d > 1 / 2 then f + 1 else if even f then f else f + 1)"

text \<open>Subnormal numbers have the exponent of the smallest normal ones.\<close>

definition roundPositive :: "rat \<Rightarrow> rat" where
  "roundPositive q =
     (let e = max (- 1074) (exponent2 q - 52) in of_int (roundHalfEven (q / pow2 e)) * pow2 e)"

definition round64 :: "rat \<Rightarrow> float64" where
  "round64 q =
     (if q = 0 then Finite 0
      else let v = roundPositive \<bar>q\<bar> in
        if 2 ^ 1024 \<le> v then (if 0 < q then PInf else NInf)
        else Finite (if 0 < q then v else - v))"

section \<open>Arithmetic\<close>

definition isZero :: "float64 \<Rightarrow> bool" where
  "isZero x = (x = Finite 0)"

definition negative :: "float64 \<Rightarrow> bool" where
  "negative x = (case x of Finite q \<Rightarrow> q < 0 | NInf \<Rightarrow> True | _ \<Rightarrow> False)"

definition signedInf :: "bool \<Rightarrow> float64" where
  "signedInf neg = (if neg then NInf else PInf)"

definition fmul :: "float64 \<Rightarrow> float64 \<Rightarrow> float64" where
  "fmul x y =
     (case (x, y) of
        (NaN, _) \<Rightarrow> NaN | (_, NaN) \<Rightarrow> NaN
      | (Finite a, Finite b) \<Rightarrow> round64 (a * b)
      | _ \<Rightarrow> if isZero x \<or> isZero y then NaN else signedInf (negative x \<noteq> negative y))"

definition fdiv :: "float64 \<Rightarrow> float64 \<Rightarrow> float64" where
  "fdiv x y =
     (case (x, y) of
        (NaN, _) \<Rightarrow> NaN | (_, NaN) \<Rightarrow> NaN
      | (Finite a, Finite b) \<Rightarrow>
          if b = 0 then (if a = 0 then NaN else signedInf (a < 0)) else round64 (a / b)
      | (Finite a, _) \<Rightarrow> Finite 0
      | (_, Finite b) \<Rightarrow> signedInf (negative x \<noteq> negative y)
      | _ \<Rightarrow> NaN)"

definition fadd :: "float64 \<Rightarrow> float64 \<Rightarrow> float64" where
  "fadd x y =
     (case (x, y) of
        (NaN, _) \<Rightarrow> NaN | (_, NaN) \<Rightarrow> NaN
      | (Finite a, Finite b) \<Rightarrow> round64 (a + b)
      | (Finite a, _) \<Rightarrow> y
      | (_, Finite b) \<Rightarrow> x
      | _ \<Rightarrow> if x = y then x else NaN)"

text \<open>\<^verbatim>\<open>float64(n)\<close>\<close>

definition ofInt64 :: "int \<Rightarrow> float64" where
  "ofInt64 n = round64 (of_int n)"

text \<open>\<^verbatim>\<open>math.Round(x)\<close>: half away from zero\<close>

definition math_Round :: "float64 \<Rightarrow> float64" where
  "math_Round x =
     (case x of
        Finite q \<Rightarrow> Finite (of_int (if 0 \<le> q then \<lfloor>q + 1 / 2\<rfloor> else - \<lfloor>1 / 2 - q\<rfloor>))
      | _ \<Rightarrow> x)"

text \<open>
  \<^verbatim>\<open>int64(x)\<close> truncates. Out of range the language leaves the value open: it is that of the amd64
  instruction, the least integer.
\<close>

definition toInt64 :: "float64 \<Rightarrow> int" where
  "toInt64 x =
     (case x of
        Finite q \<Rightarrow> let t = (if 0 \<le> q then \<lfloor>q\<rfloor> else \<lceil>q\<rceil>) in
                    if - (2 ^ 63) \<le> t \<and> t < 2 ^ 63 then t else - (2 ^ 63)
      | _ \<Rightarrow> - (2 ^ 63))"

section \<open>Parsing\<close>

definition digitOf :: "nat \<Rightarrow> char \<Rightarrow> nat option" where
  "digitOf base c = (if base = 16 then hex_val c else digit_val c)"

text \<open>
  The mantissa: its digits as a number, how many of them stand after the point, and whether there
  was a digit at all. Underscores are skipped here and checked afterwards.
\<close>

fun scanMantissa :: "nat \<Rightarrow> bool \<Rightarrow> nat \<Rightarrow> nat \<Rightarrow> bool \<Rightarrow> string \<Rightarrow> nat \<times> nat \<times> bool \<times> string" where
  "scanMantissa base sawdot m fd saw [] = (m, fd, saw, [])"
| "scanMantissa base sawdot m fd saw (c # s) =
     (if c = CHR ''_'' then scanMantissa base sawdot m fd saw s
      else if c = CHR ''.'' \<and> \<not> sawdot then scanMantissa base True m fd saw s
      else case digitOf base c of
        Some d \<Rightarrow> scanMantissa base sawdot (m * base + d) (if sawdot then Suc fd else fd) True s
      | None \<Rightarrow> (m, fd, saw, c # s))"

fun scanExponent :: "nat \<Rightarrow> string \<Rightarrow> nat \<times> string" where
  "scanExponent e [] = (e, [])"
| "scanExponent e (c # s) =
     (if c = CHR ''_'' then scanExponent e s
      else case digit_val c of
        Some d \<Rightarrow> scanExponent (if e < 10000 then e * 10 + d else e) s
      | None \<Rightarrow> (e, c # s))"

definition readExponent :: "string \<Rightarrow> (int \<times> string) option" where
  "readExponent s =
     (let neg = has_prefix s ''-''; r = (if neg \<or> has_prefix s ''+'' then tl s else s) in
      if r = [] \<or> digit_val (hd r) = None then None
      else let (e, r') = scanExponent 0 r in Some (if neg then - int e else int e, r'))"

text \<open>An underscore stands between two digits, or between the base prefix and a digit.\<close>

fun underscoresFrom :: "bool \<Rightarrow> char \<Rightarrow> string \<Rightarrow> bool" where
  "underscoresFrom hex seen [] = (seen \<noteq> CHR ''_'')"
| "underscoresFrom hex seen (c # s) =
     (if digitOf (if hex then 16 else 10) c \<noteq> None then underscoresFrom hex (CHR ''0'') s
      else if c = CHR ''_'' then seen = CHR ''0'' \<and> underscoresFrom hex (CHR ''_'') s
      else seen \<noteq> CHR ''_'' \<and> underscoresFrom hex (CHR ''!'') s)"

definition hexPrefix :: "string \<Rightarrow> bool" where
  "hexPrefix s = (has_prefix s ''0x'' \<or> has_prefix s ''0X'')"

definition underscoreOK :: "string \<Rightarrow> bool" where
  "underscoreOK s =
     (if length s \<ge> 2 \<and> hd s = CHR ''0'' \<and> ascii_lower (s ! 1) \<in> {CHR ''b'', CHR ''o'', CHR ''x''}
      then underscoresFrom (hexPrefix s) (CHR ''0'') (drop 2 s)
      else underscoresFrom False (CHR ''^'') s)"

definition scalePow :: "nat \<Rightarrow> int \<Rightarrow> rat" where
  "scalePow b e = (if 0 \<le> e then of_nat b ^ nat e else 1 / of_nat b ^ nat (- e))"

text \<open>A number without its sign, as the rational that it denotes.\<close>

definition readFloat :: "string \<Rightarrow> rat option" where
  "readFloat s =
     (let hex = (length s > 2 \<and> hexPrefix s);
          (m, fd, saw, r) = scanMantissa (if hex then 16 else 10) False 0 0 False (if hex then drop 2 s else s);
          exponent = (if r \<noteq> [] \<and> ascii_lower (hd r) = (if hex then CHR ''p'' else CHR ''e'') then readExponent (tl r)
                      else if hex then None else Some (0, r)) in
      if \<not> saw \<or> \<not> underscoreOK s then None
      else case exponent of
        None \<Rightarrow> None
      | Some (e, rest) \<Rightarrow>
          if rest \<noteq> [] then None
          else Some (of_nat m * (if hex then scalePow 2 (e - 4 * int fd) else scalePow 10 (e - int fd))))"

definition parseError :: "string \<Rightarrow> string \<Rightarrow> failure" where
  "parseError s why = Fail (''strconv.ParseFloat: parsing '' @ CHR 0x22 # s @ CHR 0x22 # '': '' @ why)"

definition ParseFloat :: "string \<Rightarrow> float64 res" where
  "ParseFloat s =
     (let neg = has_prefix s ''-''; r = (if neg \<or> has_prefix s ''+'' then tl s else s) in
      if map ascii_lower r \<in> {''inf'', ''infinity''} then Inr (signedInf neg)
      else if map ascii_lower s = ''nan'' then Inr NaN
      else case readFloat r of
        None \<Rightarrow> Inl (parseError s ''invalid syntax'')
      | Some q \<Rightarrow>
          (case round64 (if neg then - q else q) of
             Finite v \<Rightarrow> Inr (Finite v)
           | _ \<Rightarrow> Inl (parseError s ''value out of range'')))"

section \<open>Exact numbers\<close>

lemma ilog2_bounds: "0 < n \<Longrightarrow> 2 ^ ilog2 n \<le> n \<and> n < 2 ^ Suc (ilog2 n)"
proof (induction n rule: ilog2.induct)
  case (1 n)
  show ?case
  proof (cases "n < 2")
    case True
    then show ?thesis using 1(2) by (simp add: ilog2.simps)
  next
    case False
    then have "2 ^ ilog2 (n div 2) \<le> n div 2 \<and> n div 2 < 2 ^ Suc (ilog2 (n div 2))" using 1(1) by simp
    moreover have "ilog2 n = Suc (ilog2 (n div 2))" using False by (simp add: ilog2.simps)
    ultimately show ?thesis by auto
  qed
qed

lemma pow2_pos: "0 < pow2 e"
  by (simp add: pow2_def)

lemma pow2_powi: "pow2 e = 2 powi e"
  by (simp add: pow2_def power_int_def power_divide)

lemma roundHalfEven_int [simp]: "roundHalfEven (of_int n) = n"
  by (simp add: roundHalfEven_def)

text \<open>A natural number below \<open>2\<^sup>5\<^sup>3\<close> times a power of two is represented exactly.\<close>

lemma roundPositive_dyadic:
  assumes "0 < n" and "n < 2 ^ 53"
  shows "roundPositive (of_nat n * 2 ^ k) = of_nat n * 2 ^ k"
proof -
  let ?q = "of_nat n * 2 ^ k :: rat"
  have q: "?q = of_nat (n * 2 ^ k)" by simp
  have "1 \<le> n * 2 ^ k" using assms(1) by simp
  then have "1 \<le> ?q" unfolding q by (metis of_nat_1 of_nat_le_iff)
  then have e: "exponent2 ?q = int (ilog2 (n * 2 ^ k))"
    unfolding exponent2_def by (simp add: q del: of_nat_mult of_nat_power)
  have "2 ^ ilog2 (n * 2 ^ k) \<le> n * 2 ^ k" using ilog2_bounds [of "n * 2 ^ k"] assms(1) by simp
  also have "\<dots> < 2 ^ 53 * 2 ^ k" using assms(2) by simp
  also have "\<dots> = (2 :: nat) ^ (53 + k)" by (simp add: power_add)
  finally have "ilog2 (n * 2 ^ k) < 53 + k" by (simp add: power_strict_increasing_iff)
  define d where "d = max (- 1074) (exponent2 ?q - 52)"
  have dk: "d \<le> int k" using \<open>ilog2 (n * 2 ^ k) < 53 + k\<close> unfolding d_def e by simp
  have "?q / pow2 d = of_int (int n * 2 ^ nat (int k - d))"
  proof (cases "0 \<le> d")
    case True
    then have "(2 :: rat) ^ k = 2 ^ nat (int k - d) * 2 ^ nat d"
      using dk by (simp add: power_add [symmetric] nat_add_distrib [symmetric])
    then show ?thesis using True by (simp add: pow2_def)
  next
    case False
    then have "nat (int k - d) = k + nat (- d)" by simp
    then show ?thesis using False by (simp add: pow2_def power_add)
  qed
  then have "roundHalfEven (?q / pow2 d) = int n * 2 ^ nat (int k - d)"
    by (metis roundHalfEven_int)
  then have "of_int (roundHalfEven (?q / pow2 d)) * pow2 d = (?q / pow2 d) * pow2 d"
    using \<open>?q / pow2 d = _\<close> by simp
  then show ?thesis
    using pow2_pos [of d] unfolding roundPositive_def by (simp add: d_def [symmetric] Let_def)
qed

lemma round64_dyadic:
  assumes "n < 2 ^ 53" and "n * 2 ^ k < 2 ^ 1024"
  shows "round64 (of_nat n * 2 ^ k) = Finite (of_nat n * 2 ^ k)"
proof (cases "n = 0")
  case False
  have "(of_nat (n * 2 ^ k) :: rat) < of_nat (2 ^ 1024)" using assms(2) of_nat_less_iff by blast
  then show ?thesis
    using False roundPositive_dyadic [OF _ assms(1), of k] by (simp add: round64_def Let_def)
qed (simp add: round64_def)

lemma toInt64_nat: "n < 2 ^ 63 \<Longrightarrow> toInt64 (Finite (of_nat n)) = int n"
  by (simp add: toInt64_def Let_def)

lemma math_Round_nat: "math_Round (Finite (of_nat n)) = Finite (of_nat n)"
proof -
  have "\<lfloor>of_nat n + (1 / 2 :: rat)\<rfloor> = int n" by (rule floor_unique) simp_all
  then show ?thesis by (simp add: math_Round_def)
qed

section \<open>Rounding by its bounds\<close>

lemma ilog2_unique:
  assumes "2 ^ k \<le> n" and "n < 2 ^ Suc k"
  shows "ilog2 n = k"
proof -
  have "0 < n" using assms(1) by (metis gr0I le_zero_eq power_not_zero zero_neq_numeral)
  then have "2 ^ ilog2 n < (2 :: nat) ^ Suc k" and "2 ^ k < (2 :: nat) ^ Suc (ilog2 n)"
    using ilog2_bounds [of n] assms by (auto intro: le_less_trans)
  then have "ilog2 n < Suc k" and "k < Suc (ilog2 n)" by (simp_all only: power_strict_increasing_iff one_less_numeral_iff semiring_norm)
  then show ?thesis by simp
qed

lemma nat_between:
  "(2 :: int) ^ k \<le> i \<Longrightarrow> 2 ^ k \<le> nat i" "i < 2 * 2 ^ k \<Longrightarrow> nat i < 2 * 2 ^ k"
proof -
  have p: "nat ((2 :: int) ^ k) = 2 ^ k" "nat (2 * (2 :: int) ^ k) = 2 * 2 ^ k"
    by (simp_all add: nat_power_eq nat_mult_distrib)
  show "(2 :: int) ^ k \<le> i \<Longrightarrow> 2 ^ k \<le> nat i" using nat_mono [of "2 ^ k" i] p by simp
  show "i < 2 * 2 ^ k \<Longrightarrow> nat i < 2 * 2 ^ k" using p(2) by (simp add: nat_less_iff flip: p(2))
qed

lemma exponent2_unique:
  assumes "pow2 e \<le> q" and "q < pow2 (e + 1)"
  shows "exponent2 q = e"
proof (cases "0 \<le> e")
  case True
  define k where "k = nat e"
  have k: "e = int k" using True by (simp add: k_def)
  have b: "(2 :: rat) ^ k \<le> q" "q < 2 ^ Suc k"
    using assms by (simp_all add: pow2_def k nat_add_distrib)
  have "1 \<le> q" using b(1) by (meson order_trans one_le_power one_le_numeral)
  have "(2 :: int) ^ k \<le> \<lfloor>q\<rfloor>" using b(1) by (simp add: le_floor_iff)
  moreover have "\<lfloor>q\<rfloor> < (2 :: int) ^ Suc k" using b(2) by (simp add: floor_less_iff)
  ultimately have "ilog2 (nat \<lfloor>q\<rfloor>) = k" by (intro ilog2_unique) (simp_all add: nat_between)
  then show ?thesis using \<open>1 \<le> q\<close> by (simp add: exponent2_def k)
next
  case False
  define k where "k = nat (- e) - 1"
  have k: "e = - int k - 1" using False by (simp add: k_def)
  have up: "pow2 (e + 1) = 1 / 2 ^ k" by (cases k) (simp_all add: pow2_def k nat_add_distrib)
  have down: "pow2 e = 1 / 2 ^ Suc k" by (simp add: pow2_def k nat_add_distrib)
  have "0 < q" using assms(1) pow2_pos [of e] by linarith
  have "q < 1" using assms(2) up by (auto intro: less_le_trans)
  have lo: "2 ^ k < 1 / q" using assms(2) [unfolded up] \<open>0 < q\<close> by (simp add: field_simps)
  have hi: "1 / q \<le> 2 ^ Suc k" using assms(1) [unfolded down] \<open>0 < q\<close> by (simp add: field_simps)
  have "(2 :: int) ^ k < \<lceil>1 / q\<rceil>" using lo by (simp add: less_ceiling_iff)
  moreover have "\<lceil>1 / q\<rceil> \<le> (2 :: int) ^ Suc k" using hi by (simp add: ceiling_le_iff)
  ultimately have "ilog2 (nat (\<lceil>1 / q\<rceil> - 1)) = k" by (intro ilog2_unique) (simp_all add: nat_between)
  then show ?thesis using \<open>q < 1\<close> by (simp add: exponent2_def k)
qed

lemma roundHalfEven_nearest:
  assumes "\<bar>q - of_int n\<bar> < 1 / 2"
  shows "roundHalfEven q = n"
proof (cases "of_int n \<le> q")
  case True
  then have "\<lfloor>q\<rfloor> = n" using assms by (intro floor_unique) linarith+
  then show ?thesis using assms True by (simp add: roundHalfEven_def)
next
  case False
  then have "\<lfloor>q\<rfloor> = n - 1" using assms by (intro floor_unique) simp_all
  then show ?thesis using assms False by (simp add: roundHalfEven_def abs_less_iff)
qed

text \<open>A positive number rounds to \<open>n * 2\<^sup>e\<close> when the significand \<open>n\<close> is nearest to it.\<close>

lemma round64_nearest:
  assumes "- 1074 \<le> e" and "e \<le> 970"
    and "2 ^ 52 \<le> q / pow2 e" and "q / pow2 e < 2 ^ 53"
    and "\<bar>q / pow2 e - of_int n\<bar> < 1 / 2"
  shows "round64 q = Finite (of_int n * pow2 e)"
proof -
  have "exponent2 q = e + 52"
    using assms(3,4) pow2_pos [of e]
    by (intro exponent2_unique) (simp_all add: pow2_powi power_int_add field_simps)
  moreover have "0 < q"
    using assms(3) pow2_pos [of e] by (simp add: field_simps)
  moreover have "roundHalfEven (q / pow2 e) = n" by (rule roundHalfEven_nearest [OF assms(5)])
  ultimately have r: "roundPositive \<bar>q\<bar> = of_int n * pow2 e"
    using assms(1) by (simp add: roundPositive_def)
  have "(of_int n :: rat) < 2 ^ 53 + 1" using assms(4,5) by linarith
  then have "(of_int n :: rat) < of_int (2 ^ 53 + 1)" by simp
  then have n: "n \<le> 2 ^ 53" unfolding of_int_less_iff by simp
  have "pow2 e \<le> 2 powi 970" unfolding pow2_powi by (rule power_int_increasing) (use assms(2) in simp_all)
  then have "of_int n * pow2 e \<le> 2 ^ 53 * 2 ^ 970"
    using n pow2_pos [of e] by (intro mult_mono) simp_all
  then have "\<not> 2 ^ 1024 \<le> of_int n * pow2 e" by simp
  then show ?thesis using r \<open>0 < q\<close> by (simp add: round64_def Let_def)
qed

end
