(* ===== verification/Capacity.thy ===== *)
theory Capacity
  imports GoFloat
begin

text \<open>
  The capacities of \<^verbatim>\<open>internal/controller/directivebreakdown_controller.go\<close>: reading a size with a
  unit, and scaling, padding and unpadding it, in the floating point arithmetic of the code.
\<close>

section \<open>Sizes with units\<close>

abbreviation isDec :: "char \<Rightarrow> bool" where
  "isDec c \<equiv> digit_val c \<noteq> None"

text \<open>
  The regular expression \<^verbatim>\<open>(\d+(\.\d*)?|\.\d+)([kKMGTP]i?)?B?$\<close>, at a position of the text: its
  first and third group. No two of its parts can begin with the same character, so there is at
  most one way to match.
\<close>

definition matchNumber :: "string \<Rightarrow> (string \<times> string) option" where
  "matchNumber s =
     (let ds = takeWhile isDec s; r = dropWhile isDec s in
      if has_prefix r ''.''
      then (let fs = takeWhile isDec (tl r) in
            if ds = [] \<and> fs = [] then None else Some (ds @ CHR ''.'' # fs, dropWhile isDec (tl r)))
      else if ds = [] then None else Some (ds, r))"

definition matchUnit :: "string \<Rightarrow> string \<times> string" where
  "matchUnit s =
     (if s \<noteq> [] \<and> hd s \<in> set ''kKMGTP''
      then (if has_prefix (tl s) ''i'' then ([hd s, CHR ''i''], tl (tl s)) else ([hd s], tl s))
      else ([], s))"

definition matchCapacity :: "string \<Rightarrow> (string \<times> string) option" where
  "matchCapacity s =
     (case matchNumber s of
        None \<Rightarrow> None
      | Some (number, r) \<Rightarrow>
          let (unit, r') = matchUnit r in
          if r' = [] \<or> r' = ''B'' then Some (number, unit) else None)"

text \<open>The expression has no anchor at its beginning: the leftmost match counts.\<close>

fun findCapacity :: "string \<Rightarrow> (string \<times> string) option" where
  "findCapacity [] = None"
| "findCapacity (c # s) =
     (case matchCapacity (c # s) of Some g \<Rightarrow> Some g | None \<Rightarrow> findCapacity s)"

text \<open>A unit as an odd factor and a power of two: \<^verbatim>\<open>K\<close> is \<open>5\<^sup>3 * 2\<^sup>3\<close>.\<close>

definition unitFactors :: "(string \<times> nat \<times> nat) list" where
  "unitFactors =
     [('''', 1, 0), (''K'', 5 ^ 3, 3), (''M'', 5 ^ 6, 6), (''G'', 5 ^ 9, 9), (''T'', 5 ^ 12, 12),
      (''P'', 5 ^ 15, 15), (''Ki'', 1, 10), (''Mi'', 1, 20), (''Gi'', 1, 30), (''Ti'', 1, 40), (''Pi'', 1, 50)]"

text \<open>Reading the Go map at a key that is not there gives 0.\<close>

definition powers :: "string \<Rightarrow> float64" where
  "powers unit =
     (case map_of unitFactors unit of
        Some (m, j) \<Rightarrow> Finite (of_nat m * 2 ^ j)
      | None \<Rightarrow> Finite 0)"

definition getCapacityInBytes :: "string \<Rightarrow> int res" where
  "getCapacityInBytes capacity =
     (case findCapacity capacity of
        None \<Rightarrow> Inl (Fail (''invalid capacity string, '' @ capacity))
      | Some (number, unit) \<Rightarrow>
          (case ParseFloat number of
             Inl _ \<Rightarrow> Inl (ResErr (NewResourceError (''invalid capacity string, '' @ capacity)))
           | Inr val \<Rightarrow> Inr (toInt64 (math_Round (fmul val (powers unit))))))"

text \<open>\<^verbatim>\<open>x, _ := getCapacityInBytes(...)\<close>\<close>

definition capacityOrZero :: "string \<Rightarrow> int" where
  "capacityOrZero capacity = (case getCapacityInBytes capacity of Inl _ \<Rightarrow> 0 | Inr n \<Rightarrow> n)"

section \<open>Scaling and padding\<close>

definition userFatalError :: "string \<Rightarrow> failure \<Rightarrow> failure" where
  "userFatalError msg err =
     ResErr (WithFatal (WithUserMessage msg (WithError (Some err) (NewResourceError []))))"

definition getScaledCapacity :: "int \<Rightarrow> string \<Rightarrow> int res" where
  "getScaledCapacity capacity scalingFactor =
     (if scalingFactor = [] then Inr capacity
      else case ParseFloat scalingFactor of
        Inl e \<Rightarrow> Inl (userFatalError ''invalid capacityScalingFactor for gfs2 allocation'' e)
      | Inr v \<Rightarrow> Inr (toInt64 (fmul v (ofInt64 capacity))))"

definition hundredth :: float64 where
  "hundredth = round64 (1 / 100)"

definition getScaledAndPaddedCapacity :: "int \<Rightarrow> string \<Rightarrow> string \<Rightarrow> int res" where
  "getScaledAndPaddedCapacity capacity0 scalingFactor padding =
     (case getScaledCapacity capacity0 scalingFactor of
        Inl e \<Rightarrow> Inl e
      | Inr capacity \<Rightarrow>
          if padding = [] then Inr capacity
          else if has_suffix padding ''%'' then
            (case ParseFloat (butlast padding) of
               Inl e \<Rightarrow> Inl (userFatalError ''invalid allocationPadding percentage'' e)
             | Inr percentPadding \<Rightarrow>
                 Inr (wrap64 (toInt64 (fmul (fmul percentPadding hundredth) (ofInt64 capacity)) + capacity)))
          else case getCapacityInBytes padding of
            Inl e \<Rightarrow> Inl (userFatalError ''invalid allocationPadding value'' e)
          | Inr capacityPadding \<Rightarrow> Inr (wrap64 (capacity + capacityPadding)))"

definition paddingOf :: "string \<Rightarrow> NnfStorageProfile \<Rightarrow> string" where
  "paddingOf allocationType p =
     (if allocationType = ''gfs2'' then sd_AllocationPadding (pd_GFS2Storage (prof_Data p))
      else if allocationType = ''xfs'' then sd_AllocationPadding (pd_XFSStorage (prof_Data p))
      else if allocationType = ''raw'' then sd_AllocationPadding (pd_RawStorage (prof_Data p))
      else [])"

definition removeAllocationPadding :: "string \<Rightarrow> int \<Rightarrow> NnfStorageProfile \<Rightarrow> int res" where
  "removeAllocationPadding allocationType capacity p =
     (let padding = paddingOf allocationType p in
      if allocationType = ''lustre'' \<or> padding = [] then Inr capacity
      else if has_suffix padding ''%'' then
        (case ParseFloat (butlast padding) of
           Inl e \<Rightarrow> Inl (userFatalError ''invalid allocationPadding percentage'' e)
         | Inr percentPadding \<Rightarrow>
             Inr (toInt64 (fdiv (ofInt64 capacity) (fadd (fmul percentPadding hundredth) (Finite 1)))))
      else case getCapacityInBytes padding of
        Inl e \<Rightarrow> Inl (userFatalError ''invalid allocationPadding value'' e)
      | Inr capacityPadding \<Rightarrow> Inr (wrap64 (capacity - capacityPadding)))"

section \<open>Reading numbers\<close>

lemma digit_val_cases:
  "digit_val c = Some d \<Longrightarrow> c \<noteq> CHR ''_'' \<and> c \<noteq> CHR ''.'' \<and> c \<notin> set ''+-kKMGTPiBboxnNIXO''"
  by (auto simp: digit_val_def Let_def split: if_splits)

lemma digits_all: "digits_val a s = Some v \<Longrightarrow> c \<in> set s \<Longrightarrow> isDec c"
  by (induction s arbitrary: a) (auto split: option.splits)

lemma scanMantissa_digits:
  "digits_val a s = Some v \<Longrightarrow> scanMantissa 10 False a f saw s = (v, f, saw \<or> s \<noteq> [], [])"
proof (induction s arbitrary: a saw)
  case (Cons c s)
  then obtain d where d: "digit_val c = Some d" and "digits_val (10 * a + d) s = Some v"
    by (auto split: option.splits)
  then show ?case
    using Cons.IH [of "10 * a + d" True] digit_val_cases [OF d] by (simp add: digitOf_def mult.commute)
qed simp

lemma underscoresFrom_digits:
  "(\<And>c. c \<in> set s \<Longrightarrow> isDec c) \<Longrightarrow> s \<noteq> [] \<Longrightarrow> underscoresFrom False seen s"
proof (induction s arbitrary: seen)
  case (Cons c s)
  then show ?case by (cases "s = []") (simp_all add: digitOf_def)
qed simp

lemma underscoreOK_digits:
  assumes "\<And>c. c \<in> set s \<Longrightarrow> isDec c" and "s \<noteq> []"
  shows "underscoreOK s" and "\<not> hexPrefix s"
proof -
  have second: "ascii_lower (s ! 1) = s ! 1 \<and> s ! 1 \<notin> set ''boxX''" if "2 \<le> length s"
  proof -
    have "s ! 1 \<in> set s" using that by simp
    then obtain d where d: "digit_val (s ! 1) = Some d" using assms(1) by blast
    then show ?thesis by (auto simp: digit_val_def ascii_lower_def Let_def split: if_splits)
  qed
  show "underscoreOK s"
    using second underscoresFrom_digits [OF assms] by (auto simp: underscoreOK_def)
  have "2 \<le> length s \<and> s ! 1 = p ! 1" if "take 2 s = p" and "length p = 2" for p
    using that by (metis length_take min.absorb_iff2 nth_take one_less_numeral_iff semiring_norm(76))
  from this [of "''0x''"] this [of "''0X''"] second show "\<not> hexPrefix s"
    by (auto simp: hexPrefix_def has_prefix_def numeral_2_eq_2)
qed
lemma ParseFloat_itoa: "n < 2 ^ 53 \<Longrightarrow> ParseFloat (itoa_nat n) = Inr (Finite (of_nat n))"
proof -
  assume n: "n < 2 ^ 53"
  let ?s = "itoa_nat n"
  have dec: "isDec c" if "c \<in> set ?s" for c using digits_all [OF digits_val_itoa that] by simp
  obtain c r where s: "?s = c # r" by (cases ?s) simp_all
  then obtain d where d: "digit_val c = Some d" using dec [of c] by auto
  have plain: "\<not> has_prefix ?s ''-''" "\<not> has_prefix ?s ''+''"
    using digit_val_cases [OF d] by (auto simp: s has_prefix_def)
  have "ascii_lower c = c" using d by (auto simp: digit_val_def ascii_lower_def Let_def split: if_splits)
  then have word: "map ascii_lower ?s \<noteq> ''inf''" "map ascii_lower ?s \<noteq> ''infinity''" "map ascii_lower ?s \<noteq> ''nan''"
    using digit_val_cases [OF d] by (auto simp: s)
  have "readFloat ?s = Some (of_nat n)"
    using scanMantissa_digits [OF digits_val_itoa, where f = 0 and saw = False] underscoreOK_digits [OF dec]
    by (simp add: readFloat_def scalePow_def)
  moreover have "round64 (of_nat n) = Finite (of_nat n)" using round64_dyadic [OF n, of 0] n by simp
  ultimately show ?thesis using plain word by (simp add: ParseFloat_def)
qed

lemma unitFactors_facts:
  assumes "map_of unitFactors unit = Some (m, j)"
  shows "0 < m" and "b = [] \<or> b = ''B'' \<Longrightarrow> matchUnit (unit @ b) = (unit, b)"
    and "b = [] \<or> b = ''B'' \<Longrightarrow> unit @ b = [] \<or> \<not> isDec (hd (unit @ b)) \<and> hd (unit @ b) \<noteq> CHR ''.''"
  using assms
  by (auto simp: unitFactors_def matchUnit_def has_prefix_def digit_val_def split: if_splits)

lemma matchNumber_digits:
  assumes "\<And>c. c \<in> set s \<Longrightarrow> isDec c" and "s \<noteq> []"
    and "r = [] \<or> \<not> isDec (hd r) \<and> hd r \<noteq> CHR ''.''"
  shows "matchNumber (s @ r) = Some (s, r)"
proof -
  have "takeWhile isDec (s @ r) = s" and "dropWhile isDec (s @ r) = r"
    using assms(1,3) by (cases r; simp add: takeWhile_append2 dropWhile_append2)+
  moreover have "\<not> has_prefix r ''.''" using assms(3) by (cases r) (auto simp: has_prefix_def)
  ultimately show ?thesis using assms(2) by (simp add: matchNumber_def)
qed

lemma getCapacityInBytes_units:
  assumes "map_of unitFactors unit = Some (m, j)" and "b = [] \<or> b = ''B''"
    and "n * m < 2 ^ 53" and "n * m * 2 ^ j < 2 ^ 63"
  shows "getCapacityInBytes (itoa_nat n @ unit @ b) = Inr (int (n * m * 2 ^ j))"
proof -
  have dec: "isDec c" if "c \<in> set (itoa_nat n)" for c using digits_all [OF digits_val_itoa that] by simp
  have "matchCapacity (itoa_nat n @ unit @ b) = Some (itoa_nat n, unit)"
    using matchNumber_digits [OF dec itoa_nat_nonempty, where r = "unit @ b"] unitFactors_facts(2,3) [OF assms(1,2)] assms(2)
    by (auto simp: matchCapacity_def)
  moreover obtain c r where "itoa_nat n = c # r" by (cases "itoa_nat n") simp_all
  ultimately have found: "findCapacity (itoa_nat n @ unit @ b) = Some (itoa_nat n, unit)" by simp
  have "n \<le> n * m" using unitFactors_facts(1) [OF assms(1)] by simp
  then have val: "ParseFloat (itoa_nat n) = Inr (Finite (of_nat n))"
    using ParseFloat_itoa assms(3) by (meson le_less_trans)
  have "n * m * 2 ^ j < 2 ^ 1024"
    by (rule less_trans [OF assms(4)]) simp
  from round64_dyadic [OF assms(3) this]
  have "fmul (Finite (of_nat n)) (powers unit) = Finite (of_nat (n * m * 2 ^ j))"
    by (simp add: fmul_def powers_def assms(1) mult.assoc)
  then show ?thesis
    using toInt64_nat [OF assms(4)]
    by (simp add: getCapacityInBytes_def found val math_Round_nat del: of_nat_mult of_nat_power)
qed

section \<open>Theorems\<close>

text \<open>
  C32. Sizes are read exactly. A whole number of bytes, or of any decimal or binary unit from kilo
  to peta, with or without the letter \<^verbatim>\<open>B\<close>, gives the number of bytes that it says, although the
  code computes in floating point, as long as the number times the odd part of the unit has at most
  53 bits and the bytes fit into an \<^verbatim>\<open>int64\<close>.
\<close>

theorem getCapacityInBytes_exact:
  assumes "map_of unitFactors unit = Some (m, j)" and "b = [] \<or> b = ''B''"
    and "n * m < 2 ^ 53" and "n * m * 2 ^ j < 2 ^ 63"
  shows "getCapacityInBytes (itoa_nat n @ unit @ b) = Inr (int (n * m * 2 ^ j))"
  by (rule getCapacityInBytes_units [OF assms])

theorem getCapacityInBytes_exact_witness:
  "getCapacityInBytes (itoa_nat 3 @ ''GiB'') = Inr 3221225472"
  using getCapacityInBytes_exact [of "''Gi''" 1 30 "''B''" 3] by (simp add: unitFactors_def)

text \<open>
  A fixed padding is undone. The workflow controller removes from an allocation the padding that
  the directive breakdown put on it: for raw, XFS and GFS2 storage with no scaling factor and a padding
  that is empty or a size with a unit, whatever its text, removing gives back the capacity that was
  asked for, also where the sum overflows 64 bits.
\<close>

theorem fixed_padding_roundtrip:
  assumes "getScaledAndPaddedCapacity capacity [] padding = Inr padded"
    and "\<not> has_suffix padding ''%''" and "paddingOf allocationType p = padding"
    and "- (2 ^ 63) \<le> capacity" and "capacity < 2 ^ 63"
  shows "removeAllocationPadding allocationType padded p = Inr capacity"
proof (cases "padding = []")
  case True
  then show ?thesis
    using assms(1,3) by (simp add: getScaledAndPaddedCapacity_def getScaledCapacity_def removeAllocationPadding_def)
next
  case False
  then obtain c where c: "getCapacityInBytes padding = Inr c" and padded: "padded = wrap64 (capacity + c)"
    using assms(1,2) by (auto simp: getScaledAndPaddedCapacity_def getScaledCapacity_def split: sum.splits)
  have "wrap64 (padded - c) = capacity"
    using wrap64_add [of "capacity + c" "- c"] wrap64_id [OF assms(4,5)] by (simp add: padded)
  moreover have "allocationType \<noteq> ''lustre''" using False assms(3) by (auto simp: paddingOf_def)
  ultimately show ?thesis using False assms(2,3) c by (simp add: removeAllocationPadding_def Let_def)
qed

definition paddedProfile :: "string \<Rightarrow> NnfStorageProfile" where
  "paddedProfile padding = zeroProfile\<lparr>prof_Data := zeroData\<lparr>pd_XFSStorage := zeroSharedData\<lparr>sd_AllocationPadding := padding\<rparr>\<rparr>\<rparr>"

theorem fixed_padding_roundtrip_witness:
  "getScaledAndPaddedCapacity 1000 [] (itoa_nat 100 @ ''MiB'') = Inr 104858600 \<and>
   removeAllocationPadding ''xfs'' 104858600 (paddedProfile (itoa_nat 100 @ ''MiB'')) = Inr 1000"
proof -
  have hundred: "itoa_nat 100 = ''100''" by (simp add: itoa_nat.simps digit_char_def)
  have size: "getCapacityInBytes ''100MiB'' = Inr 104857600"
    using getCapacityInBytes_units [of "''Mi''" 1 20 "''B''" 100] by (simp add: unitFactors_def hundred)
  have padded: "getScaledAndPaddedCapacity 1000 [] ''100MiB'' = Inr 104858600"
    by (simp add: getScaledAndPaddedCapacity_def getScaledCapacity_def has_suffix_def size wrap64_def)
  have "removeAllocationPadding ''xfs'' 104858600 (paddedProfile ''100MiB'') = Inr 1000"
    by (rule fixed_padding_roundtrip [OF padded]) (simp_all add: has_suffix_def paddingOf_def paddedProfile_def)
  with padded show ?thesis by (simp add: hundred)
qed

lemma ParseFloat_10: "ParseFloat ''10'' = Inr (Finite 10)"
  using ParseFloat_itoa [of 10] by (simp add: itoa_nat.simps digit_char_def)

lemma hundredth_value: "hundredth = Finite (5764607523034235 / 576460752303423488)"
  unfolding hundredth_def
  by (subst round64_nearest [where e = "- 59" and n = 5764607523034235]) (simp_all add: pow2_def)

lemma ten_percent: "fmul (Finite 10) hundredth = Finite (3602879701896397 / 36028797018963968)"
  unfolding hundredth_value fmul_def prod.case float64.case
  by (subst round64_nearest [where e = "- 56" and n = 7205759403792794]) (simp_all add: pow2_def)

lemma ofInt64_small: "n < 2 ^ 53 \<Longrightarrow> ofInt64 (int n) = Finite (of_nat n)"
  using round64_dyadic [of n 0] by (simp add: ofInt64_def)

lemma tenth_of_1000: "fmul (Finite (3602879701896397 / 36028797018963968)) (ofInt64 1000) = Finite 100"
  using ofInt64_small [of 1000] unfolding fmul_def
  by (simp, subst round64_nearest [where e = "- 46" and n = 7036874417766400]) (simp_all add: pow2_def)

lemma factor_of_10_percent:
  "fadd (Finite (3602879701896397 / 36028797018963968)) (Finite 1) = Finite (2476979795053773 / 2251799813685248)"
  unfolding fadd_def prod.case float64.case
  by (subst round64_nearest [where e = "- 52" and n = 4953959590107546]) (simp_all add: pow2_def)

lemma quotient_of_1100:
  "fdiv (ofInt64 1100) (Finite (2476979795053773 / 2251799813685248)) = Finite (8796093022207999 / 8796093022208)"
  using ofInt64_small [of 1100] unfolding fdiv_def
  by (simp, subst round64_nearest [where e = "- 43" and n = 8796093022207999]) (simp_all add: pow2_def)

text \<open>
  A percentage is not undone exactly: 1000 bytes padded by \<^verbatim>\<open>10%\<close> are 1100 bytes, and removing the
  padding gives 999, because the factor 1.1 is rounded up and the quotient truncated. The user gets
  one byte less than the directive asked for.
\<close>

theorem percent_padding_loses_byte:
  "getScaledAndPaddedCapacity 1000 [] ''10%'' = Inr 1100 \<and>
   removeAllocationPadding ''xfs'' 1100 (paddedProfile ''10%'') = Inr 999"
proof
  show "getScaledAndPaddedCapacity 1000 [] ''10%'' = Inr 1100"
    by (simp add: getScaledAndPaddedCapacity_def getScaledCapacity_def has_suffix_def ParseFloat_10 ten_percent
        tenth_of_1000 toInt64_def wrap64_def)
  have "\<lfloor>8796093022207999 / 8796093022208 :: rat\<rfloor> = 999" by (rule floor_unique) simp_all
  then show "removeAllocationPadding ''xfs'' 1100 (paddedProfile ''10%'') = Inr 999"
    by (simp add: removeAllocationPadding_def paddingOf_def paddedProfile_def has_suffix_def ParseFloat_10 ten_percent
        factor_of_10_percent quotient_of_1100 toInt64_def)
qed

text \<open>
  A size in lower-case kilo is zero: the expression admits \<^verbatim>\<open>k\<close> and \<^verbatim>\<open>ki\<close>, but the table of powers
  has neither, so every such size reads as 0 bytes without an error.
\<close>

theorem lower_case_kilo_is_zero:
  assumes "n < 2 ^ 53" and "unit = ''k'' \<or> unit = ''ki''" and "b = [] \<or> b = ''B''"
  shows "getCapacityInBytes (itoa_nat n @ unit @ b) = Inr 0"
proof -
  have dec: "isDec c" if "c \<in> set (itoa_nat n)" for c using digits_all [OF digits_val_itoa that] by simp
  have "matchCapacity (itoa_nat n @ unit @ b) = Some (itoa_nat n, unit)"
    using matchNumber_digits [OF dec itoa_nat_nonempty, where r = "unit @ b"] assms(2,3)
    by (auto simp: matchCapacity_def matchUnit_def has_prefix_def digit_val_def)
  moreover obtain c r where "itoa_nat n = c # r" by (cases "itoa_nat n") simp_all
  ultimately have found: "findCapacity (itoa_nat n @ unit @ b) = Some (itoa_nat n, unit)" by simp
  have "map_of unitFactors ''k'' = None" and "map_of unitFactors ''ki'' = None" by (simp_all add: unitFactors_def)
  then have "powers unit = Finite 0" using assms(2) by (auto simp: powers_def)
  then show ?thesis
    using ParseFloat_itoa [OF assms(1)]
    by (simp add: getCapacityInBytes_def found fmul_def round64_def math_Round_nat [of 0, simplified] toInt64_def)
qed

theorem lower_case_kilo_is_zero_witness: "getCapacityInBytes (itoa_nat 100 @ ''k'' @ ''B'') = Inr 0"
  by (rule lower_case_kilo_is_zero) simp_all

definition int64 :: "int \<Rightarrow> bool" where
  "int64 x \<longleftrightarrow> - (2 ^ 63) \<le> x \<and> x < 2 ^ 63"

lemma int64_wrap64 [simp]: "int64 (wrap64 x)"
  using wrap64_bounds by (simp add: int64_def)

lemma int64_toInt64 [simp]: "int64 (toInt64 x)"
  by (simp add: int64_def toInt64_def Let_def split: float64.splits)

lemma int64_getCapacityInBytes: "getCapacityInBytes s = Inr r \<Longrightarrow> int64 r"
  unfolding getCapacityInBytes_def by (auto split: option.splits sum.splits)

lemma int64_getScaledCapacity: "int64 capacity \<Longrightarrow> getScaledCapacity capacity f = Inr r \<Longrightarrow> int64 r"
  unfolding getScaledCapacity_def by (auto split: sum.splits if_splits)

lemma int64_getScaledAndPaddedCapacity:
  "int64 capacity \<Longrightarrow> getScaledAndPaddedCapacity capacity f padding = Inr r \<Longrightarrow> int64 r"
  unfolding getScaledAndPaddedCapacity_def
  by (cases "getScaledCapacity capacity f") (auto simp: int64_getScaledCapacity split: sum.splits if_splits)

lemma int64_removeAllocationPadding:
  "int64 capacity \<Longrightarrow> removeAllocationPadding allocationType capacity p = Inr r \<Longrightarrow> int64 r"
  unfolding removeAllocationPadding_def Let_def by (auto split: sum.splits if_splits)



end
