(* ===== verification/DwDirective.thy ===== *)
theory DwDirective
  imports Capacity
begin

text \<open>
  \<^verbatim>\<open>dws/utils/dwdparse\<close>: the arguments of a \<^verbatim>\<open>#DW\<close> directive, and the resources of the Data Workflow
  Services that are made from directives: persistent storage instances and directive breakdowns.
\<close>

section \<open>Arguments\<close>

definition emptyValue :: string where
  "emptyValue = ''$$empty_value_123456$$''"

fun addArgs :: "string \<Rightarrow> string list \<Rightarrow> kv \<Rightarrow> kv res" where
  "addArgs dwd [] argsMap = Inr argsMap"
| "addArgs dwd (arg # args) argsMap =
     (let keyValue = go_split (CHR ''='') arg; key = hd keyValue in
      if map_of argsMap key \<noteq> None
      then Inl (Fail (''repeated argument '' @ CHR 0x27 # key @ CHR 0x27 # '' in directive '' @ CHR 0x27 # dwd @ [CHR 0x27]))
      else addArgs dwd args
        (kv_put key
          (if length keyValue = 1 then emptyValue
           else if length keyValue = 2 then keyValue ! 1
           else go_split2 (CHR ''='') arg ! 1) argsMap))"

definition BuildArgsMap :: "string \<Rightarrow> kv res" where
  "BuildArgsMap dwd =
     (let dwdArgs = go_fields dwd in
      if dwdArgs = [] \<or> hd dwdArgs \<noteq> ''#DW''
      then Inl (Fail (''missing '' @ CHR 0x27 # ''#DW'' @ CHR 0x27 # '' prefix in directive '' @ CHR 0x27 # dwd @ [CHR 0x27]))
      else if length dwdArgs < 2 then Inl (Panic ''index out of range'')
      else addArgs dwd (drop 2 dwdArgs) [(''command'', dwdArgs ! 1)])"

section \<open>Persistent storage instances\<close>

abbreviation PersistentStorageNameLabel :: string where
  "PersistentStorageNameLabel \<equiv> ''dataworkflowservices.github.io/persistentstorage.name''"

abbreviation PersistentStorageNamespaceLabel :: string where
  "PersistentStorageNamespaceLabel \<equiv> ''dataworkflowservices.github.io/persistentstorage.namespace''"

abbreviation PSIStateCreating :: string where
  "PSIStateCreating \<equiv> ''Creating''"

abbreviation PSIStateActive :: string where
  "PSIStateActive \<equiv> ''Active''"

abbreviation PSIStateDegraded :: string where
  "PSIStateDegraded \<equiv> ''Degraded''"

abbreviation PSIStateDestroying :: string where
  "PSIStateDestroying \<equiv> ''Destroying''"

record PersistentStorageInstanceSpec =
  psp_Name :: string
  psp_FsType :: string
  psp_DWDirective :: string
  psp_UserID :: "32 word"
  psp_State :: string
  psp_ConsumerReferences :: "ObjectReference list"

record PersistentStorageInstanceStatus =
  pst_Servers :: ObjectReference
  pst_State :: string
  pst_Error :: "ResourceErrorInfo option"

record PersistentStorageInstance =
  psi_Meta :: ObjectMeta
  psi_Spec :: PersistentStorageInstanceSpec
  psi_Status :: PersistentStorageInstanceStatus

definition PSI_IsUsable :: "PersistentStorageInstance \<Rightarrow> bool" where
  "PSI_IsUsable psi = (pst_State (psi_Status psi) = PSIStateActive \<or> pst_State (psi_Status psi) = PSIStateDegraded)"

definition AddPersistentStorageLabels :: "ObjectMeta \<Rightarrow> ObjectMeta \<Rightarrow> ObjectMeta" where
  "AddPersistentStorageLabels child persistentStorage =
     child\<lparr>meta_Labels := kv_put PersistentStorageNamespaceLabel (meta_Namespace persistentStorage)
       (kv_put PersistentStorageNameLabel (meta_Name persistentStorage) (meta_Labels child))\<rparr>"

section \<open>Directive breakdowns\<close>

record AllocationSetColocationConstraint =
  acc_Type :: string
  acc_Key :: string

record AllocationSetConstraints =
  asc_Labels :: "string list"
  asc_Scale :: int
  asc_Count :: int
  asc_Colocation :: "AllocationSetColocationConstraint list"

record StorageAllocationSet =
  sal_AllocationStrategy :: string
  sal_MinimumCapacity :: int
  sal_Label :: string
  sal_Constraints :: AllocationSetConstraints

record StorageBreakdown =
  sbd_Lifetime :: string
  sbd_Reference :: ObjectReference
  sbd_AllocationSets :: "StorageAllocationSet list"

record ComputeLocationAccess =
  cla_Type :: string
  cla_Priority :: string

record ComputeLocationConstraint =
  clc_Access :: "ComputeLocationAccess list"
  clc_Reference :: ObjectReference

record ComputeConstraints =
  ccn_Location :: "ComputeLocationConstraint list"

record ComputeBreakdown =
  cbd_Constraints :: ComputeConstraints

record DirectiveBreakdownSpec =
  dbs_Directive :: string
  dbs_UserID :: "32 word"

record DirectiveBreakdownStatus =
  dst_Storage :: "StorageBreakdown option"
  dst_Compute :: "ComputeBreakdown option"
  dst_Ready :: bool
  dst_Requires :: "string list"
  dst_Error :: "ResourceErrorInfo option"

record DirectiveBreakdown =
  dbd_Meta :: ObjectMeta
  dbd_Spec :: DirectiveBreakdownSpec
  dbd_Status :: DirectiveBreakdownStatus

section \<open>Facts about the arguments\<close>

lemma addArgs_extends:
  "addArgs dwd args m = Inr m' \<Longrightarrow> kv_wf m \<Longrightarrow> kv_wf m' \<and> map_of m \<subseteq>\<^sub>m map_of m'"
proof (induction dwd args m rule: addArgs.induct)
  case (2 dwd arg args m)
  let ?key = "hd (go_split (CHR ''='') arg)"
  from 2(2) have none: "map_of m ?key = None" by (auto simp: Let_def split: if_splits)
  obtain v where rest: "addArgs dwd args (kv_put ?key v m) = Inr m'"
      and IH: "kv_wf m' \<and> map_of (kv_put ?key v m) \<subseteq>\<^sub>m map_of m'"
    using 2 none by (auto simp: Let_def split: if_splits)
  have "map_of m \<subseteq>\<^sub>m map_of (kv_put ?key v m)"
    using none by (auto simp: map_le_def map_of_kv_put)
  then show ?case using IH map_le_trans by blast
qed (simp add: map_le_refl)

lemma BuildArgsMap_command:
  assumes "BuildArgsMap dwd = Inr args"
  shows "kv_wf args" and "map_of args ''command'' = Some (go_fields dwd ! 1)"
  using assms addArgs_extends [of dwd "drop 2 (go_fields dwd)" "[(''command'', go_fields dwd ! 1)]" args]
  by (auto simp: BuildArgsMap_def Let_def kv_wf_def map_le_def split: if_splits)

end
