(* ===== verification/Servers.thy ===== *)
theory Servers
  imports StorageTypes
begin

text \<open>
  \<^verbatim>\<open>internal/controller/dws_servers_controller.go\<close>: the controller that reports in a Servers resource
  how much was allocated on every Rabbit, from the node storages and node block storages that
  belong to the NnfStorage of the same name.
\<close>

section \<open>The status\<close>

text \<open>The client, the lists by label, the clock and the batch time of the environment are parameters.\<close>

record 'w serversKube =
  svk_Servers :: "(Servers, 'w) kclient"
  svk_GetStorage :: "string \<Rightarrow> string \<Rightarrow> ('w, NnfStorage) io"
  svk_ListNodeStorage :: "kv \<Rightarrow> ('w, NnfNodeStorage list) io"
  svk_ListBlockStorage :: "kv \<Rightarrow> ('w, NnfNodeBlockStorage list) io"
  svk_Now :: "('w, int) io"
  svk_BatchTime :: string

text \<open>
  \<^verbatim>\<open>reflect.DeepEqual\<close> does not see the order of a map: two statuses are compared with their maps
  as sets of entries.
\<close>

definition statusView ::
  "Servers \<Rightarrow> bool \<times> int option \<times> (string \<times> (string \<times> ServersStatusStorage) set) list \<times> ResourceErrorInfo option" where
  "statusView s = (let st = sv_Status s in
     (svt_Ready st, svt_LastUpdate st,
      map (\<lambda>a. (sra_Label a, set (sra_Storage a))) (svt_AllocationSets st), svt_Error st))"

definition sameServers :: "Servers \<Rightarrow> Servers \<Rightarrow> bool" where
  "sameServers a b = (sv_Meta a = sv_Meta b \<and> sv_AllocationSets a = sv_AllocationSets b \<and> statusView a = statusView b)"

definition updServers :: "(ServersStatus \<Rightarrow> ServersStatus) \<Rightarrow> Servers \<Rightarrow> Servers" where
  "updServers f s = s\<lparr>sv_Status := f (sv_Status s)\<rparr>"

definition emptyStorage :: "ServersSpecAllocationSet \<Rightarrow> ServersStatusAllocationSet" where
  "emptyStorage spec =
     \<lparr>sra_Label = ssa_Label spec,
      sra_Storage = foldl (\<lambda>m storage. AList.update (sss_Name storage) \<lparr>srs_AllocationSize = 0, srs_Ready = False\<rparr> m)
        [] (ssa_Storage spec)\<rparr>"

definition clearAllocationStatus :: "Servers \<Rightarrow> Servers" where
  "clearAllocationStatus s = updServers (\<lambda>st. st\<lparr>svt_AllocationSets := map emptyStorage (sv_AllocationSets s)\<rparr>) s"

abbreviation millisecond :: int where
  "millisecond \<equiv> 1000000"

definition batchDelay :: "'w serversKube \<Rightarrow> int" where
  "batchDelay k = wrap64 (millisecond * (case atoi (svk_BatchTime k) of None \<Rightarrow> 0 | Some n \<Rightarrow> n))"

definition writeServers :: "'w serversKube \<Rightarrow> (Servers \<times> 'w, Result) io" where
  "writeServers k =
     bindE (sndE (svk_Now k)) (\<lambda>t.
     bindE (modifyE (updServers (\<lambda>st. st\<lparr>svt_LastUpdate := Some t\<rparr>))) (\<lambda>_.
       catchE (bindE (storeE (kc_UpdateStatus (svk_Servers k))) (\<lambda>_. retE doneResult))
         (\<lambda>e. if IsConflict e then retE requeueResult else failE e)))"

definition statusUpdate :: "'w serversKube \<Rightarrow> bool \<Rightarrow> (Servers \<times> 'w, Result) io" where
  "statusUpdate k batch = bindE getE (\<lambda>s.
     case (batch, svt_LastUpdate (sv_Status s)) of
       (True, Some lastUpdate) \<Rightarrow>
         bindE (sndE (svk_Now k)) (\<lambda>t.
           if t < lastUpdate + batchDelay k then retE (requeueAfter (batchDelay k))
           else writeServers k)
     | _ \<Rightarrow> writeServers k)"

definition statusSetEmpty :: "'w serversKube \<Rightarrow> (Servers \<times> 'w, Result) io" where
  "statusSetEmpty k = bindE getE (\<lambda>originalServers.
     bindE (modifyE clearAllocationStatus) (\<lambda>_.
     bindE getE (\<lambda>s.
       if sameServers originalServers s then retE doneResult else statusUpdate k False)))"

section \<open>Capacity\<close>

text \<open>
  Per namespace, that is, per Rabbit: whether all its node storages are ready, and the sum of its
  allocated capacities.
\<close>

definition addReady :: "(string \<times> bool) list \<Rightarrow> NnfNodeStorage \<Rightarrow> (string \<times> bool) list" where
  "addReady m n =
     (let name = meta_Namespace (ns_Meta n) in
      if nst_Ready (ns_Status n)
      then (if map_of m name = None then AList.update name True m else m)
      else AList.update name False m)"

definition serversReadyMap :: "NnfNodeStorage list \<Rightarrow> (string \<times> bool) list" where
  "serversReadyMap items = foldl addReady [] items"

definition allocationSize :: "NnfNodeBlockStorage \<Rightarrow> int" where
  "allocationSize b =
     foldl (\<lambda>n a. wrap64 (n + nbl_CapacityAllocated a)) 0 (nbs_Allocations (nb_Status b))"

definition addCapacity :: "(string \<times> int) list \<Rightarrow> NnfNodeBlockStorage \<Rightarrow> (string \<times> int) list" where
  "addCapacity m b =
     (let name = meta_Namespace (nb_Meta b) in
      case map_of m name of
        Some c \<Rightarrow> AList.update name (wrap64 (c + allocationSize b)) m
      | None \<Rightarrow> AList.update name (allocationSize b) m)"

definition capacityAllocatedMap :: "NnfNodeBlockStorage list \<Rightarrow> (string \<times> int) list" where
  "capacityAllocatedMap items = foldl addCapacity [] items"

type_synonym storageMap = "(string \<times> ServersStatusStorage) list"

definition putReady :: "storageMap \<Rightarrow> (string \<times> bool) list \<Rightarrow> storageMap" where
  "putReady m rs = foldl (\<lambda>m (name, r). AList.update name \<lparr>srs_AllocationSize = 0, srs_Ready = r\<rparr> m) m rs"

definition putSizes :: "storageMap \<Rightarrow> (string \<times> int) list \<Rightarrow> storageMap" where
  "putSizes m cs = foldl (\<lambda>m (name, c).
     AList.update name \<lparr>srs_AllocationSize = c,
       srs_Ready = (case map_of m name of Some st \<Rightarrow> srs_Ready st | None \<Rightarrow> False)\<rparr> m) m cs"

definition updStorage :: "nat \<Rightarrow> (storageMap \<Rightarrow> storageMap) \<Rightarrow> Servers \<Rightarrow> Servers" where
  "updStorage i f = updServers (\<lambda>st. st\<lparr>svt_AllocationSets :=
     (svt_AllocationSets st)[i := (svt_AllocationSets st ! i)\<lparr>sra_Storage := f (sra_Storage (svt_AllocationSets st ! i))\<rparr>]\<rparr>)"

definition storageAt :: "nat \<Rightarrow> Servers \<Rightarrow> storageMap" where
  "storageAt i s = sra_Storage (svt_AllocationSets (sv_Status s) ! i)"

fun labelIndex :: "string \<Rightarrow> ServersSpecAllocationSet list \<Rightarrow> nat option" where
  "labelIndex label [] = None"
| "labelIndex label (a # as) =
     (if ssa_Label a = label then Some 0 else map_option Suc (labelIndex label as))"

text \<open>The loop variables: \<^verbatim>\<open>ready\<close>, \<^verbatim>\<open>expectedAllocations\<close>, \<^verbatim>\<open>actualAllocations\<close>.\<close>

record capacityAcc =
  ca_ready :: bool
  ca_expected :: int
  ca_actual :: int

definition capacitySet ::
  "'w serversKube \<Rightarrow> NnfStorage \<Rightarrow> NnfStorageAllocationSetSpec \<Rightarrow> NnfStorageAllocationSetStatus \<Rightarrow>
   capacityAcc \<Rightarrow> (Servers \<times> 'w, capacityAcc) io" where
  "capacitySet k nnfStorage spec allocationSet acc = bindE getE (\<lambda>s.
     let label = sas_Name spec;
         nodes = sas_Nodes spec;
         labels = kv_put AllocationSetLabel label (MatchingOwner ''NnfStorage'' (nstg_Meta nnfStorage)) in
     case labelIndex label (sv_AllocationSets s) of
       None \<Rightarrow> failE (ResErr (WithFatal (NewResourceError (''unable to find allocation label '' @ label))))
     | Some i \<Rightarrow>
         bindE (sndE (svk_ListNodeStorage k labels)) (\<lambda>nnfNodeStorages.
         bindE (modifyE (updStorage i (\<lambda>m. putReady m (serversReadyMap nnfNodeStorages)))) (\<lambda>_.
         bindE (sndE (svk_ListBlockStorage k labels)) (\<lambda>nnfNodeBlockStorages.
         bindE (modifyE (updStorage i (\<lambda>m. putSizes m (capacityAllocatedMap nnfNodeBlockStorages)))) (\<lambda>_.
         bindE getE (\<lambda>s'.
           retE \<lparr>ca_ready = sts_Ready allocationSet \<and>
                    length nnfNodeStorages = length nodes \<and>
                    length nnfNodeBlockStorages = length nodes \<and>
                    list_all (\<lambda>b. list_all (\<lambda>a. nbl_CapacityAllocated a \<noteq> 0) (nbs_Allocations (nb_Status b)))
                      nnfNodeBlockStorages \<and>
                    list_all (\<lambda>(name, st). srs_AllocationSize st \<noteq> 0) (storageAt i s'),
                 ca_expected = foldl (\<lambda>n node. wrap64 (n + san_Count node)) (ca_expected acc) nodes,
                 ca_actual = wrap64 (ca_actual acc + sts_AllocationCount allocationSet)\<rparr>))))))"

text \<open>The status of the NnfStorage may have fewer sets than its specification: the loop ends there.\<close>

fun capacitySets ::
  "'w serversKube \<Rightarrow> NnfStorage \<Rightarrow> NnfStorageAllocationSetSpec list \<Rightarrow> NnfStorageAllocationSetStatus list \<Rightarrow>
   capacityAcc \<Rightarrow> (Servers \<times> 'w, capacityAcc) io" where
  "capacitySets k nnfStorage [] statuses acc = retE acc"
| "capacitySets k nnfStorage (spec # specs) [] acc = retE (acc\<lparr>ca_ready := False\<rparr>)"
| "capacitySets k nnfStorage (spec # specs) (status # statuses) acc =
     bindE (capacitySet k nnfStorage spec status acc) (\<lambda>acc'. capacitySets k nnfStorage specs statuses acc')"

definition finishCapacity :: "'w serversKube \<Rightarrow> Servers \<Rightarrow> capacityAcc \<Rightarrow> (Servers \<times> 'w, Result) io" where
  "finishCapacity k originalServers acc =
     bindE (modifyE (updServers (\<lambda>st. st\<lparr>svt_Ready := svt_Ready st \<or> ca_ready acc\<rparr>))) (\<lambda>_.
     bindE getE (\<lambda>s.
       if sameServers originalServers s then retE doneResult
       else statusUpdate k (\<not> (ca_expected acc = ca_actual acc \<or> ca_actual acc = 0))))"

definition updateCapacityUsed :: "'w serversKube \<Rightarrow> (Servers \<times> 'w, Result) io" where
  "updateCapacityUsed k = bindE getE (\<lambda>originalServers.
     if svt_AllocationSets (sv_Status originalServers) = [] then retE doneResult
     else bindE (tryE (sndE (svk_GetStorage k (meta_Namespace (sv_Meta originalServers)) (meta_Name (sv_Meta originalServers))))) (\<lambda>got.
       case got of
         Inl e \<Rightarrow> if IsNotFound e then statusSetEmpty k else failE e
       | Inr nnfStorage \<Rightarrow>
           bindE (modifyE clearAllocationStatus) (\<lambda>_.
           bindE (capacitySets k nnfStorage (ssp_AllocationSets (nstg_Spec nnfStorage))
                    (nsts_AllocationSets (nstg_Status nnfStorage))
                    \<lparr>ca_ready = True, ca_expected = 0, ca_actual = 0\<rparr>) (\<lambda>acc.
             finishCapacity k originalServers acc))))"

section \<open>Reconcile\<close>

definition checkDeletedStorage :: "'w serversKube \<Rightarrow> (Servers \<times> 'w, bool) io" where
  "checkDeletedStorage k = bindE getE (\<lambda>s.
     bindE (tryE (sndE (svk_GetStorage k (meta_Namespace (sv_Meta s)) (meta_Name (sv_Meta s))))) (\<lambda>got.
       case got of
         Inl e \<Rightarrow> if IsNotFound e then retE True else failE e
       | Inr _ \<Rightarrow> retE False))"

abbreviation finalizerNnfServers :: string where
  "finalizerNnfServers \<equiv> ''nnf.cray.hpe.com/nnf-servers''"

definition setServersFinalizers :: "(string list \<Rightarrow> string list) \<Rightarrow> Servers \<Rightarrow> Servers" where
  "setServersFinalizers f s = s\<lparr>sv_Meta := (sv_Meta s)\<lparr>meta_Finalizers := f (meta_Finalizers (sv_Meta s))\<rparr>\<rparr>"

definition deleteServers :: "'w serversKube \<Rightarrow> (Servers \<times> 'w, Result) io" where
  "deleteServers k = bindE getE (\<lambda>s.
     if \<not> ContainsFinalizer finalizerNnfServers (meta_Finalizers (sv_Meta s)) then retE doneResult
     else bindE (checkDeletedStorage k) (\<lambda>complete.
       if \<not> complete then updateCapacityUsed k
       else bindE (modifyE (setServersFinalizers (RemoveFinalizer finalizerNnfServers))) (\<lambda>_.
              updateOrRequeue (svk_Servers k))))"

definition setNotReady :: "Servers \<Rightarrow> Servers" where
  "setNotReady = updServers (\<lambda>st. st\<lparr>svt_Ready := False\<rparr>)"

definition serversBody :: "'w serversKube \<Rightarrow> (Servers \<times> 'w, Result) io" where
  "serversBody k = bindE getE (\<lambda>s.
     if meta_Deleting (sv_Meta s) then deleteServers k
     else if \<not> ContainsFinalizer finalizerNnfServers (meta_Finalizers (sv_Meta s)) then
       bindE (modifyE (setServersFinalizers (AddFinalizer finalizerNnfServers))) (\<lambda>_.
         catchE (bindE (storeE (kc_Update (svk_Servers k))) (\<lambda>_. retE doneResult)) (\<lambda>e. retE requeueResult))
     else if sv_AllocationSets s = [] then
       (if svt_LastUpdate (sv_Status s) = None
        then bindE (modifyE setNotReady) (\<lambda>_. statusUpdate k False)
        else retE doneResult)
     else if svt_AllocationSets (sv_Status s) = [] then
       bindE (modifyE setNotReady) (\<lambda>_. statusSetEmpty k)
     else updateCapacityUsed k)"

definition setServersError :: "failure option \<Rightarrow> Servers \<Rightarrow> Servers" where
  "setServersError err = updServers (\<lambda>st. st\<lparr>svt_Error := resourceError err\<rparr>)"

definition Servers_Reconcile ::
  "'w serversKube \<Rightarrow> string \<Rightarrow> string \<Rightarrow> 'w \<Rightarrow> Servers option outcome \<times> 'w" where
  "Servers_Reconcile k namespace name =
     reconcileObject (svk_Servers k) statusView setServersError namespace name (serversBody k)"

section \<open>What the maps hold\<close>

definition namespaceReady :: "NnfNodeStorage list \<Rightarrow> string \<Rightarrow> bool option" where
  "namespaceReady items name =
     (let here = filter (\<lambda>n. meta_Namespace (ns_Meta n) = name) items in
      if here = [] then None else Some (list_all (\<lambda>n. nst_Ready (ns_Status n)) here))"

definition blockTotal :: "NnfNodeBlockStorage \<Rightarrow> int" where
  "blockTotal b = sum_list (map nbl_CapacityAllocated (nbs_Allocations (nb_Status b)))"

definition namespaceTotal :: "NnfNodeBlockStorage list \<Rightarrow> string \<Rightarrow> int option" where
  "namespaceTotal items name =
     (let here = filter (\<lambda>b. meta_Namespace (nb_Meta b) = name) items in
      if here = [] then None else Some (wrap64 (sum_list (map blockTotal here))))"

lemma wrap64_sum: "foldl (\<lambda>n a. wrap64 (n + f a)) (wrap64 c) xs = wrap64 (c + sum_list (map f xs))"
  by (induction xs arbitrary: c) (simp_all add: wrap64_add add.assoc)

lemma wrap64_zero [simp]: "wrap64 0 = 0"
  by (simp add: wrap64_def)

lemma wrap64_wrap64 [simp]: "wrap64 (wrap64 x) = wrap64 x"
  using wrap64_add [of x 0] by simp

lemma allocationSize_total: "allocationSize b = wrap64 (blockTotal b)"
  unfolding allocationSize_def blockTotal_def using wrap64_sum [of nbl_CapacityAllocated 0] by simp

lemma addReady_distinct: "distinct (map fst m) \<Longrightarrow> distinct (map fst (addReady m n))"
  by (simp add: addReady_def Let_def distinct_update)

lemma serversReadyMap_distinct: "distinct (map fst (serversReadyMap items))"
  unfolding serversReadyMap_def by (induction items rule: rev_induct) (simp_all add: addReady_distinct)

lemma map_of_serversReadyMap: "map_of (serversReadyMap items) name = namespaceReady items name"
proof (induction items rule: rev_induct)
  case Nil
  then show ?case by (simp add: serversReadyMap_def namespaceReady_def)
next
  case (snoc n items)
  have "serversReadyMap (items @ [n]) = addReady (serversReadyMap items) n"
    by (simp add: serversReadyMap_def)
  with snoc show ?case
    by (auto simp: addReady_def namespaceReady_def Let_def update_conv' split: if_splits)
qed

lemma addCapacity_distinct: "distinct (map fst m) \<Longrightarrow> distinct (map fst (addCapacity m b))"
  by (simp add: addCapacity_def Let_def distinct_update split: option.splits)

lemma capacityAllocatedMap_distinct: "distinct (map fst (capacityAllocatedMap items))"
  unfolding capacityAllocatedMap_def by (induction items rule: rev_induct) (simp_all add: addCapacity_distinct)

lemma map_of_capacityAllocatedMap: "map_of (capacityAllocatedMap items) name = namespaceTotal items name"
proof (induction items rule: rev_induct)
  case Nil
  then show ?case by (simp add: capacityAllocatedMap_def namespaceTotal_def)
next
  case (snoc b items)
  have "wrap64 (wrap64 x + wrap64 y) = wrap64 (x + y)" for x y
    using wrap64_add [of x "wrap64 y"] wrap64_add [of y x] by (simp add: add.commute)
  with snoc show ?case
    by (auto simp: capacityAllocatedMap_def namespaceTotal_def addCapacity_def Let_def update_conv'
        allocationSize_total split: option.splits if_splits)
qed

lemma putReady_Cons:
  "putReady m ((name, r) # rs) = putReady (AList.update name \<lparr>srs_AllocationSize = 0, srs_Ready = r\<rparr> m) rs"
  by (simp add: putReady_def)

lemma map_of_putReady:
  "distinct (map fst rs) \<Longrightarrow> map_of (putReady m rs) name =
     (case map_of rs name of Some r \<Rightarrow> Some \<lparr>srs_AllocationSize = 0, srs_Ready = r\<rparr> | None \<Rightarrow> map_of m name)"
proof (induction rs arbitrary: m)
  case Nil
  then show ?case by (simp add: putReady_def)
next
  case (Cons p rs)
  obtain n r where p: "p = (n, r)" by (cases p)
  from Cons.prems p have "map_of rs n = None" by (simp add: map_of_eq_None_iff)
  with Cons p show ?case
    by (cases "name = n") (simp_all add: putReady_Cons update_conv' split: option.splits)
qed

lemma putSizes_Cons:
  "putSizes m ((name, c) # cs) = putSizes (AList.update name \<lparr>srs_AllocationSize = c,
     srs_Ready = (case map_of m name of Some st \<Rightarrow> srs_Ready st | None \<Rightarrow> False)\<rparr> m) cs"
  by (simp add: putSizes_def)

lemma map_of_putSizes:
  "distinct (map fst cs) \<Longrightarrow> map_of (putSizes m cs) name =
     (case map_of cs name of
        Some c \<Rightarrow> Some \<lparr>srs_AllocationSize = c,
                   srs_Ready = (case map_of m name of Some st \<Rightarrow> srs_Ready st | None \<Rightarrow> False)\<rparr>
      | None \<Rightarrow> map_of m name)"
proof (induction cs arbitrary: m)
  case Nil
  then show ?case by (simp add: putSizes_def)
next
  case (Cons p cs)
  obtain n c where p: "p = (n, c)" by (cases p)
  from Cons.prems p have "map_of cs n = None" by (simp add: map_of_eq_None_iff)
  with Cons p show ?case
    by (cases "name = n") (simp_all add: putSizes_Cons update_conv' split: option.splits)
qed

lemma map_of_zeroSizes:
  "map_of (foldl (\<lambda>m x. AList.update (f x) z m) [] xs) name = (if name \<in> f ` set xs then Some z else None)"
  by (induction xs rule: rev_induct) (auto simp: update_conv')

lemma map_of_emptyStorage:
  "map_of (sra_Storage (emptyStorage spec)) name =
     (if name \<in> sss_Name ` set (ssa_Storage spec) then Some \<lparr>srs_AllocationSize = 0, srs_Ready = False\<rparr> else None)"
  by (simp add: emptyStorage_def map_of_zeroSizes)

section \<open>The loop over the allocation sets\<close>

text \<open>
  Reads that answer from one snapshot of the cluster: the lists depend on the labels only.
\<close>

definition snapshot ::
  "'w serversKube \<Rightarrow> (kv \<Rightarrow> NnfNodeStorage list) \<Rightarrow> (kv \<Rightarrow> NnfNodeBlockStorage list) \<Rightarrow> bool" where
  "snapshot k nodes blocks \<longleftrightarrow>
     (\<forall>labels w. svk_ListNodeStorage k labels w = (Inr (nodes labels), w)) \<and>
     (\<forall>labels w. svk_ListBlockStorage k labels w = (Inr (blocks labels), w))"

definition setLabels :: "NnfStorage \<Rightarrow> NnfStorageAllocationSetSpec \<Rightarrow> kv" where
  "setLabels nnfStorage spec =
     kv_put AllocationSetLabel (sas_Name spec) (MatchingOwner ''NnfStorage'' (nstg_Meta nnfStorage))"

text \<open>What the status of one Rabbit should be, from the objects that were listed for the set.\<close>

definition expectedStorage ::
  "NnfNodeStorage list \<Rightarrow> NnfNodeBlockStorage list \<Rightarrow> ServersSpecAllocationSet \<Rightarrow> string \<Rightarrow> ServersStatusStorage option" where
  "expectedStorage items blocks spec name =
     (case namespaceTotal blocks name of
        Some c \<Rightarrow> Some \<lparr>srs_AllocationSize = c, srs_Ready = (namespaceReady items name = Some True)\<rparr>
      | None \<Rightarrow> (case namespaceReady items name of
          Some r \<Rightarrow> Some \<lparr>srs_AllocationSize = 0, srs_Ready = r\<rparr>
        | None \<Rightarrow> if name \<in> sss_Name ` set (ssa_Storage spec)
                  then Some \<lparr>srs_AllocationSize = 0, srs_Ready = False\<rparr> else None))"

lemma servers_simps [simp]:
  "sv_AllocationSets (updServers f s) = sv_AllocationSets s"
  "sv_AllocationSets (updStorage i g s) = sv_AllocationSets s"
  "length (svt_AllocationSets (sv_Status (updStorage i g s))) = length (svt_AllocationSets (sv_Status s))"
  "sv_AllocationSets (clearAllocationStatus s) = sv_AllocationSets s"
  "svt_AllocationSets (sv_Status (clearAllocationStatus s)) = map emptyStorage (sv_AllocationSets s)"
  by (simp_all add: updServers_def updStorage_def clearAllocationStatus_def)

lemma storageAt_updStorage:
  "storageAt j (updStorage i f s) =
     (if i = j \<and> j < length (svt_AllocationSets (sv_Status s)) then f (storageAt j s) else storageAt j s)"
  by (cases "i = j"; cases "j < length (svt_AllocationSets (sv_Status s))")
    (simp_all add: storageAt_def updStorage_def updServers_def list_update_beyond)

lemma labelIndex_Some: "labelIndex label as = Some i \<Longrightarrow> i < length as \<and> ssa_Label (as ! i) = label"
  by (induction as arbitrary: i) (auto split: if_splits)

lemma capacitySet_effect:
  assumes "snapshot k nodes blocks"
    and "capacitySet k st spec status acc (s, w) = (Inr acc', (s', w'))"
  obtains i where "labelIndex (sas_Name spec) (sv_AllocationSets s) = Some i"
    and "s' = updStorage i (\<lambda>m. putSizes m (capacityAllocatedMap (blocks (setLabels st spec))))
                (updStorage i (\<lambda>m. putReady m (serversReadyMap (nodes (setLabels st spec)))) s)"
    and "w' = w"
  using assms unfolding snapshot_def setLabels_def capacitySet_def
  by (auto simp: Let_def failE_apply retE_apply sndE_bind split: option.splits)

lemma capacitySets_Cons:
  assumes "capacitySets k st (spec # specs) statuses acc z = (Inr acc', z')"
  obtains "statuses = []" and "z' = z" and "acc' = acc\<lparr>ca_ready := False\<rparr>"
  | status statuses' acc1 z1 where "statuses = status # statuses'"
    and "capacitySet k st spec status acc z = (Inr acc1, z1)"
    and "capacitySets k st specs statuses' acc1 z1 = (Inr acc', z')"
  using assms by (cases statuses) (auto simp: bindE_eq_Inr retE_apply)

lemma capacitySets_keeps_set:
  assumes "snapshot k nodes blocks"
  shows "capacitySets k st specs statuses acc (s, w) = (Inr acc', (s', w')) \<Longrightarrow>
    labelIndex label (sv_AllocationSets s) = Some i \<Longrightarrow> label \<notin> sas_Name ` set specs \<Longrightarrow>
    storageAt i s' = storageAt i s"
proof (induction specs arbitrary: statuses acc s w)
  case Nil
  then show ?case by (simp add: retE_apply)
next
  case (Cons spec specs)
  from Cons.prems(1) show ?case
  proof (cases rule: capacitySets_Cons)
    case 1
    then show ?thesis by simp
  next
    case (2 status statuses' acc1 z1)
    obtain s1 w1 where z1: "z1 = (s1, w1)" by (cases z1)
    obtain j where j: "labelIndex (sas_Name spec) (sv_AllocationSets s) = Some j"
        and s1: "s1 = updStorage j (\<lambda>m. putSizes m (capacityAllocatedMap (blocks (setLabels st spec))))
                   (updStorage j (\<lambda>m. putReady m (serversReadyMap (nodes (setLabels st spec)))) s)"
      using capacitySet_effect [OF assms] 2(2) z1 by metis
    have "j \<noteq> i" using labelIndex_Some [OF j] labelIndex_Some [OF Cons.prems(2)] Cons.prems(3) by auto
    then have "storageAt i s1 = storageAt i s" and "sv_AllocationSets s1 = sv_AllocationSets s"
      by (simp_all add: s1 storageAt_updStorage)
    then show ?thesis using Cons.IH 2(3) z1 Cons.prems(2,3) by simp
  qed
qed

lemma capacitySet_storage:
  assumes "snapshot k nodes blocks"
    and "capacitySet k st spec status acc (s, w) = (Inr acc', (s', w'))"
    and "labelIndex (sas_Name spec) (sv_AllocationSets s) = Some i"
    and "i < length (svt_AllocationSets (sv_Status s))"
    and "storageAt i s = sra_Storage (emptyStorage (sv_AllocationSets s ! i))"
  shows "map_of (storageAt i s') name =
    expectedStorage (nodes (setLabels st spec)) (blocks (setLabels st spec)) (sv_AllocationSets s ! i) name"
proof -
  have s': "s' = updStorage i (\<lambda>m. putSizes m (capacityAllocatedMap (blocks (setLabels st spec))))
                (updStorage i (\<lambda>m. putReady m (serversReadyMap (nodes (setLabels st spec)))) s)"
    using capacitySet_effect [OF assms(1,2)] assms(3) by auto
  show ?thesis
    using assms(4)
    by (auto simp: s' storageAt_updStorage assms(5) map_of_putSizes map_of_putReady capacityAllocatedMap_distinct
        serversReadyMap_distinct map_of_capacityAllocatedMap map_of_serversReadyMap map_of_emptyStorage
        expectedStorage_def split: option.splits)
qed

lemma capacitySets_storage:
  assumes "snapshot k nodes blocks"
  shows "capacitySets k st specs statuses acc (s, w) = (Inr acc', (s', w')) \<Longrightarrow>
    length specs \<le> length statuses \<Longrightarrow> distinct (map sas_Name specs) \<Longrightarrow> spec \<in> set specs \<Longrightarrow>
    labelIndex (sas_Name spec) (sv_AllocationSets s) = Some i \<Longrightarrow>
    i < length (svt_AllocationSets (sv_Status s)) \<Longrightarrow>
    storageAt i s = sra_Storage (emptyStorage (sv_AllocationSets s ! i)) \<Longrightarrow>
    map_of (storageAt i s') name =
      expectedStorage (nodes (setLabels st spec)) (blocks (setLabels st spec)) (sv_AllocationSets s ! i) name"
proof (induction specs arbitrary: statuses acc s w)
  case Nil
  then show ?case by simp
next
  case (Cons sp specs)
  from Cons.prems(1) show ?case
  proof (cases rule: capacitySets_Cons)
    case 1
    then show ?thesis using Cons.prems(2) by simp
  next
    case (2 status statuses' acc1 z1)
    obtain s1 w1 where z1: "z1 = (s1, w1)" by (cases z1)
    note one = 2(2) [unfolded z1] and rest = 2(3) [unfolded z1]
    obtain j where j: "labelIndex (sas_Name sp) (sv_AllocationSets s) = Some j"
        and s1: "s1 = updStorage j (\<lambda>m. putSizes m (capacityAllocatedMap (blocks (setLabels st sp))))
                   (updStorage j (\<lambda>m. putReady m (serversReadyMap (nodes (setLabels st sp)))) s)"
      using capacitySet_effect [OF assms one] by metis
    have same: "sv_AllocationSets s1 = sv_AllocationSets s"
        "length (svt_AllocationSets (sv_Status s1)) = length (svt_AllocationSets (sv_Status s))"
      by (simp_all add: s1)
    show ?thesis
    proof (cases "spec = sp")
      case True
      have "sas_Name sp \<notin> sas_Name ` set specs" using Cons.prems(3) by simp
      then have "storageAt i s' = storageAt i s1"
        using capacitySets_keeps_set [OF assms rest] Cons.prems(5) same True by simp
      then show ?thesis
        using capacitySet_storage [OF assms one] Cons.prems(5-7) True by simp
    next
      case False
      then have in_rest: "spec \<in> set specs" using Cons.prems(4) by simp
      have "sas_Name spec \<noteq> sas_Name sp" using Cons.prems(3) in_rest by (auto simp: image_iff)
      then have "j \<noteq> i" using labelIndex_Some [OF j] labelIndex_Some [OF Cons.prems(5)] by auto
      then have "storageAt i s1 = storageAt i s" by (simp add: s1 storageAt_updStorage)
      then show ?thesis
        using Cons.IH [OF rest] Cons.prems(2,3,5-7) in_rest same 2(1) by simp
    qed
  qed
qed

section \<open>Theorems\<close>

text \<open>
  The Servers resource reports what was allocated. Let the lists of node storages and node
  block storages answer from one snapshot, let the allocation sets of the NnfStorage have
  different names and all have a status. After the loop of \<^verbatim>\<open>updateCapacityUsed\<close>, started from the
  cleared status, the entry of every Rabbit in every set is exactly this: its size is the 64-bit sum
  of all capacities that the block storages of the set in the Rabbit's namespace have allocated, it
  is ready iff the set has node storages there and all of them are ready, and a Rabbit of the
  specification on which nothing exists yet has size 0 and is not ready.
\<close>

theorem Servers_capacity_exact:
  assumes "snapshot k nodes blocks"
    and "capacitySets k st specs statuses acc (clearAllocationStatus s, w) = (Inr acc', (s', w'))"
    and "length specs \<le> length statuses" and "distinct (map sas_Name specs)" and "spec \<in> set specs"
    and "labelIndex (sas_Name spec) (sv_AllocationSets s) = Some i"
  shows "map_of (storageAt i s') name =
    expectedStorage (nodes (setLabels st spec)) (blocks (setLabels st spec)) (sv_AllocationSets s ! i) name"
  using capacitySets_storage [OF assms(1,2,3,4,5)] assms(6) labelIndex_Some [OF assms(6)]
  by (simp add: storageAt_def)

text \<open>The example: two sets, on one Rabbit each.\<close>

definition exSet :: "string \<Rightarrow> NnfStorageAllocationSetSpec" where
  "exSet name = \<lparr>sas_Name = name, sas_Capacity = 100,
     sas_Lustre = \<lparr>sls_TargetType = [], sls_BackFs = [], sls_MgsAddress = [], sls_PersistentMgsReference = emptyRef\<rparr>,
     sas_SharedAllocation = False, sas_CommandVariables = [], sas_Nodes = [\<lparr>san_Name = ''rabbit-1'', san_Count = 1\<rparr>]\<rparr>"

definition exComponents :: NnfStorageLustreComponents where
  "exComponents = \<lparr>lcomp_MDTs = [], lcomp_MGTs = [], lcomp_MGTMDTs = [], lcomp_OSTs = [], lcomp_NNFNodes = []\<rparr>"

definition exSetStatus :: "bool \<Rightarrow> NnfStorageAllocationSetStatus" where
  "exSetStatus r = \<lparr>sts_Ready = r, sts_Health = Healthy, sts_AllocationCount = 1\<rparr>"

definition exNnfStorage :: "NnfStorageAllocationSetSpec list \<Rightarrow> NnfStorageAllocationSetStatus list \<Rightarrow> NnfStorage" where
  "exNnfStorage specs statuses = \<lparr>nstg_Meta = zeroMeta\<lparr>meta_Name := ''wf-0'', meta_Namespace := ''default''\<rparr>,
     nstg_Spec = \<lparr>ssp_FileSystemType = ''lustre'', ssp_UserID = 0, ssp_GroupID = 0, ssp_AllocationSets = specs\<rparr>,
     nstg_Status = \<lparr>nsts_Lustre = \<lparr>slu_MgsAddress = [], slu_FileSystemName = [], slu_LustreMgtReference = emptyRef,
         slu_LustreComponents = exComponents\<rparr>,
       nsts_AllocationSets = statuses, nsts_Error = None, nsts_Health = Healthy, nsts_Ready = False\<rparr>\<rparr>"

definition exNodeStorageOf :: NnfNodeStorage where
  "exNodeStorageOf = \<lparr>ns_Meta = zeroMeta\<lparr>meta_Name := ''wf-0-0'', meta_Namespace := ''rabbit-1''\<rparr>,
     ns_Spec = \<lparr>nss_Count = 1, nss_SharedAllocation = False, nss_Capacity = 100, nss_UserID = 0, nss_GroupID = 0,
       nss_CommandVariables = [], nss_FileSystemType = ''lustre'',
       nss_LustreStorage = \<lparr>lss_FileSystemName = [], lss_TargetType = [], lss_StartIndex = 0, lss_MgsAddress = [],
         lss_BackFs = [], lss_LustreComponents = exComponents\<rparr>, nss_BlockReference = emptyRef\<rparr>,
     ns_Status = \<lparr>nst_Allocations = [], nst_Health = Healthy, nst_Ready = True, nst_Error = None\<rparr>\<rparr>"

definition exBlockStorageOf :: NnfNodeBlockStorage where
  "exBlockStorageOf = \<lparr>nb_Meta = zeroMeta\<lparr>meta_Name := ''wf-0-0'', meta_Namespace := ''rabbit-1''\<rparr>,
     nb_Spec = \<lparr>nbsp_SharedAllocation = False, nbsp_Allocations = []\<rparr>,
     nb_Status = \<lparr>nbs_Allocations = [\<lparr>nbl_Accesses = [], nbl_Devices = [], nbl_CapacityAllocated = 100, nbl_StoragePoolId = []\<rparr>],
       nbs_Error = None, nbs_PodStartTime = 0, nbs_Ready = True\<rparr>\<rparr>"

definition exServersOf :: "ServersSpecAllocationSet list \<Rightarrow> Servers" where
  "exServersOf sets = \<lparr>sv_Meta = zeroMeta\<lparr>meta_Name := ''wf-0'', meta_Namespace := ''default'',
       meta_Finalizers := [finalizerNnfServers]\<rparr>,
     sv_AllocationSets = sets,
     sv_Status = \<lparr>svt_Ready = False, svt_LastUpdate = Some 0, svt_AllocationSets = map emptyStorage sets, svt_Error = None\<rparr>\<rparr>"

definition exServersSet :: "string \<Rightarrow> ServersSpecAllocationSet" where
  "exServersSet label = \<lparr>ssa_Label = label, ssa_AllocationSize = 100,
     ssa_Storage = [\<lparr>sss_Name = ''rabbit-1'', sss_AllocationCount = 1\<rparr>]\<rparr>"

text \<open>A client that stores nothing and lists one node storage and one block storage for every set.\<close>

definition exServersKube :: "NnfStorage \<Rightarrow> Servers \<Rightarrow> unit serversKube" where
  "exServersKube st s = \<lparr>svk_Servers = \<lparr>kc_Get = \<lambda>_ _. retE s, kc_Create = retE, kc_Update = retE, kc_UpdateStatus = retE\<rparr>,
     svk_GetStorage = \<lambda>_ _. retE st, svk_ListNodeStorage = \<lambda>_. retE [exNodeStorageOf],
     svk_ListBlockStorage = \<lambda>_. retE [exBlockStorageOf], svk_Now = retE 5, svk_BatchTime = ''1000''\<rparr>"

lemma exServersKube_snapshot:
  "snapshot (exServersKube st s) (\<lambda>_. [exNodeStorageOf]) (\<lambda>_. [exBlockStorageOf])"
  by (simp add: snapshot_def exServersKube_def retE_apply)

lemma exServers_sets:
  "capacitySets (exServersKube (exNnfStorage [exSet ''ost''] [exSetStatus True]) (exServersOf [exServersSet ''ost'']))
     (exNnfStorage [exSet ''ost''] [exSetStatus True]) [exSet ''ost''] [exSetStatus True]
     \<lparr>ca_ready = True, ca_expected = 0, ca_actual = 0\<rparr> (clearAllocationStatus (exServersOf [exServersSet ''ost'']), ()) =
   (Inr \<lparr>ca_ready = True, ca_expected = 1, ca_actual = 1\<rparr>,
    (updStorage 0 (\<lambda>_. [(''rabbit-1'', \<lparr>srs_AllocationSize = 100, srs_Ready = True\<rparr>)]) (exServersOf [exServersSet ''ost'']), ()))"
  by code_simp

theorem Servers_capacity_exact_witness:
  "map_of (storageAt 0 (updStorage 0 (\<lambda>_. [(''rabbit-1'', \<lparr>srs_AllocationSize = 100, srs_Ready = True\<rparr>)])
      (exServersOf [exServersSet ''ost'']))) ''rabbit-1'' =
   expectedStorage [exNodeStorageOf] [exBlockStorageOf] (exServersSet ''ost'') ''rabbit-1''"
  using Servers_capacity_exact [OF exServersKube_snapshot exServers_sets, of "exSet ''ost''" 0 "''rabbit-1''"]
  by (simp add: exServersOf_def exServersSet_def exSet_def)

lemma capacitySets_append:
  "length ss = length specs \<Longrightarrow>
   capacitySets k st (specs @ specs') (ss @ ss') acc =
     bindE (capacitySets k st specs ss acc) (\<lambda>acc'. capacitySets k st specs' ss' acc')"
proof (induction ss specs arbitrary: acc rule: list_induct2)
  case (Cons x xs y ys)
  then have "capacitySets k st (ys @ specs') (xs @ ss') =
      (\<lambda>acc. bindE (capacitySets k st ys xs acc) (\<lambda>acc'. capacitySets k st specs' ss' acc'))"
    by (intro ext) simp
  then show ?case by (simp add: bindE_assoc)
qed simp

lemma capacitySet_ready:
  assumes "snapshot k nodes blocks"
    and "capacitySet k st spec status acc (s, w) = (Inr acc', (s', w'))"
    and "labelIndex (sas_Name spec) (sv_AllocationSets s) = Some i"
  shows "ca_ready acc' \<longleftrightarrow> sts_Ready status \<and>
    length (nodes (setLabels st spec)) = length (sas_Nodes spec) \<and>
    length (blocks (setLabels st spec)) = length (sas_Nodes spec) \<and>
    (\<forall>b \<in> set (blocks (setLabels st spec)). \<forall>a \<in> set (nbs_Allocations (nb_Status b)). nbl_CapacityAllocated a \<noteq> 0) \<and>
    (\<forall>(name, e) \<in> set (storageAt i s'). srs_AllocationSize e \<noteq> 0)"
  using assms unfolding snapshot_def setLabels_def capacitySet_def
  by (auto simp: Let_def failE_apply retE_apply sndE_bind list_all_iff split: option.splits)

lemma capacitySets_spec:
  assumes "snapshot k nodes blocks"
  shows "capacitySets k st specs statuses acc (s, w) = (Inr acc', (s', w')) \<Longrightarrow> sv_AllocationSets s' = sv_AllocationSets s"
proof (induction specs arbitrary: statuses acc s w)
  case Nil
  then show ?case by (simp add: retE_apply)
next
  case (Cons spec specs)
  from Cons.prems show ?case
  proof (cases rule: capacitySets_Cons)
    case 1
    then show ?thesis by simp
  next
    case (2 status statuses' acc1 z1)
    obtain s1 w1 where z1: "z1 = (s1, w1)" by (cases z1)
    have "sv_AllocationSets s1 = sv_AllocationSets s"
      by (rule capacitySet_effect [OF assms 2(2) [unfolded z1]]) simp
    then show ?thesis using Cons.IH 2(3) z1 by simp
  qed
qed

text \<open>
  Only the last allocation set decides whether the Servers resource becomes ready: \<^verbatim>\<open>ready\<close> is
  assigned, not combined, in every round of the loop, so what earlier sets lacked (a set that is not
  ready, missing node storages, an allocation of no size) is forgotten. The value after the loop
  depends on the status of the last set and on what was listed for it, and on no other status.
\<close>

theorem Servers_ready_last_set:
  assumes "snapshot k nodes blocks"
    and "capacitySets k st (specs @ [spec]) (ss @ [status]) acc (s, w) = (Inr acc', (s', w'))"
    and "length ss = length specs"
    and "labelIndex (sas_Name spec) (sv_AllocationSets s) = Some i"
  shows "ca_ready acc' \<longleftrightarrow> sts_Ready status \<and>
    length (nodes (setLabels st spec)) = length (sas_Nodes spec) \<and>
    length (blocks (setLabels st spec)) = length (sas_Nodes spec) \<and>
    (\<forall>b \<in> set (blocks (setLabels st spec)). \<forall>a \<in> set (nbs_Allocations (nb_Status b)). nbl_CapacityAllocated a \<noteq> 0) \<and>
    (\<forall>(name, e) \<in> set (storageAt i s'). srs_AllocationSize e \<noteq> 0)"
proof -
  from assms(2) obtain acc1 s1 w1
    where first: "capacitySets k st specs ss acc (s, w) = (Inr acc1, (s1, w1))"
      and last: "capacitySet k st spec status acc1 (s1, w1) = (Inr acc', (s', w'))"
    by (auto simp: capacitySets_append assms(3) bindE_eq_Inr retE_apply)
  have "labelIndex (sas_Name spec) (sv_AllocationSets s1) = Some i"
    using capacitySets_spec [OF assms(1) first] assms(4) by simp
  then show ?thesis by (rule capacitySet_ready [OF assms(1) last])
qed

lemma exServers_two_sets:
  "capacitySets (exServersKube (exNnfStorage [exSet ''mdt'', exSet ''ost''] [exSetStatus False, exSetStatus True])
       (exServersOf [exServersSet ''mdt'', exServersSet ''ost'']))
     (exNnfStorage [exSet ''mdt'', exSet ''ost''] [exSetStatus False, exSetStatus True])
     ([exSet ''mdt''] @ [exSet ''ost'']) ([exSetStatus False] @ [exSetStatus True])
     \<lparr>ca_ready = True, ca_expected = 0, ca_actual = 0\<rparr>
     (clearAllocationStatus (exServersOf [exServersSet ''mdt'', exServersSet ''ost'']), ()) =
   (Inr \<lparr>ca_ready = True, ca_expected = 2, ca_actual = 2\<rparr>,
    (updStorage 0 (\<lambda>_. [(''rabbit-1'', \<lparr>srs_AllocationSize = 100, srs_Ready = True\<rparr>)])
      (updStorage 1 (\<lambda>_. [(''rabbit-1'', \<lparr>srs_AllocationSize = 100, srs_Ready = True\<rparr>)])
        (exServersOf [exServersSet ''mdt'', exServersSet ''ost''])), ()))"
  by code_simp

theorem Servers_ready_last_set_witness:
  "\<not> sts_Ready (exSetStatus False) \<and>
   list_all (\<lambda>(name, e). srs_AllocationSize e \<noteq> 0) (storageAt 1
     (updStorage 0 (\<lambda>_. [(''rabbit-1'', \<lparr>srs_AllocationSize = 100, srs_Ready = True\<rparr>)])
      (updStorage 1 (\<lambda>_. [(''rabbit-1'', \<lparr>srs_AllocationSize = 100, srs_Ready = True\<rparr>)])
        (exServersOf [exServersSet ''mdt'', exServersSet ''ost'']))))"
  using Servers_ready_last_set [OF exServersKube_snapshot exServers_two_sets, of 1]
  by (simp add: list_all_iff exServersOf_def exServersSet_def exSet_def exSetStatus_def)

abbreviation serversHeld :: "Servers \<Rightarrow> bool" where
  "serversHeld s \<equiv> ContainsFinalizer finalizerNnfServers (meta_Finalizers (sv_Meta s))"

text \<open>A successful write answers with the finalizers that were sent.\<close>

definition writesKeepFinalizers :: "(Servers, 'w) kclient \<Rightarrow> bool" where
  "writesKeepFinalizers c \<longleftrightarrow>
     (\<forall>s w s' w'. kc_Update c s w = (Inr s', w') \<or> kc_UpdateStatus c s w = (Inr s', w') \<longrightarrow>
        meta_Finalizers (sv_Meta s') = meta_Finalizers (sv_Meta s))"

lemma sv_Meta_simps [simp]:
  "sv_Meta (updServers f s) = sv_Meta s" "sv_Meta (updStorage i g s) = sv_Meta s"
  "sv_Meta (clearAllocationStatus s) = sv_Meta s" "sv_Meta (setNotReady s) = sv_Meta s"
  by (simp_all add: updServers_def updStorage_def clearAllocationStatus_def setNotReady_def)

lemma keeps_writes:
  assumes "writesKeepFinalizers (svk_Servers k)"
  shows "keeps serversHeld (storeE (kc_Update (svk_Servers k)))"
    and "keeps serversHeld (storeE (kc_UpdateStatus (svk_Servers k)))"
  using assms by (auto intro!: keeps_rules simp: writesKeepFinalizers_def)

lemma keeps_statusUpdate:
  assumes "writesKeepFinalizers (svk_Servers k)"
  shows "keeps serversHeld (statusUpdate k batch)"
proof -
  have wr: "keeps serversHeld (writeServers k)"
    unfolding writeServers_def by (intro keeps_rules keeps_writes [OF assms]) simp
  have "keeps serversHeld (case (batch, lastUpdate) of
     (True, Some l) \<Rightarrow> bindE (sndE (svk_Now k)) (\<lambda>t.
         if t < l + batchDelay k then retE (requeueAfter (batchDelay k)) else writeServers k)
     | _ \<Rightarrow> writeServers k)" for lastUpdate
    by (cases batch; cases lastUpdate) (auto intro!: keeps_rules wr)
  then show ?thesis unfolding statusUpdate_def by (intro keeps_bindE keeps_basic)
qed

lemma keeps_capacitySets: "keeps serversHeld (capacitySets k st specs statuses acc)"
  by (induction k st specs statuses acc rule: capacitySets.induct)
    (simp_all add: keeps_basic keeps_bindE capacitySet_def Let_def, intro keeps_rules, simp_all)

lemma keeps_updateCapacityUsed:
  assumes "writesKeepFinalizers (svk_Servers k)"
  shows "keeps serversHeld (updateCapacityUsed k)" and "keeps serversHeld (statusSetEmpty k)"
  unfolding updateCapacityUsed_def finishCapacity_def statusSetEmpty_def
  by (intro keeps_rules keeps_statusUpdate [OF assms] keeps_capacitySets; simp)+

text \<open>
  The finalizer of a Servers resource goes only after its NnfStorage is gone: when the body of a
  reconcile removes it, the resource is being deleted and the API server has just answered that
  there is no NnfStorage of its name. The server's answers to writes are assumed to have the
  finalizers that were sent.
\<close>

theorem Servers_finalizer_last:
  assumes "writesKeepFinalizers (svk_Servers k)"
    and "serversBody k (s, w) = (r, (s', w'))"
    and "ContainsFinalizer finalizerNnfServers (meta_Finalizers (sv_Meta s))"
    and "\<not> ContainsFinalizer finalizerNnfServers (meta_Finalizers (sv_Meta s'))"
  shows "meta_Deleting (sv_Meta s) \<and>
    (\<exists>e w1. svk_GetStorage k (meta_Namespace (sv_Meta s)) (meta_Name (sv_Meta s)) w = (Inl e, w1) \<and> IsNotFound e)"
proof (cases "meta_Deleting (sv_Meta s)")
  case False
  let ?live = "if sv_AllocationSets s = [] then
       (if svt_LastUpdate (sv_Status s) = None
        then bindE (modifyE setNotReady) (\<lambda>_. statusUpdate k False)
        else retE doneResult)
     else if svt_AllocationSets (sv_Status s) = [] then
       bindE (modifyE setNotReady) (\<lambda>_. statusSetEmpty k)
     else updateCapacityUsed k"
  have kept: "keeps serversHeld ?live"
    by (intro keeps_rules keeps_statusUpdate keeps_updateCapacityUsed assms(1)) simp_all
  have run: "?live (s, w) = (r, (s', w'))"
    using assms(2,3) False by (simp add: serversBody_def)
  have "serversHeld s'" by (rule keepsD [OF kept assms(3) run])
  then show ?thesis using assms(4) by simp
next
  case True
  show ?thesis
  proof (cases "svk_GetStorage k (meta_Namespace (sv_Meta s)) (meta_Name (sv_Meta s)) w")
    case (Pair res w1)
    show ?thesis
    proof (cases res)
      case (Inr st)
      have "deleteServers k (s, w) = updateCapacityUsed k (s, w1)"
        using Pair Inr assms(3) by (simp add: deleteServers_def checkDeletedStorage_def sndE_apply tryE_bind bindE_assoc)
      then show ?thesis
        using keepsD [OF keeps_updateCapacityUsed(1) [OF assms(1)]] assms(2-4) True
        unfolding serversBody_def by simp
    next
      case (Inl e)
      then show ?thesis
        using Pair assms(2-4) True
        by (auto simp: serversBody_def deleteServers_def checkDeletedStorage_def sndE_apply tryE_bind bindE_assoc
            failE_apply split: if_splits)
    qed
  qed
qed

theorem Servers_finalizer_last_witness:
  "\<exists>e w1. (\<lambda>_ _ w. (Inl (ApiErr ReasonNotFound ''gone''), w)) ''default'' ''wf-0'' () = (Inl e, w1) \<and> IsNotFound e"
proof -
  let ?k = "(exServersKube (exNnfStorage [] []) (exServersOf []))\<lparr>svk_GetStorage := \<lambda>_ _ w. (Inl (ApiErr ReasonNotFound ''gone''), w)\<rparr>"
  let ?s = "setServersFinalizers (\<lambda>f. f) ((exServersOf [])\<lparr>sv_Meta := (sv_Meta (exServersOf []))\<lparr>meta_Deleting := True\<rparr>\<rparr>)"
  have "writesKeepFinalizers (svk_Servers ?k)"
    by (auto simp: writesKeepFinalizers_def exServersKube_def retE_apply)
  moreover have "serversBody ?k (?s, ()) = (Inr doneResult, (setServersFinalizers (\<lambda>_. []) ?s, ()))"
    by code_simp
  ultimately show ?thesis
    using Servers_finalizer_last [of ?k ?s "()" "Inr doneResult" "setServersFinalizers (\<lambda>_. []) ?s" "()"]
    by (simp add: setServersFinalizers_def exServersOf_def ContainsFinalizer_def zeroMeta_def)
qed

end
