(* ===== verification/PersistentStorage.thy ===== *)
theory PersistentStorage
  imports DwDirective Servers
begin

text \<open>
  \<^verbatim>\<open>internal/controller/nnf_persistentstorageinstance_controller.go\<close>: the controller of persistent
  storage. It pins a profile, makes the Servers resource, and reports when the storage can be used
  and when it is being destroyed.
\<close>

section \<open>Operations\<close>

record 'w psiKube =
  pk_PSI :: "(PersistentStorageInstance, 'w) kclient"
  pk_Servers :: "(Servers, 'w) kclient"
  pk_Profiles :: "'w profileClient"
  pk_ProfileNamespace :: string
  pk_GetStorage :: "string \<Rightarrow> string \<Rightarrow> ('w, NnfStorage) io"
  pk_StorageList :: "'w childKind"
  pk_ServersList :: "'w childKind"
  pk_ProfileList :: "'w childKind"

abbreviation finalizerPersistentStorage :: string where
  "finalizerPersistentStorage \<equiv> ''nnf.cray.hpe.com/persistentStorage''"

abbreviation StandaloneMGTLabel :: string where
  "StandaloneMGTLabel \<equiv> ''nnf.cray.hpe.com/standalone_mgt''"

definition PersistentStorage_getChildObjects :: "'w psiKube \<Rightarrow> 'w childKind list" where
  "PersistentStorage_getChildObjects k = [pk_StorageList k, pk_ServersList k, pk_ProfileList k]"

definition newServers :: "string \<Rightarrow> string \<Rightarrow> Servers" where
  "newServers name namespace =
     \<lparr>sv_Meta = zeroMeta\<lparr>meta_Name := name, meta_Namespace := namespace\<rparr>, sv_AllocationSets = [],
      sv_Status = \<lparr>svt_Ready = False, svt_LastUpdate = None, svt_AllocationSets = [], svt_Error = None\<rparr>\<rparr>"

definition PersistentStorage_createServers :: "'w psiKube \<Rightarrow> PersistentStorageInstance \<Rightarrow> ('w, Servers option) io" where
  "PersistentStorage_createServers k p =
     (let m = psi_Meta p in
      catchE
        (bindE (CreateOrUpdate (pk_Servers k) sv_Meta (newServers (meta_Name m) (meta_Namespace m))
           (\<lambda>server. liftE (map_sum id (\<lambda>m'. server\<lparr>sv_Meta := m'\<rparr>)
              (SetControllerReference ''PersistentStorageInstance'' m
                (AddPersistentStorageLabels (AddOwnerLabels ''PersistentStorageInstance'' m (sv_Meta server)) m)))))
           (\<lambda>(result, server). retE (Some server)))
        (\<lambda>e. if IsConflict e then retE None else failE e))"

definition updPsi :: "(PersistentStorageInstanceStatus \<Rightarrow> PersistentStorageInstanceStatus) \<Rightarrow>
    PersistentStorageInstance \<Rightarrow> PersistentStorageInstance" where
  "updPsi f p = p\<lparr>psi_Status := f (psi_Status p)\<rparr>"

definition setPsiState :: "string \<Rightarrow> PersistentStorageInstance \<Rightarrow> PersistentStorageInstance" where
  "setPsiState s = updPsi (\<lambda>st. st\<lparr>pst_State := s\<rparr>)"

definition setPsiFinalizers :: "(string list \<Rightarrow> string list) \<Rightarrow> PersistentStorageInstance \<Rightarrow> PersistentStorageInstance" where
  "setPsiFinalizers f p = p\<lparr>psi_Meta := (psi_Meta p)\<lparr>meta_Finalizers := f (meta_Finalizers (psi_Meta p))\<rparr>\<rparr>"

definition putPsiLabel :: "string \<Rightarrow> string \<Rightarrow> PersistentStorageInstance \<Rightarrow> PersistentStorageInstance" where
  "putPsiLabel l v p = p\<lparr>psi_Meta := (psi_Meta p)\<lparr>meta_Labels := kv_put l v (meta_Labels (psi_Meta p))\<rparr>\<rparr>"

definition deletePsi :: "'w psiKube \<Rightarrow> (PersistentStorageInstance \<times> 'w, Result) io" where
  "deletePsi k = bindE getE (\<lambda>p.
     if \<not> ContainsFinalizer finalizerPersistentStorage (meta_Finalizers (psi_Meta p)) then retE doneResult
     else if length (psp_ConsumerReferences (psi_Spec p)) \<noteq> 0 then retE doneResult
     else bindE (sndE (DeleteChildren (PersistentStorage_getChildObjects k) ''PersistentStorageInstance'' (psi_Meta p))) (\<lambda>complete.
       if \<not> complete then retE doneResult
       else bindE (modifyE (setPsiFinalizers (RemoveFinalizer finalizerPersistentStorage))) (\<lambda>_.
              updateOrRequeue (pk_PSI k))))"

definition psiUserError :: "string \<Rightarrow> failure" where
  "psiUserError msg = ResErr (WithUser (WithFatal (WithUserMessage msg (NewResourceError []))))"

text \<open>
  The label of a standalone MGT and the check of the \<^verbatim>\<open>capacity\<close> argument. Some result ends the
  reconcile. A resource without labels has a nil map, and a write to it is a panic.
\<close>

definition mgtLabel :: "'w psiKube \<Rightarrow> kv \<Rightarrow> NnfStorageProfile \<Rightarrow> (PersistentStorageInstance \<times> 'w, Result option) io" where
  "mgtLabel k argsMap profile =
     (let pool = mgt_StandaloneMGTPoolName (ld_MgtOptions (pd_LustreStorage (prof_Data profile))) in
      if labelOf ''type'' argsMap = ''lustre'' \<and> length pool > 0 then
        if map_of argsMap ''capacity'' \<noteq> None
        then failE (psiUserError (''creating persistent MGT does not accept '' @ CHR 0x27 # ''capacity'' @ CHR 0x27 # '' argument''))
        else bindE getE (\<lambda>p.
          if map_of (meta_Labels (psi_Meta p)) StandaloneMGTLabel \<noteq> None then retE None
          else if meta_Labels (psi_Meta p) = [] then failE (Panic ''assignment to entry in nil map'')
          else bindE (modifyE (putPsiLabel StandaloneMGTLabel pool)) (\<lambda>_.
            catchE (bindE (storeE (kc_Update (pk_PSI k))) (\<lambda>_. retE None))
              (\<lambda>e. if IsConflict e then retE (Some requeueResult) else failE e)))
      else if map_of argsMap ''capacity'' = None
      then failE (psiUserError (''creating persistent storage requires '' @ CHR 0x27 # ''capacity'' @ CHR 0x27 # '' argument''))
      else retE None)"

definition psiState :: "'w psiKube \<Rightarrow> string \<Rightarrow> string \<Rightarrow> (PersistentStorageInstance \<times> 'w, Result) io" where
  "psiState k namespace name = bindE getE (\<lambda>p.
     if psp_State (psi_Spec p) = PSIStateDestroying then
       bindE (modifyE (\<lambda>p. if length (psp_ConsumerReferences (psi_Spec p)) = 0
                then setPsiState PSIStateDestroying p else p)) (\<lambda>_. retE doneResult)
     else if psp_State (psi_Spec p) = PSIStateActive then
       bindE (tryE (sndE (pk_GetStorage k namespace name))) (\<lambda>got.
         case got of
           Inl e \<Rightarrow> (case IgnoreNotFound e of None \<Rightarrow> retE doneResult | Some e' \<Rightarrow> failE e')
         | Inr nnfStorage \<Rightarrow>
             if length (nsts_AllocationSets (nstg_Status nnfStorage)) \<noteq> length (ssp_AllocationSets (nstg_Spec nnfStorage))
             then retE doneResult
             else if list_all sts_Ready (nsts_AllocationSets (nstg_Status nnfStorage)) then
               bindE (modifyE (setPsiState (if nsts_Health (nstg_Status nnfStorage) \<noteq> Healthy
                        then PSIStateDegraded else PSIStateActive))) (\<lambda>_. retE doneResult)
             else retE doneResult)
     else retE doneResult)"

definition psiLive :: "'w psiKube \<Rightarrow> string \<Rightarrow> string \<Rightarrow> (PersistentStorageInstance \<times> 'w, Result) io" where
  "psiLive k namespace name =
     bindE (modifyE (\<lambda>p. if pst_State (psi_Status p) = [] then setPsiState PSIStateCreating p else p)) (\<lambda>_.
     bindE getE (\<lambda>p.
     bindE (liftE (BuildArgsMap (psp_DWDirective (psi_Spec p)))) (\<lambda>argsMap.
     bindE (sndE (createPinnedProfile (pk_Profiles k) (pk_ProfileNamespace k) argsMap
                    ''PersistentStorageInstance'' (psi_Meta p) (meta_Name (psi_Meta p)))) (\<lambda>pinnedProfile.
     bindE (mgtLabel k argsMap pinnedProfile) (\<lambda>early.
       case early of
         Some result \<Rightarrow> retE result
       | None \<Rightarrow>
           bindE getE (\<lambda>p.
           bindE (sndE (PersistentStorage_createServers k p)) (\<lambda>servers.
             case servers of
               None \<Rightarrow> retE requeueResult
             | Some s \<Rightarrow>
                 bindE (modifyE (updPsi (\<lambda>st. st\<lparr>pst_Servers := emptyRef\<lparr>ref_Kind := ''Servers'',
                          ref_Name := meta_Name (sv_Meta s), ref_Namespace := meta_Namespace (sv_Meta s)\<rparr>\<rparr>))) (\<lambda>_.
                   psiState k namespace name))))))))"

definition psiBody :: "'w psiKube \<Rightarrow> string \<Rightarrow> string \<Rightarrow> (PersistentStorageInstance \<times> 'w, Result) io" where
  "psiBody k namespace name = bindE getE (\<lambda>p.
     if meta_Deleting (psi_Meta p) then deletePsi k
     else if \<not> ContainsFinalizer finalizerPersistentStorage (meta_Finalizers (psi_Meta p)) then
       bindE (modifyE (setPsiFinalizers (AddFinalizer finalizerPersistentStorage))) (\<lambda>_.
         updateOrRequeue (pk_PSI k))
     else psiLive k namespace name)"

definition setPsiError :: "failure option \<Rightarrow> PersistentStorageInstance \<Rightarrow> PersistentStorageInstance" where
  "setPsiError err = updPsi (\<lambda>st. st\<lparr>pst_Error := resourceError err\<rparr>)"

definition PersistentStorage_Reconcile ::
  "'w psiKube \<Rightarrow> string \<Rightarrow> string \<Rightarrow> 'w \<Rightarrow> PersistentStorageInstance option outcome \<times> 'w" where
  "PersistentStorage_Reconcile k namespace name =
     reconcileObject (pk_PSI k) psi_Status setPsiError namespace name (psiBody k namespace name)"

section \<open>What a reconcile keeps\<close>

lemma psi_simps [simp]:
  "psi_Meta (updPsi f p) = psi_Meta p" "psi_Spec (updPsi f p) = psi_Spec p"
  "psi_Meta (setPsiState s p) = psi_Meta p" "psi_Spec (setPsiState s p) = psi_Spec p"
  "pst_State (psi_Status (setPsiState s p)) = s"
  "psi_Status (setPsiFinalizers g p) = psi_Status p" "psi_Spec (setPsiFinalizers g p) = psi_Spec p"
  "psi_Status (putPsiLabel l v p) = psi_Status p" "psi_Spec (putPsiLabel l v p) = psi_Spec p"
  "meta_Finalizers (psi_Meta (putPsiLabel l v p)) = meta_Finalizers (psi_Meta p)"
  by (simp_all add: updPsi_def setPsiState_def setPsiFinalizers_def putPsiLabel_def)

text \<open>
  A write of the resource answers with the finalizers and with the status that it had: the status is
  a subresource of its own.
\<close>

definition psiUpdateAnswers :: "(PersistentStorageInstance, 'w) kclient \<Rightarrow> bool" where
  "psiUpdateAnswers c \<longleftrightarrow>
     (\<forall>p w p' w'. kc_Update c p w = (Inr p', w') \<longrightarrow>
        meta_Finalizers (psi_Meta p') = meta_Finalizers (psi_Meta p) \<and>
        (PSI_IsUsable p' \<longrightarrow> PSI_IsUsable p \<and> pst_State (psi_Status p') = pst_State (psi_Status p)))"

lemma psiUpdateAnswersD:
  assumes "psiUpdateAnswers c" and "kc_Update c p w = (Inr p', w')"
  shows "meta_Finalizers (psi_Meta p') = meta_Finalizers (psi_Meta p)"
    and "PSI_IsUsable p' \<Longrightarrow> PSI_IsUsable p"
    and "PSI_IsUsable p' \<Longrightarrow> pst_State (psi_Status p') = pst_State (psi_Status p)"
  using assms unfolding psiUpdateAnswers_def by blast+

lemma keeps_mgtLabel:
  assumes "\<And>p w p' w'. kc_Update (pk_PSI k) p w = (Inr p', w') \<Longrightarrow> J p \<Longrightarrow> J p'"
    and "\<And>l v p. J p \<Longrightarrow> J (putPsiLabel l v p)"
  shows "keeps J (mgtLabel k argsMap profile)"
  unfolding mgtLabel_def Let_def
  by (intro keeps_rules; use assms in blast)

lemma keeps_psiLive:
  assumes "\<And>p w p' w'. kc_Update (pk_PSI k) p w = (Inr p', w') \<Longrightarrow> J p \<Longrightarrow> J p'"
    and "\<And>l v p. J p \<Longrightarrow> J (putPsiLabel l v p)"
    and "\<And>p. J p \<Longrightarrow> J (setPsiState PSIStateCreating p)"
    and "\<And>p r. J p \<Longrightarrow> J (updPsi (\<lambda>st. st\<lparr>pst_Servers := r\<rparr>) p)"
    and "keeps J (psiState k namespace name)"
  shows "keeps J (psiLive k namespace name)"
  unfolding psiLive_def
  by (intro keeps_rules keeps_mgtLabel assms(5); use assms(1-4) in auto)

section \<open>Theorems\<close>

abbreviation psiHeld :: "PersistentStorageInstance \<Rightarrow> bool" where
  "psiHeld p \<equiv> ContainsFinalizer finalizerPersistentStorage (meta_Finalizers (psi_Meta p))"

lemma keeps_psiState:
  assumes "\<And>s p. J p \<Longrightarrow> J (setPsiState s p)"
  shows "keeps J (psiState k namespace name)"
  unfolding psiState_def by (intro keeps_rules; use assms in auto)

text \<open>
  C4. Persistent storage in use is never given up. When the body of a reconcile removes the finalizer
  of a persistent storage instance, the instance is being deleted, no workflow is registered as its
  consumer, and the NnfStorages, the Servers and the storage profiles with its owner labels were
  listed, in that order, and none was left. The answers of the API server are assumed to have the
  finalizers that were sent.
\<close>

theorem PSI_deleted_unused:
  assumes "psiUpdateAnswers (pk_PSI k)"
    and "psiBody k namespace name (p, w) = (r, (p', w'))"
    and "ContainsFinalizer finalizerPersistentStorage (meta_Finalizers (psi_Meta p))"
    and "\<not> ContainsFinalizer finalizerPersistentStorage (meta_Finalizers (psi_Meta p'))"
  shows "meta_Deleting (psi_Meta p) \<and> psp_ConsumerReferences (psi_Spec p) = [] \<and>
    (\<exists>w1. allListedEmpty (PersistentStorage_getChildObjects k)
             (kv_merge [] (MatchingOwner ''PersistentStorageInstance'' (psi_Meta p))) w w1)"
proof (cases "meta_Deleting (psi_Meta p)")
  case False
  have kept: "keeps psiHeld (psiLive k namespace name)"
  proof (rule keeps_psiLive [where J = psiHeld])
    show "psiHeld p2" if "kc_Update (pk_PSI k) p1 v = (Inr p2, v')" and "psiHeld p1" for p1 v p2 v'
      using psiUpdateAnswersD(1) [OF assms(1) that(1)] that(2) by simp
  qed (simp_all add: keeps_psiState [where J = psiHeld])
  have run: "psiLive k namespace name (p, w) = (r, (p', w'))"
    using assms(2,3) False by (simp add: psiBody_def)
  show ?thesis using keepsD [where J = psiHeld, OF kept assms(3) run] assms(4) by simp
next
  case True
  then have "psp_ConsumerReferences (psi_Spec p) = [] \<and>
      (\<exists>w1. DeleteChildren (PersistentStorage_getChildObjects k) ''PersistentStorageInstance'' (psi_Meta p) w = (Inr True, w1))"
    using assms(2-4)
    by (cases "DeleteChildren (PersistentStorage_getChildObjects k) ''PersistentStorageInstance'' (psi_Meta p) w")
      (auto simp: psiBody_def deletePsi_def retE_apply bindE_def sndE_def getE_def split: if_splits sum.splits)
  then obtain w1 where none: "psp_ConsumerReferences (psi_Spec p) = []"
      and gone: "deleteKinds (PersistentStorage_getChildObjects k)
             (kv_merge [] (MatchingOwner ''PersistentStorageInstance'' (psi_Meta p))) w = (Inr True, w1)"
    unfolding DeleteChildren_def DeleteChildrenWithLabels_def by blast
  show ?thesis using True none deleteKinds_complete [OF gone] by auto
qed

text \<open>The storage that a state of the instance stands for.\<close>

definition psiBacked :: "'w psiKube \<Rightarrow> string \<Rightarrow> string \<Rightarrow> PersistentStorageInstance \<Rightarrow> bool" where
  "psiBacked k namespace name p \<longleftrightarrow> (\<exists>w1 w2 st. pk_GetStorage k namespace name w1 = (Inr st, w2) \<and>
    length (nsts_AllocationSets (nstg_Status st)) = length (ssp_AllocationSets (nstg_Spec st)) \<and>
    (\<forall>a \<in> set (nsts_AllocationSets (nstg_Status st)). sts_Ready a) \<and>
    (pst_State (psi_Status p) = PSIStateActive \<longleftrightarrow> nsts_Health (nstg_Status st) = Healthy))"

definition psiOk :: "'w psiKube \<Rightarrow> string \<Rightarrow> string \<Rightarrow> PersistentStorageInstance \<Rightarrow> bool" where
  "psiOk k namespace name p \<longleftrightarrow> (PSI_IsUsable p \<longrightarrow> psiBacked k namespace name p)"

lemma psiOk_state:
  "pst_State (psi_Status p') = pst_State (psi_Status p) \<Longrightarrow> psiOk k namespace name p' = psiOk k namespace name p"
  by (simp add: psiOk_def PSI_IsUsable_def psiBacked_def)

lemma psiOk_setPsiState:
  "s \<noteq> PSIStateActive \<Longrightarrow> s \<noteq> PSIStateDegraded \<Longrightarrow> psiOk k namespace name (setPsiState s p)"
  by (simp add: psiOk_def PSI_IsUsable_def)

lemma psiOk_labels [simp]:
  "psiOk k namespace name (putPsiLabel l v p) = psiOk k namespace name p"
  "psiOk k namespace name (setPsiFinalizers g p) = psiOk k namespace name p"
  "psiOk k namespace name (updPsi (\<lambda>st. st\<lparr>pst_Servers := r\<rparr>) p) = psiOk k namespace name p"
  by (rule psiOk_state, simp add: updPsi_def)+

lemma psiState_backed: "keeps (psiOk k namespace name) (psiState k namespace name)"
  unfolding keeps_def
proof (intro allI impI)
  fix q v assume ok: "psiOk k namespace name q"
  obtain res v1 where got: "pk_GetStorage k namespace name v = (res, v1)" by (cases "pk_GetStorage k namespace name v")
  show "psiOk k namespace name (fst (snd (psiState k namespace name (q, v))))"
  proof (cases res)
    case (Inl e)
    then show ?thesis using ok got
      by (auto simp: psiState_def tryE_bind sndE_apply retE_apply failE_apply psiOk_setPsiState split: option.splits)
  next
    case (Inr st)
    have "psiOk k namespace name (setPsiState (if nsts_Health (nstg_Status st) \<noteq> Healthy
        then PSIStateDegraded else PSIStateActive) q)"
      if "length (nsts_AllocationSets (nstg_Status st)) = length (ssp_AllocationSets (nstg_Spec st))"
        and "list_all sts_Ready (nsts_AllocationSets (nstg_Status st))"
      using that got Inr unfolding psiOk_def psiBacked_def
      by (intro impI exI [of _ v] exI [of _ v1] exI [of _ st]) (simp add: list_all_iff)
    then show ?thesis using ok got Inr
      by (auto simp: psiState_def tryE_bind sndE_apply retE_apply psiOk_setPsiState)
  qed
qed

text \<open>
  Persistent storage is usable only when it exists. If the body of a reconcile makes an instance
  usable that was not usable before, then an NnfStorage of its name was read whose status covers all
  its allocation sets and reports every one of them ready; the state is Active if that storage was
  healthy and Degraded if it was not.
\<close>

theorem PSI_usable_sound:
  assumes "psiUpdateAnswers (pk_PSI k)"
    and "psiBody k namespace name (p, w) = (r, (p', w'))"
    and "\<not> PSI_IsUsable p" and "PSI_IsUsable p'"
  shows "\<exists>w1 w2 st. pk_GetStorage k namespace name w1 = (Inr st, w2) \<and>
    length (nsts_AllocationSets (nstg_Status st)) = length (ssp_AllocationSets (nstg_Spec st)) \<and>
    (\<forall>a \<in> set (nsts_AllocationSets (nstg_Status st)). sts_Ready a) \<and>
    (pst_State (psi_Status p') = PSIStateActive \<longleftrightarrow> nsts_Health (nstg_Status st) = Healthy)"
proof -
  let ?J = "psiOk k namespace name"
  have upd: "?J p2" if "kc_Update (pk_PSI k) p1 v = (Inr p2, v')" and "?J p1" for p1 v p2 v'
    using psiUpdateAnswersD(2,3) [OF assms(1) that(1)] that(2) psiOk_state [of p2 p1 k namespace name]
    by (auto simp: psiOk_def)
  have live: "keeps ?J (psiLive k namespace name)"
    by (rule keeps_psiLive [OF upd _ _ _ psiState_backed]) (simp_all add: psiOk_setPsiState)
  have body: "keeps ?J (psiBody k namespace name)"
    unfolding psiBody_def deletePsi_def
    by (intro keeps_rules keeps_updateOrRequeue [OF upd] live) simp_all
  have "psiBacked k namespace name p'"
    using keepsD [OF body _ assms(2)] assms(3,4) by (simp add: psiOk_def)
  then show ?thesis by (simp add: psiBacked_def)
qed

text \<open>
  A standalone MGT without labels crashes the controller. When the directive asks for Lustre and the
  pinned profile names a pool for standalone MGTs, the label of the pool is written into the map of
  labels that the resource has; an instance that has no labels has no map, and the write panics.
\<close>

theorem PSI_nil_labels_panic:
  assumes "labelOf ''type'' argsMap = ''lustre''" and "map_of argsMap ''capacity'' = None"
    and "mgt_StandaloneMGTPoolName (ld_MgtOptions (pd_LustreStorage (prof_Data profile))) \<noteq> []"
    and "meta_Labels (psi_Meta p) = []"
  shows "mgtLabel k argsMap profile (p, w) = (Inl (Panic ''assignment to entry in nil map''), (p, w))"
  using assms by (simp add: mgtLabel_def Let_def failE_apply)

section \<open>Witnesses\<close>

definition exPsi :: "kv \<Rightarrow> string \<Rightarrow> PersistentStorageInstance" where
  "exPsi labels directive = \<lparr>psi_Meta = zeroMeta\<lparr>meta_Name := ''psi'', meta_Namespace := ''default'', meta_Labels := labels,
       meta_Finalizers := [finalizerPersistentStorage]\<rparr>,
     psi_Spec = \<lparr>psp_Name = ''psi'', psp_FsType = ''xfs'', psp_DWDirective = directive, psp_UserID = 7,
       psp_State = PSIStateActive, psp_ConsumerReferences = []\<rparr>,
     psi_Status = \<lparr>pst_Servers = emptyRef, pst_State = PSIStateCreating, pst_Error = None\<rparr>\<rparr>"

definition noChildren :: "unit childKind" where
  "noChildren = \<lparr>ck_List = \<lambda>_. retE [], ck_DeleteAllOf = \<lambda>_ _. retE (), ck_Delete = \<lambda>_. retE ()\<rparr>"

definition exPsiKube :: "PersistentStorageInstance \<Rightarrow> unit psiKube" where
  "exPsiKube p = \<lparr>pk_PSI = \<lparr>kc_Get = \<lambda>_ _. retE p, kc_Create = retE, kc_Update = retE, kc_UpdateStatus = retE\<rparr>,
     pk_Servers = \<lparr>kc_Get = \<lambda>ns n. retE (newServers n ns), kc_Create = retE, kc_Update = retE, kc_UpdateStatus = retE\<rparr>,
     pk_Profiles = \<lparr>pc_List = \<lambda>_ w. (Inr [], w), pc_Get = \<lambda>_ _ w. (Found (pinnedCopy ''PersistentStorageInstance'' (psi_Meta p) ''psi'' zeroProfile), w),
       pc_Create = \<lambda>_ w. (Created, w)\<rparr>, pk_ProfileNamespace = ''nnf-system'',
     pk_GetStorage = \<lambda>_ _. retE (exNnfStorage [exSet ''xfs''] [exSetStatus True]),
     pk_StorageList = noChildren, pk_ServersList = noChildren, pk_ProfileList = noChildren\<rparr>"

lemma exPsiKube_answers: "psiUpdateAnswers (pk_PSI (exPsiKube p))"
  by (auto simp: psiUpdateAnswers_def exPsiKube_def retE_apply)

theorem PSI_deleted_unused_witness:
  "psp_ConsumerReferences (psi_Spec (exPsi [] ''x'')) = [] \<and>
   (\<exists>w1. allListedEmpty [noChildren, noChildren, noChildren]
      (kv_merge [] (MatchingOwner ''PersistentStorageInstance'' (psi_Meta (exPsi [] ''x'')))) () w1)"
proof -
  let ?p = "(exPsi [] ''x'')\<lparr>psi_Meta := (psi_Meta (exPsi [] ''x''))\<lparr>meta_Deleting := True\<rparr>\<rparr>"
  have "psiBody (exPsiKube ?p) ''default'' ''psi'' (?p, ()) = (Inr doneResult, (setPsiFinalizers (\<lambda>_. []) ?p, ()))"
    by code_simp
  from PSI_deleted_unused [OF exPsiKube_answers this] show ?thesis
    by (simp add: exPsi_def setPsiFinalizers_def ContainsFinalizer_def PersistentStorage_getChildObjects_def exPsiKube_def
        MatchingOwner_def)
qed

theorem PSI_usable_sound_witness:
  "\<exists>w1 w2 st. pk_GetStorage (exPsiKube (exPsi [] ''#DW create_persistent type=xfs capacity=1GB name=psi'')) ''default'' ''psi'' w1 = (Inr st, w2) \<and>
    length (nsts_AllocationSets (nstg_Status st)) = length (ssp_AllocationSets (nstg_Spec st)) \<and>
    (\<forall>a \<in> set (nsts_AllocationSets (nstg_Status st)). sts_Ready a)"
proof -
  let ?p = "exPsi [] ''#DW create_persistent type=xfs capacity=1GB name=psi''"
  have "pst_State (psi_Status (fst (snd (psiBody (exPsiKube ?p) ''default'' ''psi'' (?p, ()))))) = PSIStateActive"
    by code_simp
  moreover obtain r p' w' where run: "psiBody (exPsiKube ?p) ''default'' ''psi'' (?p, ()) = (r, (p', w'))"
    by (metis prod.exhaust)
  ultimately have "PSI_IsUsable p'" by (simp add: PSI_IsUsable_def)
  moreover have "\<not> PSI_IsUsable ?p" by (simp add: PSI_IsUsable_def exPsi_def)
  ultimately show ?thesis using PSI_usable_sound [OF exPsiKube_answers run] by blast
qed

definition mgtProfile :: NnfStorageProfile where
  "mgtProfile = zeroProfile\<lparr>prof_Data := zeroData\<lparr>pd_LustreStorage := zeroLustreData\<lparr>ld_MgtOptions :=
     zeroLustreMgtOptions\<lparr>mgt_StandaloneMGTPoolName := ''pool''\<rparr>\<rparr>\<rparr>\<rparr>"

theorem PSI_nil_labels_panic_witness:
  "fst (mgtLabel (exPsiKube (exPsi [] [])) [(''command'', ''create_persistent''), (''type'', ''lustre'')] mgtProfile (exPsi [] [], ())) =
     Inl (Panic ''assignment to entry in nil map'')"
  using PSI_nil_labels_panic [of "[(''command'', ''create_persistent''), (''type'', ''lustre'')]" mgtProfile "exPsi [] []" "exPsiKube (exPsi [] [])" "()"]
  by (simp add: labelOf_def mgtProfile_def exPsi_def zeroMeta_def)

end
