(* ===== verification/DirectiveBreakdownController.thy ===== *)
theory DirectiveBreakdownController
  imports PersistentStorage
begin

text \<open>
  \<^verbatim>\<open>internal/controller/directivebreakdown_controller.go\<close>: the controller that translates a \<^verbatim>\<open>#DW\<close>
  directive into what the workload manager has to provide: allocation sets with a capacity and
  constraints, and where compute nodes may be. Capacities are in the theory of that name.
\<close>

section \<open>Allocation sets\<close>

record 'w breakdownKube =
  bk_Breakdown :: "(DirectiveBreakdown, 'w) kclient"
  bk_PSI :: "(PersistentStorageInstance, 'w) kclient"
  bk_Servers :: "(Servers, 'w) kclient"
  bk_Profiles :: "'w profileClient"
  bk_ProfileNamespace :: string
  bk_ServersList :: "'w childKind"
  bk_ProfileList :: "'w childKind"
  bk_PsiList :: "'w childKind"

abbreviation StorageTypeRabbit :: string where
  "StorageTypeRabbit \<equiv> ''dataworkflowservices.github.io/storage=Rabbit''"

record lustreComponentType =
  lct_strategy :: string
  lct_cap :: int
  lct_labelsStr :: string
  lct_colocationKey :: "AllocationSetColocationConstraint option"

definition populateStorageAllocationSet ::
  "string \<Rightarrow> int \<Rightarrow> int \<Rightarrow> int \<Rightarrow> string list \<Rightarrow> string \<Rightarrow> AllocationSetColocationConstraint option \<Rightarrow> StorageAllocationSet" where
  "populateStorageAllocationSet strategy cap scale cnt storageLabels labelStr constraint =
     \<lparr>sal_AllocationStrategy = strategy, sal_MinimumCapacity = cap, sal_Label = labelStr,
      sal_Constraints = \<lparr>asc_Labels = storageLabels @ [StorageTypeRabbit], asc_Scale = scale, asc_Count = cnt,
        asc_Colocation = (case constraint of None \<Rightarrow> [] | Some c \<Rightarrow> [c])\<rparr>\<rparr>"

text \<open>Raw, XFS and GFS2: one set, with the options of the file system.\<close>

definition sharedSets :: "string \<Rightarrow> int \<Rightarrow> NnfStorageProfileSharedData \<Rightarrow> StorageAllocationSet list res" where
  "sharedSets filesystem capacity shared =
     (case getScaledAndPaddedCapacity capacity (sd_CapacityScalingFactor shared) (sd_AllocationPadding shared) of
        Inl e \<Rightarrow> Inl e
      | Inr c \<Rightarrow> Inr [populateStorageAllocationSet ''AllocatePerCompute'' c 0 0 (sd_StorageLabels shared) filesystem None])"

definition mgtKey :: AllocationSetColocationConstraint where
  "mgtKey = \<lparr>acc_Type = ''exclusive'', acc_Key = ''lustre-mgt''\<rparr>"

definition mdtKey :: "NnfStorageProfileLustreData \<Rightarrow> AllocationSetColocationConstraint option" where
  "mdtKey ls = (if mdt_Exclusive (ld_MdtOptions ls) then Some \<lparr>acc_Type = ''exclusive'', acc_Key = []\<rparr> else None)"

definition lustreComponents :: "string \<Rightarrow> int \<Rightarrow> NnfStorageProfileLustreData \<Rightarrow> lustreComponentType list res" where
  "lustreComponents command ostCapacity ls =
     (let mdtCapacity = capacityOrZero (mdt_Capacity (ld_MdtOptions ls));
          mgtCapacity = capacityOrZero (mgt_Capacity (ld_MgtOptions ls));
          ost = \<lparr>lct_strategy = ''AllocateAcrossServers'', lct_cap = ostCapacity, lct_labelsStr = ''ost'', lct_colocationKey = None\<rparr>;
          mdt = \<lparr>lct_strategy = ''AllocateAcrossServers'', lct_cap = mdtCapacity, lct_labelsStr = ''mdt'', lct_colocationKey = mdtKey ls\<rparr>;
          mgt = \<lparr>lct_strategy = ''AllocateSingleServer'', lct_cap = mgtCapacity, lct_labelsStr = ''mgt'', lct_colocationKey = Some mgtKey\<rparr> in
      if ld_CombinedMGTMDT ls then
        Inr [ost, \<lparr>lct_strategy = ''AllocateAcrossServers'', lct_cap = mdtCapacity, lct_labelsStr = ''mgtmdt'',
                   lct_colocationKey = (case mdtKey ls of None \<Rightarrow> Some mgtKey | Some c \<Rightarrow> Some c)\<rparr>]
      else if length (mgt_ExternalMGS (ld_MgtOptions ls)) > 0 then Inr [ost, mdt]
      else if length (mgt_StandaloneMGTPoolName (ld_MgtOptions ls)) > 0 then
        if command \<noteq> ''create_persistent''
        then Inl (ResErr (WithUser (WithFatal (WithUserMessage
               (''standaloneMgtPoolName option can only be used with '' @ CHR 0x27 # ''create_persistent'' @ CHR 0x27 # '' directive'')
               (NewResourceError [])))))
        else Inr [mgt]
      else Inr [ost, mdt, mgt])"

fun componentSets :: "NnfStorageProfile \<Rightarrow> lustreComponentType list \<Rightarrow> StorageAllocationSet list res" where
  "componentSets profile [] = Inr []"
| "componentSets profile (c # cs) =
     (case GetLustreTargetOptions profile (lct_labelsStr c) of
        Inl e \<Rightarrow> Inl e
      | Inr targetOptions \<Rightarrow>
          (case componentSets profile cs of
             Inl e \<Rightarrow> Inl e
           | Inr sets \<Rightarrow>
               Inr (populateStorageAllocationSet (lct_strategy c) (lct_cap c) (lto_Scale targetOptions) (lto_Count targetOptions)
                      (lto_StorageLabels targetOptions) (lct_labelsStr c) (lct_colocationKey c) # sets)))"

definition lustreSets :: "string \<Rightarrow> int \<Rightarrow> NnfStorageProfile \<Rightarrow> StorageAllocationSet list res" where
  "lustreSets command capacity profile =
     (let ls = pd_LustreStorage (prof_Data profile) in
      case ParseFloat (ost_CapacityScalingFactor (ld_OstOptions ls)) of
        Inl e \<Rightarrow> Inl (userFatalError ''invalid capacityScalingFactor for lustre allocation'' e)
      | Inr scalingFactor \<Rightarrow>
          (case lustreComponents command (toInt64 (fmul scalingFactor (ofInt64 capacity))) ls of
             Inl e \<Rightarrow> Inl e
           | Inr cs \<Rightarrow> componentSets profile cs))"

definition breakdownSets :: "kv \<Rightarrow> NnfStorageProfile \<Rightarrow> StorageAllocationSet list res" where
  "breakdownSets argsMap profile =
     (let filesystem = labelOf ''type'' argsMap;
          capacity = capacityOrZero (labelOf ''capacity'' argsMap);
          d = prof_Data profile in
      if capacity = 0 \<and> map_of argsMap ''capacity'' \<noteq> None
      then Inl (ResErr (WithFatal (WithUserMessage (CHR 0x27 # ''capacity'' @ CHR 0x27 # '' must be a non-zero value'') (NewResourceError []))))
      else if filesystem = ''raw'' then sharedSets filesystem capacity (pd_RawStorage d)
      else if filesystem = ''xfs'' then sharedSets filesystem capacity (pd_XFSStorage d)
      else if filesystem = ''gfs2'' then sharedSets filesystem capacity (pd_GFS2Storage d)
      else if filesystem = ''lustre'' then lustreSets (labelOf ''command'' argsMap) capacity profile
      else Inl (ResErr (WithFatal (WithUserMessage ''invalid DW directive''
             (NewResourceError (''invalid DW directive file system type: '' @ filesystem))))))"

definition updBreakdown :: "(DirectiveBreakdownStatus \<Rightarrow> DirectiveBreakdownStatus) \<Rightarrow> DirectiveBreakdown \<Rightarrow> DirectiveBreakdown" where
  "updBreakdown f d = d\<lparr>dbd_Status := f (dbd_Status d)\<rparr>"

definition setAllocationSets :: "StorageAllocationSet list \<Rightarrow> DirectiveBreakdown \<Rightarrow> DirectiveBreakdown" where
  "setAllocationSets sets = updBreakdown (\<lambda>st. st\<lparr>dst_Storage :=
     (case dst_Storage st of
        None \<Rightarrow> Some \<lparr>sbd_Lifetime = [], sbd_Reference = emptyRef, sbd_AllocationSets = sets\<rparr>
      | Some b \<Rightarrow> Some (b\<lparr>sbd_AllocationSets := sets\<rparr>))\<rparr>)"

definition populateStorageBreakdown ::
  "'w breakdownKube \<Rightarrow> string \<Rightarrow> kv \<Rightarrow> (DirectiveBreakdown \<times> 'w, unit) io" where
  "populateStorageBreakdown k commonResourceName argsMap = bindE getE (\<lambda>dbd.
     bindE (sndE (gotE (\<lambda>e. ResErr (WithMajor (WithUserMessage ''Unable to find pinned NnfStorageProfile''
                    (WithError (Some e) (NewResourceError
                      (''unable to find pinned NnfStorageProfile: '' @ commonResourceName @ ''/'' @ meta_Namespace (dbd_Meta dbd)))))))
                  (findPinnedProfile (bk_Profiles k) (meta_Namespace (dbd_Meta dbd)) commonResourceName))) (\<lambda>profile.
     bindE (liftE (breakdownSets argsMap profile)) (\<lambda>sets.
       modifyE (setAllocationSets sets))))"

definition populateRequires :: "kv \<Rightarrow> DirectiveBreakdown \<Rightarrow> DirectiveBreakdown" where
  "populateRequires argsMap d =
     (case map_of argsMap ''requires'' of
        None \<Rightarrow> d
      | Some wordList \<Rightarrow> updBreakdown (\<lambda>st. st\<lparr>dst_Requires := go_split (CHR '','') wordList\<rparr>) d)"

section \<open>Locations\<close>

definition mandatory :: "string \<Rightarrow> ComputeLocationAccess" where
  "mandatory t = \<lparr>cla_Type = t, cla_Priority = ''mandatory''\<rparr>"

definition locationAccess :: "string \<Rightarrow> bool \<Rightarrow> ComputeLocationAccess list" where
  "locationAccess filesystem colocate =
     (if filesystem = ''lustre''
      then mandatory ''network'' # (if colocate then [\<lparr>cla_Type = ''physical'', cla_Priority = ''bestEffort''\<rparr>] else [])
      else if filesystem = ''gfs2'' then [mandatory ''network'', mandatory ''physical'']
      else [mandatory ''physical''])"

definition setReference :: "ObjectReference \<Rightarrow> nat \<Rightarrow> ObjectReference" where
  "setReference r i = emptyRef\<lparr>ref_Kind := ref_Kind r, ref_Name := ref_Name r, ref_Namespace := ref_Namespace r,
     ref_FieldPath := ''servers.spec.allocationSets['' @ itoa_nat i @ '']''\<rparr>"

text \<open>One constraint per allocation set of the Servers resource that persistent storage has.\<close>

definition persistentLocations :: "kv \<Rightarrow> ObjectReference \<Rightarrow> Servers \<Rightarrow> ComputeLocationConstraint list" where
  "persistentLocations argsMap r servers =
     map (\<lambda>i. \<lparr>clc_Access = locationAccess (labelOf ''type'' argsMap) False, clc_Reference = setReference r i\<rparr>)
       [0..<length (sv_AllocationSets servers)]"

fun jobLocations :: "kv \<Rightarrow> NnfStorageProfile \<Rightarrow> ObjectReference \<Rightarrow> nat \<Rightarrow> StorageAllocationSet list \<Rightarrow> ComputeLocationConstraint list res" where
  "jobLocations argsMap profile r i [] = Inr []"
| "jobLocations argsMap profile r i (s # sets) =
     (case (if labelOf ''type'' argsMap = ''lustre''
            then map_sum id lto_ColocateComputes (GetLustreTargetOptions profile (sal_Label s)) else Inr False) of
        Inl e \<Rightarrow> Inl e
      | Inr colocate \<Rightarrow>
          (case jobLocations argsMap profile r (Suc i) sets of
             Inl e \<Rightarrow> Inl e
           | Inr cs \<Rightarrow> Inr (\<lparr>clc_Access = locationAccess (labelOf ''type'' argsMap) colocate, clc_Reference = setReference r i\<rparr> # cs)))"

definition setLocations :: "ComputeLocationConstraint list \<Rightarrow> DirectiveBreakdown \<Rightarrow> DirectiveBreakdown" where
  "setLocations cs = updBreakdown (\<lambda>st. st\<lparr>dst_Compute := Some \<lparr>cbd_Constraints = \<lparr>ccn_Location = cs\<rparr>\<rparr>\<rparr>)"

section \<open>Resources\<close>

definition getStorageReferenceNameFromDBD :: "DirectiveBreakdown \<Rightarrow> string \<times> string" where
  "getStorageReferenceNameFromDBD dbd =
     (let p = (case BuildArgsMap (dbs_Directive (dbd_Spec dbd)) of Inl _ \<Rightarrow> [] | Inr m \<Rightarrow> m) in
      (if labelOf ''command'' p \<in> {''persistentdw'', ''create_persistent'', ''destroy_persistent''}
       then labelOf ''name'' p else meta_Name (dbd_Meta dbd),
       meta_Namespace (dbd_Meta dbd)))"

abbreviation PersistentStorageIgnoreUIDAnnotation :: string where
  "PersistentStorageIgnoreUIDAnnotation \<equiv> ''dataworkflowservices.github.io/ignore-uid''"

definition persistentStorageIgnoresUID :: "PersistentStorageInstance \<Rightarrow> bool" where
  "persistentStorageIgnoresUID psi =
     (map ascii_lower (labelOf PersistentStorageIgnoreUIDAnnotation (meta_Annotations (psi_Meta psi))) = ''true'')"

definition newPsi :: "string \<Rightarrow> string \<Rightarrow> PersistentStorageInstance" where
  "newPsi name namespace =
     \<lparr>psi_Meta = zeroMeta\<lparr>meta_Name := name, meta_Namespace := namespace\<rparr>,
      psi_Spec = \<lparr>psp_Name = [], psp_FsType = [], psp_DWDirective = [], psp_UserID = 0, psp_State = [], psp_ConsumerReferences = []\<rparr>,
      psi_Status = \<lparr>pst_Servers = emptyRef, pst_State = [], pst_Error = None\<rparr>\<rparr>"

definition uidMismatch :: "PersistentStorageInstance \<Rightarrow> DirectiveBreakdown \<Rightarrow> failure" where
  "uidMismatch psi dbd = ResErr (WithUser (WithFatal (WithUserMessage ''User ID does not match existing persistent storage''
     (NewResourceError (''existing persistent storage user ID '' @ itoa_nat (unat (psp_UserID (psi_Spec psi))) @
        '' does not match user ID '' @ itoa_nat (unat (dbs_UserID (dbd_Spec dbd))))))))"

text \<open>The function that \<^verbatim>\<open>CreateOrUpdate\<close> applies to a new or an existing instance.\<close>

definition mutatePsi :: "DirectiveBreakdown \<Rightarrow> kv \<Rightarrow> PersistentStorageInstance \<Rightarrow> PersistentStorageInstance res" where
  "mutatePsi dbd argsMap psi =
     (case (if psp_Name (psi_Spec psi) = []
            then map_sum id (\<lambda>m. psi\<lparr>psi_Meta := m\<rparr>)
                   (SetControllerReference ''DirectiveBreakdown'' (dbd_Meta dbd)
                      (AddOwnerLabels ''DirectiveBreakdown'' (dbd_Meta dbd) (psi_Meta psi)))
            else if \<not> persistentStorageIgnoresUID psi \<and> psp_UserID (psi_Spec psi) \<noteq> dbs_UserID (dbd_Spec dbd)
            then Inl (uidMismatch psi dbd)
            else Inr psi) of
        Inl e \<Rightarrow> Inl e
      | Inr psi' \<Rightarrow>
          Inr (psi'\<lparr>psi_Spec := (psi_Spec psi')\<lparr>psp_Name := labelOf ''name'' argsMap, psp_FsType := labelOf ''type'' argsMap,
            psp_DWDirective := dbs_Directive (dbd_Spec dbd), psp_UserID := dbs_UserID (dbd_Spec dbd), psp_State := PSIStateActive\<rparr>\<rparr>))"

definition createOrUpdatePersistentStorageInstance ::
  "'w breakdownKube \<Rightarrow> DirectiveBreakdown \<Rightarrow> string \<Rightarrow> kv \<Rightarrow> ('w, PersistentStorageInstance option) io" where
  "createOrUpdatePersistentStorageInstance k dbd name argsMap =
     catchE (bindE (CreateOrUpdate (bk_PSI k) psi_Meta (newPsi name (meta_Namespace (dbd_Meta dbd)))
               (\<lambda>psi. liftE (mutatePsi dbd argsMap psi))) (\<lambda>(result, psi). retE (Some psi)))
       (\<lambda>e. if IsConflict e then retE None else failE e)"

definition Breakdown_createServers ::
  "'w breakdownKube \<Rightarrow> string \<Rightarrow> string \<Rightarrow> DirectiveBreakdown \<Rightarrow> ('w, Servers option) io" where
  "Breakdown_createServers k serversName serversNamespace dbd =
     catchE (bindE (CreateOrUpdate (bk_Servers k) sv_Meta (newServers serversName serversNamespace)
               (\<lambda>server. liftE (map_sum id (\<lambda>m. server\<lparr>sv_Meta := m\<rparr>)
                  (SetControllerReference ''DirectiveBreakdown'' (dbd_Meta dbd)
                     (AddOwnerLabels ''DirectiveBreakdown'' (dbd_Meta dbd) (InheritParentLabels (sv_Meta server) (dbd_Meta dbd)))))))
               (\<lambda>(result, server). retE (Some server)))
       (\<lambda>e. if IsConflict e then retE None else failE e)"

definition Breakdown_getChildObjects :: "'w breakdownKube \<Rightarrow> 'w childKind list" where
  "Breakdown_getChildObjects k = [bk_ServersList k, bk_ProfileList k, bk_PsiList k]"

section \<open>Reconcile\<close>

text \<open>Some result ends the reconcile; with none the breakdown becomes ready.\<close>

definition setStorage :: "string \<Rightarrow> ObjectReference \<Rightarrow> DirectiveBreakdown \<Rightarrow> DirectiveBreakdown" where
  "setStorage lifetime reference = updBreakdown (\<lambda>st. st\<lparr>dst_Storage :=
     Some \<lparr>sbd_Lifetime = lifetime, sbd_Reference = reference, sbd_AllocationSets = []\<rparr>\<rparr>)"

definition breakdownCreatePersistent ::
  "'w breakdownKube \<Rightarrow> string \<Rightarrow> kv \<Rightarrow> (DirectiveBreakdown \<times> 'w, Result option) io" where
  "breakdownCreatePersistent k name argsMap = bindE getE (\<lambda>dbd.
     bindE (sndE (createOrUpdatePersistentStorageInstance k dbd name argsMap)) (\<lambda>created.
       case created of
         None \<Rightarrow> retE (Some requeueResult)
       | Some psi \<Rightarrow>
           (case pst_Error (psi_Status psi) of
              Some e \<Rightarrow> failE (ResErr e)
            | None \<Rightarrow>
                if pst_Servers (psi_Status psi) = emptyRef then retE (Some doneResult)
                else bindE (modifyE (setStorage ''persistent'' (pst_Servers (psi_Status psi)))) (\<lambda>_.
                     bindE (populateStorageBreakdown k name argsMap) (\<lambda>_. retE None)))))"

definition breakdownPersistent ::
  "'w breakdownKube \<Rightarrow> string \<Rightarrow> string \<Rightarrow> kv \<Rightarrow> (DirectiveBreakdown \<times> 'w, Result option) io" where
  "breakdownPersistent k name namespace argsMap =
     bindE (sndE (kc_Get (bk_PSI k) namespace name)) (\<lambda>psi.
       let r = pst_Servers (psi_Status psi) in
       bindE (sndE (kc_Get (bk_Servers k) (ref_Namespace r) (ref_Name r))) (\<lambda>servers.
       bindE (modifyE (populateRequires argsMap)) (\<lambda>_.
       bindE (modifyE (setLocations (persistentLocations argsMap r servers))) (\<lambda>_. retE None))))"

definition jobConstraints :: "kv \<Rightarrow> NnfStorageProfile \<Rightarrow> ObjectReference \<Rightarrow> (DirectiveBreakdown \<times> 'w, Result option) io" where
  "jobConstraints argsMap profile r =
     bindE (modifyE (populateRequires argsMap)) (\<lambda>_.
     bindE getE (\<lambda>dbd.
     bindE (liftE (jobLocations argsMap profile r 0
              (case dst_Storage (dbd_Status dbd) of None \<Rightarrow> [] | Some b \<Rightarrow> sbd_AllocationSets b))) (\<lambda>cs.
     bindE (modifyE (setLocations cs)) (\<lambda>_. retE None))))"

definition breakdownJob ::
  "'w breakdownKube \<Rightarrow> string \<Rightarrow> string \<Rightarrow> kv \<Rightarrow> (DirectiveBreakdown \<times> 'w, Result option) io" where
  "breakdownJob k name namespace argsMap = bindE getE (\<lambda>dbd.
     bindE (sndE (createPinnedProfile (bk_Profiles k) (bk_ProfileNamespace k) argsMap ''DirectiveBreakdown'' (dbd_Meta dbd) name)) (\<lambda>profile.
     bindE (sndE (Breakdown_createServers k name namespace dbd)) (\<lambda>created.
       case created of
         None \<Rightarrow> retE (Some requeueResult)
       | Some servers \<Rightarrow>
           let r = emptyRef\<lparr>ref_Kind := ''Servers'', ref_Name := meta_Name (sv_Meta servers), ref_Namespace := meta_Namespace (sv_Meta servers)\<rparr> in
           bindE (modifyE (setStorage ''job'' r)) (\<lambda>_.
           bindE (populateStorageBreakdown k name argsMap) (\<lambda>_. jobConstraints argsMap profile r)))))"

abbreviation finalizerDirectiveBreakdown :: string where
  "finalizerDirectiveBreakdown \<equiv> ''nnf.cray.hpe.com/directiveBreakdown''"

definition setBreakdownFinalizers :: "(string list \<Rightarrow> string list) \<Rightarrow> DirectiveBreakdown \<Rightarrow> DirectiveBreakdown" where
  "setBreakdownFinalizers f d = d\<lparr>dbd_Meta := (dbd_Meta d)\<lparr>meta_Finalizers := f (meta_Finalizers (dbd_Meta d))\<rparr>\<rparr>"

definition deleteBreakdown :: "'w breakdownKube \<Rightarrow> (DirectiveBreakdown \<times> 'w, Result) io" where
  "deleteBreakdown k = bindE getE (\<lambda>dbd.
     if \<not> ContainsFinalizer finalizerDirectiveBreakdown (meta_Finalizers (dbd_Meta dbd)) then retE doneResult
     else bindE (sndE (DeleteChildren (Breakdown_getChildObjects k) ''DirectiveBreakdown'' (dbd_Meta dbd))) (\<lambda>complete.
       if \<not> complete then retE doneResult
       else bindE (modifyE (setBreakdownFinalizers (RemoveFinalizer finalizerDirectiveBreakdown))) (\<lambda>_.
              updateOrRequeue (bk_Breakdown k))))"

definition breakdownLive :: "'w breakdownKube \<Rightarrow> (DirectiveBreakdown \<times> 'w, Result) io" where
  "breakdownLive k = bindE getE (\<lambda>dbd.
     bindE (wrapE (\<lambda>e. ResErr (WithFatal (WithUserMessage ''invalid DW directive'' (WithError (Some e)
              (NewResourceError (''invalid DW directive: '' @ dbs_Directive (dbd_Spec dbd)))))))
        (liftE (BuildArgsMap (dbs_Directive (dbd_Spec dbd))))) (\<lambda>argsMap.
       let (name, namespace) = getStorageReferenceNameFromDBD dbd; command = labelOf ''command'' argsMap in
       bindE (if command = ''create_persistent'' then breakdownCreatePersistent k name argsMap
              else if command = ''persistentdw'' then breakdownPersistent k name namespace argsMap
              else if command = ''jobdw'' then breakdownJob k name namespace argsMap
              else retE None) (\<lambda>early.
         case early of
           Some result \<Rightarrow> retE result
         | None \<Rightarrow> bindE (modifyE (updBreakdown (\<lambda>st. st\<lparr>dst_Ready := True\<rparr>))) (\<lambda>_. retE doneResult))))"

definition breakdownBody :: "'w breakdownKube \<Rightarrow> (DirectiveBreakdown \<times> 'w, Result) io" where
  "breakdownBody k = bindE getE (\<lambda>dbd.
     if meta_Deleting (dbd_Meta dbd) then deleteBreakdown k
     else if \<not> ContainsFinalizer finalizerDirectiveBreakdown (meta_Finalizers (dbd_Meta dbd)) then
       bindE (modifyE (setBreakdownFinalizers (AddFinalizer finalizerDirectiveBreakdown))) (\<lambda>_.
         updateOrRequeue (bk_Breakdown k))
     else breakdownLive k)"

definition setBreakdownError :: "failure option \<Rightarrow> DirectiveBreakdown \<Rightarrow> DirectiveBreakdown" where
  "setBreakdownError err = updBreakdown (\<lambda>st. st\<lparr>dst_Error := resourceError err\<rparr>)"

definition Breakdown_Reconcile ::
  "'w breakdownKube \<Rightarrow> string \<Rightarrow> string \<Rightarrow> 'w \<Rightarrow> DirectiveBreakdown option outcome \<times> 'w" where
  "Breakdown_Reconcile k namespace name =
     reconcileObject (bk_Breakdown k) dbd_Status setBreakdownError namespace name (breakdownBody k)"

section \<open>Theorems\<close>

lemma gotE_eq_Inr: "gotE f m w = (Inr x, w') \<longleftrightarrow> m w = (Found x, w')"
  by (auto simp: gotE_def split: prod.splits got.splits)

lemma findPinnedProfile_pinned: "findPinnedProfile clnt ns n w = (Found p, w') \<Longrightarrow> pd_Pinned (prof_Data p)"
  by (auto simp: findPinnedProfile_def split: prod.splits got.splits if_splits)

lemma sndE_eq_Inr: "sndE m (ob, w) = (Inr x, (ob', w')) \<longleftrightarrow> m w = (Inr x, w') \<and> ob' = ob"
  by (auto simp: sndE_def split: prod.splits)

lemma populateStorageBreakdown_ok:
  assumes "populateStorageBreakdown k name argsMap (dbd, w) = (Inr x, (dbd', w'))"
  obtains profile sets where "pd_Pinned (prof_Data profile)" and "breakdownSets argsMap profile = Inr sets"
    and "dbd' = setAllocationSets sets dbd"
  using assms
  by (auto simp: populateStorageBreakdown_def bindE_eq_Inr sndE_eq_Inr gotE_eq_Inr liftE_apply modifyE_def
      dest!: findPinnedProfile_pinned)

lemma jobLocations_ok:
  "jobLocations argsMap profile r i sets = Inr cs \<Longrightarrow> length cs = length sets \<and>
     (\<forall>j < length sets. clc_Reference (cs ! j) = setReference r (i + j) \<and>
        mandatory (if labelOf ''type'' argsMap \<in> {''lustre'', ''gfs2''} then ''network'' else ''physical'') \<in> set (clc_Access (cs ! j)))"
proof (induction sets arbitrary: i cs)
  case (Cons s sets)
  then obtain colocate cs' where cs: "cs = \<lparr>clc_Access = locationAccess (labelOf ''type'' argsMap) colocate, clc_Reference = setReference r i\<rparr> # cs'"
      and rest: "jobLocations argsMap profile r (Suc i) sets = Inr cs'"
    by (auto split: sum.splits)
  show ?case
    using Cons.IH [OF rest] by (auto simp: cs nth_Cons locationAccess_def split: nat.splits)
qed simp

lemma breakdown_simps [simp]:
  "dst_Storage (dbd_Status (populateRequires argsMap d)) = dst_Storage (dbd_Status d)"
  "dst_Compute (dbd_Status (setLocations cs d)) = Some \<lparr>cbd_Constraints = \<lparr>ccn_Location = cs\<rparr>\<rparr>"
  "dst_Storage (dbd_Status (setLocations cs d)) = dst_Storage (dbd_Status d)"
  "dst_Storage (dbd_Status (setAllocationSets sets (setStorage lifetime r d))) =
     Some \<lparr>sbd_Lifetime = lifetime, sbd_Reference = r, sbd_AllocationSets = sets\<rparr>"
  by (auto simp: populateRequires_def setLocations_def setAllocationSets_def setStorage_def updBreakdown_def split: option.splits)

text \<open>
  A job directive is broken down completely. When the breakdown of a \<^verbatim>\<open>jobdw\<close> directive succeeds, its
  status has a storage part whose allocation sets are those that the directive and a pinned profile
  determine, with the lifetime of the job, and a compute part with exactly one location constraint
  per allocation set, in order, each of which names its set in the Servers resource and demands the
  connection that the file system needs: the network for Lustre and GFS2, a physical one otherwise.
\<close>

theorem job_breakdown_complete:
  assumes "breakdownJob k name namespace argsMap (dbd, w) = (Inr None, (dbd', w'))"
  shows "\<exists>profile b cs. pd_Pinned (prof_Data profile) \<and> breakdownSets argsMap profile = Inr (sbd_AllocationSets b) \<and>
    dst_Storage (dbd_Status dbd') = Some b \<and> sbd_Lifetime b = ''job'' \<and>
    dst_Compute (dbd_Status dbd') = Some \<lparr>cbd_Constraints = \<lparr>ccn_Location = cs\<rparr>\<rparr> \<and>
    length cs = length (sbd_AllocationSets b) \<and>
    (\<forall>j < length cs. clc_Reference (cs ! j) = setReference (sbd_Reference b) j \<and>
       mandatory (if labelOf ''type'' argsMap \<in> {''lustre'', ''gfs2''} then ''network'' else ''physical'') \<in> set (clc_Access (cs ! j)))"
proof -
  from assms obtain pinned servers w2 r dbd1 w3
    where pop: "populateStorageBreakdown k name argsMap (setStorage ''job'' r dbd, w2) = (Inr (), (dbd1, w3))"
      and rest: "jobConstraints argsMap pinned r (dbd1, w3) = (Inr None, (dbd', w'))"
    by (auto simp: breakdownJob_def bindE_eq_Inr [where m = "sndE m" for m] bindE_eq_Inr [where m = "populateStorageBreakdown k name argsMap"]
        sndE_eq_Inr Let_def retE_apply split: option.splits)
  obtain profile sets where profile: "pd_Pinned (prof_Data profile)" "breakdownSets argsMap profile = Inr sets"
      and dbd1: "dbd1 = setAllocationSets sets (setStorage ''job'' r dbd)"
    by (rule populateStorageBreakdown_ok [OF pop])
  obtain cs where cs: "jobLocations argsMap pinned r 0 sets = Inr cs"
      and dbd': "dbd' = setLocations cs (populateRequires argsMap dbd1)"
    using rest by (cases "jobLocations argsMap pinned r 0 sets") (auto simp: jobConstraints_def dbd1 bindE_def liftE_apply retE_apply modifyE_def getE_def)
  show ?thesis
    using profile jobLocations_ok [OF cs]
    by (intro exI [of _ profile] exI [of _ "\<lparr>sbd_Lifetime = ''job'', sbd_Reference = r, sbd_AllocationSets = sets\<rparr>"] exI [of _ cs])
      (simp add: dbd' dbd1)
qed

lemma componentSets_labels:
  "componentSets profile cs = Inr sets \<Longrightarrow> map sal_Label sets = map lct_labelsStr cs \<and>
     map sal_MinimumCapacity sets = map lct_cap cs \<and>
     (\<forall>s \<in> set sets. StorageTypeRabbit \<in> set (asc_Labels (sal_Constraints s)))"
  by (induction cs arbitrary: sets)
    (auto simp: populateStorageAllocationSet_def split: sum.splits)

lemma length_filter_map: "length (filter (\<lambda>x. P (f x)) xs) = length (filter P (map f xs))"
  by (induction xs) auto

lemma lustreComponents_labels:
  assumes "lustreComponents command cap ls = Inr cs"
  shows "map lct_labelsStr cs =
    (if ld_CombinedMGTMDT ls then [''ost'', ''mgtmdt'']
     else if mgt_ExternalMGS (ld_MgtOptions ls) \<noteq> [] then [''ost'', ''mdt'']
     else if mgt_StandaloneMGTPoolName (ld_MgtOptions ls) \<noteq> [] then [''mgt''] else [''ost'', ''mdt'', ''mgt''])"
    and "command \<noteq> ''create_persistent'' \<Longrightarrow> ld_CombinedMGTMDT ls \<or> mgt_ExternalMGS (ld_MgtOptions ls) \<noteq> [] \<or>
      mgt_StandaloneMGTPoolName (ld_MgtOptions ls) = []"
  using assms by (auto simp: lustreComponents_def Let_def split: if_splits)

text \<open>
  A Lustre file system gets exactly one management target. For a profile that the webhook admits, the
  breakdown of a Lustre directive has exactly one set that carries an MGT (alone or combined with
  the MDT), or none if the profile names an external MGS. A directive other than \<^verbatim>\<open>create_persistent\<close>
  also gets OSTs and metadata, a pool of standalone MGTs is then refused, and every set is confined
  to Rabbit nodes.
\<close>

theorem Lustre_one_mgt:
  assumes "ValidateCreate ns profile = None" and "lustreSets command capacity profile = Inr sets"
  shows "length (filter (\<lambda>s. sal_Label s \<in> {''mgt'', ''mgtmdt''}) sets) =
      (if mgt_ExternalMGS (ld_MgtOptions (pd_LustreStorage (prof_Data profile))) = [] then 1 else 0) \<and>
    (command \<noteq> ''create_persistent'' \<longrightarrow>
      length (filter (\<lambda>s. sal_Label s = ''ost'') sets) = 1 \<and>
      length (filter (\<lambda>s. sal_Label s \<in> {''mdt'', ''mgtmdt''}) sets) = 1) \<and>
    (\<forall>s \<in> set sets. StorageTypeRabbit \<in> set (asc_Labels (sal_Constraints s)))"
proof -
  define ls where "ls = pd_LustreStorage (prof_Data profile)"
  have "validateContent profile = None" using assms(1) by (simp add: ValidateCreate_def split: if_splits)
  then have ok: "\<not> (ld_CombinedMGTMDT ls \<and> mgt_ExternalMGS (ld_MgtOptions ls) \<noteq> [])"
    by (auto simp: validateContent_def validateContentLustre_def ls_def Let_def split: if_splits option.splits)
  obtain cap cs where cs: "lustreComponents command cap ls = Inr cs" and sets: "componentSets profile cs = Inr sets"
    using assms(2) by (auto simp: lustreSets_def ls_def Let_def split: sum.splits)
  have counted: "length (filter (\<lambda>s. sal_Label s \<in> S) sets) = length (filter (\<lambda>l. l \<in> S) (map lct_labelsStr cs))" for S
    using length_filter_map [where P = "\<lambda>l. l \<in> S" and f = sal_Label] componentSets_labels [OF sets] by metis
  have "length (filter (\<lambda>s. sal_Label s \<in> {''mgt'', ''mgtmdt''}) sets) = (if mgt_ExternalMGS (ld_MgtOptions ls) = [] then 1 else 0)"
    unfolding counted lustreComponents_labels(1) [OF cs] using ok by simp
  moreover have "length (filter (\<lambda>s. sal_Label s \<in> {''ost''}) sets) = 1 \<and>
      length (filter (\<lambda>s. sal_Label s \<in> {''mdt'', ''mgtmdt''}) sets) = 1" if "command \<noteq> ''create_persistent''"
    unfolding counted lustreComponents_labels(1) [OF cs] using lustreComponents_labels(2) [OF cs that] by auto
  ultimately show ?thesis using componentSets_labels [OF sets] by (simp add: ls_def)
qed

text \<open>
  The capacity of a combined MGT and MDT is ignored: what the profile says about it
  (\<^verbatim>\<open>mgtMdtOptions.capacity\<close>) has no influence on the breakdown of any directive; the combined target gets
  the capacity of \<^verbatim>\<open>mdtOptions\<close>.
\<close>

theorem combined_capacity_ignored:
  "breakdownSets argsMap (profile\<lparr>prof_Data := (prof_Data profile)\<lparr>pd_LustreStorage :=
      (pd_LustreStorage (prof_Data profile))\<lparr>ld_MgtMdtOptions :=
        (ld_MgtMdtOptions (pd_LustreStorage (prof_Data profile)))\<lparr>mgtmdt_Capacity := c\<rparr>\<rparr>\<rparr>\<rparr>) =
   breakdownSets argsMap profile"
proof -
  let ?p = "profile\<lparr>prof_Data := (prof_Data profile)\<lparr>pd_LustreStorage :=
      (pd_LustreStorage (prof_Data profile))\<lparr>ld_MgtMdtOptions :=
        (ld_MgtMdtOptions (pd_LustreStorage (prof_Data profile)))\<lparr>mgtmdt_Capacity := c\<rparr>\<rparr>\<rparr>\<rparr>"
  have options: "GetLustreTargetOptions ?p = GetLustreTargetOptions profile"
    by (simp add: GetLustreTargetOptions_def fun_eq_iff Let_def)
  have "componentSets ?p cs = componentSets profile cs" for cs
    by (induction cs) (auto simp: options split: sum.splits)
  moreover have "lustreComponents command cap (pd_LustreStorage (prof_Data ?p)) = lustreComponents command cap (pd_LustreStorage (prof_Data profile))" for command cap
    by (simp add: lustreComponents_def mdtKey_def Let_def)
  ultimately have "lustreSets command cap ?p = lustreSets command cap profile" for command cap
    by (simp add: lustreSets_def Let_def split: sum.splits)
  then show ?thesis by (auto simp: breakdownSets_def Let_def)
qed


section \<open>Witnesses\<close>

definition lustreProfile :: NnfStorageProfile where
  "lustreProfile = zeroProfile\<lparr>prof_Meta := zeroMeta\<lparr>meta_Namespace := ''users''\<rparr>,
     prof_Data := zeroData\<lparr>pd_LustreStorage := zeroLustreData\<lparr>ld_OstOptions :=
       zeroLustreOstOptions\<lparr>ost_CapacityScalingFactor := ''1''\<rparr>\<rparr>\<rparr>\<rparr>"

lemma ParseFloat_1: "ParseFloat ''1'' = Inr (Finite 1)"
  using ParseFloat_itoa [of 1] by (simp add: itoa_nat.simps digit_char_def)

theorem Lustre_one_mgt_witness:
  "\<exists>sets. lustreSets ''jobdw'' 1000 lustreProfile = Inr sets \<and>
     length (filter (\<lambda>s. sal_Label s \<in> {''mgt'', ''mgtmdt''}) sets) = 1"
proof -
  have admitted: "ValidateCreate ''users'' lustreProfile = None" by code_simp
  obtain sets where sets: "lustreSets ''jobdw'' 1000 lustreProfile = Inr sets"
    by (auto simp: lustreSets_def lustreComponents_def GetLustreTargetOptions_def lustreProfile_def ParseFloat_1 Let_def
        zeroLustreData_def zeroLustreMgtOptions_def zeroLustreOstOptions_def)
  have "mgt_ExternalMGS (ld_MgtOptions (pd_LustreStorage (prof_Data lustreProfile))) = []"
    by (simp add: lustreProfile_def zeroLustreData_def zeroLustreMgtOptions_def)
  then show ?thesis using Lustre_one_mgt [OF admitted sets] sets by simp
qed

definition exBreakdown :: "string \<Rightarrow> DirectiveBreakdown" where
  "exBreakdown directive = \<lparr>dbd_Meta = zeroMeta\<lparr>meta_Name := ''wf-0'', meta_Namespace := ''default'',
       meta_Finalizers := [finalizerDirectiveBreakdown]\<rparr>,
     dbd_Spec = \<lparr>dbs_Directive = directive, dbs_UserID = 8\<rparr>,
     dbd_Status = \<lparr>dst_Storage = None, dst_Compute = None, dst_Ready = False, dst_Requires = [], dst_Error = None\<rparr>\<rparr>"

definition exBreakdownKube :: "unit breakdownKube" where
  "exBreakdownKube = \<lparr>bk_Breakdown = \<lparr>kc_Get = \<lambda>_ _. retE (exBreakdown []), kc_Create = retE, kc_Update = retE, kc_UpdateStatus = retE\<rparr>,
     bk_PSI = \<lparr>kc_Get = \<lambda>_ _. retE (exPsi [] []), kc_Create = retE, kc_Update = retE, kc_UpdateStatus = retE\<rparr>,
     bk_Servers = \<lparr>kc_Get = \<lambda>ns n. retE (newServers n ns), kc_Create = retE, kc_Update = retE, kc_UpdateStatus = retE\<rparr>,
     bk_Profiles = \<lparr>pc_List = \<lambda>_ w. (Inr [], w), pc_Get = \<lambda>_ _ w. (Found (pinnedCopy ''DirectiveBreakdown'' zeroMeta ''wf-0'' zeroProfile), w),
       pc_Create = \<lambda>_ w. (Created, w)\<rparr>, bk_ProfileNamespace = ''nnf-system'',
     bk_ServersList = noChildren, bk_ProfileList = noChildren, bk_PsiList = noChildren\<rparr>"


theorem job_breakdown_complete_witness:
  "\<exists>dbd' b. fst (breakdownJob exBreakdownKube ''wf-0'' ''default''
       [(''command'', ''jobdw''), (''type'', ''xfs''), (''name'', ''fs'')] (exBreakdown [], ())) = Inr None \<and>
     dbd' = fst (snd (breakdownJob exBreakdownKube ''wf-0'' ''default''
       [(''command'', ''jobdw''), (''type'', ''xfs''), (''name'', ''fs'')] (exBreakdown [], ()))) \<and>
     dst_Storage (dbd_Status dbd') = Some b \<and> sbd_Lifetime b = ''job''"
proof -
  let ?run = "breakdownJob exBreakdownKube ''wf-0'' ''default''
       [(''command'', ''jobdw''), (''type'', ''xfs''), (''name'', ''fs'')] (exBreakdown [], ())"
  have ok: "fst ?run = Inr None" by code_simp
  obtain r d w where run: "?run = (r, (d, w))" by (metis prod.exhaust)
  with ok have "?run = (Inr None, (d, w))" by simp
  from job_breakdown_complete [OF this] show ?thesis using ok run by auto
qed

end
