(* ===== verification/LustreMgt.thy ===== *)
theory LustreMgt
  imports Client Command
begin

text \<open>
  \<^verbatim>\<open>internal/controller/nnf_lustre_mgt_controller.go\<close>: the controller of a Lustre management
  target. It hands out file system names, which must be unique on the target, to the claims of the
  resource, and runs the commands that storages ask for. The types are those of
  \<^verbatim>\<open>api/v1alpha11/nnflustremgt_types.go\<close>. File system names are ASCII text, so that a rune is a byte.
\<close>

section \<open>Types\<close>

record NnfLustreMGTSpecCommand =
  msc_Reference :: ObjectReference
  msc_Commands :: "string list"

record NnfLustreMGTStatusCommand =
  mtc_Reference :: ObjectReference
  mtc_Ready :: bool
  mtc_Error :: "ResourceErrorInfo option"

record NnfLustreMGTSpec =
  mgs_Addresses :: "string list"
  mgs_FsNameBlackList :: "string list"
  mgs_FsNameStart :: string
  mgs_FsNameStartReference :: ObjectReference
  mgs_ClaimList :: "ObjectReference list"
  mgs_CommandList :: "NnfLustreMGTSpecCommand list"

record NnfLustreMGTStatusClaim =
  mcl_Reference :: ObjectReference
  mcl_FsName :: string

record NnfLustreMGTStatus =
  mgst_FsNameNext :: string
  mgst_ClaimList :: "NnfLustreMGTStatusClaim list"
  mgst_CommandList :: "NnfLustreMGTStatusCommand list"
  mgst_Error :: "ResourceErrorInfo option"

record NnfLustreMGT =
  mgt_Meta :: ObjectMeta
  mgt_Spec :: NnfLustreMGTSpec
  mgt_Status :: NnfLustreMGTStatus

text \<open>A config map; a nil map of data reads as an empty one and is made before it is written.\<close>

record ConfigMap =
  cfg_Meta :: ObjectMeta
  cfg_Data :: kv

datatype ControllerType = ControllerWorker | ControllerRabbit | ControllerTest

record 'w mgtKube =
  gk_Mgt :: "(NnfLustreMGT, 'w) kclient"
  gk_ConfigMap :: "(ConfigMap, 'w) kclient"

section \<open>File system names\<close>

function incrementRuneList :: "nat list \<Rightarrow> nat \<Rightarrow> nat \<Rightarrow> nat list" where
  "incrementRuneList digits start end' =
     (if digits = [] then []
      else let digit = last digits + 1 in
        if digit > end' then incrementRuneList (butlast digits) start end' @ [start]
        else butlast digits @ [digit])"
  by auto
termination by (relation "measure (\<lambda>(digits, _, _). length digits)") auto

declare incrementRuneList.simps [simp del]

definition incrementFsName :: "string \<Rightarrow> string" where
  "incrementFsName fsname = map char_of (incrementRuneList (map of_char fsname) 97 122)"

definition isFsNameBlackListed :: "NnfLustreMGT \<Rightarrow> string \<Rightarrow> bool" where
  "isFsNameBlackListed m fsname = (fsname \<in> set (mgs_FsNameBlackList (mgt_Spec m)))"

text \<open>
  The loop of \<^verbatim>\<open>SetFsNameNext\<close>. It may run for ever, when every name that follows is on the
  list: its value is \<open>None\<close> then.
\<close>

partial_function (option) nextFsName :: "string list \<Rightarrow> string \<Rightarrow> string option" where
  [code]: "nextFsName blackList fsname =
     (let fsname' = incrementFsName fsname in
      if fsname' \<notin> set blackList then Some fsname' else nextFsName blackList fsname')"

definition setNext :: "string \<Rightarrow> NnfLustreMGT \<Rightarrow> NnfLustreMGT" where
  "setNext fsname m = m\<lparr>mgt_Status := (mgt_Status m)\<lparr>mgst_FsNameNext := fsname\<rparr>\<rparr>"

definition notConfigMap :: failure where
  "notConfigMap = ResErr (WithUser (WithFatal (NewResourceError
     (''lustre MGT start reference does not have kind 'ConfigMap'' @ [CHR 0x27]))))"

text \<open>Reading the config map of the reference.\<close>

definition getConfigMap :: "'w mgtKube \<Rightarrow> ObjectReference \<Rightarrow> ('w, ConfigMap) io" where
  "getConfigMap k ref =
     wrapE (majorError (''could not get Lustre MGT start fsname config map: '' @ ref_Namespace ref @ ''/'' @ ref_Name ref))
       (kc_Get (gk_ConfigMap k) (ref_Namespace ref) (ref_Name ref))"

definition saveNext :: "'w mgtKube \<Rightarrow> ObjectReference \<Rightarrow> string \<Rightarrow> ('w, Result option) io" where
  "saveNext k ref fsname =
     (if ref = emptyRef then retE None
      else if ref_Kind ref \<noteq> ''ConfigMap'' then failE notConfigMap
      else bindE (getConfigMap k ref) (\<lambda>configMap.
             catchE (bindE (kc_Update (gk_ConfigMap k)
                 (configMap\<lparr>cfg_Data := kv_put ''NextFsName'' fsname (cfg_Data configMap)\<rparr>)) (\<lambda>_. retE None))
               (\<lambda>e. if IsConflict e then retE (Some requeueResult)
                    else failE (majorError (''could not update Lustre MGT used fsname config map:  '' @
                      ref_Namespace ref @ ''/'' @ ref_Name ref) e))))"

definition SetFsNameNext :: "'w mgtKube \<Rightarrow> string \<Rightarrow> (NnfLustreMGT \<times> 'w, Result option) io" where
  "SetFsNameNext k fsname = bindE getE (\<lambda>m.
     case nextFsName (mgs_FsNameBlackList (mgt_Spec m)) fsname of
       None \<Rightarrow> failE Hang
     | Some fsname' \<Rightarrow>
         bindE (sndE (saveNext k (mgs_FsNameStartReference (mgt_Spec m)) fsname')) (\<lambda>result.
           case result of
             Some r \<Rightarrow> retE (Some r)
           | None \<Rightarrow> bindE (modifyE (setNext fsname')) (\<lambda>_. retE None)))"

section \<open>Claims\<close>

definition addClaim :: "NnfLustreMGTStatusClaim \<Rightarrow> NnfLustreMGT \<Rightarrow> NnfLustreMGT" where
  "addClaim c m = m\<lparr>mgt_Status := (mgt_Status m)\<lparr>mgst_ClaimList := mgst_ClaimList (mgt_Status m) @ [c]\<rparr>\<rparr>"

definition HandleNewClaims :: "'w mgtKube \<Rightarrow> (NnfLustreMGT \<times> 'w, Result option) io" where
  "HandleNewClaims k = bindE getE (\<lambda>m.
     case List.find (\<lambda>r. r \<notin> mcl_Reference ` set (mgst_ClaimList (mgt_Status m))) (mgs_ClaimList (mgt_Spec m)) of
       None \<Rightarrow> retE None
     | Some reference \<Rightarrow>
         let fsnameNext = mgst_FsNameNext (mgt_Status m) in
         bindE (SetFsNameNext k fsnameNext) (\<lambda>result.
           case result of
             Some r \<Rightarrow> retE (Some r)
           | None \<Rightarrow>
               bindE (modifyE (addClaim \<lparr>mcl_Reference = reference, mcl_FsName = fsnameNext\<rparr>)) (\<lambda>_. retE None)))"

definition EraseOldFsName :: "'w os \<Rightarrow> ControllerType \<Rightarrow> string \<Rightarrow> ('w, unit) io" where
  "EraseOldFsName os ct fsname =
     (if os_getenv os ''ENVIRONMENT'' = Some ''kind'' \<or> ct \<noteq> ControllerRabbit then retE ()
      else case os_getenv os ''NNF_LUSTRE_FSNAME_ERASE_COMMAND'' of
        None \<Rightarrow> retE ()
      | Some cmd \<Rightarrow>
          catchE (bindE (Run os (cmd @ '' '' @ fsname)) (\<lambda>_. retE ()))
            (\<lambda>e. if go_contains ''OBD_IOC_LCFG_ERASE failed: No such file or directory'' (errText e) then retE ()
                 else failE (majorError (''unable to remove fsname '' @ (CHR 0x27 # fsname @ [CHR 0x27]) @ '' from MGT'') e)))"

text \<open>The index of the first element that satisfies a condition: the position at which a loop returns.\<close>

fun firstIndex :: "('a \<Rightarrow> bool) \<Rightarrow> 'a list \<Rightarrow> nat option" where
  "firstIndex P [] = None"
| "firstIndex P (x # xs) = (if P x then Some 0 else map_option Suc (firstIndex P xs))"

text \<open>\<^verbatim>\<open>append(xs[:i], xs[i+1:]...)\<close>\<close>

definition removeAt :: "nat \<Rightarrow> 'a list \<Rightarrow> 'a list" where
  "removeAt i xs = take i xs @ drop (Suc i) xs"

definition removeClaim :: "nat \<Rightarrow> NnfLustreMGT \<Rightarrow> NnfLustreMGT" where
  "removeClaim i m = m\<lparr>mgt_Status := (mgt_Status m)\<lparr>mgst_ClaimList := removeAt i (mgst_ClaimList (mgt_Status m))\<rparr>\<rparr>"

definition RemoveOldClaims :: "'w os \<Rightarrow> ControllerType \<Rightarrow> (NnfLustreMGT \<times> 'w, unit) io" where
  "RemoveOldClaims os ct = bindE getE (\<lambda>m.
     case firstIndex (\<lambda>c. mcl_Reference c \<notin> set (mgs_ClaimList (mgt_Spec m))) (mgst_ClaimList (mgt_Status m)) of
       None \<Rightarrow> retE ()
     | Some i \<Rightarrow>
         bindE (sndE (EraseOldFsName os ct (mcl_FsName (mgst_ClaimList (mgt_Status m) ! i)))) (\<lambda>_.
           modifyE (removeClaim i)))"

section \<open>Commands\<close>

fun runLines :: "'w os \<Rightarrow> string list \<Rightarrow> ('w, unit) io" where
  "runLines os [] = retE ()"
| "runLines os (commandLine # rest) =
     bindE (wrapE (majorError (''unable to run MGT command: '' @ commandLine)) (Run os commandLine)) (\<lambda>_.
       runLines os rest)"

definition RunCommands :: "'w os \<Rightarrow> ControllerType \<Rightarrow> string list \<Rightarrow> ('w, unit) io" where
  "RunCommands os ct commandLines =
     (if ct \<noteq> ControllerRabbit then retE ()
      else if os_getenv os ''ENVIRONMENT'' \<noteq> Some ''production'' then retE ()
      else runLines os commandLines)"

text \<open>
  The map from a reference to its status holds the address of a copy of the entry; for a reference
  that occurs twice, of the last one.
\<close>

definition commandStatusOf :: "NnfLustreMGT \<Rightarrow> ObjectReference \<Rightarrow> NnfLustreMGTStatusCommand option" where
  "commandStatusOf m ref =
     List.find (\<lambda>c. mtc_Reference c = ref) (rev (mgst_CommandList (mgt_Status m)))"

definition addCommandStatus :: "NnfLustreMGTStatusCommand \<Rightarrow> NnfLustreMGT \<Rightarrow> NnfLustreMGT" where
  "addCommandStatus c m =
     m\<lparr>mgt_Status := (mgt_Status m)\<lparr>mgst_CommandList := mgst_CommandList (mgt_Status m) @ [c]\<rparr>\<rparr>"

text \<open>
  What the code assigns to the status of a command that is there already, it assigns to the copy,
  so only a new entry reaches the resource.
\<close>

definition HandleNewCommands :: "'w os \<Rightarrow> ControllerType \<Rightarrow> (NnfLustreMGT \<times> 'w, Result option) io" where
  "HandleNewCommands os ct = bindE getE (\<lambda>m.
     case List.find (\<lambda>c. case commandStatusOf m (msc_Reference c) of None \<Rightarrow> True | Some st \<Rightarrow> \<not> mtc_Ready st)
            (mgs_CommandList (mgt_Spec m)) of
       None \<Rightarrow> retE None
     | Some command \<Rightarrow>
         bindE (sndE (tryE (RunCommands os ct (msc_Commands command)))) (\<lambda>err.
           let status = \<lparr>mtc_Reference = msc_Reference command, mtc_Ready = (case err of Inl _ \<Rightarrow> False | Inr _ \<Rightarrow> True),
                 mtc_Error = (case err of Inl e \<Rightarrow> Some (WithError (Some e) (NewResourceError ''error running MGT command''))
                              | Inr _ \<Rightarrow> None)\<rparr> in
           if commandStatusOf m (msc_Reference command) = None
           then bindE (modifyE (addCommandStatus status)) (\<lambda>_. retE None)
           else retE None))"

definition removeCommand :: "nat \<Rightarrow> NnfLustreMGT \<Rightarrow> NnfLustreMGT" where
  "removeCommand i m =
     m\<lparr>mgt_Status := (mgt_Status m)\<lparr>mgst_CommandList := removeAt i (mgst_CommandList (mgt_Status m))\<rparr>\<rparr>"

definition RemoveOldCommands :: "(NnfLustreMGT \<times> 'w, unit) io" where
  "RemoveOldCommands = bindE getE (\<lambda>m.
     case firstIndex (\<lambda>c. mtc_Reference c \<notin> msc_Reference ` set (mgs_CommandList (mgt_Spec m)))
            (mgst_CommandList (mgt_Status m)) of
       None \<Rightarrow> retE ()
     | Some i \<Rightarrow> modifyE (removeCommand i))"

section \<open>Reconcile\<close>

abbreviation finalizerNnfLustreMGT :: string where
  "finalizerNnfLustreMGT \<equiv> ''nnf.cray.hpe.com/nnf_lustre_mgt''"

text \<open>The first name, when the status holds none yet.\<close>

definition startFsName :: "'w mgtKube \<Rightarrow> NnfLustreMGTSpec \<Rightarrow> ('w, string) io" where
  "startFsName k spec =
     (let ref = mgs_FsNameStartReference spec in
      if ref = emptyRef then retE (mgs_FsNameStart spec)
      else if ref_Kind ref \<noteq> ''ConfigMap'' then failE notConfigMap
      else bindE (getConfigMap k ref) (\<lambda>configMap.
        case map_of (cfg_Data configMap) ''NextFsName'' of
          None \<Rightarrow> retE (mgs_FsNameStart spec)
        | Some name \<Rightarrow>
            if length name \<noteq> 8 then
              failE (ResErr (WithFatal (WithError None (NewResourceError
                (''starting fsname from config map: '' @ ref_Namespace ref @ ''/'' @ ref_Name ref @ '' was not 8 characters'')))))
            else retE name))"

definition initFsName :: "'w mgtKube \<Rightarrow> (NnfLustreMGT \<times> 'w, Result) io" where
  "initFsName k = bindE getE (\<lambda>m.
     bindE (sndE (startFsName k (mgt_Spec m))) (\<lambda>fsnameNext.
       if \<not> isFsNameBlackListed m (mgs_FsNameStart (mgt_Spec m))
       then bindE (modifyE (setNext fsnameNext)) (\<lambda>_. retE doneResult)
       else bindE (SetFsNameNext k (mgs_FsNameStart (mgt_Spec m))) (\<lambda>result.
         case result of Some r \<Rightarrow> retE r | None \<Rightarrow> retE doneResult)))"

definition setMgtFinalizers :: "(string list \<Rightarrow> string list) \<Rightarrow> NnfLustreMGT \<Rightarrow> NnfLustreMGT" where
  "setMgtFinalizers f m = m\<lparr>mgt_Meta := (mgt_Meta m)\<lparr>meta_Finalizers := f (meta_Finalizers (mgt_Meta m))\<rparr>\<rparr>"

definition handleClaimsAndCommands :: "'w mgtKube \<Rightarrow> 'w os \<Rightarrow> ControllerType \<Rightarrow> (NnfLustreMGT \<times> 'w, Result) io" where
  "handleClaimsAndCommands k os ct =
     bindE (HandleNewClaims k) (\<lambda>result.
       case result of
         Some r \<Rightarrow> retE r
       | None \<Rightarrow>
           bindE (RemoveOldClaims os ct) (\<lambda>_.
           bindE (HandleNewCommands os ct) (\<lambda>result.
             case result of
               Some r \<Rightarrow> retE r
             | None \<Rightarrow> bindE RemoveOldCommands (\<lambda>_. retE doneResult))))"

definition lustreMgtBody :: "'w mgtKube \<Rightarrow> 'w os \<Rightarrow> ControllerType \<Rightarrow> (NnfLustreMGT \<times> 'w, Result) io" where
  "lustreMgtBody k os ct = bindE getE (\<lambda>m.
     if meta_Deleting (mgt_Meta m) then
       (if \<not> ContainsFinalizer finalizerNnfLustreMGT (meta_Finalizers (mgt_Meta m)) then retE doneResult
        else bindE (modifyE (setMgtFinalizers (RemoveFinalizer finalizerNnfLustreMGT))) (\<lambda>_. updateOrRequeue (gk_Mgt k)))
     else if \<not> ContainsFinalizer finalizerNnfLustreMGT (meta_Finalizers (mgt_Meta m)) then
       bindE (modifyE (setMgtFinalizers (AddFinalizer finalizerNnfLustreMGT))) (\<lambda>_. updateOrRequeue (gk_Mgt k))
     else if mgst_FsNameNext (mgt_Status m) = [] then initFsName k
     else handleClaimsAndCommands k os ct)"

definition setMgtError :: "failure option \<Rightarrow> NnfLustreMGT \<Rightarrow> NnfLustreMGT" where
  "setMgtError err m = m\<lparr>mgt_Status := (mgt_Status m)\<lparr>mgst_Error := resourceError err\<rparr>\<rparr>"

definition LustreMGT_Reconcile ::
  "'w mgtKube \<Rightarrow> 'w os \<Rightarrow> ControllerType \<Rightarrow> string \<Rightarrow> string \<Rightarrow> 'w \<Rightarrow> NnfLustreMGT option outcome \<times> 'w" where
  "LustreMGT_Reconcile k os ct namespace name =
     reconcileObject (gk_Mgt k) mgt_Status setMgtError namespace name (lustreMgtBody k os ct)"

section \<open>The order of the names\<close>

text \<open>
  A name of lower-case letters is a number in base 26, its first letter the most significant digit.
\<close>

abbreviation isLower :: "nat \<Rightarrow> bool" where
  "isLower d \<equiv> 97 \<le> d \<and> d \<le> 122"

definition runeVal :: "nat list \<Rightarrow> nat" where
  "runeVal ds = foldl (\<lambda>v d. 26 * v + (d - 97)) 0 ds"

definition lowerName :: "string \<Rightarrow> bool" where
  "lowerName fsname = list_all isLower (map of_char fsname)"

definition nameVal :: "string \<Rightarrow> nat" where
  "nameVal fsname = runeVal (map of_char fsname)"

lemma runeVal_simps [simp]:
  "runeVal [] = 0" "runeVal (ds @ [d]) = 26 * runeVal ds + (d - 97)"
  by (simp_all add: runeVal_def)

lemma runeVal_less: "list_all isLower ds \<Longrightarrow> runeVal ds < 26 ^ length ds"
  by (induction ds rule: rev_induct) auto

lemma runeVal_inject:
  "list_all isLower ds \<Longrightarrow> list_all isLower es \<Longrightarrow> length ds = length es \<Longrightarrow> runeVal ds = runeVal es \<Longrightarrow> ds = es"
proof (induction ds arbitrary: es rule: rev_induct)
  case Nil
  then show ?case by simp
next
  case (snoc d ds)
  then obtain e es' where es: "es = es' @ [e]" by (cases es rule: rev_cases) auto
  from snoc.prems es have val: "26 * runeVal ds + (d - 97) = 26 * runeVal es' + (e - 97)"
    and low: "isLower d" "isLower e" by auto
  have digits: "26 * a + x = 26 * b + y \<Longrightarrow> x < 26 \<Longrightarrow> y < 26 \<Longrightarrow> a = b \<and> x = y" for a b x y :: nat
    by arith
  from low have "d - 97 < 26" "e - 97 < 26" by auto
  then have "runeVal ds = runeVal es' \<and> d - 97 = e - 97" using digits [OF val] by blast
  then have "runeVal ds = runeVal es'" "d = e" using low by auto
  with snoc.prems snoc.IH es show ?case by auto
qed

lemma incrementRuneList_simps:
  "incrementRuneList [] a z = []"
  "incrementRuneList (ds @ [d]) a z =
     (if d + 1 > z then incrementRuneList ds a z @ [a] else ds @ [d + 1])"
  by (simp_all add: incrementRuneList.simps [of "[]"] incrementRuneList.simps [of "ds @ [d]"] Let_def)

lemma incrementRuneList_val:
  assumes "list_all isLower ds"
  shows "length (incrementRuneList ds 97 122) = length ds \<and> list_all isLower (incrementRuneList ds 97 122) \<and>
    runeVal (incrementRuneList ds 97 122) = (runeVal ds + 1) mod 26 ^ length ds"
  using assms
proof (induction ds rule: rev_induct)
  case Nil
  then show ?case by (simp add: incrementRuneList_simps)
next
  case (snoc d ds)
  show ?case
  proof (cases "d = 122")
    case True
    with snoc show ?thesis
      by (simp add: incrementRuneList_simps mult_mod_right)
  next
    case False
    with snoc.prems have d: "isLower d" "d < 122" and v: "runeVal ds < 26 ^ length ds"
      by (auto intro: runeVal_less)
    then have "26 * runeVal ds + (d + 1 - 97) < 26 ^ Suc (length ds)" by simp
    with d snoc.prems show ?thesis by (simp add: incrementRuneList_simps)
  qed
qed

lemma lower_char_of: "isLower d \<Longrightarrow> of_char (char_of d :: char) = d"
  by simp

lemma map_of_char_increment:
  assumes "lowerName fsname"
  shows "map of_char (incrementFsName fsname) = incrementRuneList (map of_char fsname) 97 122"
proof -
  have "list_all isLower (incrementRuneList (map of_char fsname) 97 122)"
    using assms incrementRuneList_val by (simp add: lowerName_def)
  then show ?thesis
    unfolding incrementFsName_def by (auto simp: list_all_iff intro!: map_idI)
qed

lemma incrementFsName_val:
  assumes "lowerName fsname"
  shows "lowerName (incrementFsName fsname)" "length (incrementFsName fsname) = length fsname"
    "nameVal (incrementFsName fsname) = (nameVal fsname + 1) mod 26 ^ length fsname"
proof -
  note inc = map_of_char_increment [OF assms]
    incrementRuneList_val [of "map of_char fsname", folded lowerName_def, OF assms]
  show "lowerName (incrementFsName fsname)"
    using inc by (metis lowerName_def)
  show "length (incrementFsName fsname) = length fsname"
    using inc by (metis length_map)
  show "nameVal (incrementFsName fsname) = (nameVal fsname + 1) mod 26 ^ length fsname"
    unfolding nameVal_def using inc by simp
qed

lemma nameVal_inject:
  "lowerName s \<Longrightarrow> lowerName t \<Longrightarrow> length s = length t \<Longrightarrow> nameVal s = nameVal t \<longleftrightarrow> s = t"
  using runeVal_inject [of "map of_char s" "map of_char t"]
  by (auto simp: lowerName_def nameVal_def inj_map_eq_map inj_of_char)

lemma nameVal_less: "lowerName s \<Longrightarrow> nameVal s < 26 ^ length s"
  unfolding lowerName_def nameVal_def using runeVal_less by fastforce

lemma iterate_val:
  assumes "lowerName s"
  shows "lowerName ((incrementFsName ^^ n) s) \<and> length ((incrementFsName ^^ n) s) = length s \<and>
    nameVal ((incrementFsName ^^ n) s) = (nameVal s + n) mod 26 ^ length s"
proof (induction n)
  case 0
  then show ?case using assms nameVal_less by simp
next
  case (Suc n)
  then show ?case using incrementFsName_val by (simp add: mod_Suc_eq)
qed

lemma iterate_distinct:
  assumes "lowerName s" and "i < j" and "j < i + 26 ^ length s"
  shows "(incrementFsName ^^ i) s \<noteq> (incrementFsName ^^ j) s"
proof
  assume "(incrementFsName ^^ i) s = (incrementFsName ^^ j) s"
  then have "(nameVal s + i) mod 26 ^ length s = (nameVal s + j) mod 26 ^ length s"
    using iterate_val [OF assms(1)] by metis
  then have "26 ^ length s dvd (nameVal s + j) - (nameVal s + i)"
    using assms(2) by (metis add_le_cancel_left less_imp_le mod_eq_dvd_iff_nat)
  then have "26 ^ length s dvd j - i" by simp
  then show False using assms by (auto dest!: dvd_imp_le)
qed

section \<open>The search for a free name\<close>

definition freeSuccessor :: "string list \<Rightarrow> string \<Rightarrow> string \<Rightarrow> bool" where
  "freeSuccessor blackList s t \<longleftrightarrow>
     (\<exists>n. t = (incrementFsName ^^ Suc n) s \<and> t \<notin> set blackList \<and>
         (\<forall>i<n. (incrementFsName ^^ Suc i) s \<in> set blackList))"

lemma freeSuccessor_step:
  "incrementFsName s \<in> set blackList \<Longrightarrow> freeSuccessor blackList (incrementFsName s) t \<Longrightarrow>
     freeSuccessor blackList s t"
proof -
  assume b: "incrementFsName s \<in> set blackList" and "freeSuccessor blackList (incrementFsName s) t"
  then obtain n where n: "t = (incrementFsName ^^ Suc n) (incrementFsName s)" "t \<notin> set blackList"
      "\<forall>i<n. (incrementFsName ^^ Suc i) (incrementFsName s) \<in> set blackList"
    unfolding freeSuccessor_def by blast
  have "(incrementFsName ^^ Suc i) s \<in> set blackList" if "i < Suc n" for i
    using that n(3) b by (cases i) (auto simp: funpow_swap1)
  moreover have "t = (incrementFsName ^^ Suc (Suc n)) s"
    unfolding n(1) by (simp add: funpow_swap1)
  ultimately show ?thesis using n(2) unfolding freeSuccessor_def by blast
qed

lemma nextFsName_Some: "nextFsName blackList s = Some t \<Longrightarrow> freeSuccessor blackList s t"
proof (erule nextFsName.raw_induct [where P = freeSuccessor, rotated], goal_cases)
  case (1 nextFs black fsname y)
  show ?case
  proof (cases "incrementFsName fsname \<in> set black")
    case False
    with 1 have "y = incrementFsName fsname" by (simp add: Let_def)
    with False show ?thesis unfolding freeSuccessor_def by (intro exI [of _ 0]) simp
  next
    case True
    with 1 show ?thesis by (auto simp: Let_def intro: freeSuccessor_step)
  qed
qed

lemma nextFsName_finds:
  "(incrementFsName ^^ Suc n) s \<notin> set blackList \<Longrightarrow> \<exists>t. nextFsName blackList s = Some t"
proof (induction n arbitrary: s)
  case 0
  then show ?case by (subst nextFsName.simps) (simp add: Let_def)
next
  case (Suc n)
  have "(incrementFsName ^^ Suc n) (incrementFsName s) \<notin> set blackList"
    using Suc.prems by (simp add: funpow_swap1)
  from Suc.IH [OF this] show ?case
    by (subst nextFsName.simps) (simp add: Let_def)
qed

text \<open>Among the first \<open>length blackList + 1\<close> successors one is not on the list, if they are distinct.\<close>

lemma free_successor:
  assumes "lowerName s" and "length blackList < 26 ^ length s"
  shows "\<exists>n \<le> length blackList. (incrementFsName ^^ Suc n) s \<notin> set blackList"
proof (rule ccontr)
  let ?next = "\<lambda>n. (incrementFsName ^^ Suc n) s"
  assume "\<not> ?thesis"
  then have sub: "?next ` {0..length blackList} \<subseteq> set blackList" by auto
  have "inj_on ?next {0..length blackList}"
  proof (rule linorder_inj_onI)
    fix i j assume "i < j" "i \<in> {0..length blackList}" "j \<in> {0..length blackList}"
    then show "?next i \<noteq> ?next j"
      using iterate_distinct [OF assms(1), of "Suc i" "Suc j"] assms(2) by simp
  qed auto
  then have "card {0..length blackList} \<le> card (set blackList)"
    using sub card_image card_mono [OF finite_set sub] by metis
  also have "card (set blackList) \<le> length blackList" by (rule card_length)
  finally show False by simp
qed

section \<open>What a reconcile does to the claims\<close>

abbreviation claimsOf :: "NnfLustreMGT \<Rightarrow> NnfLustreMGTStatusClaim list" where
  "claimsOf m \<equiv> mgst_ClaimList (mgt_Status m)"

abbreviation nextOf :: "NnfLustreMGT \<Rightarrow> string" where
  "nextOf m \<equiv> mgst_FsNameNext (mgt_Status m)"

lemma SetFsNameNext_effect:
  assumes "SetFsNameNext k s (m, w) = (r, (m', w'))"
  shows "(m' = m \<and> r \<noteq> Inr None) \<or> (\<exists>n. r = Inr None \<and> m' = setNext ((incrementFsName ^^ Suc n) s) m)"
proof (cases "nextFsName (mgs_FsNameBlackList (mgt_Spec m)) s")
  case None
  then show ?thesis using assms by (auto simp: SetFsNameNext_def failE_apply)
next
  case (Some t)
  obtain q w1 where q: "saveNext k (mgs_FsNameStartReference (mgt_Spec m)) t w = (q, w1)" by fastforce
  show ?thesis
    using assms Some q nextFsName_Some [OF Some, unfolded freeSuccessor_def]
    by (cases q) (auto simp: SetFsNameNext_def bindE_def sndE_def getE_def modifyE_def retE_def split: option.splits)
qed

lemma HandleNewClaims_effect:
  assumes "HandleNewClaims k (m, w) = (r, (m', w'))"
  shows "m' = m \<or> (\<exists>ref n. ref \<notin> mcl_Reference ` set (claimsOf m) \<and>
    m' = addClaim \<lparr>mcl_Reference = ref, mcl_FsName = nextOf m\<rparr> (setNext ((incrementFsName ^^ Suc n) (nextOf m)) m))"
proof (cases "List.find (\<lambda>r. r \<notin> mcl_Reference ` set (claimsOf m)) (mgs_ClaimList (mgt_Spec m))")
  case None
  then show ?thesis using assms by (simp add: HandleNewClaims_def retE_apply)
next
  case (Some ref)
  then have new: "ref \<notin> mcl_Reference ` set (claimsOf m)" by (auto simp: find_Some_iff)
  obtain q m1 w1 where q: "SetFsNameNext k (nextOf m) (m, w) = (q, (m1, w1))" by (metis prod_cases3)
  from SetFsNameNext_effect [OF q] show ?thesis
    using assms Some q new
    by (cases q) (auto simp: HandleNewClaims_def bindE_def getE_def modifyE_def retE_def Let_def split: option.splits)
qed

lemma firstIndex_less: "firstIndex P xs = Some i \<Longrightarrow> i < length xs \<and> P (xs ! i)"
  by (induction xs arbitrary: i) (auto split: if_splits)

lemma RemoveOldClaims_effect:
  assumes "RemoveOldClaims os ct (m, w) = (r, (m', w'))"
  shows "m' = m \<or> (\<exists>i. m' = removeClaim i m)"
  using assms
  by (auto simp: RemoveOldClaims_def bindE_def getE_def modifyE_def retE_def sndE_def
      split: option.splits prod.splits sum.splits)

lemma keeps_mgtCommands:
  "keeps (\<lambda>m. nextOf m = s \<and> claimsOf m = cs) (HandleNewCommands os ct)"
  "keeps (\<lambda>m. nextOf m = s \<and> claimsOf m = cs) RemoveOldCommands"
  unfolding HandleNewCommands_def RemoveOldCommands_def Let_def
  by (intro keeps_rules; simp add: addCommandStatus_def removeCommand_def)+

text \<open>
  A plain update of a resource with a status subresource leaves the status as it is: the documented
  behaviour of the API server.
\<close>

definition updateKeepsStatus :: "(NnfLustreMGT, 'w) kclient \<Rightarrow> bool" where
  "updateKeepsStatus c \<longleftrightarrow>
     (\<forall>m w m' w'. kc_Update c m w = (Inr m', w') \<longrightarrow> mgt_Status m' = mgt_Status m)"

lemma subseq_facts:
  "subseq xs ys \<Longrightarrow> set xs \<subseteq> set ys" "subseq xs ys \<Longrightarrow> distinct ys \<Longrightarrow> distinct xs"
  by (auto simp: subseq_conv_nths dest: in_set_nthsD)

lemma subseq_distinct_map: "subseq xs ys \<Longrightarrow> distinct (map f ys) \<Longrightarrow> distinct (map f xs)"
  by (metis subseq_map subseq_facts(2))

lemma subseq_removeAt: "subseq (removeAt i xs) xs"
proof -
  have "subseq (tl ys) ys" for ys :: "'a list" by (cases ys) auto
  from this [of "drop i xs"] have "subseq (drop (Suc i) xs) (drop i xs)"
    by (simp add: drop_Suc tl_drop)
  from list_emb_append_mono [OF subseq_order.refl this, of "take i xs"] show ?thesis
    by (simp add: removeAt_def)
qed

lemma lustreMgtBody_claims:
  assumes "updateKeepsStatus (gk_Mgt k)" and "nextOf m \<noteq> []"
    and body: "lustreMgtBody k os ct (m, w) = (r, (m', w'))"
  shows "(nextOf m' = nextOf m \<and> subseq (claimsOf m') (claimsOf m)) \<or>
    (\<exists>ref n. ref \<notin> mcl_Reference ` set (claimsOf m) \<and> nextOf m' = (incrementFsName ^^ Suc n) (nextOf m) \<and>
      subseq (claimsOf m') (claimsOf m @ [\<lparr>mcl_Reference = ref, mcl_FsName = nextOf m\<rparr>]))"
    (is "?kept \<or> ?grown")
proof (cases "meta_Deleting (mgt_Meta m) \<or> \<not> ContainsFinalizer finalizerNnfLustreMGT (meta_Finalizers (mgt_Meta m))")
  case True
  let ?J = "\<lambda>ob. nextOf ob = nextOf m \<and> claimsOf ob = claimsOf m"
  have upd: "keeps ?J (updateOrRequeue (gk_Mgt k))"
    using assms(1) by (intro keeps_updateOrRequeue) (metis updateKeepsStatus_def)
  have "?J (setMgtFinalizers f m)" for f
    by (simp add: setMgtFinalizers_def)
  then have "?J m'" if "updateOrRequeue (gk_Mgt k) (setMgtFinalizers f m, w) = (r, (m', w'))" for f
    using keepsD [OF upd _ that] by blast
  then have "?J m'"
    using body True by (auto simp: lustreMgtBody_def retE_apply split: if_splits)
  then show ?thesis by simp
next
  case False
  with body assms(2) have h: "handleClaimsAndCommands k os ct (m, w) = (r, (m', w'))"
    by (simp add: lustreMgtBody_def)
  obtain q m1 w1 where q: "HandleNewClaims k (m, w) = (q, (m1, w1))" by (metis prod_cases3)
  let ?J = "\<lambda>ob. nextOf ob = nextOf m1 \<and> subseq (claimsOf ob) (claimsOf m1)"
  have old: "keeps ?J (RemoveOldClaims os ct)"
    unfolding RemoveOldClaims_def
    by (intro keeps_rules) (auto simp: removeClaim_def intro: subseq_order.order_trans [OF subseq_removeAt])
  have cmds: "keeps ?J (HandleNewCommands os ct)" "keeps ?J RemoveOldCommands"
    using keeps_mgtCommands unfolding keeps_def by metis+
  have "keeps ?J (bindE (RemoveOldClaims os ct) (\<lambda>_. bindE (HandleNewCommands os ct) (\<lambda>result.
      case result of Some r \<Rightarrow> retE r | None \<Rightarrow> bindE RemoveOldCommands (\<lambda>_. retE doneResult))))"
    by (intro keeps_rules old cmds)
  then have "?J m'"
    using h q keepsD [of ?J _ m1 w1 r m' w']
    by (cases q) (auto simp: handleClaimsAndCommands_def bindE_Inl bindE_Inr retE_apply split: option.splits)
  from HandleNewClaims_effect [OF q] show ?thesis
  proof (elim disjE exE conjE)
    assume "m1 = m"
    with \<open>?J m'\<close> show ?thesis by blast
  next
    fix ref n
    assume "ref \<notin> mcl_Reference ` set (claimsOf m)"
      "m1 = addClaim \<lparr>mcl_Reference = ref, mcl_FsName = nextOf m\<rparr> (setNext ((incrementFsName ^^ Suc n) (nextOf m)) m)"
    with \<open>?J m'\<close> have ?grown by (intro exI [of _ ref] exI [of _ n]) (simp add: addClaim_def setNext_def)
    then show ?thesis ..
  qed
qed

section \<open>Reachable states\<close>

text \<open>
  The resource over time, with the list of all names that were ever given to a claim. It starts
  with a first name and no claims. Other writers change the metadata and the specification at
  will, and the write of a status may be lost; a reconcile that is recorded changes the status as
  its body does. It leaves the next name and adds no claim, or it raises the next name: a step at
  which the counter of names wraps around is not taken.
\<close>

inductive mgtReach ::
  "'w mgtKube \<Rightarrow> 'w os \<Rightarrow> ControllerType \<Rightarrow> NnfLustreMGT \<Rightarrow> string list \<Rightarrow> bool"
  for k :: "'w mgtKube" and os :: "'w os" and ct :: ControllerType where
  start: "lowerName (nextOf m) \<Longrightarrow> nextOf m \<noteq> [] \<Longrightarrow> claimsOf m = [] \<Longrightarrow> mgtReach k os ct m []"
| edit: "mgtReach k os ct m given \<Longrightarrow> mgt_Status m' = mgt_Status m \<Longrightarrow> mgtReach k os ct m' given"
| reconcile: "mgtReach k os ct m given \<Longrightarrow> lustreMgtBody k os ct (m, w) = (r, (m', w')) \<Longrightarrow>
    nameVal (nextOf m) < nameVal (nextOf m') \<or> nextOf m' = nextOf m \<and> set (claimsOf m') \<subseteq> set (claimsOf m) \<Longrightarrow>
    mgtReach k os ct (setMgtError err m')
      (given @ map mcl_FsName (filter (\<lambda>c. c \<notin> set (claimsOf m)) (claimsOf m')))"

definition mgtInv :: "NnfLustreMGT \<Rightarrow> string list \<Rightarrow> bool" where
  "mgtInv m given \<longleftrightarrow>
     lowerName (nextOf m) \<and> nextOf m \<noteq> [] \<and> distinct given \<and>
     (\<forall>s \<in> set given. nameVal s < nameVal (nextOf m)) \<and>
     mcl_FsName ` set (claimsOf m) \<subseteq> set given \<and>
     distinct (map mcl_FsName (claimsOf m)) \<and> distinct (map mcl_Reference (claimsOf m))"

lemma mgtInv_kept:
  assumes "mgtInv m given" and "nextOf m' = nextOf m" and sub: "subseq (claimsOf m') (claimsOf m)"
  shows "mgtInv m' given"
  using assms(1,2) subseq_distinct_map [OF sub, of mcl_FsName] subseq_distinct_map [OF sub, of mcl_Reference]
    image_mono [OF subseq_facts(1) [OF sub], of mcl_FsName]
  unfolding mgtInv_def by (simp only:) blast

lemma mgtInv_grown:
  assumes inv: "mgtInv m given" and new: "ref \<notin> mcl_Reference ` set (claimsOf m)"
    and nxt: "nextOf m' = (incrementFsName ^^ Suc n) (nextOf m)"
    and sub: "subseq (claimsOf m') (claimsOf m @ [\<lparr>mcl_Reference = ref, mcl_FsName = nextOf m\<rparr>])"
    and nowrap: "nameVal (nextOf m) < nameVal (nextOf m')"
  shows "mgtInv m' (given @ [nextOf m])"
proof -
  let ?all = "claimsOf m @ [\<lparr>mcl_Reference = ref, mcl_FsName = nextOf m\<rparr>]"
  from inv have low: "lowerName (nextOf m)" and fresh: "nextOf m \<notin> set given" by (auto simp: mgtInv_def)
  have "lowerName (nextOf m')" "length (nextOf m') = length (nextOf m)"
    unfolding nxt using iterate_val [OF low, of "Suc n"] by auto
  then have "lowerName (nextOf m') \<and> nextOf m' \<noteq> []" using inv by (auto simp: mgtInv_def)
  moreover have "distinct (map mcl_FsName (claimsOf m'))"
    using inv fresh by (intro subseq_distinct_map [OF sub]) (auto simp: mgtInv_def)
  moreover have "distinct (map mcl_Reference (claimsOf m'))"
    using inv new by (intro subseq_distinct_map [OF sub]) (auto simp: mgtInv_def)
  moreover have "mcl_FsName ` set (claimsOf m') \<subseteq> set (given @ [nextOf m])"
    using inv image_mono [OF subseq_facts(1) [OF sub], of mcl_FsName] by (auto simp: mgtInv_def)
  moreover have "distinct (given @ [nextOf m]) \<and> (\<forall>s \<in> set (given @ [nextOf m]). nameVal s < nameVal (nextOf m'))"
    using inv fresh nowrap by (auto simp: mgtInv_def)
  ultimately show ?thesis unfolding mgtInv_def by blast
qed

lemma mgtInv_fewer:
  "mgtInv m (given @ xs) \<Longrightarrow> mcl_FsName ` set (claimsOf m) \<subseteq> set given \<Longrightarrow> mgtInv m given"
  by (auto simp: mgtInv_def)

lemma mgtReach_inv:
  assumes "updateKeepsStatus (gk_Mgt k)" and "mgtReach k os ct m given"
  shows "mgtInv m given"
  using assms(2)
proof induction
  case (start m)
  then show ?case by (simp add: mgtInv_def)
next
  case (edit m given m')
  then show ?case by (simp add: mgtInv_def)
next
  case (reconcile m given w r m' w' err)
  let ?new = "filter (\<lambda>c. c \<notin> set (claimsOf m)) (claimsOf m')"
  have ne: "nextOf m \<noteq> []" using reconcile.IH by (simp add: mgtInv_def)
  have err: "mgtInv (setMgtError e m'') g \<longleftrightarrow> mgtInv m'' g" for e m'' g
    by (simp add: mgtInv_def setMgtError_def)
  from lustreMgtBody_claims [OF assms(1) ne reconcile.hyps(2)] show ?case
  proof (elim disjE exE conjE)
    assume kept: "nextOf m' = nextOf m" "subseq (claimsOf m') (claimsOf m)"
    then have "?new = []" using subseq_facts(1) by (auto simp: filter_empty_conv)
    then show ?thesis using mgtInv_kept [OF reconcile.IH kept] err by simp
  next
    fix ref n
    let ?c = "\<lparr>mcl_Reference = ref, mcl_FsName = nextOf m\<rparr>"
    assume new: "ref \<notin> mcl_Reference ` set (claimsOf m)"
      and nxt: "nextOf m' = (incrementFsName ^^ Suc n) (nextOf m)"
      and sub: "subseq (claimsOf m') (claimsOf m @ [?c])"
    have "subseq ?new (filter (\<lambda>c. c \<notin> set (claimsOf m)) (claimsOf m @ [?c]))"
      by (intro subseq_filter sub)
    also have "\<dots> = [?c]" using new by (auto simp: filter_empty_conv image_iff)
    finally have cases: "?new = [] \<or> ?new = [?c]"
      by (cases ?new) (auto split: if_splits)
    show ?thesis
    proof (cases "nameVal (nextOf m) < nameVal (nextOf m')")
      case True
      from mgtInv_grown [OF reconcile.IH new nxt sub True] have grown: "mgtInv m' (given @ [nextOf m])" .
      from cases show ?thesis
      proof
        assume "?new = [?c]"
        with grown err show ?thesis by simp
      next
        assume none: "?new = []"
        then have "set (claimsOf m') \<subseteq> set (claimsOf m)" by (auto simp: filter_empty_conv)
        then have "mcl_FsName ` set (claimsOf m') \<subseteq> set given"
          using reconcile.IH by (auto simp: mgtInv_def)
        with grown none err show ?thesis by (auto intro: mgtInv_fewer)
      qed
    next
      case False
      then have same: "nextOf m' = nextOf m" "set (claimsOf m') \<subseteq> set (claimsOf m)"
        using reconcile.hyps(3) by auto
      then have "?new = []" by (auto simp: filter_empty_conv)
      moreover have "distinct (map mcl_FsName (claimsOf m'))"
        using reconcile.IH new by (intro subseq_distinct_map [OF sub]) (auto simp: mgtInv_def)
      moreover have "distinct (map mcl_Reference (claimsOf m'))"
        using reconcile.IH new by (intro subseq_distinct_map [OF sub]) (auto simp: mgtInv_def)
      moreover have "mcl_FsName ` set (claimsOf m') \<subseteq> set given"
        using reconcile.IH same(2) by (auto simp: mgtInv_def)
      ultimately show ?thesis using reconcile.IH same(1) by (simp add: err) (simp add: mgtInv_def)
    qed
  qed
qed

section \<open>Properties\<close>

text \<open>
  C35. The next name is the successor in base 26. On names of lower-case letters \<^verbatim>\<open>incrementFsName\<close>
  keeps the length and the letters and adds one to the number that the name stands for, modulo the
  number of names of that length, so no name comes back before all others have been used.
\<close>

theorem incrementFsName_refines_successor:
  assumes "lowerName fsname"
  shows "lowerName (incrementFsName fsname) \<and> length (incrementFsName fsname) = length fsname \<and>
    nameVal (incrementFsName fsname) = (nameVal fsname + 1) mod 26 ^ length fsname \<and>
    (\<forall>i j. i < j \<and> j < i + 26 ^ length fsname \<longrightarrow>
       (incrementFsName ^^ i) fsname \<noteq> (incrementFsName ^^ j) fsname)"
  using incrementFsName_val [OF assms] iterate_distinct [OF assms] by blast

theorem incrementFsName_refines_successor_witness:
  "nameVal (incrementFsName ''aaaaaazz'') = (nameVal ''aaaaaazz'' + 1) mod 26 ^ 8 \<and>
   incrementFsName ''aaaaaazz'' = ''aaaaabaa''"
proof -
  have "lowerName ''aaaaaazz''" by code_simp
  then have "nameVal (incrementFsName ''aaaaaazz'') = (nameVal ''aaaaaazz'' + 1) mod 26 ^ length ''aaaaaazz''"
    using incrementFsName_refines_successor by blast
  moreover have "incrementFsName ''aaaaaazz'' = ''aaaaabaa''" by code_simp
  ultimately show ?thesis by simp
qed

text \<open>
  C36. The search for a name returns. Unless the black list is as long as the number of names of
  that length, the loop of \<^verbatim>\<open>SetFsNameNext\<close> ends, after at most one step more than the list has
  entries, with the first successor that is not on the list.
\<close>

theorem nextFsName_returns:
  assumes "lowerName fsname" and "length blackList < 26 ^ length fsname"
  shows "\<exists>n \<le> length blackList. nextFsName blackList fsname = Some ((incrementFsName ^^ Suc n) fsname) \<and>
    (incrementFsName ^^ Suc n) fsname \<notin> set blackList \<and>
    (\<forall>i<n. (incrementFsName ^^ Suc i) fsname \<in> set blackList)"
proof -
  obtain m where m: "m \<le> length blackList" "(incrementFsName ^^ Suc m) fsname \<notin> set blackList"
    using free_successor [OF assms] by blast
  then obtain t where t: "nextFsName blackList fsname = Some t" using nextFsName_finds by blast
  from nextFsName_Some [OF t] obtain n where n: "t = (incrementFsName ^^ Suc n) fsname" "t \<notin> set blackList"
      "\<forall>i<n. (incrementFsName ^^ Suc i) fsname \<in> set blackList"
    unfolding freeSuccessor_def by blast
  then have "n \<le> m" using m(2) by (meson not_le_imp_less)
  with m(1) n t show ?thesis by (intro exI [of _ n]) auto
qed

theorem nextFsName_returns_witness:
  "\<exists>n \<le> 2. nextFsName [''aaaaaaab'', ''aaaaaaac''] ''aaaaaaaa'' = Some ((incrementFsName ^^ Suc n) ''aaaaaaaa'')"
proof -
  have low: "lowerName ''aaaaaaaa''" by code_simp
  have "length [''aaaaaaab'', ''aaaaaaac''] < 26 ^ length ''aaaaaaaa''" by simp
  from nextFsName_returns [OF low this] obtain n where "n \<le> length [''aaaaaaab'', ''aaaaaaac'']"
    "nextFsName [''aaaaaaab'', ''aaaaaaac''] ''aaaaaaaa'' = Some ((incrementFsName ^^ Suc n) ''aaaaaaaa'')" by blast
  then show ?thesis by (intro exI [of _ n]) simp
qed


definition exMgtKube :: "unit mgtKube" where
  "exMgtKube = \<lparr>gk_Mgt = \<lparr>kc_Get = (\<lambda>ns n w. (Inl (ApiErr ReasonNotFound ''not found''), w)),
     kc_Create = (\<lambda>m w. (Inr m, w)), kc_Update = (\<lambda>m w. (Inr m, w)), kc_UpdateStatus = (\<lambda>m w. (Inr m, w))\<rparr>,
     gk_ConfigMap = \<lparr>kc_Get = (\<lambda>ns n w. (Inr \<lparr>cfg_Meta = zeroMeta, cfg_Data = [(''NextFsName'', ''rabbitqz'')]\<rparr>, w)),
     kc_Create = (\<lambda>m w. (Inr m, w)), kc_Update = (\<lambda>m w. (Inr m, w)), kc_UpdateStatus = (\<lambda>m w. (Inr m, w))\<rparr>\<rparr>"

definition exMgt :: "string \<Rightarrow> NnfLustreMGTStatusClaim list \<Rightarrow> NnfLustreMGT" where
  "exMgt next claims = \<lparr>mgt_Meta = zeroMeta\<lparr>meta_Finalizers := [finalizerNnfLustreMGT]\<rparr>,
     mgt_Spec = \<lparr>mgs_Addresses = [], mgs_FsNameBlackList = [''aaaaaaaa''], mgs_FsNameStart = ''aaaaaaaa'',
       mgs_FsNameStartReference = emptyRef, mgs_ClaimList = [emptyRef\<lparr>ref_Name := ''job-1''\<rparr>], mgs_CommandList = []\<rparr>,
     mgt_Status = \<lparr>mgst_FsNameNext = next, mgst_ClaimList = claims, mgst_CommandList = [], mgst_Error = None\<rparr>\<rparr>"

definition mgtOs :: "unit os" where
  "mgtOs = exampleOs (\<lambda>_. (''ok'', [], None)) (\<lambda>_. None) False []"


lemma HandleNewCommands_effect:
  assumes "HandleNewCommands os ct (m, w) = (r, (m', w'))"
  shows "m' = m \<or> (\<exists>c. commandStatusOf m (mtc_Reference c) = None \<and> m' = addCommandStatus c m)"
proof (cases "List.find (\<lambda>c. case commandStatusOf m (msc_Reference c) of None \<Rightarrow> True | Some st \<Rightarrow> \<not> mtc_Ready st)
    (mgs_CommandList (mgt_Spec m))")
  case None
  then show ?thesis using assms by (simp add: HandleNewCommands_def retE_apply)
next
  case (Some c)
  obtain q w1 where q: "tryE (RunCommands os ct (msc_Commands c)) w = (q, w1)" by fastforce
  show ?thesis
  proof (cases q)
    case (Inl e)
    then show ?thesis using assms Some q by (simp add: HandleNewCommands_def sndE_bind)
  next
    case (Inr x)
    show ?thesis
    proof (cases "commandStatusOf m (msc_Reference c)")
      case None
      with Inr assms Some q show ?thesis
        by (auto simp: HandleNewCommands_def sndE_bind retE_apply Let_def intro!: exI)
    next
      case (Some st)
      with Inr assms \<open>List.find _ _ = Some c\<close> q show ?thesis
        by (simp add: HandleNewCommands_def sndE_bind retE_apply)
    qed
  qed
qed

lemma commandStatusOf_add:
  "commandStatusOf (addCommandStatus c m) ref =
     (if mtc_Reference c = ref then Some c else commandStatusOf m ref)"
  by (simp add: commandStatusOf_def addCommandStatus_def)

text \<open>
  A command that failed once is never reported as done. The status that is recorded for a
  reference stays what it is whenever the commands are handled again, although a command that is
  not ready is run again each time, and while such a command is the first one in the list nothing
  of the resource changes, so the commands behind it are not run at all. (The result of the second
  run is written to a copy of the entry.)
\<close>

theorem failed_command_frozen:
  "(commandStatusOf m ref = Some st \<longrightarrow>
      commandStatusOf (fst (snd (HandleNewCommands os ct (m, w)))) ref = Some st) \<and>
   (\<forall>c rest. mgs_CommandList (mgt_Spec m) = c # rest \<and> commandStatusOf m (msc_Reference c) = Some st \<and> \<not> mtc_Ready st \<longrightarrow>
      fst (snd (HandleNewCommands os ct (m, w))) = m)"
proof (intro conjI impI allI)
  obtain r m' w' where h: "HandleNewCommands os ct (m, w) = (r, (m', w'))" by (metis prod_cases3)
  assume "commandStatusOf m ref = Some st"
  then show "commandStatusOf (fst (snd (HandleNewCommands os ct (m, w)))) ref = Some st"
    using HandleNewCommands_effect [OF h] h by (auto simp: commandStatusOf_add)
next
  fix c rest
  assume "mgs_CommandList (mgt_Spec m) = c # rest \<and> commandStatusOf m (msc_Reference c) = Some st \<and> \<not> mtc_Ready st"
  then show "fst (snd (HandleNewCommands os ct (m, w))) = m"
    by (auto simp: HandleNewCommands_def bindE_def getE_def retE_def sndE_def Let_def split: prod.splits sum.splits)
qed

definition exFailed :: NnfLustreMGTStatusCommand where
  "exFailed = \<lparr>mtc_Reference = emptyRef\<lparr>ref_Name := ''storage''\<rparr>, mtc_Ready = False,
     mtc_Error = Some (NewResourceError ''error running MGT command'')\<rparr>"

theorem failed_command_frozen_witness:
  "commandStatusOf (fst (snd (HandleNewCommands mgtOs ControllerRabbit (addCommandStatus exFailed (exMgt ''aaaaaaac'' []), ()))))
     (emptyRef\<lparr>ref_Name := ''storage''\<rparr>) = Some exFailed"
proof -
  have "commandStatusOf (addCommandStatus exFailed (exMgt ''aaaaaaac'' [])) (emptyRef\<lparr>ref_Name := ''storage''\<rparr>) = Some exFailed"
    by (simp add: commandStatusOf_add exFailed_def)
  then show ?thesis
    using failed_command_frozen [of "addCommandStatus exFailed (exMgt ''aaaaaaac'' [])" "emptyRef\<lparr>ref_Name := ''storage''\<rparr>" exFailed
      mgtOs ControllerRabbit "()"] by blast
qed

text \<open>
  The black list is tested against the wrong name at the start. Whatever name \<open>s\<close> the config
  map holds: if \<^verbatim>\<open>Spec.FsNameStart\<close> is not on the black list, \<open>s\<close> becomes the next name, even if \<open>s\<close>
  itself is on the list; and if it is, the next name is a successor of \<^verbatim>\<open>Spec.FsNameStart\<close> and \<open>s\<close> is
  dropped, so names that were given out before are given out again.
\<close>

theorem initFsName_tests_wrong_name:
  assumes "startFsName k (mgt_Spec m) w = (Inr s, w1)"
  shows "(\<not> isFsNameBlackListed m (mgs_FsNameStart (mgt_Spec m)) \<longrightarrow>
            initFsName k (m, w) = (Inr doneResult, (setNext s m, w1))) \<and>
    (isFsNameBlackListed m (mgs_FsNameStart (mgt_Spec m)) \<and>
     nextFsName (mgs_FsNameBlackList (mgt_Spec m)) (mgs_FsNameStart (mgt_Spec m)) = Some t \<and>
     saveNext k (mgs_FsNameStartReference (mgt_Spec m)) t w1 = (Inr None, w2) \<longrightarrow>
       initFsName k (m, w) = (Inr doneResult, (setNext t m, w2)))"
  using assms
  by (auto simp: initFsName_def SetFsNameNext_def bindE_def sndE_def getE_def modifyE_def retE_def)

definition exStartMgt :: NnfLustreMGT where
  "exStartMgt = (exMgt [] [])\<lparr>mgt_Spec := (mgt_Spec (exMgt [] []))\<lparr>mgs_FsNameStartReference :=
     emptyRef\<lparr>ref_Kind := ''ConfigMap'', ref_Name := ''fsnames''\<rparr>\<rparr>\<rparr>"

theorem initFsName_tests_wrong_name_witness:
  "startFsName exMgtKube (mgt_Spec exStartMgt) () = (Inr ''rabbitqz'', ()) \<and>
   initFsName exMgtKube (exStartMgt, ()) = (Inr doneResult, (setNext ''aaaaaaab'' exStartMgt, ()))"
proof -
  have s: "startFsName exMgtKube (mgt_Spec exStartMgt) () = (Inr ''rabbitqz'', ())" by code_simp
  have "isFsNameBlackListed exStartMgt (mgs_FsNameStart (mgt_Spec exStartMgt))" by code_simp
  moreover have "nextFsName (mgs_FsNameBlackList (mgt_Spec exStartMgt)) (mgs_FsNameStart (mgt_Spec exStartMgt)) = Some ''aaaaaaab''"
    by code_simp
  moreover have "saveNext exMgtKube (mgs_FsNameStartReference (mgt_Spec exStartMgt)) ''aaaaaaab'' () = (Inr None, ())"
    by code_simp
  ultimately show ?thesis using initFsName_tests_wrong_name [OF s] s by blast
qed

end
