(* ===== verification/NodeStorage.thy ===== *)
theory NodeStorage
  imports FilesystemHelpers
begin

text \<open>
  \<^verbatim>\<open>internal/controller/nnf_node_storage_controller.go\<close>: the reconciler of \<^verbatim>\<open>NnfNodeStorage\<close>, which
  creates the block devices and file systems of a node, repairs them, and takes them down. The
  handlers run on the pair of the resource, whose status they change in place, and the world.
  Logging, metrics and the \<^verbatim>\<open>reconcilerAwake\<close> flag that only guards a log message are left out.
\<close>

section \<open>Status\<close>

abbreviation statusOf :: "NnfNodeStorage \<Rightarrow> NnfNodeStorageAllocationStatus list" where
  "statusOf s \<equiv> nst_Allocations (ns_Status s)"

definition setAllocations :: "NnfNodeStorageAllocationStatus list \<Rightarrow> NnfNodeStorage \<Rightarrow> NnfNodeStorage" where
  "setAllocations as s = s\<lparr>ns_Status := (ns_Status s)\<lparr>nst_Allocations := as\<rparr>\<rparr>"

definition updateAlloc ::
  "nat \<Rightarrow> (NnfNodeStorageAllocationStatus \<Rightarrow> NnfNodeStorageAllocationStatus) \<Rightarrow> NnfNodeStorage \<Rightarrow> NnfNodeStorage" where
  "updateAlloc i f s = setAllocations ((statusOf s)[i := f (statusOf s ! i)]) s"

definition setReady :: "nat \<Rightarrow> bool \<Rightarrow> NnfNodeStorage \<Rightarrow> NnfNodeStorage" where
  "setReady i r = updateAlloc i (\<lambda>a. a\<lparr>nsa_Ready := r\<rparr>)"

definition setHealth :: "NnfStorageHealth \<Rightarrow> NnfNodeStorage \<Rightarrow> NnfNodeStorage" where
  "setHealth h s = s\<lparr>ns_Status := (ns_Status s)\<lparr>nst_Health := h\<rparr>\<rparr>"

definition setStatusReady :: "bool \<Rightarrow> NnfNodeStorage \<Rightarrow> NnfNodeStorage" where
  "setStatusReady r s = s\<lparr>ns_Status := (ns_Status s)\<lparr>nst_Ready := r\<rparr>\<rparr>"

text \<open>\<^verbatim>\<open>&nnfNodeStorage.Status.Allocations[index]\<close>, read for its ready flag\<close>

definition allocReady :: "nat \<Rightarrow> (NnfNodeStorage \<times> 'w, bool) io" where
  "allocReady i = bindE getE (\<lambda>s.
     if i < length (statusOf s) then retE (nsa_Ready (statusOf s ! i)) else failE (Panic ''index out of range''))"

text \<open>A file system is used through its methods one after the other, and then dropped.\<close>

definition withObj :: "'o \<Rightarrow> ('o \<times> 'w, 'a) io \<Rightarrow> ('w, 'a) io" where
  "withObj ob m = (\<lambda>w. case m (ob, w) of (r, (_, w')) \<Rightarrow> (r, w'))"

text \<open>For Lustre, the commands of setup and teardown run on OST 0 only.\<close>

definition runsSetup :: "NnfNodeStorage \<Rightarrow> bool" where
  "runsSetup s =
     (let spec = ns_Spec s; lustre = nss_LustreStorage spec;
          lustreOST0 = (nss_FileSystemType spec = ''lustre'' \<and> lss_TargetType lustre = ''ost'' \<and> lss_StartIndex lustre = 0)
      in lustreOST0 \<or> nss_FileSystemType spec \<noteq> ''lustre'')"

section \<open>Deleting an allocation\<close>

abbreviation major :: "string \<Rightarrow> ('s, 'a) io \<Rightarrow> ('s, 'a) io" where
  "major msg \<equiv> wrapE (majorError msg)"

definition deletePrepare :: "'w os \<Rightarrow> NnfNodeStorage \<Rightarrow> BlockDevice \<Rightarrow> (FileSystem \<times> 'w, unit) io" where
  "deletePrepare os s b =
     bindE (major ''could not activate block devices'' (sndE (BlockDevice_Activate os b))) (\<lambda>_.
     bindE (major ''could not activate file system'' (FileSystem_Activate os False)) (\<lambda>_.
     bindE (if runsSetup s
            then major ''could not run pre teardown for file system'' (FileSystem_PreTeardown os False)
            else retE False) (\<lambda>_.
     bindE (major ''could not run pre deactivate for file system'' (FileSystem_PreDeactivate os False))
       (\<lambda>_. retE ()))))"

definition deleteRemove :: "'w os \<Rightarrow> BlockDevice \<Rightarrow> bool \<Rightarrow> (FileSystem \<times> 'w, unit) io" where
  "deleteRemove os b ready =
     bindE (major ''could not deactivate file system'' (FileSystem_Deactivate os)) (\<lambda>_.
     bindE (major ''could not destroy file system'' (FileSystem_Destroy os)) (\<lambda>_.
     bindE (major ''could not deactivate block devices'' (sndE (BlockDevice_Deactivate os b False))) (\<lambda>_.
     bindE (major ''could not destroy block devices'' (sndE (BlockDevice_Destroy os b))) (\<lambda>_.
     bindE (major ''PostTeardown command failed'' (sndE (BlockDevice_PostTeardown os b (\<not> ready))))
       (\<lambda>_. retE ())))))"

definition deleteAllocation ::
  "'w kube \<Rightarrow> 'w os \<Rightarrow> nat \<Rightarrow> (NnfNodeStorage \<times> 'w, Result option) io" where
  "deleteAllocation k os index = bindE getE (\<lambda>s.
     bindE (sndE (getBlockDeviceAndFileSystem k os s index)) (\<lambda>(b, fs).
     bindE (major ''could not check if block device exists'' (sndE (BlockDevice_CheckExists os b))) (\<lambda>exists.
     bindE (allocReady index) (\<lambda>ready.
     bindE (sndE (withObj fs
              (bindE (if exists \<and> ready then deletePrepare os s b else retE ()) (\<lambda>_.
                 deleteRemove os b ready)))) (\<lambda>_. retE None)))))"

section \<open>Checking the health\<close>

fun checkDevices ::
  "'w os \<Rightarrow> nat \<Rightarrow> BlockDevice list \<Rightarrow> NnfStorageHealth \<Rightarrow> (NnfNodeStorage \<times> 'w, NnfStorageHealth) io" where
  "checkDevices os index [] overall = retE overall"
| "checkDevices os index (b # bs) overall =
     bindE (allocReady index) (\<lambda>_.
     bindE (wrapE (\<lambda>e. ResErr (WithError (Some e) (NewResourceError ''could not check block device health'')))
              (sndE (BlockDevice_CheckHealth os b))) (\<lambda>healthy.
       if healthy then
         bindE (modifyE (updateAlloc index (\<lambda>a. a\<lparr>nsa_Health := Healthy\<rparr>))) (\<lambda>_.
           checkDevices os (Suc index) bs overall)
       else
         bindE (modifyE (\<lambda>s. setHealth Degraded (updateAlloc index (\<lambda>a. a\<lparr>nsa_Health := Degraded\<rparr>) s))) (\<lambda>_.
         bindE (wrapE (\<lambda>e. ResErr (WithError (Some e) (NewResourceError ''could not repair block device'')))
                  (sndE (BlockDevice_Repair os b))) (\<lambda>_.
           checkDevices os (Suc index) bs Degraded))))"

definition checkAllocations :: "'w os \<Rightarrow> BlockDevice list \<Rightarrow> (NnfNodeStorage \<times> 'w, unit) io" where
  "checkAllocations os blockDevices =
     bindE (checkDevices os 0 blockDevices Healthy) (\<lambda>overall. modifyE (setHealth overall))"

section \<open>Creating allocations\<close>

text \<open>The deferred call of a device: a failure only marks the allocation as not ready.\<close>

definition deferredDeactivate :: "'w os \<Rightarrow> nat \<Rightarrow> BlockDevice \<Rightarrow> (NnfNodeStorage \<times> 'w, unit) io" where
  "deferredDeactivate os index b =
     catchE (bindE (sndE (BlockDevice_Deactivate os b False)) (\<lambda>_. retE ()))
       (\<lambda>_. modifyE (setReady index False))"

text \<open>
  The loop over the block devices. What follows the rest of the loop is the argument \<open>rest\<close>, so
  that the deferred call of each device encloses everything after it; deferred calls run in the
  reverse order of the devices. An error of \<^verbatim>\<open>CheckReady\<close> is dropped: the device counts as not ready.
\<close>

fun createDevices ::
  "'w os \<Rightarrow> nat \<Rightarrow> BlockDevice list \<Rightarrow> bool \<Rightarrow> (bool \<Rightarrow> (NnfNodeStorage \<times> 'w, 'a) io)
   \<Rightarrow> (NnfNodeStorage \<times> 'w, 'a) io" where
  "createDevices os index [] blockDevicesReady rest = rest blockDevicesReady"
| "createDevices os index (b # bs) blockDevicesReady rest =
     bindE (allocReady index) (\<lambda>done.
       if done then createDevices os (Suc index) bs blockDevicesReady rest
       else
         bindE (major ''could not create block devices'' (sndE (BlockDevice_Create os b done))) (\<lambda>_.
         bindE (major ''could not activate block devices'' (sndE (BlockDevice_Activate os b))) (\<lambda>_.
         bindE (catchE (sndE (BlockDevice_CheckReady os b)) (\<lambda>_. retE False)) (\<lambda>ready.
           if \<not> ready then createDevices os (Suc index) bs False rest
           else finallyE (createDevices os (Suc index) bs blockDevicesReady rest)
                  (deferredDeactivate os index b)))))"

definition createFileSystem :: "'w os \<Rightarrow> NnfNodeStorage \<Rightarrow> bool \<Rightarrow> (FileSystem \<times> 'w, unit) io" where
  "createFileSystem os s ready =
     bindE (major ''could not create file system'' (FileSystem_Create os ready)) (\<lambda>_.
     bindE (major ''could not activate file system'' (FileSystem_Activate os ready)) (\<lambda>_.
     bindE (major ''could not run post activate'' (FileSystem_PostActivate os ready)) (\<lambda>_.
     bindE (if runsSetup s then major ''could not run post mount'' (FileSystem_PostSetup os ready)
            else retE False) (\<lambda>_. retE ()))))"

fun createFileSystems :: "'w os \<Rightarrow> nat \<Rightarrow> FileSystem list \<Rightarrow> (NnfNodeStorage \<times> 'w, unit) io" where
  "createFileSystems os index [] = retE ()"
| "createFileSystems os index (fs # fss) =
     bindE (allocReady index) (\<lambda>ready.
     bindE getE (\<lambda>s.
     bindE (sndE (withObj fs (createFileSystem os s ready))) (\<lambda>_.
     bindE (modifyE (setReady index True)) (\<lambda>_.
       createFileSystems os (Suc index) fss))))"

definition createAllocations ::
  "'w os \<Rightarrow> BlockDevice list \<Rightarrow> FileSystem list \<Rightarrow> (NnfNodeStorage \<times> 'w, Result option) io" where
  "createAllocations os blockDevices fileSystems =
     createDevices os 0 blockDevices True (\<lambda>blockDevicesReady.
       if \<not> blockDevicesReady then retE (Some (requeueAfter (5 * second)))
       else bindE (createFileSystems os 0 fileSystems) (\<lambda>_. retE None))"

section \<open>Reconcile\<close>

abbreviation finalizerNnfNodeStorage :: string where
  "finalizerNnfNodeStorage \<equiv> ''nnf.cray.hpe.com/nnf_node_storage''"

definition setFinalizers :: "string list \<Rightarrow> ObjectMeta \<Rightarrow> ObjectMeta" where
  "setFinalizers fs m = m\<lparr>meta_Finalizers := fs\<rparr>"

definition addFinalizer :: "ObjectMeta \<Rightarrow> ObjectMeta" where
  "addFinalizer m = setFinalizers (AddFinalizer finalizerNnfNodeStorage (meta_Finalizers m)) m"

definition removeFinalizer :: "ObjectMeta \<Rightarrow> ObjectMeta" where
  "removeFinalizer m = setFinalizers (RemoveFinalizer finalizerNnfNodeStorage (meta_Finalizers m)) m"

definition hasFinalizer :: "ObjectMeta \<Rightarrow> bool" where
  "hasFinalizer m = ContainsFinalizer finalizerNnfNodeStorage (meta_Finalizers m)"

text \<open>An update of a resource: a conflict asks for another reconcile.\<close>

definition updateNodeStorage :: "'w kube \<Rightarrow> (NnfNodeStorage \<times> 'w, Result) io" where
  "updateNodeStorage k = bindE getE (\<lambda>s. sndE (\<lambda>w.
     case k_UpdateNodeStorage k s w of
       (Updated, w') \<Rightarrow> (Inr doneResult, w')
     | (Conflict, w') \<Rightarrow> (Inr requeueResult, w')
     | (UpdateError e, w') \<Rightarrow> (Inl e, w')))"

definition updateBlockStorage :: "'w kube \<Rightarrow> NnfNodeBlockStorage \<Rightarrow> ('w, Result) io" where
  "updateBlockStorage k b = (\<lambda>w.
     case k_UpdateBlockStorage k b w of
       (UpdateError e, w') \<Rightarrow> (Inl (ResErr (NewResourceError
         (''could not update finalizer list for NnfNodeBlockStorage: '' @ objectKey (nb_Meta b)))), w')
     | (_, w') \<Rightarrow> (Inr requeueResult, w'))"

text \<open>The reference to the block storage; any error of the read is the same as no such object.\<close>

definition lookupBlockStorage :: "'w kube \<Rightarrow> (NnfNodeStorage \<times> 'w, NnfNodeBlockStorage option) io" where
  "lookupBlockStorage k = bindE getE (\<lambda>s. sndE (\<lambda>w.
     let ref = nss_BlockReference (ns_Spec s) in
     case k_GetBlockStorage k (ref_Namespace ref) (ref_Name ref) w of
       (Found b, w') \<Rightarrow> (Inr (Some b), w')
     | (_, w') \<Rightarrow> (Inr None, w')))"

fun deleteAllocations :: "'w kube \<Rightarrow> 'w os \<Rightarrow> nat list \<Rightarrow> (NnfNodeStorage \<times> 'w, Result option) io" where
  "deleteAllocations k os [] = retE None"
| "deleteAllocations k os (i # is) =
     bindE (deleteAllocation k os i) (\<lambda>result.
       case result of Some r \<Rightarrow> retE (Some r) | None \<Rightarrow> deleteAllocations k os is)"

definition reconcileDelete :: "'w kube \<Rightarrow> 'w os \<Rightarrow> (NnfNodeStorage \<times> 'w, Result) io" where
  "reconcileDelete k os = bindE getE (\<lambda>s.
     if \<not> hasFinalizer (ns_Meta s) then retE doneResult
     else
       let dropFinalizer = bindE (modifyE (\<lambda>s. s\<lparr>ns_Meta := removeFinalizer (ns_Meta s)\<rparr>))
             (\<lambda>_. updateNodeStorage k)
       in bindE (lookupBlockStorage k) (\<lambda>found.
            case found of
              None \<Rightarrow> dropFinalizer
            | Some b \<Rightarrow>
                if \<not> hasFinalizer (nb_Meta b) then dropFinalizer
                else bindE (deleteAllocations k os [0..<length (statusOf s)]) (\<lambda>result.
                  case result of
                    Some r \<Rightarrow> retE r
                  | None \<Rightarrow> sndE (updateBlockStorage k (b\<lparr>nb_Meta := removeFinalizer (nb_Meta b)\<rparr>)))))"

text \<open>The list of devices and file systems, for the indices below \<^verbatim>\<open>Spec.Count\<close>.\<close>

definition gatherAllocations ::
  "'w kube \<Rightarrow> 'w os \<Rightarrow> (NnfNodeStorage \<times> 'w, (BlockDevice \<times> FileSystem) list) io" where
  "gatherAllocations k os = bindE getE (\<lambda>s.
     sndE (mapME (getBlockDeviceAndFileSystem k os s) [0..<nat (nss_Count (ns_Spec s))]))"

definition reconcileCreate :: "'w kube \<Rightarrow> 'w os \<Rightarrow> (NnfNodeStorage \<times> 'w, Result) io" where
  "reconcileCreate k os =
     bindE (gatherAllocations k os) (\<lambda>pairs.
     bindE (major ''unable to create storage allocation''
              (createAllocations os (map fst pairs) (map snd pairs))) (\<lambda>result.
       case result of
         Some r \<Rightarrow> retE r
       | None \<Rightarrow>
           bindE (major ''unable to check storage allocation'' (checkAllocations os (map fst pairs))) (\<lambda>_.
           bindE getE (\<lambda>s.
             if list_ex (\<lambda>a. \<not> nsa_Ready a) (statusOf s)
             then bindE (modifyE (setStatusReady False)) (\<lambda>_. retE requeueResult)
             else bindE (modifyE (setStatusReady True)) (\<lambda>_. retE doneResult)))))"

definition emptyAllocation :: NnfNodeStorageAllocationStatus where
  "emptyAllocation =
     \<lparr>nsa_VolumeGroup = [], nsa_LogicalVolume = [], nsa_Health = HealthUnset, nsa_Ready = False\<rparr>"

text \<open>\<^verbatim>\<open>make([]T, Spec.Count)\<close> panics for a negative count.\<close>

definition initStatus :: "(NnfNodeStorage \<times> 'w, Result) io" where
  "initStatus = bindE getE (\<lambda>s.
     if nss_Count (ns_Spec s) < 0 then failE (Panic ''makeslice: len out of range'')
     else bindE (modifyE (\<lambda>s. setStatusReady False
                    (setAllocations (replicate (nat (nss_Count (ns_Spec s))) emptyAllocation) s)))
            (\<lambda>_. retE requeueResult))"

definition reconcileBody :: "'w kube \<Rightarrow> 'w os \<Rightarrow> (NnfNodeStorage \<times> 'w, Result) io" where
  "reconcileBody k os = bindE getE (\<lambda>s.
     if meta_Deleting (ns_Meta s) then reconcileDelete k os
     else if \<not> hasFinalizer (ns_Meta s) then
       bindE (modifyE (\<lambda>s. s\<lparr>ns_Meta := addFinalizer (ns_Meta s)\<rparr>)) (\<lambda>_. updateNodeStorage k)
     else if length (statusOf s) = 0 then initStatus
     else bindE (lookupBlockStorage k) (\<lambda>found.
       case found of
         None \<Rightarrow> reconcileCreate k os
       | Some b \<Rightarrow>
           if hasFinalizer (nb_Meta b) then reconcileCreate k os
           else if \<not> nbs_Ready (nb_Status b) then retE (requeueAfter second)
           else sndE (updateBlockStorage k (b\<lparr>nb_Meta := addFinalizer (nb_Meta b)\<rparr>))))"

definition SetResourceError :: "failure option \<Rightarrow> NnfNodeStorage \<Rightarrow> NnfNodeStorage" where
  "SetResourceError err s =
     s\<lparr>ns_Status := (ns_Status s)\<lparr>nst_Error :=
       (case err of None \<Rightarrow> None | Some e \<Rightarrow> Some (WithError (Some e) (NewResourceError [])))\<rparr>\<rparr>"

definition NodeStorage_Reconcile ::
  "'w kube \<Rightarrow> 'w os \<Rightarrow> bool \<Rightarrow> 'w \<Rightarrow> NnfNodeStorage option outcome \<times> 'w" where
  "NodeStorage_Reconcile k os started w =
     (if \<not> started then (Returned (requeueAfter (2 * second)) None None, w)
      else case k_GetNodeStorage k w of
        (NotFound, w1) \<Rightarrow> (Returned doneResult None None, w1)
      | (GetError e, w1) \<Rightarrow> (Returned doneResult (Some e) None, w1)
      | (Found s, w1) \<Rightarrow>
          (case reconcileBody k os (s, w1) of
             (Inr res, (s', w2)) \<Rightarrow> (Returned res None (Some (SetResourceError None s')), w2)
           | (Inl e, (s', w2)) \<Rightarrow>
               (if is_panic e then Panicked (panicText e)
                else Returned doneResult (Some e) (Some (SetResourceError (Some e) s')), w2)))"

section \<open>Invariants of the resource\<close>

lemma keeps_allocReady [keeps_rules]: "keeps J (allocReady i)"
  unfolding allocReady_def by (intro keeps_rules)

text \<open>A property of the ready flag of the status alone survives everything but its assignment.\<close>

abbreviation flag :: "(bool \<Rightarrow> bool) \<Rightarrow> NnfNodeStorage \<Rightarrow> bool" where
  "flag F s \<equiv> F (nst_Ready (ns_Status s))"

lemma status_simps [simp]:
  "nst_Ready (ns_Status (setReady i b s)) = nst_Ready (ns_Status s)"
  "nst_Ready (ns_Status (setHealth h s)) = nst_Ready (ns_Status s)"
  "nst_Ready (ns_Status (updateAlloc i f s)) = nst_Ready (ns_Status s)"
  "nst_Ready (ns_Status (setStatusReady b s)) = b"
  "nst_Ready (ns_Status (SetResourceError e s)) = nst_Ready (ns_Status s)"
  "statusOf (SetResourceError e s) = statusOf s"
  "statusOf (setHealth h s) = statusOf s"
  "statusOf (setStatusReady b s) = statusOf s"
  "statusOf (setAllocations as s) = as"
  "statusOf (updateAlloc i f s) = (statusOf s)[i := f (statusOf s ! i)]"
  by (simp_all add: setReady_def setHealth_def updateAlloc_def setAllocations_def setStatusReady_def
      SetResourceError_def)

lemma keeps_createDevices:
  assumes "\<And>b. keeps (flag F) (rest b)"
  shows "keeps (flag F) (createDevices os i bs ready rest)"
proof (induction bs arbitrary: i ready)
  case Nil
  then show ?case using assms by simp
next
  case (Cons b bs)
  show ?case
    unfolding createDevices.simps deferredDeactivate_def
    by (intro keeps_rules Cons) simp
qed

lemma keeps_createFileSystems [keeps_rules]: "keeps (flag F) (createFileSystems os i fss)"
proof (induction fss arbitrary: i)
  case (Cons fs fss)
  show ?case unfolding createFileSystems.simps by (intro keeps_rules Cons) simp
qed (simp add: keeps_rules)

lemma keeps_createAllocations [keeps_rules]: "keeps (flag F) (createAllocations os bs fss)"
  unfolding createAllocations_def by (intro keeps_createDevices keeps_rules)

lemma keeps_checkDevices:
  assumes "\<And>s i h. J s \<Longrightarrow> J (updateAlloc i (\<lambda>a. a\<lparr>nsa_Health := h\<rparr>) s)" "\<And>s h. J s \<Longrightarrow> J (setHealth h s)"
  shows "keeps J (checkDevices os i bs overall)"
proof (induction bs arbitrary: i overall)
  case (Cons b bs)
  show ?case unfolding checkDevices.simps by (intro keeps_rules Cons) (simp_all add: assms)
qed (simp add: keeps_rules)

text \<open>The status says ready only if all allocations are.\<close>

definition readyInv :: "NnfNodeStorage \<Rightarrow> bool" where
  "readyInv s \<longleftrightarrow> (nst_Ready (ns_Status s) \<longrightarrow> list_all nsa_Ready (statusOf s))"

abbreviation allReady :: "NnfNodeStorage \<Rightarrow> bool" where
  "allReady s \<equiv> list_all nsa_Ready (statusOf s)"

lemma allReady_update:
  "allReady s \<Longrightarrow> allReady (updateAlloc i (\<lambda>a. a\<lparr>nsa_Health := h\<rparr>) s)"
  "allReady s \<Longrightarrow> allReady (setReady i True s)"
  by (cases "i < length (statusOf s)"; auto simp: list_all_length setReady_def nth_list_update)+

lemma createDevices_allReady:
  assumes "allReady s" and "i \<le> length (statusOf s)"
  shows "createDevices os i bs b rest (s, w) =
     (if i + length bs \<le> length (statusOf s) then rest b (s, w)
      else (Inl (Panic ''index out of range''), (s, w)))"
  using assms(2)
proof (induction bs arbitrary: i)
  case Nil
  then show ?case by simp
next
  case (Cons c bs)
  show ?case
  proof (cases "i < length (statusOf s)")
    case True
    then have "allocReady i (s, w) = (Inr True, (s, w))"
      using assms(1) by (simp add: allocReady_def retE_def list_all_length)
    then have "createDevices os i (c # bs) b rest (s, w) = createDevices os (Suc i) bs b rest (s, w)"
      by (simp add: bindE_Inr)
    then show ?thesis using Cons.IH [of "Suc i"] True by simp
  next
    case False
    then have "allocReady i (s, w) = (Inl (Panic ''index out of range''), (s, w))"
      by (simp add: allocReady_def failE_def)
    then show ?thesis using False by (simp add: bindE_Inl)
  qed
qed

lemma keeps_allReady [keeps_rules]:
  "keeps allReady (createFileSystems os i fss)" "keeps allReady (checkDevices os i bs overall)"
proof -
  show "keeps allReady (createFileSystems os i fss)"
  proof (induction fss arbitrary: i)
    case (Cons fs fss)
    show ?case unfolding createFileSystems.simps by (intro keeps_rules Cons) (rule allReady_update)
  qed (simp add: keeps_rules)
  show "keeps allReady (checkDevices os i bs overall)"
    by (intro keeps_checkDevices) (rule allReady_update, assumption, simp)
qed

lemma keeps_flag_check [keeps_rules]: "keeps (flag F) (checkDevices os i bs overall)"
  by (intro keeps_checkDevices) simp_all

lemma keeps_conj: "keeps J m \<Longrightarrow> keeps K m \<Longrightarrow> keeps (\<lambda>s. J s \<and> K s) m"
  by (simp add: keeps_def)

lemma keeps_createAllocations_ready [keeps_rules]: "keeps allReady (createAllocations os bs fss)"
  unfolding keeps_def
proof (intro allI impI)
  fix s and w :: 'a
  assume s: "allReady s"
  have "keeps allReady (bindE (createFileSystems os 0 fss) (\<lambda>_. retE (None :: Result option)))"
    by (intro keeps_rules)
  then show "allReady (fst (snd (createAllocations os bs fss (s, w))))"
    using s by (simp add: createAllocations_def createDevices_allReady keeps_def)
qed

lemma keeps_then:
  assumes "keeps J m" and "\<And>x ob w. J ob \<Longrightarrow> R (fst (snd (k x (ob, w))))" and "\<And>ob. J ob \<Longrightarrow> R ob" and "J ob"
  shows "R (fst (snd (bindE m k (ob, w))))"
proof -
  obtain r ob1 w1 where m: "m (ob, w) = (r, (ob1, w1))" by (metis prod_cases3)
  then show ?thesis using keepsD [OF assms(1,4) m] assms(2,3) by (cases r) (simp_all add: bindE_def)
qed

lemma statusTail_readyInv:
  "readyInv (fst (snd (bindE getE (\<lambda>s.
      if list_ex (\<lambda>a. \<not> nsa_Ready a) (statusOf s)
      then bindE (modifyE (setStatusReady False)) (\<lambda>_. retE r1)
      else bindE (modifyE (setStatusReady True)) (\<lambda>_. retE r2)) (s, w))))"
  by (auto simp: readyInv_def modifyE_def bindE_def retE_def getE_def list_all_iff list_ex_iff)

lemma reconcileCreate_readyInv:
  assumes "keeps J (gatherAllocations k os)"
    and "\<And>bs fss. keeps J (createAllocations os bs fss)" and "\<And>bs. keeps J (checkAllocations os bs)"
    and "\<And>s. J s \<Longrightarrow> readyInv s" and "J s"
  shows "readyInv (fst (snd (reconcileCreate k os (s, w))))"
  unfolding reconcileCreate_def
proof (intro keeps_then [where J = J and R = readyInv, OF assms(1) _ assms(4,5)] keeps_then [where J = J and R = readyInv, OF keeps_wrapE [OF assms(2)] _ assms(4)])
  fix pairs s w r s' w'
  show "readyInv (fst (snd ((case r of Some x \<Rightarrow> retE x | None \<Rightarrow>
      bindE (major ''unable to check storage allocation'' (checkAllocations os (map fst pairs))) (\<lambda>_.
      bindE getE (\<lambda>s.
        if list_ex (\<lambda>a. \<not> nsa_Ready a) (statusOf s)
        then bindE (modifyE (setStatusReady False)) (\<lambda>_. retE requeueResult)
        else bindE (modifyE (setStatusReady True)) (\<lambda>_. retE doneResult)))) (s', w'))))" if "J s'"
  proof (cases r)
    case None
    show ?thesis
      unfolding None option.case
      by (rule keeps_then [where J = J and R = readyInv, OF keeps_wrapE [OF assms(3)]])
        (rule statusTail_readyInv, erule assms(4), rule that)
  next
    case (Some x)
    then show ?thesis using assms(4) that by (simp add: retE_def)
  qed
qed

lemma keeps_gather [keeps_rules]: "keeps J (gatherAllocations k os)"
  unfolding gatherAllocations_def by (intro keeps_rules)

lemma keeps_check [keeps_rules]:
  "keeps (flag F) (checkAllocations os bs)" "keeps allReady (checkAllocations os bs)"
  unfolding checkAllocations_def by (intro keeps_rules; simp)+

lemma keeps_kube [keeps_rules]:
  "keeps J (updateNodeStorage k)" "keeps J (lookupBlockStorage k)" "keeps J (deleteAllocation k os i)"
  unfolding updateNodeStorage_def lookupBlockStorage_def deleteAllocation_def
  by (intro keeps_rules | simp add: split_beta)+

lemma keeps_deleteAllocations [keeps_rules]: "keeps J (deleteAllocations k os is)"
  by (induction "is") (auto intro!: keeps_rules)

lemma keeps_reconcileDelete:
  assumes "\<And>s m. J s \<Longrightarrow> J (s\<lparr>ns_Meta := m\<rparr>)"
  shows "keeps J (reconcileDelete k os)"
  unfolding reconcileDelete_def Let_def by (intro keeps_rules assms)

lemma reconcileBody_readyInv:
  assumes "readyInv s"
  shows "readyInv (fst (snd (reconcileBody k os (s, w))))"
proof -
  have create: "readyInv (fst (snd (reconcileCreate k os (s, w))))" if "readyInv s" for s w
  proof (cases "nst_Ready (ns_Status s)")
    case True
    then have "nst_Ready (ns_Status s) \<and> allReady s" using that by (simp add: readyInv_def)
    then show ?thesis
      by (intro reconcileCreate_readyInv [where J = "\<lambda>s. nst_Ready (ns_Status s) \<and> allReady s"] keeps_conj
          keeps_gather keeps_createAllocations keeps_createAllocations_ready keeps_check) (simp_all add: readyInv_def)
  next
    case False
    then show ?thesis
      by (intro reconcileCreate_readyInv [where J = "flag Not"] keeps_gather keeps_createAllocations keeps_check)
        (simp_all add: readyInv_def)
  qed
  have del: "keeps readyInv (reconcileDelete k os)"
    by (intro keeps_reconcileDelete) (simp add: readyInv_def)
  have init: "readyInv (fst (snd (initStatus (s, w))))"
    using assms by (simp add: initStatus_def failE_def retE_def readyInv_def)
  have rest: "readyInv (fst (snd (bindE (lookupBlockStorage k) (\<lambda>found. case found of
      None \<Rightarrow> reconcileCreate k os
    | Some b \<Rightarrow> if hasFinalizer (nb_Meta b) then reconcileCreate k os
        else if \<not> nbs_Ready (nb_Status b) then retE (requeueAfter second)
        else sndE (updateBlockStorage k (b\<lparr>nb_Meta := addFinalizer (nb_Meta b)\<rparr>))) (s, w))))"
    by (rule keeps_then [where J = readyInv, OF keeps_kube(2) _ _ assms])
      (auto simp: create retE_def sndE_apply split: option.splits)
  have add: "keeps readyInv (bindE (modifyE (\<lambda>s. s\<lparr>ns_Meta := addFinalizer (ns_Meta s)\<rparr>)) (\<lambda>_. updateNodeStorage k))"
    by (intro keeps_rules) (simp add: readyInv_def)
  show ?thesis
    using assms del [unfolded keeps_def] init rest add [unfolded keeps_def] unfolding reconcileBody_def by simp
qed

text \<open>
  C29. The ready flag of the status is sound: if it holds before a reconcile that a ready resource has
  only ready allocations, then it holds of the status that the reconcile leaves, whatever fails on
  the way (the API server, a command, a deferred deactivation) and also while deleting. So nobody
  who waits for \<^verbatim>\<open>Status.Ready\<close> sees an allocation without its file system.
\<close>

theorem NodeStorage_ready_sound:
  assumes "k_GetNodeStorage k w = (Found s, w1)" and "readyInv s"
    and "NodeStorage_Reconcile k os started w = (Returned res err (Some s'), w')"
  shows "readyInv s'"
proof -
  obtain r s2 w2 where b: "reconcileBody k os (s, w1) = (r, (s2, w2))" by (metis prod_cases3)
  then have "readyInv s2" using reconcileBody_readyInv [OF assms(2), of k os w1] by simp
  moreover have "\<exists>e. s' = SetResourceError e s2"
    using assms(1,3) b by (cases r) (auto simp: NodeStorage_Reconcile_def split: if_splits)
  ultimately show ?thesis by (auto simp: readyInv_def)
qed

definition exNodeStorage :: "int \<Rightarrow> NnfNodeStorageAllocationStatus list \<Rightarrow> NnfNodeStorage" where
  "exNodeStorage n allocations = \<lparr>
     ns_Meta = zeroMeta\<lparr>meta_Name := ''storage'', meta_Finalizers := [finalizerNnfNodeStorage]\<rparr>,
     ns_Spec = \<lparr>nss_Count = n, nss_SharedAllocation = False, nss_Capacity = 1, nss_UserID = 0, nss_GroupID = 0,
       nss_CommandVariables = [], nss_FileSystemType = ''xfs'',
       nss_LustreStorage = \<lparr>lss_FileSystemName = [], lss_TargetType = [], lss_StartIndex = 0, lss_MgsAddress = [],
         lss_BackFs = [], lss_LustreComponents = \<lparr>lcomp_MDTs = [], lcomp_MGTs = [], lcomp_MGTMDTs = [],
           lcomp_OSTs = [], lcomp_NNFNodes = []\<rparr>\<rparr>,
       nss_BlockReference = emptyRef\<rparr>,
     ns_Status = \<lparr>nst_Allocations = allocations, nst_Health = HealthUnset, nst_Ready = False, nst_Error = None\<rparr>\<rparr>"

text \<open>A client that finds one resource, cannot read block storage, and accepts every update.\<close>

definition exKube :: "NnfNodeStorage \<Rightarrow> NnfNodeBlockStorage got \<Rightarrow> unit kube" where
  "exKube s block = \<lparr>
     k_Profiles = \<lparr>pc_List = (\<lambda>n w. (Inr [], w)), pc_Get = (\<lambda>n p w. (NotFound, w)), pc_Create = (\<lambda>p w. (Created, w))\<rparr>,
     k_GetBlockStorage = (\<lambda>n p w. (block, w)), k_GetPod = (\<lambda>n p w. (NotFound, w)),
     k_GetNodeStorage = (\<lambda>w. (Found s, w)), k_UpdateBlockStorage = (\<lambda>b w. (Updated, w)),
     k_UpdateNodeStorage = (\<lambda>s w. (Updated, w))\<rparr>"

definition testOs :: "unit os" where
  "testOs = exampleOs (\<lambda>_. ([], [], None)) (\<lambda>v. if v = ''NNF_TEST_ENVIRONMENT'' then Some [] else None) False []"

theorem NodeStorage_ready_sound_witness:
  "\<exists>res err s'. NodeStorage_Reconcile (exKube (exNodeStorage 1 [emptyAllocation]) NotFound) testOs True () =
     (Returned res err (Some s'), ()) \<and> nst_Ready (ns_Status s') \<and> list_all nsa_Ready (statusOf s')"
proof -
  let ?k = "exKube (exNodeStorage 1 [emptyAllocation]) NotFound"
  have "(case NodeStorage_Reconcile ?k testOs True () of
      (Returned res err (Some s'), _) \<Rightarrow> nst_Ready (ns_Status s') | _ \<Rightarrow> False)"
    by code_simp
  then obtain res err s' where r: "NodeStorage_Reconcile ?k testOs True () = (Returned res err (Some s'), ())"
    and ready: "nst_Ready (ns_Status s')"
    by (auto split: prod.splits outcome.splits option.splits)
  have "readyInv s'"
    by (rule NodeStorage_ready_sound [OF _ _ r]) (auto simp: exKube_def readyInv_def exNodeStorage_def)
  then show ?thesis using r ready by (auto simp: readyInv_def)
qed

section \<open>Repeating a reconcile\<close>

definition notLustre :: "FileSystem \<Rightarrow> bool" where
  "notLustre fs = (case fs of LustreFS _ \<Rightarrow> False | _ \<Rightarrow> True)"

lemma createFileSystem_complete:
  assumes "notLustre fs"
  shows "withObj fs (createFileSystem os s True) w = (Inr (), w)"
proof -
  have act: "FileSystem_Activate os True (fs, w) = (Inr False, (fs, w))"
    using assms by (cases fs) (simp_all add: notLustre_def FileSystem_Activate_def dispatch_apply
      Simple_Activate_def Kind_Activate_def MockFileSystem_Activate_def retE_def)
  have skip: "FileSystem_PostActivate os True = retE False" "FileSystem_PostSetup os True = retE False"
    by (rule fsys.phase_complete [where os = os]; simp)+
  have "createFileSystem os s True (fs, w) = (Inr (), (fs, w))"
    unfolding createFileSystem_def fsys.create_complete skip
    by (simp add: bindE_wrapE_Inr [of "FileSystem_Activate os True", OF act] retE_apply)
  then show ?thesis by (simp add: withObj_def)
qed

lemma setReady_id: "allReady s \<Longrightarrow> setReady i True s = s"
proof -
  assume s: "allReady s"
  have "(statusOf s)[i := (statusOf s ! i)\<lparr>nsa_Ready := True\<rparr>] = statusOf s"
    using s by (cases "i < length (statusOf s)") (auto simp: list_all_length list_update_id intro!: nth_equalityI simp: nth_list_update)
  then show ?thesis by (simp add: setReady_def updateAlloc_def setAllocations_def)
qed

lemma createFileSystems_complete:
  "allReady s \<Longrightarrow> list_all notLustre fss \<Longrightarrow> i + length fss \<le> length (statusOf s) \<Longrightarrow>
   createFileSystems os i fss (s, w) = (Inr (), (s, w))"
proof (induction fss arbitrary: i)
  case Nil
  then show ?case by (simp add: retE_def)
next
  case (Cons fs fss)
  have "allocReady i (s, w) = (Inr True, (s, w))"
    using Cons.prems by (simp add: allocReady_def retE_def list_all_length)
  then show ?case
    using Cons createFileSystem_complete [of fs os s w]
    by (simp add: bindE_def getE_def sndE_apply modifyE_def setReady_id)
qed

text \<open>
  Creation is idempotent: once all the allocations of a resource are ready, creating them again is a
  no-op for every file system but a Lustre target (whose activation consults the mount table): no
  command is run, no device is activated, and the status does not change.
\<close>

theorem createAllocations_idempotent:
  assumes "list_all nsa_Ready (statusOf s)" and "list_all notLustre fss"
    and "length bs \<le> length (statusOf s)" and "length fss \<le> length (statusOf s)"
  shows "createAllocations os bs fss (s, w) = (Inr None, (s, w))"
  using assms by (simp add: createAllocations_def createDevices_allReady
      bindE_Inr [of "createFileSystems os 0 fss", OF createFileSystems_complete] retE_def)

theorem createAllocations_idempotent_witness:
  "createAllocations mountOs [LvmDevice exLvm] [SimpleFS exSimple]
     (exNodeStorage 1 [emptyAllocation\<lparr>nsa_Ready := True\<rparr>], False) =
   (Inr None, (exNodeStorage 1 [emptyAllocation\<lparr>nsa_Ready := True\<rparr>], False))"
  by (rule createAllocations_idempotent) (simp_all add: exNodeStorage_def notLustre_def)

section \<open>Boundary cases\<close>

text \<open>
  Any failure to read the block storage while a resource is deleted counts as its absence: the
  finalizer is removed, the update is the only effect, and no allocation is taken down, although
  the error may be transient and the allocations are still there.
\<close>

theorem delete_on_read_error:
  assumes "meta_Deleting (ns_Meta s)" and "hasFinalizer (ns_Meta s)"
    and "k_GetBlockStorage k (ref_Namespace (nss_BlockReference (ns_Spec s)))
           (ref_Name (nss_BlockReference (ns_Spec s))) w = (GetError e, w1)"
    and "k_UpdateNodeStorage k (s\<lparr>ns_Meta := removeFinalizer (ns_Meta s)\<rparr>) w1 = (Updated, w2)"
  shows "reconcileBody k os (s, w) = (Inr doneResult, (s\<lparr>ns_Meta := removeFinalizer (ns_Meta s)\<rparr>, w2))"
  using assms by (simp add: reconcileBody_def reconcileDelete_def lookupBlockStorage_def updateNodeStorage_def
      Let_def bindE_def getE_def modifyE_def sndE_apply)

theorem delete_on_read_error_witness:
  "reconcileBody (exKube (exNodeStorage 0 []) (GetError (Fail ''timeout''))) testOs
     ((exNodeStorage 1 [emptyAllocation\<lparr>nsa_Ready := True\<rparr>])\<lparr>ns_Meta := zeroMeta\<lparr>meta_Deleting := True,
        meta_Finalizers := [finalizerNnfNodeStorage]\<rparr>\<rparr>, ()) =
   (Inr doneResult, ((exNodeStorage 1 [emptyAllocation\<lparr>nsa_Ready := True\<rparr>])\<lparr>ns_Meta := zeroMeta\<lparr>meta_Deleting := True\<rparr>\<rparr>, ()))"
proof -
  let ?s = "(exNodeStorage 1 [emptyAllocation\<lparr>nsa_Ready := True\<rparr>])\<lparr>ns_Meta := zeroMeta\<lparr>meta_Deleting := True,
        meta_Finalizers := [finalizerNnfNodeStorage]\<rparr>\<rparr>"
  have m: "removeFinalizer (ns_Meta ?s) = zeroMeta\<lparr>meta_Deleting := True\<rparr>"
    by (simp add: removeFinalizer_def setFinalizers_def RemoveFinalizer_def zeroMeta_def)
  have "reconcileBody (exKube (exNodeStorage 0 []) (GetError (Fail ''timeout''))) testOs (?s, ()) =
      (Inr doneResult, (?s\<lparr>ns_Meta := removeFinalizer (ns_Meta ?s)\<rparr>, ()))"
    by (rule delete_on_read_error [where e = "Fail ''timeout''" and ?w1.0 = "()"])
      (simp_all add: exKube_def hasFinalizer_def ContainsFinalizer_def)
  then show ?thesis unfolding m by simp
qed

text \<open>
  A resource without allocations (the count 0 is a legal value) never becomes ready: its
  status is initialised again by every reconcile, which asks to be called at once, forever.
\<close>

theorem zero_count_never_ready:
  assumes "\<not> meta_Deleting (ns_Meta s)" and "hasFinalizer (ns_Meta s)" and "nss_Count (ns_Spec s) = 0" and "statusOf s = []"
  shows "\<exists>s'. reconcileBody k os (s, w) = (Inr requeueResult, (s', w)) \<and> \<not> nst_Ready (ns_Status s') \<and>
    statusOf s' = [] \<and> ns_Meta s' = ns_Meta s \<and> ns_Spec s' = ns_Spec s"
  using assms by (simp add: reconcileBody_def initStatus_def retE_def setStatusReady_def setAllocations_def)

theorem zero_count_never_ready_witness:
  "\<exists>s'. reconcileBody (exKube (exNodeStorage 0 []) NotFound) testOs (exNodeStorage 0 [], ()) = (Inr requeueResult, (s', ())) \<and>
    \<not> nst_Ready (ns_Status s')"
  using zero_count_never_ready [of "exNodeStorage 0 []" "exKube (exNodeStorage 0 []) NotFound" testOs "()"]
  by (auto simp: exNodeStorage_def zeroMeta_def hasFinalizer_def ContainsFinalizer_def)

section \<open>An LVM allocation\<close>

definition labelledStorage :: NnfNodeStorage where
  "labelledStorage = (exNodeStorage 2 [])\<lparr>ns_Meta := zeroMeta\<lparr>meta_Name := ''storage'',
     meta_Labels := [(OwnerUidLabel, ''6c1b-4d''), (DirectiveIndexLabel, ''0'')]\<rparr>\<rparr>"

definition computeOs :: "unit os" where
  "computeOs = exampleOs (\<lambda>_. ([], [], None)) (\<lambda>_. None) False []"

definition builtLvm :: "nat \<Rightarrow> Lvm" where
  "builtLvm i = (case newLvmBlockDevice (exKube labelledStorage NotFound) computeOs labelledStorage zeroSharedData i () of
     (Inr (LvmDevice l), _) \<Rightarrow> l | _ \<Rightarrow> exLvm)"

lemma builtLvm:
  "newLvmBlockDevice (exKube labelledStorage NotFound) computeOs labelledStorage zeroSharedData 0 () = (Inr (LvmDevice (builtLvm 0)), ())"
  "newLvmBlockDevice (exKube labelledStorage NotFound) computeOs labelledStorage zeroSharedData 1 () = (Inr (LvmDevice (builtLvm 1)), ())"
proof -
  have "(case newLvmBlockDevice (exKube labelledStorage NotFound) computeOs labelledStorage zeroSharedData 0 () of
      (Inr (LvmDevice l), _) \<Rightarrow> True | _ \<Rightarrow> False)"
    "(case newLvmBlockDevice (exKube labelledStorage NotFound) computeOs labelledStorage zeroSharedData 1 () of
      (Inr (LvmDevice l), _) \<Rightarrow> True | _ \<Rightarrow> False)"
    by code_simp+
  then show
    "newLvmBlockDevice (exKube labelledStorage NotFound) computeOs labelledStorage zeroSharedData 0 () = (Inr (LvmDevice (builtLvm 0)), ())"
    "newLvmBlockDevice (exKube labelledStorage NotFound) computeOs labelledStorage zeroSharedData 1 () = (Inr (LvmDevice (builtLvm 1)), ())"
    by (auto simp: builtLvm_def split: prod.splits sum.splits BlockDevice.splits)
qed

theorem newLvm_paths_distinct_witness: "Lvm_GetDevice (builtLvm 0) \<noteq> Lvm_GetDevice (builtLvm 1)"
  by (rule newLvm_paths_distinct [OF builtLvm]) (simp_all add: zeroSharedData_def)

theorem compute_node_creates_nothing_witness:
  "list_all (starts switchTools) (commandsOf (BlockDevice_Destroy (traced computeOs) (LvmDevice (builtLvm 0))) ())"
  using compute_node_creates_nothing [OF _ builtLvm(1)] by (simp add: computeOs_def)

theorem percentVG_fits_witness: "\<exists>q. percentVG ((ns_Spec labelledStorage)\<lparr>nss_SharedAllocation := True\<rparr>) [] = Inr q \<and> 2 * q \<le> 100"
  using percentVG_fits [of "(ns_Spec labelledStorage)\<lparr>nss_SharedAllocation := True\<rparr>" "[]"]
  by (auto simp: labelledStorage_def exNodeStorage_def)

end
