(* ===== verification/Nvme.thy ===== *)
theory Nvme
  imports LvmVolumes
begin

text \<open>
  \<^verbatim>\<open>pkg/blockdevice/nvme\<close>: listing the NVMe namespaces that a node sees, and asking its controllers to
  look for new ones. The difference of the namespaces before and after a rescan is computed
  for the log only and is left out.
\<close>

record NvmeDevice =
  nvd_DevicePath :: string
  nvd_NSID :: "32 word"
  nvd_NQN :: string

text \<open>A \<^verbatim>\<open>uint32\<close> field of a struct.\<close>

fun uint32Field :: "string \<Rightarrow> nat \<Rightarrow> (string \<times> json) list \<Rightarrow> nat res" where
  "uint32Field f v [] = Inr v"
| "uint32Field f v ((k, j) # ms) =
     (if same_field f k then
        (case j of
           JNum t \<Rightarrow> (case parse_uint 32 t of
             Some n \<Rightarrow> uint32Field f n ms
           | None \<Rightarrow> Inl (Fail ''json: cannot unmarshal number into Go struct field of type uint32''))
         | JNull \<Rightarrow> uint32Field f v ms
         | _ \<Rightarrow> Inl (Fail ''json: cannot unmarshal value into Go struct field of type uint32''))
      else uint32Field f v ms)"

definition nvmeNamespace :: "string \<Rightarrow> json \<Rightarrow> NvmeDevice res" where
  "nvmeNamespace nqn j =
     bindR (structOf j) (\<lambda>ms.
     bindR (strField ''NameSpace'' [] ms) (\<lambda>device.
     bindR (uint32Field ''NSID'' 0 ms) (\<lambda>nsid.
       Inr \<lparr>nvd_DevicePath = ''/dev/'' @ device, nvd_NSID = of_nat nsid, nvd_NQN = nqn\<rparr>)))"

definition nvmeController :: "string \<Rightarrow> json \<Rightarrow> NvmeDevice list res" where
  "nvmeController nqn j =
     bindR (structOf j) (\<lambda>ms.
     bindR (arrField ''Namespaces'' [] ms) (\<lambda>namespaces. mapRes (nvmeNamespace nqn) namespaces))"

definition nvmeDevice :: "json \<Rightarrow> NvmeDevice list res" where
  "nvmeDevice j =
     bindR (structOf j) (\<lambda>ms.
     bindR (strField ''SubsystemNQN'' [] ms) (\<lambda>nqn.
     bindR (arrField ''Controllers'' [] ms) (\<lambda>controllers.
     bindR (mapRes (nvmeController nqn) controllers) (\<lambda>ns. Inr (concat ns)))))"

definition unmarshalNvme :: "string \<Rightarrow> NvmeDevice list res" where
  "unmarshalNvme data =
     (case jparse data of
        None \<Rightarrow> Inl (Fail ''invalid JSON'')
      | Some j \<Rightarrow>
          bindR (structOf j) (\<lambda>ms.
          bindR (arrField ''Devices'' [] ms) (\<lambda>devices.
          bindR (mapRes nvmeDevice devices) (\<lambda>ds. Inr (concat ds)))))"

definition NvmeListDevices :: "'w os \<Rightarrow> ('w, NvmeDevice list) io" where
  "NvmeListDevices os =
     bindE (Run os ''nvme list -v --output-format=json'') (\<lambda>data. liftE (unmarshalNvme data))"

text \<open>The regular expressions \<^verbatim>\<open>nvme[0-9]+$\<close> and \<^verbatim>\<open>nvme[0-9]+n[0-9]+$\<close>, anchored at the end only.\<close>

definition isDigit :: "char \<Rightarrow> bool" where
  "isDigit c = (digit_val c \<noteq> None)"

definition matchesNvme :: "string \<Rightarrow> bool" where
  "matchesNvme name =
     (let r = rev name in isDigit (hd (r @ '' '')) \<and> prefix (rev ''nvme'') (dropWhile isDigit r))"

definition matchesNamespace :: "string \<Rightarrow> bool" where
  "matchesNamespace name =
     (let r = rev name; s = dropWhile isDigit r in
      isDigit (hd (r @ '' '')) \<and> prefix ''n'' s \<and> matchesNvme (rev (tl s)))"

definition readDev :: "'w os \<Rightarrow> ('w, string list) io" where
  "readDev os = (\<lambda>w. case os_ReadDir os ''/dev/'' w of
     (Inl e, w') \<Rightarrow> (Inl (Fail (''could not read /dev: '' @ oserrText e)), w')
   | (Inr names, w') \<Rightarrow> (Inr names, w'))"

definition NvmeGetDevices :: "'w os \<Rightarrow> ('w, string list) io" where
  "NvmeGetDevices os =
     bindE (readDev os) (\<lambda>devices. retE (map ((@) ''/dev/'') (filter matchesNvme devices)))"

definition NvmeGetNamespaceDevices :: "'w os \<Rightarrow> ('w, string list) io" where
  "NvmeGetNamespaceDevices os =
     bindE (readDev os) (\<lambda>devices. retE (map ((@) ''/dev/'') (filter matchesNamespace devices)))"

definition NvmeRescanDevices :: "'w os \<Rightarrow> ('w, unit) io" where
  "NvmeRescanDevices os =
     bindE (NvmeGetDevices os) (\<lambda>nvmeDevices.
     bindE (NvmeGetNamespaceDevices os) (\<lambda>_.
     bindE (mapME (\<lambda>d. wrapE (errorf ''could not rescan NVMe device: '')
              (Run os (''nvme ns-rescan '' @ d))) nvmeDevices) (\<lambda>_.
     bindE (NvmeGetNamespaceDevices os) (\<lambda>_. retE ()))))"

section \<open>Lemmas\<close>

lemma matchesNvme_exact: "matchesNvme name \<longleftrightarrow> (\<exists>p ds. name = p @ ''nvme'' @ ds \<and> ds \<noteq> [] \<and> list_all isDigit ds)"
proof
  assume m: "matchesNvme name"
  let ?r = "rev name"
  obtain p where p: "dropWhile isDigit ?r = rev ''nvme'' @ p" and h: "isDigit (hd (?r @ '' ''))"
    using m by (auto simp: matchesNvme_def Let_def prefix_def)
  have "?r = takeWhile isDigit ?r @ rev ''nvme'' @ p" using p by (metis takeWhile_dropWhile_id)
  then have "name = rev p @ ''nvme'' @ rev (takeWhile isDigit ?r)"
    by (metis rev_append rev_rev_ident append.assoc)
  moreover have "takeWhile isDigit ?r \<noteq> []" using h by (cases ?r) (auto simp: isDigit_def digit_val_def)
  moreover have "list_all isDigit (rev (takeWhile isDigit ?r))" by (auto simp: list_all_iff dest: set_takeWhileD)
  ultimately show "\<exists>p ds. name = p @ ''nvme'' @ ds \<and> ds \<noteq> [] \<and> list_all isDigit ds" by (metis rev_is_Nil_conv)
next
  assume "\<exists>p ds. name = p @ ''nvme'' @ ds \<and> ds \<noteq> [] \<and> list_all isDigit ds"
  then obtain p ds where name: "name = p @ ''nvme'' @ ds" and ds: "ds \<noteq> []" "list_all isDigit ds" by blast
  have "dropWhile isDigit (rev ds @ rev ''nvme'' @ rev p) = rev ''nvme'' @ rev p"
    using ds(2) by (subst dropWhile_append2) (auto simp: list_all_iff isDigit_def digit_val_def)
  moreover have "isDigit (hd (rev ds @ x))" for x using ds by (cases ds rule: rev_cases) auto
  ultimately show "matchesNvme name" by (simp add: matchesNvme_def Let_def name prefix_def)
qed

end
