(* ===== verification/ClientMount.thy ===== *)
theory ClientMount
  imports NodeStorage Nvme "HOL-Library.List_Lexorder" "HOL-Library.Char_ord"
begin

text \<open>
  \<^verbatim>\<open>internal/controller/nnf_clientmount_controller.go\<close>: the reconciler of \<^verbatim>\<open>ClientMount\<close>, which mounts and
  unmounts the file systems of a job on a compute or Rabbit node. It builds the file system of a
  mount from the \<^verbatim>\<open>ClientMount\<close> and the pinned profile alone, through the same helpers as the
  node storage controller. Logging and what is only computed for the log are left out.
\<close>

section \<open>The file system of a mount\<close>

text \<open>The Kubernetes client of this controller: the other resources, and servers by their labels.\<close>

record 'w mountKube =
  mk_Kube :: "'w kube"
  mk_GetClientMount :: "'w \<Rightarrow> ClientMount got \<times> 'w"
  mk_UpdateClientMount :: "ClientMount \<Rightarrow> 'w \<Rightarrow> updated \<times> 'w"
  mk_GetStorageMeta :: "string \<Rightarrow> string \<Rightarrow> 'w \<Rightarrow> ObjectMeta got \<times> 'w"
  mk_ListServers :: "kv \<Rightarrow> 'w \<Rightarrow> Servers list res \<times> 'w"

definition plainVariable :: "string \<Rightarrow> string \<Rightarrow> CommandVariablesSpec" where
  "plainVariable name v = \<lparr>cv_Indexed = False, cv_Name = name, cv_Value = v, cv_IndexedValues = []\<rparr>"

definition fakeRef :: ObjectReference where
  "fakeRef = emptyRef\<lparr>ref_Name := ''fake'', ref_Namespace := ''fake'', ref_Kind := ''fake''\<rparr>"

definition zeroLustreSpec :: LustreStorageSpec where
  "zeroLustreSpec = \<lparr>lss_FileSystemName = [], lss_TargetType = [], lss_StartIndex = 0, lss_MgsAddress = [],
     lss_BackFs = [], lss_LustreComponents = \<lparr>lcomp_MDTs = [], lcomp_MGTs = [], lcomp_MGTMDTs = [],
       lcomp_OSTs = [], lcomp_NNFNodes = []\<rparr>\<rparr>"

definition fakeMeta :: "ClientMount \<Rightarrow> ObjectReference \<Rightarrow> ObjectMeta" where
  "fakeMeta cm ref =
     (let m = InheritParentLabels (zeroMeta\<lparr>meta_Name := ref_Name ref, meta_Namespace := ref_Namespace ref,
                meta_UID := ''fake_UID''\<rparr>) (cm_Meta cm)
      in m\<lparr>meta_Labels := kv_put OwnerUidLabel (getTargetOwnerUIDLabel (cm_Meta cm))
             (kv_put DirectiveIndexLabel (getTargetDirectiveIndexLabel (cm_Meta cm)) (meta_Labels m))\<rparr>)"

definition lustreMount :: "ClientMountInfo \<Rightarrow> LustreStorageSpec res" where
  "lustreMount mount =
     (if cmi_Type mount = ''lustre'' then
        bindR (derefR (cmd_Lustre (cmi_Device mount))) (\<lambda>l.
          Inr (zeroLustreSpec\<lparr>lss_BackFs := ''none'', lss_TargetType := ''ost'',
            lss_FileSystemName := cdl_FileSystemName l, lss_MgsAddress := cdl_MgsAddresses l\<rparr>))
      else Inr zeroLustreSpec)"

definition sharedVg :: "NnfStorageProfile \<Rightarrow> string \<Rightarrow> bool" where
  "sharedVg p fsType =
     (let d = prof_Data p in
      if fsType = ''raw'' then bd_SharedVg (sd_BlockDeviceCommands (pd_RawStorage d))
      else if fsType = ''xfs'' then bd_SharedVg (sd_BlockDeviceCommands (pd_XFSStorage d))
      else if fsType = ''gfs2'' then bd_SharedVg (sd_BlockDeviceCommands (pd_GFS2Storage d))
      else False)"

definition fakeNnfNodeStorage :: "'w mountKube \<Rightarrow> ClientMount \<Rightarrow> ClientMountInfo \<Rightarrow> ('w, NnfNodeStorage) io" where
  "fakeNnfNodeStorage k cm mount =
     bindE (liftE (derefR (cmd_DeviceReference (cmi_Device mount)))) (\<lambda>reference.
     bindE (liftE (lustreMount mount)) (\<lambda>lustre.
       let m = fakeMeta cm (cdr_ObjectReference reference); labels = meta_Labels m;
           fsType = (if cmi_Type mount = ''none'' then ''raw'' else cmi_Type mount)
       in bindE (gotE (majorError ''unable to find pinned storage profile'')
                   (getPinnedStorageProfileFromLabel (k_Profiles (mk_Kube k)) m)) (\<lambda>profile.
            retE \<lparr>ns_Meta = m,
              ns_Spec = \<lparr>nss_Count = 1, nss_SharedAllocation = sharedVg profile fsType, nss_Capacity = 0,
                nss_UserID = cmi_UserID mount, nss_GroupID = cmi_GroupID mount,
                nss_CommandVariables =
                  [plainVariable ''$JOBID'' (labelOf JobIDLabel labels),
                   plainVariable ''$DIRECTIVE_INDEX'' (labelOf DirectiveIndexLabel labels),
                   plainVariable ''$WORKFLOW_UID'' (labelOf WorkflowUidLabel labels),
                   plainVariable ''$USERID'' (itoa_nat (unat (cmi_UserID mount))),
                   plainVariable ''$GROUPID'' (itoa_nat (unat (cmi_GroupID mount)))],
                nss_FileSystemType = fsType, nss_LustreStorage = lustre, nss_BlockReference = fakeRef\<rparr>,
              ns_Status = \<lparr>nst_Allocations = [], nst_Health = HealthUnset, nst_Ready = False, nst_Error = None\<rparr>\<rparr>)))"

section \<open>The servers of a Lustre file system\<close>

definition getServerForClientMount :: "'w mountKube \<Rightarrow> ClientMount \<Rightarrow> ('w, Servers) io" where
  "getServerForClientMount k cm =
     (let labels = meta_Labels (cm_Meta cm) in
      case (map_of labels OwnerKindLabel, map_of labels OwnerNameLabel, map_of labels OwnerNamespaceLabel,
            map_of labels DirectiveIndexLabel) of
        (Some ownerKind, Some ownerName, Some ownerNS, Some _) \<Rightarrow>
          (if ownerKind \<noteq> ''NnfStorage''
           then failE (ResErr (WithMajor (NewResourceError
                  ''expected owner to be of kind NnfStorage and have the expected labels'')))
           else bindE (gotE (majorError ''unable retrieve NnfStorage resource'') (mk_GetStorageMeta k ownerNS ownerName))
             (\<lambda>storage.
               case (map_of (meta_Labels storage) OwnerKindLabel, map_of (meta_Labels storage) OwnerNameLabel,
                     map_of (meta_Labels storage) OwnerNamespaceLabel, map_of (meta_Labels storage) DirectiveIndexLabel) of
                 (Some kind, Some name, Some namespace, Some idx) \<Rightarrow>
                   (if kind \<noteq> ''Workflow'' \<and> kind \<noteq> ''PersistentStorageInstance''
                    then failE (ResErr (WithMajor (NewResourceError
                      ''expected owner to be of kind Workflow or PersistentStorageInstance and have the expected labels'')))
                    else bindE (wrapE (majorError ''unable retrieve NnfServers resource'')
                      (mk_ListServers k
                         (if kind = ''Workflow''
                          then [(WorkflowNameLabel, name), (WorkflowNamespaceLabel, namespace), (DirectiveIndexLabel, idx)]
                          else [(OwnerKindLabel, kind), (OwnerNameLabel, name), (OwnerNamespaceLabel, namespace)])))
                      (\<lambda>items.
                        if length items \<noteq> 1
                        then failE (ResErr (WithMajor (NewResourceError
                          (''wrong number of NnfServers resources: expected: 1, got: '' @ itoa_nat (length items)))))
                        else retE (hd items)))
               | _ \<Rightarrow> failE (ResErr (WithMajor (NewResourceError
                   ''expected owner to be of kind Workflow or PersistentStorageInstance and have the expected labels''))))) 
      | _ \<Rightarrow> failE (ResErr (WithMajor (NewResourceError
          ''expected owner to be of kind NnfStorage and have the expected labels''))))"

text \<open>Appending to a list in a map.\<close>

definition appendAt :: "string \<Rightarrow> string list \<Rightarrow> (string \<times> string list) list \<Rightarrow> (string \<times> string list) list" where
  "appendAt key xs m =
     (case map_of m key of
        None \<Rightarrow> if xs = [] then m else m @ [(key, xs)]
      | Some ys \<Rightarrow> map (\<lambda>(k, zs). if k = key then (k, ys @ xs) else (k, zs)) m)"

text \<open>The list under \<^verbatim>\<open>nnfNode\<close> is kept without repetition by a map beside it.\<close>

fun addStorages ::
  "string \<Rightarrow> ServersSpecStorage list \<Rightarrow> (string \<times> string list) list \<times> string list
   \<Rightarrow> (string \<times> string list) list \<times> string list" where
  "addStorages label [] (components, seen) = (components, seen)"
| "addStorages label (storage # rest) (components, seen) =
     (let node = sss_Name storage;
          c1 = appendAt label (replicate (nat (sss_AllocationCount storage)) node) components
      in if node \<in> set seen then addStorages label rest (c1, seen)
         else addStorages label rest (appendAt ''nnfNode'' [node] c1, node # seen))"

definition getLustreMappingFromServer :: "Servers \<Rightarrow> (string \<times> string list) list" where
  "getLustreMappingFromServer server =
     fst (foldl (\<lambda>acc s. addStorages (ssa_Label s) (ssa_Storage s) acc)
        ([(''mdt'', []), (''mgt'', []), (''mgtmdt'', []), (''ost'', []), (''nnfNode'', [])], [])
        (sv_AllocationSets server))"

text \<open>The JSON encoder writes a map by its sorted keys.\<close>

definition dumpServersToFile ::
  "'w mountKube \<Rightarrow> 'w os \<Rightarrow> ClientMount \<Rightarrow> string \<Rightarrow> 32 word \<Rightarrow> 32 word \<Rightarrow> ('w, unit) io" where
  "dumpServersToFile k os cm path uid gid =
     bindE (wrapE (majorError ''could not retrieve corresponding NnfServer resource for this ClientMount'')
              (getServerForClientMount k cm)) (\<lambda>server.
     bindE (wrapE (majorError ''could not create servers file'') (osE [] (os_Create os path))) (\<lambda>_.
     bindE (wrapE (majorError ''could not write JSON to file'')
              (osE [] (os_Encode os path (sort_key fst (getLustreMappingFromServer server))))) (\<lambda>_.
       wrapE (majorError ''unable to set owner and group'') (osE [] (os_Chown os path (uint uid) (uint gid))))))"

section \<open>Mounting and unmounting\<close>

datatype ClientType = ClientCompute | ClientRabbit

definition sameNamespace :: "ClientMountNVMeDesc \<Rightarrow> NvmeDevice \<Rightarrow> bool" where
  "sameNamespace expected existing =
     (nvd_NQN existing = nvi_DeviceSerial expected \<and> itoa_nat (unat (nvd_NSID existing)) = nvi_NamespaceID expected)"

definition allDevicesFound :: "ClientMountNVMeDesc list \<Rightarrow> NvmeDevice list \<Rightarrow> bool" where
  "allDevicesFound expected existing = list_all (\<lambda>e. list_ex (sameNamespace e) existing) expected"

text \<open>
  What follows a failed activation of an LVM device. The error that is returned wraps the (nil) error
  of the listing and not that of the activation.
\<close>

definition afterFailedActivate :: "'w os \<Rightarrow> ClientMountInfo \<Rightarrow> ('w, unit) io" where
  "afterFailedActivate os mount =
     bindE (wrapE (majorError ''could not rescan NVMe devices'') (NvmeRescanDevices os)) (\<lambda>_.
     bindE (wrapE (majorError ''could not get NVMe device list'') (NvmeListDevices os)) (\<lambda>existing.
     bindE (liftE (derefR (cmd_LVM (cmi_Device mount)))) (\<lambda>lvm.
       let activateErr = WithMajor (WithError None (NewResourceError ''unable to activate block device'')) in
       if allDevicesFound (cdv_NVMeInfo lvm) existing then failE (QuickRetry activateErr)
       else failE (ResErr activateErr))))"

text \<open>\<^verbatim>\<open>filepath.Join\<close> of two elements: empty ones are left out.\<close>

definition filepath_Join :: "string \<Rightarrow> string \<Rightarrow> string" where
  "filepath_Join a b =
     (if a = [] \<and> b = [] then [] else filepath_Clean (if a = [] then b else if b = [] then a else a @ ''/'' @ b))"

definition setPermissions :: "'w mountKube \<Rightarrow> 'w os \<Rightarrow> ClientMount \<Rightarrow> ClientMountInfo \<Rightarrow> ('w, unit) io" where
  "setPermissions k os cm mount =
     (if \<not> cmi_SetPermissions mount then retE ()
      else bindE (if os_getenv os ''NNF_TEST_ENVIRONMENT'' \<noteq> None then retE ()
                  else wrapE (majorError ''unable to set owner and group for file system'')
                    (osE [] (os_Chown os (cmi_MountPath mount) (uint (cmi_UserID mount)) (uint (cmi_GroupID mount)))))
             (\<lambda>_. if cmi_Type mount = ''lustre''
                 then wrapE (majorError ''unable to dump servers resource to file on clientmount path'')
                   (dumpServersToFile k os cm (filepath_Join (cmi_MountPath mount) ''.nnf-servers.json'')
                      (cmi_UserID mount) (cmi_GroupID mount))
                 else retE ()))"

definition mountSteps ::
  "'w mountKube \<Rightarrow> 'w os \<Rightarrow> ClientMount \<Rightarrow> ClientMountInfo \<Rightarrow> BlockDevice \<Rightarrow> bool \<Rightarrow> (FileSystem \<times> 'w, unit) io" where
  "mountSteps k os cm mount b ready =
     bindE (major ''unable to run block device PreActivate commands'' (sndE (BlockDevice_PreActivate os b ready))) (\<lambda>_.
     bindE (tryE (sndE (BlockDevice_Activate os b))) (\<lambda>activated.
     bindE (case activated of
              Inl _ \<Rightarrow> if cmd_Type (cmi_Device mount) = ''lvm'' then sndE (afterFailedActivate os mount) else retE ()
            | Inr _ \<Rightarrow> retE ()) (\<lambda>_.
     bindE (major ''unable to run block device PostActivate commands'' (sndE (BlockDevice_PostActivate os b ready))) (\<lambda>_.
     bindE (major ''unable to run file system PreMount commands'' (FileSystem_PreMount os (cmi_MountPath mount) ready)) (\<lambda>_.
     bindE (major ''unable to mount file system'' (FileSystem_Mount os (cmi_MountPath mount) ready)) (\<lambda>_.
     bindE (sndE (setPermissions k os cm mount)) (\<lambda>_.
     bindE (major ''unable to run file system PostMount commands'' (FileSystem_PostMount os (cmi_MountPath mount) ready))
       (\<lambda>_. retE ()))))))))"

text \<open>A failed deactivation runs two commands for the log, whose errors are dropped.\<close>

definition deactivateDiagnostics :: "'w os \<Rightarrow> ('w, unit) io" where
  "deactivateDiagnostics os =
     bindE (tryE (NvmeGetNamespaceDevices os)) (\<lambda>_. bindE (tryE (Run os ''dlm_tool ls -n'')) (\<lambda>_. retE ()))"

definition unmountSteps ::
  "'w os \<Rightarrow> ClientType \<Rightarrow> ClientMountInfo \<Rightarrow> BlockDevice \<Rightarrow> bool \<Rightarrow> (FileSystem \<times> 'w, unit) io" where
  "unmountSteps os clientType mount b ready =
     bindE (major ''unable to run file system PreUnmount commands'' (FileSystem_PreUnmount os (cmi_MountPath mount) ready)) (\<lambda>_.
       if ready then retE ()
       else
         bindE (major ''unable to unmount file system'' (FileSystem_Unmount os (cmi_MountPath mount))) (\<lambda>_.
         bindE (major ''unable to run file system PostUnmount commands'' (FileSystem_PostUnmount os (cmi_MountPath mount) ready)) (\<lambda>_.
         bindE (major ''unable to run block device PreDeactivate commands'' (sndE (BlockDevice_PreDeactivate os b ready))) (\<lambda>_.
         bindE (tryE (sndE (BlockDevice_Deactivate os b (clientType = ClientCompute)))) (\<lambda>r.
         bindE (case r of
                  Inl e \<Rightarrow> bindE (sndE (deactivateDiagnostics os)) (\<lambda>_.
                    failE (majorError ''unable to deactivate block device'' e))
                | Inr _ \<Rightarrow> retE ()) (\<lambda>_.
         bindE (major ''unable to run block device PostDeactivate commands'' (sndE (BlockDevice_PostDeactivate os b ready)))
           (\<lambda>_. retE ())))))))"

abbreviation mountStatus :: "ClientMount \<Rightarrow> ClientMountInfoStatus list" where
  "mountStatus cm \<equiv> cst_Mounts (cm_Status cm)"

definition changeMount ::
  "'w mountKube \<Rightarrow> 'w os \<Rightarrow> ClientType \<Rightarrow> ClientMount \<Rightarrow> nat \<Rightarrow> bool \<Rightarrow> ('w, unit) io" where
  "changeMount k os clientType cm index shouldMount =
     bindE (liftE (indexR (cms_Mounts (cm_Spec cm)) index)) (\<lambda>mount.
     bindE (major ''unable to build NnfNodeStorage'' (fakeNnfNodeStorage k cm mount)) (\<lambda>s.
     bindE (liftE (derefR (cmd_DeviceReference (cmi_Device mount)))) (\<lambda>reference.
     bindE (major ''unable to get file system information''
              (getBlockDeviceAndFileSystem (mk_Kube k) os s (cdr_Data reference))) (\<lambda>(b, fs).
     bindE (liftE (indexR (mountStatus cm) index)) (\<lambda>st.
       withObj fs (if shouldMount then mountSteps k os cm mount b (cis_Ready st)
                   else unmountSteps os clientType mount b (cis_Ready st)))))))"

section \<open>All mounts\<close>

definition setMountStatus :: "ClientMountInfoStatus list \<Rightarrow> ClientMount \<Rightarrow> ClientMount" where
  "setMountStatus ms cm = cm\<lparr>cm_Status := (cm_Status cm)\<lparr>cst_Mounts := ms\<rparr>\<rparr>"

definition setAllReady :: "bool \<Rightarrow> ClientMount \<Rightarrow> ClientMount" where
  "setAllReady r cm = cm\<lparr>cm_Status := (cm_Status cm)\<lparr>cst_AllReady := r\<rparr>\<rparr>"

definition resetMountStatus :: "ClientMount \<Rightarrow> ClientMount" where
  "resetMountStatus cm = setAllReady False (setMountStatus
     (map (\<lambda>m. m\<lparr>cis_State := cms_DesiredState (cm_Spec cm), cis_Ready := False\<rparr>) (mountStatus cm)) cm)"

text \<open>Whether a mount up to the first one in another state is there; a missing status is a panic.\<close>

fun otherState :: "string \<Rightarrow> ClientMountInfo list \<Rightarrow> ClientMountInfoStatus list \<Rightarrow> bool res" where
  "otherState state [] ms = Inr False"
| "otherState state (i # is) [] = Inl (Panic ''index out of range'')"
| "otherState state (i # is) (m # ms) = (if cis_State m \<noteq> state then Inr True else otherState state is ms)"

definition setMountReady :: "nat \<Rightarrow> bool \<Rightarrow> ClientMount \<Rightarrow> ClientMount" where
  "setMountReady i r cm = setMountStatus ((mountStatus cm)[i := (mountStatus cm ! i)\<lparr>cis_Ready := r\<rparr>]) cm"

definition orElse :: "'a option \<Rightarrow> 'a option \<Rightarrow> 'a option" where
  "orElse a b = (case a of None \<Rightarrow> b | Some x \<Rightarrow> Some x)"

fun changeMounts ::
  "'w mountKube \<Rightarrow> 'w os \<Rightarrow> ClientType \<Rightarrow> string \<Rightarrow> nat list \<Rightarrow> failure option
   \<Rightarrow> (ClientMount \<times> 'w, failure option) io" where
  "changeMounts k os clientType state [] firstError = retE firstError"
| "changeMounts k os clientType state (i # is) firstError =
     (if state \<noteq> ClientMountStateMounted \<and> state \<noteq> ClientMountStateUnmounted
      then failE (ResErr (WithFatal (NewResourceError (''invalid desired state '' @ state))))
      else bindE getE (\<lambda>cm.
           bindE (tryE (sndE (changeMount k os clientType cm i (state = ClientMountStateMounted)))) (\<lambda>r.
           bindE (liftE (indexR (mountStatus cm) i)) (\<lambda>_.
           bindE (modifyE (setMountReady i (case r of Inl _ \<Rightarrow> False | Inr _ \<Rightarrow> True))) (\<lambda>_.
             changeMounts k os clientType state is
               (orElse firstError (case r of Inl e \<Rightarrow> Some e | Inr _ \<Rightarrow> None)))))))"

definition changeMountAll ::
  "'w mountKube \<Rightarrow> 'w os \<Rightarrow> ClientType \<Rightarrow> string \<Rightarrow> (ClientMount \<times> 'w, unit) io" where
  "changeMountAll k os clientType state = bindE getE (\<lambda>cm.
     bindE (liftE (otherState state (cms_Mounts (cm_Spec cm)) (mountStatus cm))) (\<lambda>other.
     bindE (if other then modifyE resetMountStatus else retE ()) (\<lambda>_.
     bindE (changeMounts k os clientType state [0..<length (cms_Mounts (cm_Spec cm))] None) (\<lambda>firstError.
       case firstError of None \<Rightarrow> retE () | Some e \<Rightarrow> failE e))))"

section \<open>Reconcile\<close>

abbreviation finalizerNnfClientMount :: string where
  "finalizerNnfClientMount \<equiv> ''nnf.cray.hpe.com/nnf_clientmount''"

definition setMeta :: "(string list \<Rightarrow> string list) \<Rightarrow> ClientMount \<Rightarrow> ClientMount" where
  "setMeta f cm = cm\<lparr>cm_Meta := (cm_Meta cm)\<lparr>meta_Finalizers := f (meta_Finalizers (cm_Meta cm))\<rparr>\<rparr>"

definition updateClientMount :: "'w mountKube \<Rightarrow> (ClientMount \<times> 'w, Result) io" where
  "updateClientMount k = bindE getE (\<lambda>cm. sndE (\<lambda>w.
     case mk_UpdateClientMount k cm w of
       (Updated, w') \<Rightarrow> (Inr doneResult, w')
     | (Conflict, w') \<Rightarrow> (Inr requeueResult, w')
     | (UpdateError e, w') \<Rightarrow> (Inl e, w')))"

text \<open>Listing the devices after an unmount is done once per LVM mount; the stale devices are logged.\<close>

definition listStaleDevices :: "'w os \<Rightarrow> ClientMountInfo \<Rightarrow> ('w, unit) io" where
  "listStaleDevices os mount =
     (if cmi_Type mount = ''lustre'' \<or> cmd_Type (cmi_Device mount) \<noteq> ''lvm'' then retE ()
      else bindE (wrapE (majorError ''could not get NVMe device list'') (NvmeListDevices os)) (\<lambda>_.
           bindE (liftE (derefR (cmd_LVM (cmi_Device mount)))) (\<lambda>_. retE ())))"

definition deleteClientMount :: "'w mountKube \<Rightarrow> 'w os \<Rightarrow> ClientType \<Rightarrow> (ClientMount \<times> 'w, Result) io" where
  "deleteClientMount k os clientType = bindE getE (\<lambda>cm0.
     if \<not> ContainsFinalizer finalizerNnfClientMount (meta_Finalizers (cm_Meta cm0)) then retE doneResult
     else
       let mounts = cms_Mounts (cm_Spec cm0) in
       bindE (changeMountAll k os clientType ClientMountStateUnmounted) (\<lambda>_.
       bindE (if list_ex (\<lambda>m. cmi_Type m \<noteq> ''lustre'') mounts
              then major ''could not rescan NVMe devices'' (sndE (NvmeRescanDevices os)) else retE ()) (\<lambda>_.
       bindE (sndE (mapME (listStaleDevices os) mounts)) (\<lambda>_.
       bindE (modifyE (setMeta (RemoveFinalizer finalizerNnfClientMount))) (\<lambda>_. updateClientMount k)))))"

definition initMountStatus :: "ClientMount \<Rightarrow> ClientMount" where
  "initMountStatus cm =
     (if length (mountStatus cm) \<noteq> length (cms_Mounts (cm_Spec cm))
      then setMountStatus (replicate (length (cms_Mounts (cm_Spec cm))) \<lparr>cis_State = [], cis_Ready = False\<rparr>) cm
      else cm)"

text \<open>A quick retry is a result and not an error.\<close>

definition mountOrRetry :: "'w mountKube \<Rightarrow> 'w os \<Rightarrow> ClientType \<Rightarrow> string \<Rightarrow> (ClientMount \<times> 'w, Result) io" where
  "mountOrRetry k os clientType state =
     bindE (tryE (changeMountAll k os clientType state)) (\<lambda>r.
       case r of
         Inr _ \<Rightarrow> bindE (modifyE (setAllReady True)) (\<lambda>_. retE doneResult)
       | Inl e \<Rightarrow> (case e of
           QuickRetry _ \<Rightarrow> retE (requeueAfter second)
         | _ \<Rightarrow> failE (ResErr (WithError (Some e) (NewResourceError ''mount/unmount failed'')))))"

definition clientMountBody :: "'w mountKube \<Rightarrow> 'w os \<Rightarrow> ClientType \<Rightarrow> (ClientMount \<times> 'w, Result) io" where
  "clientMountBody k os clientType = bindE getE (\<lambda>cm0.
     if meta_Deleting (cm_Meta cm0) then deleteClientMount k os clientType
     else
       bindE (modifyE initMountStatus) (\<lambda>_.
       bindE getE (\<lambda>cm.
       bindE (liftE (indexR (mountStatus cm) 0)) (\<lambda>first.
         if cis_State first \<noteq> cms_DesiredState (cm_Spec cm)
         then bindE (modifyE resetMountStatus) (\<lambda>_. retE doneResult)
         else if \<not> ContainsFinalizer finalizerNnfClientMount (meta_Finalizers (cm_Meta cm))
         then bindE (modifyE (setMeta (AddFinalizer finalizerNnfClientMount))) (\<lambda>_. updateClientMount k)
         else bindE (modifyE (\<lambda>c. setAllReady False (c\<lparr>cm_Status := (cm_Status c)\<lparr>cst_Error := None\<rparr>\<rparr>))) (\<lambda>_.
              mountOrRetry k os clientType (cms_DesiredState (cm_Spec cm)))))))"

definition setMountError :: "failure option \<Rightarrow> ClientMount \<Rightarrow> ClientMount" where
  "setMountError err cm =
     cm\<lparr>cm_Status := (cm_Status cm)\<lparr>cst_Error :=
       (case err of None \<Rightarrow> None | Some e \<Rightarrow> Some (WithError (Some e) (NewResourceError [])))\<rparr>\<rparr>"

definition ClientMount_Reconcile ::
  "'w mountKube \<Rightarrow> 'w os \<Rightarrow> ClientType \<Rightarrow> bool \<Rightarrow> 'w \<Rightarrow> ClientMount option outcome \<times> 'w" where
  "ClientMount_Reconcile k os clientType started w =
     (if \<not> started then (Returned (requeueAfter (2 * second)) None None, w)
      else case mk_GetClientMount k w of
        (NotFound, w1) \<Rightarrow> (Returned doneResult None None, w1)
      | (GetError e, w1) \<Rightarrow> (Returned doneResult (Some e) None, w1)
      | (Found cm, w1) \<Rightarrow>
          (case clientMountBody k os clientType (cm, w1) of
             (Inr res, (cm', w2)) \<Rightarrow> (Returned res None (Some (setMountError None cm')), w2)
           | (Inl e, (cm', w2)) \<Rightarrow>
               (if is_panic e then Panicked (panicText e)
                else Returned doneResult (Some e) (Some (setMountError (Some e) cm')), w2)))"

section \<open>Lemmas\<close>

lemma keeps_changeMounts [keeps_rules]:
  assumes "\<And>i r cm. J cm \<Longrightarrow> J (setMountReady i r cm)"
  shows "keeps J (changeMounts k os ct state is firstError)"
proof (induction "is" arbitrary: firstError)
  case (Cons i "is")
  show ?case unfolding changeMounts.simps by (intro keeps_rules Cons assms)
qed (simp add: keeps_rules)

lemma setMountReady_simps [simp]:
  "cm_Spec (setMountReady i r cm) = cm_Spec cm" "cm_Meta (setMountReady i r cm) = cm_Meta cm"
  "cst_AllReady (cm_Status (setMountReady i r cm)) = cst_AllReady (cm_Status cm)"
  "length (mountStatus (setMountReady i r cm)) = length (mountStatus cm)"
  "mountStatus (setMountReady i r cm) = (mountStatus cm)[i := (mountStatus cm ! i)\<lparr>cis_Ready := r\<rparr>]"
  by (simp_all add: setMountReady_def setMountStatus_def)

lemma setMountReady_states: "map cis_State (mountStatus (setMountReady i r cm)) = map cis_State (mountStatus cm)"
  by (cases "i < length (mountStatus cm)") (auto simp: map_update intro!: nth_equalityI simp: nth_list_update)

lemma resetMountStatus_simps [simp]:
  "cm_Spec (resetMountStatus cm) = cm_Spec cm" "cm_Meta (resetMountStatus cm) = cm_Meta cm"
  "cst_AllReady (cm_Status (resetMountStatus cm)) = False"
  "map cis_State (mountStatus (resetMountStatus cm)) = map (\<lambda>_. cms_DesiredState (cm_Spec cm)) (mountStatus cm)"
  by (simp_all add: resetMountStatus_def setAllReady_def setMountStatus_def)

text \<open>What a pass over the mounts leaves: a mount that was tried is ready iff it succeeded.\<close>

lemma changeMounts_exact:
  assumes "changeMounts k os ct state is fe (cm, w) = (Inr r, (cm', w'))" and "distinct is"
  shows "(r = None \<longrightarrow> fe = None \<and> (\<forall>i\<in>set is. i < length (mountStatus cm) \<and> cis_Ready (mountStatus cm' ! i))) \<and>
    (\<forall>j. j \<notin> set is \<longrightarrow> mountStatus cm' ! j = mountStatus cm ! j) \<and>
    length (mountStatus cm') = length (mountStatus cm)"
  using assms
proof (induction "is" arbitrary: fe cm w)
  case Nil
  then show ?case by (simp add: retE_def)
next
  case (Cons i "is")
  obtain q w1 where t: "tryE (sndE (changeMount k os ct cm i (state = ClientMountStateMounted))) (cm, w) = (Inr q, (cm, w1))"
    and lt: "i < length (mountStatus cm)"
    and rest: "changeMounts k os ct state is (orElse fe (case q of Inl e \<Rightarrow> Some e | Inr _ \<Rightarrow> None))
      (setMountReady i (case q of Inl _ \<Rightarrow> False | Inr _ \<Rightarrow> True) cm, w1) = (Inr r, (cm', w'))"
    using Cons.prems(1)
    by (auto simp: bindE_eq_Inr modifyE_def liftE_def indexR_def failE_def getE_def tryE_def catchE_def
      sndE_def retE_def bindE_def split: if_splits prod.splits sum.splits)
  have "distinct is" "i \<notin> set is" using Cons.prems(2) by simp_all
  from Cons.IH [OF rest this(1)] show ?case
    using lt \<open>i \<notin> set is\<close> by (cases q) (auto simp: orElse_def split: option.splits)
qed

lemma otherState_False:
  "otherState state is ms = Inr False \<Longrightarrow> length is = length ms \<Longrightarrow> list_all (\<lambda>m. cis_State m = state) ms"
  by (induction state "is" ms rule: otherState.induct) (auto split: if_splits)

text \<open>What the pass keeps, and that it leaves all mounts ready and in the desired state if it succeeds.\<close>

lemma changeMounts_keeps:
  assumes "changeMounts k os ct state is fe (cm, w) = (r, (cm', w'))"
  shows "cm_Spec cm' = cm_Spec cm" "cm_Meta cm' = cm_Meta cm"
    "cst_AllReady (cm_Status cm') = cst_AllReady (cm_Status cm)"
    "map cis_State (mountStatus cm') = map cis_State (mountStatus cm)"
proof -
  let ?J = "\<lambda>c. cm_Spec c = cm_Spec cm \<and> cm_Meta c = cm_Meta cm \<and>
    cst_AllReady (cm_Status c) = cst_AllReady (cm_Status cm) \<and> map cis_State (mountStatus c) = map cis_State (mountStatus cm)"
  have "keeps ?J (changeMounts k os ct state is fe)"
    by (intro keeps_changeMounts) (metis setMountReady_simps(1-3) setMountReady_states)
  from keepsD [OF this _ assms] show "cm_Spec cm' = cm_Spec cm" "cm_Meta cm' = cm_Meta cm"
    "cst_AllReady (cm_Status cm') = cst_AllReady (cm_Status cm)"
    "map cis_State (mountStatus cm') = map cis_State (mountStatus cm)" by simp_all
qed

lemma changeMountAll_ok:
  assumes "changeMountAll k os ct state (cm, w) = (Inr u, (cm', w'))"
    and "length (mountStatus cm) = length (cms_Mounts (cm_Spec cm))"
  shows "list_all cis_Ready (mountStatus cm') \<and> length (mountStatus cm') = length (mountStatus cm) \<and>
    cm_Spec cm' = cm_Spec cm \<and> cm_Meta cm' = cm_Meta cm \<and>
    (state = cms_DesiredState (cm_Spec cm) \<longrightarrow> list_all (\<lambda>m. cis_State m = state) (mountStatus cm'))"
proof -
  obtain other where other: "otherState state (cms_Mounts (cm_Spec cm)) (mountStatus cm) = Inr other"
    and run: "changeMounts k os ct state [0..<length (cms_Mounts (cm_Spec cm))] None
      (if other then resetMountStatus cm else cm, w) = (Inr None, (cm', w'))"
    using assms(1)
    by (auto simp: changeMountAll_def bindE_eq_Inr liftE_def modifyE_def retE_def failE_def getE_def
      split: if_splits option.splits)
  define c where "c = (if other then resetMountStatus cm else cm)"
  have len: "length (mountStatus c) = length (mountStatus cm)"
    by (simp add: c_def resetMountStatus_def setAllReady_def setMountStatus_def)
  from changeMounts_exact [OF run] have ready: "list_all cis_Ready (mountStatus cm')"
    "length (mountStatus cm') = length (mountStatus cm)"
    using len assms(2) by (auto simp: list_all_length c_def [symmetric])
  have "list_all (\<lambda>m. cis_State m = state) (mountStatus c)" if "state = cms_DesiredState (cm_Spec cm)"
  proof (cases other)
    case True
    then show ?thesis using that by (auto simp: c_def list_all_iff resetMountStatus_def setAllReady_def setMountStatus_def)
  next
    case False
    then show ?thesis using other otherState_False assms(2) by (simp add: c_def)
  qed
  then have states: "state = cms_DesiredState (cm_Spec cm) \<longrightarrow> list_all (\<lambda>m. cis_State m = state) (mountStatus cm')"
    using changeMounts_keeps(4) [OF run, folded c_def] by (metis (mono_tags) list.pred_map o_apply list.pred_cong)
  show ?thesis using ready states changeMounts_keeps(1,2) [OF run] by (simp add: c_def)
qed

section \<open>Properties\<close>

lemma mountOrRetry_ready:
  assumes "mountOrRetry k os ct state (cm, w) = (r, (cm', w'))" and "cst_AllReady (cm_Status cm')"
    and "\<not> cst_AllReady (cm_Status cm)"
  shows "\<exists>c. r = Inr doneResult \<and> changeMountAll k os ct state (cm, w) = (Inr (), (c, w')) \<and> cm' = setAllReady True c"
proof -
  obtain q c w1 where all: "changeMountAll k os ct state (cm, w) = (q, (c, w1))" by (metis prod_cases3)
  have "keeps (\<lambda>c. \<not> cst_AllReady (cm_Status c)) (changeMountAll k os ct state)"
    unfolding changeMountAll_def by (intro keeps_rules) simp_all
  then have "\<not> cst_AllReady (cm_Status c)" using assms(3) all by (rule keepsD)
  then show ?thesis using assms(1,2) all
    by (cases q) (auto simp: mountOrRetry_def tryE_def bindE_def catchE_def retE_def failE_def modifyE_def
      split: if_splits failure.splits)
qed

text \<open>
  C30. A client mount is reported ready only when it is: if a reconcile sets \<^verbatim>\<open>AllReady\<close>, it returns without
  an error and without a retry, there is a status for every mount of the specification, and every
  one of them is ready in the desired state. In every other case the flag is off.
\<close>

theorem ClientMount_ready_exact:
  assumes "mk_GetClientMount k w = (Found cm, w1)" and "\<not> meta_Deleting (cm_Meta cm)"
    and "\<not> cst_AllReady (cm_Status cm)"
    and "ClientMount_Reconcile k os ct started w = (Returned res err (Some cm'), w')"
    and "cst_AllReady (cm_Status cm')"
  shows "err = None \<and> res = doneResult \<and> length (mountStatus cm') = length (cms_Mounts (cm_Spec cm')) \<and>
    list_all (\<lambda>m. cis_Ready m \<and> cis_State m = cms_DesiredState (cm_Spec cm')) (mountStatus cm')"
proof -
  obtain r c w2 where body: "clientMountBody k os ct (cm, w1) = (r, (c, w2))" by (metis prod_cases3)
  have cm': "cm' = setMountError (case r of Inl e \<Rightarrow> Some e | Inr _ \<Rightarrow> None) c"
    and ret: "err = (case r of Inl e \<Rightarrow> Some e | Inr _ \<Rightarrow> None)" "r = Inr x \<Longrightarrow> res = x" for x
    using assms(1,4) body by (auto simp: ClientMount_Reconcile_def split: if_splits sum.splits)
  define c0 where "c0 = initMountStatus cm"
  define c1 where "c1 = setAllReady False (c0\<lparr>cm_Status := (cm_Status c0)\<lparr>cst_Error := None\<rparr>\<rparr>)"
  have len: "length (mountStatus c1) = length (cms_Mounts (cm_Spec c1))" "\<not> cst_AllReady (cm_Status c1)"
    "cm_Spec c1 = cm_Spec c0"
    by (simp_all add: c1_def c0_def initMountStatus_def setMountStatus_def setAllReady_def)
  have off: "\<not> cst_AllReady (cm_Status c0)"
    using assms(3) by (simp add: c0_def initMountStatus_def setMountStatus_def)
  have ready: "cst_AllReady (cm_Status c)" using assms(5) cm' by (simp add: setMountError_def)
  have "mountOrRetry k os ct (cms_DesiredState (cm_Spec c0)) (c1, w1) = (r, (c, w2))"
    using body assms(2) ready off
    by (auto simp: clientMountBody_def c1_def c0_def [symmetric] bindE_def liftE_def indexR_def getE_def modifyE_def
      retE_def setMeta_def updateClientMount_def sndE_def split: if_splits prod.splits updated.splits)
  from mountOrRetry_ready [OF this ready len(2)] obtain d where d: "r = Inr doneResult"
    "changeMountAll k os ct (cms_DesiredState (cm_Spec c0)) (c1, w1) = (Inr (), (d, w2))" "c = setAllReady True d" by blast
  show ?thesis
    using changeMountAll_ok [OF d(2) len(1)] len d(1,3) ret cm'
    by (simp add: setMountError_def setAllReady_def list_all_iff)
qed


definition exMount :: ClientMountInfo where
  "exMount = \<lparr>cmi_MountPath = ''/mnt/nnf/job'', cmi_UserID = 1050, cmi_GroupID = 1051, cmi_SetPermissions = False,
     cmi_Options = [], cmi_Device = \<lparr>cmd_Type = ''reference'', cmd_Lustre = None, cmd_LVM = None,
       cmd_DeviceReference = Some \<lparr>cdr_ObjectReference = emptyRef, cdr_Data = 0\<rparr>\<rparr>,
     cmi_Type = ''xfs'', cmi_TargetType = ''directory'', cmi_Compute = []\<rparr>"

definition exClientMount :: "string \<Rightarrow> bool \<Rightarrow> ClientMount" where
  "exClientMount state deleting = \<lparr>
     cm_Meta = zeroMeta\<lparr>meta_Finalizers := [finalizerNnfClientMount], meta_Deleting := deleting,
       meta_Labels := [(PinnedStorageProfileLabelName, ''pinned''), (PinnedStorageProfileLabelNameSpace, ''default'')]\<rparr>,
     cm_Spec = \<lparr>cms_Node = ''compute-1'', cms_DesiredState = state, cms_Mounts = [exMount]\<rparr>,
     cm_Status = \<lparr>cst_Mounts = [\<lparr>cis_State = state, cis_Ready = False\<rparr>], cst_AllReady = False, cst_Error = None\<rparr>\<rparr>"

definition exMountKube :: "ClientMount \<Rightarrow> unit mountKube" where
  "exMountKube cm = \<lparr>
     mk_Kube = (exKube (exNodeStorage 0 []) NotFound)\<lparr>k_Profiles := \<lparr>pc_List = (\<lambda>n w. (Inr [], w)),
       pc_Get = (\<lambda>n p w. (Found (zeroProfile\<lparr>prof_Data := zeroData\<lparr>pd_Pinned := True\<rparr>\<rparr>), w)),
       pc_Create = (\<lambda>p w. (Created, w))\<rparr>\<rparr>,
     mk_GetClientMount = (\<lambda>w. (Found cm, w)), mk_UpdateClientMount = (\<lambda>c w. (Updated, w)),
     mk_GetStorageMeta = (\<lambda>n p w. (NotFound, w)), mk_ListServers = (\<lambda>l w. (Inr [], w))\<rparr>"

theorem ClientMount_ready_exact_witness:
  "\<exists>res err cm'. ClientMount_Reconcile (exMountKube (exClientMount ''mounted'' False)) testOs ClientCompute True () =
     (Returned res err (Some cm'), ()) \<and> err = None \<and> list_all (\<lambda>m. cis_Ready m \<and> cis_State m = ''mounted'') (mountStatus cm')"
proof -
  let ?k = "exMountKube (exClientMount ''mounted'' False)"
  have "(case ClientMount_Reconcile ?k testOs ClientCompute True () of
      (Returned res err (Some cm'), _) \<Rightarrow> cst_AllReady (cm_Status cm') \<and> cms_DesiredState (cm_Spec cm') = ''mounted'' | _ \<Rightarrow> False)"
    by code_simp
  then obtain res err cm' where r: "ClientMount_Reconcile ?k testOs ClientCompute True () = (Returned res err (Some cm'), ())"
    and ready: "cst_AllReady (cm_Status cm')" and state: "cms_DesiredState (cm_Spec cm') = ''mounted''"
    by (auto split: prod.splits outcome.splits option.splits)
  have "err = None \<and> res = doneResult \<and> length (mountStatus cm') = length (cms_Mounts (cm_Spec cm')) \<and>
    list_all (\<lambda>m. cis_Ready m \<and> cis_State m = cms_DesiredState (cm_Spec cm')) (mountStatus cm')"
    by (rule ClientMount_ready_exact [OF _ _ _ r ready]) (auto simp: exMountKube_def exClientMount_def zeroMeta_def)
  then show ?thesis using r state by auto
qed


section \<open>The mapping of the servers\<close>

lemma map_of_appendAt:
  "map_of (appendAt key xs m) k =
     (if k = key \<and> (xs \<noteq> [] \<or> map_of m key \<noteq> None)
      then Some ((case map_of m key of None \<Rightarrow> [] | Some ys \<Rightarrow> ys) @ xs) else map_of m k)"
proof (cases "map_of m key")
  case None
  then show ?thesis by (auto simp: appendAt_def map_add_def split: option.splits)
next
  case (Some ys)
  have "map_of (map (\<lambda>(k, zs). if k = key then (k, ys @ xs) else (k, zs)) l) k =
      (if k = key \<and> map_of l key \<noteq> None then Some (ys @ xs) else map_of l k)" for l
    by (induction l) auto
  then show ?thesis using Some by (simp add: appendAt_def)
qed

definition targetsOf :: "string \<Rightarrow> (string \<times> string list) list \<Rightarrow> string list" where
  "targetsOf label c = (case map_of c label of None \<Rightarrow> [] | Some ns \<Rightarrow> ns)"

lemma targetsOf_appendAt [simp]: "targetsOf l (appendAt key xs m) = targetsOf l m @ (if l = key then xs else [])"
  by (auto simp: targetsOf_def map_of_appendAt split: option.splits)

abbreviation allocated :: "ServersSpecStorage list \<Rightarrow> string list" where
  "allocated ss \<equiv> concat (map (\<lambda>s. replicate (nat (sss_AllocationCount s)) (sss_Name s)) ss)"

lemma addStorages_spec:
  assumes "label \<noteq> ''nnfNode''" "distinct (targetsOf ''nnfNode'' c)" "set (targetsOf ''nnfNode'' c) = set seen"
    and "addStorages label ss (c, seen) = (c', seen')"
  shows "distinct (targetsOf ''nnfNode'' c') \<and> set (targetsOf ''nnfNode'' c') = set seen' \<and>
    set seen' = set seen \<union> sss_Name ` set ss \<and>
    (\<forall>l. l \<noteq> ''nnfNode'' \<longrightarrow> targetsOf l c' = targetsOf l c @ (if l = label then allocated ss else []))"
  using assms(2-4)
proof (induction ss arbitrary: c seen)
  case Nil
  then show ?case by simp
next
  case (Cons s ss)
  let ?node = "sss_Name s"
  define c1 where "c1 = appendAt label (replicate (nat (sss_AllocationCount s)) ?node) c"
  have c1: "targetsOf ''nnfNode'' c1 = targetsOf ''nnfNode'' c"
    "targetsOf l c1 = targetsOf l c @ (if l = label then replicate (nat (sss_AllocationCount s)) ?node else [])" for l
    using assms(1) by (simp_all add: c1_def)
  show ?case
  proof (cases "?node \<in> set seen")
    case True
    then have rest: "addStorages label ss (c1, seen) = (c', seen')" using Cons.prems(3) by (simp add: Let_def c1_def)
    show ?thesis using Cons.IH [OF _ _ rest, unfolded c1(1), OF Cons.prems(1,2)] True by (auto simp: c1(2))
  next
    case False
    define c2 where "c2 = appendAt ''nnfNode'' [?node] c1"
    have c2: "targetsOf ''nnfNode'' c2 = targetsOf ''nnfNode'' c @ [?node]"
      "l \<noteq> ''nnfNode'' \<Longrightarrow> targetsOf l c2 = targetsOf l c1" for l
      using c1(1) by (simp_all add: c2_def)
    have rest: "addStorages label ss (c2, ?node # seen) = (c', seen')"
      using Cons.prems(3) False by (simp add: Let_def c1_def c2_def)
    show ?thesis using Cons.IH [OF _ _ rest, unfolded c2(1)] Cons.prems(1,2) False by (auto simp: c2(2) c1(2))
  qed
qed

lemma addSets_spec:
  assumes "list_all (\<lambda>s. ssa_Label s \<noteq> ''nnfNode'') sets" "distinct (targetsOf ''nnfNode'' c)"
    "set (targetsOf ''nnfNode'' c) = set seen"
    and "foldl (\<lambda>acc s. addStorages (ssa_Label s) (ssa_Storage s) acc) (c, seen) sets = (c', seen')"
  shows "distinct (targetsOf ''nnfNode'' c') \<and>
    set (targetsOf ''nnfNode'' c') = set seen \<union> sss_Name ` set (concat (map ssa_Storage sets)) \<and>
    (\<forall>l. l \<noteq> ''nnfNode'' \<longrightarrow> targetsOf l c' =
       targetsOf l c @ allocated (concat (map ssa_Storage (filter (\<lambda>s. ssa_Label s = l) sets))))"
  using assms
proof (induction sets arbitrary: c seen)
  case (Cons s sets)
  obtain c1 seen1 where one: "addStorages (ssa_Label s) (ssa_Storage s) (c, seen) = (c1, seen1)"
    by (cases "addStorages (ssa_Label s) (ssa_Storage s) (c, seen)")
  from addStorages_spec [OF _ Cons.prems(2,3) one] Cons.prems(1) have s1:
    "distinct (targetsOf ''nnfNode'' c1)" "set (targetsOf ''nnfNode'' c1) = set seen1"
    "set seen1 = set seen \<union> sss_Name ` set (ssa_Storage s)"
    "l \<noteq> ''nnfNode'' \<Longrightarrow> targetsOf l c1 = targetsOf l c @ (if l = ssa_Label s then allocated (ssa_Storage s) else [])" for l
    by simp_all
  from Cons.IH [OF _ s1(1,2)] Cons.prems(1,4) one s1(3,4) show ?case by (auto simp: Un_assoc image_Un)
qed simp

text \<open>
  The file with the servers lists what was allocated: for every component of the Lustre file system
  the nodes of its allocations, each node once per allocation, in the order of the allocation
  sets; and under \<^verbatim>\<open>nnfNode\<close> every node that holds anything, once.
\<close>

theorem getLustreMappingFromServer_exact:
  assumes "list_all (\<lambda>s. ssa_Label s \<noteq> ''nnfNode'') (sv_AllocationSets server)"
  shows "distinct (targetsOf ''nnfNode'' (getLustreMappingFromServer server)) \<and>
    set (targetsOf ''nnfNode'' (getLustreMappingFromServer server)) =
      sss_Name ` set (concat (map ssa_Storage (sv_AllocationSets server))) \<and>
    (\<forall>label. label \<noteq> ''nnfNode'' \<longrightarrow> targetsOf label (getLustreMappingFromServer server) =
       concat (map (\<lambda>s. replicate (nat (sss_AllocationCount s)) (sss_Name s))
         (concat (map ssa_Storage (filter (\<lambda>s. ssa_Label s = label) (sv_AllocationSets server))))))"
proof -
  let ?start = "[(''mdt'', []), (''mgt'', []), (''mgtmdt'', []), (''ost'', []), (''nnfNode'', [])] :: (string \<times> string list) list"
  have start: "targetsOf l ?start = []" for l by (simp add: targetsOf_def)
  obtain c' seen' where "foldl (\<lambda>acc s. addStorages (ssa_Label s) (ssa_Storage s) acc) (?start, []) (sv_AllocationSets server) = (c', seen')"
    by (cases "foldl (\<lambda>acc s. addStorages (ssa_Label s) (ssa_Storage s) acc) (?start, []) (sv_AllocationSets server)")
  from addSets_spec [OF assms _ _ this] this show ?thesis
    by (simp add: getLustreMappingFromServer_def start)
qed

definition exServers :: Servers where
  "exServers = \<lparr>sv_Meta = zeroMeta, sv_AllocationSets =
     [\<lparr>ssa_Label = ''mgtmdt'', ssa_AllocationSize = 1, ssa_Storage = [\<lparr>sss_Name = ''r1'', sss_AllocationCount = 1\<rparr>]\<rparr>,
      \<lparr>ssa_Label = ''ost'', ssa_AllocationSize = 1, ssa_Storage = [\<lparr>sss_Name = ''r1'', sss_AllocationCount = 2\<rparr>,
         \<lparr>sss_Name = ''r2'', sss_AllocationCount = 1\<rparr>]\<rparr>],
     sv_Status = \<lparr>svt_Ready = False, svt_LastUpdate = None, svt_AllocationSets = [], svt_Error = None\<rparr>\<rparr>"

theorem getLustreMappingFromServer_exact_witness:
  "targetsOf ''ost'' (getLustreMappingFromServer exServers) = [''r1'', ''r1'', ''r2'']"
  using getLustreMappingFromServer_exact [of exServers] by (simp add: exServers_def numeral_2_eq_2)

end
