(* ===== verification/NnfStorageController.thy ===== *)
theory NnfStorageController
  imports DirectiveBreakdownController DwsStorage LustreMgt ClientMount
begin

text \<open>
  \<^verbatim>\<open>internal/controller/nnf_storage_controller.go\<close>: the controller that makes one file system. It fans
  an \<^verbatim>\<open>NnfStorage\<close> out to one block storage and one node storage per Rabbit and allocation set, in the
  order that Lustre needs (management target, metadata targets, object targets, OST0 last), gathers
  their state, claims a file system name at the management target, sets owner and group, and takes
  all of it down again. The object in memory is the \<^verbatim>\<open>NnfStorage\<close>; a result of \<open>None\<close> is the nil pointer
  by which the helpers tell the caller to go on.
\<close>

section \<open>Interface\<close>

record 'w nstorageKube =
  sk_Storage :: "(NnfStorage, 'w) kclient"
  sk_NodeBlock :: "(NnfNodeBlockStorage, 'w) kclient"
  sk_NodeStorage :: "(NnfNodeStorage, 'w) kclient"
  sk_PSI :: "(PersistentStorageInstance, 'w) kclient"
  sk_NnfNode :: "(NnfNode, 'w) kclient"
  sk_DwsStorage :: "(Storage, 'w) kclient"
  sk_Mgt :: "(NnfLustreMGT, 'w) kclient"
  sk_ClientMount :: "(ClientMount, 'w) kclient"
  sk_ListNodeBlock :: "kv \<Rightarrow> ('w, NnfNodeBlockStorage list) io"
  sk_ListNodeStorage :: "kv \<Rightarrow> ('w, NnfNodeStorage list) io"
  sk_ListMgt :: "('w, NnfLustreMGT list) io"
  sk_ListClientMount :: "kv \<Rightarrow> ('w, ClientMount list) io"
  sk_Profiles :: "'w profileClient"
  sk_ClientMounts :: "'w childKind"
  sk_NodeStorages :: "'w childKind"
  sk_NodeBlocks :: "'w childKind"
  sk_Mgts :: "'w childKind"
  sk_ProfileList :: "'w childKind"
  sk_Getenv :: "string \<Rightarrow> string option"
  sk_Now :: "'w \<Rightarrow> int"
  sk_Order :: "'w \<Rightarrow> nat \<Rightarrow> kv \<Rightarrow> kv"

abbreviation finalizerNnfStorage :: string where
  "finalizerNnfStorage \<equiv> ''nnf.cray.hpe.com/nnf_storage''"

abbreviation minimumLustreAllocationSizeInBytes :: int where
  "minimumLustreAllocationSizeInBytes \<equiv> 4000000000"

text \<open>\<^verbatim>\<open>NewResourceError(msg).WithError(err)\<close>\<close>

definition withError :: "string \<Rightarrow> failure \<Rightarrow> failure" where
  "withError msg e = ResErr (WithError (Some e) (NewResourceError msg))"

definition getenvK :: "'w nstorageKube \<Rightarrow> string \<Rightarrow> string" where
  "getenvK k name = (case sk_Getenv k name of None \<Rightarrow> [] | Some v \<Rightarrow> v)"

definition replaceK :: "'w nstorageKube \<Rightarrow> VarHandler \<Rightarrow> string \<Rightarrow> ('w, string) io" where
  "replaceK k v s = (\<lambda>w. (Inr (ReplaceAll (sk_Order k w) v s), w))"

abbreviation setsOf :: "NnfStorage \<Rightarrow> NnfStorageAllocationSetSpec list" where
  "setsOf s \<equiv> ssp_AllocationSets (nstg_Spec s)"

abbreviation setStatusesOf :: "NnfStorage \<Rightarrow> NnfStorageAllocationSetStatus list" where
  "setStatusesOf s \<equiv> nsts_AllocationSets (nstg_Status s)"

abbreviation targetTypeOf :: "NnfStorageAllocationSetSpec \<Rightarrow> string" where
  "targetTypeOf a \<equiv> sls_TargetType (sas_Lustre a)"

definition isLustre :: "NnfStorage \<Rightarrow> bool" where
  "isLustre s \<longleftrightarrow> ssp_FileSystemType (nstg_Spec s) = ''lustre''"

definition isMgtSet :: "NnfStorageAllocationSetSpec \<Rightarrow> bool" where
  "isMgtSet a \<longleftrightarrow> targetTypeOf a = ''mgt'' \<or> targetTypeOf a = ''mgtmdt''"

definition standaloneMgt :: "NnfStorage \<Rightarrow> bool" where
  "standaloneMgt s \<longleftrightarrow> length (setsOf s) = 1 \<and> sas_Name (setsOf s ! 0) = ''mgt''"

definition storageRef :: "NnfStorage \<Rightarrow> ObjectReference" where
  "storageRef s = emptyRef\<lparr>ref_Name := meta_Name (nstg_Meta s), ref_Namespace := meta_Namespace (nstg_Meta s),
     ref_Kind := ''NnfStorage''\<rparr>"

definition updNst :: "(NnfStorageStatus \<Rightarrow> NnfStorageStatus) \<Rightarrow> NnfStorage \<Rightarrow> NnfStorage" where
  "updNst f s = s\<lparr>nstg_Status := f (nstg_Status s)\<rparr>"

definition updLustre :: "(NnfStorageLustreStatus \<Rightarrow> NnfStorageLustreStatus) \<Rightarrow> NnfStorage \<Rightarrow> NnfStorage" where
  "updLustre f = updNst (\<lambda>st. st\<lparr>nsts_Lustre := f (nsts_Lustre st)\<rparr>)"

text \<open>A write to the status of the allocation set at an index that the caller knows to be in range.\<close>

definition updSet :: "nat \<Rightarrow> (NnfStorageAllocationSetStatus \<Rightarrow> NnfStorageAllocationSetStatus) \<Rightarrow> NnfStorage \<Rightarrow> NnfStorage" where
  "updSet idx f = updNst (\<lambda>st. st\<lparr>nsts_AllocationSets := (nsts_AllocationSets st)[idx := f (nsts_AllocationSets st ! idx)]\<rparr>)"

definition setStorageReady :: "bool \<Rightarrow> NnfStorage \<Rightarrow> NnfStorage" where
  "setStorageReady b = updNst (\<lambda>st. st\<lparr>nsts_Ready := b\<rparr>)"

definition setSetReady :: "nat \<Rightarrow> bool \<Rightarrow> NnfStorage \<Rightarrow> NnfStorage" where
  "setSetReady idx b = updSet idx (\<lambda>a. a\<lparr>sts_Ready := b\<rparr>)"

section \<open>Names\<close>

definition nnfNodeStorageName :: "NnfStorage \<Rightarrow> nat \<Rightarrow> nat \<Rightarrow> string" where
  "nnfNodeStorageName s idx i =
     (let a = setsOf s ! idx;
          nodeName = san_Name (sas_Nodes a ! i);
          duplicateRabbitIndex = length (filter (\<lambda>n. san_Name n = nodeName) (take i (sas_Nodes a)))
      in meta_Namespace (nstg_Meta s) @ ''-'' @ meta_Name (nstg_Meta s) @ ''-'' @ sas_Name a @ ''-'' @
         itoa_nat duplicateRabbitIndex)"

fun addNodes ::
  "string \<Rightarrow> NnfStorageAllocationNodes list \<Rightarrow> (string \<times> string list) list \<times> string list
   \<Rightarrow> (string \<times> string list) list \<times> string list" where
  "addNodes name [] (components, seen) = (components, seen)"
| "addNodes name (storage # rest) (components, seen) =
     (let node = san_Name storage;
          c1 = appendAt name (replicate (nat (san_Count storage)) node) components
      in if node \<in> set seen then addNodes name rest (c1, seen)
         else addNodes name rest (appendAt ''nnfNode'' [node] c1, node # seen))"

definition getLustreMappingFromStorage :: "NnfStorage \<Rightarrow> (string \<times> string list) list" where
  "getLustreMappingFromStorage s =
     fst (foldl (\<lambda>acc a. addNodes (sas_Name a) (sas_Nodes a) acc)
        ([(''mdt'', []), (''mgt'', []), (''mgtmdt'', []), (''ost'', []), (''nnfNode'', [])], [])
        (setsOf s))"

definition componentsOf :: "NnfStorage \<Rightarrow> NnfStorageLustreComponents" where
  "componentsOf s =
     (let nodes = (\<lambda>key. case map_of (getLustreMappingFromStorage s) key of None \<Rightarrow> [] | Some ns \<Rightarrow> ns) in
      \<lparr>lcomp_MDTs = nodes ''mdt'', lcomp_MGTs = nodes ''mgt'', lcomp_MGTMDTs = nodes ''mgtmdt'', lcomp_OSTs = nodes ''ost'',
       lcomp_NNFNodes = nodes ''nnfNode''\<rparr>)"

section \<open>The reference to a persistent MGS\<close>

definition psiNotFound :: "ObjectReference \<Rightarrow> failure" where
  "psiNotFound ref = ResErr (WithMajor (WithUserMessage (''PersistentStorage '' @ CHR 0x27 # ref_Namespace ref @ ''/'' @
     ref_Name ref @ CHR 0x27 # '' not found'') (NewResourceError [])))"

definition addPersistentStorageReference ::
  "'w nstorageKube \<Rightarrow> NnfStorage \<Rightarrow> ObjectReference \<Rightarrow> ('w, unit) io" where
  "addPersistentStorageReference k s ref =
     bindE (wrapE (\<lambda>_. psiNotFound ref) (kc_Get (sk_PSI k) (ref_Namespace ref) (ref_Name ref))) (\<lambda>p.
       if \<not> PSI_IsUsable p
       then failE (ResErr (WithFatal (WithUserMessage ''PersistentStorage is not usable'' (NewResourceError []))))
       else if storageRef s \<in> set (psp_ConsumerReferences (psi_Spec p)) then retE ()
       else bindE (kc_Update (sk_PSI k) (p\<lparr>psi_Spec := (psi_Spec p)\<lparr>psp_ConsumerReferences :=
              psp_ConsumerReferences (psi_Spec p) @ [storageRef s]\<rparr>\<rparr>)) (\<lambda>_. retE ()))"

definition removePersistentStorageReference ::
  "'w nstorageKube \<Rightarrow> NnfStorage \<Rightarrow> ObjectReference \<Rightarrow> ('w, unit) io" where
  "removePersistentStorageReference k s ref =
     bindE (tryE (kc_Get (sk_PSI k) (ref_Namespace ref) (ref_Name ref))) (\<lambda>got.
       case got of
         Inl e \<Rightarrow> (case IgnoreNotFound e of None \<Rightarrow> retE () | Some e' \<Rightarrow> failE e')
       | Inr p \<Rightarrow>
           (case firstIndex (\<lambda>r. r = storageRef s) (psp_ConsumerReferences (psi_Spec p)) of
              None \<Rightarrow> retE ()
            | Some i \<Rightarrow> bindE (kc_Update (sk_PSI k) (p\<lparr>psi_Spec := (psi_Spec p)\<lparr>psp_ConsumerReferences :=
                  removeAt i (psp_ConsumerReferences (psi_Spec p))\<rparr>\<rparr>)) (\<lambda>_. retE ())))"

section \<open>Block storage\<close>

definition blockCapacity :: "NnfStorage \<Rightarrow> NnfStorageAllocationSetSpec \<Rightarrow> NnfStorageAllocationNodes \<Rightarrow> int" where
  "blockCapacity s a node =
     (let capacity = (if isLustre s \<and> sas_Capacity a < minimumLustreAllocationSizeInBytes
                      then minimumLustreAllocationSizeInBytes else sas_Capacity a)
      in if sas_SharedAllocation a then wrap64 (capacity * san_Count node) else capacity)"

definition fillNodeBlockStorage ::
  "NnfStorage \<Rightarrow> NnfStorageAllocationSetSpec \<Rightarrow> NnfStorageAllocationNodes \<Rightarrow> NnfNodeBlockStorage \<Rightarrow> NnfNodeBlockStorage res" where
  "fillNodeBlockStorage s a node nb =
     (let m1 = AddOwnerLabels ''NnfStorage'' (nstg_Meta s) (InheritParentLabels (nb_Meta nb) (nstg_Meta s));
          m2 = m1\<lparr>meta_Labels := kv_put AllocationSetLabel (sas_Name a) (meta_Labels m1)\<rparr>;
          expectedAllocations = (if sas_SharedAllocation a then 1 else san_Count node);
          old = nbsp_Allocations (nb_Spec nb)
      in if old = [] \<and> expectedAllocations < 0 then Inl (Panic ''makeslice: len out of range'')
         else let allocations = (if old = [] then replicate (nat expectedAllocations) \<lparr>nbp_Capacity = 0, nbp_Access = []\<rparr> else old)
         in if int (length allocations) \<noteq> expectedAllocations
            then Inl (ResErr (WithFatal (NewResourceError (''block storage allocation count incorrect. found '' @
                   itoa_nat (length allocations) @ '', expected '' @ itoa expectedAllocations))))
            else Inr (nb\<lparr>nb_Meta := m2, nb_Spec := (nb_Spec nb)\<lparr>nbsp_SharedAllocation := sas_SharedAllocation a,
              nbsp_Allocations := map (\<lambda>al. al\<lparr>nbp_Capacity := blockCapacity s a node,
                 nbp_Access := (if nbp_Access al = [] then [san_Name node] else nbp_Access al)\<rparr>) allocations\<rparr>\<rparr>))"

definition newNodeBlockStorage :: "string \<Rightarrow> string \<Rightarrow> NnfNodeBlockStorage" where
  "newNodeBlockStorage name namespace =
     \<lparr>nb_Meta = zeroMeta\<lparr>meta_Name := name, meta_Namespace := namespace\<rparr>,
      nb_Spec = \<lparr>nbsp_SharedAllocation = False, nbsp_Allocations = []\<rparr>,
      nb_Status = \<lparr>nbs_Allocations = [], nbs_Error = None, nbs_PodStartTime = 0, nbs_Ready = False\<rparr>\<rparr>"

fun createNodeBlocks ::
  "'w nstorageKube \<Rightarrow> NnfStorage \<Rightarrow> nat \<Rightarrow> nat \<Rightarrow> NnfStorageAllocationNodes list \<Rightarrow> ('w, Result option) io" where
  "createNodeBlocks k s idx i [] = retE None"
| "createNodeBlocks k s idx i (node # nodes) =
     bindE (catchE
        (bindE (CreateOrUpdate (sk_NodeBlock k) nb_Meta (newNodeBlockStorage (nnfNodeStorageName s idx i) (san_Name node))
           (\<lambda>nb. liftE (fillNodeBlockStorage s (setsOf s ! idx) node nb))) (\<lambda>_. retE None))
        (\<lambda>e. if IsConflict e then retE (Some requeueResult) else failE e))
       (\<lambda>res. case res of Some r \<Rightarrow> retE (Some r) | None \<Rightarrow> createNodeBlocks k s idx (Suc i) nodes)"

definition createNodeBlockStorage :: "'w nstorageKube \<Rightarrow> nat \<Rightarrow> (NnfStorage \<times> 'w, Result option) io" where
  "createNodeBlockStorage k idx = bindE getE (\<lambda>s. sndE (createNodeBlocks k s idx 0 (sas_Nodes (setsOf s ! idx))))"

section \<open>Gathering the state of the children\<close>

definition allocationSetLabels :: "NnfStorage \<Rightarrow> string \<Rightarrow> kv" where
  "allocationSetLabels s name = kv_put AllocationSetLabel name (MatchingOwner ''NnfStorage'' (nstg_Meta s))"

definition nodeError :: "string \<Rightarrow> ResourceErrorInfo \<Rightarrow> failure" where
  "nodeError namespace e = withError (''Node: '' @ namespace) (ResErr e)"

text \<open>Children outside of the nodes of the allocation set are left out.\<close>

definition onNodes :: "('c \<Rightarrow> ObjectMeta) \<Rightarrow> NnfStorageAllocationSetSpec \<Rightarrow> 'c list \<Rightarrow> 'c list" where
  "onNodes meta a = filter (\<lambda>c. meta_Namespace (meta c) \<in> san_Name ` set (sas_Nodes a))"

definition childTimeoutOf :: "'w nstorageKube \<Rightarrow> int option" where
  "childTimeoutOf k =
     (let v = getenvK k ''NNF_CHILD_RESOURCE_TIMEOUT_SECONDS'' in
      if v = [] then None else case atoi v of None \<Rightarrow> Some 300 | Some t \<Rightarrow> Some t)"

text \<open>
  A child without a finalizer was not seen by the controller on its Rabbit yet: the first one of
  them ends the gathering, with an error once the time is over.
\<close>

definition checkChildTimeout :: "'w nstorageKube \<Rightarrow> string \<Rightarrow> ObjectMeta list \<Rightarrow> ('w, Result option) io" where
  "checkChildTimeout k kind children =
     (case childTimeoutOf k of
        None \<Rightarrow> retE None
      | Some childTimeout \<Rightarrow>
          (case List.find (\<lambda>m. meta_Finalizers m = []) children of
             None \<Rightarrow> retE None
           | Some m \<Rightarrow> (\<lambda>w.
               if meta_CreationTimestamp m + wrap64 (childTimeout * second) < sk_Now k w
               then (Inl (ResErr (WithMajor (NewResourceError (''Node: '' @ meta_Namespace m @ '': '' @ kind @
                       '' has not been reconciled after '' @ itoa childTimeout @ '' seconds'')))), w)
               else (Inr (Some (requeueAfter (60 * second))), w))))"

definition notReady :: "nat \<Rightarrow> NnfStorage \<Rightarrow> NnfStorage" where
  "notReady idx s = setStorageReady False (setSetReady idx False s)"

definition allocatedCount :: "NnfNodeBlockStorage list \<Rightarrow> int" where
  "allocatedCount nbs =
     int (length (filter (\<lambda>al. nbl_CapacityAllocated al > 0) (concat (map (\<lambda>nb. nbs_Allocations (nb_Status nb)) nbs))))"

definition blocksReady :: "'w nstorageKube \<Rightarrow> nat \<Rightarrow> NnfStorageAllocationSetSpec \<Rightarrow> NnfNodeBlockStorage list \<Rightarrow>
    (NnfStorage \<times> 'w, Result option) io" where
  "blocksReady k idx a blocks =
     (case List.find (\<lambda>nb. nbs_Error (nb_Status nb) \<noteq> None) blocks of
        Some nb \<Rightarrow> failE (nodeError (meta_Namespace (nb_Meta nb)) (the (nbs_Error (nb_Status nb))))
      | None \<Rightarrow>
          bindE (sndE (checkChildTimeout k ''NnfNodeBlockStorage'' (map nb_Meta blocks))) (\<lambda>res.
            case res of
              Some r \<Rightarrow> retE (Some r)
            | None \<Rightarrow>
                if list_ex (\<lambda>nb. \<not> nbs_Ready (nb_Status nb)) blocks \<or> length blocks \<noteq> length (sas_Nodes a)
                then bindE (modifyE (notReady idx)) (\<lambda>_. retE (Some doneResult))
                else retE None))"

definition aggregateNodeBlockStorageStatus :: "'w nstorageKube \<Rightarrow> nat \<Rightarrow> (NnfStorage \<times> 'w, Result option) io" where
  "aggregateNodeBlockStorageStatus k idx =
     bindE (modifyE (updSet idx (\<lambda>a. a\<lparr>sts_AllocationCount := 0\<rparr>))) (\<lambda>_.
     bindE getE (\<lambda>s.
       let a = setsOf s ! idx in
       bindE (wrapE (withError ''could not list NnfNodeBlockStorages'')
                (sndE (sk_ListNodeBlock k (allocationSetLabels s (sas_Name a))))) (\<lambda>items.
         let blocks = onNodes nb_Meta a items in
         bindE (modifyE (updSet idx (\<lambda>st. st\<lparr>sts_AllocationCount := allocatedCount blocks\<rparr>))) (\<lambda>_.
           blocksReady k idx a blocks))))"

text \<open>The probe for OST0 expects one node storage less and writes no status.\<close>

definition storagesReady :: "'w nstorageKube \<Rightarrow> nat \<Rightarrow> bool \<Rightarrow> bool \<Rightarrow> NnfStorageAllocationSetSpec \<Rightarrow> bool \<Rightarrow>
    NnfNodeStorage list \<Rightarrow> (NnfStorage \<times> 'w, Result option) io" where
  "storagesReady k idx deleting skipOST0 a lustreOST storages =
     (case List.find (\<lambda>n. \<not> (deleting \<and> \<not> meta_Deleting (ns_Meta n)) \<and> nst_Error (ns_Status n) \<noteq> None) storages of
        Some n \<Rightarrow> failE (nodeError (meta_Namespace (ns_Meta n)) (the (nst_Error (ns_Status n))))
      | None \<Rightarrow>
          bindE (sndE (checkChildTimeout k ''NnfNodeStorage'' (map ns_Meta storages))) (\<lambda>res.
            case res of
              Some r \<Rightarrow> retE (Some r)
            | None \<Rightarrow>
                if list_ex (\<lambda>n. \<not> nst_Ready (ns_Status n)) storages \<or>
                   int (length storages) \<noteq> int (length (sas_Nodes a)) - (if lustreOST \<and> skipOST0 then 1 else 0)
                then bindE (modifyE (if skipOST0 then id else notReady idx)) (\<lambda>_. retE (Some doneResult))
                else bindE (modifyE (if skipOST0 then id else setSetReady idx True)) (\<lambda>_. retE None)))"

definition aggregateNodeStorageStatus ::
  "'w nstorageKube \<Rightarrow> bool \<Rightarrow> bool \<Rightarrow> nat \<Rightarrow> (NnfStorage \<times> 'w, Result option) io" where
  "aggregateNodeStorageStatus k deleting skipOST0 idx = bindE getE (\<lambda>s.
     bindE (liftE (indexR (setsOf s) idx)) (\<lambda>a.
     bindE (wrapE (withError ''could not list NnfNodeStorages'')
              (sndE (sk_ListNodeStorage k (allocationSetLabels s (sas_Name a))))) (\<lambda>items.
       storagesReady k idx deleting skipOST0 a (isLustre s \<and> targetTypeOf a = ''ost'') (onNodes ns_Meta a items))))"

definition aggregateNodeStorageHealth :: "'w nstorageKube \<Rightarrow> nat \<Rightarrow> (NnfStorage \<times> 'w, NnfStorageHealth) io" where
  "aggregateNodeStorageHealth k idx = bindE getE (\<lambda>s.
     let a = setsOf s ! idx in
     bindE (wrapE (withError ''could not list NnfNodeStorages'')
              (sndE (sk_ListNodeStorage k (allocationSetLabels s (sas_Name a))))) (\<lambda>items.
       let health = (case List.find (\<lambda>n. nst_Health (ns_Status n) \<noteq> Healthy) (onNodes ns_Meta a items) of
                       None \<Rightarrow> Healthy | Some n \<Rightarrow> nst_Health (ns_Status n)) in
       bindE (modifyE (updSet idx (\<lambda>st. st\<lparr>sts_Health := health\<rparr>))) (\<lambda>_. retE health)))"

section \<open>The management target\<close>

definition lookupMgt :: "'w nstorageKube \<Rightarrow> ObjectReference \<Rightarrow> ('w, NnfLustreMGT) io" where
  "lookupMgt k ref =
     wrapE (withError (''could not get nnfLustreMgt: '' @ ref_Namespace ref @ ''/'' @ ref_Name ref))
       (kc_Get (sk_Mgt k) (ref_Namespace ref) (ref_Name ref))"

definition getLustreMgt :: "'w nstorageKube \<Rightarrow> NnfStorage \<Rightarrow> ('w, NnfLustreMGT) io" where
  "getLustreMgt k s =
     (let lustre = nsts_Lustre (nstg_Status s) in
      if slu_LustreMgtReference lustre \<noteq> emptyRef then lookupMgt k (slu_LustreMgtReference lustre)
      else bindE (wrapE (majorError ''could not list NnfLustreMGTs'') (sk_ListMgt k)) (\<lambda>items.
        case filter (\<lambda>m. slu_MgsAddress lustre \<in> set (mgs_Addresses (mgt_Spec m))) items of
          [] \<Rightarrow> failE (ResErr (WithMajor (WithUserMessage
                 (''no NnfLustreMGT resource found for MGS address: '' @ slu_MgsAddress lustre) (NewResourceError []))))
        | [m] \<Rightarrow> retE m
        | _ \<Rightarrow> failE (ResErr (WithWLM (WithFatal (NewResourceError
                 (''multiple MGTs found for address '' @ slu_MgsAddress lustre)))))))"

definition mgtReference :: "NnfLustreMGT \<Rightarrow> ObjectReference" where
  "mgtReference m = emptyRef\<lparr>ref_Name := meta_Name (mgt_Meta m), ref_Namespace := meta_Namespace (mgt_Meta m),
     ref_Kind := ''NnfLustreMGT''\<rparr>"

definition addSpecClaim :: "ObjectReference \<Rightarrow> NnfLustreMGT \<Rightarrow> NnfLustreMGT" where
  "addSpecClaim r m = m\<lparr>mgt_Spec := (mgt_Spec m)\<lparr>mgs_ClaimList := mgs_ClaimList (mgt_Spec m) @ [r]\<rparr>\<rparr>"

text \<open>Asking for a name: an empty answer means that the name is not there yet.\<close>

definition claimFsName :: "'w nstorageKube \<Rightarrow> ObjectReference \<Rightarrow> NnfLustreMGT \<Rightarrow> ('w, string) io" where
  "claimFsName k reference m =
     (case List.find (\<lambda>c. mcl_Reference c = reference) (mgst_ClaimList (mgt_Status m)) of
        Some c \<Rightarrow> retE (mcl_FsName c)
      | None \<Rightarrow>
          if reference \<in> set (mgs_ClaimList (mgt_Spec m)) then retE []
          else catchE (bindE (kc_Update (sk_Mgt k) (addSpecClaim reference m)) (\<lambda>_. retE []))
                 (\<lambda>e. if IsConflict e then retE [] else failE (majorError ''could not update NnfLustreMGT'' e)))"

definition getFsName :: "'w nstorageKube \<Rightarrow> (NnfStorage \<times> 'w, string) io" where
  "getFsName k = bindE getE (\<lambda>s.
     bindE (wrapE (withError (''could not get NnfLustreMGT for address: '' @ slu_MgsAddress (nsts_Lustre (nstg_Status s))))
              (sndE (getLustreMgt k s))) (\<lambda>m.
       if slu_LustreMgtReference (nsts_Lustre (nstg_Status s)) = emptyRef
       then bindE (modifyE (updLustre (\<lambda>l. l\<lparr>slu_LustreMgtReference := mgtReference m\<rparr>))) (\<lambda>_. retE [])
       else sndE (claimFsName k (storageRef s) m)))"

definition newLustreMgt :: "NnfStorage \<Rightarrow> string \<Rightarrow> string \<Rightarrow> NnfLustreMGT" where
  "newLustreMgt s mgsNode mgsAddress =
     \<lparr>mgt_Meta = AddOwnerLabels ''NnfStorage'' (nstg_Meta s) (InheritParentLabels
        (zeroMeta\<lparr>meta_Name := meta_Name (nstg_Meta s), meta_Namespace := mgsNode\<rparr>) (nstg_Meta s)),
      mgt_Spec = \<lparr>mgs_Addresses = [mgsAddress], mgs_FsNameBlackList = [], mgs_FsNameStart = ''aaaaaaaa'',
        mgs_FsNameStartReference = emptyRef, mgs_ClaimList = [], mgs_CommandList = []\<rparr>,
      mgt_Status = \<lparr>mgst_FsNameNext = [], mgst_ClaimList = [], mgst_CommandList = [], mgst_Error = None\<rparr>\<rparr>"

definition createMgt :: "'w nstorageKube \<Rightarrow> NnfStorage \<Rightarrow> string \<Rightarrow> string \<Rightarrow> ('w, unit) io" where
  "createMgt k s mgsNode mgsAddress =
     catchE (bindE (kc_Create (sk_Mgt k) (newLustreMgt s mgsNode mgsAddress)) (\<lambda>_. retE ()))
       (\<lambda>e. if IsAlreadyExists e then retE () else failE (majorError ''could not create NnfLustreMGT'' e))"

text \<open>
  The node of the management target: the first node of the last set that holds one. \<open>Inr None\<close> is the
  early return while the target of another set is not ready.
\<close>

fun findMgsNode :: "nat \<Rightarrow> nat \<Rightarrow> NnfStorageAllocationSetSpec list \<Rightarrow> NnfStorageAllocationSetStatus list \<Rightarrow> string \<Rightarrow> string option res" where
  "findMgsNode idx i [] statuses mgsNode = Inr (Some mgsNode)"
| "findMgsNode idx i (a # as) statuses mgsNode =
     (if isMgtSet a then
        if idx \<noteq> i \<and> \<not> sts_Ready (statuses ! i) then Inr None
        else case indexR (sas_Nodes a) 0 of
          Inl e \<Rightarrow> Inl e
        | Inr node \<Rightarrow> findMgsNode idx (Suc i) as statuses (san_Name node)
      else findMgsNode idx (Suc i) as statuses mgsNode)"

text \<open>
  The values of the Lustre part: \<open>Some r\<close> returns \<open>r\<close> from \<^verbatim>\<open>createNodeStorage\<close>, \<open>None\<close> goes on.
\<close>

definition pickFsName :: "'w nstorageKube \<Rightarrow> (NnfStorage \<times> 'w, Result option option) io" where
  "pickFsName k = bindE getE (\<lambda>s.
     if slu_FileSystemName (nsts_Lustre (nstg_Status s)) = [] \<and> \<not> standaloneMgt s then
       bindE (wrapE (majorError ''could not get available fsname'') (getFsName k)) (\<lambda>fsname.
         if fsname = [] then retE (Some (Some requeueResult))
         else bindE (modifyE (updLustre (\<lambda>l. l\<lparr>slu_FileSystemName := fsname\<rparr>))) (\<lambda>_. retE None))
     else retE None)"

definition mgsAddressOf :: "'w nstorageKube \<Rightarrow> NnfStorageAllocationSetSpec \<Rightarrow> string \<Rightarrow> ('w, string) io" where
  "mgsAddressOf k a mgsNode =
     (if mgsNode = [] then retE (sls_MgsAddress (sas_Lustre a))
      else bindE (wrapE (withError (''could not get NnfNode: '' @ mgsNode @ ''/nnf-nlc'')) (kc_Get (sk_NnfNode k) mgsNode ''nnf-nlc''))
             (\<lambda>n. retE (nns_LNetNid (nn_Status n))))"

definition setMgs :: "'w nstorageKube \<Rightarrow> NnfStorageAllocationSetSpec \<Rightarrow> string \<Rightarrow> (NnfStorage \<times> 'w, Result option option) io" where
  "setMgs k a mgsNode =
     bindE (sndE (mgsAddressOf k a mgsNode)) (\<lambda>mgsAddress.
     bindE (modifyE (updLustre (\<lambda>l. l\<lparr>slu_MgsAddress := mgsAddress\<rparr>))) (\<lambda>_.
     bindE getE (\<lambda>s.
     bindE (if isMgtSet a then sndE (createMgt k s mgsNode mgsAddress) else retE ()) (\<lambda>_.
       pickFsName k))))"

definition otherSetNotReady :: "nat \<Rightarrow> NnfStorage \<Rightarrow> bool" where
  "otherSetNotReady idx s \<longleftrightarrow> list_ex (\<lambda>(i, a). i \<noteq> idx \<and> \<not> sts_Ready a) (enumerate 0 (setStatusesOf s))"

definition lustreSetup :: "'w nstorageKube \<Rightarrow> nat \<Rightarrow> (NnfStorage \<times> 'w, Result option option) io" where
  "lustreSetup k idx = bindE getE (\<lambda>s.
     let a = setsOf s ! idx in
     if targetTypeOf a = ''ost'' \<and> otherSetNotReady idx s then retE (Some None)
     else if sls_MgsAddress (sas_Lustre a) \<noteq> [] then setMgs k a []
     else bindE (liftE (findMgsNode idx 0 (setsOf s) (setStatusesOf s) [])) (\<lambda>found.
       case found of None \<Rightarrow> retE (Some None) | Some mgsNode \<Rightarrow> setMgs k a mgsNode))"

section \<open>Node storage\<close>

text \<open>\<open>Inl r\<close> returns \<open>r\<close>, \<open>Inr skip\<close> says whether OST0 has to wait.\<close>

fun probeOST0 :: "'w nstorageKube \<Rightarrow> nat list \<Rightarrow> bool \<Rightarrow> (NnfStorage \<times> 'w, Result + bool) io" where
  "probeOST0 k [] skip = retE (Inr skip)"
| "probeOST0 k (i # is) skip =
     bindE (aggregateNodeStorageStatus k False True i) (\<lambda>res.
       case res of
         None \<Rightarrow> probeOST0 k is skip
       | Some r \<Rightarrow> if r = doneResult then probeOST0 k is True else retE (Inl r))"

definition userCapacityOf :: "'w nstorageKube \<Rightarrow> NnfStorage \<Rightarrow> NnfStorageAllocationSetSpec \<Rightarrow> ('w, int) io" where
  "userCapacityOf k s a =
     (if meta_Labels (nstg_Meta s) = [] then retE (sas_Capacity a)
      else bindE (gotE (majorError ''could not find pinned storage profile'')
                    (getPinnedStorageProfileFromLabel (sk_Profiles k) (nstg_Meta s))) (\<lambda>profile.
             wrapE (withError ''could not determine user capacity'')
               (liftE (removeAllocationPadding (ssp_FileSystemType (nstg_Spec s)) (sas_Capacity a) profile))))"

definition expandVariable :: "'w nstorageKube \<Rightarrow> VarHandler \<Rightarrow> CommandVariablesSpec \<Rightarrow> ('w, CommandVariablesSpec) io" where
  "expandVariable k v c =
     bindE (replaceK k v (cv_Value c)) (\<lambda>value.
     bindE (mapME (replaceK k v) (cv_IndexedValues c)) (\<lambda>indexed.
       retE \<lparr>cv_Indexed = cv_Indexed c, cv_Name = cv_Name c, cv_Value = value, cv_IndexedValues = indexed\<rparr>))"

definition computeVars :: "StorageNode list \<Rightarrow> kv" where
  "computeVars computes = map (\<lambda>(i, c). (''$COMPUTE'' @ itoa_nat i @ ''_HOSTNAME'', sno_Name c)) (enumerate 0 computes)"

definition countVariables :: "int \<Rightarrow> CommandVariablesSpec list" where
  "countVariables n =
     [\<lparr>cv_Indexed = False, cv_Name = ''$ALLOCATION_COUNT'', cv_Value = itoa n, cv_IndexedValues = []\<rparr>,
      \<lparr>cv_Indexed = False, cv_Name = ''$HOST_COUNT'', cv_Value = itoa (wrap64 (n + 1)), cv_IndexedValues = []\<rparr>]"

definition lustrePart :: "NnfStorage \<Rightarrow> NnfStorageAllocationSetSpec \<Rightarrow> int \<Rightarrow> LustreStorageSpec" where
  "lustrePart s a startIndex =
     \<lparr>lss_FileSystemName = slu_FileSystemName (nsts_Lustre (nstg_Status s)),
      lss_TargetType = (if targetTypeOf a = ''mgtmdt'' \<and> startIndex \<noteq> 0 then ''mdt'' else targetTypeOf a),
      lss_StartIndex = startIndex, lss_MgsAddress = slu_MgsAddress (nsts_Lustre (nstg_Status s)),
      lss_BackFs = sls_BackFs (sas_Lustre a), lss_LustreComponents = slu_LustreComponents (nsts_Lustre (nstg_Status s))\<rparr>"

definition fillNodeStorage ::
  "'w nstorageKube \<Rightarrow> NnfStorage \<Rightarrow> nat \<Rightarrow> nat \<Rightarrow> NnfStorageAllocationNodes \<Rightarrow> int \<Rightarrow> int \<Rightarrow> Storage \<Rightarrow>
   NnfNodeStorage \<Rightarrow> ('w, NnfNodeStorage) io" where
  "fillNodeStorage k s idx i node startIndex userCapacity storage n =
     (let a = setsOf s ! idx;
          m1 = AddOwnerLabels ''NnfStorage'' (nstg_Meta s) (InheritParentLabels (ns_Meta n) (nstg_Meta s));
          l1 = kv_put AllocationSetLabel (sas_Name a) (meta_Labels m1);
          l2 = (if isLustre s \<and> targetTypeOf a = ''ost'' \<and> startIndex = 0 then kv_put AllocationSetOST0Label ''true'' l1 else l1)
      in bindE (mapME (expandVariable k (NewVarHandler (computeVars (sac_Computes (sst_Access (sto_Status storage))))))
                  (sas_CommandVariables a)) (\<lambda>variables.
           retE (n\<lparr>ns_Meta := m1\<lparr>meta_Labels := l2\<rparr>,
             ns_Spec := (ns_Spec n)\<lparr>
               nss_BlockReference := emptyRef\<lparr>ref_Name := nnfNodeStorageName s idx i, ref_Namespace := san_Name node,
                 ref_Kind := ''NnfNodeBlockStorage''\<rparr>,
               nss_Capacity := userCapacity, nss_UserID := ssp_UserID (nstg_Spec s), nss_GroupID := ssp_GroupID (nstg_Spec s),
               nss_Count := san_Count node, nss_SharedAllocation := sas_SharedAllocation a,
               nss_FileSystemType := ssp_FileSystemType (nstg_Spec s),
               nss_CommandVariables := countVariables (san_Count node) @ variables,
               nss_LustreStorage := (if isLustre s then lustrePart s a startIndex else nss_LustreStorage (ns_Spec n))\<rparr>\<rparr>)))"

definition zeroComponents :: NnfStorageLustreComponents where
  "zeroComponents = \<lparr>lcomp_MDTs = [], lcomp_MGTs = [], lcomp_MGTMDTs = [], lcomp_OSTs = [], lcomp_NNFNodes = []\<rparr>"

definition newNodeStorage :: "string \<Rightarrow> string \<Rightarrow> NnfNodeStorage" where
  "newNodeStorage name namespace =
     \<lparr>ns_Meta = zeroMeta\<lparr>meta_Name := name, meta_Namespace := namespace\<rparr>,
      ns_Spec = \<lparr>nss_Count = 0, nss_SharedAllocation = False, nss_Capacity = 0, nss_UserID = 0, nss_GroupID = 0,
        nss_CommandVariables = [], nss_FileSystemType = [],
        nss_LustreStorage = \<lparr>lss_FileSystemName = [], lss_TargetType = [], lss_StartIndex = 0, lss_MgsAddress = [],
          lss_BackFs = [], lss_LustreComponents = zeroComponents\<rparr>, nss_BlockReference = emptyRef\<rparr>,
      ns_Status = \<lparr>nst_Allocations = [], nst_Health = HealthUnset, nst_Ready = False, nst_Error = None\<rparr>\<rparr>"

definition createOneNode ::
  "'w nstorageKube \<Rightarrow> NnfStorage \<Rightarrow> nat \<Rightarrow> int \<Rightarrow> nat \<Rightarrow> int \<Rightarrow> NnfStorageAllocationNodes \<Rightarrow> ('w, Result option) io" where
  "createOneNode k s idx userCapacity i startIndex node =
     bindE (wrapE (withError (''could not get Storage resource: default/'' @ san_Name node))
              (kc_Get (sk_DwsStorage k) ''default'' (san_Name node))) (\<lambda>storage.
       catchE (bindE (CreateOrUpdate (sk_NodeStorage k) ns_Meta (newNodeStorage (nnfNodeStorageName s idx i) (san_Name node))
                        (fillNodeStorage k s idx i node startIndex userCapacity storage)) (\<lambda>_. retE None))
         (\<lambda>e. if IsConflict e then retE (Some requeueResult) else failE e))"

fun createNodes ::
  "'w nstorageKube \<Rightarrow> NnfStorage \<Rightarrow> nat \<Rightarrow> bool \<Rightarrow> int \<Rightarrow> nat \<Rightarrow> int \<Rightarrow> NnfStorageAllocationNodes list \<Rightarrow> ('w, Result option) io" where
  "createNodes k s idx skip userCapacity i startIndex [] = retE None"
| "createNodes k s idx skip userCapacity i startIndex (node # nodes) =
     (if startIndex = 0 \<and> skip
      then createNodes k s idx skip userCapacity (Suc i) (wrap64 (startIndex + san_Count node)) nodes
      else bindE (createOneNode k s idx userCapacity i startIndex node) (\<lambda>res.
        case res of
          Some r \<Rightarrow> retE (Some r)
        | None \<Rightarrow> createNodes k s idx skip userCapacity (Suc i) (wrap64 (startIndex + san_Count node)) nodes))"

definition createFor :: "'w nstorageKube \<Rightarrow> nat \<Rightarrow> bool \<Rightarrow> (NnfStorage \<times> 'w, Result option) io" where
  "createFor k idx skip = bindE getE (\<lambda>s.
     let a = setsOf s ! idx in
     sndE (bindE (userCapacityOf k s a) (\<lambda>userCapacity. createNodes k s idx skip userCapacity 0 0 (sas_Nodes a))))"

definition createNodeStorage :: "'w nstorageKube \<Rightarrow> nat \<Rightarrow> (NnfStorage \<times> 'w, Result option) io" where
  "createNodeStorage k idx = bindE getE (\<lambda>s.
     if \<not> isLustre s then createFor k idx False
     else bindE (lustreSetup k idx) (\<lambda>early.
       case early of
         Some r \<Rightarrow> retE r
       | None \<Rightarrow>
           if targetTypeOf (setsOf s ! idx) = ''ost'' then
             bindE (probeOST0 k [0 ..< length (setsOf s)] False) (\<lambda>probe.
               case probe of Inl r \<Rightarrow> retE (Some r) | Inr skip \<Rightarrow> createFor k idx skip)
           else createFor k idx False))"

section \<open>Commands on a shared management target\<close>

definition mgtCommandVars :: "NnfStorage \<Rightarrow> kv" where
  "mgtCommandVars s =
     (let lustre = nsts_Lustre (nstg_Status s) in
      [(''$MGS_NID'', slu_MgsAddress lustre), (''$FS_NAME'', slu_FileSystemName lustre),
       (''$USERID'', itoa_nat (unat (ssp_UserID (nstg_Spec s)))), (''$GROUPID'', itoa_nat (unat (ssp_GroupID (nstg_Spec s))))])"

definition addMgtCommand :: "NnfLustreMGTSpecCommand \<Rightarrow> NnfLustreMGT \<Rightarrow> NnfLustreMGT" where
  "addMgtCommand c m = m\<lparr>mgt_Spec := (mgt_Spec m)\<lparr>mgs_CommandList := mgs_CommandList (mgt_Spec m) @ [c]\<rparr>\<rparr>"

definition requestCommands :: "'w nstorageKube \<Rightarrow> NnfStorage \<Rightarrow> string list \<Rightarrow> NnfLustreMGT \<Rightarrow> ('w, Result option) io" where
  "requestCommands k s rawCommands m =
     bindE (mapME (replaceK k (NewVarHandler (mgtCommandVars s))) rawCommands) (\<lambda>commands.
       catchE (bindE (kc_Update (sk_Mgt k) (addMgtCommand \<lparr>msc_Reference = storageRef s, msc_Commands = commands\<rparr> m)) (\<lambda>_. retE None))
         (\<lambda>e. if IsConflict e then retE (Some doneResult)
              else failE (majorError ''could not update NnfLustreMGT with commands'' e)))"

definition mgtCommands :: "'w nstorageKube \<Rightarrow> NnfStorage \<Rightarrow> string list \<Rightarrow> NnfLustreMGT \<Rightarrow> ('w, Result option) io" where
  "mgtCommands k s rawCommands m =
     (if meta_Namespace (mgt_Meta m) = ''nnf-system'' then retE None
      else case List.find (\<lambda>c. mtc_Reference c = storageRef s) (mgst_CommandList (mgt_Status m)) of
        Some c \<Rightarrow>
          if mtc_Ready c then retE None
          else (case mtc_Error c of
            Some e \<Rightarrow> failE (ResErr (WithError (Some (ResErr e)) (WithUserMessage ''shared MGT could not run command'' (NewResourceError []))))
          | None \<Rightarrow> retE (Some (requeueAfter (2 * second))))
      | None \<Rightarrow>
          if list_ex (\<lambda>c. msc_Reference c = storageRef s) (mgs_CommandList (mgt_Spec m))
          then retE (Some (requeueAfter (2 * second)))
          else requestCommands k s rawCommands m)"

definition runSharedMGTCommands :: "'w nstorageKube \<Rightarrow> NnfStorage \<Rightarrow> ('w, Result option) io" where
  "runSharedMGTCommands k s =
     bindE (gotE (\<lambda>e. ResErr (WithFatal (WithError (Some e) (NewResourceError ''could not find pinned storage profile''))))
              (getPinnedStorageProfileFromLabel (sk_Profiles k) (nstg_Meta s))) (\<lambda>profile.
       if length (setsOf s) = 0 \<or> standaloneMgt s then retE None
       else bindE (wrapE (withError (''could not get NnfLustreMGT for address: '' @ slu_MgsAddress (nsts_Lustre (nstg_Status s))))
                     (getLustreMgt k s)) (\<lambda>m.
              mgtCommands k s (mgt_PreMountCommands (ld_MgtOptions (pd_LustreStorage (prof_Data profile)))) m))"

section \<open>Owner and group of a Lustre file system\<close>

definition getTempMountDir :: "'w nstorageKube \<Rightarrow> string" where
  "getTempMountDir k = (let d = getenvK k ''NNF_TEMP_MOUNT_PATH'' in if d = [] then ''/mnt/tmp/'' else d)"

definition getTempClientMountDir :: "'w nstorageKube \<Rightarrow> NnfStorage \<Rightarrow> nat \<Rightarrow> string" where
  "getTempClientMountDir k s index = ''/'' @ getTempMountDir k @ ''/'' @ nnfNodeStorageName s index 0"

definition ownerGroupMount :: "'w nstorageKube \<Rightarrow> NnfStorage \<Rightarrow> nat \<Rightarrow> string \<Rightarrow> ClientMount" where
  "ownerGroupMount k s index node =
     (let lustre = nsts_Lustre (nstg_Status s) in
      \<lparr>cm_Meta = AddOwnerLabels ''NnfStorage'' (nstg_Meta s) (InheritParentLabels
         (zeroMeta\<lparr>meta_Name := meta_Name (nstg_Meta s) @ ''-ownergroup'', meta_Namespace := node\<rparr>) (nstg_Meta s)),
       cm_Spec = \<lparr>cms_Node = node, cms_DesiredState = ClientMountStateMounted,
         cms_Mounts = [\<lparr>cmi_MountPath = getTempClientMountDir k s index, cmi_UserID = ssp_UserID (nstg_Spec s),
           cmi_GroupID = ssp_GroupID (nstg_Spec s), cmi_SetPermissions = True, cmi_Options = [],
           cmi_Device = \<lparr>cmd_Type = ''lustre'',
             cmd_Lustre = Some \<lparr>cdl_FileSystemName = slu_FileSystemName lustre, cdl_MgsAddresses = slu_MgsAddress lustre\<rparr>,
             cmd_LVM = None,
             cmd_DeviceReference = Some \<lparr>cdr_ObjectReference = emptyRef\<lparr>ref_Name := nnfNodeStorageName s index 0,
               ref_Namespace := node\<rparr>, cdr_Data = 0\<rparr>\<rparr>,
           cmi_Type = ssp_FileSystemType (nstg_Spec s), cmi_TargetType = ''directory'', cmi_Compute = []\<rparr>]\<rparr>,
       cm_Status = \<lparr>cst_Mounts = [], cst_AllReady = False, cst_Error = None\<rparr>\<rparr>)"

definition stepOwnerGroup :: "'w nstorageKube \<Rightarrow> ClientMount \<Rightarrow> ('w, Result option) io" where
  "stepOwnerGroup k c =
     (case cst_Error (cm_Status c) of
        Some e \<Rightarrow> failE (nodeError (meta_Namespace (cm_Meta c)) e)
      | None \<Rightarrow>
          (case cst_Mounts (cm_Status c) of
             [] \<Rightarrow> retE (Some doneResult)
           | m # _ \<Rightarrow>
               if cis_State m = ClientMountStateMounted then
                 if \<not> cis_Ready m then retE (Some doneResult)
                 else catchE (bindE (kc_Update (sk_ClientMount k) (c\<lparr>cm_Spec := (cm_Spec c)\<lparr>cms_DesiredState := ClientMountStateUnmounted\<rparr>\<rparr>))
                                (\<lambda>_. retE (Some doneResult)))
                        (\<lambda>e. if IsConflict e then retE (Some requeueResult) else failE e)
               else if cis_State m = ClientMountStateUnmounted then
                 if \<not> cis_Ready m then retE (Some doneResult) else retE None
               else retE (Some doneResult)))"

definition fatalError :: "string \<Rightarrow> failure" where
  "fatalError msg = ResErr (WithFatal (NewResourceError msg))"

definition setLustreOwnerGroup :: "'w nstorageKube \<Rightarrow> NnfStorage \<Rightarrow> ('w, Result option) io" where
  "setLustreOwnerGroup k s =
     (if sk_Getenv k ''NNF_TEST_ENVIRONMENT'' \<noteq> None then retE None
      else if getenvK k ''ENVIRONMENT'' = ''kind'' then retE None
      else if \<not> isLustre s
      then failE (fatalError (''invalid file system type '' @ CHR 0x27 # ssp_FileSystemType (nstg_Spec s) @ CHR 0x27 # '' for setLustreOwnerGroup''))
      else if standaloneMgt s then retE None
      else case firstIndex (\<lambda>a. sas_Name a = ''ost'') (setsOf s) of
        None \<Rightarrow> failE (fatalError ''no ost allocation set'')
      | Some index \<Rightarrow>
          (case sas_Nodes (setsOf s ! index) of
             [] \<Rightarrow> failE (fatalError ''zero length node array for OST'')
           | node # _ \<Rightarrow>
               bindE (tryE (kc_Get (sk_ClientMount k) (san_Name node) (meta_Name (nstg_Meta s) @ ''-ownergroup''))) (\<lambda>got.
                 case got of
                   Inr c \<Rightarrow> stepOwnerGroup k c
                 | Inl e \<Rightarrow>
                     if \<not> IsNotFound e then failE (majorError ''could not get clientmount for setting lustre owner/group'' e)
                     else bindE (wrapE (majorError ''could not create lustre owner/group ClientMount resource'')
                                   (kc_Create (sk_ClientMount k) (ownerGroupMount k s index (san_Name node)))) (\<lambda>_.
                            retE (Some doneResult)))))"

section \<open>Teardown\<close>

definition aggregateClientMountStatus :: "'w nstorageKube \<Rightarrow> NnfStorage \<Rightarrow> bool \<Rightarrow> ('w, unit) io" where
  "aggregateClientMountStatus k s deleting =
     bindE (wrapE (withError ''could not list ClientMounts'') (sk_ListClientMount k (MatchingOwner ''NnfStorage'' (nstg_Meta s)))) (\<lambda>items.
       case List.find (\<lambda>c. \<not> (deleting \<and> \<not> meta_Deleting (cm_Meta c)) \<and> cst_Error (cm_Status c) \<noteq> None) items of
         None \<Rightarrow> retE ()
       | Some c \<Rightarrow> failE (nodeError (meta_Namespace (cm_Meta c)) (the (cst_Error (cm_Status c)))))"

definition specNamed :: "NnfStorage \<Rightarrow> ObjectReference \<Rightarrow> bool" where
  "specNamed s r \<longleftrightarrow> ref_Name r = meta_Name (nstg_Meta s) \<and> ref_Namespace r = meta_Namespace (nstg_Meta s)"

text \<open>
  A loop that removes elements of the slice that it ranges over. The range is evaluated once, its
  elements are read from the array behind the slice, and every removal moves the elements of that
  array: \<open>arr\<close> is the array, \<open>len\<close> the length of the slice that is left.
\<close>

function rangeRemove :: "('a \<Rightarrow> bool) \<Rightarrow> nat \<Rightarrow> 'a list \<Rightarrow> nat \<Rightarrow> bool \<Rightarrow> ('a list \<times> bool) res" where
  "rangeRemove P i arr len removed =
     (if i \<ge> length arr then Inr (take len arr, removed)
      else if P (arr ! i) then
        if Suc i > len then Inl (Panic ''slice bounds out of range'')
        else rangeRemove P (Suc i) (take i arr @ drop (Suc i) (take len arr) @ drop (len - 1) arr) (len - 1) True
      else rangeRemove P (Suc i) arr len removed)"
  by pat_completeness auto
termination
  by (relation "measure (\<lambda>(P, i, arr, len, removed). length arr - i)") auto

declare rangeRemove.simps [simp del]

definition removeFromRange :: "('a \<Rightarrow> bool) \<Rightarrow> 'a list \<Rightarrow> ('a list \<times> bool) res" where
  "removeFromRange P xs = rangeRemove P 0 xs (length xs) False"

definition dropClaims :: "NnfStorage \<Rightarrow> NnfLustreMGT \<Rightarrow> (NnfLustreMGT \<times> bool) res" where
  "dropClaims s m =
     (case removeFromRange (specNamed s) (mgs_ClaimList (mgt_Spec m)) of
        Inl e \<Rightarrow> Inl e
      | Inr (claims, u1) \<Rightarrow>
          (case removeFromRange (\<lambda>c. specNamed s (msc_Reference c)) (mgs_CommandList (mgt_Spec m)) of
             Inl e \<Rightarrow> Inl e
           | Inr (commands, u2) \<Rightarrow>
               Inr (m\<lparr>mgt_Spec := (mgt_Spec m)\<lparr>mgs_ClaimList := claims, mgs_CommandList := commands\<rparr>\<rparr>, u1 \<or> u2)))"

definition releaseLustreMgt :: "'w nstorageKube \<Rightarrow> NnfStorage \<Rightarrow> ('w, bool) io" where
  "releaseLustreMgt k s =
     (let ref = slu_LustreMgtReference (nsts_Lustre (nstg_Status s)) in
      if \<not> isLustre s \<or> ref = emptyRef then retE True
      else bindE (tryE (kc_Get (sk_Mgt k) (ref_Namespace ref) (ref_Name ref))) (\<lambda>got.
        case got of
          Inl e \<Rightarrow> if IsNotFound e then retE True
                   else failE (withError (''could not get nnfLustreMgt: '' @ ref_Namespace ref @ ''/'' @ ref_Name ref) e)
        | Inr m \<Rightarrow>
            bindE (liftE (dropClaims s m)) (\<lambda>(m1, updateResource).
            bindE (if updateResource
                   then wrapE (withError (''could not remove reference from nnfLustreMgt: '' @ ref_Namespace ref @ ''/'' @ ref_Name ref))
                          (kc_Update (sk_Mgt k) m1)
                   else retE m1) (\<lambda>m2.
              if list_ex (\<lambda>c. specNamed s (mcl_Reference c)) (mgst_ClaimList (mgt_Status m2)) then retE False
              else if list_ex (\<lambda>c. specNamed s (msc_Reference c)) (mgs_CommandList (mgt_Spec m2)) then retE False
              else retE True))))"

fun aggregateAll :: "'w nstorageKube \<Rightarrow> nat list \<Rightarrow> (NnfStorage \<times> 'w, unit) io" where
  "aggregateAll k [] = retE ()"
| "aggregateAll k (i # is) = bindE (aggregateNodeStorageStatus k True False i) (\<lambda>_. aggregateAll k is)"

text \<open>Start a deletion, gather the state of what is left; the value says whether nothing was left.\<close>

definition deleteAndGather :: "'w nstorageKube \<Rightarrow> (ObjectMeta \<Rightarrow> ('w, bool) io) \<Rightarrow> (NnfStorage \<times> 'w, bool) io" where
  "deleteAndGather k del = bindE getE (\<lambda>s.
     bindE (sndE (del (nstg_Meta s))) (\<lambda>complete.
     bindE (aggregateAll k [0 ..< length (setStatusesOf s)]) (\<lambda>_. retE complete)))"

definition targetKinds :: "'w nstorageKube \<Rightarrow> 'w childKind list" where
  "targetKinds k = [sk_NodeStorages k, sk_NodeBlocks k]"

definition Storage_getChildObjects :: "'w nstorageKube \<Rightarrow> 'w childKind list" where
  "Storage_getChildObjects k = [sk_ClientMounts k, sk_NodeStorages k, sk_NodeBlocks k, sk_Mgts k, sk_ProfileList k]"

definition deleteTargets :: "'w nstorageKube \<Rightarrow> kv \<Rightarrow> (NnfStorage \<times> 'w, bool) io" where
  "deleteTargets k labels =
     deleteAndGather k (\<lambda>m. DeleteChildrenWithLabelsParallel (targetKinds k) ''NnfStorage'' m labels)"

fun removeReferences :: "'w nstorageKube \<Rightarrow> NnfStorage \<Rightarrow> NnfStorageAllocationSetSpec list \<Rightarrow> ('w, unit) io" where
  "removeReferences k s [] = retE ()"
| "removeReferences k s (a # as) =
     bindE (if sls_PersistentMgsReference (sas_Lustre a) \<noteq> emptyRef
            then removePersistentStorageReference k s (sls_PersistentMgsReference (sas_Lustre a)) else retE ()) (\<lambda>_.
       removeReferences k s as)"

text \<open>A step of a teardown that goes on only when nothing was left.\<close>

definition whenGone :: "('s, bool) io \<Rightarrow> ('s, bool) io \<Rightarrow> ('s, bool) io" where
  "whenGone m n = bindE m (\<lambda>gone. if \<not> gone then retE False else n)"

definition releaseClaim :: "'w nstorageKube \<Rightarrow> (NnfStorage \<times> 'w, bool) io" where
  "releaseClaim k = bindE getE (\<lambda>s.
     bindE (wrapE (withError ''could not release LustreMGT resource'') (sndE (releaseLustreMgt k s))) (\<lambda>released.
       if \<not> released then retE False
       else bindE (sndE (removeReferences k s (setsOf s))) (\<lambda>_. retE True)))"

text \<open>The Lustre targets go first; the value is true when the management target has let go.\<close>

definition teardownLustre :: "'w nstorageKube \<Rightarrow> (NnfStorage \<times> 'w, bool) io" where
  "teardownLustre k =
     whenGone (deleteTargets k [(AllocationSetOST0Label, ''true'')]) (
     whenGone (deleteTargets k [(AllocationSetLabel, ''ost'')]) (
     whenGone (deleteTargets k [(AllocationSetLabel, ''mdt'')]) (releaseClaim k)))"

definition deleteMounts :: "'w nstorageKube \<Rightarrow> (NnfStorage \<times> 'w, bool) io" where
  "deleteMounts k = bindE getE (\<lambda>s.
     bindE (sndE (DeleteChildren [sk_ClientMounts k] ''NnfStorage'' (nstg_Meta s))) (\<lambda>mounts.
     bindE (sndE (aggregateClientMountStatus k s True)) (\<lambda>_. retE mounts)))"

definition deleteAll :: "'w nstorageKube \<Rightarrow> (NnfStorage \<times> 'w, bool) io" where
  "deleteAll k =
     whenGone (deleteMounts k) (
     whenGone (bindE getE (\<lambda>s. if isLustre s then teardownLustre k else retE True)) (
     whenGone (deleteAndGather k (\<lambda>m. DeleteChildrenParallel (targetKinds k) ''NnfStorage'' m)) (
       deleteAndGather k (\<lambda>m. DeleteChildren (Storage_getChildObjects k) ''NnfStorage'' m))))"

text \<open>The value is true when the node storages still exist.\<close>

definition teardownStorage :: "'w nstorageKube \<Rightarrow> (NnfStorage \<times> 'w, bool) io" where
  "teardownStorage k = bindE (deleteAll k) (\<lambda>gone. retE (\<not> gone))"

section \<open>Reconcile\<close>

definition setStorageFinalizers :: "(string list \<Rightarrow> string list) \<Rightarrow> NnfStorage \<Rightarrow> NnfStorage" where
  "setStorageFinalizers f s = s\<lparr>nstg_Meta := (nstg_Meta s)\<lparr>meta_Finalizers := f (meta_Finalizers (nstg_Meta s))\<rparr>\<rparr>"

definition deleteNnfStorage :: "'w nstorageKube \<Rightarrow> (NnfStorage \<times> 'w, Result) io" where
  "deleteNnfStorage k = bindE getE (\<lambda>s.
     if \<not> ContainsFinalizer finalizerNnfStorage (meta_Finalizers (nstg_Meta s)) then retE doneResult
     else bindE (teardownStorage k) (\<lambda>exists'.
       if exists' then retE (requeueAfter (2 * second))
       else bindE (modifyE (setStorageFinalizers (RemoveFinalizer finalizerNnfStorage))) (\<lambda>_.
              updateOrRequeue (sk_Storage k))))"

text \<open>A loop over the allocation sets that a result ends.\<close>

fun forSets :: "(nat \<Rightarrow> (NnfStorage \<times> 'w, Result option) io) \<Rightarrow> nat list \<Rightarrow> (NnfStorage \<times> 'w, Result option) io" where
  "forSets f [] = retE None"
| "forSets f (i # is) =
     bindE (f i) (\<lambda>res. case res of Some r \<Rightarrow> retE (Some r) | None \<Rightarrow> forSets f is)"

definition createSet :: "'w nstorageKube \<Rightarrow> nat \<Rightarrow> (NnfStorage \<times> 'w, Result option) io" where
  "createSet k i = bindE getE (\<lambda>s.
     let ref = sls_PersistentMgsReference (sas_Lustre (setsOf s ! i)) in
     bindE (if ref \<noteq> emptyRef then sndE (addPersistentStorageReference k s ref) else retE ()) (\<lambda>_.
       createNodeStorage k i))"

fun gatherHealth :: "'w nstorageKube \<Rightarrow> nat list \<Rightarrow> NnfStorageHealth \<Rightarrow> (NnfStorage \<times> 'w, NnfStorageHealth) io" where
  "gatherHealth k [] overallHealth = retE overallHealth"
| "gatherHealth k (i # is) overallHealth =
     bindE (aggregateNodeStorageHealth k i) (\<lambda>health.
       gatherHealth k is (if health \<noteq> Healthy then health else overallHealth))"

definition gatherSet :: "'w nstorageKube \<Rightarrow> nat \<Rightarrow> (NnfStorage \<times> 'w, Result option) io" where
  "gatherSet k i =
     bindE (aggregateNodeStorageStatus k False False i) (\<lambda>res.
       retE (if res = Some doneResult then None else res))"

definition finishLustre :: "'w nstorageKube \<Rightarrow> NnfStorage \<Rightarrow> ('w, Result option) io" where
  "finishLustre k s =
     bindE (runSharedMGTCommands k s) (\<lambda>res.
       case res of Some r \<Rightarrow> retE (Some r) | None \<Rightarrow> setLustreOwnerGroup k s)"

definition finishStorage :: "'w nstorageKube \<Rightarrow> (NnfStorage \<times> 'w, Result) io" where
  "finishStorage k = bindE getE (\<lambda>s.
     if list_ex (\<lambda>a. \<not> sts_Ready a) (setStatusesOf s) then retE doneResult
     else bindE (if isLustre s \<and> \<not> nsts_Ready (nstg_Status s) then sndE (finishLustre k s) else retE None) (\<lambda>res.
       case res of
         Some r \<Rightarrow> retE r
       | None \<Rightarrow> bindE (modifyE (setStorageReady True)) (\<lambda>_. retE doneResult)))"

definition andThen :: "(NnfStorage \<times> 'w, Result option) io \<Rightarrow> (NnfStorage \<times> 'w, Result) io \<Rightarrow> (NnfStorage \<times> 'w, Result) io" where
  "andThen m n = bindE m (\<lambda>res. case res of Some r \<Rightarrow> retE r | None \<Rightarrow> n)"

definition initSets :: "NnfStorage \<Rightarrow> NnfStorage" where
  "initSets s = updNst (\<lambda>st. st\<lparr>nsts_AllocationSets :=
       replicate (length (setsOf s)) \<lparr>sts_Ready = False, sts_Health = HealthUnset, sts_AllocationCount = 0\<rparr>,
     nsts_Ready := False\<rparr>) s"

text \<open>The stages of a reconcile: create the children, gather health and state, finish.\<close>

definition gatherStage :: "'w nstorageKube \<Rightarrow> nat list \<Rightarrow> (NnfStorage \<times> 'w, Result) io" where
  "gatherStage k sets =
     andThen (forSets (aggregateNodeBlockStorageStatus k) sets) (andThen (forSets (gatherSet k) sets) (finishStorage k))"

definition healthStage :: "'w nstorageKube \<Rightarrow> nat list \<Rightarrow> (NnfStorage \<times> 'w, Result) io" where
  "healthStage k sets =
     bindE (bindE (gatherHealth k sets Healthy) (\<lambda>overallHealth.
              modifyE (updNst (\<lambda>st. st\<lparr>nsts_Health := overallHealth\<rparr>)))) (\<lambda>_.
       gatherStage k sets)"

definition noteComponents :: "NnfStorage \<Rightarrow> NnfStorage" where
  "noteComponents s = (if isLustre s then updLustre (\<lambda>l. l\<lparr>slu_LustreComponents := componentsOf s\<rparr>) s else s)"

definition liveStorage :: "'w nstorageKube \<Rightarrow> (NnfStorage \<times> 'w, Result) io" where
  "liveStorage k = bindE getE (\<lambda>s.
     let sets = [0 ..< length (setsOf s)] in
     bindE (modifyE (updNst (\<lambda>st. st\<lparr>nsts_Error := None\<rparr>))) (\<lambda>_.
     andThen (forSets (createNodeBlockStorage k) sets) (
     bindE (modifyE noteComponents) (\<lambda>_.
     andThen (forSets (createSet k) sets) (healthStage k sets)))))"

definition nstorageBody :: "'w nstorageKube \<Rightarrow> (NnfStorage \<times> 'w, Result) io" where
  "nstorageBody k = bindE getE (\<lambda>s.
     if meta_Deleting (nstg_Meta s) then deleteNnfStorage k
     else if \<not> ContainsFinalizer finalizerNnfStorage (meta_Finalizers (nstg_Meta s)) then
       bindE (modifyE (setStorageFinalizers (AddFinalizer finalizerNnfStorage))) (\<lambda>_. updateOrRequeue (sk_Storage k))
     else if length (setStatusesOf s) \<noteq> length (setsOf s) then
       bindE (modifyE initSets) (\<lambda>_. retE doneResult)
     else liveStorage k)"

definition setNnfStorageError :: "failure option \<Rightarrow> NnfStorage \<Rightarrow> NnfStorage" where
  "setNnfStorageError err = updNst (\<lambda>st. st\<lparr>nsts_Error := resourceError err\<rparr>)"

definition NnfStorage_Reconcile :: "'w nstorageKube \<Rightarrow> string \<Rightarrow> string \<Rightarrow> 'w \<Rightarrow> NnfStorage option outcome \<times> 'w" where
  "NnfStorage_Reconcile k namespace name =
     reconcileObject (sk_Storage k) nstg_Status setNnfStorageError namespace name (nstorageBody k)"

text \<open>\<^verbatim>\<open>getLustreOST0\<close>\<close>

definition getLustreOST0 :: "'w nstorageKube \<Rightarrow> NnfStorage \<Rightarrow> ('w, NnfNodeStorage option) io" where
  "getLustreOST0 k s =
     (if \<not> isLustre s then retE None
      else bindE (wrapE (withError ''could not list NnfNodeStorages'') (sk_ListNodeStorage k (allocationSetLabels s ''ost''))) (\<lambda>items.
        retE (List.find (\<lambda>n. lss_StartIndex (nss_LustreStorage (ns_Spec n)) = 0) items)))"

section \<open>Names of the node storages\<close>

text \<open>What follows the last hyphen of a name is a number, so the parts of the name can be read back.\<close>

lemma no_hyphen_itoa: "CHR ''-'' \<notin> set (itoa_nat n)"
  using itoa_nat_digits by fastforce

lemma append_sep_inject:
  assumes "c \<notin> set b" and "c \<notin> set d" and "a @ c # b = a' @ c # d"
  shows "a = a' \<and> b = d"
proof -
  have eq: "rev b @ c # rev a = rev d @ c # rev a'"
    using arg_cong [OF assms(3), of rev] by simp
  have "takeWhile (\<lambda>x. x \<noteq> c) (rev b @ c # rev a) = rev b" if "c \<notin> set b" for a b
    using that by (subst takeWhile_append2) auto
  with eq assms(1,2) have "rev b = rev d" by metis
  with eq show ?thesis by simp
qed

lemma duplicate_index_less:
  assumes "i < j" and "P (xs ! i)" and "j \<le> length xs"
  shows "length (filter P (take i xs)) < length (filter P (take j xs))"
proof -
  have "take j xs = take i xs @ (xs ! i) # drop (Suc i) (take j xs)"
    using id_take_nth_drop [of i "take j xs"] assms(1,3) by (simp add: min_absorb1)
  then have "filter P (take j xs) = filter P (take i xs) @ (xs ! i) # filter P (drop (Suc i) (take j xs))"
    using assms(2) by (metis filter.simps(2) filter_append)
  then show ?thesis by simp
qed

lemma nnfNodeStorageName_inject:
  assumes "idx < length (setsOf s)" and "idx' < length (setsOf s)" and "distinct (map sas_Name (setsOf s))"
    and "i < length (sas_Nodes (setsOf s ! idx))" and "i' < length (sas_Nodes (setsOf s ! idx'))"
    and "nnfNodeStorageName s idx i = nnfNodeStorageName s idx' i'"
    and "san_Name (sas_Nodes (setsOf s ! idx) ! i) = san_Name (sas_Nodes (setsOf s ! idx') ! i')"
  shows "idx = idx' \<and> i = i'"
proof -
  let ?same = "\<lambda>n. san_Name n = san_Name (sas_Nodes (setsOf s ! idx) ! i)"
  let ?dup = "\<lambda>idx i. length (filter ?same (take i (sas_Nodes (setsOf s ! idx))))"
  have "sas_Name (setsOf s ! idx) @ ''-'' @ itoa_nat (?dup idx i) = sas_Name (setsOf s ! idx') @ ''-'' @ itoa_nat (?dup idx' i')"
    using assms(6) unfolding nnfNodeStorageName_def Let_def by (simp add: assms(7))
  then have parts: "sas_Name (setsOf s ! idx) = sas_Name (setsOf s ! idx')" "itoa_nat (?dup idx i) = itoa_nat (?dup idx' i')"
    using append_sep_inject [OF no_hyphen_itoa no_hyphen_itoa, of "sas_Name (setsOf s ! idx)" "?dup idx i" "sas_Name (setsOf s ! idx')" "?dup idx' i'"]
    by simp_all
  then have idx: "idx = idx'"
    using assms(1-3) by (metis length_map nth_eq_iff_index_eq nth_map)
  have dup: "?dup idx i = ?dup idx i'" using parts(2) idx by simp
  have at: "?same (sas_Nodes (setsOf s ! idx) ! i)" "?same (sas_Nodes (setsOf s ! idx) ! i')"
    using assms(7) idx by simp_all
  have "\<not> i < i'" using duplicate_index_less [where P = ?same and i = i and j = i' and xs = "sas_Nodes (setsOf s ! idx)"] at dup assms(5) idx by auto
  moreover have "\<not> i' < i" using duplicate_index_less [where P = ?same and i = i' and j = i and xs = "sas_Nodes (setsOf s ! idx)"] at dup assms(4) by auto
  ultimately show ?thesis using idx by simp
qed

text \<open>
  Every allocation has a node storage of its own. Two entries of the node lists of an NnfStorage,
  of the same or of different allocation sets, whose Rabbit is the same, have different names, so that
  no two of them share a node storage or a block storage; the names of the sets are assumed to differ.
  That holds also where a Rabbit is listed several times.
\<close>

theorem node_storage_names_distinct:
  assumes "distinct (map sas_Name (setsOf s))"
  shows "inj_on (\<lambda>(idx, i). (san_Name (sas_Nodes (setsOf s ! idx) ! i), nnfNodeStorageName s idx i))
    {(idx, i). idx < length (setsOf s) \<and> i < length (sas_Nodes (setsOf s ! idx))}"
  using nnfNodeStorageName_inject [OF _ _ assms] by (auto simp: inj_on_def)

text \<open>
  The name joins namespace, name and set with hyphens, which all of them may contain: the storages
  \<open>a/b-c\<close> and \<open>a-b/c\<close> ask for one and the same node storage on a Rabbit that both use.
\<close>

theorem node_storage_names_collide:
  assumes "meta_Namespace (nstg_Meta s) = a" and "meta_Name (nstg_Meta s) = b @ ''-'' @ c"
    and "meta_Namespace (nstg_Meta t) = a @ ''-'' @ b" and "meta_Name (nstg_Meta t) = c"
    and "nstg_Spec s = nstg_Spec t"
  shows "nnfNodeStorageName s idx i = nnfNodeStorageName t idx i"
  using assms by (simp add: nnfNodeStorageName_def Let_def)

section \<open>The components of a Lustre file system\<close>

lemma addNodes_addStorages:
  "addNodes name nodes acc =
     addStorages name (map (\<lambda>n. \<lparr>sss_Name = san_Name n, sss_AllocationCount = san_Count n\<rparr>) nodes) acc"
  by (induction name nodes acc rule: addNodes.induct) (simp_all add: Let_def)

lemma foldl_addNodes:
  "foldl (\<lambda>acc a. addNodes (sas_Name a) (sas_Nodes a) acc) acc sets =
   foldl (\<lambda>acc a. addStorages (ssa_Label a) (ssa_Storage a) acc) acc
     (map (\<lambda>a. \<lparr>ssa_Label = sas_Name a, ssa_AllocationSize = sas_Capacity a,
        ssa_Storage = map (\<lambda>n. \<lparr>sss_Name = san_Name n, sss_AllocationCount = san_Count n\<rparr>) (sas_Nodes a)\<rparr>) sets)"
  by (induction sets arbitrary: acc) (simp_all add: addNodes_addStorages)

text \<open>
  The node storages and the client mounts are told the same servers. The map of Lustre components
  that the storage controller builds from the NnfStorage is the one that the client mount controller
  builds from a Servers resource with the same allocation sets.
\<close>

theorem lustre_mappings_agree:
  "getLustreMappingFromStorage s = getLustreMappingFromServer
     \<lparr>sv_Meta = m, sv_AllocationSets = map (\<lambda>a. \<lparr>ssa_Label = sas_Name a, ssa_AllocationSize = sas_Capacity a,
        ssa_Storage = map (\<lambda>n. \<lparr>sss_Name = san_Name n, sss_AllocationCount = san_Count n\<rparr>) (sas_Nodes a)\<rparr>) (setsOf s),
      sv_Status = st\<rparr>"
  by (simp add: getLustreMappingFromStorage_def getLustreMappingFromServer_def foldl_addNodes)

section \<open>Removing claims\<close>

lemma rangeRemove_none:
  "\<forall>j. i \<le> j \<and> j < length arr \<longrightarrow> \<not> P (arr ! j) \<Longrightarrow> rangeRemove P i arr len removed = Inr (take len arr, removed)"
proof (induction P i arr len removed rule: rangeRemove.induct)
  case (1 P i arr len removed)
  then show ?case by (subst rangeRemove.simps) auto
qed

lemma rangeRemove_skip:
  "\<forall>j. i \<le> j \<and> j < m \<longrightarrow> \<not> P (arr ! j) \<Longrightarrow> i \<le> m \<Longrightarrow> m \<le> length arr \<Longrightarrow>
     rangeRemove P i arr len removed = rangeRemove P m arr len removed"
proof (induction "m - i" arbitrary: i)
  case (Suc n)
  then have "\<not> P (arr ! i)" "i < length arr" by auto
  then have "rangeRemove P i arr len removed = rangeRemove P (Suc i) arr len removed"
    by (subst rangeRemove.simps) simp
  with Suc show ?case by auto
qed simp

lemma drop_all_but_last: "xs \<noteq> [] \<Longrightarrow> drop (length xs - 1) xs = [last xs]"
  by (cases xs rule: rev_cases) simp_all

lemma rangeRemove_hit:
  assumes "\<not> list_ex P ys" and "P x"
  shows "removeFromRange P (ys @ x # zs) = rangeRemove P (Suc (length ys)) (ys @ zs @ [last (x # zs)]) (length (ys @ zs)) True"
proof -
  let ?xs = "ys @ x # zs"
  have ys: "\<not> P (?xs ! j)" if "j < length ys" for j
    using assms(1) that by (auto simp: list_ex_iff nth_append)
  then have "rangeRemove P 0 ?xs (length ?xs) False = rangeRemove P (length ys) ?xs (length ?xs) False"
    by (intro rangeRemove_skip) auto
  moreover have "rangeRemove P (length ys) ?xs (length ?xs) False =
      rangeRemove P (Suc (length ys)) (ys @ zs @ [last (x # zs)]) (length (ys @ zs)) True"
    using assms(2) drop_all_but_last [of ?xs] by (subst rangeRemove.simps) simp
  ultimately show ?thesis by (simp add: removeFromRange_def)
qed

text \<open>
  A claim is released exactly. The loop removes elements of the slice that it ranges over; when at most
  one claim (or command) matches, what is left is the list without it, and the flag says whether one was
  there.
\<close>

theorem removeFromRange_one:
  assumes "length (filter P xs) \<le> 1"
  shows "removeFromRange P xs = Inr (filter (\<lambda>x. \<not> P x) xs, list_ex P xs)"
proof (cases "list_ex P xs")
  case False
  then have "filter (\<lambda>x. \<not> P x) xs = xs" by (simp add: list_ex_iff filter_id_conv)
  with False show ?thesis
    by (auto simp: removeFromRange_def list_ex_iff intro!: trans [OF rangeRemove_none])
next
  case True
  then obtain ys x zs where xs: "xs = ys @ x # zs" and P: "P x" and ys: "\<forall>y \<in> set ys. \<not> P y"
    using split_list_first_prop [of xs P] by (auto simp: list_ex_iff)
  with assms have zs: "\<forall>z \<in> set zs. \<not> P z" by (auto simp: filter_empty_conv)
  have rest: "\<not> P ((ys @ zs @ [last (x # zs)]) ! j)" if "Suc (length ys) \<le> j" "j < length (ys @ zs @ [last (x # zs)])" for j
  proof -
    have "zs \<noteq> [] \<and> (ys @ zs @ [last (x # zs)]) ! j \<in> set zs"
      using that by (cases zs rule: rev_cases) (auto simp: nth_append nth_Cons')
    with zs show ?thesis by blast
  qed
  have "removeFromRange P xs = rangeRemove P (Suc (length ys)) (ys @ zs @ [last (x # zs)]) (length (ys @ zs)) True"
    unfolding xs using ys by (intro rangeRemove_hit P) (simp add: list_ex_iff)
  also have "\<dots> = Inr (take (length (ys @ zs)) (ys @ zs @ [last (x # zs)]), True)"
    using rest by (intro rangeRemove_none) blast
  finally have "removeFromRange P xs = Inr (take (length (ys @ zs)) (ys @ zs @ [last (x # zs)]), True)" .
  with ys zs P xs show ?thesis by (simp add: filter_id_conv list_ex_iff)
qed

text \<open>
  Two claims of one name, which differ in their kind only, end the loop in a panic when they are the
  last two of the list: the element that was moved is read again behind the end of the shortened slice.
\<close>

theorem duplicate_claim_panics:
  assumes "\<not> list_ex P ys" and "P x" and "P y"
  shows "removeFromRange P (ys @ [x, y]) = Inl (Panic ''slice bounds out of range'')"
proof -
  have "removeFromRange P (ys @ x # [y]) = rangeRemove P (Suc (length ys)) (ys @ [y, y]) (length ys + 1) True"
    using rangeRemove_hit [OF assms(1,2), of "[y]"] by simp
  also have "\<dots> = Inl (Panic ''slice bounds out of range'')"
    using assms(3) by (subst rangeRemove.simps) (simp add: nth_append)
  finally show ?thesis by simp
qed

section \<open>What a reconcile keeps\<close>

lemma nst_simps [simp]:
  "nstg_Spec (updNst f s) = nstg_Spec s" "nstg_Meta (updNst f s) = nstg_Meta s" "nstg_Status (updNst f s) = f (nstg_Status s)"
  "nstg_Spec (updLustre g s) = nstg_Spec s" "nstg_Meta (updLustre g s) = nstg_Meta s"
  "setStatusesOf (updLustre g s) = setStatusesOf s" "nsts_Ready (nstg_Status (updLustre g s)) = nsts_Ready (nstg_Status s)"
  "nstg_Spec (updSet i h s) = nstg_Spec s" "nstg_Meta (updSet i h s) = nstg_Meta s"
  "setStatusesOf (updSet i h s) = (setStatusesOf s)[i := h (setStatusesOf s ! i)]"
  "nsts_Ready (nstg_Status (updSet i h s)) = nsts_Ready (nstg_Status s)"
  "nstg_Spec (setSetReady i b s) = nstg_Spec s" "nstg_Meta (setSetReady i b s) = nstg_Meta s"
  "setStatusesOf (setSetReady i b s) = (setStatusesOf s)[i := (setStatusesOf s ! i)\<lparr>sts_Ready := b\<rparr>]"
  "nsts_Ready (nstg_Status (setSetReady i b s)) = nsts_Ready (nstg_Status s)"
  "nstg_Spec (setStorageReady b s) = nstg_Spec s" "nstg_Meta (setStorageReady b s) = nstg_Meta s"
  "setStatusesOf (setStorageReady b s) = setStatusesOf s" "nsts_Ready (nstg_Status (setStorageReady b s)) = b"
  "nstg_Spec (notReady i s) = nstg_Spec s" "nstg_Meta (notReady i s) = nstg_Meta s"
  "setStatusesOf (notReady i s) = (setStatusesOf s)[i := (setStatusesOf s ! i)\<lparr>sts_Ready := False\<rparr>]"
  "nsts_Ready (nstg_Status (notReady i s)) = False"
  by (simp_all add: updNst_def updLustre_def updSet_def setSetReady_def setStorageReady_def notReady_def)

text \<open>
  A property of the object that holds on after the writes of the live path: to the Lustre part of the
  status, to the counters and the health of a set, and to the flag that a set or the storage is not ready.
\<close>

definition statusStable :: "(NnfStorage \<Rightarrow> bool) \<Rightarrow> bool" where
  "statusStable J \<longleftrightarrow>
     (\<forall>s f. J s \<longrightarrow> J (updLustre f s)) \<and>
     (\<forall>s i n. J s \<longrightarrow> J (updSet i (\<lambda>a. a\<lparr>sts_AllocationCount := n\<rparr>) s)) \<and>
     (\<forall>s i h. J s \<longrightarrow> J (updSet i (\<lambda>a. a\<lparr>sts_Health := h\<rparr>) s)) \<and>
     (\<forall>s h. J s \<longrightarrow> J (updNst (\<lambda>st. st\<lparr>nsts_Health := h\<rparr>) s)) \<and>
     (\<forall>s. J s \<longrightarrow> J (updNst (\<lambda>st. st\<lparr>nsts_Error := None\<rparr>) s)) \<and>
     (\<forall>s i. J s \<longrightarrow> J (notReady i s))"

definition setStable :: "(NnfStorage \<Rightarrow> bool) \<Rightarrow> bool" where
  "setStable J \<longleftrightarrow> (\<forall>s i. J s \<longrightarrow> J (setSetReady i True s))"

lemma statusStableD:
  assumes "statusStable J" and "J s"
  shows "J (updLustre f s)" "J (updSet i (\<lambda>a. a\<lparr>sts_AllocationCount := n\<rparr>) s)" "J (updSet i (\<lambda>a. a\<lparr>sts_Health := h\<rparr>) s)"
    "J (updNst (\<lambda>st. st\<lparr>nsts_Health := h\<rparr>) s)" "J (updNst (\<lambda>st. st\<lparr>nsts_Error := None\<rparr>) s)" "J (notReady i s)"
  using assms by (simp_all add: statusStable_def)

named_theorems storage_keeps

lemma keeps_createNodeBlockStorage [storage_keeps]: "keeps J (createNodeBlockStorage k idx)"
  unfolding createNodeBlockStorage_def by (intro keeps_rules)

lemma keeps_blocks [storage_keeps]:
  assumes "statusStable J"
  shows "keeps J (aggregateNodeBlockStorageStatus k idx)"
  unfolding aggregateNodeBlockStorageStatus_def blocksReady_def Let_def
  by (intro keeps_rules statusStableD [OF assms])

lemma keeps_probe:
  "keeps J (aggregateNodeStorageStatus k deleting True idx)"
  unfolding aggregateNodeStorageStatus_def storagesReady_def by (intro keeps_rules) simp_all

lemma keeps_storages [storage_keeps]:
  "statusStable J \<Longrightarrow> setStable J \<Longrightarrow> keeps J (aggregateNodeStorageStatus k deleting False idx)"
  unfolding aggregateNodeStorageStatus_def storagesReady_def
  by (intro keeps_rules) (simp_all add: statusStableD setStable_def)

lemma keeps_probeOST0: "keeps J (probeOST0 k idxs skip)"
  by (induction idxs arbitrary: skip) (auto intro!: keeps_rules keeps_probe)

lemma keeps_lustreSetup [storage_keeps]:
  assumes "statusStable J"
  shows "keeps J (lustreSetup k idx)"
  unfolding lustreSetup_def setMgs_def pickFsName_def getFsName_def Let_def
  by (intro keeps_rules statusStableD [OF assms])

lemma keeps_createNodeStorage [storage_keeps]: "statusStable J \<Longrightarrow> keeps J (createNodeStorage k idx)"
  unfolding createNodeStorage_def createFor_def Let_def
  by (intro keeps_rules storage_keeps keeps_probeOST0)

lemma keeps_createSet [storage_keeps]: "statusStable J \<Longrightarrow> keeps J (createSet k idx)"
  unfolding createSet_def Let_def by (intro keeps_rules storage_keeps)

lemma keeps_forSets: "(\<And>i. keeps J (f i)) \<Longrightarrow> keeps J (forSets f idxs)"
  by (induction idxs) (auto intro!: keeps_rules)

lemma keeps_health:
  assumes "statusStable J"
  shows "keeps J (gatherHealth k idxs h)"
proof (induction idxs arbitrary: h)
  case (Cons i rest)
  have "keeps J (aggregateNodeStorageHealth k i)"
    unfolding aggregateNodeStorageHealth_def Let_def by (intro keeps_rules statusStableD [OF assms])
  then show ?case using Cons.IH by (auto intro!: keeps_rules)
qed (auto intro!: keeps_rules)

section \<open>A storage that is ready\<close>

text \<open>The node storages of an allocation set were listed, all of them were there, ready and without an error.\<close>

definition setServed :: "'w nstorageKube \<Rightarrow> NnfStorage \<Rightarrow> nat \<Rightarrow> bool" where
  "setServed k s i \<longleftrightarrow>
     (\<exists>w1 w2 items. sk_ListNodeStorage k (allocationSetLabels s (sas_Name (setsOf s ! i))) w1 = (Inr items, w2) \<and>
        length (onNodes ns_Meta (setsOf s ! i) items) = length (sas_Nodes (setsOf s ! i)) \<and>
        (\<forall>n \<in> set (onNodes ns_Meta (setsOf s ! i) items). nst_Ready (ns_Status n) \<and> nst_Error (ns_Status n) = None))"

text \<open>The resource is the same and was not reported ready yet.\<close>

definition pendingLike :: "NnfStorage \<Rightarrow> NnfStorage \<Rightarrow> bool" where
  "pendingLike s0 s \<longleftrightarrow> nstg_Spec s = nstg_Spec s0 \<and> nstg_Meta s = nstg_Meta s0 \<and>
     length (setStatusesOf s) = length (setStatusesOf s0) \<and> \<not> nsts_Ready (nstg_Status s)"

lemma pendingLike_stable: "statusStable (pendingLike s0)" "setStable (pendingLike s0)"
  by (simp_all add: statusStable_def setStable_def pendingLike_def)

lemma setServed_cong: "pendingLike s0 s \<Longrightarrow> setServed k s i = setServed k s0 i"
  by (simp add: setServed_def pendingLike_def allocationSetLabels_def)

lemma checkChildTimeout_result:
  "checkChildTimeout k kind ms w = (Inr (Some r), w') \<Longrightarrow> r \<noteq> doneResult"
  by (auto simp: checkChildTimeout_def retE_apply requeueAfter_def doneResult_def split: option.splits if_splits)

lemma storagesReady_effect:
  assumes "storagesReady k idx False False a l cs (s, w) = (Inr res, (s1, w1))"
  shows "(res = None \<and> s1 = setSetReady idx True s \<and> length cs = length (sas_Nodes a) \<and>
            (\<forall>n \<in> set cs. nst_Ready (ns_Status n) \<and> nst_Error (ns_Status n) = None)) \<or>
         (res = Some doneResult \<and> s1 = notReady idx s) \<or> (\<exists>r. res = Some r \<and> r \<noteq> doneResult \<and> s1 = s)"
proof (cases "List.find (\<lambda>n. nst_Error (ns_Status n) \<noteq> None) cs")
  case (Some n)
  then show ?thesis using assms by (simp add: storagesReady_def failE_apply)
next
  case None
  then have clean: "\<forall>n \<in> set cs. nst_Error (ns_Status n) = None"
    by (simp add: find_None_iff)
  from assms None show ?thesis
    unfolding storagesReady_def
    using clean checkChildTimeout_result [of k "''NnfNodeStorage''" "map ns_Meta cs" w]
    by (cases "checkChildTimeout k ''NnfNodeStorage'' (map ns_Meta cs) w")
      (auto simp: bindE_def sndE_def modifyE_def retE_apply list_ex_iff split: option.splits sum.splits if_splits)
qed

lemma gatherSet_effect:
  assumes "gatherSet k i (s, w) = (Inr None, (s1, w1))" and "i < length (setStatusesOf s)"
  shows "(\<forall>j. j \<noteq> i \<longrightarrow> setStatusesOf s1 ! j = setStatusesOf s ! j) \<and> (sts_Ready (setStatusesOf s1 ! i) \<longrightarrow> setServed k s i)"
proof -
  from assms(1) obtain res where agg: "aggregateNodeStorageStatus k False False i (s, w) = (Inr res, (s1, w1))"
      and res: "res = None \<or> res = Some doneResult"
    by (auto simp: gatherSet_def bindE_eq_Inr retE_apply split: if_splits)
  then obtain a where a: "indexR (setsOf s) i = Inr a"
    by (auto simp: aggregateNodeStorageStatus_def bindE_eq_Inr liftE_def)
  then have ai: "a = setsOf s ! i" by (simp add: indexR_def split: if_splits)
  from agg a obtain items w2 where items: "sk_ListNodeStorage k (allocationSetLabels s (sas_Name a)) w = (Inr items, w2)"
      and run: "storagesReady k i False False a (isLustre s \<and> targetTypeOf a = ''ost'') (onNodes ns_Meta a items) (s, w2) = (Inr res, (s1, w1))"
    by (auto simp: aggregateNodeStorageStatus_def bindE_eq_Inr wrapE_eq_Inr sndE_def retE_apply split: prod.splits)
  from storagesReady_effect [OF run] res show ?thesis
  proof (elim disjE)
    assume "res = Some doneResult \<and> s1 = notReady i s"
    then show ?thesis using assms(2) by simp
  next
    assume ok: "res = None \<and> s1 = setSetReady i True s \<and> length (onNodes ns_Meta a items) = length (sas_Nodes a) \<and>
       (\<forall>n \<in> set (onNodes ns_Meta a items). nst_Ready (ns_Status n) \<and> nst_Error (ns_Status n) = None)"
    then have "setServed k s i" using items unfolding setServed_def ai by blast
    with ok show ?thesis by simp
  qed (use assms(2) in auto)
qed

lemma keeps_gatherSet: "keeps (pendingLike s0) (gatherSet k i)"
  unfolding gatherSet_def by (intro keeps_rules keeps_storages pendingLike_stable)

lemma forSets_gather:
  assumes "forSets (gatherSet k) idxs (s, w) = (Inr None, (s1, w1))" and "pendingLike s0 s"
    and "distinct idxs" and "\<forall>i \<in> set idxs. i < length (setStatusesOf s)"
  shows "(\<forall>j. j \<notin> set idxs \<longrightarrow> setStatusesOf s1 ! j = setStatusesOf s ! j) \<and>
    (\<forall>i \<in> set idxs. sts_Ready (setStatusesOf s1 ! i) \<longrightarrow> setServed k s0 i)"
  using assms
proof (induction idxs arbitrary: s w)
  case (Cons i idxs)
  then obtain s2 w2 where one: "gatherSet k i (s, w) = (Inr None, (s2, w2))"
      and rest: "forSets (gatherSet k) idxs (s2, w2) = (Inr None, (s1, w1))"
    by (auto simp: bindE_eq_Inr retE_apply split: option.splits)
  have like: "pendingLike s0 s2" by (rule keepsD [OF keeps_gatherSet Cons.prems(2) one])
  then have len: "length (setStatusesOf s2) = length (setStatusesOf s)"
    using Cons.prems(2) by (simp add: pendingLike_def)
  have eff: "\<forall>j. j \<noteq> i \<longrightarrow> setStatusesOf s2 ! j = setStatusesOf s ! j" "sts_Ready (setStatusesOf s2 ! i) \<longrightarrow> setServed k s0 i"
    using gatherSet_effect [OF one] Cons.prems(2,4) setServed_cong [OF Cons.prems(2), of k i] by simp_all
  from Cons.IH [OF rest like] Cons.prems(3,4) len eff show ?case by auto
qed (simp add: retE_apply)

lemma leave_bindE:
  assumes "bindE m f (s, w) = (r, (s', w'))" and "keeps J m" and "J s" and "\<not> J s'"
  obtains x s1 w1 where "m (s, w) = (Inr x, (s1, w1))" and "J s1" and "f x (s1, w1) = (r, (s', w'))"
proof -
  obtain q s1 w1 where m: "m (s, w) = (q, (s1, w1))" by (metis prod_cases3)
  with keepsD [OF assms(2,3) m] assms(1,4) that show thesis by (cases q) (auto simp: bindE_def)
qed

lemma leave_andThen:
  assumes "andThen m n (s, w) = (r, (s', w'))" and "keeps J m" and "J s" and "\<not> J s'"
  obtains s1 w1 where "m (s, w) = (Inr None, (s1, w1))" and "J s1" and "n (s1, w1) = (r, (s', w'))"
proof -
  obtain x s1 w1 where "m (s, w) = (Inr x, (s1, w1))" "J s1" "(case x of Some r \<Rightarrow> retE r | None \<Rightarrow> n) (s1, w1) = (r, (s', w'))"
    using leave_bindE [OF assms(1) [unfolded andThen_def] assms(2-4)] by metis
  with that assms(4) show thesis by (cases x) (auto simp: retE_apply)
qed


lemma gather_reaches_finish:
  assumes "gatherStage k [0 ..< length (setsOf s)] (s1, w1) = (r, (s', w'))" and "pendingLike s s1" and "\<not> pendingLike s s'"
    and "length (setStatusesOf s) = length (setsOf s)"
  obtains s2 w2 where "pendingLike s s2" and "finishStorage k (s2, w2) = (r, (s', w'))"
    and "\<forall>i < length (setsOf s). sts_Ready (setStatusesOf s2 ! i) \<longrightarrow> setServed k s i"
proof -
  let ?sets = "[0 ..< length (setsOf s)]"
  note K = keeps_forSets [where J = "pendingLike s"] and st = pendingLike_stable [of s]
  obtain s3 w3 where J3: "pendingLike s s3" and r3: "andThen (forSets (gatherSet k) ?sets) (finishStorage k) (s3, w3) = (r, (s', w'))"
    using leave_andThen [OF assms(1) [unfolded gatherStage_def] K [OF keeps_blocks [OF st(1)]] assms(2,3)] by blast
  obtain s4 w4 where J4: "pendingLike s s4" and gather: "forSets (gatherSet k) ?sets (s3, w3) = (Inr None, (s4, w4))"
      and finish: "finishStorage k (s4, w4) = (r, (s', w'))"
    using leave_andThen [OF r3 K [OF keeps_gatherSet] J3 assms(3)] by blast
  have "\<forall>i \<in> set ?sets. i < length (setStatusesOf s3)" using J3 assms(4) by (simp add: pendingLike_def)
  from forSets_gather [OF gather J3 _ this] that [OF J4 finish] show thesis by simp
qed

lemma live_reaches_finish:
  assumes "liveStorage k (s, w) = (r, (s', w'))" and "\<not> nsts_Ready (nstg_Status s)" and "nsts_Ready (nstg_Status s')"
    and "length (setStatusesOf s) = length (setsOf s)"
  obtains s2 w2 where "pendingLike s s2" and "finishStorage k (s2, w2) = (r, (s', w'))"
    and "\<forall>i < length (setsOf s). sts_Ready (setStatusesOf s2 ! i) \<longrightarrow> setServed k s i"
proof -
  let ?sets = "[0 ..< length (setsOf s)]" and ?s0 = "updNst (\<lambda>st. st\<lparr>nsts_Error := None\<rparr>) s"
  note K = keeps_forSets [where J = "pendingLike s"] and st = pendingLike_stable [of s]
  have J0: "pendingLike s ?s0" and leave: "\<not> pendingLike s s'" using assms(2,3) by (simp_all add: pendingLike_def)
  have lustre: "keeps (pendingLike s) (modifyE noteComponents)"
    by (intro keeps_rules) (simp add: noteComponents_def statusStableD [OF st(1)])
  have health: "keeps (pendingLike s) (bindE (gatherHealth k ?sets Healthy) (\<lambda>h. modifyE (updNst (\<lambda>st. st\<lparr>nsts_Health := h\<rparr>))))"
    by (intro keeps_rules keeps_health st statusStableD [OF st(1)])
  from assms(1) have run: "andThen (forSets (createNodeBlockStorage k) ?sets) (bindE (modifyE noteComponents) (\<lambda>_.
     andThen (forSets (createSet k) ?sets) (healthStage k ?sets))) (?s0, w) = (r, (s', w'))"
    by (simp add: liveStorage_def Let_def)
  obtain s1 w1 where J1: "pendingLike s s1" and r1: "bindE (modifyE noteComponents) (\<lambda>_.
     andThen (forSets (createSet k) ?sets) (healthStage k ?sets)) (s1, w1) = (r, (s', w'))"
    using leave_andThen [OF run K [OF keeps_createNodeBlockStorage] J0 leave] by blast
  obtain x2 s2 w2 where J2: "pendingLike s s2"
      and r2: "andThen (forSets (createSet k) ?sets) (healthStage k ?sets) (s2, w2) = (r, (s', w'))"
    using leave_bindE [OF r1 lustre J1 leave] by blast
  obtain s3 w3 where J3: "pendingLike s s3" and r3: "healthStage k ?sets (s3, w3) = (r, (s', w'))"
    using leave_andThen [OF r2 K [OF keeps_createSet [OF st(1)]] J2 leave] by blast
  obtain x4 s4 w4 where J4: "pendingLike s s4" and r4: "gatherStage k ?sets (s4, w4) = (r, (s', w'))"
    using leave_bindE [OF r3 [unfolded healthStage_def] health J3 leave] by blast
  from gather_reaches_finish [OF r4 J4 leave assms(4)] that show thesis by blast
qed



section \<open>The order of a Lustre file system\<close>

lemma other_set_found:
  "i < length (setStatusesOf s) \<Longrightarrow> i \<noteq> idx \<Longrightarrow> \<not> sts_Ready (setStatusesOf s ! i) \<Longrightarrow> otherSetNotReady idx s"
  by (auto simp: otherSetNotReady_def list_ex_iff in_set_enumerate_eq intro!: bexI [of _ "(i, setStatusesOf s ! i)"])

text \<open>
  C26. Object targets come last. While any other allocation set of a Lustre file system is not ready, the
  step that creates the node storages of an object target set reads nothing, creates nothing and
  leaves the storage as it is; the reconcile goes on with the other sets.
\<close>

theorem ost_created_last:
  assumes "isLustre s" and "targetTypeOf (setsOf s ! idx) = ''ost''"
    and "i < length (setStatusesOf s)" and "i \<noteq> idx" and "\<not> sts_Ready (setStatusesOf s ! i)"
  shows "createNodeStorage k idx (s, w) = (Inr None, (s, w))"
  using assms other_set_found [OF assms(3-5)]
  by (simp add: createNodeStorage_def lustreSetup_def Let_def bindE_def getE_def retE_apply)

text \<open>
  OST0 waits for all other node storages. The probe lists, for every allocation set, the node storages
  without counting OST0; when one is missing or not ready, the first node of the set is passed over,
  and creating the others starts at the index that follows its targets.
\<close>

lemma createNodes_skips_first:
  "createNodes k s idx True cap 0 0 (node # nodes) = createNodes k s idx True cap 1 (wrap64 (san_Count node)) nodes"
  by simp

section \<open>File system names\<close>


section \<open>Commands are requested and not awaited\<close>

text \<open>
  The reconcile that asks the management target to run the commands of the profile goes on to the
  change of owner and group at once, in the same reconcile, before any of the commands has run; only
  a later reconcile looks at their outcome.
\<close>

theorem mgt_commands_not_awaited:
  assumes "meta_Namespace (mgt_Meta m) \<noteq> ''nnf-system''"
    and "\<forall>c \<in> set (mgst_CommandList (mgt_Status m)). mtc_Reference c \<noteq> storageRef s"
    and "\<forall>c \<in> set (mgs_CommandList (mgt_Spec m)). msc_Reference c \<noteq> storageRef s"
    and "\<And>m' u. \<exists>m1 u1. kc_Update (sk_Mgt k) m' u = (Inr m1, u1)"
  shows "\<exists>w'. mgtCommands k s commands m w = (Inr None, w')"
proof -
  have none: "List.find (\<lambda>c. mtc_Reference c = storageRef s) (mgst_CommandList (mgt_Status m)) = None"
    "\<not> list_ex (\<lambda>c. msc_Reference c = storageRef s) (mgs_CommandList (mgt_Spec m))"
    using assms(2,3) by (auto simp: find_None_iff list_ex_iff)
  have "\<exists>xs. mapME (replaceK k v) cs u = (Inr xs, u)" for v cs u
    by (induction cs) (auto simp: replaceK_def bindE_def retE_def)
  then obtain xs where xs: "mapME (replaceK k (NewVarHandler (mgtCommandVars s))) commands w = (Inr xs, w)" by blast
  obtain m1 u1 where "kc_Update (sk_Mgt k) (addMgtCommand \<lparr>msc_Reference = storageRef s, msc_Commands = xs\<rparr> m) w = (Inr m1, u1)"
    using assms(4) by blast
  then show ?thesis
    using assms(1) none by (simp add: mgtCommands_def requestCommands_def xs catchE_def bindE_def retE_def)
qed

section \<open>Health\<close>

text \<open>
  The health of the storage is that of the last allocation set that is not healthy, however bad an
  earlier one is.
\<close>

theorem last_unhealthy_set_wins:
  assumes "aggregateNodeStorageHealth k i (s, w) = (Inr h1, (s1, w1))" and "h1 = Faulted"
    and "aggregateNodeStorageHealth k j (s1, w1) = (Inr h2, (s2, w2))" and "h2 = Degraded"
  shows "gatherHealth k [i, j] Healthy (s, w) = (Inr Degraded, (s2, w2))"
  using assms by (simp add: bindE_def retE_apply)


section \<open>Teardown\<close>

lemma keeps_aggregateAll: "statusStable J \<Longrightarrow> setStable J \<Longrightarrow> keeps J (aggregateAll k idxs)"
  by (induction idxs) (auto intro!: keeps_rules keeps_storages)

lemma keeps_deleteAndGather [storage_keeps]: "statusStable J \<Longrightarrow> setStable J \<Longrightarrow> keeps J (deleteAndGather k del)"
  unfolding deleteAndGather_def by (intro keeps_rules keeps_aggregateAll)

lemma keeps_teardownLustre [storage_keeps]: "statusStable J \<Longrightarrow> setStable J \<Longrightarrow> keeps J (teardownLustre k)"
  unfolding teardownLustre_def whenGone_def releaseClaim_def deleteTargets_def by (intro keeps_rules storage_keeps)

lemma keeps_teardownStorage: "statusStable J \<Longrightarrow> setStable J \<Longrightarrow> keeps J (teardownStorage k)"
  unfolding teardownStorage_def deleteAll_def deleteMounts_def whenGone_def by (intro keeps_rules storage_keeps)

lemma keeps_liveStorage:
  assumes "statusStable J" and "setStable J" and "\<And>s. J s \<Longrightarrow> J (setStorageReady True s)"
  shows "keeps J (liveStorage k)"
proof -
  have gather: "keeps J (gatherSet k i)" for i
    unfolding gatherSet_def by (intro keeps_rules storage_keeps assms(1,2))
  have finish: "keeps J (finishStorage k)"
    unfolding finishStorage_def by (intro keeps_rules assms(3))
  have "J (noteComponents s)" if "J s" for s
    unfolding noteComponents_def using statusStableD(1) [OF assms(1) that] that by (cases "isLustre s") simp_all
  then have lustre: "keeps J (modifyE noteComponents)" by (rule keeps_modifyE)
  show ?thesis
    unfolding liveStorage_def healthStage_def gatherStage_def andThen_def Let_def
    by (intro keeps_rules keeps_forSets storage_keeps keeps_health gather finish lustre assms(1) statusStableD [OF assms(1)])
qed

text \<open>The parts of the resource that a teardown reads.\<close>

definition sameIdentity :: "NnfStorage \<Rightarrow> NnfStorage \<Rightarrow> bool" where
  "sameIdentity s0 s \<longleftrightarrow> nstg_Spec s = nstg_Spec s0 \<and> nstg_Meta s = nstg_Meta s0"

lemma sameIdentity_stable: "statusStable (sameIdentity s0)" "setStable (sameIdentity s0)"
  by (simp_all add: statusStable_def setStable_def sameIdentity_def)

lemma sameIdentity_refl [simp]: "sameIdentity s s"
  by (simp add: sameIdentity_def)

lemma deleteAndGather_True:
  assumes "deleteAndGather k del (s1, w1) = (Inr True, (s2, w2))" and "sameIdentity s s1"
  shows "(\<exists>v. del (nstg_Meta s) w1 = (Inr True, v)) \<and> sameIdentity s s2"
proof
  show "\<exists>v. del (nstg_Meta s) w1 = (Inr True, v)"
    using assms by (auto simp: deleteAndGather_def sameIdentity_def bindE_eq_Inr sndE_def retE_apply split: prod.splits)
  show "sameIdentity s s2"
    by (rule keepsD [OF keeps_deleteAndGather [OF sameIdentity_stable] assms(2,1)])
qed

lemma deleteTargets_True:
  assumes "deleteTargets k labels (s1, w1) = (Inr True, (s2, w2))" and "sameIdentity s s1"
  shows "(\<exists>v. allListedEmpty (targetKinds k) (kv_merge labels (MatchingOwner ''NnfStorage'' (nstg_Meta s))) w1 v) \<and> sameIdentity s s2"
  using deleteAndGather_True [OF assms(1) [unfolded deleteTargets_def] assms(2)]
  unfolding DeleteChildrenWithLabelsParallel_def by (auto dest!: deleteKindsParallel_complete)

text \<open>What has to be gone before the management target lets go of the name.\<close>

definition targetsGone :: "'w nstorageKube \<Rightarrow> NnfStorage \<Rightarrow> kv \<Rightarrow> bool" where
  "targetsGone k s labels \<longleftrightarrow>
     (\<exists>w v. allListedEmpty (targetKinds k) (kv_merge labels (MatchingOwner ''NnfStorage'' (nstg_Meta s))) w v)"

lemma whenGone_True:
  assumes "whenGone m n (s, w) = (Inr True, (s', w'))"
  obtains s1 w1 where "m (s, w) = (Inr True, (s1, w1))" and "n (s1, w1) = (Inr True, (s', w'))"
proof -
  obtain q s1 w1 where "m (s, w) = (q, (s1, w1))" by (metis prod_cases3)
  with assms that show thesis by (cases q) (auto simp: whenGone_def bindE_def retE_apply split: if_splits)
qed

lemma releaseClaim_True:
  "releaseClaim k (s, w) = (Inr True, (s', w')) \<Longrightarrow> \<exists>v. releaseLustreMgt k s w = (Inr True, v)"
  by (cases "releaseLustreMgt k s w")
    (auto simp: releaseClaim_def bindE_def wrapE_def catchE_def failE_apply sndE_def getE_def retE_apply split: sum.splits if_splits)

definition lustreGone :: "'w nstorageKube \<Rightarrow> NnfStorage \<Rightarrow> bool" where
  "lustreGone k s \<longleftrightarrow> targetsGone k s [(AllocationSetOST0Label, ''true'')] \<and> targetsGone k s [(AllocationSetLabel, ''ost'')] \<and>
     targetsGone k s [(AllocationSetLabel, ''mdt'')] \<and> (\<exists>t u v. sameIdentity s t \<and> releaseLustreMgt k t u = (Inr True, v))"

lemma teardownLustre_True:
  assumes "teardownLustre k (s1, w1) = (Inr True, (s2, w2))" and "sameIdentity s s1"
  shows "lustreGone k s"
proof -
  obtain sa wa where a: "deleteTargets k [(AllocationSetOST0Label, ''true'')] (s1, w1) = (Inr True, (sa, wa))"
      and ra: "whenGone (deleteTargets k [(AllocationSetLabel, ''ost'')])
        (whenGone (deleteTargets k [(AllocationSetLabel, ''mdt'')]) (releaseClaim k)) (sa, wa) = (Inr True, (s2, w2))"
    by (rule whenGone_True [OF assms(1) [unfolded teardownLustre_def]])
  obtain sb wb where b: "deleteTargets k [(AllocationSetLabel, ''ost'')] (sa, wa) = (Inr True, (sb, wb))"
      and rb: "whenGone (deleteTargets k [(AllocationSetLabel, ''mdt'')]) (releaseClaim k) (sb, wb) = (Inr True, (s2, w2))"
    by (rule whenGone_True [OF ra])
  obtain sc wc where c: "deleteTargets k [(AllocationSetLabel, ''mdt'')] (sb, wb) = (Inr True, (sc, wc))"
      and rc: "releaseClaim k (sc, wc) = (Inr True, (s2, w2))"
    by (rule whenGone_True [OF rb])
  from deleteTargets_True [OF a assms(2)] have A: "targetsGone k s [(AllocationSetOST0Label, ''true'')]" "sameIdentity s sa"
    by (auto simp: targetsGone_def)
  from deleteTargets_True [OF b A(2)] have B: "targetsGone k s [(AllocationSetLabel, ''ost'')]" "sameIdentity s sb"
    by (auto simp: targetsGone_def)
  from deleteTargets_True [OF c B(2)] have C: "targetsGone k s [(AllocationSetLabel, ''mdt'')]" "sameIdentity s sc"
    by (auto simp: targetsGone_def)
  from A B C releaseClaim_True [OF rc] show ?thesis unfolding lustreGone_def by blast
qed

lemma deleteAll_True:
  assumes "deleteAll k (s, w) = (Inr True, (s', w'))"
  shows "(\<exists>u v. allListedEmpty (Storage_getChildObjects k) (kv_merge [] (MatchingOwner ''NnfStorage'' (nstg_Meta s))) u v) \<and>
    (isLustre s \<longrightarrow> lustreGone k s)"
proof -
  let ?lustre = "bindE getE (\<lambda>s. if isLustre s then teardownLustre k else retE True)"
  let ?targets = "deleteAndGather k (\<lambda>m. DeleteChildrenParallel (targetKinds k) ''NnfStorage'' m)"
  let ?rest = "deleteAndGather k (\<lambda>m. DeleteChildren (Storage_getChildObjects k) ''NnfStorage'' m)"
  have mounts: "keeps (sameIdentity s) (deleteMounts k)" unfolding deleteMounts_def by (intro keeps_rules)
  have lustre: "keeps (sameIdentity s) ?lustre" by (intro keeps_rules keeps_teardownLustre sameIdentity_stable)
  obtain sa wa where a: "deleteMounts k (s, w) = (Inr True, (sa, wa))"
      and ra: "whenGone ?lustre (whenGone ?targets ?rest) (sa, wa) = (Inr True, (s', w'))"
    by (rule whenGone_True [OF assms [unfolded deleteAll_def]])
  obtain sb wb where b: "?lustre (sa, wa) = (Inr True, (sb, wb))" and rb: "whenGone ?targets ?rest (sb, wb) = (Inr True, (s', w'))"
    by (rule whenGone_True [OF ra])
  obtain sc wc where c: "?targets (sb, wb) = (Inr True, (sc, wc))" and d: "?rest (sc, wc) = (Inr True, (s', w'))"
    by (rule whenGone_True [OF rb])
  have A: "sameIdentity s sa" by (rule keepsD [OF mounts sameIdentity_refl a])
  have B: "sameIdentity s sb" by (rule keepsD [OF lustre A b])
  have C: "sameIdentity s sc" using deleteAndGather_True [OF c B] by simp
  have "\<exists>u v. allListedEmpty (Storage_getChildObjects k) (kv_merge [] (MatchingOwner ''NnfStorage'' (nstg_Meta s))) u v"
    using deleteAndGather_True [OF d C] unfolding DeleteChildren_def DeleteChildrenWithLabels_def
    by (auto dest!: deleteKinds_complete)
  moreover have "lustreGone k s" if "isLustre s"
  proof -
    have "isLustre sa" using A that by (simp add: sameIdentity_def isLustre_def)
    with b have "teardownLustre k (sa, wa) = (Inr True, (sb, wb))" by simp
    then show ?thesis using A by (rule teardownLustre_True)
  qed
  ultimately show ?thesis by blast
qed



section \<open>Block storage settles\<close>

lemma kv_merge_append: "kv_merge m (a @ b) = kv_merge (kv_merge m a) b"
  by (simp add: kv_merge_def)

lemma map_of_merge_any: "map_of (kv_merge m q) k = (case map_of (rev q) k of None \<Rightarrow> map_of m k | Some v \<Rightarrow> Some v)"
  by (induction q arbitrary: m) (auto simp: map_of_kv_put map_of_append map_add_def split: option.splits)

lemma keys_kv_put: "k \<in> fst ` set m \<Longrightarrow> map fst (kv_put k v m) = map fst m"
  unfolding kv_put_def by (induction m) auto

lemma keys_kv_merge: "fst ` set q \<subseteq> fst ` set m \<Longrightarrow> map fst (kv_merge m q) = map fst m"
proof (induction q arbitrary: m)
  case (Cons p q)
  obtain k v where p: "p = (k, v)" by (cases p)
  with Cons.prems have eq: "map fst (kv_put k v m) = map fst m" by (intro keys_kv_put) auto
  then have "fst ` set (kv_put k v m) = fst ` set m" by (metis set_map)
  with Cons.IH [of "kv_put k v m"] Cons.prems eq p show ?case by simp
qed simp

lemma kv_eqI: "map fst m = map fst n \<Longrightarrow> kv_wf m \<Longrightarrow> map_of m = map_of n \<Longrightarrow> m = n"
proof (induction m arbitrary: n)
  case (Cons p m)
  obtain k v where p: "p = (k, v)" by (cases p)
  from Cons.prems(1) p obtain u n' where n: "n = (k, u) # n'" and keys: "map fst m = map fst n'" by (cases n) auto
  have "v = u" using fun_cong [OF Cons.prems(3), of k] p n by simp
  moreover have "m = n'"
  proof (rule Cons.IH [OF keys])
    have out: "map_of m k = None" "map_of n' k = None"
      using Cons.prems(2) keys p by (auto simp: kv_wf_def map_of_eq_None_iff simp flip: set_map)
    show "map_of m = map_of n'"
    proof
      fix x
      show "map_of m x = map_of n' x" using fun_cong [OF Cons.prems(3), of x] out p n by (cases "x = k") simp_all
    qed
  qed (use Cons.prems(2) in \<open>simp add: kv_wf_def\<close>)
  ultimately show ?case using p n by simp
qed simp

lemma kv_merge_again:
  assumes "kv_wf m"
  shows "kv_merge (kv_merge m q) q = kv_merge m q"
proof (rule kv_eqI [symmetric])
  have "fst ` set q \<subseteq> dom (map_of (kv_merge m q))"
    using map_of_merge_any by (force simp: dom_def map_of_eq_None_iff split: option.splits)
  then show "map fst (kv_merge m q) = map fst (kv_merge (kv_merge m q) q)"
    using keys_kv_merge [of q "kv_merge m q"] by (simp add: dom_map_of_conv_image_fst)
qed (use assms in \<open>auto simp: map_of_merge_any fun_eq_iff split: option.splits\<close>)

definition childLabels :: "NnfStorage \<Rightarrow> NnfStorageAllocationSetSpec \<Rightarrow> kv" where
  "childLabels s a =
     filter (\<lambda>(k, v). k \<notin> {OwnerNameLabel, OwnerNamespaceLabel, OwnerKindLabel}) (meta_Labels (nstg_Meta s)) @
     [(OwnerKindLabel, ''NnfStorage''), (OwnerNameLabel, meta_Name (nstg_Meta s)),
      (OwnerNamespaceLabel, meta_Namespace (nstg_Meta s)), (OwnerUidLabel, meta_UID (nstg_Meta s)), (AllocationSetLabel, sas_Name a)]"

lemma fillNodeBlockStorage_labels:
  "fillNodeBlockStorage s a node nb = Inr nb' \<Longrightarrow>
     nb_Meta nb' = (nb_Meta nb)\<lparr>meta_Labels := kv_merge (meta_Labels (nb_Meta nb)) (childLabels s a)\<rparr>"
  by (auto simp: fillNodeBlockStorage_def Let_def childLabels_def kv_merge_append AddOwnerLabels_def InheritParentLabels_def split: if_splits)

lemma fillNodeBlockStorage_spec:
  assumes "fillNodeBlockStorage s a node nb = Inr nb'"
  shows "nb_Status nb' = nb_Status nb" and "nbsp_SharedAllocation (nb_Spec nb') = sas_SharedAllocation a"
    and "int (length (nbsp_Allocations (nb_Spec nb'))) = (if sas_SharedAllocation a then 1 else san_Count node)"
    and "\<forall>al \<in> set (nbsp_Allocations (nb_Spec nb')). nbp_Capacity al = blockCapacity s a node \<and> nbp_Access al \<noteq> []"
  using assms by (auto simp: fillNodeBlockStorage_def Let_def split: if_splits)

lemma fillNodeBlockStorage_again:
  assumes "fillNodeBlockStorage s a node nb = Inr nb'" and "kv_wf (meta_Labels (nb_Meta nb))"
  shows "fillNodeBlockStorage s a node nb' = Inr nb'"
proof -
  let ?al = "nbsp_Allocations (nb_Spec nb')"
  note spec = fillNodeBlockStorage_spec [OF assms(1)]
  have same: "map (\<lambda>al. al\<lparr>nbp_Capacity := blockCapacity s a node, nbp_Access := (if nbp_Access al = [] then [san_Name node] else nbp_Access al)\<rparr>) ?al = ?al"
    using spec(4) by (intro map_idI) auto
  have "\<exists>nb2. fillNodeBlockStorage s a node nb' = Inr nb2"
    using spec(3) by (auto simp: fillNodeBlockStorage_def Let_def split: if_splits)
  then obtain nb2 where nb2: "fillNodeBlockStorage s a node nb' = Inr nb2" by blast
  have "nb_Meta nb2 = nb_Meta nb'"
    using fillNodeBlockStorage_labels [OF nb2] fillNodeBlockStorage_labels [OF assms(1)] kv_merge_again [OF assms(2)] by simp
  moreover have "nb_Spec nb2 = nb_Spec nb'"
    using nb2 same spec(2,3) by (auto simp: fillNodeBlockStorage_def Let_def split: if_splits)
  moreover have "nb_Status nb2 = nb_Status nb'" by (rule fillNodeBlockStorage_spec(1) [OF nb2])
  ultimately show ?thesis using nb2 by simp
qed

text \<open>
  Block storage has what was asked for, and settles. What a reconcile writes into the block storage of a
  Rabbit has one allocation for every allocation that was asked for (one in all when they are shared),
  each with the capacity of the set, for Lustre at least the minimum of four gigabytes, and with access
  for at least one node; and when a later reconcile finds that object it writes nothing.
\<close>

theorem block_storage_settles:
  assumes "fillNodeBlockStorage s a node nb = Inr nb'" and "kv_wf (meta_Labels (nb_Meta nb))"
    and "kc_Get c (meta_Namespace (nb_Meta nb')) (meta_Name (nb_Meta nb')) w = (Inr nb', w1)"
    and "nb_Meta obj = nb_Meta nb'"
  shows "CreateOrUpdate c nb_Meta obj (\<lambda>nb. liftE (fillNodeBlockStorage s a node nb)) w = (Inr (OperationResultNone, nb'), w1) \<and>
    int (length (nbsp_Allocations (nb_Spec nb'))) = (if sas_SharedAllocation a then 1 else san_Count node) \<and>
    (\<forall>al \<in> set (nbsp_Allocations (nb_Spec nb')). nbp_Capacity al = blockCapacity s a node \<and> nbp_Access al \<noteq> []) \<and>
    (isLustre s \<and> \<not> sas_SharedAllocation a \<longrightarrow> 4000000000 \<le> blockCapacity s a node)"
proof -
  have "CreateOrUpdate c nb_Meta obj (\<lambda>nb. liftE (fillNodeBlockStorage s a node nb)) w = (Inr (OperationResultNone, nb'), w1)"
    using fillNodeBlockStorage_again [OF assms(1,2)] assms(3,4)
    by (simp add: CreateOrUpdate_def mutate_def liftE_def bindE_def retE_def)
  then show ?thesis using fillNodeBlockStorage_spec(3,4) [OF assms(1)] by (simp add: blockCapacity_def Let_def)
qed


section \<open>Witnesses\<close>

definition steady :: "'o \<Rightarrow> ('o, 'w) kclient" where
  "steady x = \<lparr>kc_Get = \<lambda>_ _. retE x, kc_Create = retE, kc_Update = retE, kc_UpdateStatus = retE\<rparr>"

definition exRabbit :: Storage where
  "exRabbit = \<lparr>sto_Meta = zeroMeta\<lparr>meta_Name := ''rabbit-1''\<rparr>, sto_State = ''Enabled'', sto_Mode = ''Live'',
     sto_Status = \<lparr>sst_Type = ''NVMe'', sst_Devices = [], sst_Access = \<lparr>sac_Protocol = ''PCIe'', sac_Servers = [],
       sac_Computes = [\<lparr>sno_Name = ''compute-1'', sno_Status = ''Ready''\<rparr>]\<rparr>, sst_Capacity = 1000, sst_Status = ''Ready'',
       sst_RebootRequired = False, sst_Message = []\<rparr>\<rparr>"

definition exOwnerMount :: ClientMount where
  "exOwnerMount = \<lparr>cm_Meta = zeroMeta, cm_Spec = \<lparr>cms_Node = ''rabbit-1'', cms_DesiredState = ClientMountStateUnmounted, cms_Mounts = []\<rparr>,
     cm_Status = \<lparr>cst_Mounts = [\<lparr>cis_State = ClientMountStateUnmounted, cis_Ready = True\<rparr>], cst_AllReady = True, cst_Error = None\<rparr>\<rparr>"

definition exSharedMgt :: NnfLustreMGT where
  "exSharedMgt = exMgt ''aaaaaaab'' []"

definition exStorageKube :: "NnfStorage \<Rightarrow> unit nstorageKube" where
  "exStorageKube s = \<lparr>sk_Storage = steady s,
     sk_NodeBlock = (steady exBlockStorageOf)\<lparr>kc_Get := \<lambda>ns n. retE (newNodeBlockStorage n ns)\<rparr>,
     sk_NodeStorage = (steady exNodeStorageOf)\<lparr>kc_Get := \<lambda>ns n. retE (newNodeStorage n ns)\<rparr>,
     sk_PSI = steady (exPsi [] ''x''), sk_NnfNode = steady exStorageNode, sk_DwsStorage = steady exRabbit,
     sk_Mgt = steady exSharedMgt, sk_ClientMount = steady exOwnerMount,
     sk_ListNodeBlock = \<lambda>_. retE [exBlockStorageOf], sk_ListNodeStorage = \<lambda>_. retE [exNodeStorageOf],
     sk_ListMgt = retE [exSharedMgt], sk_ListClientMount = \<lambda>_. retE [],
     sk_Profiles = \<lparr>pc_List = \<lambda>_ w. (Inr [], w), pc_Get = \<lambda>_ _ w. (Found zeroProfile, w), pc_Create = \<lambda>_ w. (Created, w)\<rparr>,
     sk_ClientMounts = noChildren, sk_NodeStorages = noChildren, sk_NodeBlocks = noChildren, sk_Mgts = noChildren,
     sk_ProfileList = noChildren, sk_Getenv = \<lambda>_. None, sk_Now = \<lambda>_. 0, sk_Order = \<lambda>_ _ m. m\<rparr>"

definition exXfsStorage :: "bool \<Rightarrow> NnfStorage" where
  "exXfsStorage deleting =
     (let s = exNnfStorage [exSet ''xfs''] [exSetStatus False] in
      s\<lparr>nstg_Spec := (nstg_Spec s)\<lparr>ssp_FileSystemType := ''xfs''\<rparr>,
        nstg_Meta := (nstg_Meta s)\<lparr>meta_Finalizers := [finalizerNnfStorage], meta_Deleting := deleting\<rparr>\<rparr>)"

theorem node_storage_names_distinct_witness:
  "nnfNodeStorageName (exXfsStorage False) 0 0 = ''default-wf-0-xfs-0'' \<and>
   inj_on (\<lambda>(idx, i). (san_Name (sas_Nodes (setsOf (exXfsStorage False) ! idx) ! i), nnfNodeStorageName (exXfsStorage False) idx i))
    {(idx, i). idx < length (setsOf (exXfsStorage False)) \<and> i < length (sas_Nodes (setsOf (exXfsStorage False) ! idx))}"
proof -
  have "distinct (map sas_Name (setsOf (exXfsStorage False)))" by code_simp
  moreover have "nnfNodeStorageName (exXfsStorage False) 0 0 = ''default-wf-0-xfs-0''" by code_simp
  ultimately show ?thesis using node_storage_names_distinct by blast
qed

theorem node_storage_names_collide_witness:
  "nnfNodeStorageName ((exXfsStorage False)\<lparr>nstg_Meta := zeroMeta\<lparr>meta_Namespace := ''team'', meta_Name := ''a-job''\<rparr>\<rparr>) 0 0 =
   nnfNodeStorageName ((exXfsStorage False)\<lparr>nstg_Meta := zeroMeta\<lparr>meta_Namespace := ''team-a'', meta_Name := ''job''\<rparr>\<rparr>) 0 0"
  by (rule node_storage_names_collide [where a = "''team''" and b = "''a''" and c = "''job''"]) simp_all

theorem removeFromRange_one_witness: "removeFromRange (\<lambda>x. x = (2::nat)) [1, 2, 3] = Inr ([1, 3], True)"
  using removeFromRange_one [of "\<lambda>x. x = (2::nat)" "[1, 2, 3]"] by simp

theorem duplicate_claim_panics_witness:
  "removeFromRange (specNamed (exXfsStorage False)) [storageRef (exXfsStorage False), (storageRef (exXfsStorage False))\<lparr>ref_Kind := ''Workflow''\<rparr>] =
     Inl (Panic ''slice bounds out of range'')"
  using duplicate_claim_panics [of "specNamed (exXfsStorage False)" "[]" "storageRef (exXfsStorage False)"
      "(storageRef (exXfsStorage False))\<lparr>ref_Kind := ''Workflow''\<rparr>"]
  by (simp add: specNamed_def storageRef_def)


definition exOstStorage :: NnfStorage where
  "exOstStorage =
     (let ost = exSet ''ost'' in
      exNnfStorage [exSet ''mgtmdt'', ost\<lparr>sas_Lustre := (sas_Lustre ost)\<lparr>sls_TargetType := ''ost''\<rparr>\<rparr>] [exSetStatus False, exSetStatus False])"

theorem ost_created_last_witness:
  "createNodeStorage (exStorageKube exOstStorage) 1 (exOstStorage, ()) = (Inr None, (exOstStorage, ()))"
  by (rule ost_created_last [where i = 0]) code_simp+

theorem mgt_commands_not_awaited_witness:
  "\<exists>w'. mgtCommands (exStorageKube exOstStorage) exOstStorage [''true''] exSharedMgt () = (Inr None, w')"
  by (rule mgt_commands_not_awaited) (simp_all add: exSharedMgt_def exMgt_def zeroMeta_def exStorageKube_def steady_def retE_apply)

theorem last_unhealthy_set_wins_witness:
  "gatherHealth ((exStorageKube exOstStorage)\<lparr>sk_ListNodeStorage := \<lambda>labels. retE [exNodeStorageOf\<lparr>ns_Status := (ns_Status exNodeStorageOf)
       \<lparr>nst_Health := (if labelOf AllocationSetLabel labels = ''ost'' then Degraded else Faulted)\<rparr>\<rparr>]\<rparr>)
     [0, 1] Healthy (exOstStorage, ()) = (Inr Degraded, (updSet 1 (\<lambda>a. a\<lparr>sts_Health := Degraded\<rparr>) (updSet 0 (\<lambda>a. a\<lparr>sts_Health := Faulted\<rparr>) exOstStorage), ()))"
  by (rule last_unhealthy_set_wins) code_simp+


definition exFilledBlock :: NnfNodeBlockStorage where
  "exFilledBlock = (case fillNodeBlockStorage (exXfsStorage False) (exSet ''xfs'') \<lparr>san_Name = ''rabbit-1'', san_Count = 1\<rparr>
      (newNodeBlockStorage ''default-wf-0-xfs-0'' ''rabbit-1'') of Inr nb \<Rightarrow> nb | Inl _ \<Rightarrow> exBlockStorageOf)"

theorem block_storage_settles_witness:
  "CreateOrUpdate (steady exFilledBlock) nb_Meta exFilledBlock
      (\<lambda>nb. liftE (fillNodeBlockStorage (exXfsStorage False) (exSet ''xfs'') \<lparr>san_Name = ''rabbit-1'', san_Count = 1\<rparr> nb)) () =
     (Inr (OperationResultNone, exFilledBlock), ()) \<and> length (nbsp_Allocations (nb_Spec exFilledBlock)) = 1"
proof -
  have fill: "fillNodeBlockStorage (exXfsStorage False) (exSet ''xfs'') \<lparr>san_Name = ''rabbit-1'', san_Count = 1\<rparr>
      (newNodeBlockStorage ''default-wf-0-xfs-0'' ''rabbit-1'') = Inr exFilledBlock" by code_simp
  have "kv_wf (meta_Labels (nb_Meta (newNodeBlockStorage ''default-wf-0-xfs-0'' ''rabbit-1'')))" by code_simp
  from block_storage_settles [OF fill this, of "steady exFilledBlock" "()" "()" exFilledBlock]
  show ?thesis by (simp add: steady_def retE_apply exSet_def)
qed


definition exClaimed :: "string \<Rightarrow> NnfLustreMGTStatusClaim list \<Rightarrow> NnfLustreMGT" where
  "exClaimed next claims = (let m = exMgt next claims in m\<lparr>mgt_Spec := (mgt_Spec m)\<lparr>mgs_ClaimList :=
     [storageRef exOstStorage, (storageRef exOstStorage)\<lparr>ref_Name := ''wf-1''\<rparr>]\<rparr>\<rparr>)"

definition exClaimA :: NnfLustreMGTStatusClaim where
  "exClaimA = \<lparr>mcl_Reference = storageRef exOstStorage, mcl_FsName = ''aaaaaaac''\<rparr>"

definition exClaimB :: NnfLustreMGTStatusClaim where
  "exClaimB = \<lparr>mcl_Reference = (storageRef exOstStorage)\<lparr>ref_Name := ''wf-1''\<rparr>, mcl_FsName = ''aaaaaaad''\<rparr>"

lemma exClaimed_setError: "setMgtError None (exClaimed n cs) = exClaimed n cs"
  by (simp add: setMgtError_def resourceError_def exMgt_def exClaimed_def Let_def)

lemma exClaimed_reach: "\<exists>given. mgtReach exMgtKube mgtOs ControllerRabbit (exClaimed ''aaaaaaae'' [exClaimA, exClaimB]) given"
proof -
  have "lowerName ''aaaaaaac''" by code_simp
  then have start: "mgtReach exMgtKube mgtOs ControllerRabbit (exClaimed ''aaaaaaac'' []) []"
    by (intro mgtReach.start) (simp_all add: exMgt_def exClaimed_def)
  have one: "lustreMgtBody exMgtKube mgtOs ControllerRabbit (exClaimed ''aaaaaaac'' [], ()) =
      (Inr doneResult, (exClaimed ''aaaaaaad'' [exClaimA], ()))" by code_simp
  have two: "lustreMgtBody exMgtKube mgtOs ControllerRabbit (exClaimed ''aaaaaaad'' [exClaimA], ()) =
      (Inr doneResult, (exClaimed ''aaaaaaae'' [exClaimA, exClaimB], ()))" by code_simp
  have up: "nameVal ''aaaaaaac'' < nameVal ''aaaaaaad''" "nameVal ''aaaaaaad'' < nameVal ''aaaaaaae''" by code_simp+
  have "nextOf (exClaimed n cs) = n" for n cs by (simp add: exClaimed_def exMgt_def Let_def)
  with up mgtReach.reconcile [OF start one, of None] obtain given where
    mid: "mgtReach exMgtKube mgtOs ControllerRabbit (exClaimed ''aaaaaaad'' [exClaimA]) given"
    by (auto simp: exClaimed_setError)
  from mgtReach.reconcile [OF mid two, of None] up \<open>\<And>n cs. nextOf (exClaimed n cs) = n\<close> show ?thesis
    by (auto simp: exClaimed_setError)
qed


end
