(* ===== verification/NnfAccessController.thy ===== *)
theory NnfAccessController
  imports NnfStorageController
begin

text \<open>
  \<^verbatim>\<open>internal/controller/nnf_access_controller.go\<close>: the controller that gives clients access to a storage.
  It picks devices for the clients, opens them on the Rabbits, makes the client mounts, waits for them,
  and undoes all of it; a storage with a file system that only one host may mount is locked for the
  time. \<^verbatim>\<open>pkg/helpers/helpers.go\<close> finds the Rabbit of a compute node.

  A Go map is an association list in the order of insertion; wherever the code ranges over a map, the
  order is the parameter \<open>ak_Perm\<close>, a permutation of the positions.
\<close>

section \<open>Types\<close>

record NnfAccessSpec =
  nas_DesiredState :: string
  nas_TeardownState :: string
  nas_Target :: string
  nas_UserID :: "32 word"
  nas_GroupID :: "32 word"
  nas_ClientReference :: ObjectReference
  nas_MountPath :: string
  nas_MakeClientMounts :: bool
  nas_MountPathPrefix :: string
  nas_StorageReference :: ObjectReference
  nas_IgnoreOfflineComputes :: bool

record NnfAccessStatus =
  nast_State :: string
  nast_Ready :: bool
  nast_Error :: "ResourceErrorInfo option"

record NnfAccess =
  na_Meta :: ObjectMeta
  na_Spec :: NnfAccessSpec
  na_Status :: NnfAccessStatus

record ComputesResource =
  cpt_Meta :: ObjectMeta
  cpt_Data :: "string list"

type_synonym storageMapping = "(string \<times> ClientMountInfo list) list"

record 'w accessKube =
  ak_Access :: "(NnfAccess, 'w) kclient"
  ak_Storage :: "(NnfStorage, 'w) kclient"
  ak_NodeBlock :: "(NnfNodeBlockStorage, 'w) kclient"
  ak_ClientMount :: "(ClientMount, 'w) kclient"
  ak_GetComputes :: "string \<Rightarrow> string \<Rightarrow> ('w, ComputesResource) io"
  ak_GetNodeStorage :: "string \<Rightarrow> string \<Rightarrow> ('w, NnfNodeStorage) io"
  ak_GetRabbit :: "string \<Rightarrow> string \<Rightarrow> ('w, Storage) io"
  ak_GetConfiguration :: "string \<Rightarrow> string \<Rightarrow> ('w, SystemConfiguration) io"
  ak_GetSystemStatus :: "string \<Rightarrow> string \<Rightarrow> ('w, kv) io"
  ak_ListNodeStorage :: "string \<Rightarrow> kv \<Rightarrow> ('w, NnfNodeStorage list) io"
  ak_ListClientMount :: "kv \<Rightarrow> ('w, ClientMount list) io"
  ak_ListAccess :: "kv \<Rightarrow> ('w, NnfAccess list) io"
  ak_ClientMounts :: "'w childKind"
  ak_Getenv :: "string \<Rightarrow> string option"
  ak_Now :: "'w \<Rightarrow> int"
  ak_Perm :: "'w \<Rightarrow> nat \<Rightarrow> nat list"

abbreviation finalizerNnfAccess :: string where
  "finalizerNnfAccess \<equiv> ''nnf.cray.hpe.com/nnf_access''"

abbreviation NnfAccessAnnotation :: string where
  "NnfAccessAnnotation \<equiv> ''nnf.cray.hpe.com/access''"

abbreviation forComputes :: "NnfAccess \<Rightarrow> bool" where
  "forComputes a \<equiv> nas_ClientReference (na_Spec a) \<noteq> emptyRef"

definition rangeMap :: "'w accessKube \<Rightarrow> 'a list \<Rightarrow> ('w, 'a list) io" where
  "rangeMap k m = (\<lambda>w. (Inr (map (\<lambda>i. m ! i) (ak_Perm k w (length m))), w))"

definition updAccess :: "(NnfAccessStatus \<Rightarrow> NnfAccessStatus) \<Rightarrow> NnfAccess \<Rightarrow> NnfAccess" where
  "updAccess f a = a\<lparr>na_Status := f (na_Status a)\<rparr>"

definition setAccessReady :: "bool \<Rightarrow> NnfAccess \<Rightarrow> NnfAccess" where
  "setAccessReady b = updAccess (\<lambda>st. st\<lparr>nast_Ready := b\<rparr>)"

definition accessOwner :: "NnfAccess \<Rightarrow> string" where
  "accessOwner a = meta_Name (na_Meta a) @ ''/'' @ meta_Namespace (na_Meta a)"

definition storageFinalizer :: "NnfAccess \<Rightarrow> string" where
  "storageFinalizer a = ''nnf.cray.hpe.com/'' @ meta_Name (na_Meta a)"

definition clientMountName :: "NnfAccess \<Rightarrow> string" where
  "clientMountName a = meta_Namespace (na_Meta a) @ ''-'' @ meta_Name (na_Meta a)"

text \<open>The storage of the access, when the reference has the right kind.\<close>

definition isStorageRef :: "NnfAccess \<Rightarrow> bool" where
  "isStorageRef a \<longleftrightarrow> ref_Kind (nas_StorageReference (na_Spec a)) = ''NnfStorage''"

definition getAccessStorage :: "'w accessKube \<Rightarrow> NnfAccess \<Rightarrow> ('w, NnfStorage) io" where
  "getAccessStorage k a =
     kc_Get (ak_Storage k) (ref_Namespace (nas_StorageReference (na_Spec a))) (ref_Name (nas_StorageReference (na_Spec a)))"

section \<open>Locking\<close>

definition lockStorage :: "'w accessKube \<Rightarrow> NnfAccess \<Rightarrow> ('w, bool) io" where
  "lockStorage k a =
     (if \<not> isStorageRef a
      then failE (Fail (''invalid StorageReference kind '' @ ref_Kind (nas_StorageReference (na_Spec a))))
      else bindE (getAccessStorage k a) (\<lambda>s.
        let s1 = setStorageFinalizers (AddFinalizer (storageFinalizer a)) s in
        if ssp_FileSystemType (nstg_Spec s) = ''xfs'' then
          (case map_of (meta_Annotations (nstg_Meta s)) NnfAccessAnnotation of
             Some annotation \<Rightarrow> retE (annotation \<noteq> accessOwner a)
           | None \<Rightarrow>
               bindE (kc_Update (ak_Storage k) (s1\<lparr>nstg_Meta := (nstg_Meta s1)\<lparr>meta_Annotations :=
                  kv_put NnfAccessAnnotation (accessOwner a) (meta_Annotations (nstg_Meta s1))\<rparr>\<rparr>)) (\<lambda>_. retE False))
        else bindE (kc_Update (ak_Storage k) s1) (\<lambda>_. retE False)))"

definition unlockStorage :: "'w accessKube \<Rightarrow> NnfAccess \<Rightarrow> ('w, unit) io" where
  "unlockStorage k a =
     (if \<not> isStorageRef a then retE ()
      else bindE (getAccessStorage k a) (\<lambda>s.
        let drop = (\<lambda>s. bindE (kc_Update (ak_Storage k) (setStorageFinalizers (RemoveFinalizer (storageFinalizer a)) s)) (\<lambda>_. retE ())) in
        if ssp_FileSystemType (nstg_Spec s) = ''xfs'' then
          if map_of (meta_Annotations (nstg_Meta s)) NnfAccessAnnotation = Some (accessOwner a)
          then drop (s\<lparr>nstg_Meta := (nstg_Meta s)\<lparr>meta_Annotations :=
                 AList.delete NnfAccessAnnotation (meta_Annotations (nstg_Meta s))\<rparr>\<rparr>)
          else retE ()
        else drop s))"

section \<open>Clients and their devices\<close>

definition getClientListFromClientReference :: "'w accessKube \<Rightarrow> NnfAccess \<Rightarrow> ('w, string list) io" where
  "getClientListFromClientReference k a =
     (let ref = nas_ClientReference (na_Spec a) in
      if ref_Kind ref \<noteq> ''Computes'' then failE (Fail (''Invalid ClientReference kind '' @ ref_Kind ref))
      else bindE (ak_GetComputes k (ref_Namespace ref) (ref_Name ref)) (\<lambda>c. retE (cpt_Data c)))"

definition storageNodes :: "NnfStorage \<Rightarrow> string list" where
  "storageNodes s =
     concat (map (\<lambda>a. if isLustre s \<and> targetTypeOf a \<noteq> ''ost'' then [] else map san_Name (sas_Nodes a)) (setsOf s))"

definition getClientListFromStorageReference :: "'w accessKube \<Rightarrow> NnfAccess \<Rightarrow> ('w, string list) io" where
  "getClientListFromStorageReference k a =
     (if \<not> isStorageRef a then failE (Fail (''Invalid StorageReference kind '' @ ref_Kind (nas_StorageReference (na_Spec a))))
      else bindE (getAccessStorage k a) (\<lambda>s. retE (storageNodes s)))"

definition getClientList :: "'w accessKube \<Rightarrow> NnfAccess \<Rightarrow> ('w, string list) io" where
  "getClientList k a =
     (if forComputes a then getClientListFromClientReference k a else getClientListFromStorageReference k a)"

definition appendMounts :: "string \<Rightarrow> ClientMountInfo list \<Rightarrow> storageMapping \<Rightarrow> storageMapping" where
  "appendMounts key xs m = AList.update key ((case map_of m key of None \<Rightarrow> [] | Some ys \<Rightarrow> ys) @ xs) m"

definition networkMount :: "NnfAccess \<Rightarrow> NnfStorage \<Rightarrow> ClientMountInfo" where
  "networkMount a s =
     \<lparr>cmi_MountPath = nas_MountPath (na_Spec a), cmi_UserID = nas_UserID (na_Spec a), cmi_GroupID = nas_GroupID (na_Spec a),
      cmi_SetPermissions = False, cmi_Options = [],
      cmi_Device = \<lparr>cmd_Type = ''lustre'',
        cmd_Lustre = Some \<lparr>cdl_FileSystemName = slu_FileSystemName (nsts_Lustre (nstg_Status s)),
          cdl_MgsAddresses = slu_MgsAddress (nsts_Lustre (nstg_Status s))\<rparr>,
        cmd_LVM = None,
        cmd_DeviceReference = Some \<lparr>cdr_ObjectReference = nas_StorageReference (na_Spec a), cdr_Data = 0\<rparr>\<rparr>,
      cmi_Type = ssp_FileSystemType (nstg_Spec s), cmi_TargetType = ''directory'', cmi_Compute = []\<rparr>"

definition mapClientNetworkStorage :: "NnfAccess \<Rightarrow> string list \<Rightarrow> NnfStorage \<Rightarrow> storageMapping" where
  "mapClientNetworkStorage a clients s = foldl (\<lambda>m c. appendMounts c [networkMount a s] m) [] clients"

definition getIndexMountDir :: "string \<Rightarrow> nat \<Rightarrow> string" where
  "getIndexMountDir namespace index = namespace @ ''-'' @ itoa_nat index"

text \<open>How often a Rabbit is in the list, and with how many allocations.\<close>

fun countNodes :: "NnfStorageAllocationNodes list \<Rightarrow> (string \<times> int \<times> nat) list \<Rightarrow> (string \<times> int \<times> nat) list" where
  "countNodes [] m = m"
| "countNodes (n # ns) m =
     countNodes ns (AList.update (san_Name n)
       (case map_of m (san_Name n) of
          None \<Rightarrow> (san_Count n, 1)
        | Some (allocationCount, instanceCount) \<Rightarrow> (wrap64 (allocationCount + san_Count n), Suc instanceCount)) m)"

definition lvmDevice :: "NnfNodeStorage \<Rightarrow> NnfNodeBlockStorage \<Rightarrow> nat \<Rightarrow> ClientMountDeviceLVM res" where
  "lvmDevice n nb i =
     (case indexR (nst_Allocations (ns_Status n)) i of
        Inl e \<Rightarrow> Inl e
      | Inr al \<Rightarrow>
          (case indexR (nbs_Allocations (nb_Status nb)) (if nbsp_SharedAllocation (nb_Spec nb) then 0 else i) of
             Inl e \<Rightarrow> Inl e
           | Inr bl \<Rightarrow> Inr \<lparr>cdv_DeviceType = ''nvme'',
               cdv_NVMeInfo = map (\<lambda>d. \<lparr>nvi_DeviceSerial = nbd_NQN d, nvi_NamespaceID = nbd_NamespaceId d, nvi_NamespaceGUID = []\<rparr>) (nbl_Devices bl),
               cdv_VolumeGroup = nsa_VolumeGroup al, cdv_LogicalVolume = nsa_LogicalVolume al\<rparr>))"

definition localMount :: "NnfAccess \<Rightarrow> NnfStorage \<Rightarrow> NnfNodeStorage \<Rightarrow> NnfNodeBlockStorage \<Rightarrow> nat \<Rightarrow> ClientMountInfo res" where
  "localMount a s n nb i =
     (let raw = (ssp_FileSystemType (nstg_Spec s) = ''raw'');
          ref = Some \<lparr>cdr_ObjectReference = emptyRef\<lparr>ref_Kind := ''NnfNodeStorage'', ref_Name := meta_Name (ns_Meta n),
                  ref_Namespace := meta_Namespace (ns_Meta n)\<rparr>, cdr_Data = i\<rparr>;
          info = \<lparr>cmi_MountPath = nas_MountPath (na_Spec a), cmi_UserID = nas_UserID (na_Spec a), cmi_GroupID = nas_GroupID (na_Spec a),
                  cmi_SetPermissions = raw, cmi_Options = (if raw then ''bind'' else []),
                  cmi_Device = \<lparr>cmd_Type = ''reference'', cmd_Lustre = None, cmd_LVM = None, cmd_DeviceReference = ref\<rparr>,
                  cmi_Type = (if raw then ''none'' else ssp_FileSystemType (nstg_Spec s)),
                  cmi_TargetType = (if raw then ''file'' else ''directory''), cmi_Compute = []\<rparr>
      in if \<not> forComputes a
         then Inr (info\<lparr>cmi_MountPath := filepath_Join (nas_MountPathPrefix (na_Spec a)) (getIndexMountDir (meta_Namespace (ns_Meta n)) i)\<rparr>)
         else case lvmDevice n nb i of
           Inl e \<Rightarrow> Inl e
         | Inr lvm \<Rightarrow> Inr (info\<lparr>cmi_Device := (cmi_Device info)\<lparr>cmd_Type := ''lvm'', cmd_LVM := Some lvm\<rparr>\<rparr>))"

fun mountsOfStorages :: "'w accessKube \<Rightarrow> NnfAccess \<Rightarrow> NnfStorage \<Rightarrow> NnfNodeStorage list \<Rightarrow> storageMapping \<Rightarrow> ('w, storageMapping) io" where
  "mountsOfStorages k a s [] existing = retE existing"
| "mountsOfStorages k a s (n # ns) existing =
     (if \<not> nst_Ready (ns_Status n) then mountsOfStorages k a s ns existing
      else let m = ns_Meta n in
        bindE (wrapE (majorError (''unable to get nnfNodeBlockStorage: '' @ objectKey m))
                 (kc_Get (ak_NodeBlock k) (meta_Namespace m) (meta_Name m))) (\<lambda>nb.
        bindE (mapME (\<lambda>i. liftE (localMount a s n nb i)) [0 ..< nat (nss_Count (ns_Spec n))]) (\<lambda>infos.
          mountsOfStorages k a s ns (if infos = [] then existing else appendMounts (meta_Namespace m) infos existing))))"

fun existingStorages :: "'w accessKube \<Rightarrow> NnfAccess \<Rightarrow> NnfStorage \<Rightarrow> string \<Rightarrow> (string \<times> int \<times> nat) list \<Rightarrow> storageMapping \<Rightarrow> ('w, storageMapping) io" where
  "existingStorages k a s setName [] existing = retE existing"
| "existingStorages k a s setName ((nodeName, allocationCount, instanceCount) # rest) existing =
     bindE (ak_ListNodeStorage k nodeName (allocationSetLabels s setName)) (\<lambda>items.
       if length items \<noteq> instanceCount
       then failE (ResErr (WithMajor (NewResourceError (''incorrect number of NnfNodeStorages. found '' @ itoa_nat (length items) @
              ''. Needed '' @ itoa_nat instanceCount @ ''.''))))
       else bindE (mountsOfStorages k a s items existing) (\<lambda>existing'.
              existingStorages k a s setName rest existing'))"

text \<open>The nodes that see a Rabbit take mounts off its list.\<close>

fun assignClients :: "string \<Rightarrow> string list \<Rightarrow> ClientMountInfo list \<Rightarrow> storageMapping \<Rightarrow> storageMapping res" where
  "assignClients target [] mounts mapping = Inr mapping"
| "assignClients target (c # cs) mounts mapping =
     (if map_of mapping c = None then assignClients target cs mounts mapping
      else case mounts of
        [] \<Rightarrow> Inl (ResErr (WithFatal (WithWLM (WithUserMessage
               ''invalid matching between clients and storage. Too many clients for storage'' (NewResourceError [])))))
      | m # ms \<Rightarrow>
          if target = ''all'' then assignClients target cs [] (appendMounts c mounts mapping)
          else if target = ''single'' then assignClients target cs ms (appendMounts c [m] mapping)
          else if target = ''shared'' then assignClients target cs mounts (appendMounts c [m] mapping)
          else Inl (ResErr (WithFatal (NewResourceError (''invalid target type '' @ CHR 0x27 # target @ [CHR 0x27])))))"

fun assignStorages :: "'w accessKube \<Rightarrow> string \<Rightarrow> storageMapping \<Rightarrow> storageMapping \<Rightarrow> ('w, storageMapping) io" where
  "assignStorages k target [] mapping = retE mapping"
| "assignStorages k target ((storageName, mounts) # rest) mapping =
     bindE (ak_GetRabbit k ''default'' storageName) (\<lambda>st.
       let access = sst_Access (sto_Status st) in
       bindE (liftE (assignClients target (map sno_Name (sac_Computes access) @ map sno_Name (sac_Servers access)) mounts mapping)) (\<lambda>mapping'.
         assignStorages k target rest mapping'))"

definition mapClientLocalStorage :: "'w accessKube \<Rightarrow> NnfAccess \<Rightarrow> string list \<Rightarrow> NnfStorage \<Rightarrow> NnfStorageAllocationSetSpec \<Rightarrow> ('w, storageMapping) io" where
  "mapClientLocalStorage k a clients s spec =
     bindE (rangeMap k (countNodes (sas_Nodes spec) [])) (\<lambda>counts.
     bindE (existingStorages k a s (sas_Name spec) counts []) (\<lambda>existing.
     bindE (rangeMap k existing) (\<lambda>existing'.
       assignStorages k (nas_Target (na_Spec a)) existing' (map (\<lambda>c. (c, [])) (remdups clients)))))"

text \<open>The helpers always return a map, so the first allocation set decides; without sets there is none.\<close>

definition mapClientStorage :: "'w accessKube \<Rightarrow> NnfAccess \<Rightarrow> string list \<Rightarrow> ('w, storageMapping) io" where
  "mapClientStorage k a clients =
     (if \<not> isStorageRef a then failE (Fail (''Invalid StorageReference kind '' @ ref_Kind (nas_StorageReference (na_Spec a))))
      else bindE (getAccessStorage k a) (\<lambda>s.
        case setsOf s of
          [] \<Rightarrow> retE []
        | spec # _ \<Rightarrow>
            if isLustre s then retE (mapClientNetworkStorage a clients s)
            else mapClientLocalStorage k a clients s spec))"

section \<open>Access to the block storage\<close>

record mountReference =
  mr_client :: string
  mr_allocationIndex :: nat

definition nodeStorageRef :: "ClientMountInfo \<Rightarrow> ClientMountDeviceReference option" where
  "nodeStorageRef mount =
     (case cmd_DeviceReference (cmi_Device mount) of
        None \<Rightarrow> None
      | Some d \<Rightarrow> if ref_Kind (cdr_ObjectReference d) = ''NnfNodeStorage'' then Some d else None)"

definition appendAtRef :: "ObjectReference \<Rightarrow> 'a \<Rightarrow> (ObjectReference \<times> 'a list) list \<Rightarrow> (ObjectReference \<times> 'a list) list" where
  "appendAtRef key x m = AList.update key ((case map_of m key of None \<Rightarrow> [] | Some ys \<Rightarrow> ys) @ [x]) m"

fun addMountRefs :: "string \<Rightarrow> ClientMountInfo list \<Rightarrow> (ObjectReference \<times> mountReference list) list \<Rightarrow> (ObjectReference \<times> mountReference list) list" where
  "addMountRefs client [] m = m"
| "addMountRefs client (mount # mounts) m =
     addMountRefs client mounts
       (case nodeStorageRef mount of
          None \<Rightarrow> m
        | Some d \<Rightarrow> appendAtRef (cdr_ObjectReference d) \<lparr>mr_client = client, mr_allocationIndex = cdr_Data d\<rparr> m)"

definition nodeStorageMap :: "storageMapping \<Rightarrow> (ObjectReference \<times> mountReference list) list" where
  "nodeStorageMap mapping = foldl (\<lambda>m (client, mounts). addMountRefs client mounts m) [] mapping"

text \<open>Every allocation starts with the Rabbit alone; the clients of this access are added.\<close>

definition addClient :: "bool \<Rightarrow> mountReference \<Rightarrow> NnfNodeBlockStorageAllocationSpec list \<Rightarrow> NnfNodeBlockStorageAllocationSpec list res" where
  "addClient shared mr als =
     (let i = (if shared then 0 else mr_allocationIndex mr) in
      case indexR als i of
        Inl e \<Rightarrow> Inl e
      | Inr al \<Rightarrow>
          Inr (if mr_client mr \<in> set (nbp_Access al) then als else als[i := al\<lparr>nbp_Access := nbp_Access al @ [mr_client mr]\<rparr>]))"

fun addClients :: "bool \<Rightarrow> mountReference list \<Rightarrow> NnfNodeBlockStorageAllocationSpec list \<Rightarrow> NnfNodeBlockStorageAllocationSpec list res" where
  "addClients shared [] als = Inr als"
| "addClients shared (mr # mrs) als =
     (case addClient shared mr als of Inl e \<Rightarrow> Inl e | Inr als' \<Rightarrow> addClients shared mrs als')"

definition setAllocations :: "NnfNodeBlockStorageAllocationSpec list \<Rightarrow> NnfNodeBlockStorage \<Rightarrow> NnfNodeBlockStorage" where
  "setAllocations als nb = nb\<lparr>nb_Spec := (nb_Spec nb)\<lparr>nbsp_Allocations := als\<rparr>\<rparr>"

definition openAccess :: "mountReference list \<Rightarrow> NnfNodeBlockStorage \<Rightarrow> NnfNodeBlockStorage res" where
  "openAccess mrs nb =
     (case addClients (nbsp_SharedAllocation (nb_Spec nb)) mrs
             (map (\<lambda>al. al\<lparr>nbp_Access := [meta_Namespace (nb_Meta nb)]\<rparr>) (nbsp_Allocations (nb_Spec nb))) of
        Inl e \<Rightarrow> Inl e
      | Inr als \<Rightarrow> Inr (setAllocations als nb))"

definition getBlockOf :: "'w accessKube \<Rightarrow> ObjectReference \<Rightarrow> ('w, NnfNodeBlockStorage) io" where
  "getBlockOf k ref =
     bindE (ak_GetNodeStorage k (ref_Namespace ref) (ref_Name ref)) (\<lambda>n.
       kc_Get (ak_NodeBlock k) (ref_Namespace (nss_BlockReference (ns_Spec n))) (ref_Name (nss_BlockReference (ns_Spec n))))"

fun openEach :: "'w accessKube \<Rightarrow> (ObjectReference \<times> mountReference list) list \<Rightarrow> ('w, unit) io" where
  "openEach k [] = retE ()"
| "openEach k ((ref, mrs) # rest) =
     bindE (getBlockOf k ref) (\<lambda>nb.
     bindE (liftE (openAccess mrs nb)) (\<lambda>nb'.
     bindE (if nb' = nb then retE () else bindE (kc_Update (ak_NodeBlock k) nb') (\<lambda>_. retE ())) (\<lambda>_.
       openEach k rest)))"

definition rangeNodeStorages :: "'w accessKube \<Rightarrow> storageMapping \<Rightarrow> ('w, (ObjectReference \<times> mountReference list) list) io" where
  "rangeNodeStorages k mapping =
     bindE (rangeMap k mapping) (\<lambda>mapping'. rangeMap k (nodeStorageMap mapping'))"

definition addBlockStorageAccess :: "'w accessKube \<Rightarrow> NnfAccess \<Rightarrow> storageMapping \<Rightarrow> ('w, unit) io" where
  "addBlockStorageAccess k a mapping =
     (if \<not> forComputes a then retE () else bindE (rangeNodeStorages k mapping) (openEach k))"

definition computeDown :: "Storage \<Rightarrow> string \<Rightarrow> bool" where
  "computeDown st name \<longleftrightarrow>
     list_ex (\<lambda>c. sno_Name c = name \<and> (sno_Status c = ''Offline'' \<or> sno_Status c = ''Fenced'')) (sac_Computes (sst_Access (sto_Status st)))"

text \<open>The nodes whose state does not count: none unless the access ignores computes that are down.\<close>

definition allocationDone :: "(string \<Rightarrow> bool) \<Rightarrow> string list \<Rightarrow> (string \<times> NnfNodeBlockStorageAccessStatus) list \<Rightarrow> bool" where
  "allocationDone down wanted present \<longleftrightarrow>
     list_all (\<lambda>node. down node \<or> (case map_of present node of None \<Rightarrow> False | Some b \<Rightarrow> nba_StorageGroupId b \<noteq> [])) wanted \<and>
     list_all (\<lambda>(node, b). node \<in> set wanted \<or> down node) present"

fun allocationsDone :: "(string \<Rightarrow> bool) \<Rightarrow> nat \<Rightarrow> NnfNodeBlockStorageAllocationSpec list \<Rightarrow> NnfNodeBlockStorageAllocationStatus list \<Rightarrow> bool res" where
  "allocationsDone down i [] statuses = Inr True"
| "allocationsDone down i (al # als) statuses =
     (case indexR statuses i of
        Inl e \<Rightarrow> Inl e
      | Inr st \<Rightarrow> if allocationDone down (nbp_Access al) (nbl_Accesses st) then allocationsDone down (Suc i) als statuses else Inr False)"

fun blocksDone :: "'w accessKube \<Rightarrow> bool \<Rightarrow> NnfNodeBlockStorage list \<Rightarrow> ('w, bool) io" where
  "blocksDone k ignore [] = retE True"
| "blocksDone k ignore (nb # nbs) =
     bindE (if ignore then bindE (ak_GetRabbit k ''default'' (meta_Namespace (nb_Meta nb))) (\<lambda>st. retE (computeDown st))
            else retE (\<lambda>_. False)) (\<lambda>down.
     bindE (liftE (allocationsDone down 0 (nbsp_Allocations (nb_Spec nb)) (nbs_Allocations (nb_Status nb)))) (\<lambda>fin.
       if fin then blocksDone k ignore nbs else retE False))"

definition getBlockStorageAccessStatus :: "'w accessKube \<Rightarrow> NnfAccess \<Rightarrow> storageMapping \<Rightarrow> ('w, bool) io" where
  "getBlockStorageAccessStatus k a mapping =
     (if \<not> forComputes a then retE True
      else bindE (rangeNodeStorages k mapping) (\<lambda>refs.
           bindE (mapME (\<lambda>(ref, mrs). getBlockOf k ref) refs) (\<lambda>nbs.
             case List.find (\<lambda>nb. nbs_Error (nb_Status nb) \<noteq> None) nbs of
               Some nb \<Rightarrow> failE (nodeError (meta_Namespace (nb_Meta nb)) (the (nbs_Error (nb_Status nb))))
             | None \<Rightarrow> blocksDone k (nas_IgnoreOfflineComputes (na_Spec a)) nbs)))"

text \<open>\<^verbatim>\<open>Access[:1]\<close> of an empty list is a panic.\<close>

definition closeAccess :: "NnfNodeBlockStorage \<Rightarrow> NnfNodeBlockStorage res" where
  "closeAccess nb =
     (if list_ex (\<lambda>al. nbp_Access al = []) (nbsp_Allocations (nb_Spec nb)) then Inl (Panic ''slice bounds out of range'')
      else Inr (setAllocations (map (\<lambda>al. al\<lparr>nbp_Access := take 1 (nbp_Access al)\<rparr>) (nbsp_Allocations (nb_Spec nb))) nb))"

fun closeEach :: "'w accessKube \<Rightarrow> (ObjectReference \<times> mountReference list) list \<Rightarrow> ('w, unit) io" where
  "closeEach k [] = retE ()"
| "closeEach k ((ref, mrs) # rest) =
     bindE (tryE (kc_Get (ak_NodeBlock k) (ref_Namespace ref) (ref_Name ref))) (\<lambda>got.
       case got of
         Inl e \<Rightarrow> if IsNotFound e then closeEach k rest else failE e
       | Inr nb \<Rightarrow>
           bindE (liftE (closeAccess nb)) (\<lambda>nb'.
           bindE (if nb' = nb then retE () else bindE (kc_Update (ak_NodeBlock k) nb') (\<lambda>_. retE ())) (\<lambda>_.
             closeEach k rest)))"

definition removeBlockStorageAccess :: "'w accessKube \<Rightarrow> NnfAccess \<Rightarrow> storageMapping \<Rightarrow> ('w, unit) io" where
  "removeBlockStorageAccess k a mapping =
     (if \<not> forComputes a then retE () else bindE (rangeNodeStorages k mapping) (closeEach k))"

section \<open>Client mounts\<close>

definition newClientMount :: "string \<Rightarrow> string \<Rightarrow> ClientMount" where
  "newClientMount name namespace =
     \<lparr>cm_Meta = zeroMeta\<lparr>meta_Name := name, meta_Namespace := namespace\<rparr>,
      cm_Spec = \<lparr>cms_Node = [], cms_DesiredState = [], cms_Mounts = []\<rparr>,
      cm_Status = \<lparr>cst_Mounts = [], cst_AllReady = False, cst_Error = None\<rparr>\<rparr>"

definition getDirectiveIndexLabel :: "ObjectMeta \<Rightarrow> string" where
  "getDirectiveIndexLabel m = labelOf DirectiveIndexLabel (meta_Labels m)"

definition setTargetDirectiveIndexLabel :: "ObjectMeta \<Rightarrow> string \<Rightarrow> ObjectMeta" where
  "setTargetDirectiveIndexLabel m value = m\<lparr>meta_Labels := kv_put TargetDirectiveIndexLabel value (meta_Labels m)\<rparr>"

definition setTargetOwnerUIDLabel :: "ObjectMeta \<Rightarrow> string \<Rightarrow> ObjectMeta" where
  "setTargetOwnerUIDLabel m value = m\<lparr>meta_Labels := kv_put TargetOwnerUidLabel value (meta_Labels m)\<rparr>"

definition fillClientMount :: "NnfAccess \<Rightarrow> NnfStorage \<Rightarrow> string \<Rightarrow> ClientMountInfo list \<Rightarrow> ClientMount \<Rightarrow> ClientMount" where
  "fillClientMount a s clientName mounts c =
     c\<lparr>cm_Meta := setTargetOwnerUIDLabel (setTargetDirectiveIndexLabel
         (AddOwnerLabels ''NnfAccess'' (na_Meta a) (InheritParentLabels (cm_Meta c) (na_Meta a)))
         (getDirectiveIndexLabel (nstg_Meta s))) (meta_UID (nstg_Meta s)),
       cm_Spec := \<lparr>cms_Node = clientName, cms_DesiredState = nas_DesiredState (na_Spec a), cms_Mounts = mounts\<rparr>\<rparr>"

text \<open>
  One goroutine per client; all of them run, and the error of the group is the error of one of them.
  Conflicts and objects that exist already are left to the next reconcile.
\<close>

fun makeMounts :: "'w accessKube \<Rightarrow> NnfAccess \<Rightarrow> NnfStorage \<Rightarrow> storageMapping \<Rightarrow> failure option \<Rightarrow> ('w, unit) io" where
  "makeMounts k a s [] err = (case err of None \<Rightarrow> retE () | Some e \<Rightarrow> failE e)"
| "makeMounts k a s ((clientName, mounts) # rest) err =
     bindE (tryE (CreateOrUpdate (ak_ClientMount k) cm_Meta (newClientMount (clientMountName a) clientName)
              (\<lambda>c. retE (fillClientMount a s clientName mounts c)))) (\<lambda>r.
       makeMounts k a s rest
         (case r of
            Inr _ \<Rightarrow> err
          | Inl e \<Rightarrow> if IsConflict e \<or> IsAlreadyExists e then err else (case err of None \<Rightarrow> Some e | Some e0 \<Rightarrow> Some e0)))"

definition manageClientMounts :: "'w accessKube \<Rightarrow> NnfAccess \<Rightarrow> storageMapping \<Rightarrow> ('w, unit) io" where
  "manageClientMounts k a mapping =
     (if \<not> nas_MakeClientMounts (na_Spec a) then retE ()
      else if \<not> isStorageRef a
      then failE (fatalError (''invalid StorageReference kind '' @ ref_Kind (nas_StorageReference (na_Spec a))))
      else bindE (wrapE (majorError (''could not get NnfStorage '' @ ref_Namespace (nas_StorageReference (na_Spec a)) @ ''/'' @
                           ref_Name (nas_StorageReference (na_Spec a)))) (getAccessStorage k a)) (\<lambda>s.
           bindE (rangeMap k mapping) (\<lambda>mapping'. makeMounts k a s mapping' None)))"

definition clientMountAtState :: "ClientMount \<Rightarrow> string \<Rightarrow> bool" where
  "clientMountAtState c state \<longleftrightarrow>
     length (cst_Mounts (cm_Status c)) = length (cms_Mounts (cm_Spec c)) \<and>
     list_all (\<lambda>m. cis_State m = state) (cst_Mounts (cm_Status c))"

section \<open>Computes that are down\<close>

definition rabbitOf :: "string \<Rightarrow> SystemConfigurationStorageNode list \<Rightarrow> string option" where
  "rabbitOf compute nodes =
     map_option scs_Name (List.find (\<lambda>n. list_ex (\<lambda>c. scr_Name c = compute) (scs_ComputesAccess n)) nodes)"

definition GetRabbitFromCompute :: "'w accessKube \<Rightarrow> string \<Rightarrow> ('w, string) io" where
  "GetRabbitFromCompute k compute =
     bindE (wrapE (majorError ''could not get SystemConfiguration default/default'') (ak_GetConfiguration k ''default'' ''default'')) (\<lambda>sc.
       case rabbitOf compute (sc_StorageNodes sc) of
         Some name \<Rightarrow> retE name
       | None \<Rightarrow> failE (ResErr (WithMajor (NewResourceError (''could not find compute in SystemConfiguration: '' @ compute)))))"

definition getRabbitFromClientMount :: "'w accessKube \<Rightarrow> ClientMount \<Rightarrow> ('w, string) io" where
  "getRabbitFromClientMount k c =
     bindE (liftE (indexR (cms_Mounts (cm_Spec c)) 0)) (\<lambda>m.
     bindE (liftE (derefR (cmd_DeviceReference (cmi_Device m)))) (\<lambda>d.
       if ref_Kind (cdr_ObjectReference d) = ''NnfNodeStorage'' then retE (ref_Namespace (cdr_ObjectReference d))
       else GetRabbitFromCompute k (meta_Namespace (cm_Meta c))))"

text \<open>The first entry of the compute decides: \<open>(offline, fenced)\<close>.\<close>

definition computeState :: "Storage \<Rightarrow> string \<Rightarrow> string" where
  "computeState st name =
     (case List.find (\<lambda>c. sno_Name c = name) (sac_Computes (sst_Access (sto_Status st))) of None \<Rightarrow> [] | Some c \<Rightarrow> sno_Status c)"

definition checkOfflineOrFencedCompute :: "'w accessKube \<Rightarrow> NnfAccess \<Rightarrow> ClientMount \<Rightarrow> ('w, bool \<times> bool) io" where
  "checkOfflineOrFencedCompute k a c =
     (if \<not> forComputes a then retE (False, False)
      else bindE (getRabbitFromClientMount k c) (\<lambda>rabbit.
           bindE (wrapE (majorError (''could not get Storage default/'' @ rabbit)) (ak_GetRabbit k ''default'' rabbit)) (\<lambda>st.
             let name = meta_Namespace (cm_Meta c) in
             if computeState st name = ''Fenced'' then retE (True, True)
             else if computeState st name = ''Offline'' then retE (True, False)
             else bindE (tryE (ak_GetSystemStatus k ''default'' ''default'')) (\<lambda>got.
               case got of
                 Inl e \<Rightarrow> retE (False, False)
               | Inr nodes \<Rightarrow> retE (map_of nodes name = Some ''Disabled'', False)))))"

fun dropOfflineClientMounts :: "'w accessKube \<Rightarrow> NnfAccess \<Rightarrow> ClientMount list \<Rightarrow> ('w, ClientMount list) io" where
  "dropOfflineClientMounts k a [] = retE []"
| "dropOfflineClientMounts k a (c # cs) =
     bindE (checkOfflineOrFencedCompute k a c) (\<lambda>(offline, fenced).
     bindE (dropOfflineClientMounts k a cs) (\<lambda>pending.
       retE (if fenced \<or> offline then pending else c # pending)))"

definition fencedAmong :: "'w accessKube \<Rightarrow> string \<Rightarrow> ('w, bool) io" where
  "fencedAmong k compute =
     bindE (tryE (bindE (GetRabbitFromCompute k compute) (\<lambda>rabbit. ak_GetRabbit k ''default'' rabbit))) (\<lambda>got.
       case got of Inl e \<Rightarrow> retE False | Inr st \<Rightarrow> retE (computeState st compute = ''Fenced''))"

fun fencedList :: "'w accessKube \<Rightarrow> string list \<Rightarrow> ('w, string list) io" where
  "fencedList k [] = retE []"
| "fencedList k (c # cs) =
     bindE (fencedAmong k c) (\<lambda>fenced. bindE (fencedList k cs) (\<lambda>rest. retE (if fenced then c # rest else rest)))"

definition getFencedComputes :: "'w accessKube \<Rightarrow> NnfAccess \<Rightarrow> string list \<Rightarrow> ClientMount list \<Rightarrow> ('w, string list) io" where
  "getFencedComputes k a clientList mounts =
     (if \<not> forComputes a then retE []
      else fencedList k (filter (\<lambda>c. c \<notin> (\<lambda>m. meta_Namespace (cm_Meta m)) ` set mounts) clientList))"

fun groupComputes :: "'w accessKube \<Rightarrow> string list \<Rightarrow> (string \<times> string list) list \<Rightarrow> ('w, (string \<times> string list) list) io" where
  "groupComputes k [] m = retE m"
| "groupComputes k (c # cs) m =
     bindE (tryE (GetRabbitFromCompute k c)) (\<lambda>got.
       groupComputes k cs (case got of Inl e \<Rightarrow> m
         | Inr rabbit \<Rightarrow> AList.update rabbit ((case map_of m rabbit of None \<Rightarrow> [] | Some ys \<Rightarrow> ys) @ [c]) m))"

fun fencedOnRabbits :: "'w accessKube \<Rightarrow> (string \<times> string list) list \<Rightarrow> ('w, string list) io" where
  "fencedOnRabbits k [] = retE []"
| "fencedOnRabbits k ((rabbit, computes) # rest) =
     bindE (tryE (ak_GetRabbit k ''default'' rabbit)) (\<lambda>got.
     bindE (fencedOnRabbits k rest) (\<lambda>more.
       retE ((case got of Inl e \<Rightarrow> []
              | Inr st \<Rightarrow> filter (\<lambda>name. list_ex (\<lambda>c. sno_Name c = name \<and> sno_Status c = ''Fenced'') (sac_Computes (sst_Access (sto_Status st)))) computes) @ more)))"

definition printList :: "string list \<Rightarrow> string" where
  "printList xs = ''['' @ go_join '' '' xs @ '']''"

definition fencedError :: "string list \<Rightarrow> failure" where
  "fencedError cs = ResErr (WithUserMessage (''Workflow failed: compute nodes '' @ printList cs @ '' were fenced during the job'')
     (WithFatal (NewResourceError (''compute nodes have been fenced: '' @ printList cs))))"

definition detectFencedComputes :: "'w accessKube \<Rightarrow> NnfAccess \<Rightarrow> string list \<Rightarrow> ('w, unit) io" where
  "detectFencedComputes k a clientList =
     (if \<not> forComputes a then retE ()
      else bindE (groupComputes k clientList []) (\<lambda>m.
           bindE (rangeMap k m) (\<lambda>m'.
           bindE (fencedOnRabbits k m') (\<lambda>fenced.
             if fenced = [] then retE () else failE (fencedError fenced)))))"

section \<open>The state of the client mounts\<close>

definition envTimeout :: "'w accessKube \<Rightarrow> string \<Rightarrow> int option" where
  "envTimeout k name =
     (let v = (case ak_Getenv k name of None \<Rightarrow> [] | Some v \<Rightarrow> v) in
      if v = [] then None else case atoi v of None \<Rightarrow> Some 300 | Some t \<Rightarrow> Some t)"

definition mountDone :: "string \<Rightarrow> ClientMount \<Rightarrow> bool" where
  "mountDone state c \<longleftrightarrow>
     length (cst_Mounts (cm_Status c)) = length (cms_Mounts (cm_Spec c)) \<and>
     list_all (\<lambda>m. cis_State m = state \<and> cis_Ready m) (cst_Mounts (cm_Status c))"

text \<open>A client mount that no daemon has seen yet: true ends the check with \<^verbatim>\<open>false\<close>.\<close>

definition mountTimeout :: "'w accessKube \<Rightarrow> ClientMount list \<Rightarrow> ('w, bool) io" where
  "mountTimeout k cs =
     (case envTimeout k ''NNF_CHILD_RESOURCE_TIMEOUT_SECONDS'' of
        None \<Rightarrow> retE False
      | Some childTimeout \<Rightarrow>
          (case List.find (\<lambda>c. meta_Finalizers (cm_Meta c) = []) cs of
             None \<Rightarrow> retE False
           | Some c \<Rightarrow> (\<lambda>w.
               if meta_CreationTimestamp (cm_Meta c) + wrap64 (childTimeout * second) < ak_Now k w
               then (Inl (ResErr (WithMajor (NewResourceError (''Node: '' @ meta_Namespace (cm_Meta c) @
                      '': ClientMount has not been reconciled after '' @ itoa childTimeout @ '' seconds'')))), w)
               else (Inr True, w))))"

definition missingFenced :: "'w accessKube \<Rightarrow> NnfAccess \<Rightarrow> string list \<Rightarrow> ClientMount list \<Rightarrow> ('w, bool) io" where
  "missingFenced k a clientList mounts =
     (if meta_Deleting (na_Meta a) \<or> nas_DesiredState (na_Spec a) \<noteq> ''unmounted'' then retE False
      else bindE (tryE (getFencedComputes k a clientList mounts)) (\<lambda>got.
        case got of
          Inl e \<Rightarrow> retE False
        | Inr fenced \<Rightarrow> retE (fenced \<noteq> [] \<and> int (length fenced) = int (length clientList) - int (length mounts))))"

definition mountsSettled :: "'w accessKube \<Rightarrow> NnfAccess \<Rightarrow> string list \<Rightarrow> ClientMount list \<Rightarrow> ClientMount list \<Rightarrow> ('w, bool) io" where
  "mountsSettled k a clientList mounts pending =
     (case List.find (\<lambda>c. cst_Error (cm_Status c) \<noteq> None \<and> clientMountAtState c (nast_State (na_Status a))) pending of
        Some c \<Rightarrow> failE (nodeError (meta_Namespace (cm_Meta c)) (the (cst_Error (cm_Status c))))
      | None \<Rightarrow>
          bindE (mountTimeout k pending) (\<lambda>early.
            if early then retE False
            else if \<not> list_all (mountDone (nast_State (na_Status a))) pending then retE False
            else if length mounts \<noteq> length clientList then missingFenced k a clientList mounts
            else retE True))"

definition getClientMountStatus :: "'w accessKube \<Rightarrow> NnfAccess \<Rightarrow> string list \<Rightarrow> ('w, bool) io" where
  "getClientMountStatus k a clientList =
     (if \<not> nas_MakeClientMounts (na_Spec a) then retE True
      else bindE (wrapE (withError ''could not list ClientMounts'') (ak_ListClientMount k (MatchingOwner ''NnfAccess'' (na_Meta a)))) (\<lambda>items.
        let mounts = filter (\<lambda>c. meta_Namespace (cm_Meta c) \<in> set clientList) items in
        bindE (if nas_DesiredState (na_Spec a) = ''unmounted'' then dropOfflineClientMounts k a mounts else retE mounts) (\<lambda>pending.
          mountsSettled k a clientList mounts pending)))"

fun releaseOffline :: "'w accessKube \<Rightarrow> NnfAccess \<Rightarrow> ClientMount list \<Rightarrow> ('w, unit) io" where
  "releaseOffline k a [] = retE ()"
| "releaseOffline k a (c # cs) =
     bindE (checkOfflineOrFencedCompute k a c) (\<lambda>(offline, fenced).
     bindE (if \<not> offline then retE ()
            else catchE (bindE (kc_Update (ak_ClientMount k) (c\<lparr>cm_Meta := (cm_Meta c)\<lparr>meta_Finalizers :=
                     RemoveFinalizer finalizerNnfClientMount (meta_Finalizers (cm_Meta c))\<rparr>\<rparr>)) (\<lambda>_. retE ()))
                   (\<lambda>e. if IsConflict e then retE ()
                        else failE (withError (''could not update ClientMount to remove finalizer for offline compute: '' @ objectKey (cm_Meta c)) e))) (\<lambda>_.
       releaseOffline k a cs))"

definition removeOfflineClientMounts :: "'w accessKube \<Rightarrow> NnfAccess \<Rightarrow> ('w, unit) io" where
  "removeOfflineClientMounts k a =
     (if \<not> nas_MakeClientMounts (na_Spec a) then retE ()
      else bindE (\<lambda>w. (Inr (case envTimeout k ''NNF_CHILD_DELETION_TIMEOUT_SECONDS'' of
               None \<Rightarrow> False
             | Some t \<Rightarrow> ak_Now k w < meta_DeletionTimestamp (na_Meta a) + wrap64 (t * second)), w)) (\<lambda>waiting.
        if waiting then retE ()
        else bindE (wrapE (withError ''could not list ClientMounts'') (ak_ListClientMount k (MatchingOwner ''NnfAccess'' (na_Meta a))))
               (releaseOffline k a)))"

section \<open>Reconcile\<close>

definition accessMount :: "'w accessKube \<Rightarrow> string list \<Rightarrow> storageMapping \<Rightarrow> (NnfAccess \<times> 'w, Result option) io" where
  "accessMount k clientList mapping = bindE getE (\<lambda>a.
     bindE (wrapE (withError ''unable to lock storage'') (sndE (lockStorage k a))) (\<lambda>wait.
     if wait then retE (Some (requeueAfter second)) else
     bindE (catchE (bindE (sndE (addBlockStorageAccess k a mapping)) (\<lambda>_. retE None))
              (\<lambda>e. if IsConflict e then retE (Some (requeueAfter (second * 2)))
                   else failE (withError ''unable to add endpoints to NnfNodeStorage'' e))) (\<lambda>conflict.
     case conflict of Some r \<Rightarrow> retE (Some r) | None \<Rightarrow>
     bindE (wrapE (withError ''unable to check endpoints for NnfNodeStorage'') (sndE (getBlockStorageAccessStatus k a mapping))) (\<lambda>ready.
     if \<not> ready then bindE (modifyE (setAccessReady False)) (\<lambda>_. retE (Some (requeueAfter (second * 2)))) else
     bindE (catchE (bindE (sndE (manageClientMounts k a mapping)) (\<lambda>_. retE None))
              (\<lambda>e. if IsConflict e then retE (Some doneResult)
                   else failE (withError ''unable to create ClientMount resources'' e))) (\<lambda>conflict.
     case conflict of Some r \<Rightarrow> retE (Some r) | None \<Rightarrow>
     bindE (wrapE (withError ''unable to check ClientMount status'') (sndE (getClientMountStatus k a clientList))) (\<lambda>ready.
       retE (if ready then None else Some (requeueAfter (60 * second)))))))))"

definition accessUnmount :: "'w accessKube \<Rightarrow> string list \<Rightarrow> storageMapping \<Rightarrow> (NnfAccess \<times> 'w, Result option) io" where
  "accessUnmount k clientList mapping = bindE getE (\<lambda>a. sndE (
     bindE (wrapE (withError ''unable to update ClientMount resources'') (manageClientMounts k a mapping)) (\<lambda>_.
     bindE (wrapE (withError ''unable to get ClientMount status'') (getClientMountStatus k a clientList)) (\<lambda>ready.
     if \<not> ready then retE (Some (requeueAfter second)) else
     bindE (wrapE (withError ''unable to remove NnfNodeStorage endpoints'') (removeBlockStorageAccess k a mapping)) (\<lambda>_.
     bindE (wrapE (withError ''unable to check endpoints for NnfNodeStorage'') (getBlockStorageAccessStatus k a mapping)) (\<lambda>ready.
     if \<not> ready then retE (Some (requeueAfter (second * 2))) else
     bindE (wrapE (withError ''unable to unlock storage'') (unlockStorage k a)) (\<lambda>_. retE None)))))))"

definition setAccessFinalizers :: "(string list \<Rightarrow> string list) \<Rightarrow> NnfAccess \<Rightarrow> NnfAccess" where
  "setAccessFinalizers f a = a\<lparr>na_Meta := (na_Meta a)\<lparr>meta_Finalizers := f (meta_Finalizers (na_Meta a))\<rparr>\<rparr>"

abbreviation accessHeld :: "NnfAccess \<Rightarrow> bool" where
  "accessHeld a \<equiv> ContainsFinalizer finalizerNnfAccess (meta_Finalizers (na_Meta a))"

definition deleteAccess :: "'w accessKube \<Rightarrow> storageMapping \<Rightarrow> (NnfAccess \<times> 'w, Result) io" where
  "deleteAccess k mapping = bindE getE (\<lambda>a.
     if \<not> accessHeld a then retE doneResult
     else bindE (sndE (DeleteChildren [ak_ClientMounts k] ''NnfAccess'' (na_Meta a))) (\<lambda>complete.
       if \<not> complete then bindE (sndE (removeOfflineClientMounts k a)) (\<lambda>_. retE (requeueAfter second))
       else bindE (sndE (removeBlockStorageAccess k a mapping)) (\<lambda>_.
            bindE (sndE (unlockStorage k a)) (\<lambda>_.
            bindE (modifyE (setAccessFinalizers (RemoveFinalizer finalizerNnfAccess))) (\<lambda>_.
              updateOrRequeue (ak_Access k))))))"

definition mountError :: "string \<Rightarrow> failure \<Rightarrow> failure" where
  "mountError msg e = ResErr (WithUserMessage msg (WithError (Some e) (NewResourceError [])))"

definition accessAchieved :: "NnfAccess \<Rightarrow> NnfAccess" where
  "accessAchieved = updAccess (\<lambda>st. st\<lparr>nast_Ready := True, nast_Error := None\<rparr>)"

text \<open>A fenced compute is reported whether the mount succeeded or not, and before its error.\<close>

definition mountStage :: "'w accessKube \<Rightarrow> string list \<Rightarrow> storageMapping \<Rightarrow> (NnfAccess \<times> 'w, Result option) io" where
  "mountStage k clientList mapping =
     bindE (tryE (accessMount k clientList mapping)) (\<lambda>r.
     bindE getE (\<lambda>a.
     bindE (sndE (detectFencedComputes k a clientList)) (\<lambda>_.
       case r of Inl e \<Rightarrow> failE (mountError ''unable to mount file system on client nodes'' e) | Inr res \<Rightarrow> retE res)))"

definition unmountStage :: "'w accessKube \<Rightarrow> string list \<Rightarrow> storageMapping \<Rightarrow> (NnfAccess \<times> 'w, Result option) io" where
  "unmountStage k clientList mapping =
     bindE (wrapE (mountError ''unable to unmount file system from client nodes'') (accessUnmount k clientList mapping)) (\<lambda>res.
     bindE getE (\<lambda>a.
     bindE (if res = None \<and> nast_State (na_Status a) = ''unmounted'' then sndE (detectFencedComputes k a clientList) else retE ()) (\<lambda>_.
       retE res)))"

definition liveAccess :: "'w accessKube \<Rightarrow> string list \<Rightarrow> storageMapping \<Rightarrow> (NnfAccess \<times> 'w, Result) io" where
  "liveAccess k clientList mapping = bindE getE (\<lambda>a.
     if \<not> accessHeld a then
       bindE (modifyE (setAccessFinalizers (AddFinalizer finalizerNnfAccess))) (\<lambda>_. updateOrRequeue (ak_Access k))
     else bindE (if nast_State (na_Status a) = ''mounted'' then mountStage k clientList mapping else unmountStage k clientList mapping) (\<lambda>res.
       case res of
         Some r \<Rightarrow> retE r
       | None \<Rightarrow> bindE (modifyE accessAchieved) (\<lambda>_. retE doneResult)))"

definition accessBody :: "'w accessKube \<Rightarrow> (NnfAccess \<times> 'w, Result) io" where
  "accessBody k = bindE getE (\<lambda>a.
     if \<not> meta_Deleting (na_Meta a) \<and> accessHeld a \<and> nas_DesiredState (na_Spec a) \<noteq> nast_State (na_Status a) then
       bindE (modifyE (updAccess (\<lambda>st. st\<lparr>nast_State := nas_DesiredState (na_Spec a), nast_Ready := False, nast_Error := None\<rparr>)))
         (\<lambda>_. retE requeueResult)
     else bindE (sndE (getClientList k a)) (\<lambda>clientList.
          bindE (sndE (mapClientStorage k a clientList)) (\<lambda>mapping.
            if meta_Deleting (na_Meta a) then deleteAccess k mapping else liveAccess k clientList mapping)))"

definition setAccessError :: "failure option \<Rightarrow> NnfAccess \<Rightarrow> NnfAccess" where
  "setAccessError err = updAccess (\<lambda>st. st\<lparr>nast_Error := resourceError err\<rparr>)"

definition NnfAccess_Reconcile :: "'w accessKube \<Rightarrow> string \<Rightarrow> string \<Rightarrow> 'w \<Rightarrow> NnfAccess option outcome \<times> 'w" where
  "NnfAccess_Reconcile k namespace name =
     reconcileObject (ak_Access k) na_Status setAccessError namespace name (accessBody k)"

section \<open>Which accesses a change wakes up\<close>

definition ownersAccesses :: "'w accessKube \<Rightarrow> kv \<Rightarrow> ('w, (string \<times> string) list) io" where
  "ownersAccesses k labels =
     (case (map_of labels OwnerNameLabel, map_of labels OwnerNamespaceLabel, map_of labels OwnerKindLabel) of
        (Some name, Some namespace, Some kind) \<Rightarrow>
          bindE (tryE (ak_ListAccess k [(OwnerKindLabel, kind), (OwnerNameLabel, name), (OwnerNamespaceLabel, namespace)])) (\<lambda>got.
            case got of
              Inl e \<Rightarrow> retE []
            | Inr items \<Rightarrow> retE (map (\<lambda>a. (meta_Name (na_Meta a), meta_Namespace (na_Meta a))) items))
      | _ \<Rightarrow> retE [])"

definition ComputesEnqueueRequests :: "'w accessKube \<Rightarrow> ObjectMeta \<Rightarrow> ('w, (string \<times> string) list) io" where
  "ComputesEnqueueRequests k o' =
     bindE (tryE (ak_GetComputes k (meta_Namespace o') (meta_Name o'))) (\<lambda>got.
       case got of Inl e \<Rightarrow> retE [] | Inr c \<Rightarrow> ownersAccesses k (meta_Labels (cpt_Meta c)))"

definition NnfStorageEnqueueRequests :: "'w accessKube \<Rightarrow> ObjectMeta \<Rightarrow> ('w, (string \<times> string) list) io" where
  "NnfStorageEnqueueRequests k o' = ownersAccesses k (meta_Labels o')"


section \<open>The lock\<close>

text \<open>
  The cluster's copy of one storage. An update that is based on an old copy is a conflict and
  changes nothing, so a reading and the update that follows are one step.
\<close>

definition cellClient :: "('o, 'o) kclient" where
  "cellClient = \<lparr>kc_Get = \<lambda>_ _ s. (Inr s, s), kc_Create = \<lambda>x _. (Inr x, x), kc_Update = \<lambda>x _. (Inr x, x),
     kc_UpdateStatus = \<lambda>x _. (Inr x, x)\<rparr>"

definition lockOf :: "NnfStorage \<Rightarrow> string option" where
  "lockOf s = map_of (meta_Annotations (nstg_Meta s)) NnfAccessAnnotation"

abbreviation exclusiveStorage :: "NnfStorage \<Rightarrow> bool" where
  "exclusiveStorage s \<equiv> ssp_FileSystemType (nstg_Spec s) = ''xfs''"

text \<open>
  The accesses of a storage in any order: \<open>holders\<close> are the owners that were told to go on and have not
  unlocked. \<open>Other\<close> is any change by the controller of the storage.
\<close>

inductive lockStep :: "NnfStorage accessKube \<Rightarrow> NnfStorage \<times> string set \<Rightarrow> NnfStorage \<times> string set \<Rightarrow> bool"
  for k where
  Lock: "lockStorage k a s = (Inr wait, s') \<Longrightarrow>
     lockStep k (s, holders) (s', if wait then holders else insert (accessOwner a) holders)"
| Unlock: "unlockStorage k a s = (Inr (), s') \<Longrightarrow> lockStep k (s, holders) (s', holders - {accessOwner a})"
| Other: "lockOf s' = lockOf s \<Longrightarrow> nstg_Spec s' = nstg_Spec s \<Longrightarrow> lockStep k (s, holders) (s', holders)"

inductive_cases lockStepE: "lockStep k p q"

definition lockInv :: "NnfStorage \<times> string set \<Rightarrow> bool" where
  "lockInv p \<longleftrightarrow> (exclusiveStorage (fst p) \<longrightarrow> (\<forall>h \<in> snd p. lockOf (fst p) = Some h))"

lemma lockStorage_cell:
  assumes "ak_Storage k = cellClient" "lockStorage k a s = (Inr wait, s')"
  shows "nstg_Spec s' = nstg_Spec s"
    and "exclusiveStorage s \<Longrightarrow> \<not> wait \<Longrightarrow> lockOf s' = Some (accessOwner a)"
    and "exclusiveStorage s \<Longrightarrow> lockOf s = None \<or> lockOf s = lockOf s'"
    and "exclusiveStorage s \<Longrightarrow> \<not> wait \<Longrightarrow> lockOf s = None \<or> lockOf s = Some (accessOwner a)"
  using assms
  by (auto simp: lockStorage_def getAccessStorage_def cellClient_def bindE_def retE_def failE_def lockOf_def Let_def
        setStorageFinalizers_def map_of_kv_put split: if_splits option.splits)

lemma unlockStorage_cell:
  assumes "ak_Storage k = cellClient" "unlockStorage k a s = (Inr (), s')"
  shows "nstg_Spec s' = nstg_Spec s"
    and "exclusiveStorage s \<Longrightarrow> lockOf s \<noteq> Some (accessOwner a) \<Longrightarrow> lockOf s' = lockOf s"
  using assms
  by (auto simp: unlockStorage_def getAccessStorage_def cellClient_def bindE_def retE_def failE_def lockOf_def Let_def
        setStorageFinalizers_def split: if_splits option.splits)

lemma lockInv_step:
  assumes "ak_Storage k = cellClient" "lockStep k p q" "lockInv p"
  shows "lockInv q"
  using assms(2)
proof (cases rule: lockStep.cases)
  case (Lock a s wait s' holders)
  note cell = lockStorage_cell [OF assms(1) Lock(3)]
  have held: "lockOf s = Some h" if "exclusiveStorage s" "h \<in> holders" for h
    using assms(3) that by (simp add: Lock lockInv_def)
  have "lockOf s' = Some h" if "exclusiveStorage s" "h \<in> (if wait then holders else insert (accessOwner a) holders)" for h
    using that held [OF that(1), of h] cell(2, 3) by (cases wait) auto
  with cell(1) show ?thesis by (simp add: Lock lockInv_def)
next
  case (Unlock a s s' holders)
  note cell = unlockStorage_cell [OF assms(1) Unlock(3)]
  show ?thesis
    using assms(3) cell unfolding Unlock lockInv_def by (auto, metis option.inject)
next
  case (Other s' s holders)
  then show ?thesis using assms(3) by (simp add: lockInv_def)
qed

text \<open>
  C12. The annotation is a lock: however the accesses of an xfs storage lock and unlock it, at most one of
  them is let on at a time, so the file system is never mounted from two sides.
\<close>

theorem access_lock_exclusive:
  assumes "ak_Storage k = cellClient" "(lockStep k)\<^sup>*\<^sup>* (s, {}) (s', holders)" "exclusiveStorage s'"
    "x \<in> holders" "y \<in> holders"
  shows "x = y"
proof -
  have "lockInv (s', holders)"
    using assms(2)
  proof (induction rule: rtranclp_induct)
    case base
    then show ?case by (simp add: lockInv_def)
  next
    case (step p q)
    then show ?case using lockInv_step [OF assms(1)] by blast
  qed
  with assms(3) have "\<forall>h \<in> holders. lockOf s' = Some h" by (simp add: lockInv_def)
  with assms(4, 5) show ?thesis by (metis option.inject)
qed

text \<open>
  The lock is handed on: after the holder has unlocked an xfs storage the next access that tries gets
  it, and an access that tries while it is held is told to wait and changes nothing.
\<close>

theorem access_lock_handed_on:
  assumes "ak_Storage k = cellClient" "exclusiveStorage s" "kv_wf (meta_Annotations (nstg_Meta s))"
    "lockOf s = Some (accessOwner a)" "isStorageRef a" "isStorageRef b" "accessOwner b \<noteq> accessOwner a"
  shows "lockStorage k b s = (Inr True, s) \<and>
    (\<exists>s'. unlockStorage k a s = (Inr (), s') \<and> lockOf s' = None \<and> (\<exists>s''. lockStorage k b s' = (Inr False, s'')))"
  using assms
  by (auto simp: lockStorage_def unlockStorage_def getAccessStorage_def cellClient_def bindE_def retE_def lockOf_def Let_def
        setStorageFinalizers_def kv_wf_def delete_conv')

text \<open>
  The finalizer that an access keeps on a shared storage is named after the access without its
  namespace: of two accesses with one name the first to unlock takes the finalizer of the other along.
\<close>

theorem access_finalizer_by_name:
  assumes "ak_Storage k = cellClient" "\<not> exclusiveStorage s" "isStorageRef a" "isStorageRef b"
    "meta_Name (na_Meta a) = meta_Name (na_Meta b)"
  shows "\<exists>s1 s2 s3. lockStorage k a s = (Inr False, s1) \<and> lockStorage k b s1 = (Inr False, s2) \<and>
    unlockStorage k a s2 = (Inr (), s3) \<and> \<not> ContainsFinalizer (storageFinalizer b) (meta_Finalizers (nstg_Meta s3))"
  using assms
  by (simp add: lockStorage_def unlockStorage_def getAccessStorage_def cellClient_def bindE_def retE_def Let_def
        setStorageFinalizers_def storageFinalizer_def)


section \<open>Who gets which device\<close>

text \<open>What is relied on: a list in a namespace holds objects of it, each once, and a range over a map sees every entry once.\<close>

definition listsByNamespace :: "'w accessKube \<Rightarrow> bool" where
  "listsByNamespace k \<longleftrightarrow> (\<forall>namespace labels w items w'. ak_ListNodeStorage k namespace labels w = (Inr items, w') \<longrightarrow>
     (\<forall>n \<in> set items. meta_Namespace (ns_Meta n) = namespace) \<and> distinct (map (\<lambda>n. meta_Name (ns_Meta n)) items))"

definition rangesOnce :: "'w accessKube \<Rightarrow> bool" where
  "rangesOnce k \<longleftrightarrow> (\<forall>w n. mset (ak_Perm k w n) = mset [0 ..< n])"

definition mountDevice :: "ClientMountInfo \<Rightarrow> (ObjectReference \<times> nat) option" where
  "mountDevice m = map_option (\<lambda>d. (cdr_ObjectReference d, cdr_Data d)) (cmd_DeviceReference (cmi_Device m))"

abbreviation mountsOf :: "storageMapping \<Rightarrow> ClientMountInfo list" where
  "mountsOf m \<equiv> concat (map snd m)"

lemma rangeMap_mset:
  assumes "rangesOnce k" "rangeMap k m w = (Inr m', w')"
  shows "mset m' = mset m"
proof -
  have "mset m' = image_mset ((!) m) (mset (ak_Perm k w (length m)))"
    using assms(2) by (auto simp: rangeMap_def)
  also have "\<dots> = mset (map ((!) m) [0 ..< length m])"
    using assms(1) by (simp only: rangesOnce_def mset_map)
  finally show ?thesis by (simp add: map_nth)
qed

lemma mset_mountsOf: "mset (mountsOf m) = (\<Sum>p \<in># mset m. mset (snd p))"
  by (induction m) simp_all

lemma rangeMap_mountsOf:
  "rangesOnce k \<Longrightarrow> rangeMap k m w = (Inr m', w') \<Longrightarrow> mset (mountsOf m') = mset (mountsOf m)"
  by (simp add: mset_mountsOf rangeMap_mset del: mset_concat mset_map)

lemma appendMounts_mset [simp]: "mset (mountsOf (appendMounts key xs m)) = mset (mountsOf m) + mset xs"
proof (induction m)
  case Nil
  then show ?case by (simp add: appendMounts_def)
next
  case (Cons p m)
  then show ?case by (cases p) (auto simp: appendMounts_def split: option.splits)
qed

lemma appendMounts_keys: "map_of m key \<noteq> None \<Longrightarrow> map fst (appendMounts key xs m) = map fst m"
  unfolding appendMounts_def by (auto simp: update_keys map_of_eq_None_iff)

lemma assignClients_mset:
  assumes "assignClients target cs mounts mapping = Inr mapping'" "target \<noteq> ''shared''"
  shows "mset (mountsOf mapping') \<subseteq># mset (mountsOf mapping) + mset mounts"
  using assms
proof (induction target cs mounts mapping rule: assignClients.induct)
  case (2 target c cs mounts mapping)
  show ?case
  proof (cases "map_of mapping c = None")
    case True
    with 2 show ?thesis by simp
  next
    case False
    then obtain m ms where mounts: "mounts = m # ms" using 2(5) by (cases mounts) auto
    consider (all) "target = ''all''" | (single) "target = ''single''" using 2(5, 6) False mounts by (auto split: if_splits)
    then show ?thesis
    proof cases
      case all
      with 2(2) [OF False mounts all] 2(5, 6) False mounts show ?thesis by (simp del: mset_concat mset_map)
    next
      case single
      with 2(3) [OF False mounts _ single] 2(5, 6) False mounts show ?thesis by (simp del: mset_concat mset_map)
    qed
  qed
qed simp

lemma assignClients_keys:
  "assignClients target cs mounts mapping = Inr mapping' \<Longrightarrow> map fst mapping' = map fst mapping"
  by (induction target cs mounts mapping rule: assignClients.induct) (auto simp: appendMounts_keys split: if_splits list.splits)

lemma assignStorages_mset:
  assumes "assignStorages k target existing mapping w = (Inr mapping', w')" "target \<noteq> ''shared''"
  shows "mset (mountsOf mapping') \<subseteq># mset (mountsOf mapping) + mset (mountsOf existing) \<and> map fst mapping' = map fst mapping"
  using assms
proof (induction k target existing mapping arbitrary: w rule: assignStorages.induct)
  case (1 k target mapping)
  then show ?case by (simp add: retE_apply)
next
  case (2 k target storageName mounts rest mapping)
  from 2(2) obtain nodes w1 mapping1 where got: "assignClients target nodes mounts mapping = Inr mapping1"
      and rest: "assignStorages k target rest mapping1 w1 = (Inr mapping', w')"
    by (auto simp: bindE_eq_Inr Let_def liftE_apply)
  note more = 2(1) [OF refl rest 2(3)]
  note step = subset_mset.add_right_mono [OF assignClients_mset [OF got 2(3)], of "mset (mountsOf rest)"]
  have "mset (mountsOf mapping') \<subseteq># mset (mountsOf mapping) + mset mounts + mset (mountsOf rest)"
    by (rule subset_mset.order_trans [OF conjunct1 [OF more] step])
  then have "mset (mountsOf mapping') \<subseteq># mset (mountsOf mapping) + mset (mountsOf ((storageName, mounts) # rest))"
    by (simp only: list.map concat.simps snd_conv mset_append add.assoc)
  with more assignClients_keys [OF got] show ?case by simp
qed


definition nodeRef :: "NnfNodeStorage \<Rightarrow> ObjectReference" where
  "nodeRef n = emptyRef\<lparr>ref_Kind := ''NnfNodeStorage'', ref_Name := meta_Name (ns_Meta n), ref_Namespace := meta_Namespace (ns_Meta n)\<rparr>"

lemma nodeRef_sel: "ref_Name (nodeRef n) = meta_Name (ns_Meta n)" "ref_Namespace (nodeRef n) = meta_Namespace (ns_Meta n)"
  by (simp_all add: nodeRef_def)

definition nodeDevices :: "NnfNodeStorage \<Rightarrow> (ObjectReference \<times> nat) option list" where
  "nodeDevices n = (if nst_Ready (ns_Status n) then map (\<lambda>i. Some (nodeRef n, i)) [0 ..< nat (nss_Count (ns_Spec n))] else [])"

definition devicesOf :: "storageMapping \<Rightarrow> (ObjectReference \<times> nat) option multiset" where
  "devicesOf m = image_mset mountDevice (mset (mountsOf m))"

lemma devicesOf_append: "devicesOf (appendMounts key xs m) = devicesOf m + mset (map mountDevice xs)"
  by (simp add: devicesOf_def del: mset_concat)

lemma localMount_device: "localMount a s n nb i = Inr m \<Longrightarrow> mountDevice m = Some (nodeRef n, i)"
  by (auto simp: localMount_def Let_def mountDevice_def nodeRef_def split: if_splits sum.splits)

lemma mapME_localMount:
  "mapME (\<lambda>i. liftE (localMount a s n nb i)) is w = (Inr infos, w') \<Longrightarrow>
     map mountDevice infos = map (\<lambda>i. Some (nodeRef n, i)) is"
  by (induction "is" arbitrary: infos w) (auto simp: bindE_eq_Inr retE_apply liftE_apply localMount_device)

lemma mountsOfStorages_devices:
  "mountsOfStorages k a s items existing w = (Inr existing', w') \<Longrightarrow>
     devicesOf existing' = devicesOf existing + mset (concat (map nodeDevices items))"
proof (induction items arbitrary: existing w)
  case Nil
  then show ?case by (simp add: retE_apply)
next
  case (Cons n items)
  show ?case
  proof (cases "nst_Ready (ns_Status n)")
    case False
    with Cons show ?thesis by (simp add: nodeDevices_def)
  next
    case True
    with Cons.prems obtain infos nb w1 w2 where infos: "mapME (\<lambda>i. liftE (localMount a s n nb i)) [0 ..< nat (nss_Count (ns_Spec n))] w1 = (Inr infos, w2)"
      and rest: "mountsOfStorages k a s items (if infos = [] then existing else appendMounts (meta_Namespace (ns_Meta n)) infos existing) w2 = (Inr existing', w')"
      by (auto simp: bindE_eq_Inr Let_def)
    have "map mountDevice infos = nodeDevices n" using True mapME_localMount [OF infos] by (simp add: nodeDevices_def)
    then show ?thesis using Cons.IH [OF rest]
      by (cases "infos = []") (simp_all add: devicesOf_append flip: mset_map)
  qed
qed

lemma nodeDevices_in: "d \<in> set (nodeDevices n) \<Longrightarrow> \<exists>i. d = Some (nodeRef n, i)"
  by (auto simp: nodeDevices_def split: if_splits)

lemma nodeDevices_distinct:
  "distinct (map (\<lambda>n. meta_Name (ns_Meta n)) items) \<Longrightarrow> distinct (concat (map nodeDevices items))"
proof (induction items)
  case (Cons n items)
  have "distinct (nodeDevices n)" by (simp add: nodeDevices_def distinct_map inj_on_def)
  moreover have "set (nodeDevices n) \<inter> set (nodeDevices n') = {}" if "n' \<in> set items" for n'
  proof -
    from Cons.prems that have "meta_Name (ns_Meta n) \<noteq> meta_Name (ns_Meta n')" by auto
    then have "nodeRef n \<noteq> nodeRef n'" using nodeRef_sel(1) by metis
    then show ?thesis by (auto dest!: nodeDevices_in)
  qed
  ultimately show ?case using Cons by auto
qed simp

lemma existingStorages_devices:
  assumes "existingStorages k a s setName counts existing w = (Inr existing', w')" "listsByNamespace k" "distinct (map fst counts)"
  shows "\<exists>L. devicesOf existing' = devicesOf existing + mset L \<and> distinct L \<and>
     (\<forall>d \<in> set L. \<exists>ref i. d = Some (ref, i) \<and> ref_Namespace ref \<in> fst ` set counts)"
  using assms
proof (induction k a s setName counts existing arbitrary: w rule: existingStorages.induct)
  case (1 k a s setName existing)
  then show ?case by (auto simp: retE_apply intro!: exI [where x = "[]"])
next
  case (2 k a s setName nodeName allocationCount instanceCount rest existing)
  from 2(2) obtain items w1 existing1 w2 where items: "ak_ListNodeStorage k nodeName (allocationSetLabels s setName) w = (Inr items, w1)"
      and count: "length items = instanceCount" and one: "mountsOfStorages k a s items existing w1 = (Inr existing1, w2)"
      and rest: "existingStorages k a s setName rest existing1 w2 = (Inr existing', w')"
    by (auto simp: bindE_eq_Inr failE_apply split: if_splits)
  obtain L where L: "devicesOf existing' = devicesOf existing1 + mset L" "distinct L"
      "\<forall>d \<in> set L. \<exists>ref i. d = Some (ref, i) \<and> ref_Namespace ref \<in> fst ` set rest"
    using 2(1) [OF _ rest 2(3), of items] 2(4) count by auto
  have here: "\<forall>n \<in> set items. meta_Namespace (ns_Meta n) = nodeName" "distinct (map (\<lambda>n. meta_Name (ns_Meta n)) items)"
    using 2(3) [unfolded listsByNamespace_def, rule_format, OF items] by blast+
  let ?D = "concat (map nodeDevices items)"
  have D: "\<exists>ref i. d = Some (ref, i) \<and> ref_Namespace ref = nodeName" if "d \<in> set ?D" for d
    using that here(1) nodeRef_sel(2) by (fastforce dest: nodeDevices_in)
  have "nodeName \<notin> fst ` set rest" using 2(4) by simp
  with D L(3) have "set ?D \<inter> set L = {}" by fastforce
  then have "distinct (?D @ L)" using L(2) nodeDevices_distinct [OF here(2)] by simp
  moreover have "devicesOf existing' = devicesOf existing + mset (?D @ L)"
    using L(1) mountsOfStorages_devices [OF one] by simp
  moreover have "\<exists>ref i. d = Some (ref, i) \<and> ref_Namespace ref \<in> fst ` set ((nodeName, allocationCount, instanceCount) # rest)"
    if "d \<in> set (?D @ L)" for d
  proof (cases "d \<in> set ?D")
    case True
    with D [of d] show ?thesis by auto
  next
    case False
    with that have "d \<in> set L" by simp
    with L(3) obtain ref i where "d = Some (ref, i)" "ref_Namespace ref \<in> fst ` set rest" by blast
    then show ?thesis by auto
  qed
  ultimately show ?case by blast
qed


lemma countNodes_keys: "distinct (map fst m) \<Longrightarrow> distinct (map fst (countNodes ns m))"
  by (induction ns m rule: countNodes.induct) (simp_all add: distinct_update)

lemma distinct_sub_mset:
  assumes "mset xs \<subseteq># mset ys" "distinct ys"
  shows "distinct xs"
proof -
  obtain Z where "mset ys = mset xs + Z" using assms(1) by (auto simp: subset_mset.le_iff_add)
  moreover obtain zs where "mset zs = Z" using ex_mset by blast
  ultimately have "mset ys = mset (xs @ zs)" by simp
  with assms(2) have "distinct (xs @ zs)" by (metis mset_eq_imp_distinct_iff)
  then show ?thesis by simp
qed

text \<open>
  C14. No device is given out twice: unless the target is \<^verbatim>\<open>shared\<close>, the mounts of all clients of an access
  use different allocations, and the clients of the mapping are those asked for, each once.
\<close>

theorem access_devices_exclusive:
  assumes "mapClientLocalStorage k a clients s spec w = (Inr mapping, w')" "nas_Target (na_Spec a) \<noteq> ''shared''"
    "listsByNamespace k" "rangesOnce k"
  shows "distinct (map mountDevice (mountsOf mapping)) \<and> map fst mapping = remdups clients"
proof -
  let ?start = "map (\<lambda>c. (c, [])) (remdups clients)"
  obtain counts w1 existing w2 existing' w3 where counts: "rangeMap k (countNodes (sas_Nodes spec) []) w = (Inr counts, w1)"
      and existing: "existingStorages k a s (sas_Name spec) counts [] w1 = (Inr existing, w2)"
      and range: "rangeMap k existing w2 = (Inr existing', w3)"
      and assign: "assignStorages k (nas_Target (na_Spec a)) existing' ?start w3 = (Inr mapping, w')"
    using assms(1) by (auto simp: mapClientLocalStorage_def bindE_eq_Inr)
  have "mset (map fst counts) = mset (map fst (countNodes (sas_Nodes spec) []))"
    using rangeMap_mset [OF assms(4) counts] by simp
  then have "distinct (map fst counts)" using countNodes_keys [of "[]"] mset_eq_imp_distinct_iff by fastforce
  from existingStorages_devices [OF existing assms(3) this]
  obtain L where L: "devicesOf existing = mset L" "distinct L" by (auto simp: devicesOf_def)
  have empty: "mountsOf ?start = []" by (induction clients) simp_all
  note taken = assignStorages_mset [OF assign assms(2), unfolded empty rangeMap_mountsOf [OF assms(4) range]]
  then have "image_mset mountDevice (mset (mountsOf mapping)) \<subseteq># devicesOf existing"
    by (simp add: devicesOf_def image_mset_subseteq_mono del: mset_concat)
  with L have "mset (map mountDevice (mountsOf mapping)) \<subseteq># mset L" by (simp del: mset_concat)
  moreover have "map fst ?start = remdups clients" by (induction clients) simp_all
  ultimately show ?thesis using distinct_sub_mset [OF _ L(2)] taken by (simp del: mset_map mset_concat)
qed


section \<open>Opening and closing the block storage\<close>

definition allocationIndexOf :: "bool \<Rightarrow> mountReference \<Rightarrow> nat" where
  "allocationIndexOf shared mr = (if shared then 0 else mr_allocationIndex mr)"

lemma take_one_append: "take 1 xs = [r] \<Longrightarrow> take 1 (xs @ ys) = [r]"
  by (cases xs) simp_all

lemma addClient_access:
  assumes "addClient shared mr als = Inr als'" "i < length als"
  shows "length als' = length als" "take 1 (nbp_Access (als ! i)) = [r] \<Longrightarrow> take 1 (nbp_Access (als' ! i)) = [r]"
    "set (nbp_Access (als' ! i)) = set (nbp_Access (als ! i)) \<union> {c. allocationIndexOf shared mr = i \<and> c = mr_client mr}"
    "distinct (nbp_Access (als ! i)) \<Longrightarrow> distinct (nbp_Access (als' ! i))"
  using assms
  by (auto simp: addClient_def Let_def indexR_def allocationIndexOf_def nth_list_update take_one_append
        split: if_splits sum.splits simp del: take_append One_nat_def)

lemma addClients_access:
  assumes "addClients shared mrs als = Inr als'" "i < length als"
  shows "length als' = length als \<and> (take 1 (nbp_Access (als ! i)) = [r] \<longrightarrow> take 1 (nbp_Access (als' ! i)) = [r]) \<and>
    set (nbp_Access (als' ! i)) = set (nbp_Access (als ! i)) \<union> {mr_client mr | mr. mr \<in> set mrs \<and> allocationIndexOf shared mr = i} \<and>
    (distinct (nbp_Access (als ! i)) \<longrightarrow> distinct (nbp_Access (als' ! i)))"
  using assms
proof (induction mrs arbitrary: als)
  case (Cons mr mrs)
  then obtain als1 where one: "addClient shared mr als = Inr als1" and rest: "addClients shared mrs als1 = Inr als'"
    by (auto split: sum.splits)
  note step = addClient_access [OF one Cons.prems(2)]
  with Cons.IH [OF rest] Cons.prems(2) show ?case by auto
qed simp

lemma addClients_length: "addClients shared mrs als = Inr als' \<Longrightarrow> length als' = length als"
  by (induction shared mrs als rule: addClients.induct)
    (auto simp: addClient_def Let_def indexR_def split: sum.splits if_splits)

lemma openAccess_spec:
  assumes "openAccess mrs nb = Inr nb'" "i < length (nbsp_Allocations (nb_Spec nb))"
  shows "length (nbsp_Allocations (nb_Spec nb')) = length (nbsp_Allocations (nb_Spec nb)) \<and>
    take 1 (nbp_Access (nbsp_Allocations (nb_Spec nb') ! i)) = [meta_Namespace (nb_Meta nb)] \<and>
    set (nbp_Access (nbsp_Allocations (nb_Spec nb') ! i)) = insert (meta_Namespace (nb_Meta nb))
      {mr_client mr | mr. mr \<in> set mrs \<and> allocationIndexOf (nbsp_SharedAllocation (nb_Spec nb)) mr = i} \<and>
    distinct (nbp_Access (nbsp_Allocations (nb_Spec nb') ! i))"
proof -
  let ?start = "map (\<lambda>al. al\<lparr>nbp_Access := [meta_Namespace (nb_Meta nb)]\<rparr>) (nbsp_Allocations (nb_Spec nb))"
  obtain als where als: "addClients (nbsp_SharedAllocation (nb_Spec nb)) mrs ?start = Inr als" and nb': "nb' = setAllocations als nb"
    using assms(1) by (auto simp: openAccess_def split: sum.splits)
  from addClients_access [OF als, of i "meta_Namespace (nb_Meta nb)"] assms(2) show ?thesis
    by (simp add: nb' setAllocations_def)
qed

text \<open>
  C16. Opening the block storage gives each allocation to the Rabbit and to the clients of this access
  that were mapped to it, each listed once, and to nobody else, whoever was listed before.
\<close>

theorem access_opened_exactly:
  assumes "openAccess mrs nb = Inr nb'" "i < length (nbsp_Allocations (nb_Spec nb))"
  shows "set (nbp_Access (nbsp_Allocations (nb_Spec nb') ! i)) = insert (meta_Namespace (nb_Meta nb))
      {mr_client mr | mr. mr \<in> set mrs \<and> allocationIndexOf (nbsp_SharedAllocation (nb_Spec nb)) mr = i} \<and>
    distinct (nbp_Access (nbsp_Allocations (nb_Spec nb') ! i))"
  using openAccess_spec [OF assms] by simp

text \<open>
  Closing after any opening leaves every allocation to the Rabbit alone and is no panic; the clients of other
  accesses to the same storage lose theirs with it.
\<close>

theorem access_closed_for_all:
  assumes "openAccess mrs nb = Inr nb'"
  shows "\<exists>nb''. closeAccess nb' = Inr nb'' \<and>
    map nbp_Access (nbsp_Allocations (nb_Spec nb'')) = map (\<lambda>_. [meta_Namespace (nb_Meta nb)]) (nbsp_Allocations (nb_Spec nb))"
proof -
  let ?n = "length (nbsp_Allocations (nb_Spec nb))" and ?als = "nbsp_Allocations (nb_Spec nb')"
  note spec = openAccess_spec [OF assms]
  have first: "take 1 (nbp_Access (?als ! i)) = [meta_Namespace (nb_Meta nb)]" if "i < ?n" for i using spec [OF that] by blast
  have len: "length ?als = ?n"
    using spec assms by (cases "?n = 0") (auto simp: openAccess_def setAllocations_def split: sum.splits dest: addClients_length)
  have "nbp_Access al \<noteq> []" if "al \<in> set ?als" for al
    using that first len by (metis in_set_conv_nth list.distinct(1) take_Nil)
  then have "\<not> list_ex (\<lambda>al. nbp_Access al = []) ?als" by (auto simp: list_ex_iff)
  moreover have "map (\<lambda>al. take 1 (nbp_Access al)) ?als = map (\<lambda>_. [meta_Namespace (nb_Meta nb)]) (nbsp_Allocations (nb_Spec nb))"
    using first len by (auto intro: nth_equalityI)
  ultimately show ?thesis by (auto simp: closeAccess_def setAllocations_def comp_def)
qed


section \<open>When an access is ready\<close>

lemma bind_wrap_sndE:
  assumes "bindE (wrapE f (sndE m)) g (a, w) = (Inr y, t)"
  obtains x w1 where "m w = (Inr x, w1)" "g x (a, w1) = (Inr y, t)"
  using assms by (cases "m w") (auto simp: bindE_eq_Inr wrapE_eq_Inr sndE_apply)

lemma bind_catch_sndE:
  assumes "bindE (catchE (bindE (sndE m) (\<lambda>_. retE None)) (\<lambda>e. if c e then retE (Some r) else failE (f e))) g (a, w) = (Inr y, t)"
  obtains x w1 where "g x (a, w1) = (Inr y, t)" "x = None \<or> x = Some r"
  using assms
  by (cases "m w"; cases "fst (m w)")
    (auto simp: bindE_def catchE_def sndE_apply retE_def failE_def split: if_splits)

lemma accessMount_None:
  assumes "accessMount k clientList mapping (a, w) = (Inr None, (a1, w1))"
  obtains w2 w3 w4 w5 where "a1 = a" "lockStorage k a w = (Inr False, w2)"
    "getBlockStorageAccessStatus k a mapping w3 = (Inr True, w4)" "getClientMountStatus k a clientList w5 = (Inr True, w1)"
proof -
  note run = assms [unfolded accessMount_def getE_bind_apply]
  obtain wait w2 where lock: "lockStorage k a w = (Inr wait, w2)" using run by (rule bind_wrap_sndE)
  show thesis
    using run
    apply (rule bind_wrap_sndE)
    apply (simp add: lock retE_apply split: if_splits)
    apply (erule bind_catch_sndE)
    apply (elim disjE)
     prefer 2
     apply (simp add: retE_apply)
    apply simp
    apply (erule bind_wrap_sndE)
    apply (simp add: retE_apply split: if_splits)
    apply (erule bind_catch_sndE)
    apply (elim disjE)
     prefer 2
     apply (simp add: retE_apply)
    apply simp
    apply (erule bind_wrap_sndE)
    apply (simp add: retE_apply split: if_splits)
    using lock by (auto intro: that)
qed


text \<open>The client mounts of the access on its clients, in one listing: all there, all in the state of the access, none with an error.\<close>

definition mountsReported :: "'w accessKube \<Rightarrow> NnfAccess \<Rightarrow> string list \<Rightarrow> bool" where
  "mountsReported k a clientList \<longleftrightarrow> (\<exists>w items w'. ak_ListClientMount k (MatchingOwner ''NnfAccess'' (na_Meta a)) w = (Inr items, w') \<and>
     (let mounts = filter (\<lambda>c. meta_Namespace (cm_Meta c) \<in> set clientList) items in
      length mounts = length clientList \<and> list_all (\<lambda>c. mountDone (nast_State (na_Status a)) c \<and> cst_Error (cm_Status c) = None) mounts))"

lemma mountDone_atState: "mountDone state c \<Longrightarrow> clientMountAtState c state"
  by (auto simp: mountDone_def clientMountAtState_def list_all_iff)

lemma mountsSettled_True:
  assumes "mountsSettled k a clientList mounts pending w = (Inr True, w')"
  shows "list_all (\<lambda>c. mountDone (nast_State (na_Status a)) c \<and> cst_Error (cm_Status c) = None) pending"
    and "nas_DesiredState (na_Spec a) \<noteq> ''unmounted'' \<Longrightarrow> length mounts = length clientList"
proof -
  have none: "List.find (\<lambda>c. cst_Error (cm_Status c) \<noteq> None \<and> clientMountAtState c (nast_State (na_Status a))) pending = None"
    using assms by (auto simp: mountsSettled_def failE_apply split: option.splits)
  have all: "list_all (mountDone (nast_State (na_Status a))) pending"
    using assms none by (auto simp: mountsSettled_def bindE_eq_Inr retE_apply split: if_splits)
  with none show "list_all (\<lambda>c. mountDone (nast_State (na_Status a)) c \<and> cst_Error (cm_Status c) = None) pending"
    by (auto simp: find_None_iff list_all_iff mountDone_atState)
  show "length mounts = length clientList" if "nas_DesiredState (na_Spec a) \<noteq> ''unmounted''"
    using assms none that by (auto simp: mountsSettled_def missingFenced_def bindE_eq_Inr retE_apply split: if_splits)
qed

lemma getClientMountStatus_True:
  assumes "getClientMountStatus k a clientList w = (Inr True, w')" "nas_MakeClientMounts (na_Spec a)" "nas_DesiredState (na_Spec a) \<noteq> ''unmounted''"
  shows "mountsReported k a clientList"
proof -
  obtain items w1 where items: "ak_ListClientMount k (MatchingOwner ''NnfAccess'' (na_Meta a)) w = (Inr items, w1)"
      and settled: "mountsSettled k a clientList (filter (\<lambda>c. meta_Namespace (cm_Meta c) \<in> set clientList) items)
        (filter (\<lambda>c. meta_Namespace (cm_Meta c) \<in> set clientList) items) w1 = (Inr True, w')"
    using assms by (auto simp: getClientMountStatus_def bindE_eq_Inr wrapE_eq_Inr Let_def retE_apply)
  from items mountsSettled_True [OF settled] assms(3) show ?thesis
    unfolding mountsReported_def Let_def by blast
qed

definition pendingAccess :: "NnfAccess \<Rightarrow> NnfAccess \<Rightarrow> bool" where
  "pendingAccess a a' \<longleftrightarrow> na_Meta a' = na_Meta a \<and> na_Spec a' = na_Spec a \<and> nast_State (na_Status a') = nast_State (na_Status a) \<and>
     \<not> nast_Ready (na_Status a')"

lemma keeps_accessMount: "keeps (pendingAccess a) (accessMount k clientList mapping)"
  unfolding accessMount_def
  by (intro keeps_rules) (simp add: setAccessReady_def updAccess_def pendingAccess_def)

lemma keeps_stages: "keeps (pendingAccess a) (mountStage k clientList mapping)" "keeps (pendingAccess a) (unmountStage k clientList mapping)"
  unfolding mountStage_def unmountStage_def accessUnmount_def by (intro keeps_rules keeps_accessMount)+

lemma mountStage_None:
  assumes "mountStage k clientList mapping (a, w) = (Inr None, (a1, w1))"
  obtains w2 w3 where "accessMount k clientList mapping (a, w) = (Inr None, (a1, w2))" "detectFencedComputes k a1 clientList w2 = (Inr (), w3)"
proof -
  obtain q a2 w2 where q: "accessMount k clientList mapping (a, w) = (q, (a2, w2))" by (metis prod_cases3)
  obtain d w3 where d: "detectFencedComputes k a2 clientList w2 = (d, w3)" by fastforce
  show thesis
    using assms q d that [of w2 w3]
    by (cases q; cases d)
      (auto simp: mountStage_def tryE_def catchE_def bindE_def getE_def sndE_apply retE_apply failE_apply split: if_splits)
qed


lemma accessBody_live:
  assumes "accessBody k (a, w) = (r, (a', w'))" "\<not> meta_Deleting (na_Meta a)" "accessHeld a" "\<not> nast_Ready (na_Status a)" "nast_Ready (na_Status a')"
  obtains clientList mapping w1 w2 w3 a1 w4 where "nast_State (na_Status a) = nas_DesiredState (na_Spec a)"
    "getClientList k a w = (Inr clientList, w1)" "mapClientStorage k a clientList w1 = (Inr mapping, w2)"
    "(if nast_State (na_Status a) = ''mounted'' then mountStage k clientList mapping else unmountStage k clientList mapping) (a, w2) = (Inr None, (a1, w4))"
    "a' = accessAchieved a1" "pendingAccess a a1"
proof -
  have state: "nast_State (na_Status a) = nas_DesiredState (na_Spec a)"
    using assms by (auto simp: accessBody_def retE_apply updAccess_def split: if_splits)
  obtain q1 w1 where q1: "getClientList k a w = (q1, w1)" by fastforce
  then obtain clientList where clients: "q1 = Inr clientList"
    using assms state by (cases q1) (auto simp: accessBody_def sndE_bind)
  obtain q2 w2 where q2: "mapClientStorage k a clientList w1 = (q2, w2)" by fastforce
  then obtain mapping where mapping: "q2 = Inr mapping"
    using assms state q1 clients by (cases q2) (auto simp: accessBody_def sndE_bind)
  let ?stage = "if nast_State (na_Status a) = ''mounted'' then mountStage k clientList mapping else unmountStage k clientList mapping"
  have run: "bindE ?stage (\<lambda>res. case res of Some r \<Rightarrow> retE r | None \<Rightarrow> bindE (modifyE accessAchieved) (\<lambda>_. retE doneResult)) (a, w2) = (r, (a', w'))"
    using assms state q1 clients q2 mapping by (simp add: accessBody_def sndE_bind liveAccess_def)
  have stage: "keeps (pendingAccess a) ?stage" using keeps_stages by auto
  have before: "pendingAccess a a" and after: "\<not> pendingAccess a a'" using assms(4, 5) by (simp_all add: pendingAccess_def)
  obtain x a1 w4 where "?stage (a, w2) = (Inr x, (a1, w4))" "pendingAccess a a1"
    "(case x of Some r \<Rightarrow> retE r | None \<Rightarrow> bindE (modifyE accessAchieved) (\<lambda>_. retE doneResult)) (a1, w4) = (r, (a', w'))"
    by (rule leave_bindE [OF run stage before after])
  with that state q1 clients q2 mapping after show thesis by (cases x) (auto simp: retE_apply)
qed

lemma ready_reaches_mounts:
  assumes "accessBody k (a, w) = (r, (a', w'))" "\<not> meta_Deleting (na_Meta a)" "accessHeld a"
    "\<not> nast_Ready (na_Status a)" "nast_Ready (na_Status a')"
    "nas_DesiredState (na_Spec a) = ''mounted''" "nas_MakeClientMounts (na_Spec a)"
  obtains clientList mapping w1 w2 w3 w4 w5 w6 w7 where "a' = accessAchieved a" "nast_State (na_Status a) = ''mounted''"
    "getClientList k a w = (Inr clientList, w1)" "lockStorage k a w2 = (Inr False, w3)" "getBlockStorageAccessStatus k a mapping w4 = (Inr True, w5)"
    "mountsReported k a clientList" "detectFencedComputes k a clientList w6 = (Inr (), w7)"
proof -
  obtain clientList mapping w1 w2 w3 a1 w4 where state: "nast_State (na_Status a) = nas_DesiredState (na_Spec a)"
      and clients: "getClientList k a w = (Inr clientList, w1)"
      and stage: "(if nast_State (na_Status a) = ''mounted'' then mountStage k clientList mapping else unmountStage k clientList mapping) (a, w2) = (Inr None, (a1, w4))"
      and a': "a' = accessAchieved a1"
    by (rule accessBody_live [OF assms(1-5)])
  from stage state assms(6) have "mountStage k clientList mapping (a, w2) = (Inr None, (a1, w4))" by simp
  then obtain w5 w6 where mount: "accessMount k clientList mapping (a, w2) = (Inr None, (a1, w5))"
      and fenced: "detectFencedComputes k a1 clientList w5 = (Inr (), w6)" by (rule mountStage_None)
  obtain v1 v2 v3 v4 where same: "a1 = a" and lock: "lockStorage k a w2 = (Inr False, v1)"
      and block: "getBlockStorageAccessStatus k a mapping v2 = (Inr True, v3)" and mounts: "getClientMountStatus k a clientList v4 = (Inr True, w5)"
    by (rule accessMount_None [OF mount])
  have "mountsReported k a clientList" using getClientMountStatus_True [OF mounts assms(7)] assms(6) by simp
  from that [OF _ _ clients lock block this] fenced same a' state assms(6) show thesis by simp
qed


text \<open>
  An access whose client list names a node twice never becomes ready for mounting: the client mounts are
  one per node, and their number is compared with the length of the list. The list of the Rabbits of a
  storage names a Rabbit once for every entry of the allocation set.
\<close>

theorem duplicate_clients_never_ready:
  assumes "accessBody k (a, w) = (r, (a', w'))" "\<not> meta_Deleting (na_Meta a)" "accessHeld a" "\<not> nast_Ready (na_Status a)"
    "nas_DesiredState (na_Spec a) = ''mounted''" "nas_MakeClientMounts (na_Spec a)"
    "getClientList k a w = (Inr clientList, w1)" "\<not> distinct clientList"
    "\<And>u items u'. ak_ListClientMount k (MatchingOwner ''NnfAccess'' (na_Meta a)) u = (Inr items, u') \<Longrightarrow>
       distinct (map (\<lambda>c. meta_Namespace (cm_Meta c)) items)"
  shows "\<not> nast_Ready (na_Status a')"
proof
  assume "nast_Ready (na_Status a')"
  from assms(1-4) this assms(5,6) have "mountsReported k a clientList"
    by (rule ready_reaches_mounts) (use assms(7) in simp)
  then obtain items u u' where items: "ak_ListClientMount k (MatchingOwner ''NnfAccess'' (na_Meta a)) u = (Inr items, u')"
      and len: "length (filter (\<lambda>c. meta_Namespace (cm_Meta c) \<in> set clientList) items) = length clientList"
    by (auto simp: mountsReported_def Let_def)
  let ?names = "map (\<lambda>c. meta_Namespace (cm_Meta c)) (filter (\<lambda>c. meta_Namespace (cm_Meta c) \<in> set clientList) items)"
  have "distinct ?names" using assms(9) [OF items] by (rule distinct_map_filter)
  moreover have "set ?names \<subseteq> set clientList" by auto
  ultimately have "length ?names \<le> card (set clientList)" by (metis card_mono distinct_card List.finite_set)
  with len have "length clientList \<le> card (set clientList)" by simp
  with assms(8) card_distinct card_length [of clientList] show False by force
qed


section \<open>Letting an access go\<close>

lemma keeps_held:
  "keeps (\<lambda>a. accessHeld a) (accessMount k clientList mapping)" "keeps (\<lambda>a. accessHeld a) (accessUnmount k clientList mapping)"
  unfolding accessMount_def accessUnmount_def
  by (intro keeps_rules, simp add: setAccessReady_def updAccess_def) (intro keeps_rules)

lemma keeps_liveHeld:
  assumes "accessHeld a" "liveAccess k clientList mapping (a, w) = (r, (a', w'))"
  shows "accessHeld a'"
proof -
  let ?stages = "bindE (if nast_State (na_Status a) = ''mounted'' then mountStage k clientList mapping else unmountStage k clientList mapping) (\<lambda>res.
       case res of Some r \<Rightarrow> retE r | None \<Rightarrow> bindE (modifyE accessAchieved) (\<lambda>_. retE doneResult))"
  have keep: "keeps (\<lambda>a. accessHeld a) ?stages"
    unfolding mountStage_def unmountStage_def
    by (intro keeps_rules keeps_held) (simp add: accessAchieved_def updAccess_def)
  have run: "?stages (a, w) = (r, (a', w'))" using assms by (simp add: liveAccess_def)
  show ?thesis by (rule keepsD [where J = "\<lambda>a. accessHeld a", OF keep assms(1) run])
qed

lemma deleteAccess_leaves:
  assumes "deleteAccess k mapping (a, w) = (r, (a', w'))" "accessHeld a" "\<not> accessHeld a'"
  obtains w1 w2 w3 where "ck_List (ak_ClientMounts k) (kv_merge [] (MatchingOwner ''NnfAccess'' (na_Meta a))) w = (Inr [], w1)"
    "removeBlockStorageAccess k a mapping w1 = (Inr (), w2)" "unlockStorage k a w2 = (Inr (), w3)"
proof -
  obtain q1 w1 where q1: "DeleteChildren [ak_ClientMounts k] ''NnfAccess'' (na_Meta a) w = (q1, w1)" by fastforce
  then obtain complete where complete: "q1 = Inr complete"
    using assms by (cases q1) (auto simp: deleteAccess_def sndE_bind)
  have gone: complete
  proof (rule ccontr)
    assume "\<not> complete"
    then show False using assms q1 complete
      by (cases "removeOfflineClientMounts k a w1"; cases "fst (removeOfflineClientMounts k a w1)")
        (auto simp: deleteAccess_def sndE_bind retE_apply)
  qed
  obtain q2 w2 where q2: "removeBlockStorageAccess k a mapping w1 = (q2, w2)" by fastforce
  then have "q2 = Inr ()" using assms q1 complete gone by (cases q2) (auto simp: deleteAccess_def sndE_bind)
  moreover obtain q3 w3 where q3: "unlockStorage k a w2 = (q3, w3)" by fastforce
  moreover have "q3 = Inr ()"
    using assms q1 complete gone q2 \<open>q2 = Inr ()\<close> q3 by (cases q3) (auto simp: deleteAccess_def sndE_bind)
  moreover have "ck_List (ak_ClientMounts k) (kv_merge [] (MatchingOwner ''NnfAccess'' (na_Meta a))) w = (Inr [], w1)"
  proof -
    have "deleteKinds [ak_ClientMounts k] (kv_merge [] (MatchingOwner ''NnfAccess'' (na_Meta a))) w = (Inr True, w1)"
      using q1 complete gone by (simp only: DeleteChildren_def DeleteChildrenWithLabels_def)
    from deleteKinds_complete [OF this] show ?thesis by simp
  qed
  ultimately show thesis using that q2 q3 by simp
qed

text \<open>
  C15. An access lets go only when nothing of it is left: its finalizer goes away in a reconcile of a deleted
  access that listed the client mounts and found none, then took the clients off the block storage, then
  unlocked the storage, each without an error.
\<close>

theorem access_finalizer_last:
  assumes "accessBody k (a, w) = (r, (a', w'))" "accessHeld a" "\<not> accessHeld a'"
  shows "meta_Deleting (na_Meta a) \<and>
    (\<exists>clientList mapping w1 w2 w3 w4 w5. getClientList k a w = (Inr clientList, w1) \<and> mapClientStorage k a clientList w1 = (Inr mapping, w2) \<and>
       ck_List (ak_ClientMounts k) (kv_merge [] (MatchingOwner ''NnfAccess'' (na_Meta a))) w2 = (Inr [], w3) \<and>
       removeBlockStorageAccess k a mapping w3 = (Inr (), w4) \<and> unlockStorage k a w4 = (Inr (), w5))"
proof -
  let ?reset = "\<not> meta_Deleting (na_Meta a) \<and> accessHeld a \<and> nas_DesiredState (na_Spec a) \<noteq> nast_State (na_Status a)"
  have go: "\<not> ?reset" using assms by (auto simp: accessBody_def retE_apply updAccess_def split: if_splits)
  obtain q1 w1 where q1: "getClientList k a w = (q1, w1)" by fastforce
  then obtain clientList where clients: "q1 = Inr clientList"
    using assms go by (cases q1) (auto simp: accessBody_def sndE_bind)
  obtain q2 w2 where q2: "mapClientStorage k a clientList w1 = (q2, w2)" by fastforce
  then obtain mapping where mapping: "q2 = Inr mapping"
    using assms go q1 clients by (cases q2) (auto simp: accessBody_def sndE_bind)
  have run: "(if meta_Deleting (na_Meta a) then deleteAccess k mapping else liveAccess k clientList mapping) (a, w2) = (r, (a', w'))"
    using assms(1) go q1 clients q2 mapping by (simp add: accessBody_def sndE_bind if_distrib)
  have deleting: "meta_Deleting (na_Meta a)"
  proof (rule ccontr)
    assume live: "\<not> meta_Deleting (na_Meta a)"
    with run have "liveAccess k clientList mapping (a, w2) = (r, (a', w'))" by simp
    from keeps_liveHeld [OF assms(2) this] assms(3) show False by simp
  qed
  with run have "deleteAccess k mapping (a, w2) = (r, (a', w'))" by simp
  from deleteAccess_leaves [OF this assms(2,3)] deleting q1 clients q2 mapping show ?thesis by metis
qed

text \<open>
  Deleting an access needs what it was made from: while the list of its clients cannot be read, a Computes or an
  NnfStorage that is gone, a reconcile of a deleted access changes nothing and fails, and its finalizer stays.
\<close>

theorem access_delete_needs_clients:
  assumes "meta_Deleting (na_Meta a)" "getClientList k a w = (Inl e, w1)"
  shows "accessBody k (a, w) = (Inl e, (a, w1))"
  using assms by (simp add: accessBody_def sndE_bind)


section \<open>Witnesses\<close>

definition exAccess :: "string \<Rightarrow> string \<Rightarrow> NnfAccess" where
  "exAccess name target = \<lparr>na_Meta = zeroMeta\<lparr>meta_Name := name, meta_Namespace := ''default'', meta_Finalizers := [finalizerNnfAccess]\<rparr>,
     na_Spec = \<lparr>nas_DesiredState = ''mounted'', nas_TeardownState = ''PreRun'', nas_Target = target, nas_UserID = 0, nas_GroupID = 0,
       nas_ClientReference = emptyRef, nas_MountPath = [], nas_MakeClientMounts = True, nas_MountPathPrefix = ''/mnt/nnf'',
       nas_StorageReference = emptyRef\<lparr>ref_Kind := ''NnfStorage'', ref_Name := ''wf-0'', ref_Namespace := ''default''\<rparr>,
       nas_IgnoreOfflineComputes = False\<rparr>,
     na_Status = \<lparr>nast_State = ''mounted'', nast_Ready = False, nast_Error = None\<rparr>\<rparr>"

definition exPairNode :: NnfNodeStorage where
  "exPairNode = exNodeStorageOf\<lparr>ns_Spec := (ns_Spec exNodeStorageOf)\<lparr>nss_Count := 2\<rparr>\<rparr>"

definition exServer :: "Storage" where
  "exServer = exRabbit\<lparr>sto_Status := (sto_Status exRabbit)\<lparr>sst_Access := (sst_Access (sto_Status exRabbit))
     \<lparr>sac_Servers := [\<lparr>sno_Name = ''rabbit-1'', sno_Status = ''Ready''\<rparr>]\<rparr>\<rparr>\<rparr>"

definition exMounted :: ClientMount where
  "exMounted = \<lparr>cm_Meta = zeroMeta\<lparr>meta_Namespace := ''rabbit-1''\<rparr>, cm_Spec = \<lparr>cms_Node = ''rabbit-1'', cms_DesiredState = ''mounted'', cms_Mounts = []\<rparr>,
     cm_Status = \<lparr>cst_Mounts = [], cst_AllReady = True, cst_Error = None\<rparr>\<rparr>"

definition exAccessKube :: "(NnfStorage, 'w) kclient \<Rightarrow> 'w childKind \<Rightarrow> 'w accessKube" where
  "exAccessKube storages children = \<lparr>ak_Access = steady (exAccess ''wf-0-servers'' ''all''), ak_Storage = storages,
     ak_NodeBlock = (steady exBlockStorageOf)\<lparr>kc_Get := \<lambda>ns n. retE (newNodeBlockStorage n ns)\<rparr>,
     ak_ClientMount = (steady exMounted)\<lparr>kc_Get := \<lambda>ns n. retE (newClientMount n ns)\<rparr>,
     ak_GetComputes = \<lambda>ns n. retE \<lparr>cpt_Meta = zeroMeta, cpt_Data = [''compute-1'']\<rparr>,
     ak_GetNodeStorage = \<lambda>_ _. retE exPairNode, ak_GetRabbit = \<lambda>_ _. retE exServer,
     ak_GetConfiguration = \<lambda>_ _. failE (Fail []), ak_GetSystemStatus = \<lambda>_ _. failE (Fail []),
     ak_ListNodeStorage = \<lambda>namespace _. retE (if namespace = ''rabbit-1'' then [exPairNode] else []),
     ak_ListClientMount = \<lambda>_. retE [exMounted], ak_ListAccess = \<lambda>_. retE [], ak_ClientMounts = children,
     ak_Getenv = \<lambda>_. None, ak_Now = \<lambda>_. 0, ak_Perm = \<lambda>_ n. [0 ..< n]\<rparr>"

abbreviation exAccessWorld :: "NnfStorage \<Rightarrow> unit accessKube" where
  "exAccessWorld s \<equiv> exAccessKube (steady s) noChildren"


definition exTwice :: NnfStorage where
  "exTwice = (exXfsStorage False)\<lparr>nstg_Spec := (nstg_Spec (exXfsStorage False))\<lparr>ssp_AllocationSets :=
     [(exSet ''xfs'')\<lparr>sas_Nodes := [\<lparr>san_Name = ''rabbit-1'', san_Count = 1\<rparr>, \<lparr>san_Name = ''rabbit-1'', san_Count = 1\<rparr>]\<rparr>]\<rparr>\<rparr>"

theorem duplicate_clients_never_ready_witness:
  "\<not> nast_Ready (na_Status (fst (snd (accessBody (exAccessWorld exTwice) (exAccess ''wf-0-servers'' ''all'', ())))))"
proof -
  let ?k = "exAccessWorld exTwice" and ?a = "exAccess ''wf-0-servers'' ''all''"
  obtain r a' w' where run: "accessBody ?k (?a, ()) = (r, (a', w'))" by (metis prod_cases3)
  have pre: "\<not> meta_Deleting (na_Meta ?a)" "accessHeld ?a" "\<not> nast_Ready (na_Status ?a)"
    "nas_DesiredState (na_Spec ?a) = ''mounted''" "nas_MakeClientMounts (na_Spec ?a)" by code_simp+
  have clients: "getClientList ?k ?a () = (Inr [''rabbit-1'', ''rabbit-1''], ())" by code_simp
  have "\<not> nast_Ready (na_Status a')"
    by (rule duplicate_clients_never_ready [OF run pre clients]) (simp_all add: exAccessKube_def retE_apply)
  with run show ?thesis by simp
qed



theorem access_finalizer_last_witness:
  "ck_List noChildren (kv_merge [] (MatchingOwner ''NnfAccess'' (na_Meta (exAccess ''wf-0-servers'' ''all'')))) () = (Inr [], ()) \<and>
   (\<exists>w1 w2. unlockStorage (exAccessWorld (exXfsStorage False)) ((exAccess ''wf-0-servers'' ''all'')\<lparr>na_Meta := (na_Meta (exAccess ''wf-0-servers'' ''all''))
     \<lparr>meta_Deleting := True\<rparr>\<rparr>) w1 = (Inr (), w2))"
proof -
  let ?a = "(exAccess ''wf-0-servers'' ''all'')\<lparr>na_Meta := (na_Meta (exAccess ''wf-0-servers'' ''all''))\<lparr>meta_Deleting := True\<rparr>\<rparr>"
  let ?k = "exAccessWorld (exXfsStorage False)"
  have before: "accessHeld ?a" by code_simp
  have after: "\<not> accessHeld (fst (snd (accessBody ?k (?a, ()))))" by code_simp
  obtain r a' w' where run: "accessBody ?k (?a, ()) = (r, (a', w'))" by (metis prod_cases3)
  with after have "\<not> accessHeld a'" by simp
  from access_finalizer_last [OF run before this] show ?thesis
    by (auto simp: noChildren_def retE_apply)
qed

theorem access_delete_needs_clients_witness:
  "accessBody (exAccessKube ((steady exTwice)\<lparr>kc_Get := \<lambda>_ _. failE (ApiErr ReasonNotFound [])\<rparr>) noChildren)
     ((exAccess ''wf-0-servers'' ''all'')\<lparr>na_Meta := zeroMeta\<lparr>meta_Deleting := True\<rparr>\<rparr>, ()) =
   (Inl (ApiErr ReasonNotFound []), ((exAccess ''wf-0-servers'' ''all'')\<lparr>na_Meta := zeroMeta\<lparr>meta_Deleting := True\<rparr>\<rparr>, ()))"
  by (rule access_delete_needs_clients) code_simp+

theorem access_devices_exclusive_witness:
  "distinct (map mountDevice (mountsOf (case fst (mapClientLocalStorage (exAccessWorld (exXfsStorage False)) (exAccess ''wf-0-servers'' ''all'')
     [''rabbit-1'', ''rabbit-1''] (exXfsStorage False) (exSet ''xfs'') ()) of Inl e \<Rightarrow> [] | Inr m \<Rightarrow> m)))"
proof -
  let ?k = "exAccessWorld (exXfsStorage False)" and ?a = "exAccess ''wf-0-servers'' ''all''"
  have "\<not> isl (fst (mapClientLocalStorage ?k ?a [''rabbit-1'', ''rabbit-1''] (exXfsStorage False) (exSet ''xfs'') ()))" by code_simp
  then obtain m w where run: "mapClientLocalStorage ?k ?a [''rabbit-1'', ''rabbit-1''] (exXfsStorage False) (exSet ''xfs'') () = (Inr m, w)"
    by (metis sum.collapse(2) prod.collapse)
  have laws: "listsByNamespace ?k" "rangesOnce ?k"
    by (simp_all add: listsByNamespace_def rangesOnce_def exAccessKube_def retE_apply exPairNode_def exNodeStorageOf_def)
  have "nas_Target (na_Spec ?a) \<noteq> ''shared''" by code_simp
  from access_devices_exclusive [OF run this laws] run show ?thesis by simp
qed

definition exRef :: "string \<Rightarrow> nat \<Rightarrow> mountReference" where
  "exRef c i = \<lparr>mr_client = c, mr_allocationIndex = i\<rparr>"

definition exPairBlock :: NnfNodeBlockStorage where
  "exPairBlock = setAllocations [\<lparr>nbp_Capacity = 100, nbp_Access = [''rabbit-1'', ''compute-9'']\<rparr>, \<lparr>nbp_Capacity = 100, nbp_Access = []\<rparr>] exBlockStorageOf"

lemma exPairBlock_opened: "\<exists>nb. openAccess [exRef ''compute-1'' 0, exRef ''compute-2'' 1] exPairBlock = Inr nb \<and> length (nbsp_Allocations (nb_Spec nb)) = 2"
  by (simp add: exPairBlock_def setAllocations_def openAccess_def addClient_def indexR_def exRef_def exBlockStorageOf_def zeroMeta_def)

theorem access_opened_exactly_witness:
  "\<exists>nb. openAccess [exRef ''compute-1'' 0, exRef ''compute-2'' 1] exPairBlock = Inr nb \<and>
     ''compute-9'' \<notin> set (nbp_Access (nbsp_Allocations (nb_Spec nb) ! 0)) \<and> ''compute-1'' \<in> set (nbp_Access (nbsp_Allocations (nb_Spec nb) ! 0))"
proof -
  obtain nb where nb: "openAccess [exRef ''compute-1'' 0, exRef ''compute-2'' 1] exPairBlock = Inr nb" using exPairBlock_opened by blast
  have "0 < length (nbsp_Allocations (nb_Spec exPairBlock))" by (simp add: exPairBlock_def setAllocations_def)
  note spec = access_opened_exactly [OF nb this, THEN conjunct1]
  have here: "meta_Namespace (nb_Meta exPairBlock) = ''rabbit-1''" "\<not> nbsp_SharedAllocation (nb_Spec exPairBlock)" by code_simp+
  have "''compute-1'' \<in> set (nbp_Access (nbsp_Allocations (nb_Spec nb) ! 0))"
    unfolding spec using here(2) by (auto simp: allocationIndexOf_def exRef_def intro!: exI [of _ "exRef ''compute-1'' 0"])
  moreover have "''compute-9'' \<notin> set (nbp_Access (nbsp_Allocations (nb_Spec nb) ! 0))"
    unfolding spec using here by (auto simp: exRef_def)
  ultimately show ?thesis using nb by blast
qed

theorem access_closed_for_all_witness:
  "\<exists>nb nb'. openAccess [exRef ''compute-1'' 0, exRef ''compute-2'' 1] exPairBlock = Inr nb \<and> closeAccess nb = Inr nb' \<and>
     map nbp_Access (nbsp_Allocations (nb_Spec nb')) = [[''rabbit-1''], [''rabbit-1'']]"
proof -
  obtain nb where nb: "openAccess [exRef ''compute-1'' 0, exRef ''compute-2'' 1] exPairBlock = Inr nb" using exPairBlock_opened by blast
  from access_closed_for_all [OF nb] nb show ?thesis
    by (auto simp: exPairBlock_def setAllocations_def exBlockStorageOf_def zeroMeta_def)
qed

definition exCell :: "NnfStorage accessKube" where
  "exCell = exAccessKube cellClient \<lparr>ck_List = \<lambda>_. retE [], ck_DeleteAllOf = \<lambda>_ _. retE (), ck_Delete = \<lambda>_. retE ()\<rparr>"

definition exLocked :: NnfStorage where
  "exLocked = snd (lockStorage exCell (exAccess ''one'' ''all'') (exXfsStorage False))"

theorem access_lock_exclusive_witness:
  "\<exists>holders. (lockStep exCell)\<^sup>*\<^sup>* (exXfsStorage False, {}) (exLocked, holders) \<and>
     accessOwner (exAccess ''one'' ''all'') \<in> holders \<and> accessOwner (exAccess ''two'' ''all'') \<notin> holders"
proof -
  let ?one = "accessOwner (exAccess ''one'' ''all'')" and ?two = "accessOwner (exAccess ''two'' ''all'')"
  have run: "lockStorage exCell (exAccess ''one'' ''all'') (exXfsStorage False) = (Inr False, exLocked)"
    by (simp add: exLocked_def prod_eq_iff) code_simp
  have reach: "(lockStep exCell)\<^sup>*\<^sup>* (exXfsStorage False, {}) (exLocked, {?one})"
    using lockStep.Lock [OF run, of "{}"] by (simp add: r_into_rtranclp)
  have cell: "ak_Storage exCell = cellClient" by (simp add: exCell_def exAccessKube_def)
  have "exclusiveStorage exLocked" "?one \<noteq> ?two" by code_simp+
  with access_lock_exclusive [OF cell reach, of ?one ?two] reach show ?thesis by blast
qed

theorem access_lock_handed_on_witness:
  "lockStorage exCell (exAccess ''two'' ''all'') exLocked = (Inr True, exLocked) \<and>
   (\<exists>s. unlockStorage exCell (exAccess ''one'' ''all'') exLocked = (Inr (), s) \<and> lockOf s = None)"
proof -
  have cell: "ak_Storage exCell = cellClient" by (simp add: exCell_def exAccessKube_def)
  have pre: "exclusiveStorage exLocked" "kv_wf (meta_Annotations (nstg_Meta exLocked))" "lockOf exLocked = Some (accessOwner (exAccess ''one'' ''all''))"
    "isStorageRef (exAccess ''one'' ''all'')" "isStorageRef (exAccess ''two'' ''all'')"
    "accessOwner (exAccess ''two'' ''all'') \<noteq> accessOwner (exAccess ''one'' ''all'')" by code_simp+
  from access_lock_handed_on [OF cell pre] show ?thesis by blast
qed

theorem access_finalizer_by_name_witness:
  "\<exists>s1 s2 s3. lockStorage exCell (exAccess ''one'' ''all'') exOstStorage = (Inr False, s1) \<and>
     lockStorage exCell (exAccess ''one'' ''single'') s1 = (Inr False, s2) \<and> unlockStorage exCell (exAccess ''one'' ''all'') s2 = (Inr (), s3) \<and>
     \<not> ContainsFinalizer (storageFinalizer (exAccess ''one'' ''single'')) (meta_Finalizers (nstg_Meta s3))"
  by (rule access_finalizer_by_name) (simp add: exCell_def exAccessKube_def, code_simp+)

end
