(* ===== verification/ContainerProfile.thy ===== *)
theory ContainerProfile
  imports NnfAccessController
begin

text \<open>
  The pods of a container profile (\<^verbatim>\<open>nnfcontainerprofile_types.go\<close>): a slim form of the pod of Kubernetes that
  the profile holds, the conversions from and to the pod itself, and the profile. Probes, secrets for images
  and sources of an environment are only copied; they are strings here. Of the sources of a value of a
  variable only the reference to a field of the pod is written out.
\<close>

section \<open>Parts of a pod\<close>

record EnvVar =
  ev_Name :: string
  ev_Value :: string
  ev_ValueFrom :: "(string \<times> string) option"

record VolumeMount =
  vmt_Name :: string
  vmt_MountPath :: string
  vmt_SubPath :: string
  vmt_ReadOnly :: bool

datatype VolumeSource =
    EmptyDir
  | HostPath (hp_Path: string) (hp_Type: string)
  | PersistentVolumeClaim string
  | SecretVolume string
  | OtherVolume string

record Volume =
  vol_Name :: string
  vol_VolumeSource :: VolumeSource

record Capabilities =
  cap_Add :: "string list"
  cap_Drop :: "string list"

record SecurityContext =
  sec_RunAsUser :: "int option"
  sec_RunAsGroup :: "int option"
  sec_RunAsNonRoot :: "bool option"
  sec_AllowPrivilegeEscalation :: "bool option"
  sec_Capabilities :: "Capabilities option"

record ContainerPort =
  cpo_ContainerPort :: int
  cpo_HostPort :: int

type_synonym Probe = string

record NnfContainer =
  nct_Name :: string
  nct_Image :: string
  nct_Command :: "string list"
  nct_Args :: "string list"
  nct_Env :: "EnvVar list"
  nct_EnvFrom :: "string list"
  nct_VolumeMounts :: "VolumeMount list"
  nct_WorkingDir :: string
  nct_RestartPolicy :: "string option"
  nct_LivenessProbe :: "Probe option"
  nct_ReadinessProbe :: "Probe option"
  nct_StartupProbe :: "Probe option"
  nct_TerminationMessagePath :: string
  nct_TerminationMessagePolicy :: string
  nct_ImagePullPolicy :: string

record Container =
  ctr_Name :: string
  ctr_Image :: string
  ctr_Command :: "string list"
  ctr_Args :: "string list"
  ctr_Env :: "EnvVar list"
  ctr_EnvFrom :: "string list"
  ctr_VolumeMounts :: "VolumeMount list"
  ctr_WorkingDir :: string
  ctr_RestartPolicy :: "string option"
  ctr_LivenessProbe :: "Probe option"
  ctr_ReadinessProbe :: "Probe option"
  ctr_StartupProbe :: "Probe option"
  ctr_TerminationMessagePath :: string
  ctr_TerminationMessagePolicy :: string
  ctr_ImagePullPolicy :: string
  ctr_Ports :: "ContainerPort list"
  ctr_SecurityContext :: "SecurityContext option"

record NnfPodSpec =
  nps_Containers :: "NnfContainer list"
  nps_InitContainers :: "NnfContainer list"
  nps_Volumes :: "Volume list"
  nps_TerminationGracePeriodSeconds :: "int option"
  nps_ShareProcessNamespace :: "bool option"
  nps_ImagePullSecrets :: "string list"
  nps_AutomountServiceAccountToken :: "bool option"

record Toleration =
  tol_Effect :: string
  tol_Key :: string
  tol_Operator :: string
  tol_Value :: string

record Affinity =
  aff_NodeKey :: string
  aff_NodeValues :: "string list"
  aff_AntiTopologyKey :: string
  aff_AntiLabels :: "(string \<times> string list) list"

record PodSpec =
  pod_Containers :: "Container list"
  pod_InitContainers :: "Container list"
  pod_Volumes :: "Volume list"
  pod_TerminationGracePeriodSeconds :: "int option"
  pod_ShareProcessNamespace :: "bool option"
  pod_ImagePullSecrets :: "string list"
  pod_AutomountServiceAccountToken :: "bool option"
  pod_Tolerations :: "Toleration list"
  pod_NodeSelector :: kv
  pod_Affinity :: "Affinity option"
  pod_FSGroup :: "int option"
  pod_RestartPolicy :: string
  pod_Hostname :: string
  pod_Subdomain :: string
  pod_ServiceAccountName :: string

section \<open>Conversions\<close>

definition ToCoreContainer :: "NnfContainer \<Rightarrow> Container" where
  "ToCoreContainer s =
     \<lparr>ctr_Name = nct_Name s, ctr_Image = nct_Image s, ctr_Command = nct_Command s, ctr_Args = nct_Args s, ctr_Env = nct_Env s,
      ctr_EnvFrom = nct_EnvFrom s, ctr_VolumeMounts = nct_VolumeMounts s, ctr_WorkingDir = nct_WorkingDir s,
      ctr_RestartPolicy = nct_RestartPolicy s, ctr_LivenessProbe = nct_LivenessProbe s, ctr_ReadinessProbe = nct_ReadinessProbe s,
      ctr_StartupProbe = nct_StartupProbe s, ctr_TerminationMessagePath = nct_TerminationMessagePath s,
      ctr_TerminationMessagePolicy = nct_TerminationMessagePolicy s, ctr_ImagePullPolicy = nct_ImagePullPolicy s,
      ctr_Ports = [], ctr_SecurityContext = None\<rparr>"

definition ToCorePodSpec :: "NnfPodSpec \<Rightarrow> PodSpec" where
  "ToCorePodSpec s =
     \<lparr>pod_Containers = map ToCoreContainer (nps_Containers s), pod_InitContainers = map ToCoreContainer (nps_InitContainers s),
      pod_Volumes = nps_Volumes s, pod_TerminationGracePeriodSeconds = nps_TerminationGracePeriodSeconds s,
      pod_ShareProcessNamespace = nps_ShareProcessNamespace s, pod_ImagePullSecrets = nps_ImagePullSecrets s,
      pod_AutomountServiceAccountToken = nps_AutomountServiceAccountToken s, pod_Tolerations = [], pod_NodeSelector = [],
      pod_Affinity = None, pod_FSGroup = None, pod_RestartPolicy = [], pod_Hostname = [], pod_Subdomain = [],
      pod_ServiceAccountName = []\<rparr>"

text \<open>A pointer that is nil in the source is left as it is in the target.\<close>

definition firstSome :: "'a option \<Rightarrow> 'a option \<Rightarrow> 'a option" where
  "firstSome new old = (case new of None \<Rightarrow> old | Some v \<Rightarrow> Some v)"

definition FromCoreContainer :: "NnfContainer \<Rightarrow> Container \<Rightarrow> NnfContainer" where
  "FromCoreContainer s c =
     \<lparr>nct_Name = ctr_Name c, nct_Image = ctr_Image c, nct_Command = ctr_Command c, nct_Args = ctr_Args c, nct_Env = ctr_Env c,
      nct_EnvFrom = ctr_EnvFrom c, nct_VolumeMounts = ctr_VolumeMounts c, nct_WorkingDir = ctr_WorkingDir c,
      nct_RestartPolicy = firstSome (ctr_RestartPolicy c) (nct_RestartPolicy s), nct_LivenessProbe = firstSome (ctr_LivenessProbe c) (nct_LivenessProbe s),
      nct_ReadinessProbe = firstSome (ctr_ReadinessProbe c) (nct_ReadinessProbe s), nct_StartupProbe = firstSome (ctr_StartupProbe c) (nct_StartupProbe s),
      nct_TerminationMessagePath = ctr_TerminationMessagePath c, nct_TerminationMessagePolicy = ctr_TerminationMessagePolicy c,
      nct_ImagePullPolicy = ctr_ImagePullPolicy c\<rparr>"

definition zeroContainer :: NnfContainer where
  "zeroContainer =
     \<lparr>nct_Name = [], nct_Image = [], nct_Command = [], nct_Args = [], nct_Env = [], nct_EnvFrom = [], nct_VolumeMounts = [],
      nct_WorkingDir = [], nct_RestartPolicy = None, nct_LivenessProbe = None, nct_ReadinessProbe = None, nct_StartupProbe = None,
      nct_TerminationMessagePath = [], nct_TerminationMessagePolicy = [], nct_ImagePullPolicy = []\<rparr>"

definition FromCorePodSpec :: "NnfPodSpec \<Rightarrow> PodSpec \<Rightarrow> NnfPodSpec" where
  "FromCorePodSpec s p =
     \<lparr>nps_Containers = map (FromCoreContainer zeroContainer) (pod_Containers p),
      nps_InitContainers = map (FromCoreContainer zeroContainer) (pod_InitContainers p), nps_Volumes = pod_Volumes p,
      nps_TerminationGracePeriodSeconds = firstSome (pod_TerminationGracePeriodSeconds p) (nps_TerminationGracePeriodSeconds s),
      nps_ShareProcessNamespace = firstSome (pod_ShareProcessNamespace p) (nps_ShareProcessNamespace s),
      nps_ImagePullSecrets = pod_ImagePullSecrets p,
      nps_AutomountServiceAccountToken = firstSome (pod_AutomountServiceAccountToken p) (nps_AutomountServiceAccountToken s)\<rparr>"

lemma firstSome_simps [simp]: "firstSome (Some v) old = Some v" "firstSome None old = old" "firstSome new None = new"
  by (simp_all add: firstSome_def split: option.splits)

lemma FromCore_ToCore [simp]: "FromCoreContainer zeroContainer (ToCoreContainer c) = c"
  by (simp add: FromCoreContainer_def ToCoreContainer_def zeroContainer_def)

section \<open>The profile\<close>

record NnfContainerProfileStorage =
  cps_Name :: string
  cps_Optional :: bool
  cps_PVCMode :: string

record NnfMPISpec =
  mpi_Launcher :: NnfPodSpec
  mpi_Worker :: NnfPodSpec
  mpi_CopyOffload :: bool
  mpi_SlotsPerWorker :: "int option"

record NnfContainerProfile =
  cpr_Meta :: ObjectMeta
  cpr_Pinned :: bool
  cpr_CreateContainer :: bool
  cpr_Storages :: "NnfContainerProfileStorage list"
  cpr_PreRunTimeoutSeconds :: "int option"
  cpr_PostRunTimeoutSeconds :: "int option"
  cpr_RetryLimit :: int
  cpr_UserID :: "32 word option"
  cpr_GroupID :: "32 word option"
  cpr_NumPorts :: int
  cpr_NnfSpec :: "NnfPodSpec option"
  cpr_NnfMPISpec :: "NnfMPISpec option"

definition countContainersInProfile :: "NnfContainerProfile \<Rightarrow> int" where
  "countContainersInProfile p =
     (case cpr_NnfMPISpec p of
        Some m \<Rightarrow> int (length (nps_Containers (mpi_Launcher m)))
      | None \<Rightarrow> (case cpr_NnfSpec p of Some s \<Rightarrow> int (length (nps_Containers s)) | None \<Rightarrow> 0))"

section \<open>Jobs\<close>

record JobCondition =
  jc_Type :: string
  jc_Status :: string
  jc_Reason :: string
  jc_Message :: string

record Job =
  job_Meta :: ObjectMeta
  job_BackoffLimit :: int
  job_ActiveDeadlineSeconds :: "int option"
  job_TemplateLabels :: kv
  job_Template :: PodSpec
  job_Conditions :: "JobCondition list"
  job_Ready :: "int option"

record MPIReplica =
  rep_Meta :: ObjectMeta
  rep_Spec :: PodSpec
  rep_RestartPolicy :: string
  rep_Replicas :: "int option"

record MPIJob =
  mpj_Meta :: ObjectMeta
  mpj_Launcher :: MPIReplica
  mpj_Worker :: MPIReplica
  mpj_CleanPodPolicy :: string
  mpj_BackoffLimit :: int
  mpj_SlotsPerWorker :: "int option"
  mpj_SSHAuthMountPath :: string
  mpj_Conditions :: "JobCondition list"

record NnfContainerDataVolume =
  cdo_Name :: string
  cdo_Command :: string
  cdo_DirectiveIndex :: int
  cdo_MountPath :: string

record NnfContainerData =
  cda_Meta :: ObjectMeta
  cda_Volumes :: "NnfContainerDataVolume list"

record Service =
  svc_Meta :: ObjectMeta
  svc_Selector :: kv
  svc_ClusterIP :: string

record Secret =
  secret_Meta :: ObjectMeta
  secret_Type :: string
  secret_Immutable :: bool
  secret_Data :: kv
  secret_StringData :: kv

text \<open>
  A pod that goes into a profile and out again is the same, up to the fields that a profile has no place for.
\<close>

theorem pod_spec_roundtrip: "FromCorePodSpec s' (ToCorePodSpec s) = s \<longleftrightarrow>
     (nps_TerminationGracePeriodSeconds s = None \<longrightarrow> nps_TerminationGracePeriodSeconds s' = None) \<and>
     (nps_ShareProcessNamespace s = None \<longrightarrow> nps_ShareProcessNamespace s' = None) \<and>
     (nps_AutomountServiceAccountToken s = None \<longrightarrow> nps_AutomountServiceAccountToken s' = None)"
  by (cases s) (auto simp: FromCorePodSpec_def ToCorePodSpec_def comp_def firstSome_def split: option.splits)

end
