(* ===== verification/Token.thy ===== *)
theory Token
  imports Prelude
begin

text \<open>
  The keys and tokens by which a user container trusts its clients (\<^verbatim>\<open>pkg/token/create_token.go\<close>). The packages
  for elliptic curves, PKCS8, PEM and JSON web tokens are a parameter, the record \<open>tokenLib\<close>: \<open>tl_Parse\<close> is
  \<^verbatim>\<open>jwt.Parse\<close> with the function that gives the key for the method of the token, and says whether it is valid.
\<close>

record 'w tokenLib =
  tl_Now :: "('w, int) io"
  tl_SignedString :: "string \<Rightarrow> string \<Rightarrow> int \<Rightarrow> string \<Rightarrow> string res"
  tl_Parse :: "string \<Rightarrow> (string \<Rightarrow> string res) \<Rightarrow> bool res"
  tl_GenerateKey :: "('w, string) io"
  tl_MarshalPKCS8PrivateKey :: "string \<Rightarrow> string res"
  tl_EncodeToMemory :: "string \<Rightarrow> string \<Rightarrow> string option"
  tl_Decode :: "string \<Rightarrow> (string \<times> string) option"

abbreviation signingMethod :: string where
  "signingMethod \<equiv> ''HS256''"

definition failWith :: "string \<Rightarrow> failure \<Rightarrow> failure" where
  "failWith msg e = Fail (msg @ '': '' @ errText e)"

definition CreateTokenFromKey :: "'w tokenLib \<Rightarrow> string \<Rightarrow> string \<Rightarrow> ('w, string) io" where
  "CreateTokenFromKey lib key subject =
     bindE (tl_Now lib) (\<lambda>now.
       wrapE (failWith ''failure from SignedString'') (liftE (tl_SignedString lib signingMethod subject now key)))"

definition VerifyToken :: "'w tokenLib \<Rightarrow> string \<Rightarrow> string \<Rightarrow> unit res" where
  "VerifyToken lib tokenString key =
     (case tl_Parse lib tokenString (\<lambda>alg. if alg \<noteq> signingMethod
             then Inl (Fail ''token verification failed: unexpected signing method for token'') else Inr key) of
        Inl e \<Rightarrow> Inl (if is_panic e then e else failWith ''token verification failed: parse failed'' e)
      | Inr valid \<Rightarrow> if valid then Inr () else Inl (Fail ''token verification failed: invalid token''))"

definition CreateKeyForTokens :: "'w tokenLib \<Rightarrow> ('w, string \<times> string) io" where
  "CreateKeyForTokens lib =
     bindE (wrapE (failWith ''failure from GenerateKey'') (tl_GenerateKey lib)) (\<lambda>privateKey.
     bindE (wrapE (failWith ''failure from MarshalPKCS8PrivateKey'') (liftE (tl_MarshalPKCS8PrivateKey lib privateKey))) (\<lambda>keyBytes.
       case tl_EncodeToMemory lib ''EC PRIVATE KEY'' keyBytes of
         None \<Rightarrow> failE (Fail ''unable to PEM-encode signing key for token'')
       | Some pemKey \<Rightarrow> retE (keyBytes, pemKey)))"

definition GetKeyFromPEM :: "'w tokenLib \<Rightarrow> string \<Rightarrow> string res" where
  "GetKeyFromPEM lib pemKey =
     (case tl_Decode lib pemKey of None \<Rightarrow> Inl (Fail ''unable to decode PEM block'') | Some (_, bytes) \<Rightarrow> Inr bytes)"

text \<open>
  What the packages promise: PEM decodes what it encoded; a token parses as valid with the key that signed
  it, and with another key the parser reports an error.
\<close>

definition tokenLaws :: "'w tokenLib \<Rightarrow> bool" where
  "tokenLaws lib \<longleftrightarrow>
     (\<forall>t b p. tl_EncodeToMemory lib t b = Some p \<longrightarrow> tl_Decode lib p = Some (t, b)) \<and>
     (\<forall>alg sub now key s keyFor. tl_SignedString lib alg sub now key = Inr s \<longrightarrow>
        (keyFor alg = Inr key \<longrightarrow> tl_Parse lib s keyFor = Inr True) \<and>
        (\<forall>key'. keyFor alg = Inr key' \<and> key' \<noteq> key \<longrightarrow> (\<exists>e. tl_Parse lib s keyFor = Inl e)))"

lemma CreateTokenFromKey_signed:
  "CreateTokenFromKey lib key subject w = (Inr s, w') \<Longrightarrow> \<exists>now. tl_SignedString lib signingMethod subject now key = Inr s"
  unfolding CreateTokenFromKey_def bindE_eq_Inr wrapE_def catchE_def liftE_def failE_def
  by (force split: sum.splits if_splits)

lemma key_survives_pem:
  assumes "tokenLaws lib" and "CreateKeyForTokens lib w = (Inr (keyBytes, pemKey), w')"
  shows "GetKeyFromPEM lib pemKey = Inr keyBytes"
  using assms by (auto simp: CreateKeyForTokens_def GetKeyFromPEM_def tokenLaws_def bindE_eq_Inr retE_apply failE_def split: option.splits)

lemma token_verifies_iff:
  assumes "tokenLaws lib" and "CreateTokenFromKey lib key subject w = (Inr s, w')"
  shows "VerifyToken lib s key' = Inr () \<longleftrightarrow> key' = key"
proof -
  obtain now where s: "tl_SignedString lib signingMethod subject now key = Inr s"
    using CreateTokenFromKey_signed [OF assms(2)] by blast
  let ?k = "\<lambda>alg. if alg \<noteq> signingMethod then Inl (Fail ''token verification failed: unexpected signing method for token'') else Inr key'"
  have "(?k signingMethod = Inr key \<longrightarrow> tl_Parse lib s ?k = Inr True) \<and>
      (\<forall>key''. ?k signingMethod = Inr key'' \<and> key'' \<noteq> key \<longrightarrow> (\<exists>e. tl_Parse lib s ?k = Inl e))"
    using conjunct2 [OF assms(1) [unfolded tokenLaws_def], THEN spec, of signingMethod, THEN spec, of subject, THEN spec, of now,
        THEN spec, of key, THEN spec, of s, THEN spec, of ?k, THEN mp, OF s] .
  then show ?thesis by (auto simp: VerifyToken_def)
qed

end
