(* ===== verification/Workflow.thy ===== *)
theory Workflow
  imports PortManager ContainerProfile Token
begin

text \<open>
  The workflow resource and the helpers of its controller (\<^verbatim>\<open>nnf_workflow_controller_helpers.go\<close>): names and
  labels of the resources of a directive, finding a directive from a staging argument, mount paths, the
  report of errors in the status of a driver, and the profiles of data movement and containers
  (\<^verbatim>\<open>nnfdatamovementprofile_helpers.go\<close>, \<^verbatim>\<open>nnfcontainerprofile_helpers.go\<close>).

  Where the code drops the error of \<^verbatim>\<open>BuildArgsMap\<close> the map is nil, and reading it gives empty strings.
\<close>

section \<open>The resource\<close>

record WorkflowDriverStatus =
  wds_DriverID :: string
  wds_DWDIndex :: int
  wds_WatchState :: string
  wds_Completed :: bool
  wds_Status :: string
  wds_Message :: string
  wds_Error :: string
  wds_CompleteTime :: "int option"

record WorkflowTokenSecret =
  wts_SecretName :: string
  wts_SecretNamespace :: string

record WorkflowSpec =
  wfs_DesiredState :: string
  wfs_JobID :: IntOrString
  wfs_UserID :: "32 word"
  wfs_GroupID :: "32 word"
  wfs_DWDirectives :: "string list"

record WorkflowStatus =
  wst_State :: string
  wst_Ready :: bool
  wst_Env :: "kv option"
  wst_Drivers :: "WorkflowDriverStatus list"
  wst_DirectiveBreakdowns :: "ObjectReference list"
  wst_Requires :: "string list"
  wst_WorkflowToken :: "WorkflowTokenSecret option"
  wst_DesiredStateChange :: "int option"

record Workflow =
  wf_Meta :: ObjectMeta
  wf_Spec :: WorkflowSpec
  wf_Status :: WorkflowStatus

abbreviation wfName :: "Workflow \<Rightarrow> string" where
  "wfName wkf \<equiv> meta_Name (wf_Meta wkf)"

abbreviation wfNamespace :: "Workflow \<Rightarrow> string" where
  "wfNamespace wkf \<equiv> meta_Namespace (wf_Meta wkf)"

abbreviation StatusRunning :: string where
  "StatusRunning \<equiv> ''Running''"

abbreviation StatusCompleted :: string where
  "StatusCompleted \<equiv> ''Completed''"

abbreviation StatusTransientCondition :: string where
  "StatusTransientCondition \<equiv> ''TransientCondition''"

abbreviation StatusError :: string where
  "StatusError \<equiv> ''Error''"

definition IntOrString_String :: "IntOrString \<Rightarrow> string" where
  "IntOrString_String v = (case v of IntVal i \<Rightarrow> itoa i | StrVal s \<Rightarrow> s)"

abbreviation jobID :: "Workflow \<Rightarrow> string" where
  "jobID wkf \<equiv> IntOrString_String (wfs_JobID (wf_Spec wkf))"

definition printWord :: "32 word \<Rightarrow> string" where
  "printWord x = itoa_nat (unat x)"

definition updWf :: "(WorkflowStatus \<Rightarrow> WorkflowStatus) \<Rightarrow> Workflow \<Rightarrow> Workflow" where
  "updWf f wkf = wkf\<lparr>wf_Status := f (wf_Status wkf)\<rparr>"

text \<open>A variable of the workflow; a nil map reads as empty.\<close>

definition envOf :: "Workflow \<Rightarrow> string \<Rightarrow> string" where
  "envOf wkf name = (case wst_Env (wf_Status wkf) of None \<Rightarrow> [] | Some m \<Rightarrow> labelOf name m)"

definition to_lower :: "string \<Rightarrow> string" where
  "to_lower = map (\<lambda>c. let n = (of_char c :: nat) in if 65 \<le> n \<and> n \<le> 90 then char_of (n + 32) else c)"

section \<open>Results of the steps\<close>

text \<open>\<^verbatim>\<open>result\<close>: what to ask of the queue and why. The object it names is for the log only.\<close>

record stepResult =
  sr_Result :: Result
  sr_reason :: string

definition wfRequeue :: "string \<Rightarrow> stepResult" where
  "wfRequeue reason = \<lparr>sr_Result = requeueResult, sr_reason = reason\<rparr>"

definition result_after :: "int \<Rightarrow> stepResult \<Rightarrow> stepResult" where
  "result_after d r = r\<lparr>sr_Result := requeueAfter d\<rparr>"

section \<open>Directives\<close>

definition ignoreError :: "kv res \<Rightarrow> kv res" where
  "ignoreError r = (case r of Inl e \<Rightarrow> if is_panic e then Inl e else Inr [] | Inr m \<Rightarrow> Inr m)"

definition directiveAt :: "Workflow \<Rightarrow> int \<Rightarrow> string res" where
  "directiveAt wkf index =
     (if index < 0 then Inl (Panic ''index out of range'') else indexR (wfs_DWDirectives (wf_Spec wkf)) (nat index))"

definition dwArgsAt :: "Workflow \<Rightarrow> int \<Rightarrow> kv res" where
  "dwArgsAt wkf index = (case directiveAt wkf index of Inl e \<Rightarrow> Inl e | Inr d \<Rightarrow> ignoreError (BuildArgsMap d))"

definition commandOf :: "kv \<Rightarrow> string" where
  "commandOf args = labelOf ''command'' args"

fun findIndexFrom :: "(string \<Rightarrow> bool res) \<Rightarrow> int \<Rightarrow> string list \<Rightarrow> int res" where
  "findIndexFrom p i [] = Inr (-1)"
| "findIndexFrom p i (d # ds) =
     (case p d of Inl e \<Rightarrow> Inl e | Inr True \<Rightarrow> Inr i | Inr False \<Rightarrow> findIndexFrom p (i + 1) ds)"

definition onArgs :: "(kv \<Rightarrow> bool) \<Rightarrow> string \<Rightarrow> bool res" where
  "onArgs p d = (case ignoreError (BuildArgsMap d) of Inl e \<Rightarrow> Inl e | Inr args \<Rightarrow> Inr (p args))"

definition findDirectiveIndexByName :: "Workflow \<Rightarrow> string \<Rightarrow> string \<Rightarrow> int res" where
  "findDirectiveIndexByName wkf name command =
     findIndexFrom (onArgs (\<lambda>args. labelOf ''name'' args = name \<and> commandOf args = command)) 0 (wfs_DWDirectives (wf_Spec wkf))"

text \<open>A staging argument: \<^verbatim>\<open>$DW_JOB_my_fs/path\<close> is the path \<^verbatim>\<open>/path\<close> in the file system \<^verbatim>\<open>my-fs\<close>.\<close>

abbreviation jobPrefix :: string where
  "jobPrefix \<equiv> ''$DW_JOB_''"

abbreviation persistentPrefix :: string where
  "persistentPrefix \<equiv> ''$DW_PERSISTENT_''"

definition splitStagingArgumentIntoNameAndPath :: "string \<Rightarrow> string \<times> string" where
  "splitStagingArgumentIntoNameAndPath arg =
     (let varname = (if has_prefix arg jobPrefix then hd (go_split2 (CHR ''/'') (drop (length jobPrefix) arg))
                     else if has_prefix arg persistentPrefix then hd (go_split2 (CHR ''/'') (drop (length persistentPrefix) arg))
                     else [])
      in (go_replace_all varname ''_'' ''-'',
          if CHR ''/'' \<in> set arg then CHR ''/'' # go_split2 (CHR ''/'') arg ! 1 else []))"

definition findCopyOutDirectiveIndexByName :: "Workflow \<Rightarrow> string \<Rightarrow> int res" where
  "findCopyOutDirectiveIndexByName wkf name =
     findIndexFrom (\<lambda>d. if has_prefix d ''#DW copy_out''
         then onArgs (\<lambda>args. fst (splitStagingArgumentIntoNameAndPath (labelOf ''source'' args)) = name) d else Inr False)
       0 (wfs_DWDirectives (wf_Spec wkf))"

definition findContainerDirectiveIndexByName :: "Workflow \<Rightarrow> string \<Rightarrow> int res" where
  "findContainerDirectiveIndexByName wkf name =
     findIndexFrom (onArgs (\<lambda>args. commandOf args = ''container'' \<and>
         list_ex (\<lambda>(k, v). (has_prefix k ''DW_JOB_'' \<or> has_prefix k ''DW_PERSISTENT_'') \<and> v = name) args))
       0 (wfs_DWDirectives (wf_Spec wkf))"

section \<open>Names, labels and paths\<close>

definition indexedResourceName :: "Workflow \<Rightarrow> int \<Rightarrow> string" where
  "indexedResourceName wkf dwIndex = wfName wkf @ ''-'' @ itoa dwIndex"

definition getStorageReferenceNameFromWorkflowActual :: "Workflow \<Rightarrow> int \<Rightarrow> (string \<times> string) res" where
  "getStorageReferenceNameFromWorkflowActual wkf dwdIndex =
     (case dwArgsAt wkf dwdIndex of
        Inl e \<Rightarrow> Inl e
      | Inr p \<Rightarrow> Inr (if commandOf p \<in> {''persistentdw'', ''create_persistent'', ''destroy_persistent''}
                     then labelOf ''name'' p else indexedResourceName wkf dwdIndex, wfNamespace wkf))"

abbreviation DataMovementTeardownStateLabel :: string where
  "DataMovementTeardownStateLabel \<equiv> ''nnf.cray.hpe.com/teardown_state''"

abbreviation DataMovementInitiatorLabel :: string where
  "DataMovementInitiatorLabel \<equiv> ''dm.cray.hpe.com/initiator''"

definition putLabel :: "string \<Rightarrow> string \<Rightarrow> ObjectMeta \<Rightarrow> ObjectMeta" where
  "putLabel key value m = m\<lparr>meta_Labels := kv_put key value (meta_Labels m)\<rparr>"

definition addJobIDLabel :: "ObjectMeta \<Rightarrow> string \<Rightarrow> ObjectMeta" where
  "addJobIDLabel m job = putLabel JobIDLabel (go_replace_all job '' '' ''-'') m"

definition addDirectiveIndexLabel :: "ObjectMeta \<Rightarrow> int \<Rightarrow> ObjectMeta" where
  "addDirectiveIndexLabel m index = putLabel DirectiveIndexLabel (itoa index) m"

definition AddDataMovementTeardownStateLabel :: "ObjectMeta \<Rightarrow> string \<Rightarrow> ObjectMeta" where
  "AddDataMovementTeardownStateLabel m state = putLabel DataMovementTeardownStateLabel state m"

definition AddDataMovementInitiatorLabel :: "ObjectMeta \<Rightarrow> string \<Rightarrow> ObjectMeta" where
  "AddDataMovementInitiatorLabel m initiator = putLabel DataMovementInitiatorLabel initiator m"

definition AddWorkflowLabels :: "ObjectMeta \<Rightarrow> ObjectMeta \<Rightarrow> ObjectMeta" where
  "AddWorkflowLabels m wkf =
     putLabel WorkflowUidLabel (meta_UID wkf) (putLabel WorkflowNamespaceLabel (meta_Namespace wkf) (putLabel WorkflowNameLabel (meta_Name wkf) m))"

definition MatchingWorkflow :: "ObjectMeta \<Rightarrow> kv" where
  "MatchingWorkflow wkf = [(WorkflowNameLabel, meta_Name wkf), (WorkflowNamespaceLabel, meta_Namespace wkf)]"

definition RemoveOwnerLabels :: "ObjectMeta \<Rightarrow> ObjectMeta" where
  "RemoveOwnerLabels m = m\<lparr>meta_Labels := AList.delete OwnerUidLabel (AList.delete OwnerNamespaceLabel
     (AList.delete OwnerNameLabel (AList.delete OwnerKindLabel (meta_Labels m))))\<rparr>"

definition getOverrideMountPath :: "NnfStorageProfile \<Rightarrow> string \<Rightarrow> string \<Rightarrow> string" where
  "getOverrideMountPath p fsType defaultPath =
     (let override = (\<lambda>vars. useOverrideIfPresent vars ''$MOUNT_PATH'' defaultPath); d = prof_Data p in
      if fsType = ''raw'' then override (sd_VariableOverride (pd_RawStorage d))
      else if fsType = ''xfs'' then override (sd_VariableOverride (pd_XFSStorage d))
      else if fsType = ''gfs2'' then override (sd_VariableOverride (pd_GFS2Storage d))
      else if fsType = ''lustre'' then override (co_VariableOverride (ld_ClientOptions (pd_LustreStorage d)))
      else defaultPath)"

definition buildMountPath :: "string option \<Rightarrow> Workflow \<Rightarrow> NnfStorageProfile \<Rightarrow> string \<Rightarrow> int \<Rightarrow> string" where
  "buildMountPath env wkf p fsType index =
     (let prefix = (case env of None \<Rightarrow> ''/mnt/nnf'' | Some s \<Rightarrow> if s = [] then ''/mnt/nnf'' else s) in
      getOverrideMountPath p fsType (filepath_Clean (''/'' @ prefix @ ''/'' @ meta_UID (wf_Meta wkf) @ ''-'' @ itoa index)))"

definition buildComputeMountPath :: "(string \<Rightarrow> string option) \<Rightarrow> Workflow \<Rightarrow> NnfStorageProfile \<Rightarrow> string \<Rightarrow> int \<Rightarrow> string" where
  "buildComputeMountPath env = buildMountPath (env ''COMPUTE_MOUNT_PREFIX'')"

definition buildServerMountPath :: "(string \<Rightarrow> string option) \<Rightarrow> Workflow \<Rightarrow> NnfStorageProfile \<Rightarrow> string \<Rightarrow> int \<Rightarrow> string" where
  "buildServerMountPath env = buildMountPath (env ''SERVER_MOUNT_PREFIX'')"

text \<open>A nil access is a nil pointer only where its path is used.\<close>

definition getRabbitRelativePath :: "string \<Rightarrow> ObjectReference \<Rightarrow> NnfAccess option \<Rightarrow> string \<Rightarrow> string \<Rightarrow> int \<Rightarrow> string res" where
  "getRabbitRelativePath fsType sref access path namespace index =
     (let slash = (\<lambda>p. if has_suffix path ''/'' then p @ ''/'' else p) in
      if ref_Kind sref \<noteq> ''NnfStorage'' then Inr path
      else if fsType = ''xfs'' \<or> fsType = ''gfs2'' then
        (case derefR access of
           Inl e \<Rightarrow> Inl e
         | Inr a \<Rightarrow> Inr (slash (filepath_Join (filepath_Join (nas_MountPathPrefix (na_Spec a)) (namespace @ ''-'' @ itoa index)) path)))
      else if fsType = ''lustre'' then
        (case derefR access of Inl e \<Rightarrow> Inl e | Inr a \<Rightarrow> Inr (slash (filepath_Join (nas_MountPath (na_Spec a)) path)))
      else Inr (slash path))"

text \<open>
  \<^verbatim>\<open>(@[A-Za-z0-9]+[A-Za-z])0\<close> replaced by its group: in the letters and digits after an \<^verbatim>\<open>@\<close> the last zero that
  follows a letter other than the first goes away.
\<close>

definition isLetter :: "char \<Rightarrow> bool" where
  "isLetter c \<longleftrightarrow> (CHR ''a'' \<le> c \<and> c \<le> CHR ''z'') \<or> (CHR ''A'' \<le> c \<and> c \<le> CHR ''Z'')"

definition isAlnum :: "char \<Rightarrow> bool" where
  "isAlnum c \<longleftrightarrow> isLetter c \<or> (CHR ''0'' \<le> c \<and> c \<le> CHR ''9'')"

definition dropLnetZero :: "string \<Rightarrow> string" where
  "dropLnetZero r =
     (let js = filter (\<lambda>j. r ! j = CHR ''0'' \<and> isLetter (r ! (j - 1))) [2 ..< length r] in
      if js = [] then r else take (last js) r @ drop (Suc (last js)) r)"

fun trimLnetFrom :: "nat \<Rightarrow> string \<Rightarrow> string" where
  "trimLnetFrom 0 s = s"
| "trimLnetFrom (Suc n) [] = []"
| "trimLnetFrom (Suc n) (c # s) =
     (if c = CHR ''@'' then c # dropLnetZero (takeWhile isAlnum s) @ trimLnetFrom n (dropWhile isAlnum s)
      else c # trimLnetFrom n s)"

definition trimLnet :: "string \<Rightarrow> string" where
  "trimLnet s = trimLnetFrom (length s) s"

section \<open>Errors in the status of a driver\<close>

definition ToStatus :: "severity \<Rightarrow> string" where
  "ToStatus s = (case s of SeverityMinor \<Rightarrow> StatusRunning | SeverityMajor \<Rightarrow> StatusTransientCondition | SeverityFatal \<Rightarrow> StatusError)"

definition GetUserMessage :: "ResourceErrorInfo \<Rightarrow> string" where
  "GetUserMessage e =
     (case ErrType e of TypeInternal \<Rightarrow> ''Internal'' | TypeWLM \<Rightarrow> ''WLM'' | TypeUser \<Rightarrow> ''User'') @ '' error: '' @ UserMessage e"

definition handleWorkflowError :: "failure \<Rightarrow> WorkflowDriverStatus \<Rightarrow> WorkflowDriverStatus" where
  "handleWorkflowError err d =
     (case err of
        ResErr e \<Rightarrow> d\<lparr>wds_Status := ToStatus (Severity e), wds_Message := GetUserMessage e, wds_Error := resErrText e\<rparr>
      | _ \<Rightarrow> d\<lparr>wds_Status := StatusError, wds_Message := ''Internal error: '' @ errText err, wds_Error := errText err\<rparr>)"

definition driverPending :: "string \<Rightarrow> Workflow \<Rightarrow> WorkflowDriverStatus \<Rightarrow> bool" where
  "driverPending driverID wkf d \<longleftrightarrow>
     wds_DriverID d = driverID \<and> wst_State (wf_Status wkf) = wds_WatchState d \<and> \<not> wds_Completed d"

fun reportAt :: "(WorkflowDriverStatus \<Rightarrow> bool) \<Rightarrow> failure \<Rightarrow> WorkflowDriverStatus list \<Rightarrow> WorkflowDriverStatus list option" where
  "reportAt p err [] = None"
| "reportAt p err (d # ds) = (if p d then Some (handleWorkflowError err d # ds) else map_option ((#) d) (reportAt p err ds))"

definition handleWorkflowErrorByIndex :: "string \<Rightarrow> failure \<Rightarrow> int \<Rightarrow> Workflow \<Rightarrow> Workflow res" where
  "handleWorkflowErrorByIndex driverID err index wkf =
     (case reportAt (\<lambda>d. driverPending driverID wkf d \<and> wds_DWDIndex d = index) err (wst_Drivers (wf_Status wkf)) of
        None \<Rightarrow> Inl (Panic (itoa index))
      | Some ds \<Rightarrow> Inr (updWf (\<lambda>st. st\<lparr>wst_Drivers := ds\<rparr>) wkf))"


section \<open>Resources the controller works with\<close>

record NnfDataMovementSpecSourceDestination =
  sdm_Path :: string
  sdm_StorageReference :: ObjectReference

record NnfDataMovementSpec =
  dms_Source :: "NnfDataMovementSpecSourceDestination option"
  dms_Destination :: "NnfDataMovementSpecSourceDestination option"
  dms_UserId :: "32 word"
  dms_GroupId :: "32 word"
  dms_ProfileReference :: ObjectReference

record NnfDataMovementStatus =
  dmt_State :: string
  dmt_Status :: string
  dmt_Message :: string

record NnfDataMovement =
  dm_Meta :: ObjectMeta
  dm_Spec :: NnfDataMovementSpec
  dm_Status :: NnfDataMovementStatus

abbreviation DataMovementConditionTypeFinished :: string where
  "DataMovementConditionTypeFinished \<equiv> ''Finished''"

abbreviation DataMovementConditionReasonSuccess :: string where
  "DataMovementConditionReasonSuccess \<equiv> ''Success''"

abbreviation DataMovementConditionReasonFailed :: string where
  "DataMovementConditionReasonFailed \<equiv> ''Failed''"

abbreviation DataMovementNamespace :: string where
  "DataMovementNamespace \<equiv> ''nnf-dm-system''"

abbreviation DataMovementManagerName :: string where
  "DataMovementManagerName \<equiv> ''nnf-dm-manager-controller-manager''"

record NnfDataMovementProfile =
  dmp_Meta :: ObjectMeta
  dmp_Default :: bool
  dmp_Pinned :: bool
  dmp_Command :: string

record GlobalLustre =
  lfs_Meta :: ObjectMeta
  lfs_MountRoot :: string
  lfs_Namespaces :: "(string \<times> string list) list"

record nnfContainerVolume =
  ncv_name :: string
  ncv_command :: string
  ncv_directiveName :: string
  ncv_directiveIndex :: int
  ncv_mountPath :: string
  ncv_envVarName :: string
  ncv_pvcName :: string

record nnfContainerSecret =
  ncs_name :: string
  ncs_mountPath :: string
  ncs_secretName :: string
  ncs_envVarsToFileNames :: kv

text \<open>
  The cluster: what the containers need, and the rest. The packages behind keys and tokens and
  the HTTP client are parameters. \<open>wk_Perm\<close> and \<open>wk_Order\<close> are the orders of a range over
  a map, \<open>wk_Intn\<close> is the random number.
\<close>

datatype httpAnswer = StatusCode int | ConnectionRefused | HttpError failure

record 'w containerKube =
  wk_Job :: "(Job, 'w) kclient"
  wk_MPIJob :: "(MPIJob, 'w) kclient"
  wk_Secret :: "(Secret, 'w) kclient"
  wk_CreateService :: "Service \<Rightarrow> ('w, unit) io"
  wk_CreateContainerData :: "NnfContainerData \<Rightarrow> ('w, unit) io"
  wk_ListMPIJobs :: "kv \<Rightarrow> ('w, MPIJob list) io"
  wk_ListJobs :: "kv \<Rightarrow> ('w, Job list) io"
  wk_ListNodeStorages :: "kv \<Rightarrow> ('w, NnfNodeStorage list) io"
  wk_ListContainerData :: "string \<Rightarrow> kv \<Rightarrow> ('w, NnfContainerData list) io"
  wk_DeleteMPIJobs :: "string \<Rightarrow> kv \<Rightarrow> ('w, unit) io"
  wk_DeleteJobs :: "string \<Rightarrow> kv \<Rightarrow> ('w, unit) io"
  wk_DeleteContainerData :: "NnfContainerData \<Rightarrow> ('w, unit) io"
  wk_Tokens :: "'w tokenLib"
  wk_AppendCertsFromPEM :: "string \<Rightarrow> bool"
  wk_Post :: "string \<Rightarrow> kv \<Rightarrow> string \<Rightarrow> ('w, httpAnswer) io"

record 'w workflowKube =
  wk_Workflow :: "(Workflow, 'w) kclient"
  wk_Breakdown :: "(DirectiveBreakdown, 'w) kclient"
  wk_Storage :: "(NnfStorage, 'w) kclient"
  wk_PSI :: "(PersistentStorageInstance, 'w) kclient"
  wk_Access :: "(NnfAccess, 'w) kclient"
  wk_DataMovement :: "(NnfDataMovement, 'w) kclient"
  wk_PortManager :: "(NnfPortManager, 'w) kclient"
  wk_ContainerProfile :: "(NnfContainerProfile, 'w) kclient"
  wk_DMProfile :: "(NnfDataMovementProfile, 'w) kclient"
  wk_Profiles :: "'w profileClient"
  wk_Containers :: "'w containerKube"
  wk_GetServers :: "string \<Rightarrow> string \<Rightarrow> ('w, Servers) io"
  wk_GetRabbit :: "string \<Rightarrow> string \<Rightarrow> ('w, Storage) io"
  wk_GetComputes :: "string \<Rightarrow> string \<Rightarrow> ('w, ComputesResource) io"
  wk_GetConfiguration :: "string \<Rightarrow> string \<Rightarrow> ('w, SystemConfiguration) io"
  wk_GetDataMovementManager :: "string \<Rightarrow> string \<Rightarrow> ('w, unit) io"
  wk_ListLustre :: "('w, GlobalLustre list) io"
  wk_ListDMProfiles :: "string \<Rightarrow> ('w, NnfDataMovementProfile list) io"
  wk_ListPSI :: "kv \<Rightarrow> ('w, PersistentStorageInstance list) io"
  wk_ListDataMovement :: "kv \<Rightarrow> ('w, NnfDataMovement list) io"
  wk_DataMovements :: "'w childKind"
  wk_Accesses :: "'w childKind"
  wk_Storages :: "'w childKind"
  wk_PSIs :: "'w childKind"
  wk_Breakdowns :: "'w childKind"
  wk_Getenv :: "string \<Rightarrow> string option"
  wk_Now :: "'w \<Rightarrow> int"
  wk_Perm :: "'w \<Rightarrow> nat \<Rightarrow> nat list"
  wk_Order :: "'w \<Rightarrow> nat \<Rightarrow> kv \<Rightarrow> kv"
  wk_Intn :: "'w \<Rightarrow> nat \<Rightarrow> nat"

definition getenvOr :: "'w workflowKube \<Rightarrow> string \<Rightarrow> string" where
  "getenvOr k name = (case wk_Getenv k name of None \<Rightarrow> [] | Some v \<Rightarrow> v)"

abbreviation driverID :: "'w workflowKube \<Rightarrow> string" where
  "driverID k \<equiv> getenvOr k ''DWS_DRIVER_ID''"

definition rangeArgs :: "'w workflowKube \<Rightarrow> 'a list \<Rightarrow> ('w, 'a list) io" where
  "rangeArgs k m = (\<lambda>w. (Inr (map (\<lambda>i. m ! i) (wk_Perm k w (length m))), w))"

definition noErrorMsg :: "(ResourceErrorInfo \<Rightarrow> ResourceErrorInfo) \<Rightarrow> failure" where
  "noErrorMsg f = ResErr (f (NewResourceError []))"

text \<open>\<^verbatim>\<open>NewResourceError(msg).WithError(err).WithUserMessage(user)\<close>\<close>

definition userError :: "string \<Rightarrow> string \<Rightarrow> failure \<Rightarrow> failure" where
  "userError msg user e = ResErr (WithUserMessage user (WithError (Some e) (NewResourceError msg)))"

definition withErr :: "string \<Rightarrow> failure \<Rightarrow> failure" where
  "withErr msg e = ResErr (WithError (Some e) (NewResourceError msg))"

definition fatalErr :: "string \<Rightarrow> failure \<Rightarrow> failure" where
  "fatalErr msg e = ResErr (WithFatal (WithError (Some e) (NewResourceError msg)))"

text \<open>\<^verbatim>\<open>NewResourceError("").WithUserMessage(msg).WithFatal().WithUser()\<close>\<close>

definition fatalUser :: "string \<Rightarrow> failure" where
  "fatalUser msg = noErrorMsg (\<lambda>e. WithUser (WithFatal (WithUserMessage msg e)))"

definition quoted :: "string \<Rightarrow> string" where
  "quoted s = CHR 0x27 # s @ [CHR 0x27]"

section \<open>Profiles of data movement\<close>

definition findDefaultDM :: "'w workflowKube \<Rightarrow> string \<Rightarrow> ('w, string) io" where
  "findDefaultDM k profileNamespace =
     bindE (wk_ListDMProfiles k profileNamespace) (\<lambda>items.
       let profilesFound = map (\<lambda>p. meta_Name (dmp_Meta p)) (filter dmp_Default items) in
       if profilesFound = [] then failE (noErrorMsg (\<lambda>e. WithFatal (WithUserMessage ''Unable to find a default NnfDataMovementProfile to use'' e)))
       else if length profilesFound > 1 then failE (noErrorMsg (\<lambda>e. WithFatal (WithUserMessage
         (''More than one default NnfDataMovementProfile found; unable to pick one: ['' @ go_join '' '' profilesFound @ '']'') e)))
       else retE (hd profilesFound))"

definition findDMProfileToUse :: "'w workflowKube \<Rightarrow> kv \<Rightarrow> ('w, NnfDataMovementProfile) io" where
  "findDMProfileToUse k args =
     (let profileNamespace = getenvOr k ''NNF_DM_PROFILE_NAMESPACE'' in
      bindE (case map_of args ''profile'' of Some name \<Rightarrow> retE name | None \<Rightarrow> findDefaultDM k profileNamespace) (\<lambda>profileName.
        if profileName = [] then failE (noErrorMsg (\<lambda>e. WithFatal (WithUser (WithUserMessage ''Unable to find an NnfDataMovementProfile name'' e))))
        else wrapE (\<lambda>_. noErrorMsg (\<lambda>e. WithFatal (WithUser (WithUserMessage (''Unable to find NnfDataMovementProfile: '' @ profileName) e))))
               (kc_Get (wk_DMProfile k) profileNamespace profileName)))"

definition findPinnedDMProfile :: "'w workflowKube \<Rightarrow> string \<Rightarrow> string \<Rightarrow> ('w, NnfDataMovementProfile) io" where
  "findPinnedDMProfile k namespace pinnedName =
     bindE (kc_Get (wk_DMProfile k) namespace pinnedName) (\<lambda>p.
       if \<not> dmp_Pinned p
       then failE (ResErr (WithFatal (NewResourceError (''Expected pinned NnfDataMovementProfile, but it was not pinned: '' @ pinnedName))))
       else retE p)"

text \<open>The copy that is pinned; an error of \<^verbatim>\<open>SetControllerReference\<close> is not looked at.\<close>

definition pinnedDM :: "ObjectMeta \<Rightarrow> string \<Rightarrow> NnfDataMovementProfile \<Rightarrow> NnfDataMovementProfile" where
  "pinnedDM owner pinnedName p =
     (let m = zeroMeta\<lparr>meta_Name := pinnedName, meta_Namespace := meta_Namespace owner\<rparr> in
      p\<lparr>dmp_Meta := AddOwnerLabels ''Workflow'' owner (case SetControllerReference ''Workflow'' owner m of Inl _ \<Rightarrow> m | Inr m' \<Rightarrow> m'),
        dmp_Pinned := True, dmp_Default := False\<rparr>)"

definition createPinnedDMProfile :: "'w workflowKube \<Rightarrow> kv \<Rightarrow> ObjectMeta \<Rightarrow> string \<Rightarrow> ('w, NnfDataMovementProfile) io" where
  "createPinnedDMProfile k args owner pinnedName =
     bindE (tryE (findPinnedDMProfile k (meta_Namespace owner) pinnedName)) (\<lambda>got.
       case got of
         Inr p \<Rightarrow> retE p
       | Inl e \<Rightarrow>
           if \<not> IsNotFound e then failE e
           else bindE (findDMProfileToUse k args) (\<lambda>p.
                let new = pinnedDM owner pinnedName p in
                catchE (kc_Create (wk_DMProfile k) new) (\<lambda>e. if IsAlreadyExists e then retE new else failE e)))"

section \<open>Profiles of containers\<close>

definition findPinnedContainerProfile :: "'w workflowKube \<Rightarrow> Workflow \<Rightarrow> int \<Rightarrow> ('w, NnfContainerProfile) io" where
  "findPinnedContainerProfile k wkf index =
     bindE (kc_Get (wk_ContainerProfile k) (wfNamespace wkf) (indexedResourceName wkf index)) (\<lambda>p.
       if \<not> cpr_Pinned p
       then failE (ResErr (WithFatal (NewResourceError (''expected a pinned container profile '' @ quoted (indexedResourceName wkf index) @
              '', but found one that is not pinned''))))
       else retE p)"

definition getContainerProfile :: "'w workflowKube \<Rightarrow> Workflow \<Rightarrow> int \<Rightarrow> ('w, NnfContainerProfile) io" where
  "getContainerProfile k wkf index = findPinnedContainerProfile k wkf index"

definition restricted :: "NnfContainerProfile \<Rightarrow> string \<Rightarrow> 32 word \<Rightarrow> failure" where
  "restricted p what who =
     noErrorMsg (\<lambda>e. WithFatal (WithUser (WithUserMessage (''container profile '' @ quoted (meta_Name (cpr_Meta p)) @ '' is restricted to '' @ what @ '' '' @ printWord who) e)))"

definition findContainerProfile :: "'w workflowKube \<Rightarrow> Workflow \<Rightarrow> int \<Rightarrow> ('w, NnfContainerProfile) io" where
  "findContainerProfile k wkf index =
     bindE (liftE (directiveAt wkf index)) (\<lambda>d.
     bindE (liftE (BuildArgsMap d)) (\<lambda>args.
     case map_of args ''profile'' of
       None \<Rightarrow> failE (Fail (''container directive '' @ quoted d @ '' has no profile key''))
     | Some name \<Rightarrow>
         bindE (kc_Get (wk_ContainerProfile k) (getenvOr k ''NNF_CONTAINER_PROFILE_NAMESPACE'') name) (\<lambda>p.
           if cpr_Pinned p
           then failE (ResErr (WithFatal (NewResourceError (''expected container profile that is not pinned '' @ quoted (indexedResourceName wkf index) @
                  '', but found one that is pinned''))))
           else if cpr_UserID p \<noteq> None \<and> cpr_UserID p \<noteq> Some (wfs_UserID (wf_Spec wkf)) then failE (restricted p ''UserID'' (the (cpr_UserID p)))
           else if cpr_GroupID p \<noteq> None \<and> cpr_GroupID p \<noteq> Some (wfs_GroupID (wf_Spec wkf)) then failE (restricted p ''GroupID'' (the (cpr_GroupID p)))
           else retE p)))"

definition pinnedContainer :: "Workflow \<Rightarrow> int \<Rightarrow> NnfContainerProfile \<Rightarrow> NnfContainerProfile res" where
  "pinnedContainer wkf index p =
     (let m = zeroMeta\<lparr>meta_Name := indexedResourceName wkf index, meta_Namespace := wfNamespace wkf\<rparr> in
      case SetControllerReference ''Workflow'' (wf_Meta wkf) (AddOwnerLabels ''Workflow'' (wf_Meta wkf) m) of
        Inl _ \<Rightarrow> Inl (Fail (''failed to set controller reference on profile '' @ objectKey m))
      | Inr m' \<Rightarrow> Inr (p\<lparr>cpr_Meta := m', cpr_Pinned := True\<rparr>))"

definition createPinnedContainerProfileIfNecessary :: "'w workflowKube \<Rightarrow> Workflow \<Rightarrow> int \<Rightarrow> ('w, unit) io" where
  "createPinnedContainerProfileIfNecessary k wkf index =
     bindE (tryE (findPinnedContainerProfile k wkf index)) (\<lambda>got.
       case got of
         Inr _ \<Rightarrow> retE ()
       | Inl e \<Rightarrow>
           if \<not> IsNotFound e then failE e
           else bindE (findContainerProfile k wkf index) (\<lambda>p.
                bindE (liftE (pinnedContainer wkf index p)) (\<lambda>new.
                bindE (kc_Create (wk_ContainerProfile k) new) (\<lambda>_. retE ()))))"

end
