(* ===== verification/ContainerPods.thy ===== *)
theory ContainerPods
  imports Workflow
begin

text \<open>
  Building the pods of a container directive (\<^verbatim>\<open>nnf_workflow_controller_container_helpers.go\<close>): labels,
  tolerations, permissions, host ports, volumes, secrets and environment, and the MPI job, the jobs per Rabbit
  or the container data that are made from them.
\<close>

record nnfUserContainer =
  uc_profile :: NnfContainerProfile
  uc_nnfNodes :: "string list"
  uc_volumes :: "nnfContainerVolume list"
  uc_secrets :: "nnfContainerSecret list"
  uc_username :: string
  uc_uid :: int
  uc_gid :: int
  uc_index :: int

abbreviation ContainerLabel :: string where
  "ContainerLabel \<equiv> ''nnf.cray.hpe.com/container''"

abbreviation PinnedContainerProfileLabelName :: string where
  "PinnedContainerProfileLabelName \<equiv> ''nnf.cray.hpe.com/pinned_container_profile_name''"

abbreviation PinnedContainerProfileLabelNameSpace :: string where
  "PinnedContainerProfileLabelNameSpace \<equiv> ''nnf.cray.hpe.com/pinned_container_profile_namespace''"

abbreviation hostnameKey :: string where
  "hostnameKey \<equiv> ''kubernetes.io/hostname''"

definition onContainers :: "(Container \<Rightarrow> Container) \<Rightarrow> PodSpec \<Rightarrow> PodSpec" where
  "onContainers f pod = pod\<lparr>pod_Containers := map f (pod_Containers pod)\<rparr>"

definition addEnv :: "EnvVar list \<Rightarrow> Container \<Rightarrow> Container" where
  "addEnv evs c = c\<lparr>ctr_Env := ctr_Env c @ evs\<rparr>"

definition addMounts :: "VolumeMount list \<Rightarrow> Container \<Rightarrow> Container" where
  "addMounts ms c = c\<lparr>ctr_VolumeMounts := ctr_VolumeMounts c @ ms\<rparr>"

definition addVolumes :: "Volume list \<Rightarrow> PodSpec \<Rightarrow> PodSpec" where
  "addVolumes vs pod = pod\<lparr>pod_Volumes := pod_Volumes pod @ vs\<rparr>"

definition plainEnv :: "string \<Rightarrow> string \<Rightarrow> EnvVar" where
  "plainEnv n v = \<lparr>ev_Name = n, ev_Value = v, ev_ValueFrom = None\<rparr>"

definition mountAt :: "string \<Rightarrow> string \<Rightarrow> VolumeMount" where
  "mountAt n p = \<lparr>vmt_Name = n, vmt_MountPath = p, vmt_SubPath = [], vmt_ReadOnly = False\<rparr>"

section \<open>Labels and placement\<close>

definition applyLabels :: "nnfUserContainer \<Rightarrow> Workflow \<Rightarrow> bool \<Rightarrow> ObjectMeta \<Rightarrow> ObjectMeta res" where
  "applyLabels c wkf applyOwner m =
     (let m1 = AddWorkflowLabels (InheritParentLabels m (wf_Meta wkf)) (wf_Meta wkf);
          m2 = (if applyOwner then AddOwnerLabels ''Workflow'' (wf_Meta wkf) m1 else m1);
          m3 = putLabel DirectiveIndexLabel (itoa (uc_index c))
                 (putLabel PinnedContainerProfileLabelNameSpace (meta_Namespace (cpr_Meta (uc_profile c)))
                 (putLabel PinnedContainerProfileLabelName (meta_Name (cpr_Meta (uc_profile c)))
                 (putLabel ContainerLabel (wfName wkf) m2))) in
      if applyOwner then SetControllerReference ''Workflow'' (wf_Meta wkf) m3 else Inr m3)"

definition applyTolerations :: "PodSpec \<Rightarrow> PodSpec" where
  "applyTolerations pod = pod\<lparr>pod_Tolerations := pod_Tolerations pod @
     [\<lparr>tol_Effect = ''NoSchedule'', tol_Key = RabbitNodeTaintKey, tol_Operator = ''Equal'', tol_Value = ''true''\<rparr>]\<rparr>"

section \<open>Permissions\<close>

text \<open>A container that runs a script in \<^verbatim>\<open>sh\<close> before the containers of the pod.\<close>

definition initContainer :: "string \<Rightarrow> string \<Rightarrow> string \<Rightarrow> EnvVar list \<Rightarrow> SecurityContext option \<Rightarrow> VolumeMount list \<Rightarrow> Container" where
  "initContainer name img script env sec mounts =
     (ToCoreContainer zeroContainer)\<lparr>ctr_Name := name, ctr_Image := img, ctr_Command := [''/bin/sh'', ''-c'', script],
        ctr_Env := env, ctr_SecurityContext := sec, ctr_VolumeMounts := mounts\<rparr>"

definition addInit :: "Container \<Rightarrow> PodSpec \<Rightarrow> PodSpec" where
  "addInit c pod = pod\<lparr>pod_InitContainers := pod_InitContainers pod @ [c]\<rparr>"

definition scriptOf :: "string list \<Rightarrow> string" where
  "scriptOf ls = concat (map (\<lambda>l. l @ [CHR 0x0A]) ls)"

definition passwdScript :: string where \<open>
  passwdScript = scriptOf
   [''# Find the entry for the UID from the host passwd and add it to the container's passwd.'',
    ''# This avoids sed -i which requires a writable /etc/ directory.'',
    ''# Use awk for precise field matching on UID (field 3) to avoid false matches on GID.'',
    ''HOST_ENTRY=$(awk -F: '$3 == "$UID" {print; exit}' /host/passwd) || echo "warning: could not read /host/passwd" >&2'',
    ''HOST_GID=$(echo "$HOST_ENTRY" | cut -d: -f4)'',
    ''if [ -n "$HOST_ENTRY" ] && [ "$HOST_GID" = "$GID" ]; then'',
    ''    HOST_USER=$(echo "$HOST_ENTRY" | cut -d: -f1)'',
    ''    awk -F: '$1 != "'"$HOST_USER"'" && $1 != "$USER" && $3 != "$UID"' /etc/passwd > /config/passwd || echo "warning: could not filter /etc/passwd" >&2'',
    ''    echo "$HOST_ENTRY" | awk -F: -v home="/home/$USER" 'BEGIN{OFS=":"} {$6=home; print}' >> /config/passwd || echo "warning: could not write host entry to /config/passwd" >&2'',
    ''    # Update /etc/shadow: rename the $USER entry to HOST_USER so PAM can find it.'',
    ''    sed "s/^$USER:/"$HOST_USER":/" /etc/shadow > /config-shadow/shadow || echo "warning: could not write /config-shadow/shadow" >&2'',
    ''else'',
    ''    # If the UID/GID doesn't exist in the host's passwd, create a new entry with the provided username and UID/GID.'',
    ''    awk -F: '$1 != "$USER" && $3 != "$UID"' /etc/passwd > /config/passwd || echo "warning: could not filter /etc/passwd" >&2'',
    ''    echo "$USER:x:$UID:$GID::/home/$USER:/bin/sh" >> /config/passwd || echo "warning: could not write fallback entry to /config/passwd" >&2'',
    ''    # Shadow is unchanged in the fallback case since we use $USER which matches the image's /etc/shadow.'',
    ''    cp /etc/shadow /config-shadow/shadow || echo "warning: could not copy /etc/shadow" >&2'',
    ''fi'',
    ''exit 0'']\<close>

definition addInitContainerPasswd :: "nnfUserContainer \<Rightarrow> string \<Rightarrow> PodSpec \<Rightarrow> PodSpec" where
  "addInitContainerPasswd c img pod =
     (let script = go_replace_all (go_replace_all (go_replace_all passwdScript ''$USER'' (uc_username c)) ''$UID'' (itoa (uc_uid c)))
                     ''$GID'' (itoa (uc_gid c)) in
      addInit (initContainer (uc_username c @ ''-init-passwd'') img script [] None
        [mountAt ''passwd'' ''/config'', mountAt ''shadow'' ''/config-shadow'',
         (mountAt ''host-passwd'' ''/host/passwd'')\<lparr>vmt_ReadOnly := True\<rparr>]) pod)"

definition waitScript :: string where \<open>
  waitScript = scriptOf
   [''# use mpirun to contact workers'', ''echo "contacting $HOSTS..."'', ''for i in $(seq 1 100); do'', ''   sleep 1'',
    ''   echo "attempt $i of 100..."'', ''   echo "mpirun -H $HOSTS hostname"'', ''   mpirun -H $HOSTS hostname'',
    ''   if [ $? -eq 0 ]; then'', ''      echo "successfully contacted $HOSTS; done"'', ''      exit 0'', ''   fi'', ''done'',
    ''echo "failed to contact $HOSTS"'', ''exit 1'']\<close>

definition subPathMounts :: "VolumeMount list" where
  "subPathMounts = [(mountAt ''passwd'' ''/etc/passwd'')\<lparr>vmt_SubPath := ''passwd''\<rparr>, (mountAt ''shadow'' ''/etc/shadow'')\<lparr>vmt_SubPath := ''shadow''\<rparr>]"

definition zeroSecurity :: SecurityContext where
  "zeroSecurity = \<lparr>sec_RunAsUser = None, sec_RunAsGroup = None, sec_RunAsNonRoot = None, sec_AllowPrivilegeEscalation = None, sec_Capabilities = None\<rparr>"

definition addInitContainerWorkerWait :: "nnfUserContainer \<Rightarrow> Workflow \<Rightarrow> nat \<Rightarrow> PodSpec \<Rightarrow> PodSpec res" where
  "addInitContainerWorkerWait c wkf numWorkers pod =
     (case indexR (pod_Containers pod) 0 of
        Inl e \<Rightarrow> Inl e
      | Inr first \<Rightarrow>
          let workers = map (\<lambda>i. to_lower (wfName wkf @ ''-worker-'' @ itoa_nat i @ ''.'' @ wfName wkf @ ''.'' @ wfNamespace wkf @ ''.svc'')) [0 ..< numWorkers] in
          Inr (addInit (initContainer (''mpi-wait-for-'' @ itoa_nat numWorkers @ ''-workers'') (ctr_Image first)
            (go_replace_all waitScript ''$HOSTS'' (go_join '','' workers))
            [plainEnv ''OMPI_MCA_orte_keep_fqdn_hostnames'' ''true'']
            (Some (zeroSecurity\<lparr>sec_RunAsUser := Some (uc_uid c), sec_RunAsGroup := Some (uc_gid c), sec_RunAsNonRoot := Some True\<rparr>))
            (subPathMounts @ [mountAt ''ssh-auth'' ''/home/mpiuser/.ssh''])) pod))"

definition permissionsOf :: "nnfUserContainer \<Rightarrow> bool \<Rightarrow> SecurityContext \<Rightarrow> SecurityContext" where
  "permissionsOf c worker s =
     (if \<not> worker
      then s\<lparr>sec_RunAsUser := Some (uc_uid c), sec_RunAsGroup := Some (uc_gid c), sec_RunAsNonRoot := Some True, sec_AllowPrivilegeEscalation := Some False\<rparr>
      else s\<lparr>sec_AllowPrivilegeEscalation := Some True, sec_Capabilities := firstSome (sec_Capabilities s)
             (Some \<lparr>cap_Add = [''NET_BIND_SERVICE'', ''SYS_CHROOT'', ''AUDIT_WRITE'', ''SETUID'', ''SETGID''], cap_Drop = [''ALL'']\<rparr>)\<rparr>)"

definition applyPermissions :: "nnfUserContainer \<Rightarrow> bool \<Rightarrow> PodSpec \<Rightarrow> PodSpec" where
  "applyPermissions c worker pod =
     (let pod1 = addVolumes [\<lparr>vol_Name = ''passwd'', vol_VolumeSource = EmptyDir\<rparr>, \<lparr>vol_Name = ''shadow'', vol_VolumeSource = EmptyDir\<rparr>,
                   \<lparr>vol_Name = ''host-passwd'', vol_VolumeSource = HostPath ''/etc/passwd'' ''File''\<rparr>] pod;
          pod2 = (if worker then pod1 else pod1\<lparr>pod_FSGroup := Some (uc_gid c)\<rparr>);
          pod3 = (case pod_Containers pod2 of [] \<Rightarrow> pod2 | first # _ \<Rightarrow> addInitContainerPasswd c (ctr_Image first) pod2) in
      onContainers (\<lambda>ct. (addMounts subPathMounts ct)\<lparr>ctr_SecurityContext :=
        Some (permissionsOf c worker (case ctr_SecurityContext ct of None \<Rightarrow> zeroSecurity | Some s \<Rightarrow> s))\<rparr>) pod3)"

section \<open>Ports\<close>

definition getContainerPortManager :: "'w workflowKube \<Rightarrow> ('w, NnfPortManager) io" where
  "getContainerPortManager k = kc_Get (wk_PortManager k) (getenvOr k ''NNF_PORT_MANAGER_NAMESPACE'') (getenvOr k ''NNF_PORT_MANAGER_NAME'')"

definition requestedBy :: "Workflow \<Rightarrow> AllocationStatus \<Rightarrow> bool" where
  "requestedBy wkf a = (case st_Requester a of None \<Rightarrow> False | Some ref \<Rightarrow> ref_UID ref = meta_UID (wf_Meta wkf))"

definition expectedPorts :: "NnfContainerProfile \<Rightarrow> int" where
  "expectedPorts p = countContainersInProfile p * cpr_NumPorts p"

definition getHostPorts :: "'w workflowKube \<Rightarrow> NnfContainerProfile \<Rightarrow> Workflow \<Rightarrow> ('w, port list) io" where
  "getHostPorts k p wkf =
     (if expectedPorts p \<le> 0 then retE []
      else bindE (getContainerPortManager k) (\<lambda>pm.
        let ports = concat (map st_Ports (filter (\<lambda>a. requestedBy wkf a \<and> st_Status a = InUse) (pm_Allocations pm))) in
        if int (length ports) \<noteq> expectedPorts p
        then failE (ResErr (WithFatal (WithUserMessage ''requested ports do not meet the number of allocated ports''
               (NewResourceError (''number of ports found in NnfPortManager's allocation ('' @ itoa_nat (length ports) @
                  '') does not equal the profile's requested ports ('' @ itoa (expectedPorts p) @ '')'')))))
        else retE ports))"

definition mapPorts :: "PodSpec \<Rightarrow> port list \<Rightarrow> (string \<times> port list) list res" where
  "mapPorts pod ports =
     (let numContainers = length (pod_Containers pod) in
      if ports = [] then Inr []
      else if numContainers = 0 then Inl (Fail ''no containers found in the PodSpec'')
      else if length ports mod numContainers \<noteq> 0
      then Inl (Fail (''number of ports ('' @ itoa_nat (length ports) @ '') must be a multiple of the number of containers ('' @ itoa_nat numContainers @ '')''))
      else let portsPerContainer = length ports div numContainers in
        Inr (fold (\<lambda>(idx, c) portMap. AList.update (ctr_Name c) (take portsPerContainer (drop (idx * portsPerContainer) ports)) portMap)
               (List.enumerate 0 (pod_Containers pod)) []))"

definition addHostPorts :: "(string \<times> port list) list \<Rightarrow> PodSpec \<Rightarrow> PodSpec" where
  "addHostPorts portMap = onContainers (\<lambda>c.
     case map_of portMap (ctr_Name c) of
       None \<Rightarrow> c
     | Some ports \<Rightarrow> c\<lparr>ctr_Ports := ctr_Ports c @ map (\<lambda>p. \<lparr>cpo_ContainerPort = uint p, cpo_HostPort = uint p\<rparr>) ports\<rparr>)"

definition getContainerPortsList :: "port list \<Rightarrow> string" where
  "getContainerPortsList ports = go_join '','' (map (\<lambda>p. itoa_nat (unat p)) ports)"

definition portsEnv :: "(string \<times> port list) list \<Rightarrow> EnvVar list" where
  "portsEnv ordered = map (\<lambda>(n, ps). plainEnv (''NNF_CONTAINER_PORTS_'' @ go_replace_all n ''-'' ''_'') (getContainerPortsList ps)) ordered"

text \<open>
  The map \<^verbatim>\<open>Status.Env\<close> is shared with the workflow, so the variables are set there too; setting one in a map
  that is nil panics.
\<close>

fun putEnvs :: "(string \<times> string) list \<Rightarrow> (Workflow \<times> 'w, unit) io" where
  "putEnvs [] = retE ()"
| "putEnvs ((n, v) # evs) = bindE getE (\<lambda>wkf.
     case wst_Env (wf_Status wkf) of
       None \<Rightarrow> failE (Panic ''assignment to entry in nil map'')
     | Some m \<Rightarrow> bindE (modifyE (updWf (\<lambda>st. st\<lparr>wst_Env := Some (kv_put n v m)\<rparr>))) (\<lambda>_. putEnvs evs))"

definition setEnvs :: "EnvVar list \<Rightarrow> (Workflow \<times> 'w, unit) io" where
  "setEnvs evs = putEnvs (map (\<lambda>e. (ev_Name e, ev_Value e)) evs)"

definition addPortsEnvVars :: "'w workflowKube \<Rightarrow> port list \<Rightarrow> (string \<times> port list) list \<Rightarrow> PodSpec \<Rightarrow> (Workflow \<times> 'w, PodSpec) io" where
  "addPortsEnvVars k ports portMap pod =
     (if ports = [] then retE pod
      else bindE (mapME (\<lambda>c.
             bindE (sndE (rangeArgs k portMap)) (\<lambda>ordered.
             let evs = plainEnv ''NNF_CONTAINER_PORTS'' (getContainerPortsList ports) # portsEnv ordered in
             bindE (setEnvs evs) (\<lambda>_. retE (addEnv evs c)))) (pod_Containers pod)) (\<lambda>cs.
           retE (pod\<lparr>pod_Containers := cs\<rparr>)))"

section \<open>Volumes, secrets and environment\<close>

definition addNnfVolume :: "nnfContainerVolume \<Rightarrow> PodSpec \<Rightarrow> PodSpec" where
  "addNnfVolume v pod =
     onContainers (\<lambda>c. let c1 = addMounts [mountAt (ncv_name v) (ncv_mountPath v)] c in
         if ncv_envVarName v \<noteq> [] then addEnv [plainEnv (ncv_envVarName v) (ncv_mountPath v)] c1 else c1)
       (addVolumes [\<lparr>vol_Name = ncv_name v, vol_VolumeSource =
         (if ncv_command v = ''globaldw'' then PersistentVolumeClaim (ncv_pvcName v) else HostPath (ncv_mountPath v) ''Directory'')\<rparr>] pod)"

definition addNnfVolumes :: "nnfUserContainer \<Rightarrow> PodSpec \<Rightarrow> PodSpec" where
  "addNnfVolumes c pod = fold addNnfVolume (uc_volumes c) pod"

definition addSecret :: "'w workflowKube \<Rightarrow> nnfContainerSecret \<Rightarrow> PodSpec \<Rightarrow> ('w, PodSpec) io" where
  "addSecret k s pod =
     bindE (mapME (\<lambda>c. bindE (rangeArgs k (ncs_envVarsToFileNames s)) (\<lambda>ordered.
         retE (addEnv (map (\<lambda>(key, v). plainEnv key (ncs_mountPath s @ ''/'' @ v)) ordered)
           (addMounts [(mountAt (ncs_name s) (ncs_mountPath s))\<lparr>vmt_ReadOnly := True\<rparr>] c)))) (pod_Containers pod)) (\<lambda>cs.
       retE ((addVolumes [\<lparr>vol_Name = ncs_name s, vol_VolumeSource = SecretVolume (ncs_secretName s)\<rparr>] pod)\<lparr>pod_Containers := cs\<rparr>))"

fun addSecrets :: "'w workflowKube \<Rightarrow> nnfContainerSecret list \<Rightarrow> PodSpec \<Rightarrow> ('w, PodSpec) io" where
  "addSecrets k [] pod = retE pod"
| "addSecrets k (s # ss) pod = bindE (addSecret k s pod) (addSecrets k ss)"

definition hostNames :: "nnfUserContainer \<Rightarrow> Workflow \<Rightarrow> bool \<Rightarrow> string list" where
  "hostNames c wkf mpi =
     (if mpi then (wfName wkf @ ''-launcher'') # map (\<lambda>i. wfName wkf @ ''-worker-'' @ itoa_nat i) [0 ..< length (uc_nnfNodes c)]
      else uc_nnfNodes c)"

definition networkEnv :: "nnfUserContainer \<Rightarrow> Workflow \<Rightarrow> bool \<Rightarrow> EnvVar list" where
  "networkEnv c wkf mpi =
     [plainEnv ''NNF_CONTAINER_SUBDOMAIN'' (wfName wkf), plainEnv ''NNF_CONTAINER_DOMAIN'' (wfNamespace wkf @ ''.svc.cluster.local''),
      plainEnv ''NNF_CONTAINER_HOSTNAMES'' (go_join '','' (hostNames c wkf mpi))]"

definition addEnvVars :: "'w workflowKube \<Rightarrow> nnfUserContainer \<Rightarrow> bool \<Rightarrow> PodSpec \<Rightarrow> (Workflow \<times> 'w, PodSpec) io" where
  "addEnvVars k c mpi pod = bindE getE (\<lambda>wkf.
     bindE (if pod_Containers pod = [] then retE () else setEnvs (networkEnv c wkf mpi)) (\<lambda>_.
       retE (onContainers (addEnv (networkEnv c wkf mpi @
         [plainEnv ''DW_WORKFLOW_NAME'' (wfName wkf), plainEnv ''DW_WORKFLOW_NAMESPACE'' (wfNamespace wkf),
          plainEnv ''ENVIRONMENT'' (getenvOr k ''ENVIRONMENT''),
          \<lparr>ev_Name = ''NNF_NODE_NAME'', ev_Value = [], ev_ValueFrom = Some (''v1'', ''spec.nodeName'')\<rparr>])) pod)))"

section \<open>The resources\<close>

definition ignoreExists :: "('w, unit) io \<Rightarrow> ('w, unit) io" where
  "ignoreExists m = catchE m (\<lambda>e. if IsAlreadyExists e then retE () else failE e)"

definition createNnfContainerData :: "'w workflowKube \<Rightarrow> nnfUserContainer \<Rightarrow> Workflow \<Rightarrow> ('w, unit) io" where
  "createNnfContainerData k c wkf =
     (let m = zeroMeta\<lparr>meta_Name := indexedResourceName wkf (uc_index c), meta_Namespace := wfNamespace wkf\<rparr>;
          volumes = map (\<lambda>v. \<lparr>cdo_Name = ncv_name v, cdo_Command = ncv_command v, cdo_DirectiveIndex = ncv_directiveIndex v,
                        cdo_MountPath = ncv_mountPath v\<rparr>)
                      (filter (\<lambda>v. ncv_command v = ''jobdw'' \<or> ncv_command v = ''persistentdw'') (uc_volumes c)) in
      bindE (liftE (SetControllerReference ''Workflow'' (wf_Meta wkf)
               (AddOwnerLabels ''Workflow'' (wf_Meta wkf) (AddWorkflowLabels (InheritParentLabels m (wf_Meta wkf)) (wf_Meta wkf))))) (\<lambda>m'.
        ignoreExists (wk_CreateContainerData (wk_Containers k) \<lparr>cda_Meta = m', cda_Volumes = volumes\<rparr>)))"

definition workerAffinity :: "nnfUserContainer \<Rightarrow> Workflow \<Rightarrow> Affinity" where
  "workerAffinity c wkf =
     \<lparr>aff_NodeKey = hostnameKey, aff_NodeValues = uc_nnfNodes c, aff_AntiTopologyKey = hostnameKey,
      aff_AntiLabels = [(''training.kubeflow.org/job-name'', [wfName wkf]), (''training.kubeflow.org/job-role'', [''worker''])]\<rparr>"

definition sndUnit :: "('w, 'a) io \<Rightarrow> ('w, unit) io" where
  "sndUnit m = bindE m (\<lambda>_. retE ())"

text \<open>The pod of the launcher with its ports, and the pod of a worker.\<close>

definition mpiPods :: "'w workflowKube \<Rightarrow> nnfUserContainer \<Rightarrow> NnfMPISpec \<Rightarrow> string \<Rightarrow> (Workflow \<times> 'w, PodSpec \<times> PodSpec) io" where
  "mpiPods k c mpi node = bindE getE (\<lambda>wkf.
     let launcher0 = (applyTolerations (ToCorePodSpec (mpi_Launcher mpi)))\<lparr>pod_NodeSelector := [(hostnameKey, node)]\<rparr>;
         worker0 = (applyTolerations (ToCorePodSpec (mpi_Worker mpi)))\<lparr>pod_Affinity := Some (workerAffinity c wkf)\<rparr>;
         worker1 = applyPermissions c True worker0 in
     bindE (liftE (addInitContainerWorkerWait c wkf (length (uc_nnfNodes c)) (applyPermissions c False launcher0))) (\<lambda>launcher1.
     bindE (sndE (getHostPorts k (uc_profile c) wkf)) (\<lambda>ports.
     bindE (liftE (mapPorts launcher1 ports)) (\<lambda>portMap.
     bindE (addPortsEnvVars k ports portMap (addHostPorts portMap launcher1)) (\<lambda>launcher2.
     bindE (addPortsEnvVars k ports portMap worker1) (\<lambda>worker2.
     bindE (addEnvVars k c True (addNnfVolumes c launcher2)) (\<lambda>launcher3.
     bindE (addEnvVars k c True (addNnfVolumes c worker2)) (\<lambda>worker3.
     bindE (sndE (addSecrets k (uc_secrets c) launcher3)) (\<lambda>launcher4.
       retE (if mpi_CopyOffload mpi then launcher4\<lparr>pod_ServiceAccountName := ''nnf-dm-copy-offload''\<rparr> else launcher4, worker3))))))))))"

definition createMPIJob :: "'w workflowKube \<Rightarrow> nnfUserContainer \<Rightarrow> (Workflow \<times> 'w, unit) io" where
  "createMPIJob k c0 = bindE getE (\<lambda>wkf.
     case cpr_NnfMPISpec (uc_profile c0) of
       None \<Rightarrow> failE (Fail ''MPI spec is nil'')
     | Some mpi \<Rightarrow>
         let c = c0\<lparr>uc_username := ''mpiuser''\<rparr> in
         bindE (liftE (applyLabels c wkf True (zeroMeta\<lparr>meta_Name := wfName wkf, meta_Namespace := wfNamespace wkf\<rparr>))) (\<lambda>m.
         bindE (liftE (applyLabels c wkf False zeroMeta)) (\<lambda>podMeta.
         bindE (liftE (indexR (uc_nnfNodes c) 0)) (\<lambda>node.
         bindE (mpiPods k c mpi node) (\<lambda>(launcher, worker).
           sndE (if cpr_CreateContainer (uc_profile c)
             then ignoreExists (sndUnit (kc_Create (wk_MPIJob (wk_Containers k))
               \<lparr>mpj_Meta = m,
                mpj_Launcher = \<lparr>rep_Meta = podMeta, rep_Spec = launcher, rep_RestartPolicy = ''Never'', rep_Replicas = None\<rparr>,
                mpj_Worker = \<lparr>rep_Meta = podMeta, rep_Spec = worker, rep_RestartPolicy = ''Never'',
                  rep_Replicas = Some (int (length (uc_nnfNodes c)))\<rparr>,
                mpj_CleanPodPolicy = ''Running'', mpj_BackoffLimit = cpr_RetryLimit (uc_profile c),
                mpj_SlotsPerWorker = mpi_SlotsPerWorker mpi, mpj_SSHAuthMountPath = ''/home/'' @ uc_username c @ ''/.ssh'',
                mpj_Conditions = []\<rparr>))
             else createNnfContainerData k c wkf))))))"

definition jobPod :: "'w workflowKube \<Rightarrow> nnfUserContainer \<Rightarrow> NnfPodSpec \<Rightarrow> (Workflow \<times> 'w, PodSpec) io" where
  "jobPod k c spec = bindE getE (\<lambda>wkf.
     let pod0 = (ToCorePodSpec spec)\<lparr>pod_RestartPolicy := ''Never'', pod_Subdomain := wfName wkf\<rparr> in
     bindE (sndE (getHostPorts k (uc_profile c) wkf)) (\<lambda>ports.
     bindE (liftE (mapPorts pod0 ports)) (\<lambda>portMap.
     bindE (addPortsEnvVars k ports portMap (addHostPorts portMap pod0)) (\<lambda>pod1.
     bindE (sndE (addSecrets k (uc_secrets c) (addNnfVolumes c (applyPermissions c False (applyTolerations pod1))))) (\<lambda>pod2.
       addEnvVars k c False pod2)))))"

definition nodeJob :: "nnfUserContainer \<Rightarrow> Workflow \<Rightarrow> ObjectMeta \<Rightarrow> PodSpec \<Rightarrow> string \<Rightarrow> Job" where
  "nodeJob c wkf m pod node =
     \<lparr>job_Meta = m\<lparr>meta_Name := wfName wkf @ ''-'' @ node\<rparr>, job_BackoffLimit = cpr_RetryLimit (uc_profile c), job_ActiveDeadlineSeconds = None,
      job_TemplateLabels = meta_Labels m, job_Template = pod\<lparr>pod_Hostname := node, pod_NodeSelector := [(hostnameKey, node)]\<rparr>,
      job_Conditions = [], job_Ready = None\<rparr>"

definition createNonMPIJob :: "'w workflowKube \<Rightarrow> nnfUserContainer \<Rightarrow> (Workflow \<times> 'w, unit) io" where
  "createNonMPIJob k c = bindE getE (\<lambda>wkf.
     case cpr_NnfSpec (uc_profile c) of
       None \<Rightarrow> failE (Fail ''NNF spec is nil'')
     | Some spec \<Rightarrow>
         bindE (liftE (applyLabels c wkf True (zeroMeta\<lparr>meta_Namespace := wfNamespace wkf\<rparr>))) (\<lambda>m.
         bindE (jobPod k c spec) (\<lambda>pod.
           sndE (if cpr_CreateContainer (uc_profile c)
             then sndUnit (mapME (\<lambda>node. ignoreExists (sndUnit (kc_Create (wk_Job (wk_Containers k)) (nodeJob c wkf m pod node)))) (uc_nnfNodes c))
             else createNnfContainerData k c wkf))))"

end
