(* ===== verification/WorkflowSteps.thy ===== *)
theory WorkflowSteps
  imports Workflow
begin

text \<open>
  The steps of a workflow that work on other resources (\<^verbatim>\<open>nnf_workflow_controller_helpers.go\<close>): validation of the
  directives, the breakdown of a directive, the check of the servers against it, the storage made from
  them, the accesses of computes and Rabbits, and the consumers of persistent storage.
\<close>

section \<open>Validation\<close>

definition findLustreFileSystemForPath :: "'w workflowKube \<Rightarrow> string \<Rightarrow> ('w, GlobalLustre option) io" where
  "findLustreFileSystemForPath k path =
     bindE (tryE (wk_ListLustre k)) (\<lambda>got.
       case got of Inl e \<Rightarrow> retE None | Inr items \<Rightarrow> retE (List.find (\<lambda>l. has_prefix path (lfs_MountRoot l)) items))"

definition getPersistentStorageInstance :: "'w workflowKube \<Rightarrow> string \<Rightarrow> string \<Rightarrow> ('w, PersistentStorageInstance) io" where
  "getPersistentStorageInstance k name namespace = kc_Get (wk_PSI k) namespace name"

definition psiNotThere :: "string \<Rightarrow> failure \<Rightarrow> failure" where
  "psiNotThere name e =
     noErrorMsg (\<lambda>r. WithUser (WithFatal (WithUserMessage (''PersistentStorageInstance '' @ quoted name @ '' not found'') (WithError (Some e) r))))"

definition psiDeleting :: "string \<Rightarrow> failure" where
  "psiDeleting name = noErrorMsg (\<lambda>r. WithFatal (WithUser (WithUserMessage (''Persistent storage instance '' @ quoted name @ '' is deleting'') r)))"

definition validatePersistentInstance :: "'w workflowKube \<Rightarrow> string \<Rightarrow> string \<Rightarrow> ('w, unit) io" where
  "validatePersistentInstance k name namespace =
     bindE (wrapE (psiNotThere name) (getPersistentStorageInstance k name namespace)) (\<lambda>psi.
       if meta_Deleting (psi_Meta psi) then failE (psiDeleting name) else retE ())"

definition validatePersistentInstanceForStaging :: "'w workflowKube \<Rightarrow> string \<Rightarrow> string \<Rightarrow> ('w, unit) io" where
  "validatePersistentInstanceForStaging k name namespace =
     bindE (wrapE (psiNotThere name) (getPersistentStorageInstance k name namespace)) (\<lambda>psi.
       if psp_FsType (psi_Spec psi) = ''raw'' then failE (fatalUser ''data movement can not be used with raw allocations'')
       else if meta_Deleting (psi_Meta psi) then failE (psiDeleting name) else retE ())"

definition validatePersistentInstanceDirective :: "'w workflowKube \<Rightarrow> Workflow \<Rightarrow> string \<Rightarrow> ('w, unit) io" where
  "validatePersistentInstanceDirective k wkf directive =
     bindE (wrapE (\<lambda>_. ResErr (WithFatal (NewResourceError (''invalid DW directive: '' @ directive)))) (liftE (BuildArgsMap directive))) (\<lambda>args.
     let name = labelOf ''name'' args in
     bindE (wrapE (psiNotThere name) (getPersistentStorageInstance k name (wfNamespace wkf))) (\<lambda>psi.
       if meta_Deleting (psi_Meta psi) then failE (psiDeleting name)
       else if \<not> persistentStorageIgnoresUID psi \<and> psp_UserID (psi_Spec psi) \<noteq> wfs_UserID (wf_Spec wkf)
       then failE (ResErr (WithUser (WithFatal (WithUserMessage ''User ID does not match existing persistent storage''
              (NewResourceError (''existing persistent storage user ID '' @ printWord (psp_UserID (psi_Spec psi)) @
                 '' does not match user ID '' @ printWord (wfs_UserID (wf_Spec wkf))))))))
       else retE ()))"

definition invalidDirective :: "string \<Rightarrow> failure" where
  "invalidDirective d = noErrorMsg (\<lambda>r. WithFatal (WithUserMessage (''invalid DW directive: '' @ quoted d) r))"

definition validateStagingArgument :: "'w workflowKube \<Rightarrow> Workflow \<Rightarrow> string \<Rightarrow> ('w, unit) io" where
  "validateStagingArgument k wkf arg =
     (let name = fst (splitStagingArgumentIntoNameAndPath arg) in
      if has_prefix arg jobPrefix then
        bindE (liftE (findDirectiveIndexByName wkf name ''jobdw'')) (\<lambda>index.
          if index = -1 then failE (fatalUser (''job storage instance '' @ quoted name @ '' not found''))
          else bindE (liftE (directiveAt wkf index)) (\<lambda>d.
               bindE (wrapE (\<lambda>_. invalidDirective d) (liftE (BuildArgsMap d))) (\<lambda>args.
                 case map_of args ''type'' of
                   None \<Rightarrow> failE (noErrorMsg (\<lambda>r. WithFatal (WithUserMessage ''invalid DW directive match for staging argument'' r)))
                 | Some fsType \<Rightarrow> if fsType = ''raw'' then failE (fatalUser ''data movement can not be used with raw allocations'') else retE ())))
      else if has_prefix arg persistentPrefix then
        bindE (wrapE (\<lambda>_. fatalUser (''persistent storage instance '' @ quoted name @ '' not found''))
                 (validatePersistentInstanceForStaging k name (wfNamespace wkf))) (\<lambda>_.
        bindE (liftE (findDirectiveIndexByName wkf name ''persistentdw'')) (\<lambda>index.
          if index = -1 then failE (fatalUser (''persistentdw directive mentioning '' @ quoted name @ '' not found'')) else retE ()))
      else bindE (findLustreFileSystemForPath k arg) (\<lambda>lustre.
             if lustre = None then failE (fatalUser (''global Lustre file system containing '' @ quoted arg @ '' not found'')) else retE ()))"

definition validateStagingDirective :: "'w workflowKube \<Rightarrow> Workflow \<Rightarrow> string \<Rightarrow> ('w, unit) io" where
  "validateStagingDirective k wkf directive =
     bindE (wrapE (\<lambda>_. invalidDirective directive) (liftE (BuildArgsMap directive))) (\<lambda>args.
     let source = labelOf ''source'' args; destination = labelOf ''destination'' args in
     bindE (wrapE (withErr (''Invalid source argument: '' @ quoted source)) (validateStagingArgument k wkf source)) (\<lambda>_.
       wrapE (withErr (''Invalid destination argument: '' @ quoted destination)) (validateStagingArgument k wkf destination)))"

definition checkStorageIsInProfile :: "NnfContainerProfile \<Rightarrow> string \<Rightarrow> unit res" where
  "checkStorageIsInProfile p storageName =
     (if list_ex (\<lambda>s. cps_Name s = storageName) (cpr_Storages p) then Inr ()
      else Inl (fatalUser (''storage '' @ quoted storageName @ '' not found in container profile '' @ quoted (meta_Name (cpr_Meta p)))))"

definition getDirectiveFsType :: "'w workflowKube \<Rightarrow> Workflow \<Rightarrow> int \<Rightarrow> ('w, string) io" where
  "getDirectiveFsType k wkf idx =
     bindE (liftE (dwArgsAt wkf idx)) (\<lambda>args.
       if commandOf args = ''persistentdw''
       then bindE (wrapE (\<lambda>e. Fail (''could not retrieve persistent instance '' @ labelOf ''name'' args @ '' for container directive: '' @ errText e))
              (getPersistentStorageInstance k (labelOf ''name'' args) (wfNamespace wkf))) (\<lambda>psi. retE (psp_FsType (psi_Spec psi)))
       else retE (labelOf ''type'' args))"

definition checkContainerFs :: "'w workflowKube \<Rightarrow> Workflow \<Rightarrow> int \<Rightarrow> ('w, unit) io" where
  "checkContainerFs k wkf idx =
     bindE (getDirectiveFsType k wkf idx) (\<lambda>t.
       if to_lower t \<notin> {''lustre'', ''gfs2'', ''raw''} then failE (fatalUser (''unsupported container filesystem: '' @ t)) else retE ())"

text \<open>One argument of a container directive; the value says that it supplies a storage.\<close>

definition validateContainerArgument :: "'w workflowKube \<Rightarrow> Workflow \<Rightarrow> NnfContainerProfile \<Rightarrow> string \<times> string \<Rightarrow> ('w, string list) io" where
  "validateContainerArgument k wkf p = (\<lambda>(arg, storageName).
     if arg \<in> {''command'', ''name'', ''profile''} then retE []
     else if has_prefix arg ''DW_JOB_'' then
       bindE (liftE (findDirectiveIndexByName wkf storageName ''jobdw'')) (\<lambda>idx.
         if idx = -1 then failE (fatalUser (''jobdw directive mentioning '' @ quoted storageName @ '' not found''))
         else bindE (checkContainerFs k wkf idx) (\<lambda>_. bindE (liftE (checkStorageIsInProfile p arg)) (\<lambda>_. retE [arg])))
     else if has_prefix arg ''DW_PERSISTENT_'' then
       bindE (wrapE (\<lambda>e. ResErr (WithFatal (WithUserMessage (''persistent storage instance '' @ quoted storageName @ '' not found'')
                (WithError (Some e) (NewResourceError []))))) (validatePersistentInstance k storageName (wfNamespace wkf))) (\<lambda>_.
       bindE (liftE (findDirectiveIndexByName wkf storageName ''persistentdw'')) (\<lambda>idx.
         if idx = -1 then failE (fatalUser (''persistentdw directive mentioning '' @ quoted storageName @ '' not found''))
         else bindE (checkContainerFs k wkf idx) (\<lambda>_. bindE (liftE (checkStorageIsInProfile p arg)) (\<lambda>_. retE [arg]))))
     else if has_prefix arg ''DW_GLOBAL_'' then
       bindE (findLustreFileSystemForPath k storageName) (\<lambda>lustre.
         if lustre = None then failE (fatalUser (''global Lustre file system containing '' @ quoted storageName @ '' not found''))
         else bindE (wrapE (\<lambda>e. ResErr (WithFatal (WithUser (WithUserMessage (''storage '' @ quoted arg @ '' is not present in the container profile'')
                (WithError (Some e) (NewResourceError [])))))) (liftE (checkStorageIsInProfile p arg))) (\<lambda>_. retE [arg]))
     else failE (fatalUser (''unrecognized container argument: '' @ arg)))"

definition checkNonOptionalStorages :: "NnfContainerProfile \<Rightarrow> string list \<Rightarrow> unit res" where
  "checkNonOptionalStorages p storageArguments =
     (case List.find (\<lambda>s. \<not> cps_Optional s \<and> cps_Name s \<notin> set storageArguments) (cpr_Storages p) of
        None \<Rightarrow> Inr ()
      | Some s \<Rightarrow> Inl (noErrorMsg (\<lambda>r. WithFatal (WithUser (WithUserMessage (''storage '' @ quoted (cps_Name s) @ '' in container profile '' @
          quoted (meta_Name (cpr_Meta p)) @ '' is not optional: storage argument not found in the supplied arguments'') r)))))"

definition validateContainerDirective :: "'w workflowKube \<Rightarrow> Workflow \<Rightarrow> int \<Rightarrow> ('w, unit) io" where
  "validateContainerDirective k wkf index =
     bindE (liftE (directiveAt wkf index)) (\<lambda>d.
     bindE (wrapE (\<lambda>_. invalidDirective d) (liftE (BuildArgsMap d))) (\<lambda>args.
     bindE (wrapE (\<lambda>e. ResErr (WithFatal (WithError (Some e) (WithUserMessage ''no valid container profile found''
              (WithError (Some e) (NewResourceError [])))))) (findContainerProfile k wkf index)) (\<lambda>p.
     bindE (rangeArgs k args) (\<lambda>ordered.
     bindE (mapME (validateContainerArgument k wkf p) ordered) (\<lambda>supplied.
       liftE (checkNonOptionalStorages p (concat supplied)))))))"

text \<open>The directives in order; the values are the commands that were counted.\<close>

fun validateDirectives :: "'w workflowKube \<Rightarrow> Workflow \<Rightarrow> int \<Rightarrow> string list \<Rightarrow> ('w, string list) io" where
  "validateDirectives k wkf index [] = retE []"
| "validateDirectives k wkf index (d # ds) =
     bindE (liftE (ignoreError (BuildArgsMap d))) (\<lambda>args.
     let command = commandOf args; user = (\<lambda>msg. wrapE (userError [] (msg @ quoted d))) in
     bindE (if command = ''copy_in'' \<or> command = ''copy_out'' then user ''invalid staging Directive: '' (validateStagingDirective k wkf d)
            else if command = ''persistentdw'' then user ''could not validate persistent instance: '' (validatePersistentInstanceDirective k wkf d)
            else if command = ''container'' then user ''could not validate container directive: '' (validateContainerDirective k wkf index)
            else retE ()) (\<lambda>_.
     bindE (validateDirectives k wkf (index + 1) ds) (\<lambda>commands. retE (command # commands))))"

definition validateWorkflow :: "'w workflowKube \<Rightarrow> Workflow \<Rightarrow> ('w, unit) io" where
  "validateWorkflow k wkf =
     bindE (validateDirectives k wkf 0 (wfs_DWDirectives (wf_Spec wkf))) (\<lambda>commands.
       if length commands > 1 then
         if count_list commands ''create_persistent'' + count_list commands ''destroy_persistent'' > 0
         then failE (fatalUser ''only a single create_persistent or destroy_persistent directive is allowed per workflow'')
         else if count_list commands ''container'' > 1
         then failE (fatalUser ''only a single container directive is supported per workflow'')
         else retE ()
       else retE ())"

section \<open>Breakdown and servers\<close>

definition newBreakdown :: "string \<Rightarrow> string \<Rightarrow> DirectiveBreakdown" where
  "newBreakdown name namespace =
     \<lparr>dbd_Meta = zeroMeta\<lparr>meta_Name := name, meta_Namespace := namespace\<rparr>, dbd_Spec = \<lparr>dbs_Directive = [], dbs_UserID = 0\<rparr>,
      dbd_Status = \<lparr>dst_Storage = None, dst_Compute = None, dst_Ready = False, dst_Requires = [], dst_Error = None\<rparr>\<rparr>"

text \<open>The labels that most resources of a directive carry.\<close>

definition directiveLabels :: "Workflow \<Rightarrow> int \<Rightarrow> ObjectMeta \<Rightarrow> ObjectMeta" where
  "directiveLabels wkf index m = addJobIDLabel (addDirectiveIndexLabel m index) (jobID wkf)"

definition fillBreakdown :: "Workflow \<Rightarrow> int \<Rightarrow> string \<Rightarrow> DirectiveBreakdown \<Rightarrow> DirectiveBreakdown res" where
  "fillBreakdown wkf index directive dbd =
     (case SetControllerReference ''Workflow'' (wf_Meta wkf)
             (directiveLabels wkf index (AddOwnerLabels ''Workflow'' (wf_Meta wkf) (AddWorkflowLabels (dbd_Meta dbd) (wf_Meta wkf)))) of
        Inl e \<Rightarrow> Inl e
      | Inr m \<Rightarrow> Inr (dbd\<lparr>dbd_Meta := m, dbd_Spec := (dbd_Spec dbd)\<lparr>dbs_Directive := directive, dbs_UserID := wfs_UserID (wf_Spec wkf)\<rparr>\<rparr>))"

definition generateDirectiveBreakdown :: "'w workflowKube \<Rightarrow> int \<Rightarrow> Workflow \<Rightarrow> ('w, DirectiveBreakdown option) io" where
  "generateDirectiveBreakdown k dwIndex wkf =
     bindE (liftE (directiveAt wkf dwIndex)) (\<lambda>directive.
     bindE (liftE (ignoreError (BuildArgsMap directive))) (\<lambda>args.
       if commandOf args \<notin> {''jobdw'', ''create_persistent'', ''persistentdw''} then retE None
       else let dbd = newBreakdown (indexedResourceName wkf dwIndex) (wfNamespace wkf) in
         bindE (wrapE (withErr (''CreateOrUpdate failed for DirectiveBreakdown: '' @ objectKey (dbd_Meta dbd)))
                  (CreateOrUpdate (wk_Breakdown k) dbd_Meta dbd (\<lambda>d. liftE (fillBreakdown wkf dwIndex directive d)))) (\<lambda>(_, d). retE (Some d))))"

definition notSatisfied :: "string \<Rightarrow> failure" where
  "notSatisfied msg = ResErr (WithFatal (WithWLM (WithUserMessage ''storage directive requirements were not satisfied'' (NewResourceError msg))))"

text \<open>The sum is taken in 64 bits.\<close>

fun acrossCapacity :: "int \<Rightarrow> ServersSpecStorage list \<Rightarrow> int \<Rightarrow> int" where
  "acrossCapacity n [] acc = acc"
| "acrossCapacity n (s # ss) acc = acrossCapacity n ss (wrap64 (acc + wrap64 (n * sss_AllocationCount s)))"

definition storageExists :: "'w workflowKube \<Rightarrow> ServersSpecStorage \<Rightarrow> ('w, unit) io" where
  "storageExists k s =
     bindE (wrapE (\<lambda>e. ResErr (WithFatal (WithUserMessage ''storage directive requirements were not satisfied''
              (WithError (Some e) (NewResourceError (''could not get storage: default/'' @ sss_Name s))))))
              (wk_GetRabbit k ''default'' (sss_Name s))) (\<lambda>_. retE ())"

definition validateSet :: "'w workflowKube \<Rightarrow> StorageAllocationSet \<Rightarrow> ServersSpecAllocationSet \<Rightarrow> ('w, unit) io" where
  "validateSet k b s =
     (if sal_AllocationStrategy b = ''AllocateSingleServer'' \<and> \<not> (length (ssa_Storage s) = 1 \<and> sss_AllocationCount (ssa_Storage s ! 0) = 1)
      then failE (notSatisfied (''allocation set '' @ sal_Label b @ '' expected single allocation''))
      else let totalCapacity = (if sal_AllocationStrategy b = ''AllocateAcrossServers''
                                then acrossCapacity (ssa_AllocationSize s) (ssa_Storage s) 0 else ssa_AllocationSize s) in
        if totalCapacity < sal_MinimumCapacity b
        then failE (notSatisfied (''allocation set '' @ sal_Label b @ '' specified insufficient capacity''))
        else bindE (mapME (storageExists k) (ssa_Storage s)) (\<lambda>_. retE ()))"

definition validateBreakdownSet :: "'w workflowKube \<Rightarrow> Servers \<Rightarrow> StorageAllocationSet \<Rightarrow> ('w, unit) io" where
  "validateBreakdownSet k servers b =
     (let same = filter (\<lambda>s. ssa_Label s = sal_Label b) (sv_AllocationSets servers) in
      bindE (mapME (validateSet k b) same) (\<lambda>_.
        if same = [] then failE (notSatisfied (''allocation set '' @ sal_Label b @ '' not found in Servers resource'')) else retE ()))"

definition validateServerAllocations :: "'w workflowKube \<Rightarrow> DirectiveBreakdown \<Rightarrow> Servers \<Rightarrow> ('w, unit) io" where
  "validateServerAllocations k dbd servers =
     bindE (liftE (derefR (dst_Storage (dbd_Status dbd)))) (\<lambda>storage.
       if length (sbd_AllocationSets storage) \<noteq> 0 \<and> length (sbd_AllocationSets storage) \<noteq> length (sv_AllocationSets servers)
       then failE (ResErr (WithFatal (WithWLM (WithUserMessage ''Allocation request does not meet directive requirements''
              (NewResourceError (''Servers resource does not meet storage requirements for directive '' @ quoted (dbs_Directive (dbd_Spec dbd))))))))
       else bindE (mapME (validateBreakdownSet k servers) (sbd_AllocationSets storage)) (\<lambda>_. retE ()))"

section \<open>Storage\<close>

text \<open>
  One instance of a pool: its storage must be a standalone MGT; the address and the reference when its
  Rabbit and the storage are ready, and whether it is healthy or degraded.
\<close>

definition poolMember :: "'w workflowKube \<Rightarrow> PersistentStorageInstance \<Rightarrow> ('w, (bool \<times> string \<times> ObjectReference) option) io" where
  "poolMember k psi =
     (let name = meta_Name (psi_Meta psi); namespace = meta_Namespace (psi_Meta psi); bad = (\<lambda>msg. failE (ResErr (WithFatal (NewResourceError msg)))) in
      bindE (wrapE (withErr (''could not get persistent NnfStorage '' @ namespace @ ''/'' @ name @ '' for MGS'')) (kc_Get (wk_Storage k) namespace name)) (\<lambda>s.
      let sets = ssp_AllocationSets (nstg_Spec s); address = slu_MgsAddress (nsts_Lustre (nstg_Status s)) in
      if ssp_FileSystemType (nstg_Spec s) \<noteq> ''lustre''
      then bad (''invalid file systems type '' @ quoted (ssp_FileSystemType (nstg_Spec s)) @ '' for persistent MGS'')
      else if length sets \<noteq> 1
      then bad (''unexpected number of allocation sets '' @ quoted (itoa_nat (length sets)) @ '' for persistent MGS'')
      else if length (sas_Nodes (sets ! 0)) \<noteq> 1
      then bad (''unexpected number of nodes '' @ quoted (itoa_nat (length (sas_Nodes (sets ! 0)))) @ '' in allocation set for persistent MGS'')
      else if san_Count (sas_Nodes (sets ! 0) ! 0) \<noteq> 1
      then bad (''unexpected number of count '' @ quoted (itoa (san_Count (sas_Nodes (sets ! 0) ! 0))) @ '' in node list for persistent MGS'')
      else if address = [] then bad ''no LNid listed for persistent MGS''
      else if \<not> nsts_Ready (nstg_Status s) then retE None
      else let rabbit = san_Name (sas_Nodes (sets ! 0) ! 0) in
        bindE (wrapE (withErr (''could not get storage resource default/'' @ rabbit)) (wk_GetRabbit k ''default'' rabbit)) (\<lambda>storage.
          let ref = emptyRef\<lparr>ref_Kind := ''PersistentStorageInstance'', ref_Name := name, ref_Namespace := namespace\<rparr> in
          retE (if sst_Status (sto_Status storage) \<noteq> ''Ready'' then None
                else if pst_State (psi_Status psi) = PSIStateActive then Some (True, address, ref)
                else if pst_State (psi_Status psi) = PSIStateDegraded then Some (False, address, ref)
                else None))))"

text \<open>A map from addresses to instances: of two with one address the later one stays.\<close>

definition membersThat :: "bool \<Rightarrow> (bool \<times> string \<times> ObjectReference) option list \<Rightarrow> (string \<times> ObjectReference) list" where
  "membersThat healthy members =
     fold (\<lambda>m acc. case m of Some (h, address, ref) \<Rightarrow> if h = healthy then AList.update address ref acc else acc | None \<Rightarrow> acc) members []"

definition getLustreMgsFromPool :: "'w workflowKube \<Rightarrow> string \<Rightarrow> ('w, ObjectReference \<times> string) io" where
  "getLustreMgsFromPool k pool =
     bindE (wk_ListPSI k [(StandaloneMGTLabel, pool)]) (\<lambda>items.
       if items = [] then failE (fatalUser (''no MGSs found for pool: '' @ pool))
       else bindE (mapME (poolMember k) items) (\<lambda>members.
         let healthyMgts = membersThat True members; degradedMgts = membersThat False members;
             mgtMap = (if healthyMgts \<noteq> [] then healthyMgts else degradedMgts) in
         if mgtMap = [] then failE (noErrorMsg (\<lambda>e. WithMajor (WithUserMessage (''no MGSs found for pool: '' @ pool) e)))
         else bindE (\<lambda>w. (Inr (wk_Intn k w (length mgtMap)), w)) (\<lambda>i.
              bindE (rangeArgs k mgtMap) (\<lambda>ordered.
                if i < length ordered then retE (snd (ordered ! i), fst (ordered ! i))
                else failE (ResErr (WithFatal (NewResourceError (''no MGS successfully picked. Map length '' @ itoa_nat (length mgtMap)))))))))"

definition findPersistentInstance :: "'w workflowKube \<Rightarrow> Workflow \<Rightarrow> string \<Rightarrow> ('w, PersistentStorageInstance) io" where
  "findPersistentInstance k wkf psiName = kc_Get (wk_PSI k) (wfNamespace wkf) psiName"

definition newStorage :: "string \<Rightarrow> string \<Rightarrow> NnfStorage" where
  "newStorage name namespace =
     \<lparr>nstg_Meta = zeroMeta\<lparr>meta_Name := name, meta_Namespace := namespace\<rparr>,
      nstg_Spec = \<lparr>ssp_FileSystemType = [], ssp_UserID = 0, ssp_GroupID = 0, ssp_AllocationSets = []\<rparr>,
      nstg_Status = \<lparr>nsts_Lustre = \<lparr>slu_MgsAddress = [], slu_FileSystemName = [], slu_LustreMgtReference = emptyRef,
        slu_LustreComponents = zeroComponents\<rparr>, nsts_AllocationSets = [], nsts_Error = None, nsts_Health = HealthUnset, nsts_Ready = False\<rparr>\<rparr>"

text \<open>The address of an external MGS, for a new storage or for one that was filled before.\<close>

definition externalMgs :: "'w workflowKube \<Rightarrow> NnfStorageProfile \<Rightarrow> string \<Rightarrow> NnfStorage \<Rightarrow> ('w, ObjectReference \<times> string) io" where
  "externalMgs k p fsType s =
     (let external = mgt_ExternalMGS (ld_MgtOptions (pd_LustreStorage (prof_Data p))) in
      if fsType = ''lustre'' \<and> external \<noteq> [] then
        if has_prefix external ''pool:'' then
          (let chosen = (case ssp_AllocationSets (nstg_Spec s) of
                 [] \<Rightarrow> (emptyRef, []) | a # _ \<Rightarrow> (sls_PersistentMgsReference (sas_Lustre a), sls_MgsAddress (sas_Lustre a))) in
           if snd chosen = [] then getLustreMgsFromPool k (drop (length ''pool:'') external) else retE chosen)
        else retE (emptyRef, trimLnet external)
      else retE (emptyRef, []))"

definition sharedVgOf :: "NnfStorageProfile \<Rightarrow> string \<Rightarrow> bool" where
  "sharedVgOf p fsType =
     (if fsType = ''gfs2'' then bd_SharedVg (sd_BlockDeviceCommands (pd_GFS2Storage (prof_Data p)))
      else if fsType = ''xfs'' then bd_SharedVg (sd_BlockDeviceCommands (pd_XFSStorage (prof_Data p)))
      else if fsType = ''raw'' then bd_SharedVg (sd_BlockDeviceCommands (pd_RawStorage (prof_Data p)))
      else False)"

text \<open>More than one allocation on the first node of an MGTMDT set is split in two entries.\<close>

definition allocationNodes :: "ServersSpecAllocationSet \<Rightarrow> NnfStorageAllocationNodes list" where
  "allocationNodes s =
     concat (map (\<lambda>(i, n). if ssa_Label s = ''mgtmdt'' \<and> i = 0 \<and> sss_AllocationCount n > 1
                   then [\<lparr>san_Name = sss_Name n, san_Count = 1\<rparr>, \<lparr>san_Name = sss_Name n, san_Count = sss_AllocationCount n - 1\<rparr>]
                   else [\<lparr>san_Name = sss_Name n, san_Count = sss_AllocationCount n\<rparr>]) (List.enumerate 0 (ssa_Storage s)))"

definition workflowVariables :: "Workflow \<Rightarrow> int \<Rightarrow> CommandVariablesSpec list" where
  "workflowVariables wkf index =
     map (\<lambda>(n, v). \<lparr>cv_Indexed = False, cv_Name = n, cv_Value = v, cv_IndexedValues = []\<rparr>)
       [(''$JOBID'', jobID wkf), (''$DIRECTIVE_INDEX'', itoa index), (''$WORKFLOW_UID'', meta_UID (wf_Meta wkf)),
        (''$USERID'', printWord (wfs_UserID (wf_Spec wkf))), (''$GROUPID'', printWord (wfs_GroupID (wf_Spec wkf)))]"

definition allocationSetOf ::
  "Workflow \<Rightarrow> int \<Rightarrow> string \<Rightarrow> bool \<Rightarrow> ObjectReference \<times> string \<Rightarrow> ServersSpecAllocationSet \<Rightarrow> NnfStorageAllocationSetSpec" where
  "allocationSetOf wkf index fsType shared mgs s =
     \<lparr>sas_Name = ssa_Label s, sas_Capacity = ssa_AllocationSize s,
      sas_Lustre =
        (if fsType = ''lustre''
         then \<lparr>sls_TargetType = ssa_Label s, sls_BackFs = ''zfs'', sls_MgsAddress = snd mgs,
               sls_PersistentMgsReference = (if snd mgs = [] then emptyRef else fst mgs)\<rparr>
         else \<lparr>sls_TargetType = [], sls_BackFs = [], sls_MgsAddress = [], sls_PersistentMgsReference = emptyRef\<rparr>),
      sas_SharedAllocation = shared, sas_CommandVariables = workflowVariables wkf index, sas_Nodes = allocationNodes s\<rparr>"

definition fillStorage ::
  "'w workflowKube \<Rightarrow> Workflow \<Rightarrow> Servers \<Rightarrow> int \<Rightarrow> string \<Rightarrow> NnfStorageProfile \<Rightarrow> string \<times> ObjectMeta \<Rightarrow> NnfStorage \<Rightarrow> ('w, NnfStorage) io" where
  "fillStorage k wkf servers index fsType p owner s =
     bindE (externalMgs k p fsType s) (\<lambda>mgs.
     bindE (liftE (SetControllerReference (fst owner) (snd owner)
              (addPinnedStorageProfileLabel (directiveLabels wkf index (AddOwnerLabels (fst owner) (snd owner)
                 (AddWorkflowLabels (nstg_Meta s) (wf_Meta wkf)))) p))) (\<lambda>m.
       retE (s\<lparr>nstg_Meta := m, nstg_Spec := (nstg_Spec s)\<lparr>ssp_FileSystemType := fsType, ssp_UserID := wfs_UserID (wf_Spec wkf),
         ssp_GroupID := wfs_GroupID (wf_Spec wkf),
         ssp_AllocationSets := map (allocationSetOf wkf index fsType (sharedVgOf p fsType) mgs) (sv_AllocationSets servers)\<rparr>\<rparr>)))"

definition pinnedProfileOf :: "'w workflowKube \<Rightarrow> Workflow \<Rightarrow> int \<Rightarrow> ('w, NnfStorageProfile) io" where
  "pinnedProfileOf k wkf index =
     bindE (liftE (getStorageReferenceNameFromWorkflowActual wkf index)) (\<lambda>(pinnedName, pinnedNamespace).
       gotE (fatalErr (''could not find pinned NnfStorageProfile: '' @ pinnedNamespace @ ''/'' @ pinnedName))
         (findPinnedProfile (wk_Profiles k) pinnedNamespace pinnedName))"

definition createNnfStorage :: "'w workflowKube \<Rightarrow> Workflow \<Rightarrow> Servers \<Rightarrow> int \<Rightarrow> ('w, NnfStorage) io" where
  "createNnfStorage k wkf s index =
     bindE (liftE (directiveAt wkf index)) (\<lambda>d.
     bindE (wrapE (\<lambda>_. fatalUser (''invalid DW directive: '' @ d)) (liftE (BuildArgsMap d))) (\<lambda>args.
     bindE (pinnedProfileOf k wkf index) (\<lambda>p.
     bindE (if commandOf args = ''create_persistent''
            then bindE (wrapE (fatalErr (''could not find PersistentStorageInstance: '' @ labelOf ''name'' args))
                    (findPersistentInstance k wkf (labelOf ''name'' args))) (\<lambda>psi. retE (''PersistentStorageInstance'', psi_Meta psi))
            else retE (''Workflow'', wf_Meta wkf)) (\<lambda>owner.
     let new = newStorage (meta_Name (sv_Meta s)) (meta_Namespace (sv_Meta s)) in
     bindE (wrapE (withErr (''CreateOrUpdate failed for NnfStorage: '' @ objectKey (nstg_Meta new)))
              (CreateOrUpdate (wk_Storage k) nstg_Meta new (fillStorage k wkf s index (labelOf ''type'' args) p owner))) (\<lambda>(_, s'). retE s')))))"

section \<open>Accesses\<close>

abbreviation accessMounted :: string where
  "accessMounted \<equiv> ''mounted''"

abbreviation accessUnmounted :: string where
  "accessUnmounted \<equiv> ''unmounted''"

definition newAccess :: "string \<Rightarrow> string \<Rightarrow> NnfAccess" where
  "newAccess name namespace =
     \<lparr>na_Meta = zeroMeta\<lparr>meta_Name := name, meta_Namespace := namespace\<rparr>,
      na_Spec = \<lparr>nas_DesiredState = [], nas_TeardownState = [], nas_Target = [], nas_UserID = 0, nas_GroupID = 0,
        nas_ClientReference = emptyRef, nas_MountPath = [], nas_MakeClientMounts = False, nas_MountPathPrefix = [],
        nas_StorageReference = emptyRef, nas_IgnoreOfflineComputes = False\<rparr>,
      na_Status = \<lparr>nast_State = [], nast_Ready = False, nast_Error = None\<rparr>\<rparr>"

definition nnfStorageRef :: "string \<Rightarrow> string \<Rightarrow> ObjectReference" where
  "nnfStorageRef name namespace = emptyRef\<lparr>ref_Kind := ''NnfStorage'', ref_Name := name, ref_Namespace := namespace\<rparr>"

definition fillServersAccess ::
  "'w workflowKube \<Rightarrow> NnfStorage \<Rightarrow> Workflow \<Rightarrow> int \<Rightarrow> int \<Rightarrow> string \<Rightarrow> string \<Rightarrow> NnfStorageProfile \<Rightarrow> NnfAccess \<Rightarrow> NnfAccess res" where
  "fillServersAccess k storage wkf index parentDwIndex teardownState fsType p a =
     (let path = buildServerMountPath (wk_Getenv k) wkf p fsType parentDwIndex in
      case SetControllerReference ''Workflow'' (wf_Meta wkf) (AddDataMovementTeardownStateLabel (directiveLabels wkf index
             (addPinnedStorageProfileLabel (AddOwnerLabels ''Workflow'' (wf_Meta wkf) (AddWorkflowLabels (na_Meta a) (wf_Meta wkf))) p)) teardownState) of
        Inl e \<Rightarrow> Inl e
      | Inr m \<Rightarrow> Inr (a\<lparr>na_Meta := m, na_Spec := \<lparr>nas_DesiredState = accessMounted, nas_TeardownState = teardownState, nas_Target = ''all'',
          nas_UserID = wfs_UserID (wf_Spec wkf), nas_GroupID = wfs_GroupID (wf_Spec wkf), nas_ClientReference = emptyRef, nas_MountPath = path,
          nas_MakeClientMounts = True, nas_MountPathPrefix = path,
          nas_StorageReference = nnfStorageRef (meta_Name (nstg_Meta storage)) (meta_Namespace (nstg_Meta storage)),
          nas_IgnoreOfflineComputes = False\<rparr>\<rparr>))"

definition setupNnfAccessForServers ::
  "'w workflowKube \<Rightarrow> NnfStorage \<Rightarrow> Workflow \<Rightarrow> int \<Rightarrow> int \<Rightarrow> string \<Rightarrow> string \<Rightarrow> ('w, NnfAccess) io" where
  "setupNnfAccessForServers k storage wkf index parentDwIndex teardownState fsType =
     bindE (pinnedProfileOf k wkf parentDwIndex) (\<lambda>p.
     let new = newAccess (indexedResourceName wkf parentDwIndex @ ''-servers'') (wfNamespace wkf) in
     bindE (wrapE (withErr (''CreateOrUpdate failed for NnfAccess: '' @ objectKey (na_Meta new)))
              (CreateOrUpdate (wk_Access k) na_Meta new
                 (\<lambda>a. liftE (fillServersAccess k storage wkf index parentDwIndex teardownState fsType p a)))) (\<lambda>(_, a). retE a))"

definition getDirectiveFileSystemType :: "'w workflowKube \<Rightarrow> Workflow \<Rightarrow> int \<Rightarrow> ('w, string) io" where
  "getDirectiveFileSystemType k wkf index =
     bindE (liftE (directiveAt wkf index)) (\<lambda>d.
     bindE (liftE (ignoreError (BuildArgsMap d))) (\<lambda>args.
       if commandOf args = ''jobdw'' then retE (labelOf ''type'' args)
       else if commandOf args = ''persistentdw'' then
         bindE (liftE (getStorageReferenceNameFromWorkflowActual wkf index)) (\<lambda>(name, namespace).
         bindE (wrapE (withErr (''could not get persistent NnfStorage '' @ namespace @ ''/'' @ name @ '' to determine file system type''))
                  (kc_Get (wk_Storage k) namespace name)) (\<lambda>s. retE (ssp_FileSystemType (nstg_Spec s))))
       else failE (ResErr (WithFatal (NewResourceError (''invalid directive '' @ quoted d @ '' to get file system type''))))))"

definition requestUnmount :: "'w workflowKube \<Rightarrow> NnfAccess \<Rightarrow> ('w, NnfAccess option \<times> stepResult option) io" where
  "requestUnmount k a =
     (if nas_DesiredState (na_Spec a) = accessUnmounted then retE (Some a, None)
      else catchE (bindE (kc_Update (wk_Access k) (a\<lparr>na_Spec := (na_Spec a)\<lparr>nas_DesiredState := accessUnmounted\<rparr>\<rparr>)) (\<lambda>a'. retE (Some a', None)))
             (\<lambda>e. if IsConflict e then retE (None, Some (wfRequeue ''conflict''))
                  else failE (withErr (''could not update NnfAccess: '' @ objectKey (na_Meta a)) e)))"

text \<open>The access of a directive and a sfx, when it has to be unmounted in this state of the workflow.\<close>

definition requestNnfAccessUnmount :: "'w workflowKube \<Rightarrow> Workflow \<Rightarrow> int \<Rightarrow> string \<Rightarrow> ('w, NnfAccess option \<times> stepResult option) io" where
  "requestNnfAccessUnmount k wkf index accessSuffix =
     (if accessSuffix \<notin> {''computes'', ''servers''} then failE (Panic (''unhandled NnfAccess suffix'' @ accessSuffix))
      else bindE (tryE (kc_Get (wk_Access k) (wfNamespace wkf) (indexedResourceName wkf index @ ''-'' @ accessSuffix))) (\<lambda>got.
        case got of
          Inl e \<Rightarrow> if IsNotFound e then retE (None, None) else failE e
        | Inr a \<Rightarrow>
            (case map_of (meta_Labels (na_Meta a)) DataMovementTeardownStateLabel of
               Some t \<Rightarrow> if t \<noteq> wst_State (wf_Status wkf) then retE (None, None) else requestUnmount k a
             | None \<Rightarrow> requestUnmount k a)))"

definition errorByIndex :: "'w workflowKube \<Rightarrow> failure \<Rightarrow> int \<Rightarrow> (Workflow \<times> 'w, unit) io" where
  "errorByIndex k err index = (\<lambda>(wkf, w). case handleWorkflowErrorByIndex (driverID k) err index wkf of
     Inl e \<Rightarrow> (Inl e, (wkf, w)) | Inr wkf' \<Rightarrow> (Inr (), (wkf', w)))"

definition unmountNnfAccessIfNecessary :: "'w workflowKube \<Rightarrow> int \<Rightarrow> string \<Rightarrow> (Workflow \<times> 'w, stepResult option) io" where
  "unmountNnfAccessIfNecessary k index accessSuffix =
     bindE getE (\<lambda>wkf. bindE (sndE (requestNnfAccessUnmount k wkf index accessSuffix)) (\<lambda>r.
       case r of
         (_, Some res) \<Rightarrow> retE (Some res)
       | (None, None) \<Rightarrow> retE None
       | (Some a, None) \<Rightarrow>
           if nast_State (na_Status a) \<noteq> accessUnmounted then retE (Some (wfRequeue ''pending unmount''))
           else (case nast_Error (na_Status a) of
                   Some e \<Rightarrow> bindE (errorByIndex k (ResErr e) index) (\<lambda>_. retE (Some (wfRequeue ''mount/unmount error'')))
                 | None \<Rightarrow> if \<not> nast_Ready (na_Status a) then retE (Some (wfRequeue ''pending unmount'')) else retE None)))"

fun waitForSuffixes :: "'w workflowKube \<Rightarrow> int \<Rightarrow> string list \<Rightarrow> (Workflow \<times> 'w, stepResult option) io" where
  "waitForSuffixes k index [] = retE None"
| "waitForSuffixes k index (sfx # sfxs) =
     bindE getE (\<lambda>wkf. let name = indexedResourceName wkf index @ sfx in
     bindE (sndE (wrapE (withErr (''could not get NnfAccess: '' @ wfNamespace wkf @ ''/'' @ name)) (kc_Get (wk_Access k) (wfNamespace wkf) name))) (\<lambda>a.
       case nast_Error (na_Status a) of
         Some e \<Rightarrow> bindE (errorByIndex k (ResErr e) index) (\<lambda>_. retE (Some (wfRequeue ''mount/unmount error'')))
       | None \<Rightarrow>
           if nast_State (na_Status a) \<noteq> accessMounted \<or> \<not> nast_Ready (na_Status a) then retE (Some (wfRequeue ''pending mount''))
           else waitForSuffixes k index sfxs))"

definition waitForNnfAccessMounted :: "'w workflowKube \<Rightarrow> int \<Rightarrow> (Workflow \<times> 'w, stepResult option) io" where
  "waitForNnfAccessMounted k index =
     bindE getE (\<lambda>wkf.
     bindE (sndE (wrapE (fatalErr ''unable to determine directive file system type'') (getDirectiveFileSystemType k wkf index))) (\<lambda>fsType.
       waitForSuffixes k index (''-computes'' # (if fsType \<in> {''gfs2'', ''lustre'', ''raw''} then [''-servers''] else []))))"

section \<open>Consumers of persistent storage\<close>

definition consumerRef :: "Workflow \<Rightarrow> int \<Rightarrow> ObjectReference" where
  "consumerRef wkf index = emptyRef\<lparr>ref_Kind := ''Workflow'', ref_Name := indexedResourceName wkf index, ref_Namespace := wfNamespace wkf\<rparr>"

definition setConsumers :: "ObjectReference list \<Rightarrow> PersistentStorageInstance \<Rightarrow> PersistentStorageInstance" where
  "setConsumers refs psi = psi\<lparr>psi_Spec := (psi_Spec psi)\<lparr>psp_ConsumerReferences := refs\<rparr>\<rparr>"

definition Workflow_addPersistentStorageReference :: "'w workflowKube \<Rightarrow> Workflow \<Rightarrow> int \<Rightarrow> ('w, unit) io" where
  "Workflow_addPersistentStorageReference k wkf index =
     bindE (liftE (dwArgsAt wkf index)) (\<lambda>args.
     bindE (wrapE (\<lambda>_. noErrorMsg (\<lambda>r. WithUser (WithMajor (WithUserMessage (''PersistentStorage '' @ quoted (labelOf ''name'' args) @ '' not found'') r))))
              (findPersistentInstance k wkf (labelOf ''name'' args))) (\<lambda>psi.
       if pst_State (psi_Status psi) \<noteq> PSIStateActive then failE (fatalUser ''PersistentStorage is not active'')
       else let refs = psp_ConsumerReferences (psi_Spec psi); ref = consumerRef wkf index in
         if ref \<notin> set refs then bindE (kc_Update (wk_PSI k) (setConsumers (refs @ [ref]) psi)) (\<lambda>_. retE ())
         else retE ()))"

definition Workflow_removePersistentStorageReference :: "'w workflowKube \<Rightarrow> Workflow \<Rightarrow> int \<Rightarrow> ('w, unit) io" where
  "Workflow_removePersistentStorageReference k wkf index =
     bindE (liftE (dwArgsAt wkf index)) (\<lambda>args.
     bindE (tryE (findPersistentInstance k wkf (labelOf ''name'' args))) (\<lambda>got.
       case got of
         Inl e \<Rightarrow> if IsNotFound e then retE () else failE e
       | Inr psi \<Rightarrow>
           let refs = psp_ConsumerReferences (psi_Spec psi); ref = consumerRef wkf index in
           if ref \<in> set refs then bindE (kc_Update (wk_PSI k) (setConsumers (remove1 ref refs) psi)) (\<lambda>_. retE ())
           else retE ()))"

fun removeReferencesFrom :: "'w workflowKube \<Rightarrow> Workflow \<Rightarrow> int \<Rightarrow> string list \<Rightarrow> ('w, unit) io" where
  "removeReferencesFrom k wkf i [] = retE ()"
| "removeReferencesFrom k wkf i (d # ds) =
     bindE (liftE (ignoreError (BuildArgsMap d))) (\<lambda>args.
     bindE (if commandOf args = ''persistentdw'' then Workflow_removePersistentStorageReference k wkf i else retE ()) (\<lambda>_.
       removeReferencesFrom k wkf (i + 1) ds))"

definition removeAllPersistentStorageReferences :: "'w workflowKube \<Rightarrow> Workflow \<Rightarrow> ('w, unit) io" where
  "removeAllPersistentStorageReferences k wkf = removeReferencesFrom k wkf 0 (wfs_DWDirectives (wf_Spec wkf))"

end
