(* ===== verification/WorkflowContainers.thy ===== *)
theory WorkflowContainers
  imports ContainerPods WorkflowSteps
begin

text \<open>
  The containers of a workflow (\<^verbatim>\<open>nnf_workflow_controller_helpers.go\<close> and \<^verbatim>\<open>nnf_workflow_controller_container_helpers.go\<close>):
  the secrets by which they trust their clients, the ports they ask for, the jobs and what is waited for,
  the request to stop, and their removal.
\<close>

section \<open>Keys and tokens\<close>

abbreviation requiresContainerAuth :: string where
  "requiresContainerAuth \<equiv> ''container-auth''"

abbreviation requiresCopyOffload :: string where
  "requiresCopyOffload \<equiv> ''copy-offload''"

abbreviation userContainerTLSSecretName :: string where
  "userContainerTLSSecretName \<equiv> ''nnf-dm-usercontainer-server-tls''"

definition verifyUserContainerTLSSecretName :: "'w workflowKube \<Rightarrow> ('w, unit) io" where
  "verifyUserContainerTLSSecretName k =
     sndUnit (wrapE (fatalErr ''the administrator must configure the user container TLS secret for the system. See the copy-offload docs'')
       (kc_Get (wk_Secret (wk_Containers k)) ''default'' userContainerTLSSecretName))"

definition getUserContainerCACert :: "'w workflowKube \<Rightarrow> ('w, string) io" where
  "getUserContainerCACert k =
     bindE (wrapE (failWith (''failed to get secret '' @ userContainerTLSSecretName))
              (kc_Get (wk_Secret (wk_Containers k)) ''default'' userContainerTLSSecretName)) (\<lambda>s.
       case map_of (secret_Data s) ''tls.crt'' of
         None \<Rightarrow> failE (Fail (CHR 0x27 # ''tls.crt '' @ CHR 0x27 # ''not found in secret '' @ userContainerTLSSecretName))
       | Some caCert \<Rightarrow> retE caCert)"

definition makeWorkflowTokenName :: "Workflow \<Rightarrow> WorkflowTokenSecret \<times> string" where
  "makeWorkflowTokenName wkf =
     (let t = (case wst_WorkflowToken (wf_Status wkf) of
                 None \<Rightarrow> \<lparr>wts_SecretName = wfName wkf @ ''-token'', wts_SecretNamespace = wfNamespace wkf\<rparr> | Some t \<Rightarrow> t) in
      (t, wts_SecretName t @ ''-server''))"

text \<open>\<^verbatim>\<open>NewResourceError("%s: %s", errGroup, step).WithError(err).WithUserMessage(msg)\<close>\<close>

definition secretError :: "string \<Rightarrow> string \<Rightarrow> string \<Rightarrow> failure \<Rightarrow> failure" where
  "secretError key user step = userError (''could not create secret: '' @ key @ '': '' @ step) user"

definition newSecret :: "Workflow \<Rightarrow> string \<Rightarrow> string \<Rightarrow> kv \<Rightarrow> kv \<Rightarrow> Secret res" where
  "newSecret wkf name namespace data strings =
     (case SetControllerReference ''Workflow'' (wf_Meta wkf) (AddOwnerLabels ''Workflow'' (wf_Meta wkf)
             (AddWorkflowLabels (zeroMeta\<lparr>meta_Name := name, meta_Namespace := namespace\<rparr>) (wf_Meta wkf))) of
        Inl e \<Rightarrow> Inl e
      | Inr m \<Rightarrow> Inr \<lparr>secret_Meta = m, secret_Type = ''Opaque'', secret_Immutable = True, secret_Data = data, secret_StringData = strings\<rparr>)"

definition createContainerTokenKey :: "'w workflowKube \<Rightarrow> Workflow \<Rightarrow> ('w, string) io" where
  "createContainerTokenKey k wkf =
     (let ns = wts_SecretNamespace (fst (makeWorkflowTokenName wkf)); name = snd (makeWorkflowTokenName wkf); ck = wk_Containers k;
          bad = secretError (ns @ ''/'' @ name) ''could not create workflow's server-token secret'' in
      bindE (wrapE (bad ''CreateKeyForTokens'') (CreateKeyForTokens (wk_Tokens ck))) (\<lambda>(keyBytes, pemKey).
      bindE (wrapE (bad ''SetControllerReference'') (liftE (newSecret wkf name ns [(''token.key'', pemKey)] []))) (\<lambda>secret.
      bindE (tryE (kc_Create (wk_Secret ck) secret)) (\<lambda>made.
        case made of
          Inr _ \<Rightarrow> retE keyBytes
        | Inl e \<Rightarrow>
            if IsAlreadyExists e
            then bindE (wrapE (bad ''Get'') (kc_Get (wk_Secret ck) ns name)) (\<lambda>prev.
                   wrapE (bad ''GetKeyFromPEM'') (liftE (GetKeyFromPEM (wk_Tokens ck) (labelOf ''token.key'' (secret_Data prev)))))
            else failE (bad ''Create'' e)))))"

definition createContainerToken :: "'w workflowKube \<Rightarrow> Workflow \<Rightarrow> string \<Rightarrow> ('w, WorkflowTokenSecret) io" where
  "createContainerToken k wkf keyBytes =
     (let t = fst (makeWorkflowTokenName wkf); ns = wts_SecretNamespace t; name = wts_SecretName t; ck = wk_Containers k;
          bad = secretError (ns @ ''/'' @ name) ''could not create or update workflow's client-token secret'' in
      bindE (wrapE (bad ''CreateTokenFromKey'') (CreateTokenFromKey (wk_Tokens ck) keyBytes ''user-container'')) (\<lambda>tokenString.
      bindE (wrapE (bad ''SetControllerReference'') (liftE (newSecret wkf name ns [] [(''token'', tokenString)]))) (\<lambda>secret.
      bindE (tryE (kc_Create (wk_Secret ck) secret)) (\<lambda>made.
        case made of
          Inr _ \<Rightarrow> retE t
        | Inl e \<Rightarrow>
            if IsAlreadyExists e
            then bindE (wrapE (bad ''Get'') (kc_Get (wk_Secret ck) ns name)) (\<lambda>prev.
                 bindE (wrapE (bad ''VerifyToken'') (liftE (VerifyToken (wk_Tokens ck) (labelOf ''token'' (secret_Data prev)) keyBytes))) (\<lambda>_. retE t))
            else failE (bad ''Create'' e)))))"

definition setupContainerAuth :: "'w workflowKube \<Rightarrow> Workflow \<Rightarrow> ('w, WorkflowTokenSecret) io" where
  "setupContainerAuth k wkf = bindE (createContainerTokenKey k wkf) (createContainerToken k wkf)"

definition getWorkflowToken :: "'w workflowKube \<Rightarrow> Workflow \<Rightarrow> ('w, string) io" where
  "getWorkflowToken k wkf =
     (case wst_WorkflowToken (wf_Status wkf) of
        None \<Rightarrow> retE []
      | Some t \<Rightarrow>
          let name = wts_SecretName t in
          bindE (wrapE (withErr (''could not get workflow token secret '' @ quoted name))
                   (kc_Get (wk_Secret (wk_Containers k)) (wts_SecretNamespace t) name)) (\<lambda>s.
            case map_of (secret_Data s) ''token'' of
              None \<Rightarrow> failE (ResErr (WithFatal (NewResourceError (''workflow token secret '' @ CHR 0x27 # name @ '' '' @ CHR 0x27 # ''does not contain '' @ quoted ''token'' @ '' key''))))
            | Some token \<Rightarrow> if token = [] then failE (ResErr (WithFatal (NewResourceError (''workflow token secret '' @ quoted name @ '' is empty''))))
                            else retE token))"

definition getContainerSecrets :: "Workflow \<Rightarrow> nnfContainerSecret list" where
  "getContainerSecrets wkf =
     concat (map (\<lambda>_. [\<lparr>ncs_name = ''usercontainer-tls'', ncs_mountPath = ''/etc/usercontainer-tls'', ncs_secretName = userContainerTLSSecretName,
          ncs_envVarsToFileNames = [(''TLS_CERT_PATH'', ''tls.crt''), (''TLS_KEY_PATH'', ''tls.key'')]\<rparr>,
        \<lparr>ncs_name = ''usercontainer-token'', ncs_mountPath = ''/etc/usercontainer-token'', ncs_secretName = snd (makeWorkflowTokenName wkf),
          ncs_envVarsToFileNames = [(''TOKEN_KEY_PATH'', ''token.key'')]\<rparr>])
       (filter (\<lambda>v. v = requiresContainerAuth) (wst_Requires (wf_Status wkf))))"

section \<open>The Rabbits of the computes\<close>

definition computeMap :: "SystemConfiguration \<Rightarrow> (string \<times> string) list" where
  "computeMap sc =
     fold (\<lambda>n. fold (\<lambda>ca. AList.update (scr_Name ca) (scs_Name n)) (scs_ComputesAccess n))
       (filter (\<lambda>n. scs_Type n = ''Rabbit'') (sc_StorageNodes sc)) []"

fun localNodes :: "(string \<times> string) list \<Rightarrow> string list \<Rightarrow> string list res" where
  "localNodes m [] = Inr []"
| "localNodes m (c # cs) =
     (case map_of m c of
        None \<Rightarrow> Inl (ResErr (WithFatal (NewResourceError (''supplied compute node '' @ quoted c @ '' not found in SystemConfiguration''))))
      | Some node \<Rightarrow> (case localNodes m cs of Inl e \<Rightarrow> Inl e | Inr nodes \<Rightarrow> Inr (node # nodes)))"

definition getNnfNodesFromComputes :: "'w workflowKube \<Rightarrow> Workflow \<Rightarrow> ('w, string list) io" where
  "getNnfNodesFromComputes k wkf =
     bindE (wrapE (\<lambda>_. ResErr (NewResourceError ''could not find Computes resource for workflow''))
              (wk_GetComputes k (wfNamespace wkf) (wfName wkf))) (\<lambda>computes.
       if cpt_Data computes = [] then failE (ResErr (WithFatal (WithWLM (NewResourceError ''the Computes resources does not specify any compute nodes''))))
       else bindE (wrapE (\<lambda>_. ResErr (WithFatal (NewResourceError ''could not get system configuration''))) (wk_GetConfiguration k ''default'' ''default'')) (\<lambda>sc.
            bindE (liftE (localNodes (computeMap sc) (cpt_Data computes))) (\<lambda>nodes.
              rangeArgs k (remdups nodes))))"

section \<open>The request to stop\<close>

definition shutdownHeaders :: "string \<Rightarrow> bool \<Rightarrow> kv" where
  "shutdownHeaders token copyOffload =
     [(''Content-Type'', ''application/json'')] @ (if copyOffload then [(''Accepts-version'', ''1.0'')] else []) @
     (if token \<noteq> [] then [(''Authorization'', ''Bearer '' @ token), (''X-Auth-Type'', ''XOAUTH2'')] else [])"

definition shutdownBody :: string where
  "shutdownBody = CHR ''{'' # CHR 0x22 # ''message'' @ CHR 0x22 # '': '' @ CHR 0x22 # ''shutdown'' @ [CHR 0x22, CHR ''}'']"

text \<open>The hosts that did not answer with \<^verbatim>\<open>200 OK\<close>; an error other than a refused connection ends the loop.\<close>

fun sendShutdowns :: "'w workflowKube \<Rightarrow> string \<Rightarrow> bool \<Rightarrow> string list \<Rightarrow> (string \<times> int) list \<Rightarrow> ('w, (string \<times> int) list) io" where
  "sendShutdowns k token copyOffload [] failed = retE failed"
| "sendShutdowns k token copyOffload (host # hosts) failed =
     bindE (wk_Post (wk_Containers k) (''https://'' @ host @ ''/shutdown'') (shutdownHeaders token copyOffload) shutdownBody) (\<lambda>answer.
       case answer of
         HttpError e \<Rightarrow> failE e
       | ConnectionRefused \<Rightarrow> sendShutdowns k token copyOffload hosts failed
       | StatusCode n \<Rightarrow> sendShutdowns k token copyOffload hosts (if n \<noteq> 200 then AList.update host n failed else failed))"

definition sendShutdownToHosts :: "'w workflowKube \<Rightarrow> string list \<Rightarrow> string \<Rightarrow> bool \<Rightarrow> ('w, unit) io" where
  "sendShutdownToHosts k hosts token copyOffload =
     bindE (getUserContainerCACert k) (\<lambda>caCert.
       if \<not> wk_AppendCertsFromPEM (wk_Containers k) caCert then failE (Fail ''failed to append CA cert'')
       else bindE (sendShutdowns k token copyOffload hosts []) (\<lambda>failed.
         if failed = [] then retE ()
         else bindE (rangeArgs k failed) (\<lambda>ordered.
           failE (Fail (''failed to send shutdown to some hosts: '' @ concat (map (\<lambda>(h, n). h @ '': '' @ itoa n @ '', '') ordered))))))"

definition noNodes :: "failure option \<Rightarrow> failure" where
  "noNodes e = ResErr (WithError e (NewResourceError ''error obtaining the target NNF nodes for containers''))"

definition targetNodes :: "'w workflowKube \<Rightarrow> Workflow \<Rightarrow> ('w, string list) io" where
  "targetNodes k wkf =
     bindE (wrapE (\<lambda>e. noNodes (Some e)) (getNnfNodesFromComputes k wkf)) (\<lambda>nodes. if nodes = [] then failE (noNodes None) else retE nodes)"

definition sendContainerShutdown :: "'w workflowKube \<Rightarrow> Workflow \<Rightarrow> NnfContainerProfile \<Rightarrow> ('w, unit) io" where
  "sendContainerShutdown k wkf p =
     (let ports = go_split (CHR '','') (envOf wkf ''NNF_CONTAINER_PORTS'');
          copyOffload = (case cpr_NnfMPISpec p of None \<Rightarrow> False | Some m \<Rightarrow> mpi_CopyOffload m) in
      bindE (if cpr_NnfMPISpec p \<noteq> None then retE [envOf wkf ''NNF_CONTAINER_LAUNCHER''] else targetNodes k wkf) (\<lambda>nodes.
      let hosts = concat (map (\<lambda>n. map (\<lambda>port. n @ '':'' @ port) ports) nodes) in
      if hosts = [] then retE ()
      else bindE (wrapE (withErr ''could not get workflow token string'') (getWorkflowToken k wkf)) (\<lambda>token.
           bindE (tryE (sendShutdownToHosts k hosts token copyOffload)) (\<lambda>_. retE ()))))"

section \<open>Volumes of the containers\<close>

definition getNnfNodeStorages :: "'w workflowKube \<Rightarrow> Workflow \<Rightarrow> ('w, NnfNodeStorage list) io" where
  "getNnfNodeStorages k wkf =
     wrapE (majorError ''could not retrieve NnfNodeStorages'') (wk_ListNodeStorages (wk_Containers k) (MatchingWorkflow (wf_Meta wkf)))"

fun firstByName :: "string list \<Rightarrow> NnfNodeStorage list \<Rightarrow> NnfNodeStorage list" where
  "firstByName seen [] = []"
| "firstByName seen (n # ns) =
     (if meta_Name (ns_Meta n) \<in> set seen then firstByName seen ns else n # firstByName (meta_Name (ns_Meta n) # seen) ns)"

definition findMockDevicesForKind :: "'w workflowKube \<Rightarrow> Workflow \<Rightarrow> ('w, nnfContainerVolume list) io" where
  "findMockDevicesForKind k wkf =
     bindE (wrapE (withErr ''could not find devices for KIND environment'') (getNnfNodeStorages k wkf)) (\<lambda>nodes.
       let paths = concat (map (\<lambda>n. map (\<lambda>i. ''/mnt/nnf/'' @ meta_Name (ns_Meta n) @ ''-'' @ itoa_nat i) [0 ..< nat (nss_Count (ns_Spec n))])
                     (firstByName [] nodes)) in
       retE (map (\<lambda>(i, path). \<lparr>ncv_name = ''kind-device-'' @ itoa_nat i, ncv_command = [], ncv_directiveName = [], ncv_directiveIndex = 0,
               ncv_mountPath = path, ncv_envVarName = [], ncv_pvcName = []\<rparr>) (List.enumerate 0 paths)))"

text \<open>The access mode of a global file system; of several entries of the profile the last one counts.\<close>

definition pvcMode :: "NnfContainerProfile \<Rightarrow> string \<Rightarrow> string" where
  "pvcMode p arg = fold (\<lambda>s mode. if cps_Name s = arg \<and> cps_PVCMode s \<noteq> [] then to_lower (cps_PVCMode s) else mode) (cpr_Storages p)
     (to_lower ''ReadWriteMany'')"

definition globalVolume :: "'w workflowKube \<Rightarrow> Workflow \<Rightarrow> NnfContainerProfile \<Rightarrow> string \<Rightarrow> string \<Rightarrow> nnfContainerVolume \<Rightarrow> ('w, nnfContainerVolume) io" where
  "globalVolume k wkf p arg val v =
     bindE (findLustreFileSystemForPath k val) (\<lambda>lustre.
       case lustre of
         None \<Rightarrow> failE (fatalUser (''global Lustre file system containing '' @ quoted val @ '' not found''))
       | Some l \<Rightarrow>
           (case map_of (lfs_Namespaces l) (wfNamespace wkf) of
              Some (m # ms) \<Rightarrow> retE (v\<lparr>ncv_pvcName := to_lower (meta_Name (lfs_Meta l) @ ''-'' @ meta_Namespace (lfs_Meta l) @ ''-'' @ pvcMode p arg @ ''-pvc''),
                                     ncv_mountPath := lfs_MountRoot l\<rparr>)
            | _ \<Rightarrow> failE (fatalUser (''global Lustre file system containing '' @ quoted val @ '' is not configured for the '' @ quoted (wfNamespace wkf) @ '' namespace''))))"

definition storageVolume :: "'w workflowKube \<Rightarrow> Workflow \<Rightarrow> nnfContainerVolume \<Rightarrow> ('w, nnfContainerVolume + stepResult) io" where
  "storageVolume k wkf v =
     bindE (liftE (findDirectiveIndexByName wkf (ncv_directiveName v) (ncv_command v))) (\<lambda>index.
       if index < 0 then failE (ResErr (WithMajor (NewResourceError (''could not retrieve the directive breakdown for '' @ quoted (ncv_directiveName v)))))
       else let name = indexedResourceName wkf index @ ''-servers'' in
         bindE (wrapE (\<lambda>_. ResErr (WithMajor (NewResourceError (''could not retrieve the NnfAccess '' @ quoted name))))
                  (kc_Get (wk_Access k) (wfNamespace wkf) name)) (\<lambda>a.
           if \<not> nast_Ready (na_Status a)
           then retE (Inr (result_after (2 * second) (wfRequeue (''NnfAccess '' @ quoted name @ '' is not ready to be mounted into container''))))
           else retE (Inl (v\<lparr>ncv_directiveIndex := index, ncv_mountPath := nas_MountPath (na_Spec a)\<rparr>))))"

definition volumeArg :: "string \<Rightarrow> (string \<times> string) option" where
  "volumeArg arg =
     (if has_prefix arg ''DW_JOB_'' then Some (drop (length ''DW_JOB_'') arg, ''jobdw'')
      else if has_prefix arg ''DW_PERSISTENT_'' then Some (drop (length ''DW_PERSISTENT_'') arg, ''persistentdw'')
      else if has_prefix arg ''DW_GLOBAL_'' then Some (drop (length ''DW_GLOBAL_'') arg, ''globaldw'')
      else None)"

fun volumesOf :: "'w workflowKube \<Rightarrow> Workflow \<Rightarrow> NnfContainerProfile \<Rightarrow> (string \<times> string) list \<Rightarrow> ('w, nnfContainerVolume list + stepResult) io" where
  "volumesOf k wkf p [] = retE (Inl [])"
| "volumesOf k wkf p ((arg, val) # args) =
     (case volumeArg arg of
        None \<Rightarrow> volumesOf k wkf p args
      | Some (volName, cmd) \<Rightarrow>
          let v = \<lparr>ncv_name = go_replace_all volName ''_'' ''-'', ncv_command = cmd, ncv_directiveName = val, ncv_directiveIndex = -1,
                   ncv_mountPath = [], ncv_envVarName = go_replace_all arg ''-'' ''_'', ncv_pvcName = []\<rparr> in
          bindE (if cmd = ''globaldw'' then bindE (globalVolume k wkf p arg val v) (\<lambda>v'. retE (Inl v')) else storageVolume k wkf v) (\<lambda>r.
            case r of
              Inr res \<Rightarrow> retE (Inr res)
            | Inl v' \<Rightarrow> bindE (volumesOf k wkf p args) (\<lambda>rest. retE (case rest of Inl vs \<Rightarrow> Inl (v' # vs) | Inr res \<Rightarrow> Inr res))))"

definition getContainerVolumes ::
  "'w workflowKube \<Rightarrow> Workflow \<Rightarrow> kv \<Rightarrow> NnfContainerProfile \<Rightarrow> ('w, nnfContainerVolume list + stepResult) io" where
  "getContainerVolumes k wkf args p =
     bindE (rangeArgs k args) (\<lambda>ordered.
     bindE (volumesOf k wkf p ordered) (\<lambda>r.
       case r of
         Inr res \<Rightarrow> retE (Inr res)
       | Inl volumes \<Rightarrow>
           if getenvOr k ''ENVIRONMENT'' = ''kind'' then bindE (findMockDevicesForKind k wkf) (\<lambda>dev. retE (Inl (volumes @ dev)))
           else retE (Inl volumes)))"

section \<open>Creating the containers\<close>

definition createContainerService :: "'w workflowKube \<Rightarrow> Workflow \<Rightarrow> ('w, unit) io" where
  "createContainerService k wkf =
     bindE (wrapE (failWith (''setting Service controller reference failed for '' @ quoted (wfName wkf)))
              (liftE (SetControllerReference ''Workflow'' (wf_Meta wkf) (zeroMeta\<lparr>meta_Name := wfName wkf, meta_Namespace := wfNamespace wkf\<rparr>)))) (\<lambda>m.
       ignoreExists (wk_CreateService (wk_Containers k) \<lparr>svc_Meta = m, svc_Selector = [(ContainerLabel, wfName wkf)], svc_ClusterIP = ''None''\<rparr>))"

text \<open>\<^verbatim>\<open>NewResourceError(msg).WithMajor().WithError(err)\<close>: the severity of a wrapped error wins.\<close>

definition majorThen :: "string \<Rightarrow> failure \<Rightarrow> failure" where
  "majorThen msg e = ResErr (WithError (Some e) (WithMajor (NewResourceError msg)))"

definition userContainerHandler :: "'w workflowKube \<Rightarrow> kv \<Rightarrow> int \<Rightarrow> (Workflow \<times> 'w, stepResult option) io" where
  "userContainerHandler k args index = bindE getE (\<lambda>wkf.
     bindE (sndE (getContainerProfile k wkf index)) (\<lambda>p.
     bindE (sndE (targetNodes k wkf)) (\<lambda>nodes.
     bindE (sndE (wrapE (withErr (''could not determine the list of volumes needed to create container job for workflow: '' @ wfName wkf))
              (getContainerVolumes k wkf args p))) (\<lambda>r.
       case r of
         Inr res \<Rightarrow> retE (Some res)
       | Inl volumes \<Rightarrow>
           let c = \<lparr>uc_profile = p, uc_nnfNodes = nodes, uc_volumes = volumes, uc_secrets = getContainerSecrets wkf, uc_username = ''user'',
                    uc_uid = uint (wfs_UserID (wf_Spec wkf)), uc_gid = uint (wfs_GroupID (wf_Spec wkf)), uc_index = index\<rparr> in
           bindE (if cpr_NnfMPISpec p \<noteq> None then wrapE (majorThen ''unable to create/update MPIJob'') (createMPIJob k c)
                  else bindE (sndE (wrapE (majorThen ''unable to create/update Container Service'') (createContainerService k wkf))) (\<lambda>_.
                       wrapE (majorThen ''unable to create/update Container Jobs'') (createNonMPIJob k c))) (\<lambda>_. retE None)))))"

section \<open>Jobs\<close>

definition jobLabels :: "Workflow \<Rightarrow> int \<Rightarrow> kv" where
  "jobLabels wkf index =
     MatchingWorkflow (wf_Meta wkf) @ (if index \<ge> 0 then [(DirectiveIndexLabel, itoa index)] else [])"

definition getMPIJobs :: "'w workflowKube \<Rightarrow> Workflow \<Rightarrow> int \<Rightarrow> ('w, MPIJob list) io" where
  "getMPIJobs k wkf index = wrapE (majorError ''could not retrieve MPIJobs'') (wk_ListMPIJobs (wk_Containers k) (jobLabels wkf index))"

definition getContainerJobs :: "'w workflowKube \<Rightarrow> Workflow \<Rightarrow> int \<Rightarrow> ('w, Job list) io" where
  "getContainerJobs k wkf index = wrapE (majorError ''could not retrieve Jobs'') (wk_ListJobs (wk_Containers k) (jobLabels wkf index))"

definition getMPIJobChildrenJobs :: "'w workflowKube \<Rightarrow> Workflow \<Rightarrow> MPIJob \<Rightarrow> ('w, Job list) io" where
  "getMPIJobChildrenJobs k wkf mpiJob =
     bindE (wrapE (majorError (''could not retrieve Jobs for MPIJob '' @ meta_Name (mpj_Meta mpiJob))) (wk_ListJobs (wk_Containers k) [(''app'', wfName wkf)])) (\<lambda>jobs.
       retE (concat (map (\<lambda>j. map (\<lambda>_. j) (filter (\<lambda>ref. own_UID ref = meta_UID (mpj_Meta mpiJob)) (meta_OwnerReferences (job_Meta j)))) jobs)))"

definition pendingJob :: "string \<Rightarrow> Workflow \<Rightarrow> int \<Rightarrow> stepResult" where
  "pendingJob what wkf index = result_after (2 * second) (wfRequeue (what @ '' for workflow '' @ quoted (wfName wkf) @ '', index: '' @ itoa index))"

definition getMPIJobConditions :: "'w workflowKube \<Rightarrow> Workflow \<Rightarrow> int \<Rightarrow> nat \<Rightarrow> ('w, MPIJob + stepResult) io" where
  "getMPIJobConditions k wkf index expected =
     bindE (tryE (kc_Get (wk_MPIJob (wk_Containers k)) (wfNamespace wkf) (wfName wkf))) (\<lambda>got.
       case got of
         Inl _ \<Rightarrow> retE (Inr (pendingJob ''pending MPIJob creation'' wkf index))
       | Inr j \<Rightarrow> if length (mpj_Conditions j) < expected then retE (Inr (pendingJob ''pending MPIJob conditions'' wkf index)) else retE (Inl j))"

text \<open>\<^verbatim>\<open>retry.RetryOnConflict\<close> with the default back-off: five tries.\<close>

fun retryOnConflict :: "nat \<Rightarrow> ('w, 'a) io \<Rightarrow> ('w, 'a) io" where
  "retryOnConflict 0 m = m"
| "retryOnConflict (Suc n) m = catchE m (\<lambda>e. if IsConflict e then retryOnConflict n m else failE e)"

definition updateDeadline :: "'w workflowKube \<Rightarrow> Job \<Rightarrow> int \<Rightarrow> ('w, unit) io" where
  "updateDeadline k job deadline =
     bindE (tryE (kc_Get (wk_Job (wk_Containers k)) (meta_Namespace (job_Meta job)) (meta_Name (job_Meta job)))) (\<lambda>got.
       case got of
         Inl e \<Rightarrow> if IsNotFound e then retE () else failE e
       | Inr j \<Rightarrow> sndUnit (kc_Update (wk_Job (wk_Containers k)) (j\<lparr>job_ActiveDeadlineSeconds := Some deadline\<rparr>)))"

definition setJobTimeout :: "'w workflowKube \<Rightarrow> Job \<Rightarrow> int \<Rightarrow> ('w, unit) io" where
  "setJobTimeout k job timeout =
     (if timeout > 0 \<and> job_ActiveDeadlineSeconds job = None
      then bindE (\<lambda>w. (Inr (wk_Now k w), w)) (\<lambda>now.
        let deadline = go_quot (wrap64 (wrap64 (now - meta_CreationTimestamp (job_Meta job)) + timeout)) second in
        wrapE (\<lambda>_. ResErr (NewResourceError (''error updating job '' @ quoted (meta_Name (job_Meta job)) @ '' activeDeadlineSeconds:'')))
          (retryOnConflict 4 (updateDeadline k job deadline)))
      else retE ())"

definition setMPIJobTimeout :: "'w workflowKube \<Rightarrow> Workflow \<Rightarrow> MPIJob \<Rightarrow> int \<Rightarrow> ('w, unit) io" where
  "setMPIJobTimeout k wkf mpiJob timeout =
     bindE (wrapE (\<lambda>_. ResErr (WithMajor (NewResourceError (''setMPIJobTimeout: no MPIJob JobList found for workflow '' @ quoted (wfName wkf)))))
              (getMPIJobChildrenJobs k wkf mpiJob)) (\<lambda>jobs.
       if jobs = [] then failE (ResErr (WithMajor (NewResourceError (''setMPIJobTimeout: no MPIJob jobs found for workflow '' @ quoted (wfName wkf)))))
       else sndUnit (mapME (\<lambda>j. setJobTimeout k j timeout) jobs))"

section \<open>Waiting for the containers\<close>

definition secondsOf :: "int option \<Rightarrow> int" where
  "secondsOf s = (case s of None \<Rightarrow> 0 | Some n \<Rightarrow> wrap64 (n * second))"

definition timedOut :: "string \<Rightarrow> string \<Rightarrow> failure" where
  "timedOut msg user = ResErr (WithFatal (WithUserMessage user (NewResourceError msg)))"

definition isTrueCondition :: "string list \<Rightarrow> JobCondition \<Rightarrow> bool" where
  "isTrueCondition types c \<longleftrightarrow> jc_Type c \<in> set types \<and> jc_Status c = ''True''"

definition waitForMPIStart :: "'w workflowKube \<Rightarrow> int \<Rightarrow> bool \<Rightarrow> string \<Rightarrow> (Workflow \<times> 'w, stepResult option) io" where
  "waitForMPIStart k index timeoutElapsed timeoutMessage = bindE getE (\<lambda>wkf.
     bindE (sndE (getMPIJobConditions k wkf index 1)) (\<lambda>r.
       case r of
         Inr res \<Rightarrow> if timeoutElapsed then failE (timedOut ''could not retrieve MPIJobs to set timeout'' timeoutMessage) else retE (Some res)
       | Inl mpiJob \<Rightarrow>
           if list_ex (isTrueCondition [''Running'', ''Succeeded'']) (mpj_Conditions mpiJob)
           then bindE (sndE (wrapE (fatalErr ''could not retrieve MPIJob Child Jobs to find launcher node'') (getMPIJobChildrenJobs k wkf mpiJob))) (\<lambda>jobs.
                  case jobs of
                    [] \<Rightarrow> failE (ResErr (WithFatal (NewResourceError ''could not retrieve MPIJob Child Jobs to find launcher node'')))
                  | j # _ \<Rightarrow> bindE (putEnvs [(''NNF_CONTAINER_LAUNCHER'', labelOf hostnameKey (pod_NodeSelector (job_Template j)))]) (\<lambda>_. retE None))
           else if timeoutElapsed
           then bindE (sndE (wrapE (\<lambda>e. ResErr (WithFatal (WithError (Some e) (WithUserMessage timeoutMessage (NewResourceError ''could not set timeout on MPIJobs'')))))
                  (setMPIJobTimeout k wkf mpiJob 1000000))) (\<lambda>_. failE (timedOut ''MPIJob timeout set'' timeoutMessage))
           else retE (Some (pendingJob ''pending MPIJob start'' wkf index))))"

text \<open>The jobs in order: with a timeout each gets its deadline; otherwise the first that has not started is waited for.\<close>

fun jobsStarted :: "'w workflowKube \<Rightarrow> bool \<Rightarrow> string \<Rightarrow> Job list \<Rightarrow> ('w, stepResult option) io" where
  "jobsStarted k timeoutElapsed timeoutMessage [] =
     (if timeoutElapsed then failE (timedOut ''job(s) timeout set'' timeoutMessage) else retE None)"
| "jobsStarted k timeoutElapsed timeoutMessage (j # js) =
     (if timeoutElapsed
      then bindE (wrapE (\<lambda>e. ResErr (WithFatal (WithError (Some e) (WithUserMessage timeoutMessage (NewResourceError ''could not set timeout on MPIJobs'')))))
             (setJobTimeout k j 1000000)) (\<lambda>_. jobsStarted k timeoutElapsed timeoutMessage js)
      else if job_Conditions j = [] \<and> (case job_Ready j of None \<Rightarrow> True | Some n \<Rightarrow> n < 1)
      then retE (Some (result_after (2 * second) (wfRequeue (''pending container start for job '' @ quoted (meta_Name (job_Meta j))))))
      else jobsStarted k timeoutElapsed timeoutMessage js)"

definition waitForJobsStart :: "'w workflowKube \<Rightarrow> Workflow \<Rightarrow> int \<Rightarrow> bool \<Rightarrow> string \<Rightarrow> ('w, stepResult option) io" where
  "waitForJobsStart k wkf index timeoutElapsed timeoutMessage =
     bindE (wrapE (\<lambda>e. if timeoutElapsed then ResErr (WithError (Some e) (WithFatal (WithUserMessage timeoutMessage
                        (NewResourceError ''could not retrieve Jobs to set timeout'')))) else e) (getContainerJobs k wkf index)) (\<lambda>jobs.
       if jobs = []
       then if timeoutElapsed then failE (timedOut ''no Jobs found in JobList to set timeout'' timeoutMessage)
            else retE (Some (pendingJob ''pending job creation'' wkf index))
       else jobsStarted k timeoutElapsed timeoutMessage jobs)"

definition preRunElapsed :: "'w workflowKube \<Rightarrow> Workflow \<Rightarrow> int \<Rightarrow> 'w \<Rightarrow> bool res" where
  "preRunElapsed k wkf timeout w =
     (if timeout > 0 then (case derefR (wst_DesiredStateChange (wf_Status wkf)) of Inl e \<Rightarrow> Inl e | Inr t \<Rightarrow> Inr (wk_Now k w - t \<ge> timeout))
      else Inr False)"

definition waitForContainersToStart :: "'w workflowKube \<Rightarrow> int \<Rightarrow> (Workflow \<times> 'w, stepResult option) io" where
  "waitForContainersToStart k index = bindE getE (\<lambda>wkf.
     bindE (sndE (getContainerProfile k wkf index)) (\<lambda>p.
       if \<not> cpr_CreateContainer p then retE None
       else let timeout = secondsOf (cpr_PreRunTimeoutSeconds p);
                timeoutMessage = ''user container(s) failed to start after '' @ itoa (go_quot timeout second) @ '' seconds'' in
         bindE (sndE (\<lambda>w. (preRunElapsed k wkf timeout w, w))) (\<lambda>timeoutElapsed.
           if cpr_NnfMPISpec p \<noteq> None then waitForMPIStart k index timeoutElapsed timeoutMessage
           else sndE (waitForJobsStart k wkf index timeoutElapsed timeoutMessage))))"

fun jobsFinished :: "'w workflowKube \<Rightarrow> Workflow \<Rightarrow> NnfContainerProfile \<Rightarrow> int \<Rightarrow> Job list \<Rightarrow> ('w, stepResult option) io" where
  "jobsFinished k wkf p timeout [] = retE None"
| "jobsFinished k wkf p timeout (j # js) =
     bindE (wrapE (majorError ''could not send shutdown to user containers'') (sendContainerShutdown k wkf p)) (\<lambda>_.
       if job_Conditions j = [] then bindE (setJobTimeout k j timeout) (\<lambda>_. retE (Some (result_after (2 * second) (wfRequeue ''pending container finish''))))
       else jobsFinished k wkf p timeout js)"

definition waitForContainersToFinish :: "'w workflowKube \<Rightarrow> Workflow \<Rightarrow> int \<Rightarrow> ('w, stepResult option) io" where
  "waitForContainersToFinish k wkf index =
     bindE (getContainerProfile k wkf index) (\<lambda>p.
       if \<not> cpr_CreateContainer p then retE None
       else bindE (liftE (derefR (cpr_PostRunTimeoutSeconds p))) (\<lambda>postRun.
         if postRun = 0 then retE None
         else let timeout = secondsOf (cpr_PostRunTimeoutSeconds p) in
           if cpr_NnfMPISpec p \<noteq> None
           then bindE (getMPIJobConditions k wkf index 2) (\<lambda>r.
                  case r of
                    Inr res \<Rightarrow> retE (Some res)
                  | Inl mpiJob \<Rightarrow>
                      if list_ex (isTrueCondition [''Succeeded'', ''Failed'']) (mpj_Conditions mpiJob) then retE None
                      else bindE (wrapE (majorError ''could not send shutdown to user containers'') (sendContainerShutdown k wkf p)) (\<lambda>_.
                           bindE (setMPIJobTimeout k wkf mpiJob timeout) (\<lambda>_. retE (Some (pendingJob ''pending MPIJob completion'' wkf index)))))
           else bindE (getContainerJobs k wkf index) (\<lambda>jobs.
                  if jobs = []
                  then failE (ResErr (WithMajor (NewResourceError (''waitForContainersToFinish: no container jobs found for workflow '' @ quoted (wfName wkf) @
                         '', index: '' @ itoa index))))
                  else jobsFinished k wkf p timeout jobs)))"

definition conditionText :: "string \<Rightarrow> JobCondition \<Rightarrow> string" where
  "conditionText what c = what @ '' '' @ jc_Type c @ '' ('' @ jc_Reason c @ ''): '' @ jc_Message c"

definition checkContainersResults :: "'w workflowKube \<Rightarrow> Workflow \<Rightarrow> int \<Rightarrow> ('w, stepResult option) io" where
  "checkContainersResults k wkf index =
     bindE (getContainerProfile k wkf index) (\<lambda>p.
       if \<not> cpr_CreateContainer p then retE None
       else let timeoutMessage = ''user container(s) failed to complete after '' @ itoa (go_quot (secondsOf (cpr_PostRunTimeoutSeconds p)) second) @ '' seconds'' in
         if cpr_NnfMPISpec p \<noteq> None
         then bindE (getMPIJobConditions k wkf index 2) (\<lambda>r.
                case r of
                  Inr res \<Rightarrow> retE (Some res)
                | Inl mpiJob \<Rightarrow>
                    (case List.find (\<lambda>c. jc_Type c = ''Failed'') (mpj_Conditions mpiJob) of
                       None \<Rightarrow> retE None
                     | Some c \<Rightarrow> failE (ResErr (WithUserMessage (if jc_Reason c = ''DeadlineExceeded'' then timeoutMessage
                         else ''user container(s) failed to run successfully after '' @ itoa (cpr_RetryLimit p + 1) @ '' attempts'')
                         (WithFatal (NewResourceError (conditionText ''container MPIJob'' c)))))))
         else bindE (getContainerJobs k wkf index) (\<lambda>jobs.
                if jobs = []
                then failE (ResErr (WithMajor (NewResourceError (''checkContainersResults: no container jobs found for workflow '' @ quoted (wfName wkf) @
                       '', index: '' @ itoa index))))
                else (case List.find (\<lambda>c. jc_Type c \<notin> {''Complete'', ''SuccessCriteriaMet''}) (concat (map job_Conditions jobs)) of
                        None \<Rightarrow> retE None
                      | Some c \<Rightarrow> failE (ResErr ((if jc_Reason c = ''DeadlineExceeded'' then WithUserMessage timeoutMessage else (\<lambda>e. e))
                          (WithFatal (NewResourceError (conditionText ''container job'' c))))))))"

section \<open>Removing the containers\<close>

definition internalMajor :: "string \<Rightarrow> failure \<Rightarrow> failure" where
  "internalMajor msg e = (case majorError msg e of ResErr r \<Rightarrow> ResErr (r\<lparr>ErrType := TypeInternal\<rparr>) | f \<Rightarrow> f)"

definition ignoreNotFound :: "string \<Rightarrow> ('w, unit) io \<Rightarrow> ('w, unit) io" where
  "ignoreNotFound msg m = catchE m (\<lambda>e. if IsNotFound e then retE () else failE (internalMajor msg e))"

text \<open>Whether nothing of a kind of job is left; the jobs that are there are deleted.\<close>

definition deleteJobs :: "string \<Rightarrow> (failure \<Rightarrow> bool) \<Rightarrow> ('w, 'a list) io \<Rightarrow> ('w, unit) io \<Rightarrow> ('w, bool) io" where
  "deleteJobs msg missing lst del =
     bindE (tryE lst) (\<lambda>got.
       case got of
         Inl e \<Rightarrow> if missing e then retE True else failE (internalMajor msg e)
       | Inr items \<Rightarrow> if items = [] then retE True else bindE (ignoreNotFound msg del) (\<lambda>_. retE False))"

definition deleteContainerData :: "'w workflowKube \<Rightarrow> Workflow \<Rightarrow> int \<Rightarrow> ('w, unit) io" where
  "deleteContainerData k wkf index =
     bindE (tryE (wk_ListContainerData (wk_Containers k) (wfNamespace wkf) (jobLabels wkf index))) (\<lambda>got.
       case got of
         Inl e \<Rightarrow> if IsNotFound e then retE () else failE (internalMajor ''could not list NnfContainerData'' e)
       | Inr items \<Rightarrow> sndUnit (mapME (\<lambda>d. ignoreNotFound (''could not delete NnfContainerData '' @ quoted (meta_Name (cda_Meta d)))
                        (wk_DeleteContainerData (wk_Containers k) d)) items))"

definition deleteContainers :: "'w workflowKube \<Rightarrow> Workflow \<Rightarrow> int \<Rightarrow> ('w, stepResult option) io" where
  "deleteContainers k wkf index =
     bindE (deleteJobs ''could not delete container MPIJob(s)''
              (\<lambda>e. go_contains ''no kind is registered for the type'' (errText e) \<or> IsNotFound e)
              (getMPIJobs k wkf index) (wk_DeleteMPIJobs (wk_Containers k) (wfNamespace wkf) (jobLabels wkf index))) (\<lambda>doneMpi.
     bindE (deleteJobs ''could not delete container Job(s)'' IsNotFound
              (getContainerJobs k wkf index) (wk_DeleteJobs (wk_Containers k) (wfNamespace wkf) (jobLabels wkf index))) (\<lambda>doneNonMpi.
     bindE (deleteContainerData k wkf index) (\<lambda>_.
       retE (if doneMpi \<and> doneNonMpi then None else Some (wfRequeue ''pending container deletion'')))))"

section \<open>Ports\<close>

definition workflowRef :: "Workflow \<Rightarrow> ObjectReference" where
  "workflowRef wkf = emptyRef\<lparr>ref_Kind := ''Workflow'', ref_Name := wfName wkf, ref_Namespace := wfNamespace wkf, ref_UID := meta_UID (wf_Meta wkf)\<rparr>"

definition updatePorts :: "'w workflowKube \<Rightarrow> AllocationSpec list \<Rightarrow> NnfPortManager \<Rightarrow> ('w, bool) io" where
  "updatePorts k specs pm =
     catchE (bindE (kc_Update (wk_PortManager k) (pm\<lparr>pm_SpecAllocations := specs\<rparr>)) (\<lambda>_. retE True))
       (\<lambda>e. if IsConflict e then retE False else failE e)"

definition getContainerPorts :: "'w workflowKube \<Rightarrow> Workflow \<Rightarrow> int \<Rightarrow> ('w, stepResult option) io" where
  "getContainerPorts k wkf index =
     bindE (getContainerProfile k wkf index) (\<lambda>p.
       if cpr_NumPorts p \<le> 0 then retE None
       else bindE (getContainerPortManager k) (\<lambda>pm.
         if list_ex (\<lambda>a. ref_UID (spec_Requester a) = meta_UID (wf_Meta wkf)) (pm_SpecAllocations pm) then retE None
         else bindE (updatePorts k (pm_SpecAllocations pm @ [\<lparr>spec_Requester = workflowRef wkf, spec_Count = expectedPorts p\<rparr>]) pm) (\<lambda>written.
           retE (if written then None else Some (wfRequeue ''update port manager allocation'')))))"

fun portsReady :: "Workflow \<Rightarrow> int \<Rightarrow> AllocationStatus list \<Rightarrow> bool res" where
  "portsReady wkf n [] = Inr False"
| "portsReady wkf n (a # as) =
     (if requestedBy wkf a
      then if st_Status a = InUse \<and> int (length (st_Ports a)) = n then Inr True
           else if st_Status a = InvalidConfiguration
           then Inl (fatalUser ''could not request ports for container workflow: Invalid NnfPortManager configuration'')
           else if st_Status a = InsufficientResources
           then Inl (noErrorMsg (\<lambda>e. WithFatal (WithUserMessage ''could not request ports for container workflow: InsufficientResources'' e)))
           else portsReady wkf n as
      else portsReady wkf n as)"

definition checkContainerPorts :: "'w workflowKube \<Rightarrow> Workflow \<Rightarrow> int \<Rightarrow> ('w, stepResult option) io" where
  "checkContainerPorts k wkf index =
     bindE (getContainerProfile k wkf index) (\<lambda>p.
       if cpr_NumPorts p \<le> 0 then retE None
       else bindE (getContainerPortManager k) (\<lambda>pm.
            bindE (liftE (portsReady wkf (expectedPorts p) (pm_Allocations pm))) (\<lambda>ready.
              retE (if ready then None else Some (result_after (2 * second) (wfRequeue ''NnfPortManager allocation not ready''))))))"

text \<open>Ports of the workflow that are in use; a status without a requester is a nil pointer.\<close>

fun workflowPortsInUse :: "Workflow \<Rightarrow> AllocationStatus list \<Rightarrow> bool res" where
  "workflowPortsInUse wkf [] = Inr False"
| "workflowPortsInUse wkf (a # as) =
     (case derefR (st_Requester a) of
        Inl e \<Rightarrow> Inl e
      | Inr ref \<Rightarrow> if ref_UID ref = meta_UID (wf_Meta wkf) \<and> st_Status a = InUse then Inr True else workflowPortsInUse wkf as)"

text \<open>
  Elements are removed from the slice while the loop runs over the array beneath it: \<open>arr\<close> is that array, \<open>len\<close>
  the length of the slice, and the elements behind it stay as they are.
\<close>

fun removeRequests :: "string \<Rightarrow> nat \<Rightarrow> nat \<Rightarrow> AllocationSpec list \<Rightarrow> nat \<Rightarrow> AllocationSpec list res" where
  "removeRequests uid idx 0 arr len = Inr (take len arr)"
| "removeRequests uid idx (Suc n) arr len =
     (if ref_UID (spec_Requester (arr ! idx)) = uid
      then if Suc idx > len then Inl (Panic ''slice bounds out of range'')
           else removeRequests uid (Suc idx) n (take idx arr @ drop (Suc idx) (take len arr) @ drop (len - 1) arr) (len - 1)
      else removeRequests uid (Suc idx) n arr len)"

definition releaseContainerPorts :: "'w workflowKube \<Rightarrow> Workflow \<Rightarrow> ('w, stepResult option) io" where
  "releaseContainerPorts k wkf =
     bindE (tryE (getContainerPortManager k)) (\<lambda>got.
       case got of
         Inl e \<Rightarrow> if IsNotFound e then retE None else failE e
       | Inr pm \<Rightarrow>
           bindE (liftE (workflowPortsInUse wkf (pm_Allocations pm))) (\<lambda>found.
             if \<not> found then retE None
             else bindE (liftE (removeRequests (meta_UID (wf_Meta wkf)) 0 (length (pm_SpecAllocations pm)) (pm_SpecAllocations pm)
                           (length (pm_SpecAllocations pm)))) (\<lambda>specs.
                  bindE (updatePorts k specs pm) (\<lambda>_. retE (Some (wfRequeue ''pending port de-allocation''))))))"

end
