(* ===== verification/WorkflowController.thy ===== *)
theory WorkflowController
  imports WorkflowContainers
begin

text \<open>
  The workflow controller (\<^verbatim>\<open>nnf_workflow_controller.go\<close>): for each state of a workflow a function that starts the
  work of one directive and a function that waits for it, and the reconciler that runs the starts of all
  directives that registered for the state, then the finishes. The pause for the mounts of Lustre to
  settle (\<^verbatim>\<open>NNF_DATAIN_PAUSE_IN_S\<close>) changes nothing that the model sees.
\<close>

abbreviation finalizerNnfWorkflow :: string where
  "finalizerNnfWorkflow \<equiv> ''nnf.cray.hpe.com/nnf_workflow''"

type_synonym 'w step = "'w workflowKube \<Rightarrow> int \<Rightarrow> (Workflow \<times> 'w, stepResult option) io"

section \<open>Proposal\<close>

definition addWord :: "string \<Rightarrow> Workflow \<Rightarrow> Workflow" where
  "addWord word = updWf (\<lambda>st. if word \<in> set (wst_Requires st) then st else st\<lparr>wst_Requires := wst_Requires st @ [word]\<rparr>)"

definition requiredWords :: "string \<Rightarrow> string list" where
  "requiredWords value =
     (if value = ''copy-offload'' then [requiresCopyOffload, requiresContainerAuth]
      else if value = ''user-container-auth'' then [requiresContainerAuth] else [])"

definition intepretRequiresKeyword :: "'w workflowKube \<Rightarrow> string \<Rightarrow> (Workflow \<times> 'w, unit) io" where
  "intepretRequiresKeyword k requiresList =
     (let words = concat (map requiredWords (go_split (CHR '','') requiresList)) in
      bindE (modifyE (fold addWord words)) (\<lambda>_.
        if words \<noteq> [] then sndE (verifyUserContainerTLSSecretName k) else retE ()))"

definition breakdownRef :: "DirectiveBreakdown \<Rightarrow> ObjectReference" where
  "breakdownRef d = emptyRef\<lparr>ref_Kind := ''DirectiveBreakdown'', ref_Name := meta_Name (dbd_Meta d), ref_Namespace := meta_Namespace (dbd_Meta d)\<rparr>"

definition addBreakdown :: "ObjectReference \<Rightarrow> Workflow \<Rightarrow> Workflow" where
  "addBreakdown ref = updWf (\<lambda>st. if ref \<in> set (wst_DirectiveBreakdowns st) then st
     else st\<lparr>wst_DirectiveBreakdowns := wst_DirectiveBreakdowns st @ [ref]\<rparr>)"

definition startProposalState :: "'w step" where
  "startProposalState k index = bindE getE (\<lambda>wkf.
     bindE (liftE (dwArgsAt wkf index)) (\<lambda>args.
     bindE (sndE (wrapE (userError [] ''unable to validate DW directives'') (validateWorkflow k wkf))) (\<lambda>_.
     let command = commandOf args in
     if command = ''container'' then bindE (sndE (createPinnedContainerProfileIfNecessary k wkf index)) (\<lambda>_. retE None)
     else if command = ''copy_in'' \<or> command = ''copy_out''
     then bindE (sndE (createPinnedDMProfile k args (wf_Meta wkf) (indexedResourceName wkf index))) (\<lambda>_. retE None)
     else if command \<notin> {''jobdw'', ''persistentdw'', ''create_persistent''} then retE None
     else
       bindE (case map_of args ''requires'' of None \<Rightarrow> retE () | Some words \<Rightarrow> intepretRequiresKeyword k words) (\<lambda>_.
       bindE (sndE (wrapE (userError ''could not generate DirectiveBreakdown'' ''unable to start parsing DW directive'')
                (generateDirectiveBreakdown k index wkf))) (\<lambda>made.
         case made of
           None \<Rightarrow> retE (Some (wfRequeue ''no breakdown''))
         | Some d \<Rightarrow> bindE (modifyE (addBreakdown (breakdownRef d))) (\<lambda>_. retE None))))))"

definition finishProposalState :: "'w step" where
  "finishProposalState k index = bindE getE (\<lambda>wkf.
     bindE (liftE (dwArgsAt wkf index)) (\<lambda>args.
       if commandOf args \<notin> {''jobdw'', ''persistentdw'', ''create_persistent''} then retE None
       else let name = indexedResourceName wkf index in
         bindE (sndE (wrapE (userError (''could not get DirectiveBreakdown: '' @ wfNamespace wkf @ ''/'' @ name) ''unable to finish parsing DW directive'')
                  (kc_Get (wk_Breakdown k) (wfNamespace wkf) name))) (\<lambda>d.
           case dst_Error (dbd_Status d) of
             Some e \<Rightarrow> bindE (errorByIndex k (ResErr e) index) (\<lambda>_. retE (Some (wfRequeue ''error'')))
           | None \<Rightarrow> if \<not> dst_Ready (dbd_Status d) then retE (Some (wfRequeue ''status pending'')) else retE None)))"

section \<open>Setup\<close>

definition setToken :: "WorkflowTokenSecret \<Rightarrow> Workflow \<Rightarrow> Workflow" where
  "setToken t = updWf (\<lambda>st. st\<lparr>wst_WorkflowToken := Some t\<rparr>)"

fun setupAuths :: "'w workflowKube \<Rightarrow> string list \<Rightarrow> (Workflow \<times> 'w, unit) io" where
  "setupAuths k [] = retE ()"
| "setupAuths k (value # values) =
     (if value = requiresContainerAuth
      then bindE getE (\<lambda>wkf. bindE (sndE (setupContainerAuth k wkf)) (\<lambda>t. bindE (modifyE (setToken t)) (\<lambda>_. setupAuths k values)))
      else setupAuths k values)"

definition setupStorage :: "'w workflowKube \<Rightarrow> Workflow \<Rightarrow> int \<Rightarrow> ('w, stepResult option) io" where
  "setupStorage k wkf index =
     (let name = indexedResourceName wkf index in
      bindE (wrapE (userError (''unable to get DirectiveBreakdown: '' @ wfNamespace wkf @ ''/'' @ name) ''could not read allocation request'')
               (kc_Get (wk_Breakdown k) (wfNamespace wkf) name)) (\<lambda>dbd.
      bindE (liftE (derefR (dst_Storage (dbd_Status dbd)))) (\<lambda>storage.
      let sname = ref_Name (sbd_Reference storage); snamespace = ref_Namespace (sbd_Reference storage) in
      bindE (wrapE (userError (''unable to get Servers: '' @ snamespace @ ''/'' @ sname) ''could not read allocation request'')
               (wk_GetServers k snamespace sname)) (\<lambda>s.
      bindE (if wk_Getenv k ''RABBIT_TEST_ENV_BYPASS_SERVER_STORAGE_CHECK'' \<noteq> None then retE ()
             else wrapE (userError (''invalid Rabbit allocations for servers: '' @ objectKey (sv_Meta s)) ''invalid Rabbit allocations'')
                    (validateServerAllocations k dbd s)) (\<lambda>_.
        catchE (bindE (createNnfStorage k wkf s index) (\<lambda>_. retE None))
          (\<lambda>e. if IsConflict e then retE (Some (wfRequeue ''conflict''))
               else failE (userError ''could not create NnfStorage'' ''could not create allocation'' e)))))))"

definition startSetupState :: "'w step" where
  "startSetupState k index = bindE getE (\<lambda>wkf.
     bindE (liftE (dwArgsAt wkf index)) (\<lambda>args.
     let command = commandOf args in
     if command = ''persistentdw'' then bindE (sndE (Workflow_addPersistentStorageReference k wkf index)) (\<lambda>_. retE None)
     else if command = ''jobdw'' \<or> command = ''create_persistent'' then sndE (setupStorage k wkf index)
     else if command = ''container''
     then bindE (setupAuths k (wst_Requires (wf_Status wkf))) (\<lambda>_. bindE getE (\<lambda>wkf'. sndE (getContainerPorts k wkf' index)))
     else retE None))"

definition finishSetupState :: "'w step" where
  "finishSetupState k index = bindE getE (\<lambda>wkf.
     bindE (liftE (dwArgsAt wkf index)) (\<lambda>args.
       if commandOf args = ''container'' then sndE (checkContainerPorts k wkf index)
       else bindE (liftE (getStorageReferenceNameFromWorkflowActual wkf index)) (\<lambda>(name, namespace).
         bindE (sndE (wrapE (userError (''could not get NnfStorage: '' @ namespace @ ''/'' @ name) ''could not allocate storage'')
                  (kc_Get (wk_Storage k) namespace name))) (\<lambda>s.
           if length (nsts_AllocationSets (nstg_Status s)) \<noteq> length (ssp_AllocationSets (nstg_Spec s))
           then retE (Some (result_after (2 * second) (wfRequeue ''allocation'')))
           else (case nsts_Error (nstg_Status s) of
                   Some e \<Rightarrow> bindE (errorByIndex k (userError (''storage resource error: '' @ objectKey (nstg_Meta s)) ''could not allocate storage'' (ResErr e)) index)
                       (\<lambda>_. retE (Some (wfRequeue ''error'')))
                 | None \<Rightarrow> if \<not> nsts_Ready (nstg_Status s) then retE (Some (result_after (2 * second) (wfRequeue ''allocation set not ready'')))
                          else retE None)))))"

section \<open>Data in and data out\<close>

text \<open>When the servers let go of a file system that a copy uses.\<close>

definition stagingTeardown :: "Workflow \<Rightarrow> string \<Rightarrow> string \<Rightarrow> string \<Rightarrow> string res" where
  "stagingTeardown wkf command name fsType =
     (if command = ''copy_in'' then
        if fsType = ''gfs2'' \<or> fsType = ''lustre'' then
          (case findCopyOutDirectiveIndexByName wkf name of
             Inl e \<Rightarrow> Inl e | Inr i \<Rightarrow> Inr (if i \<ge> 0 then ''Teardown'' else ''PostRun''))
        else Inr ''PreRun''
      else if command = ''copy_out'' then Inr ''Teardown'' else Inr [])"

definition prepareStagingArgument ::
  "'w workflowKube \<Rightarrow> Workflow \<Rightarrow> kv \<Rightarrow> int \<Rightarrow> string \<Rightarrow> ('w, (ObjectReference \<times> NnfAccess option) + stepResult) io" where
  "prepareStagingArgument k wkf args index param =
     (let name = fst (splitStagingArgumentIntoNameAndPath param); persistent = has_prefix param persistentPrefix in
      if has_prefix param jobPrefix \<or> persistent then
        bindE (liftE (findDirectiveIndexByName wkf name (if persistent then ''persistentdw'' else ''jobdw''))) (\<lambda>parentDwIndex.
          if parentDwIndex < 0 then failE (fatalUser (''no directive matching '' @ quoted name @ '' found in workflow''))
          else let storageName = (if persistent then name else indexedResourceName wkf parentDwIndex) in
            bindE (wrapE (userError (''could not get NnfStorage '' @ wfNamespace wkf @ ''/'' @ storageName) ''could not find storage allocation'')
                     (kc_Get (wk_Storage k) (wfNamespace wkf) storageName)) (\<lambda>storage.
            let fsType = ssp_FileSystemType (nstg_Spec storage) in
            bindE (liftE (stagingTeardown wkf (commandOf args) name fsType)) (\<lambda>teardownState.
            bindE (wrapE (userError [] ''could not create data movement mount points'')
                     (setupNnfAccessForServers k storage wkf index parentDwIndex teardownState fsType)) (\<lambda>a.
              retE (if \<not> nast_Ready (na_Status a) then Inr (wfRequeue ''status pending'')
                    else Inl (nnfStorageRef (meta_Name (nstg_Meta storage)) (meta_Namespace (nstg_Meta storage)), Some a))))))
      else bindE (findLustreFileSystemForPath k param) (\<lambda>lustre.
        case lustre of
          None \<Rightarrow> failE (fatalUser (''Staging parameter '' @ quoted param @ '' is invalid''))
        | Some l \<Rightarrow> retE (Inl (emptyRef\<lparr>ref_Kind := ''LustreFileSystem'', ref_Name := meta_Name (lfs_Meta l), ref_Namespace := meta_Namespace (lfs_Meta l)\<rparr>, None))))"

text \<open>An access is read again: it must be mounted and ready.\<close>

definition accessIsMounted :: "'w workflowKube \<Rightarrow> NnfAccess option \<Rightarrow> ('w, NnfAccess option + stepResult) io" where
  "accessIsMounted k access =
     (case access of
        None \<Rightarrow> retE (Inl None)
      | Some a \<Rightarrow>
          bindE (wrapE (userError (''could not get NnfAccess '' @ objectKey (na_Meta a)) ''could not create data movement mount points'')
                   (kc_Get (wk_Access k) (meta_Namespace (na_Meta a)) (meta_Name (na_Meta a)))) (\<lambda>a'.
            retE (if nast_State (na_Status a') \<noteq> accessMounted \<or> \<not> nast_Ready (na_Status a') then Inr (wfRequeue ''pending mount'') else Inl (Some a'))))"

definition dataMovement ::
  "Workflow \<Rightarrow> int \<Rightarrow> string \<Rightarrow> string \<Rightarrow> string \<Rightarrow> string \<times> ObjectReference \<Rightarrow> string \<times> ObjectReference \<Rightarrow> ObjectReference \<Rightarrow> NnfDataMovement" where
  "dataMovement wkf index command name namespace src dst profile =
     \<lparr>dm_Meta = addJobIDLabel (addDirectiveIndexLabel (AddDataMovementInitiatorLabel (AddDataMovementTeardownStateLabel
        (AddOwnerLabels ''Workflow'' (wf_Meta wkf) (AddWorkflowLabels (zeroMeta\<lparr>meta_Name := name, meta_Namespace := namespace\<rparr>) (wf_Meta wkf)))
        (wst_State (wf_Status wkf))) command) index) (jobID wkf),
      dm_Spec = \<lparr>dms_Source = Some \<lparr>sdm_Path = fst src, sdm_StorageReference = snd src\<rparr>,
        dms_Destination = Some \<lparr>sdm_Path = fst dst, sdm_StorageReference = snd dst\<rparr>,
        dms_UserId = wfs_UserID (wf_Spec wkf), dms_GroupId = wfs_GroupID (wf_Spec wkf), dms_ProfileReference = profile\<rparr>,
      dm_Status = \<lparr>dmt_State = [], dmt_Status = [], dmt_Message = []\<rparr>\<rparr>"

record staging =
  stg_source :: "ObjectReference \<times> NnfAccess option"
  stg_dest :: "ObjectReference \<times> NnfAccess option"
  stg_sourcePath :: string
  stg_destPath :: string
  stg_command :: string
  stg_profile :: ObjectReference

definition stagedMovement :: "Workflow \<Rightarrow> int \<Rightarrow> staging \<Rightarrow> string \<Rightarrow> string \<Rightarrow> string \<Rightarrow> string \<Rightarrow> int \<Rightarrow> NnfDataMovement res" where
  "stagedMovement wkf index g fsType name namespace node i =
     (case getRabbitRelativePath fsType (fst (stg_source g)) (snd (stg_source g)) (stg_sourcePath g) node i of
        Inl e \<Rightarrow> Inl e
      | Inr src \<Rightarrow>
          (case getRabbitRelativePath fsType (fst (stg_dest g)) (snd (stg_dest g)) (stg_destPath g) node i of
             Inl e \<Rightarrow> Inl e
           | Inr dst \<Rightarrow> Inr (dataMovement wkf index (stg_command g) name namespace (src, fst (stg_source g)) (dst, fst (stg_dest g)) (stg_profile g))))"

definition createMovement :: "'w workflowKube \<Rightarrow> NnfDataMovement \<Rightarrow> ('w, unit) io" where
  "createMovement k dm =
     catchE (sndUnit (kc_Create (wk_DataMovement k) dm)) (\<lambda>e. if IsAlreadyExists e then retE ()
       else failE (userError (''could not create NnfDataMovement: '' @ objectKey (dm_Meta dm)) ''could not start data movement'' e))"

text \<open>The places of the movements of XFS and GFS2: each allocation on each Rabbit moves its own data.\<close>

definition movementPlaces :: "NnfStorageAllocationNodes list \<Rightarrow> (string \<times> nat) list" where
  "movementPlaces nodes = concat (map (\<lambda>n. map (\<lambda>i. (san_Name n, i)) [0 ..< nat (san_Count n)]) nodes)"

definition movementName :: "Workflow \<Rightarrow> int \<Rightarrow> nat \<Rightarrow> string" where
  "movementName wkf index i = indexedResourceName wkf index @ ''-'' @ itoa_nat i"

definition createMovements :: "'w workflowKube \<Rightarrow> Workflow \<Rightarrow> int \<Rightarrow> staging \<Rightarrow> NnfStorage \<Rightarrow> ('w, unit) io" where
  "createMovements k wkf index g target =
     (let fsType = ssp_FileSystemType (nstg_Spec target); sets = ssp_AllocationSets (nstg_Spec target) in
      if fsType = ''xfs'' \<or> fsType = ''gfs2'' then
        if length sets \<noteq> 1
        then failE (ResErr (WithFatal (WithUserMessage ''unexpected allocation count''
               (NewResourceError (''file system '' @ fsType @ '' has unexpected allocation sets '' @ itoa_nat (length sets))))))
        else sndUnit (mapME (\<lambda>(node, i).
               bindE (liftE (stagedMovement wkf index g fsType (movementName wkf index i) node node (int i))) (createMovement k))
               (movementPlaces (sas_Nodes (sets ! 0))))
      else if fsType = ''lustre''
      then bindE (liftE (stagedMovement wkf index g fsType (indexedResourceName wkf index) DataMovementNamespace [] 0)) (createMovement k)
      else retE ())"

definition startMovements ::
  "'w workflowKube \<Rightarrow> Workflow \<Rightarrow> kv \<Rightarrow> int \<Rightarrow> ObjectReference \<times> NnfAccess option \<Rightarrow> ObjectReference \<times> NnfAccess option \<Rightarrow> ('w, unit) io" where
  "startMovements k wkf args index source dest =
     bindE (wrapE (userError (''could not get NnfDataMovementManager '' @ DataMovementNamespace @ ''/'' @ DataMovementManagerName)
              ''could not determine data movement readiness'') (wk_GetDataMovementManager k DataMovementNamespace DataMovementManagerName)) (\<lambda>_.
     let ref = fst (if wfs_DesiredState (wf_Spec wkf) = ''DataIn'' then dest else source); pinned = indexedResourceName wkf index in
     bindE (wrapE (userError (''could not get NnfStorage: '' @ ref_Namespace ref @ ''/'' @ ref_Name ref) ''could not find storage allocations'')
              (kc_Get (wk_Storage k) (ref_Namespace ref) (ref_Name ref))) (\<lambda>target.
     bindE (wrapE (userError (''could not get NnfDataMovementProfile '' @ pinned) ''could not find data movement profile'')
              (findPinnedDMProfile k (wfNamespace wkf) pinned)) (\<lambda>p.
       createMovements k wkf index
         \<lparr>stg_source = source, stg_dest = dest, stg_sourcePath = snd (splitStagingArgumentIntoNameAndPath (labelOf ''source'' args)),
          stg_destPath = snd (splitStagingArgumentIntoNameAndPath (labelOf ''destination'' args)), stg_command = commandOf args,
          stg_profile = emptyRef\<lparr>ref_Kind := ''NnfDataMovementProfile'', ref_Name := meta_Name (dmp_Meta p), ref_Namespace := meta_Namespace (dmp_Meta p)\<rparr>\<rparr>
         target)))"

text \<open>The next stage, unless one has to wait.\<close>

definition orWait :: "('w, 'a + stepResult) io \<Rightarrow> ('a \<Rightarrow> ('w, stepResult option) io) \<Rightarrow> ('w, stepResult option) io" where
  "orWait m f = bindE m (\<lambda>r. case r of Inr res \<Rightarrow> retE (Some res) | Inl x \<Rightarrow> f x)"

definition startDataInOutState :: "'w step" where
  "startDataInOutState k index = bindE getE (\<lambda>wkf.
     bindE (liftE (directiveAt wkf index)) (\<lambda>d.
     bindE (wrapE (\<lambda>_. fatalUser (''Invalid DW directive: '' @ d)) (liftE (BuildArgsMap d))) (\<lambda>args.
       sndE (orWait (wrapE (userError [] ''could not prepare data movement resources'')
               (prepareStagingArgument k wkf args index (labelOf ''source'' args))) (\<lambda>source.
             orWait (wrapE (userError [] ''Could not prepare data movement resources'')
               (prepareStagingArgument k wkf args index (labelOf ''destination'' args))) (\<lambda>dest.
             orWait (accessIsMounted k (snd source)) (\<lambda>sourceAccess.
             orWait (accessIsMounted k (snd dest)) (\<lambda>destAccess.
               bindE (startMovements k wkf args index (fst source, sourceAccess) (fst dest, destAccess)) (\<lambda>_. retE None)))))))))"

definition movementLabels :: "Workflow \<Rightarrow> int \<Rightarrow> kv" where
  "movementLabels wkf index = MatchingOwner ''Workflow'' (wf_Meta wkf) @
     [(DirectiveIndexLabel, itoa index), (DataMovementTeardownStateLabel, wst_State (wf_Status wkf))]"

text \<open>The text of this error also prints the labels.\<close>

definition cantList :: "failure \<Rightarrow> failure" where
  "cantList = userError ''could not list NnfDataMovements'' ''could not find data movement information''"

definition finishDataInOutState :: "'w step" where
  "finishDataInOutState k index = bindE getE (\<lambda>wkf.
     bindE (sndE (wrapE cantList (wk_ListDataMovement k (movementLabels wkf index)))) (\<lambda>items.
       if items = [] then retE (Some (result_after (2 * second) (wfRequeue ''pending data movement'')))
       else if list_ex (\<lambda>dm. dmt_State (dm_Status dm) \<noteq> DataMovementConditionTypeFinished) items then retE (Some (wfRequeue ''pending data movement''))
       else (case List.find (\<lambda>dm. dmt_Status (dm_Status dm) \<noteq> DataMovementConditionReasonSuccess) items of
               None \<Rightarrow> retE None
             | Some dm \<Rightarrow> bindE (errorByIndex k (noErrorMsg (\<lambda>e. WithFatal (WithUserMessage
                 (''data movement operation failed during '' @ quoted (wst_State (wf_Status wkf)) @ '', message: '' @ dmt_Message (dm_Status dm)) e))) index)
                 (\<lambda>_. retE (Some (wfRequeue ''error''))))))"

section \<open>Pre-run\<close>

definition fillComputesAccess :: "'w workflowKube \<Rightarrow> Workflow \<Rightarrow> int \<Rightarrow> string \<Rightarrow> NnfStorageProfile \<Rightarrow> string \<times> string \<Rightarrow> NnfAccess \<Rightarrow> NnfAccess res" where
  "fillComputesAccess k wkf index fsType p sref a =
     (case SetControllerReference ''Workflow'' (wf_Meta wkf) (directiveLabels wkf index
             (addPinnedStorageProfileLabel (AddOwnerLabels ''Workflow'' (wf_Meta wkf) (AddWorkflowLabels (na_Meta a) (wf_Meta wkf))) p)) of
        Inl e \<Rightarrow> Inl e
      | Inr m \<Rightarrow> Inr (a\<lparr>na_Meta := m, na_Spec := (na_Spec a)\<lparr>nas_TeardownState := ''PostRun'', nas_DesiredState := accessMounted,
          nas_UserID := wfs_UserID (wf_Spec wkf), nas_GroupID := wfs_GroupID (wf_Spec wkf), nas_Target := ''single'', nas_MakeClientMounts := True,
          nas_MountPath := buildComputeMountPath (wk_Getenv k) wkf p fsType index,
          nas_ClientReference := emptyRef\<lparr>ref_Name := wfName wkf, ref_Namespace := wfNamespace wkf, ref_Kind := ''Computes''\<rparr>,
          nas_StorageReference := nnfStorageRef (fst sref) (snd sref)\<rparr>\<rparr>))"

definition sharedFs :: "string \<Rightarrow> bool" where
  "sharedFs fsType \<longleftrightarrow> fsType \<in> {''gfs2'', ''lustre'', ''raw''}"

text \<open>The servers keep a file system until teardown when a copy or a container still uses it.\<close>

definition serversTeardown :: "Workflow \<Rightarrow> string \<Rightarrow> string res" where
  "serversTeardown wkf name =
     (case findCopyOutDirectiveIndexByName wkf name of
        Inl e \<Rightarrow> Inl e
      | Inr i \<Rightarrow> if i \<ge> 0 then Inr ''Teardown''
                 else (case findContainerDirectiveIndexByName wkf name of
                         Inl e \<Rightarrow> Inl e | Inr j \<Rightarrow> Inr (if j \<ge> 0 then ''Teardown'' else ''PostRun'')))"

definition noFsType :: "failure \<Rightarrow> failure" where
  "noFsType e = ResErr (WithUserMessage ''Unable to determine directive file system type'' (WithUser (WithFatal (WithError (Some e) (NewResourceError [])))))"

definition mountForRun :: "'w workflowKube \<Rightarrow> Workflow \<Rightarrow> kv \<Rightarrow> int \<Rightarrow> ('w, unit) io" where
  "mountForRun k wkf args index =
     bindE (pinnedProfileOf k wkf index) (\<lambda>p.
     bindE (wrapE noFsType (getDirectiveFileSystemType k wkf index)) (\<lambda>fsType.
     bindE (liftE (getStorageReferenceNameFromWorkflowActual wkf index)) (\<lambda>sref.
     let new = newAccess (indexedResourceName wkf index @ ''-computes'') (wfNamespace wkf) in
     bindE (wrapE (userError (''Could not CreateOrUpdate compute node NnfAccess: '' @ objectKey (na_Meta new)) ''could not mount file system on compute nodes'')
              (CreateOrUpdate (wk_Access k) na_Meta new (\<lambda>a. liftE (fillComputesAccess k wkf index fsType p sref a)))) (\<lambda>_.
       if sharedFs fsType
       then bindE (liftE (serversTeardown wkf (labelOf ''name'' args))) (\<lambda>teardownState.
            sndUnit (wrapE (userError (''could not setup NNF Access in state '' @ wst_State (wf_Status wkf)) ''could not mount file system on Rabbit nodes'')
              (setupNnfAccessForServers k (newStorage (fst sref) (snd sref)) wkf index index teardownState fsType)))
       else retE ()))))"

definition startPreRunState :: "'w step" where
  "startPreRunState k index = bindE getE (\<lambda>wkf.
     bindE (liftE (dwArgsAt wkf index)) (\<lambda>args.
     bindE (wrapE (userError (''could not unmount NnfAccess index: '' @ itoa index) ''could not unmount on Rabbit nodes'')
              (unmountNnfAccessIfNecessary k index ''servers'')) (\<lambda>r.
       case r of
         Some res \<Rightarrow> retE (Some res)
       | None \<Rightarrow>
           if commandOf args = ''container''
           then wrapE (\<lambda>e. userError [] (''unable to create/update Container Jobs: '' @ errText e) e) (userContainerHandler k args index)
           else bindE getE (\<lambda>wkf'. bindE (sndE (mountForRun k wkf' args index)) (\<lambda>_. retE None)))))"

text \<open>The names of the three variables for a file system.\<close>

definition envNames :: "kv \<Rightarrow> (string \<times> string \<times> string) option" where
  "envNames args =
     (let names = (\<lambda>pre. (pre @ ''_'' @ go_replace_all (labelOf ''name'' args) ''-'' ''_'', pre @ ''_'' @ to_upper (labelOf ''type'' args), pre @ ''S'')) in
      if commandOf args = ''jobdw'' then Some (names ''DW_JOB'')
      else if commandOf args = ''persistentdw'' then Some (names ''DW_PERSISTENT'') else None)"

definition workflowVariableMap :: "Workflow \<Rightarrow> int \<Rightarrow> kv" where
  "workflowVariableMap wkf index = map (\<lambda>v. (cv_Name v, cv_Value v)) (workflowVariables wkf index)"

definition addToList :: "string \<Rightarrow> string option \<Rightarrow> string" where
  "addToList item old =
     (case old of
        None \<Rightarrow> item
      | Some v \<Rightarrow> if item \<in> set (go_split (CHR '','') v) then v else go_join '','' (go_split (CHR '','') v @ [item]))"

definition publishPath :: "string \<times> string \<times> string \<Rightarrow> string \<Rightarrow> string \<Rightarrow> kv \<Rightarrow> kv" where
  "publishPath names fsName path m =
     (let (uniqueEnvName, commonEnvName, listEnvName) = names;
          m1 = kv_put uniqueEnvName path m;
          m2 = (case map_of m1 commonEnvName of None \<Rightarrow> kv_put commonEnvName path m1 | Some _ \<Rightarrow> m1) in
      kv_put listEnvName (addToList (fsName @ '':'' @ path) (map_of m2 listEnvName)) m2)"

definition setEnvMap :: "(kv \<Rightarrow> kv) \<Rightarrow> Workflow \<Rightarrow> Workflow" where
  "setEnvMap f = updWf (\<lambda>st. st\<lparr>wst_Env := Some (f (case wst_Env st of None \<Rightarrow> [] | Some m \<Rightarrow> m))\<rparr>)"

definition finishPreRunState :: "'w step" where
  "finishPreRunState k index = bindE getE (\<lambda>wkf.
     bindE (liftE (dwArgsAt wkf index)) (\<lambda>args.
     bindE (modifyE (setEnvMap (\<lambda>m. m))) (\<lambda>_.
       if commandOf args = ''container'' then waitForContainersToStart k index
       else (case envNames args of
         None \<Rightarrow> failE (ResErr (WithUserMessage ''could not mount file system on compute nodes'' (WithFatal (NewResourceError (''unexpected directive: '' @ commandOf args)))))
       | Some names \<Rightarrow>
           bindE (sndE (pinnedProfileOf k wkf index)) (\<lambda>p.
           bindE (sndE (wrapE noFsType (getDirectiveFileSystemType k wkf index))) (\<lambda>fsType.
           bindE (sndE (\<lambda>w. (Inr (ReplaceAll (wk_Order k w) (NewVarHandler (workflowVariableMap wkf index))
                     (buildComputeMountPath (wk_Getenv k) wkf p fsType index)), w))) (\<lambda>path.
           bindE (modifyE (setEnvMap (publishPath names (labelOf ''name'' args) path))) (\<lambda>_.
             wrapE (userError (''could not mount rabbit NnfAccess for index '' @ itoa index) ''could not mount file system on compute nodes'')
               (waitForNnfAccessMounted k index)))))))))"

section \<open>Post-run\<close>

definition startPostRunState :: "'w step" where
  "startPostRunState k index = bindE getE (\<lambda>wkf.
     bindE (liftE (dwArgsAt wkf index)) (\<lambda>args.
       if commandOf args = ''container'' then sndE (waitForContainersToFinish k wkf index)
       else bindE (sndE (wrapE (userError [] ''could not unmount file system from compute nodes'') (requestNnfAccessUnmount k wkf index ''computes'')))
              (\<lambda>(_, r). retE r)))"

text \<open>The next stage of a step on the workflow, unless one has to wait.\<close>

definition orWaitStep :: "('s, stepResult option) io \<Rightarrow> ('s, stepResult option) io \<Rightarrow> ('s, stepResult option) io" where
  "orWaitStep m n = bindE m (\<lambda>r. case r of Some res \<Rightarrow> retE (Some res) | None \<Rightarrow> n)"

definition finishPostRunState :: "'w step" where
  "finishPostRunState k index = bindE getE (\<lambda>wkf.
     bindE (liftE (dwArgsAt wkf index)) (\<lambda>args.
       if commandOf args = ''container'' then sndE (checkContainersResults k wkf index)
       else orWaitStep (wrapE (userError (''could not unmount compute NnfAccess for index '' @ itoa index) ''could not unmount file system on compute nodes'')
                          (unmountNnfAccessIfNecessary k index ''computes''))
         (bindE (sndE (wrapE cantList (wk_ListDataMovement k
                    (MatchingOwner ''Workflow'' (wf_Meta wkf) @ [(DataMovementTeardownStateLabel, ''PostRun'')])))) (\<lambda>items.
            if list_ex (\<lambda>dm. dmt_State (dm_Status dm) \<noteq> DataMovementConditionTypeFinished) items then retE (Some (wfRequeue ''pending data movement''))
            else bindE (sndE (wrapE noFsType (getDirectiveFileSystemType k wkf index))) (\<lambda>fsType.
              orWaitStep (if sharedFs fsType
                  then wrapE (userError (''could not unmount server NnfAccess for index '' @ itoa index) ''could not unmount file system on Rabbit nodes'')
                         (unmountNnfAccessIfNecessary k index ''servers'') else retE None)
                (case List.find (\<lambda>dm. dmt_Status (dm_Status dm) = DataMovementConditionReasonFailed) items of
                   None \<Rightarrow> retE None
                 | Some dm \<Rightarrow> bindE (errorByIndex k (ResErr (WithFatal (WithUserMessage ''data movement failed''
                       (NewResourceError (''data movement '' @ objectKey (dm_Meta dm) @ '' failed''))))) index) (\<lambda>_. retE (Some (wfRequeue ''error'')))))))))"

section \<open>Teardown\<close>

definition deleteOfDirective :: "'w childKind list \<Rightarrow> string \<Rightarrow> string \<Rightarrow> Workflow \<Rightarrow> int \<Rightarrow> ('w, stepResult option) io" where
  "deleteOfDirective kinds msg user wkf index =
     bindE (wrapE (userError msg user) (DeleteChildrenWithLabels kinds ''Workflow'' (wf_Meta wkf) [(DirectiveIndexLabel, itoa index)])) (\<lambda>complete.
       retE (if complete then None else Some (result_after (5 * second) (wfRequeue ''delete''))))"

definition startTeardownState :: "'w step" where
  "startTeardownState k index = bindE getE (\<lambda>wkf.
     bindE (liftE (dwArgsAt wkf index)) (\<lambda>args.
       if commandOf args = ''container'' then sndE (deleteContainers k wkf index)
       else sndE (deleteOfDirective [wk_DataMovements k, wk_Accesses k] ''could not delete NnfDataMovement and NnfAccess children''
              ''could not stop data movement and unmount file systems'' wkf index)))"

definition storageNotFound :: "kv \<Rightarrow> failure \<Rightarrow> failure" where
  "storageNotFound args = userError [] (''could not find persistent storage '' @ labelOf ''name'' args)"

definition updPsiMeta :: "(ObjectMeta \<Rightarrow> ObjectMeta) \<Rightarrow> PersistentStorageInstance \<Rightarrow> PersistentStorageInstance" where
  "updPsiMeta f psi = psi\<lparr>psi_Meta := f (psi_Meta psi)\<rparr>"

text \<open>The instance is released: it belongs to no workflow any more. The value says whether the storage of the directive is deleted next.\<close>

definition releasePersistent :: "'w workflowKube \<Rightarrow> Workflow \<Rightarrow> kv \<Rightarrow> ('w, stepResult option) io" where
  "releasePersistent k wkf args =
     bindE (wrapE (storageNotFound args) (findPersistentInstance k wkf (labelOf ''name'' args))) (\<lambda>psi.
     bindE (wrapE (userError (''could not update PersistentStorage: '' @ objectKey (psi_Meta psi)) ''could not finalize peristent storage'')
              (kc_Update (wk_PSI k) (updPsiMeta (\<lambda>m. let m1 = RemoveOwnerLabels (m\<lparr>meta_OwnerReferences := []\<rparr>) in
                 m1\<lparr>meta_Labels := AList.delete DirectiveIndexLabel (meta_Labels m1)\<rparr>) psi))) (\<lambda>_.
     bindE (wrapE (storageNotFound args) (findPersistentInstance k wkf (labelOf ''name'' args))) (\<lambda>psi'.
       retE (if map_of (meta_Labels (psi_Meta psi')) OwnerUidLabel = Some (meta_UID (wf_Meta wkf))
             then Some (result_after (2 * second) (wfRequeue ''persistent storage owner release'')) else None))))"

definition destroyPersistent :: "'w workflowKube \<Rightarrow> Workflow \<Rightarrow> kv \<Rightarrow> int \<Rightarrow> PersistentStorageInstance \<Rightarrow> ('w, stepResult option) io" where
  "destroyPersistent k wkf args index psi =
     (let user = ''could not delete persistent storage '' @ labelOf ''name'' args; consumers = itoa_nat (length (psp_ConsumerReferences (psi_Spec psi))) in
      if psp_UserID (psi_Spec psi) \<noteq> wfs_UserID (wf_Spec wkf)
      then failE (ResErr (WithUser (WithFatal (WithUserMessage ''user ID does not match existing persistent storage''
             (NewResourceError (''Existing persistent storage user ID '' @ printWord (psp_UserID (psi_Spec psi)) @ '' does not match user ID '' @
                printWord (wfs_UserID (wf_Spec wkf))))))))
      else if psp_ConsumerReferences (psi_Spec psi) \<noteq> []
      then failE (ResErr (WithUser (WithFatal (WithUserMessage ''persistent storage cannot be deleted while in use''
             (WithError (Some (Fail (''PersistentStorage cannot be deleted with '' @ consumers @ '' consumers'')))
               (NewResourceError (''persistent storage cannot be deleted with '' @ consumers @ '' consumers'')))))))
      else
        bindE (wrapE (userError (''could not assign workflow as owner of PersistentInstance: '' @ objectKey (psi_Meta psi)) user)
                 (liftE (SetControllerReference ''Workflow'' (wf_Meta wkf) (directiveLabels wkf index (AddOwnerLabels ''Workflow'' (wf_Meta wkf) (psi_Meta psi)))))) (\<lambda>m.
        bindE (wrapE (userError (''could not update PersistentInstance: '' @ objectKey (psi_Meta psi)) user)
                 (kc_Update (wk_PSI k) (psi\<lparr>psi_Meta := m, psi_Spec := (psi_Spec psi)\<lparr>psp_State := PSIStateDestroying\<rparr>\<rparr>))) (\<lambda>_.
        bindE (wrapE (storageNotFound args) (findPersistentInstance k wkf (labelOf ''name'' args))) (\<lambda>psi'.
          retE (if map_of (meta_Labels (psi_Meta psi')) OwnerUidLabel \<noteq> Some (meta_UID (wf_Meta wkf))
                then Some (result_after (2 * second) (wfRequeue ''persistent storage owner add'')) else None)))))"

definition deleteStorages :: "'w workflowKube \<Rightarrow> Workflow \<Rightarrow> int \<Rightarrow> ('w, stepResult option) io" where
  "deleteStorages k = deleteOfDirective [wk_Storages k, wk_PSIs k] ''could not delete NnfStorage and PersistentStorageInstance children''
     ''could not delete storage allocations''"

definition finishTeardownState :: "'w step" where
  "finishTeardownState k index = bindE getE (\<lambda>wkf.
     bindE (liftE (dwArgsAt wkf index)) (\<lambda>args.
     let command = commandOf args; rest = deleteStorages k wkf index in
     if command = ''create_persistent'' then
       if list_ex (\<lambda>d. wds_WatchState d \<noteq> ''Teardown'' \<and> \<not> wds_Completed d) (wst_Drivers (wf_Status wkf)) then retE None
       else sndE (orWaitStep (releasePersistent k wkf args) rest)
     else if command = ''destroy_persistent'' then
       sndE (bindE (tryE (findPersistentInstance k wkf (labelOf ''name'' args))) (\<lambda>got.
         case got of
           Inl e \<Rightarrow> if IsNotFound e then retE None
             else failE (ResErr (WithUserMessage (''could not find peristent storage '' @ labelOf ''name'' args) (WithUser (WithFatal (WithError (Some e) (NewResourceError []))))))
         | Inr psi \<Rightarrow> orWaitStep (destroyPersistent k wkf args index psi) rest))
     else if command = ''persistentdw'' then
       sndE (bindE (wrapE (userError [] ''Could not remove persistent storage reference'') (Workflow_removePersistentStorageReference k wkf index)) (\<lambda>_. rest))
     else if command = ''container'' then sndE (orWaitStep (releaseContainerPorts k wkf) rest)
     else sndE rest))"

section \<open>The reconciler\<close>

definition startFunction :: "string \<Rightarrow> 'w step option" where
  "startFunction state = map_of
     [(''Proposal'', startProposalState), (''Setup'', startSetupState), (''DataIn'', startDataInOutState), (''PreRun'', startPreRunState),
      (''PostRun'', startPostRunState), (''DataOut'', startDataInOutState), (''Teardown'', startTeardownState)] state"

definition finishFunction :: "string \<Rightarrow> 'w step option" where
  "finishFunction state = map_of
     [(''Proposal'', finishProposalState), (''Setup'', finishSetupState), (''DataIn'', finishDataInOutState), (''PreRun'', finishPreRunState),
      (''PostRun'', finishPostRunState), (''DataOut'', finishDataInOutState), (''Teardown'', finishTeardownState)] state"

definition setDriver :: "nat \<Rightarrow> (WorkflowDriverStatus \<Rightarrow> WorkflowDriverStatus) \<Rightarrow> Workflow \<Rightarrow> Workflow" where
  "setDriver i f = updWf (\<lambda>st. st\<lparr>wst_Drivers := (wst_Drivers st)[i := f (wst_Drivers st ! i)]\<rparr>)"

text \<open>The drivers of this program that registered for the state and are not done, by their place in the status.\<close>

definition driverList :: "string \<Rightarrow> Workflow \<Rightarrow> nat list" where
  "driverList did wkf =
     filter (\<lambda>i. driverPending did wkf (wst_Drivers (wf_Status wkf) ! i)) [0 ..< length (wst_Drivers (wf_Status wkf))]"

definition clearDriver :: "WorkflowDriverStatus \<Rightarrow> WorkflowDriverStatus" where
  "clearDriver d = d\<lparr>wds_Status := StatusRunning, wds_Message := [], wds_Error := []\<rparr>"

text \<open>The log of a directive reads it, so an index out of range panics before the step runs.\<close>

definition runStep :: "'w workflowKube \<Rightarrow> (string \<Rightarrow> 'w step option) \<Rightarrow> nat \<Rightarrow> (Workflow \<times> 'w, failure + stepResult option) io" where
  "runStep k fns i = bindE getE (\<lambda>wkf.
     let index = wds_DWDIndex (wst_Drivers (wf_Status wkf) ! i) in
     bindE (liftE (directiveAt wkf index)) (\<lambda>_.
     bindE (modifyE (setDriver i clearDriver)) (\<lambda>_.
     bindE (liftE (derefR (fns (wst_State (wf_Status wkf))))) (\<lambda>f.
       tryE (f k index)))))"

fun startLoop :: "'w workflowKube \<Rightarrow> nat list \<Rightarrow> (Workflow \<times> 'w, Result option) io" where
  "startLoop k [] = retE None"
| "startLoop k (i # is) =
     bindE (runStep k startFunction i) (\<lambda>r.
       case r of
         Inl e \<Rightarrow> bindE (modifyE (setDriver i (handleWorkflowError e))) (\<lambda>_. failE e)
       | Inr (Some res) \<Rightarrow> bindE (modifyE (setDriver i (\<lambda>d. d\<lparr>wds_Message := sr_reason res\<rparr>))) (\<lambda>_. retE (Some (sr_Result res)))
       | Inr None \<Rightarrow> startLoop k is)"

definition completeDriver :: "int \<Rightarrow> WorkflowDriverStatus \<Rightarrow> WorkflowDriverStatus" where
  "completeDriver now d = d\<lparr>wds_Status := StatusCompleted, wds_Message := [], wds_Error := [], wds_CompleteTime := Some now, wds_Completed := True\<rparr>"

fun finishLoop :: "'w workflowKube \<Rightarrow> nat list \<Rightarrow> (Workflow \<times> 'w, Result) io" where
  "finishLoop k [] = retE doneResult"
| "finishLoop k (i # is) =
     bindE (runStep k finishFunction i) (\<lambda>r.
       case r of
         Inl e \<Rightarrow> bindE (modifyE (setDriver i (handleWorkflowError e))) (\<lambda>_. failE e)
       | Inr (Some res) \<Rightarrow>
           bindE (modifyE (setDriver i (\<lambda>d. if wds_Message d = [] then d\<lparr>wds_Message := sr_reason res\<rparr> else d))) (\<lambda>_. retE (sr_Result res))
       | Inr None \<Rightarrow>
           bindE (sndE (\<lambda>w. (Inr (wk_Now k w), w))) (\<lambda>now.
           bindE (modifyE (setDriver i (completeDriver now))) (\<lambda>_. finishLoop k is)))"

definition getChildObjects :: "'w workflowKube \<Rightarrow> 'w childKind list" where
  "getChildObjects k = [wk_DataMovements k, wk_Accesses k, wk_Storages k, wk_PSIs k, wk_Breakdowns k]"

definition setWorkflowFinalizers :: "(string list \<Rightarrow> string list) \<Rightarrow> Workflow \<Rightarrow> Workflow" where
  "setWorkflowFinalizers f wkf = wkf\<lparr>wf_Meta := (wf_Meta wkf)\<lparr>meta_Finalizers := f (meta_Finalizers (wf_Meta wkf))\<rparr>\<rparr>"

definition deleteWorkflow :: "'w workflowKube \<Rightarrow> (Workflow \<times> 'w, Result) io" where
  "deleteWorkflow k = bindE getE (\<lambda>wkf.
     bindE (sndE (removeAllPersistentStorageReferences k wkf)) (\<lambda>_.
     bindE (sndE (deleteContainers k wkf (-1))) (\<lambda>containers.
       if containers \<noteq> None then retE (requeueAfter second)
       else bindE (sndE (releaseContainerPorts k wkf)) (\<lambda>ports.
         if ports \<noteq> None then retE (requeueAfter second)
         else bindE (sndE (DeleteChildren (getChildObjects k) ''Workflow'' (wf_Meta wkf))) (\<lambda>complete.
           if \<not> complete then retE doneResult
           else bindE (modifyE (setWorkflowFinalizers (RemoveFinalizer finalizerNnfWorkflow))) (\<lambda>_. updateOrRequeue (wk_Workflow k)))))))"

definition workflowBody :: "'w workflowKube \<Rightarrow> (Workflow \<times> 'w, Result) io" where
  "workflowBody k = bindE getE (\<lambda>wkf.
     if meta_Deleting (wf_Meta wkf) then
       (if \<not> ContainsFinalizer finalizerNnfWorkflow (meta_Finalizers (wf_Meta wkf)) then retE doneResult else deleteWorkflow k)
     else if \<not> ContainsFinalizer finalizerNnfWorkflow (meta_Finalizers (wf_Meta wkf)) then
       bindE (modifyE (setWorkflowFinalizers (AddFinalizer finalizerNnfWorkflow))) (\<lambda>_. updateOrRequeue (wk_Workflow k))
     else if wst_State (wf_Status wkf) = [] \<or> wst_State (wf_Status wkf) \<noteq> wfs_DesiredState (wf_Spec wkf) then retE doneResult
     else if wst_Ready (wf_Status wkf) then retE doneResult
     else let pending = driverList (driverID k) wkf in
       bindE (startLoop k pending) (\<lambda>r. case r of Some res \<Rightarrow> retE res | None \<Rightarrow> finishLoop k pending))"

text \<open>\<^verbatim>\<open>CloseWithUpdate\<close> writes the whole resource; no error is recorded outside the drivers.\<close>

definition WorkflowReconcile :: "'w workflowKube \<Rightarrow> string \<Rightarrow> string \<Rightarrow> 'w \<Rightarrow> Workflow option outcome \<times> 'w" where
  "WorkflowReconcile k namespace name =
     reconcileObject ((wk_Workflow k)\<lparr>kc_UpdateStatus := kc_Update (wk_Workflow k)\<rparr>) wf_Status (\<lambda>_ wkf. wkf) namespace name (workflowBody k)"

end
