(* ===== verification/WorkflowDrivers.thy ===== *)
theory WorkflowDrivers
  imports WorkflowController
begin

text \<open>
  What the reconciler of workflows promises of the entries of its drivers: which entries a step may touch, when
  an entry is marked as completed, and in which order a workflow is torn down.
\<close>

section \<open>What a step leaves as it is\<close>

abbreviation driversOf :: "Workflow \<Rightarrow> WorkflowDriverStatus list" where
  "driversOf wkf \<equiv> wst_Drivers (wf_Status wkf)"

definition sameEntry :: "WorkflowDriverStatus \<Rightarrow> WorkflowDriverStatus \<Rightarrow> bool" where
  "sameEntry d d' \<longleftrightarrow> wds_DriverID d' = wds_DriverID d \<and> wds_DWDIndex d' = wds_DWDIndex d \<and> wds_WatchState d' = wds_WatchState d"

definition sameWorkflow :: "Workflow \<Rightarrow> Workflow \<Rightarrow> bool" where
  "sameWorkflow wkf wkf' \<longleftrightarrow> wf_Meta wkf' = wf_Meta wkf \<and> wf_Spec wkf' = wf_Spec wkf \<and> wst_State (wf_Status wkf') = wst_State (wf_Status wkf)"

text \<open>A step reports in entries that are pending, and never says itself that one is completed.\<close>

definition stepFrame :: "string \<Rightarrow> Workflow \<Rightarrow> Workflow \<Rightarrow> bool" where
  "stepFrame did wkf wkf' \<longleftrightarrow> sameWorkflow wkf wkf' \<and>
     list_all2 (\<lambda>d d'. sameEntry d d' \<and> wds_Completed d' = wds_Completed d \<and> (\<not> driverPending did wkf d \<longrightarrow> d' = d)) (driversOf wkf) (driversOf wkf')"

lemma stepFrame_refl [simp]: "stepFrame did wkf wkf"
  by (simp add: stepFrame_def sameWorkflow_def sameEntry_def list_all2_refl)

lemma pending_sameEntry:
  "sameWorkflow wkf wkf' \<Longrightarrow> sameEntry d d' \<Longrightarrow> wds_Completed d' = wds_Completed d \<Longrightarrow> driverPending did wkf' d' = driverPending did wkf d"
  by (simp add: driverPending_def sameEntry_def sameWorkflow_def)

lemma stepFrame_nth:
  assumes "stepFrame did wkf wkf'" and "i < length (driversOf wkf)"
  shows "i < length (driversOf wkf')" "sameEntry (driversOf wkf ! i) (driversOf wkf' ! i)"
    "wds_Completed (driversOf wkf' ! i) = wds_Completed (driversOf wkf ! i)"
    "\<not> driverPending did wkf (driversOf wkf ! i) \<Longrightarrow> driversOf wkf' ! i = driversOf wkf ! i"
    "driverPending did wkf' (driversOf wkf' ! i) = driverPending did wkf (driversOf wkf ! i)"
proof -
  show same: "i < length (driversOf wkf')" "sameEntry (driversOf wkf ! i) (driversOf wkf' ! i)"
      "wds_Completed (driversOf wkf' ! i) = wds_Completed (driversOf wkf ! i)"
      "\<not> driverPending did wkf (driversOf wkf ! i) \<Longrightarrow> driversOf wkf' ! i = driversOf wkf ! i"
    using assms by (simp_all add: stepFrame_def list_all2_conv_all_nth)
  show "driverPending did wkf' (driversOf wkf' ! i) = driverPending did wkf (driversOf wkf ! i)"
    using assms(1) same(2,3) pending_sameEntry by (simp add: stepFrame_def)
qed

lemma stepFrame_trans:
  assumes "stepFrame did wkf wkf1" and "stepFrame did wkf1 wkf2"
  shows "stepFrame did wkf wkf2"
proof -
  have len: "length (driversOf wkf1) = length (driversOf wkf)" "length (driversOf wkf2) = length (driversOf wkf)"
    using assms by (auto simp: stepFrame_def list_all2_lengthD)
  have same: "sameWorkflow wkf wkf2" using assms by (simp add: stepFrame_def sameWorkflow_def)
  have "sameEntry (driversOf wkf ! i) (driversOf wkf2 ! i) \<and> wds_Completed (driversOf wkf2 ! i) = wds_Completed (driversOf wkf ! i) \<and>
      (\<not> driverPending did wkf (driversOf wkf ! i) \<longrightarrow> driversOf wkf2 ! i = driversOf wkf ! i)" if i: "i < length (driversOf wkf)" for i
    using stepFrame_nth [OF assms(1) i] stepFrame_nth [OF assms(2) stepFrame_nth(1) [OF assms(1) i]] by (simp add: sameEntry_def)
  with len same show ?thesis by (simp add: stepFrame_def list_all2_conv_all_nth)
qed

lemma stepFrame_status:
  assumes "\<And>st. wst_Drivers (f st) = wst_Drivers st" and "\<And>st. wst_State (f st) = wst_State st"
  shows "stepFrame did wkf (updWf f wkf)"
  using assms by (simp add: stepFrame_def sameWorkflow_def updWf_def sameEntry_def list_all2_refl)

lemma stepFrame_setDriver:
  assumes "i < length (driversOf wkf)" and "driverPending did wkf (driversOf wkf ! i)"
    and "\<And>d. sameEntry d (f d) \<and> wds_Completed (f d) = wds_Completed d"
  shows "stepFrame did wkf (setDriver i f wkf)"
  using assms by (auto simp: stepFrame_def sameWorkflow_def setDriver_def updWf_def list_all2_conv_all_nth nth_list_update sameEntry_def)

lemma reportAt_Some:
  "reportAt p err ds = Some ds' \<Longrightarrow> list_all2 (\<lambda>d d'. d' = d \<or> p d \<and> d' = handleWorkflowError err d) ds ds'"
proof (induction ds arbitrary: ds')
  case (Cons d ds)
  then show ?case by (auto simp: list_all2_refl split: if_splits)
qed simp

lemma reportAt_pending: "d \<in> set ds \<Longrightarrow> p d \<Longrightarrow> \<exists>ds'. reportAt p err ds = Some ds'"
  by (induction ds) auto

lemma handleWorkflowError_same: "sameEntry d (handleWorkflowError err d) \<and> wds_Completed (handleWorkflowError err d) = wds_Completed d"
  by (simp add: handleWorkflowError_def sameEntry_def split: failure.splits)

lemma stepFrame_report:
  assumes "handleWorkflowErrorByIndex did err index wkf = Inr wkf'"
  shows "stepFrame did wkf wkf'"
proof -
  obtain ds where ds: "reportAt (\<lambda>d. driverPending did wkf d \<and> wds_DWDIndex d = index) err (driversOf wkf) = Some ds"
      and wkf': "wkf' = updWf (\<lambda>st. st\<lparr>wst_Drivers := ds\<rparr>) wkf"
    using assms by (auto simp: handleWorkflowErrorByIndex_def split: option.splits)
  have "list_all2 (\<lambda>d d'. sameEntry d d' \<and> wds_Completed d' = wds_Completed d \<and> (\<not> driverPending did wkf d \<longrightarrow> d' = d)) (driversOf wkf) ds"
    using reportAt_Some [OF ds] by (rule list_all2_mono) (auto simp: handleWorkflowError_same, simp_all add: sameEntry_def)
  then show ?thesis by (simp add: wkf' stepFrame_def sameWorkflow_def updWf_def)
qed

section \<open>The steps\<close>

text \<open>An effect on the workflow that stays within the frame.\<close>

definition framed :: "string \<Rightarrow> (Workflow \<times> 'w, 'a) io \<Rightarrow> bool" where
  "framed did m \<longleftrightarrow> (\<forall>wkf0. Client.keeps (stepFrame did wkf0) m)"

lemma framedI: "(\<And>wkf w. stepFrame did wkf (fst (snd (m (wkf, w))))) \<Longrightarrow> framed did m"
  unfolding framed_def Client.keeps_def using stepFrame_trans by blast

lemma framedD: "framed did m \<Longrightarrow> m (wkf, w) = (r, (wkf', w')) \<Longrightarrow> stepFrame did wkf wkf'"
  unfolding framed_def using Client.keepsD [of "stepFrame did wkf" m wkf] stepFrame_refl by blast

named_theorems framed_rules

lemma framed_basic [framed_rules]: "framed did (retE x)" "framed did (failE e)" "framed did getE" "framed did (sndE n)" "framed did (liftE z)"
  by (simp_all add: framed_def keeps_rules)

lemma framed_bindE [framed_rules]: "framed did m \<Longrightarrow> (\<And>x. framed did (f x)) \<Longrightarrow> framed did (bindE m f)"
  by (simp add: framed_def keeps_rules)

lemma framed_wrapE [framed_rules]: "framed did m \<Longrightarrow> framed did (wrapE f m)"
  by (simp add: framed_def keeps_rules)

lemma framed_tryE [framed_rules]: "framed did m \<Longrightarrow> framed did (tryE m)"
  by (simp add: framed_def keeps_rules)

lemma framed_if [framed_rules]: "framed did m \<Longrightarrow> framed did n \<Longrightarrow> framed did (if b then m else n)"
  by simp

lemma framed_option [framed_rules]: "framed did n \<Longrightarrow> (\<And>x. framed did (m x)) \<Longrightarrow> framed did (case z of None \<Rightarrow> n | Some x \<Rightarrow> m x)"
  by (cases z) auto

lemma framed_sum [framed_rules]: "(\<And>x. framed did (m x)) \<Longrightarrow> (\<And>x. framed did (n x)) \<Longrightarrow> framed did (case z of Inl x \<Rightarrow> m x | Inr x \<Rightarrow> n x)"
  by (cases z) auto

lemma framed_prod [framed_rules]: "(\<And>x y. framed did (m x y)) \<Longrightarrow> framed did (case z of (x, y) \<Rightarrow> m x y)"
  by (cases z) auto

lemma framed_list [framed_rules]: "framed did n \<Longrightarrow> (\<And>x xs. framed did (m x xs)) \<Longrightarrow> framed did (case z of [] \<Rightarrow> n | x # xs \<Rightarrow> m x xs)"
  by (cases z) auto

lemma framed_mapME [framed_rules]: "(\<And>x. framed did (f x)) \<Longrightarrow> framed did (mapME f xs)"
  by (induction xs) (auto intro!: framed_rules)

lemma framed_updWf [framed_rules]:
  "(\<And>st. wst_Drivers (f st) = wst_Drivers st) \<Longrightarrow> (\<And>st. wst_State (f st) = wst_State st) \<Longrightarrow> framed did (modifyE (updWf f))"
  by (intro framedI) (simp add: modifyE_def stepFrame_status)

lemma framed_errorByIndex [framed_rules]: "framed (driverID k) (errorByIndex k err index)"
  by (intro framedI) (auto simp: errorByIndex_def stepFrame_report split: sum.splits)

lemma framed_orWaitStep [framed_rules]: "framed did m \<Longrightarrow> framed did n \<Longrightarrow> framed did (orWaitStep m n)"
  unfolding orWaitStep_def by (intro framed_rules)

lemma framed_putEnvs [framed_rules]: "framed did (putEnvs evs)"
  by (induction evs) (auto intro!: framed_rules)

lemma framed_addWord [framed_rules]: "framed did (modifyE (fold addWord words))"
proof (intro framedI)
  fix wkf w
  have one: "stepFrame did wkf (addWord word wkf)" for word wkf
    by (simp add: addWord_def stepFrame_status)
  have "stepFrame did wkf (fold addWord words wkf)"
    by (induction words arbitrary: wkf) (auto intro: stepFrame_trans [OF one])
  then show "stepFrame did wkf (fst (snd (modifyE (fold addWord words) (wkf, w))))" by (simp add: modifyE_def)
qed

lemma framed_status [framed_rules]:
  "framed did (modifyE (addBreakdown ref))" "framed did (modifyE (setToken t))" "framed did (modifyE (setEnvMap f))" "framed did (setEnvs evs)"
  unfolding addBreakdown_def setToken_def setEnvMap_def setEnvs_def by (intro framed_rules; simp)+

lemma framed_containers [framed_rules]:
  "framed (driverID k) (userContainerHandler k args index)" "framed (driverID k) (waitForContainersToStart k index)"
  unfolding userContainerHandler_def createMPIJob_def createNonMPIJob_def mpiPods_def jobPod_def addPortsEnvVars_def addEnvVars_def Let_def
    waitForContainersToStart_def waitForMPIStart_def
  by (intro framed_rules)+

lemma framed_accesses [framed_rules]:
  "framed (driverID k) (unmountNnfAccessIfNecessary k index sfx)" "framed (driverID k) (waitForSuffixes k index sfxs)"
  "framed (driverID k) (waitForNnfAccessMounted k index)"
proof -
  show sfx: "framed (driverID k) (waitForSuffixes k index sfxs)" for sfxs
    by (induction sfxs) (auto simp: Let_def intro!: framed_rules)
  show "framed (driverID k) (unmountNnfAccessIfNecessary k index sfx)" "framed (driverID k) (waitForNnfAccessMounted k index)"
    unfolding unmountNnfAccessIfNecessary_def waitForNnfAccessMounted_def by (intro framed_rules sfx)+
qed

lemma framed_setupAuths [framed_rules]: "framed did (setupAuths k ws)"
  by (induction ws) (auto intro!: framed_rules)

lemma framed_start:
  "framed (driverID k) (startProposalState k index)" "framed (driverID k) (startSetupState k index)" "framed (driverID k) (startDataInOutState k index)"
  "framed (driverID k) (startPreRunState k index)" "framed (driverID k) (startPostRunState k index)" "framed (driverID k) (startTeardownState k index)"
  unfolding startProposalState_def startSetupState_def startDataInOutState_def startPreRunState_def startPostRunState_def startTeardownState_def
    intepretRequiresKeyword_def Let_def
  by (intro framed_rules)+

lemma framed_finish:
  "framed (driverID k) (finishProposalState k index)" "framed (driverID k) (finishSetupState k index)" "framed (driverID k) (finishDataInOutState k index)"
  "framed (driverID k) (finishPreRunState k index)" "framed (driverID k) (finishPostRunState k index)" "framed (driverID k) (finishTeardownState k index)"
  unfolding finishProposalState_def finishSetupState_def finishDataInOutState_def finishPreRunState_def finishPostRunState_def finishTeardownState_def Let_def
  by (intro framed_rules)+

lemma framed_startFunction: "startFunction state = Some f \<Longrightarrow> framed (driverID k) (f k index)"
  by (auto simp: startFunction_def framed_start split: if_splits)

lemma framed_finishFunction: "finishFunction state = Some f \<Longrightarrow> framed (driverID k) (f k index)"
  by (auto simp: finishFunction_def framed_finish split: if_splits)

section \<open>The loops\<close>

lemma tryE_done: "tryE m s = (Inr (Inr x), s') \<longleftrightarrow> m s = (Inr x, s')"
  by (auto simp: tryE_def catchE_def bindE_def retE_def split: prod.splits sum.splits if_splits)

lemma snd_tryE: "snd (tryE m s) = snd (m s)"
  by (auto simp: tryE_def catchE_def bindE_def retE_def split: prod.splits sum.splits)

lemma runStep_run:
  assumes "runStep k fns i (wkf, w) = (r, s')"
  obtains e where "r = Inl e" and "s' = (wkf, w) \<or> s' = (setDriver i clearDriver wkf, w)"
  | f where "fns (wst_State (wf_Status wkf)) = Some f"
      and "tryE (f k (wds_DWDIndex (driversOf wkf ! i))) (setDriver i clearDriver wkf, w) = (r, s')"
proof (cases "directiveAt wkf (wds_DWDIndex (driversOf wkf ! i))")
  case (Inl e)
  then show ?thesis using assms that(1) by (auto simp: runStep_def Let_def bindE_def getE_def liftE_def)
next
  case (Inr d)
  show ?thesis
  proof (cases "fns (wst_State (wf_Status wkf))")
    case None
    then show ?thesis using assms Inr that(1) by (auto simp: runStep_def Let_def derefR_def liftE_def modifyE_def bindE_def getE_def)
  next
    case (Some f)
    then show ?thesis using assms Inr that(2) by (simp add: runStep_def Let_def derefR_def)
  qed
qed

definition allFramed :: "'w workflowKube \<Rightarrow> (string \<Rightarrow> 'w step option) \<Rightarrow> bool" where
  "allFramed k fns \<longleftrightarrow> (\<forall>state f index. fns state = Some f \<longrightarrow> framed (driverID k) (f k index))"

lemma allFramed_functions: "allFramed k startFunction" "allFramed k finishFunction"
  by (simp_all add: allFramed_def framed_startFunction framed_finishFunction)

lemma clearDriver_same: "sameEntry d (clearDriver d) \<and> wds_Completed (clearDriver d) = wds_Completed d"
  by (simp add: clearDriver_def sameEntry_def)

text \<open>The entry of a driver that is still to be done.\<close>

definition pendingAt :: "string \<Rightarrow> Workflow \<Rightarrow> nat \<Rightarrow> bool" where
  "pendingAt did wkf i \<longleftrightarrow> i < length (driversOf wkf) \<and> driverPending did wkf (driversOf wkf ! i)"

lemma driverList_pending: "i \<in> set (driverList did wkf) \<longleftrightarrow> pendingAt did wkf i"
  by (auto simp: driverList_def pendingAt_def)

lemma pendingAt_frame: "stepFrame did wkf wkf' \<Longrightarrow> pendingAt did wkf i \<Longrightarrow> pendingAt did wkf' i"
  unfolding pendingAt_def using stepFrame_nth(1,5) by blast

lemma runStep_frame:
  assumes "runStep k fns i (wkf, w) = (r, (wkf', w'))" and "allFramed k fns" and "pendingAt (driverID k) wkf i"
  shows "stepFrame (driverID k) wkf wkf'"
proof -
  have clear: "stepFrame (driverID k) wkf (setDriver i clearDriver wkf)"
    using assms(3) clearDriver_same by (auto simp: pendingAt_def intro: stepFrame_setDriver)
  show ?thesis using assms(1)
  proof (cases rule: runStep_run)
    case (2 f)
    obtain r1 wkf1 w1 where run: "f k (wds_DWDIndex (driversOf wkf ! i)) (setDriver i clearDriver wkf, w) = (r1, (wkf1, w1))"
      by (metis prod_cases3)
    with 2(2) have "wkf' = wkf1" using snd_tryE by (metis fst_conv snd_conv)
    moreover have "framed (driverID k) (f k (wds_DWDIndex (driversOf wkf ! i)))" using assms(2) 2(1) by (simp add: allFramed_def)
    ultimately show ?thesis
      using stepFrame_trans [OF clear framedD [where m = "f k (wds_DWDIndex (driversOf wkf ! i))", OF _ run]] by simp
  qed (use clear in auto)
qed

text \<open>A step of an entry ended with nothing left to wait for, in a state of the workflow that differs from \<open>wkf\<close> by steps only.\<close>

definition stepDone :: "'w workflowKube \<Rightarrow> (string \<Rightarrow> 'w step option) \<Rightarrow> Workflow \<Rightarrow> nat \<Rightarrow> bool" where
  "stepDone k fns wkf i \<longleftrightarrow> (\<exists>f wkf1 w1 s. fns (wst_State (wf_Status wkf)) = Some f \<and> sameWorkflow wkf wkf1 \<and>
     f k (wds_DWDIndex (driversOf wkf ! i)) (wkf1, w1) = (Inr None, s))"

lemma stepDoneI:
  "fns (wst_State (wf_Status wkf)) = Some f \<Longrightarrow> sameWorkflow wkf at_wkf \<Longrightarrow>
   f k (wds_DWDIndex (driversOf wkf ! i)) (at_wkf, w) = (Inr None, s) \<Longrightarrow> stepDone k fns wkf i"
  unfolding stepDone_def by (rule exI [of _ f], rule exI [of _ at_wkf], rule exI [of _ w], rule exI [of _ s]) simp

lemma stepDone_same:
  assumes "sameWorkflow wkf wkf'" and "wds_DWDIndex (driversOf wkf' ! i) = wds_DWDIndex (driversOf wkf ! i)" and "stepDone k fns wkf' i"
  shows "stepDone k fns wkf i"
proof -
  obtain f wkf1 w1 s where f: "fns (wst_State (wf_Status wkf')) = Some f" "sameWorkflow wkf' wkf1"
      "f k (wds_DWDIndex (driversOf wkf' ! i)) (wkf1, w1) = (Inr None, s)"
    using assms(3) unfolding stepDone_def by blast
  have "sameWorkflow wkf wkf1" "wst_State (wf_Status wkf') = wst_State (wf_Status wkf)"
    using assms(1) f(2) by (simp_all add: sameWorkflow_def)
  with f assms(2) show ?thesis by (intro stepDoneI [where f = f and at_wkf = wkf1 and w = w1 and s = s]) simp_all
qed

lemma stepDone_frame: "stepFrame did wkf wkf' \<Longrightarrow> i < length (driversOf wkf) \<Longrightarrow> stepDone k fns wkf' i \<Longrightarrow> stepDone k fns wkf i"
  using stepDone_same stepFrame_nth(2) unfolding stepFrame_def sameEntry_def by blast

lemma runStep_done:
  assumes "runStep k fns i (wkf, w) = (Inr (Inr None), (wkf', w'))" and "i < length (driversOf wkf)"
  shows "stepDone k fns wkf i"
  using assms(1)
proof (cases rule: runStep_run)
  case (2 f)
  have "sameWorkflow wkf (setDriver i clearDriver wkf)" by (simp add: sameWorkflow_def setDriver_def updWf_def)
  with 2 show ?thesis
    by (intro stepDoneI [where f = f and at_wkf = "setDriver i clearDriver wkf" and w = w and s = "(wkf', w')"]) (simp_all add: tryE_done)
qed simp

lemma startLoop_Cons:
  assumes "runStep k startFunction i (wkf, w) = (r1, (wkf1, w1))"
  shows "startLoop k (i # is) (wkf, w) =
    (case r1 of Inl e \<Rightarrow> (Inl e, (wkf1, w1))
     | Inr (Inl e) \<Rightarrow> (Inl e, (setDriver i (handleWorkflowError e) wkf1, w1))
     | Inr (Inr (Some res)) \<Rightarrow> (Inr (Some (sr_Result res)), (setDriver i (\<lambda>d. d\<lparr>wds_Message := sr_reason res\<rparr>) wkf1, w1))
     | Inr (Inr None) \<Rightarrow> startLoop k is (wkf1, w1))"
  using assms by (simp add: bindE_def modifyE_def failE_def retE_def split: sum.splits option.splits)

lemma startLoop_frame:
  assumes "startLoop k is (wkf, w) = (r, (wkf', w'))" and "\<And>i. i \<in> set is \<Longrightarrow> pendingAt (driverID k) wkf i"
  shows "stepFrame (driverID k) wkf wkf' \<and> (r = Inr None \<longrightarrow> (\<forall>i \<in> set is. stepDone k startFunction wkf i))"
  using assms
proof (induction "is" arbitrary: wkf w)
  case Nil
  then show ?case by (simp add: retE_def)
next
  case (Cons i "is")
  obtain r1 wkf1 w1 where run: "runStep k startFunction i (wkf, w) = (r1, (wkf1, w1))" by (metis prod_cases3)
  have i: "pendingAt (driverID k) wkf i" using Cons.prems(2) by simp
  have frame: "stepFrame (driverID k) wkf wkf1" by (rule runStep_frame [OF run allFramed_functions(1) i])
  have i1: "pendingAt (driverID k) wkf1 i" by (rule pendingAt_frame [OF frame i])
  have set: "stepFrame (driverID k) wkf (setDriver i f wkf1)" if "\<And>d. sameEntry d (f d) \<and> wds_Completed (f d) = wds_Completed d" for f
    using i1 that by (intro stepFrame_trans [OF frame] stepFrame_setDriver) (simp_all add: pendingAt_def)
  consider (err) e where "r1 = Inl e" | (fail) e where "r1 = Inr (Inl e)" | (wait) res where "r1 = Inr (Inr (Some res))" | (go) "r1 = Inr (Inr None)"
    by (metis not_None_eq sum.exhaust)
  then show ?case
  proof cases
    case go
    have "startLoop k is (wkf1, w1) = (r, (wkf', w'))" using Cons.prems(1) startLoop_Cons [OF run] go by simp
    moreover have "pendingAt (driverID k) wkf1 j" if "j \<in> set is" for j using Cons.prems(2) pendingAt_frame [OF frame] that by simp
    ultimately have rest: "stepFrame (driverID k) wkf1 wkf'" "r = Inr None \<longrightarrow> (\<forall>j \<in> set is. stepDone k startFunction wkf1 j)"
      using Cons.IH [of wkf1 w1] by blast+
    have "stepDone k startFunction wkf i" using runStep_done [OF run [unfolded go]] i by (simp add: pendingAt_def)
    moreover have "stepDone k startFunction wkf j" if "j \<in> set is" "r = Inr None" for j
      by (rule stepDone_frame [OF frame]) (use rest(2) that Cons.prems(2) [of j] in \<open>simp_all add: pendingAt_def\<close>)
    ultimately show ?thesis using stepFrame_trans [OF frame rest(1)] by simp
  qed (use Cons.prems(1) startLoop_Cons [OF run] frame set [OF handleWorkflowError_same] set [of "\<lambda>d. d\<lparr>wds_Message := m\<rparr>" for m] in
       \<open>auto simp: sameEntry_def\<close>)
qed

definition loopFrame :: "string \<Rightarrow> Workflow \<Rightarrow> Workflow \<Rightarrow> bool" where
  "loopFrame did wkf wkf' \<longleftrightarrow> sameWorkflow wkf wkf' \<and> length (driversOf wkf') = length (driversOf wkf) \<and>
     (\<forall>i < length (driversOf wkf). sameEntry (driversOf wkf ! i) (driversOf wkf' ! i) \<and>
        (\<not> driverPending did wkf (driversOf wkf ! i) \<longrightarrow> driversOf wkf' ! i = driversOf wkf ! i))"

lemma stepFrame_loopFrame: "stepFrame did wkf wkf' \<Longrightarrow> loopFrame did wkf wkf'"
  by (simp add: stepFrame_def loopFrame_def list_all2_conv_all_nth)

lemma loopFrame_trans:
  assumes "loopFrame did wkf wkf1" and "loopFrame did wkf1 wkf2"
  shows "loopFrame did wkf wkf2"
proof -
  have "driverPending did wkf1 d = driverPending did wkf d" for d
    using assms(1) by (simp add: loopFrame_def driverPending_def sameWorkflow_def)
  then show ?thesis using assms by (simp add: loopFrame_def sameWorkflow_def sameEntry_def)
qed

lemma loopFrame_setDriver:
  assumes "pendingAt did wkf i" and "\<And>d. sameEntry d (f d)"
  shows "loopFrame did wkf (setDriver i f wkf)"
  using assms by (auto simp: pendingAt_def loopFrame_def sameWorkflow_def setDriver_def updWf_def nth_list_update sameEntry_def)

lemma setDriver_other: "j \<noteq> i \<Longrightarrow> driversOf (setDriver i f wkf) ! j = driversOf wkf ! j"
  by (simp add: setDriver_def updWf_def)

lemma setDriver_length [simp]: "length (driversOf (setDriver i f wkf)) = length (driversOf wkf)"
  by (simp add: setDriver_def updWf_def)

lemma pendingAt_other: "j \<noteq> i \<Longrightarrow> pendingAt did wkf j \<Longrightarrow> pendingAt did (setDriver i f wkf) j"
  by (simp add: pendingAt_def setDriver_other) (simp add: driverPending_def setDriver_def updWf_def)

lemma finishLoop_Cons:
  assumes "runStep k finishFunction i (wkf, w) = (r1, (wkf1, w1))"
  shows "finishLoop k (i # is) (wkf, w) =
    (case r1 of Inl e \<Rightarrow> (Inl e, (wkf1, w1))
     | Inr (Inl e) \<Rightarrow> (Inl e, (setDriver i (handleWorkflowError e) wkf1, w1))
     | Inr (Inr (Some res)) \<Rightarrow>
         (Inr (sr_Result res), (setDriver i (\<lambda>d. if wds_Message d = [] then d\<lparr>wds_Message := sr_reason res\<rparr> else d) wkf1, w1))
     | Inr (Inr None) \<Rightarrow> finishLoop k is (setDriver i (completeDriver (wk_Now k w1)) wkf1, w1))"
  using assms by (simp add: bindE_def modifyE_def failE_def retE_def sndE_apply split: sum.splits option.splits)

definition finished :: "'w workflowKube \<Rightarrow> nat list \<Rightarrow> Workflow \<Rightarrow> Workflow \<Rightarrow> bool" where
  "finished k is wkf wkf' \<longleftrightarrow> loopFrame (driverID k) wkf wkf' \<and>
     (\<forall>i < length (driversOf wkf). wds_Completed (driversOf wkf' ! i) \<and> \<not> wds_Completed (driversOf wkf ! i) \<longrightarrow>
        i \<in> set is \<and> stepDone k finishFunction wkf i)"

lemma finished_step: "stepFrame (driverID k) wkf wkf' \<Longrightarrow> finished k is wkf wkf'"
  unfolding finished_def by (simp add: stepFrame_loopFrame stepFrame_nth(3))

lemma finished_next:
  assumes frame: "stepFrame (driverID k) wkf wkf1" and i: "pendingAt (driverID k) wkf i" and d: "stepDone k finishFunction wkf i"
    and rest: "finished k is (setDriver i (completeDriver t) wkf1) wkf'"
  shows "finished k (i # is) wkf wkf'"
proof -
  let ?wkf2 = "setDriver i (completeDriver t) wkf1"
  have i1: "pendingAt (driverID k) wkf1 i" by (rule pendingAt_frame [OF frame i])
  have two: "loopFrame (driverID k) wkf ?wkf2"
    by (rule loopFrame_trans [OF stepFrame_loopFrame [OF frame] loopFrame_setDriver [OF i1]]) (simp add: completeDriver_def sameEntry_def)
  have "j \<in> set (i # is) \<and> stepDone k finishFunction wkf j"
    if j: "j < length (driversOf wkf)" and c: "wds_Completed (driversOf wkf' ! j)" "\<not> wds_Completed (driversOf wkf ! j)" for j
  proof (cases "j = i")
    case False
    have "\<not> wds_Completed (driversOf ?wkf2 ! j)"
      using stepFrame_nth(3) [OF frame j] c(2) False by (simp add: setDriver_other)
    then have "j \<in> set is" "stepDone k finishFunction ?wkf2 j"
      using rest j c(1) two by (simp_all add: finished_def loopFrame_def)
    moreover have "stepDone k finishFunction wkf j"
      by (rule stepDone_same [OF _ _ \<open>stepDone k finishFunction ?wkf2 j\<close>]) (use two j in \<open>simp_all add: loopFrame_def sameEntry_def\<close>)
    ultimately show ?thesis by simp
  qed (simp add: d)
  then show ?thesis using loopFrame_trans [OF two] rest by (simp add: finished_def)
qed

lemma finishLoop_finished:
  assumes "finishLoop k is (wkf, w) = (r, (wkf', w'))" and "\<And>i. i \<in> set is \<Longrightarrow> pendingAt (driverID k) wkf i" and "distinct is"
  shows "finished k is wkf wkf'"
  using assms
proof (induction "is" arbitrary: wkf w)
  case Nil
  then show ?case by (simp add: retE_def finished_step)
next
  case (Cons i "is")
  obtain r1 wkf1 w1 where run: "runStep k finishFunction i (wkf, w) = (r1, (wkf1, w1))" by (metis prod_cases3)
  have i: "pendingAt (driverID k) wkf i" using Cons.prems(2) by simp
  have frame: "stepFrame (driverID k) wkf wkf1" by (rule runStep_frame [OF run allFramed_functions(2) i])
  have i1: "pendingAt (driverID k) wkf1 i" by (rule pendingAt_frame [OF frame i])
  have set: "finished k (i # is) wkf (setDriver i f wkf1)" if "\<And>d. sameEntry d (f d) \<and> wds_Completed (f d) = wds_Completed d" for f
    using i1 that by (intro finished_step stepFrame_trans [OF frame] stepFrame_setDriver) (simp_all add: pendingAt_def)
  consider (err) e where "r1 = Inl e" | (fail) e where "r1 = Inr (Inl e)" | (wait) res where "r1 = Inr (Inr (Some res))" | (go) "r1 = Inr (Inr None)"
    by (metis not_None_eq sum.exhaust)
  then show ?case
  proof cases
    case go
    have "finishLoop k is (setDriver i (completeDriver (wk_Now k w1)) wkf1, w1) = (r, (wkf', w'))"
      using Cons.prems(1) finishLoop_Cons [OF run] go by simp
    moreover have "pendingAt (driverID k) (setDriver i (completeDriver (wk_Now k w1)) wkf1) j" if "j \<in> set is" for j
      using Cons.prems(2,3) pendingAt_frame [OF frame] that by (intro pendingAt_other) auto
    ultimately have "finished k is (setDriver i (completeDriver (wk_Now k w1)) wkf1) wkf'" using Cons.IH Cons.prems(3) by simp
    then show ?thesis using finished_next [OF frame i] runStep_done [OF run [unfolded go]] i by (simp add: pendingAt_def)
  qed (use Cons.prems(1) finishLoop_Cons [OF run] finished_step [OF frame] set [OF handleWorkflowError_same]
         set [of "\<lambda>d. if wds_Message d = [] then d\<lparr>wds_Message := m\<rparr> else d" for m] in \<open>auto simp: sameEntry_def\<close>)
qed

section \<open>A reconcile\<close>

abbreviation workflowHeld :: "Workflow \<Rightarrow> bool" where
  "workflowHeld wkf \<equiv> ContainsFinalizer finalizerNnfWorkflow (meta_Finalizers (wf_Meta wkf))"

lemma driverList_distinct: "distinct (driverList did wkf)"
  by (simp add: driverList_def)

lemma workflowBody_running:
  assumes run: "workflowBody k (wkf, w) = (r, (wkf', w'))" and live: "\<not> meta_Deleting (wf_Meta wkf)" and held: "workflowHeld wkf"
  shows "loopFrame (driverID k) wkf wkf' \<and>
    (\<forall>i < length (driversOf wkf). wds_Completed (driversOf wkf' ! i) \<and> \<not> wds_Completed (driversOf wkf ! i) \<longrightarrow>
       pendingAt (driverID k) wkf i \<and> stepDone k finishFunction wkf i \<and> (\<forall>j. pendingAt (driverID k) wkf j \<longrightarrow> stepDone k startFunction wkf j))"
proof (cases "wst_State (wf_Status wkf) = [] \<or> wst_State (wf_Status wkf) \<noteq> wfs_DesiredState (wf_Spec wkf) \<or> wst_Ready (wf_Status wkf)")
  case True
  then have "wkf' = wkf" using run live held by (auto simp: workflowBody_def retE_def split: if_splits)
  then show ?thesis by (simp add: stepFrame_loopFrame)
next
  case False
  let ?p = "driverList (driverID k) wkf"
  obtain r1 wkf1 w1 where start: "startLoop k ?p (wkf, w) = (r1, (wkf1, w1))" by (metis prod_cases3)
  have frame: "stepFrame (driverID k) wkf wkf1" and starts: "r1 = Inr None \<longrightarrow> (\<forall>i \<in> set ?p. stepDone k startFunction wkf i)"
    using startLoop_frame [OF start] by (simp_all add: driverList_pending)
  have loops: "bindE (startLoop k ?p) (\<lambda>x. case x of Some res \<Rightarrow> retE res | None \<Rightarrow> finishLoop k ?p) (wkf, w) = (r, (wkf', w'))"
    using run live held False by (simp add: workflowBody_def Let_def)
  show ?thesis
  proof (cases "r1 = Inr None")
    case True
    have fin: "finishLoop k ?p (wkf1, w1) = (r, (wkf', w'))" using loops start True by (simp add: bindE_def)
    have fd: "finished k ?p wkf1 wkf'"
      by (rule finishLoop_finished [OF fin _ driverList_distinct]) (use pendingAt_frame [OF frame] in \<open>simp add: driverList_pending\<close>)
    have "pendingAt (driverID k) wkf i \<and> stepDone k finishFunction wkf i"
      if i: "i < length (driversOf wkf)" "wds_Completed (driversOf wkf' ! i)" "\<not> wds_Completed (driversOf wkf ! i)" for i
    proof -
      have "i \<in> set ?p \<and> stepDone k finishFunction wkf1 i"
        using fd i stepFrame_nth(1,3) [OF frame i(1)] by (simp add: finished_def)
      then show ?thesis using stepDone_frame [OF frame i(1), where k = k and fns = finishFunction] by (simp add: driverList_pending)
    qed
    moreover have "stepDone k startFunction wkf j" if "pendingAt (driverID k) wkf j" for j
      using starts True that by (simp add: driverList_pending)
    ultimately show ?thesis using loopFrame_trans [OF stepFrame_loopFrame [OF frame]] fd by (simp add: finished_def)
  next
    case nostart: False
    then have "wkf' = wkf1"
      using loops start by (cases r1) (auto simp: bindE_def retE_def split: option.splits)
    then show ?thesis using frame by (simp add: stepFrame_loopFrame stepFrame_nth(3))
  qed
qed


text \<open>
  C17. A reconcile touches the entries of open drivers only. The entries of other programs, of other states and
  of drivers that are done are exactly as they were, no entry is added or removed or changes what it is registered
  for, and the state and the directives of the workflow stay.
\<close>

theorem other_drivers_untouched:
  assumes "workflowBody k (wkf, w) = (r, (wkf', w'))" and "\<not> meta_Deleting (wf_Meta wkf)" and "workflowHeld wkf"
    and "i < length (driversOf wkf)"
  shows "length (driversOf wkf') = length (driversOf wkf) \<and> sameEntry (driversOf wkf ! i) (driversOf wkf' ! i) \<and>
    (\<not> pendingAt (driverID k) wkf i \<longrightarrow> driversOf wkf' ! i = driversOf wkf ! i) \<and>
    wf_Spec wkf' = wf_Spec wkf \<and> wst_State (wf_Status wkf') = wst_State (wf_Status wkf)"
  using workflowBody_running [OF assms(1-3)] assms(4) by (simp add: loopFrame_def pendingAt_def sameWorkflow_def)

section \<open>Teardown\<close>

definition openLabels :: "Workflow \<Rightarrow> int \<Rightarrow> kv" where
  "openLabels wkf index = kv_merge [(DirectiveIndexLabel, itoa index)] (MatchingOwner ''Workflow'' (wf_Meta wkf))"

lemma startTeardown_empty:
  assumes "startTeardownState k index (wkf, w) = (Inr None, s)" and "dwArgsAt wkf index = Inr args" and "commandOf args \<noteq> ''container''"
  shows "\<exists>w1. allListedEmpty [wk_DataMovements k, wk_Accesses k] (openLabels wkf index) w w1"
proof -
  have "sndE (deleteOfDirective [wk_DataMovements k, wk_Accesses k] ''could not delete NnfDataMovement and NnfAccess children''
      ''could not stop data movement and unmount file systems'' wkf index) (wkf, w) = (Inr None, s)"
    using assms by (simp add: startTeardownState_def)
  then have "deleteKinds [wk_DataMovements k, wk_Accesses k] (openLabels wkf index) w = (Inr True, snd s)"
    by (auto simp: sndE_apply deleteOfDirective_def DeleteChildrenWithLabels_def openLabels_def bindE_def retE_def wrapE_def catchE_def failE_def
        split: prod.splits sum.splits if_splits)
  then show ?thesis by (intro exI [of _ "snd s"] deleteKinds_complete)
qed


section \<open>An example\<close>

definition exTokenLib :: "'w tokenLib" where
  "exTokenLib = \<lparr>tl_Now = retE 0, tl_SignedString = (\<lambda>alg sub now key. Inr (key @ ''.'' @ sub)), tl_Parse = (\<lambda>s keyFor. Inr True),
     tl_GenerateKey = retE ''key'', tl_MarshalPKCS8PrivateKey = (\<lambda>p. Inr p), tl_EncodeToMemory = (\<lambda>t b. Some b), tl_Decode = (\<lambda>p. Some ([], p))\<rparr>"

definition noObjects :: "('o, 'w) kclient" where
  "noObjects = \<lparr>kc_Get = (\<lambda>_ _. failE (ApiErr ReasonNotFound ''not found'')), kc_Create = retE, kc_Update = retE, kc_UpdateStatus = retE\<rparr>"

definition noOwned :: "'w childKind" where
  "noOwned = \<lparr>ck_List = (\<lambda>_. retE []), ck_DeleteAllOf = (\<lambda>_ _. retE ()), ck_Delete = (\<lambda>_. retE ())\<rparr>"

definition exContainerKube :: "'w containerKube" where
  "exContainerKube = \<lparr>wk_Job = noObjects, wk_MPIJob = noObjects, wk_Secret = noObjects, wk_CreateService = (\<lambda>_. retE ()),
     wk_CreateContainerData = (\<lambda>_. retE ()), wk_ListMPIJobs = (\<lambda>_. retE []), wk_ListJobs = (\<lambda>_. retE []), wk_ListNodeStorages = (\<lambda>_. retE []),
     wk_ListContainerData = (\<lambda>_ _. retE []), wk_DeleteMPIJobs = (\<lambda>_ _. retE ()), wk_DeleteJobs = (\<lambda>_ _. retE ()),
     wk_DeleteContainerData = (\<lambda>_. retE ()), wk_Tokens = exTokenLib, wk_AppendCertsFromPEM = (\<lambda>_. True), wk_Post = (\<lambda>_ _ _. retE ConnectionRefused)\<rparr>"

definition exNotFound :: "('w, 'a) io" where
  "exNotFound = failE (ApiErr ReasonNotFound ''not found'')"

definition exWorkflowKube :: "'w workflowKube" where
  "exWorkflowKube = \<lparr>wk_Workflow = noObjects, wk_Breakdown = noObjects, wk_Storage = noObjects, wk_PSI = noObjects, wk_Access = noObjects,
     wk_DataMovement = noObjects, wk_PortManager = noObjects, wk_ContainerProfile = noObjects, wk_DMProfile = noObjects,
     wk_Profiles = \<lparr>pc_List = (\<lambda>_ w. (Inr [], w)), pc_Get = (\<lambda>_ _ w. (NotFound, w)), pc_Create = (\<lambda>_ w. (Created, w))\<rparr>,
     wk_Containers = exContainerKube, wk_GetServers = (\<lambda>_ _. exNotFound), wk_GetRabbit = (\<lambda>_ _. exNotFound), wk_GetComputes = (\<lambda>_ _. exNotFound),
     wk_GetConfiguration = (\<lambda>_ _. exNotFound), wk_GetDataMovementManager = (\<lambda>_ _. retE ()), wk_ListLustre = retE [], wk_ListDMProfiles = (\<lambda>_. retE []),
     wk_ListPSI = (\<lambda>_. retE []), wk_ListDataMovement = (\<lambda>_. retE []), wk_DataMovements = noOwned, wk_Accesses = noOwned,
     wk_Storages = noOwned, wk_PSIs = noOwned, wk_Breakdowns = noOwned,
     wk_Getenv = (\<lambda>n. if n = ''DWS_DRIVER_ID'' then Some ''nnf'' else None), wk_Now = (\<lambda>_. 7), wk_Perm = (\<lambda>_ n. [0 ..< n]),
     wk_Order = (\<lambda>_ _ m. m), wk_Intn = (\<lambda>_ _. 0)\<rparr>"

definition exDriver :: "string \<Rightarrow> string \<Rightarrow> int \<Rightarrow> WorkflowDriverStatus" where
  "exDriver did state index = \<lparr>wds_DriverID = did, wds_DWDIndex = index, wds_WatchState = state, wds_Completed = False, wds_Status = StatusRunning,
     wds_Message = [], wds_Error = [], wds_CompleteTime = None\<rparr>"

definition exWorkflow :: "string list \<Rightarrow> string \<Rightarrow> WorkflowDriverStatus list \<Rightarrow> Workflow" where
  "exWorkflow directives state drivers =
     \<lparr>wf_Meta = zeroMeta\<lparr>meta_Name := ''wf'', meta_Namespace := ''default'', meta_UID := ''u1'', meta_Finalizers := [finalizerNnfWorkflow]\<rparr>,
      wf_Spec = \<lparr>wfs_DesiredState = state, wfs_JobID = IntVal 5, wfs_UserID = 1000, wfs_GroupID = 100, wfs_DWDirectives = directives\<rparr>,
      wf_Status = \<lparr>wst_State = state, wst_Ready = False, wst_Env = None, wst_Drivers = drivers, wst_DirectiveBreakdowns = [], wst_Requires = [],
        wst_WorkflowToken = None, wst_DesiredStateChange = None\<rparr>\<rparr>"

definition exTeardown :: Workflow where
  "exTeardown = exWorkflow [''#DW jobdw type=xfs capacity=1GB name=fs''] ''Teardown'' [exDriver ''nnf'' ''Teardown'' 0, exDriver ''other'' ''Teardown'' 0]"

lemma exTeardown_run:
  "workflowBody exWorkflowKube (exTeardown, ()) =
     (Inr doneResult, (setDriver 0 (completeDriver 7) exTeardown, ()))"
  by code_simp

lemma exTeardown_facts:
  "\<not> meta_Deleting (wf_Meta exTeardown)" "workflowHeld exTeardown" "0 < length (driversOf exTeardown)" "1 < length (driversOf exTeardown)"
  "wds_Completed (driversOf (setDriver 0 (completeDriver 7) exTeardown) ! 0)" "\<not> wds_Completed (driversOf exTeardown ! 0)"
  "wst_State (wf_Status exTeardown) = ''Teardown''" "wds_DWDIndex (driversOf exTeardown ! 0) = 0"
  "commandOf [(''command'', ''jobdw''), (''type'', ''xfs''), (''capacity'', ''1GB''), (''name'', ''fs'')] \<noteq> ''container''"
  "dwArgsAt exTeardown 0 = Inr [(''command'', ''jobdw''), (''type'', ''xfs''), (''capacity'', ''1GB''), (''name'', ''fs'')]"
  "driverPending ''nnf'' exTeardown (driversOf exTeardown ! 0)" "\<not> driverPending ''nnf'' exTeardown (driversOf exTeardown ! 1)"
  "driverID (exWorkflowKube :: unit workflowKube) = ''nnf''"
  by code_simp+


theorem other_drivers_untouched_witness:
  "driversOf (setDriver 0 (completeDriver 7) exTeardown) ! 1 = driversOf exTeardown ! 1 \<and>
   sameEntry (driversOf exTeardown ! 1) (driversOf (setDriver 0 (completeDriver 7) exTeardown) ! 1)"
  using other_drivers_untouched [OF exTeardown_run exTeardown_facts(1,2,4)] exTeardown_facts(12,13) by (auto simp: pendingAt_def sameEntry_def)


end
