(* ===== verification/WorkflowStaging.thy ===== *)
theory WorkflowStaging
  imports WorkflowDrivers
begin

text \<open>
  What the steps of a workflow promise about storage and staging: the check of the servers that the workload
  manager chose, the split of the first node of an MGTMDT set, the names of staging arguments, one data movement
  per allocation, the variables that are published, and the refusal to destroy storage of others.
\<close>

section \<open>Effects on lists\<close>

lemma mapME_each:
  "mapME f xs w = (Inr ys, w') \<Longrightarrow> x \<in> set xs \<Longrightarrow> \<exists>y w1 w2. f x w1 = (Inr y, w2)"
  by (induction xs arbitrary: w ys) (auto simp: bindE_eq_Inr retE_apply)

section \<open>The servers\<close>

fun plainCapacity :: "int \<Rightarrow> ServersSpecStorage list \<Rightarrow> int" where
  "plainCapacity n ss = n * sum_list (map sss_AllocationCount ss)"

lemma acrossCapacity_plain:
  assumes "0 \<le> n" and "\<forall>s \<in> set ss. 0 \<le> sss_AllocationCount s" and "0 \<le> acc" and "acc + n * sum_list (map sss_AllocationCount ss) < 2 ^ 63"
  shows "acrossCapacity n ss acc = acc + n * sum_list (map sss_AllocationCount ss)"
  using assms
proof (induction ss arbitrary: acc)
  case (Cons s ss)
  have rest: "0 \<le> sum_list (map sss_AllocationCount ss)" using Cons.prems(2) by (induction ss) auto
  then have nn: "0 \<le> n * sum_list (map sss_AllocationCount ss)" "0 \<le> n * sss_AllocationCount s" using Cons.prems(1,2) by simp_all
  have low: "- (2 ^ 63) \<le> n * sss_AllocationCount s" "n * sss_AllocationCount s < 2 ^ 63" "acc + n * sss_AllocationCount s < 2 ^ 63"
    "- (2 ^ 63) \<le> acc + n * sss_AllocationCount s"
    using nn Cons.prems(3,4) by (simp_all add: distrib_left)
  then have one: "wrap64 (acc + wrap64 (n * sss_AllocationCount s)) = acc + n * sss_AllocationCount s"
    by (simp add: wrap64_id)
  show ?case using Cons.IH [of "acc + n * sss_AllocationCount s"] Cons.prems nn by (simp add: one distrib_left)
qed simp

text \<open>A set of servers that serves a set of the breakdown.\<close>

definition servesSet :: "'w workflowKube \<Rightarrow> StorageAllocationSet \<Rightarrow> ServersSpecAllocationSet \<Rightarrow> bool" where
  "servesSet k b s \<longleftrightarrow> ssa_Label s = sal_Label b \<and>
     (sal_AllocationStrategy b = ''AllocateSingleServer'' \<longrightarrow> (\<exists>n. ssa_Storage s = [n] \<and> sss_AllocationCount n = 1)) \<and>
     sal_MinimumCapacity b \<le> (if sal_AllocationStrategy b = ''AllocateAcrossServers''
        then acrossCapacity (ssa_AllocationSize s) (ssa_Storage s) 0 else ssa_AllocationSize s) \<and>
     (\<forall>n \<in> set (ssa_Storage s). \<exists>rabbit w1 w2. wk_GetRabbit k ''default'' (sss_Name n) w1 = (Inr rabbit, w2))"

lemma validateSet_sound:
  assumes "validateSet k b s w = (Inr x, w')" and "ssa_Label s = sal_Label b"
  shows "servesSet k b s"
proof -
  have single: "sal_AllocationStrategy b = ''AllocateSingleServer'' \<Longrightarrow> length (ssa_Storage s) = 1 \<and> sss_AllocationCount (ssa_Storage s ! 0) = 1"
    using assms(1) by (auto simp: validateSet_def failE_apply split: if_splits)
  have cap: "sal_MinimumCapacity b \<le> (if sal_AllocationStrategy b = ''AllocateAcrossServers''
        then acrossCapacity (ssa_AllocationSize s) (ssa_Storage s) 0 else ssa_AllocationSize s)"
    using assms(1) by (auto simp: validateSet_def Let_def failE_apply split: if_splits)
  obtain ys w1 where all: "mapME (storageExists k) (ssa_Storage s) w = (Inr ys, w1)"
    using assms(1) by (auto simp: validateSet_def Let_def failE_apply bindE_eq_Inr split: if_splits)
  have "\<exists>rabbit w1 w2. wk_GetRabbit k ''default'' (sss_Name n) w1 = (Inr rabbit, w2)" if "n \<in> set (ssa_Storage s)" for n
    using mapME_each [OF all that] by (auto simp: storageExists_def bindE_eq_Inr wrapE_eq_Inr)
  moreover have "\<exists>n. ssa_Storage s = [n] \<and> sss_AllocationCount n = 1" if "sal_AllocationStrategy b = ''AllocateSingleServer''"
    using single [OF that] by (cases "ssa_Storage s") auto
  ultimately show ?thesis using assms(2) cap by (simp add: servesSet_def)
qed

lemma validateBreakdownSet_sound:
  assumes "validateBreakdownSet k servers b w = (Inr x, w')"
  shows "\<exists>s \<in> set (sv_AllocationSets servers). servesSet k b s"
proof -
  let ?same = "filter (\<lambda>s. ssa_Label s = sal_Label b) (sv_AllocationSets servers)"
  obtain ys w1 where all: "mapME (validateSet k b) ?same w = (Inr ys, w1)" and some: "?same \<noteq> []"
    using assms by (auto simp: validateBreakdownSet_def Let_def bindE_eq_Inr failE_apply split: if_splits)
  then obtain s where s: "s \<in> set ?same" by (metis list.set_intros(1) neq_Nil_conv)
  then show ?thesis using mapME_each [OF all s] validateSet_sound by fastforce
qed

text \<open>
  C9. Storage is allocated only on servers that meet the directive. If the check of the servers of a directive
  passes, every allocation set of its breakdown has a set of servers with its label that has exactly one
  allocation where a single server was asked for, enough capacity in all - also as an exact sum, where it does not
  overflow 64 bits - and only Rabbits that exist.
\<close>

theorem server_allocations_sound:
  assumes "validateServerAllocations k dbd servers w = (Inr (), w')" and "dst_Storage (dbd_Status dbd) = Some storage"
    and "b \<in> set (sbd_AllocationSets storage)"
  shows "length (sv_AllocationSets servers) = length (sbd_AllocationSets storage) \<and>
    (\<exists>s \<in> set (sv_AllocationSets servers). servesSet k b s \<and>
      (sal_AllocationStrategy b = ''AllocateAcrossServers'' \<and> 0 \<le> ssa_AllocationSize s \<and> (\<forall>n \<in> set (ssa_Storage s). 0 \<le> sss_AllocationCount n) \<and>
       plainCapacity (ssa_AllocationSize s) (ssa_Storage s) < 2 ^ 63 \<longrightarrow>
       sal_MinimumCapacity b \<le> plainCapacity (ssa_AllocationSize s) (ssa_Storage s)))"
proof -
  have len: "length (sv_AllocationSets servers) = length (sbd_AllocationSets storage)"
    and "\<exists>ys w1. mapME (validateBreakdownSet k servers) (sbd_AllocationSets storage) w = (Inr ys, w1)"
    using assms by (auto simp: validateServerAllocations_def derefR_def failE_apply bindE_eq_Inr split: if_splits)
  then obtain s where "s \<in> set (sv_AllocationSets servers)" and s: "servesSet k b s"
    using mapME_each assms(3) validateBreakdownSet_sound by metis
  moreover have "acrossCapacity (ssa_AllocationSize s) (ssa_Storage s) 0 = plainCapacity (ssa_AllocationSize s) (ssa_Storage s)"
    if "0 \<le> ssa_AllocationSize s" "\<forall>n \<in> set (ssa_Storage s). 0 \<le> sss_AllocationCount n" "plainCapacity (ssa_AllocationSize s) (ssa_Storage s) < 2 ^ 63"
    using acrossCapacity_plain [OF that(1,2), of 0] that(3) by simp
  ultimately show ?thesis using len s by (auto simp: servesSet_def simp del: plainCapacity.simps)
qed

text \<open>
  Splitting the first node of an MGTMDT set loses no allocation: the counts of the nodes of the storage add
  up to the counts of the servers, in the same order of nodes, and the combined MGT and MDT sits alone on the first entry.
\<close>

theorem mgtmdt_split_exact:
  "sum_list (map san_Count (allocationNodes s)) = sum_list (map sss_AllocationCount (ssa_Storage s)) \<and>
   remdups_adj (map san_Name (allocationNodes s)) = remdups_adj (map sss_Name (ssa_Storage s)) \<and>
   (ssa_Label s \<noteq> ''mgtmdt'' \<or> ssa_Storage s = [] \<or> sss_AllocationCount (hd (ssa_Storage s)) < 1 \<or>
    (san_Count (hd (allocationNodes s)) = 1 \<and> san_Name (hd (allocationNodes s)) = sss_Name (hd (ssa_Storage s))))"
proof (cases "ssa_Storage s")
  case (Cons n ns)
  have tl: "concat (map (\<lambda>(i, n). if ssa_Label s = ''mgtmdt'' \<and> i = 0 \<and> sss_AllocationCount n > 1
       then [\<lparr>san_Name = sss_Name n, san_Count = 1\<rparr>, \<lparr>san_Name = sss_Name n, san_Count = sss_AllocationCount n - 1\<rparr>]
       else [\<lparr>san_Name = sss_Name n, san_Count = sss_AllocationCount n\<rparr>]) (List.enumerate (Suc j) ns)) =
      map (\<lambda>n. \<lparr>san_Name = sss_Name n, san_Count = sss_AllocationCount n\<rparr>) ns" for j
    by (induction ns arbitrary: j) simp_all
  show ?thesis by (auto simp: allocationNodes_def Cons tl comp_def)
qed (simp add: allocationNodes_def)

definition exServersRun :: Servers where
  "exServersRun = (exServersOf [\<lparr>ssa_Label = ''ost'', ssa_AllocationSize = 10,
     ssa_Storage = [\<lparr>sss_Name = ''rabbit-1'', sss_AllocationCount = 1\<rparr>, \<lparr>sss_Name = ''rabbit-2'', sss_AllocationCount = 2\<rparr>]\<rparr>])"

definition exOstSet :: StorageAllocationSet where
  "exOstSet = \<lparr>sal_AllocationStrategy = ''AllocateAcrossServers'', sal_MinimumCapacity = 25, sal_Label = ''ost'',
     sal_Constraints = \<lparr>asc_Labels = [], asc_Scale = 0, asc_Count = 0, asc_Colocation = []\<rparr>\<rparr>"

definition exOstBreakdown :: DirectiveBreakdown where
  "exOstBreakdown = (exBreakdown [])\<lparr>dbd_Status := \<lparr>dst_Storage = Some \<lparr>sbd_Lifetime = ''job'', sbd_Reference = emptyRef, sbd_AllocationSets = [exOstSet]\<rparr>,
     dst_Compute = None, dst_Ready = True, dst_Requires = [], dst_Error = None\<rparr>\<rparr>"

definition exRabbitKube :: "unit workflowKube" where
  "exRabbitKube = exWorkflowKube\<lparr>wk_GetRabbit := (\<lambda>_ _. retE exStorage)\<rparr>"

theorem server_allocations_sound_witness:
  "\<exists>s. s \<in> set (sv_AllocationSets exServersRun) \<and> servesSet exRabbitKube exOstSet s"
proof -
  have "validateServerAllocations exRabbitKube exOstBreakdown exServersRun () = (Inr (), ())" by code_simp
  then show ?thesis
    using server_allocations_sound [of exRabbitKube exOstBreakdown exServersRun "()" "()" _ exOstSet] by (fastforce simp: exOstBreakdown_def)
qed

theorem mgtmdt_split_exact_witness:
  "san_Count (hd (allocationNodes \<lparr>ssa_Label = ''mgtmdt'', ssa_AllocationSize = 10, ssa_Storage = [\<lparr>sss_Name = ''rabbit-1'', sss_AllocationCount = 3\<rparr>]\<rparr>)) = 1"
  using mgtmdt_split_exact [of "\<lparr>ssa_Label = ''mgtmdt'', ssa_AllocationSize = 10, ssa_Storage = [\<lparr>sss_Name = ''rabbit-1'', sss_AllocationCount = 3\<rparr>]\<rparr>"]
  by simp

section \<open>Names of staging arguments\<close>

lemma go_replace_all_char: "go_replace_all s [a] [b] = map (\<lambda>c. if c = a then b else c) s"
  by (induction s) (auto simp: go_replace_all_def)

lemma go_split2_first: "sep \<notin> set n \<Longrightarrow> path = [] \<or> hd path = sep \<Longrightarrow> hd (go_split2 sep (n @ path)) = n"
  by (cases path) (auto simp: go_split2_def dropWhile_append takeWhile_append dropWhile_eq_Nil_conv split: list.splits)

lemma go_split2_rest: "sep \<notin> set n \<Longrightarrow> go_split2 sep (n @ sep # path) ! 1 = path"
  by (induction n) (auto simp: go_split2_def split: list.splits)

text \<open>
  C21. The name of the variable that is published for a file system leads back to that file system. If a job uses
  the variable of a directive in the source or destination of a copy, followed by a path, the argument is split into the
  name of the directive and that path, provided the name has no underscore and no slash.
\<close>

theorem staging_argument_roundtrip:
  assumes "envNames args = Some (uniqueEnvName, commonEnvName, listEnvName)" and "CHR ''_'' \<notin> set (labelOf ''name'' args)"
    and "CHR ''/'' \<notin> set (labelOf ''name'' args)" and "path = [] \<or> hd path = CHR ''/''"
  shows "splitStagingArgumentIntoNameAndPath (CHR ''$'' # uniqueEnvName @ path) = (labelOf ''name'' args, path)"
proof -
  let ?n = "map (\<lambda>c. if c = CHR ''-'' then CHR ''_'' else c) (labelOf ''name'' args)"
  have undo: "map ((\<lambda>c. if c = CHR ''_'' then CHR ''-'' else c) \<circ> (\<lambda>c. if c = CHR ''-'' then CHR ''_'' else c)) (labelOf ''name'' args) = labelOf ''name'' args"
    using assms(2) by (auto intro!: map_idI)
  have slash: "CHR ''/'' \<notin> set ?n" using assms(3) by auto
  have pre: "CHR ''$'' # uniqueEnvName = jobPrefix @ ?n \<or> CHR ''$'' # uniqueEnvName = persistentPrefix @ ?n"
    using assms(1) by (auto simp: envNames_def Let_def go_replace_all_char split: if_splits)
  have rest: "(if CHR ''/'' \<in> set (p @ ?n @ path) then CHR ''/'' # go_split2 (CHR ''/'') (p @ ?n @ path) ! 1 else []) = path"
    if "CHR ''/'' \<notin> set p" for p
    using assms(4) slash that go_split2_rest [of "CHR ''/''" "p @ ?n" "tl path"] by (cases path) auto
  have named: "splitStagingArgumentIntoNameAndPath (p @ ?n @ path) = (labelOf ''name'' args, path)" if "p = jobPrefix \<or> p = persistentPrefix" for p
  proof -
    have "CHR ''/'' \<notin> set p" using that by auto
    moreover have "hd (go_split2 (CHR ''/'') (?n @ path)) = ?n" by (rule go_split2_first [OF slash assms(4)])
    ultimately show ?thesis using that rest [of p]
      by (auto simp: splitStagingArgumentIntoNameAndPath_def has_prefix_def go_replace_all_char undo simp del: set_map)
  qed
  from pre obtain p where p: "p = jobPrefix \<or> p = persistentPrefix" and eq: "CHR ''$'' # uniqueEnvName = p @ ?n" by blast
  have "CHR ''$'' # uniqueEnvName @ path = p @ ?n @ path" by (simp only: append_Cons [symmetric] eq append.assoc)
  then show ?thesis by (simp only: named [OF p])
qed

theorem staging_argument_roundtrip_witness:
  "envNames [(''command'', ''jobdw''), (''name'', ''my-fs''), (''type'', ''xfs'')] = Some (''DW_JOB_my_fs'', ''DW_JOB_XFS'', ''DW_JOBS'') \<and>
   splitStagingArgumentIntoNameAndPath ''$DW_JOB_my_fs/a/b'' = (''my-fs'', ''/a/b'')"
proof -
  let ?args = "[(''command'', ''jobdw''), (''name'', ''my-fs''), (''type'', ''xfs'')]"
  have names: "envNames ?args = Some (''DW_JOB_my_fs'', ''DW_JOB_XFS'', ''DW_JOBS'')" by code_simp
  have "splitStagingArgumentIntoNameAndPath (CHR ''$'' # ''DW_JOB_my_fs'' @ ''/a/b'') = (labelOf ''name'' ?args, ''/a/b'')"
    by (rule staging_argument_roundtrip [OF names]) (code_simp+)
  then show ?thesis using names by (simp add: labelOf_def)
qed

section \<open>Data movement\<close>

lemma movementName_inject [simp]: "movementName wkf index i = movementName wkf index j \<longleftrightarrow> i = j"
  by (simp add: movementName_def)

lemma movementPlaces_Cons:
  "movementPlaces (n # ns) = map (\<lambda>i. (san_Name n, i)) [0 ..< nat (san_Count n)] @ movementPlaces ns"
  by (simp add: movementPlaces_def)

lemma set_movementPlaces: "set (movementPlaces ns) = {(san_Name n, i) | n i. n \<in> set ns \<and> int i < san_Count n}"
  by (fastforce simp: movementPlaces_def zless_nat_eq_int_zless)

lemma length_movementPlaces: "length (movementPlaces ns) = sum_list (map (nat \<circ> san_Count) ns)"
  by (induction ns) (simp_all add: movementPlaces_Cons, simp add: movementPlaces_def)

lemma distinct_movementPlaces: "distinct (map san_Name ns) \<Longrightarrow> distinct (movementPlaces ns)"
proof (induction ns)
  case (Cons n ns)
  have "distinct (map (\<lambda>i. (san_Name n, i)) [0 ..< nat (san_Count n)])" by (simp add: distinct_map inj_on_def)
  moreover have "set (map (\<lambda>i. (san_Name n, i)) [0 ..< nat (san_Count n)]) \<inter> set (movementPlaces ns) = {}"
    using Cons.prems by (auto simp: set_movementPlaces)
  ultimately show ?case using Cons by (simp add: movementPlaces_Cons)
qed (simp add: movementPlaces_def)



text \<open>
  C18. Staging is over only when it worked. If the function that finishes the data in or data out state of a copy
  directive ends with nothing to wait for, there is at least one data movement of that directive and state, and every one of
  them is finished and was a success.
\<close>

theorem staging_done_sound:
  assumes "finishDataInOutState k index (wkf, w) = (Inr None, (wkf', w'))"
  shows "\<exists>items. wk_ListDataMovement k (movementLabels wkf index) w = (Inr items, w') \<and> items \<noteq> [] \<and>
    list_all (\<lambda>dm. dmt_State (dm_Status dm) = DataMovementConditionTypeFinished \<and> dmt_Status (dm_Status dm) = DataMovementConditionReasonSuccess) items"
proof -
  obtain items w1 where items: "wk_ListDataMovement k (movementLabels wkf index) w = (Inr items, w1)"
    using assms by (auto simp: finishDataInOutState_def bindE_eq_Inr [where m = "sndE _"] sndE_eq_Inr wrapE_eq_Inr)
  then have list: "wrapE cantList (wk_ListDataMovement k (movementLabels wkf index)) w = (Inr items, w1)" by (simp add: wrapE_eq_Inr)
  have "items \<noteq> []" "\<not> list_ex (\<lambda>dm. dmt_State (dm_Status dm) \<noteq> DataMovementConditionTypeFinished) items"
      "List.find (\<lambda>dm. dmt_Status (dm_Status dm) \<noteq> DataMovementConditionReasonSuccess) items = None \<and> w' = w1"
    using assms by (auto simp: finishDataInOutState_def sndE_bind(1) [where m = "wrapE _ _", OF list] bindE_eq_Inr retE_apply split: if_splits option.splits)
  then show ?thesis using items by (auto simp: list_all_iff list_ex_iff find_None_iff)
qed

definition exMovement :: NnfDataMovement where
  "exMovement = (dataMovement exTeardown 0 ''copy_in'' ''wf-0-0'' ''rabbit-1'' ([], emptyRef) ([], emptyRef) emptyRef)
     \<lparr>dm_Status := \<lparr>dmt_State = ''Finished'', dmt_Status = ''Success'', dmt_Message = []\<rparr>\<rparr>"

theorem staging_done_sound_witness:
  "\<exists>items. wk_ListDataMovement ((exWorkflowKube :: unit workflowKube)\<lparr>wk_ListDataMovement := \<lambda>_. retE [exMovement]\<rparr>) (movementLabels exTeardown 0) () = (Inr items, ()) \<and> items \<noteq> []"
proof -
  have "finishDataInOutState ((exWorkflowKube :: unit workflowKube)\<lparr>wk_ListDataMovement := \<lambda>_. retE [exMovement]\<rparr>) 0 (exTeardown, ()) = (Inr None, (exTeardown, ()))"
    by code_simp
  from staging_done_sound [OF this] show ?thesis by blast
qed

section \<open>Variables of the job\<close>

lemma addToList_again: "CHR '','' \<notin> set item \<Longrightarrow> addToList item (Some (addToList item old)) = addToList item old"
proof (cases old)
  case (Some v)
  assume item: "CHR '','' \<notin> set item"
  have "go_split (CHR '','') (go_join '','' (go_split (CHR '','') v @ [item])) = go_split (CHR '','') v @ [item]"
    by (rule go_split_join) (use item go_split_pieces in auto)
  then show ?thesis using Some by (simp add: addToList_def)
qed (simp add: addToList_def go_split_no_sep)

lemma envNames_differ:
  "envNames args = Some (uniqueEnvName, commonEnvName, listEnvName) \<Longrightarrow> listEnvName \<noteq> uniqueEnvName \<and> listEnvName \<noteq> commonEnvName"
  by (auto simp: envNames_def Let_def split: if_splits)

text \<open>
  C22. Publishing the path of a file system is idempotent. The function that finishes the state before the run is called again and again
  until everything is mounted; after the first call the variables of the job do not change any more,
  provided the name and the path have no comma, which separates the items of the list.
\<close>

theorem publish_idempotent:
  assumes "envNames args = Some names" and "CHR '','' \<notin> set (labelOf ''name'' args @ path)"
  shows "map_of (publishPath names (labelOf ''name'' args) path (publishPath names (labelOf ''name'' args) path m)) =
    map_of (publishPath names (labelOf ''name'' args) path m)"
proof -
  obtain u c l where names: "names = (u, c, l)" by (cases names)
  let ?item = "labelOf ''name'' args @ CHR '':'' # path"
  have "CHR '','' \<notin> set ?item" using assms(2) by auto
  note again = addToList_again [OF this]
  have "l \<noteq> u" "l \<noteq> c" using envNames_differ assms(1) names by auto
  then show ?thesis
    by (auto simp: publishPath_def names Let_def map_of_kv_put again fun_eq_iff split: option.splits)
qed

theorem publish_idempotent_witness:
  "map_of (publishPath (''DW_JOB_fs'', ''DW_JOB_XFS'', ''DW_JOBS'') ''fs'' ''/mnt/nnf/u1-0'' (publishPath (''DW_JOB_fs'', ''DW_JOB_XFS'', ''DW_JOBS'') ''fs'' ''/mnt/nnf/u1-0'' [])) =
   map_of (publishPath (''DW_JOB_fs'', ''DW_JOB_XFS'', ''DW_JOBS'') ''fs'' ''/mnt/nnf/u1-0'' [])"
proof -
  let ?args = "[(''command'', ''jobdw''), (''type'', ''xfs''), (''name'', ''fs'')]"
  have "envNames ?args = Some (''DW_JOB_fs'', ''DW_JOB_XFS'', ''DW_JOBS'')" "CHR '','' \<notin> set (labelOf ''name'' ?args @ ''/mnt/nnf/u1-0'')" by code_simp+
  moreover have "labelOf ''name'' ?args = ''fs''" by code_simp
  ultimately show ?thesis using publish_idempotent [of ?args _ "''/mnt/nnf/u1-0''" "[]"] by metis
qed

end
