(* ===== verification/WorkflowRelease.thy ===== *)
theory WorkflowRelease
  imports WorkflowStaging
begin

text \<open>
  What a workflow gives back at its end: persistent storage that is destroyed only by its user and without consumers,
  the finalizer that stays until everything the workflow made is gone, the request for ports, and the references to
  persistent storage.
\<close>

section \<open>Persistent storage\<close>

text \<open>
  C10. Persistent storage of another user or with consumers is never destroyed. A destroy directive of a workflow with
  another user, or for an instance that some workflow still uses, ends with a fatal error of the user right after the
  instance was read: nothing is written, and the workflow and the world are as that read left them.
\<close>

theorem destroy_persistent_refused:
  assumes "dwArgsAt wkf index = Inr args" and "commandOf args = ''destroy_persistent''"
    and "findPersistentInstance k wkf (labelOf ''name'' args) w = (Inr psi, w1)"
    and "psp_UserID (psi_Spec psi) \<noteq> wfs_UserID (wf_Spec wkf) \<or> psp_ConsumerReferences (psi_Spec psi) \<noteq> []"
  shows "\<exists>e. finishTeardownState k index (wkf, w) = (Inl (ResErr e), (wkf, w1)) \<and> Severity e = SeverityFatal \<and> ErrType e = TypeUser"
proof -
  have got: "bindE (tryE (findPersistentInstance k wkf (labelOf ''name'' args))) f w = f (Inr psi) w1" for f :: "failure + _ \<Rightarrow> (_, stepResult option) io"
    using assms(3) by (simp add: tryE_def catchE_def bindE_def retE_def)
  have "\<exists>e. destroyPersistent k wkf args index psi w1 = (Inl (ResErr e), w1) \<and> Severity e = SeverityFatal \<and> ErrType e = TypeUser"
    using assms(4) by (auto simp: destroyPersistent_def Let_def failE_apply WithFatal_def WithUser_def)
  then obtain e where e: "destroyPersistent k wkf args index psi w1 = (Inl (ResErr e), w1)" "Severity e = SeverityFatal" "ErrType e = TypeUser" by blast
  then have "orWaitStep (destroyPersistent k wkf args index psi) (deleteStorages k wkf index) w1 = (Inl (ResErr e), w1)"
    by (simp add: orWaitStep_def bindE_def)
  then show ?thesis using assms(1,2) e(2,3)
    by (simp add: finishTeardownState_def sndE_apply got)
qed

section \<open>The end of a workflow\<close>

lemma deleteWorkflow_leaves:
  assumes "deleteWorkflow k (wkf, w) = (r, (wkf', w'))" and "workflowHeld wkf" and "\<not> workflowHeld wkf'"
  shows "\<exists>w1 w2 w3 w4. removeAllPersistentStorageReferences k wkf w = (Inr (), w1) \<and> deleteContainers k wkf (-1) w1 = (Inr None, w2) \<and>
    releaseContainerPorts k wkf w2 = (Inr None, w3) \<and> DeleteChildren (getChildObjects k) ''Workflow'' (wf_Meta wkf) w3 = (Inr True, w4)"
proof -
  obtain q1 w1 where q1: "removeAllPersistentStorageReferences k wkf w = (q1, w1)" by fastforce
  then have r1: "q1 = Inr ()" using assms by (cases q1) (auto simp: deleteWorkflow_def sndE_bind)
  obtain q2 w2 where q2: "deleteContainers k wkf (-1) w1 = (q2, w2)" by fastforce
  then have r2: "q2 = Inr None" using assms q1 r1 by (cases q2) (auto simp: deleteWorkflow_def sndE_bind retE_apply split: if_splits)
  obtain q3 w3 where q3: "releaseContainerPorts k wkf w2 = (q3, w3)" by fastforce
  then have r3: "q3 = Inr None" using assms q1 r1 q2 r2 by (cases q3) (auto simp: deleteWorkflow_def sndE_bind retE_apply split: if_splits)
  obtain q4 w4 where q4: "DeleteChildren (getChildObjects k) ''Workflow'' (wf_Meta wkf) w3 = (q4, w4)" by fastforce
  then have "q4 = Inr True"
    using assms q1 r1 q2 r2 q3 r3 by (cases q4) (auto simp: deleteWorkflow_def sndE_bind retE_apply split: if_splits)
  then show ?thesis using q1 r1 q2 r2 q3 r3 q4 by metis
qed


section \<open>Ports\<close>

text \<open>
  A request for ports that could not be met is never taken back. Releasing looks for an allocation in use; when
  the port manager refused the request of a workflow, the release has nothing to do and writes nothing, and the
  request is still in the specification of the port manager after the workflow is gone.
\<close>

theorem refused_ports_request_stays:
  assumes "getContainerPortManager k w = (Inr pm, w1)" and "list_all (\<lambda>a. st_Requester a \<noteq> None) (pm_Allocations pm)"
    and "list_all (\<lambda>a. requestedBy wkf a \<longrightarrow> st_Status a = InsufficientResources) (pm_Allocations pm)"
  shows "releaseContainerPorts k wkf w = (Inr None, w1)"
proof -
  have "workflowPortsInUse wkf as = Inr False"
    if "list_all (\<lambda>a. st_Requester a \<noteq> None) as" "list_all (\<lambda>a. requestedBy wkf a \<longrightarrow> st_Status a = InsufficientResources) as" for as
    using that by (induction as) (auto simp: requestedBy_def derefR_def)
  then show ?thesis using assms by (simp add: releaseContainerPorts_def bindE_def tryE_def catchE_def liftE_def retE_apply)
qed

section \<open>Witnesses\<close>

definition exDestroy :: Workflow where
  "exDestroy = exWorkflow [''#DW destroy_persistent name=psi''] ''Teardown'' [exDriver ''nnf'' ''Teardown'' 0]"

definition exPsiWorkflowKube :: "unit workflowKube" where
  "exPsiWorkflowKube = exWorkflowKube\<lparr>wk_PSI := noObjects\<lparr>kc_Get := \<lambda>_ _. retE (exPsi [] [])\<rparr>\<rparr>"

theorem destroy_persistent_refused_witness:
  "\<exists>e. finishTeardownState exPsiWorkflowKube 0 (exDestroy, ()) = (Inl (ResErr e), (exDestroy, ())) \<and> Severity e = SeverityFatal"
proof -
  have "dwArgsAt exDestroy 0 = Inr [(''command'', ''destroy_persistent''), (''name'', ''psi'')]"
      "commandOf [(''command'', ''destroy_persistent''), (''name'', ''psi'')] = ''destroy_persistent''"
      "findPersistentInstance exPsiWorkflowKube exDestroy (labelOf ''name'' [(''command'', ''destroy_persistent''), (''name'', ''psi'')]) () = (Inr (exPsi [] []), ())"
      "psp_UserID (psi_Spec (exPsi [] [])) \<noteq> wfs_UserID (wf_Spec exDestroy) \<or> psp_ConsumerReferences (psi_Spec (exPsi [] [])) \<noteq> []"
    by code_simp+
  from destroy_persistent_refused [OF this] show ?thesis by blast
qed

definition exDeleted :: Workflow where
  "exDeleted = exTeardown\<lparr>wf_Meta := (wf_Meta exTeardown)\<lparr>meta_Deleting := True\<rparr>\<rparr>"


definition exRefused :: NnfPortManager where
  "exRefused = exMgr\<lparr>pm_Allocations := [\<lparr>st_Requester = Some (workflowRef exTeardown), st_Ports = [], st_Status = InsufficientResources, st_TimeUnallocated = None\<rparr>]\<rparr>"

theorem refused_ports_request_stays_witness:
  "releaseContainerPorts ((exWorkflowKube :: unit workflowKube)\<lparr>wk_PortManager := noObjects\<lparr>kc_Get := \<lambda>_ _. retE exRefused\<rparr>\<rparr>) exTeardown () = (Inr None, ())"
  by (rule refused_ports_request_stays [where pm = exRefused]) (code_simp+)

end
