(* ===== verification/WorkflowPods.thy ===== *)
theory WorkflowPods
  imports WorkflowRelease
begin

text \<open>
  What the pods of a container directive promise: each container gets its own part of the ports, and the containers that run the
  code of a user run as that user, without root and without a way to more privileges.
\<close>

section \<open>Ports\<close>

lemma map_of_fold_update_other:
  "n \<notin> set (map g xs) \<Longrightarrow> map_of (fold (\<lambda>(i, c) m. AList.update (g c) (f i) m) (List.enumerate j xs) m) n = map_of m n"
  by (induction xs arbitrary: j m) (auto simp: update_conv)

lemma map_of_fold_update:
  "distinct (map g xs) \<Longrightarrow> i < length xs \<Longrightarrow>
   map_of (fold (\<lambda>(i, c) m. AList.update (g c) (f i) m) (List.enumerate j xs) m) (g (xs ! i)) = Some (f (j + i))"
proof (induction xs arbitrary: i j m)
  case (Cons x xs)
  show ?case
  proof (cases i)
    case 0
    have "map_of (fold (\<lambda>(i, c) m. AList.update (g c) (f i) m) (List.enumerate (Suc j) xs) (AList.update (g x) (f j) m)) (g x) =
        map_of (AList.update (g x) (f j) m) (g x)"
      by (rule map_of_fold_update_other) (use Cons.prems in simp)
    then show ?thesis using 0 by (simp add: update_conv)
  next
    case (Suc l)
    then show ?thesis using Cons.IH [of l "Suc j"] Cons.prems by simp
  qed
qed simp

lemma concat_slices: "concat (map (\<lambda>i. take q (drop (i * q) xs)) [0 ..< n]) = take (n * q) xs"
proof (induction n)
  case (Suc n)
  then show ?case using take_add [of "n * q" q xs] by (simp add: add.commute)
qed simp

definition portsOf :: "(string \<times> port list) list \<Rightarrow> Container \<Rightarrow> port list" where
  "portsOf portMap c = (case map_of portMap (ctr_Name c) of None \<Rightarrow> [] | Some ps \<Rightarrow> ps)"

text \<open>
  C20. The ports of a workflow are split among the containers of a pod without loss. With distinct names of containers
  the parts, in the order of the containers, put together are the list of ports, and every container gets equally many, so
  that different ports never go to two containers.
\<close>

theorem ports_partitioned:
  assumes "mapPorts pod ports = Inr portMap" and "distinct (map ctr_Name (pod_Containers pod))" and "ports \<noteq> []"
  shows "concat (map (portsOf portMap) (pod_Containers pod)) = ports \<and>
    list_all (\<lambda>c. length (portsOf portMap c) * length (pod_Containers pod) = length ports) (pod_Containers pod)"
proof -
  let ?cs = "pod_Containers pod"
  let ?q = "length ports div length ?cs"
  have dvd: "length ports mod length ?cs = 0" and map: "portMap = fold (\<lambda>(i, c) m. AList.update (ctr_Name c) (take ?q (drop (i * ?q) ports)) m) (List.enumerate 0 ?cs) []"
    using assms(1,3) by (auto simp: mapPorts_def Let_def split: if_splits)
  have len: "length ?cs * ?q = length ports" using dvd by (metis mult.commute mult_div_mod_eq add_0_right)
  have part: "portsOf portMap (?cs ! i) = take ?q (drop (i * ?q) ports)" if "i < length ?cs" for i
    using map_of_fold_update [OF assms(2) that, where f = "\<lambda>i. take ?q (drop (i * ?q) ports)" and j = 0 and m = "[]"]
    by (simp add: portsOf_def map)
  have "map (portsOf portMap) ?cs = map (\<lambda>i. take ?q (drop (i * ?q) ports)) [0 ..< length ?cs]"
    by (rule nth_equalityI) (simp_all add: part)
  then have whole: "concat (map (portsOf portMap) ?cs) = ports" by (simp add: concat_slices len)
  have "length (take ?q (drop (i * ?q) ports)) = ?q" if "i < length ?cs" for i
  proof -
    have "Suc i * ?q \<le> length ?cs * ?q" using that by (intro mult_le_mono1) simp
    then show ?thesis using len by simp
  qed
  then have "length (portsOf portMap c) * length ?cs = length ports" if "c \<in> set ?cs" for c
    using that part len by (auto simp: in_set_conv_nth mult.commute)
  with whole show ?thesis by (simp add: list_all_iff)
qed

definition exContainer :: "string \<Rightarrow> NnfContainer" where
  "exContainer n = zeroContainer\<lparr>nct_Name := n, nct_Image := ''img''\<rparr>"

definition exPodSpec :: NnfPodSpec where
  "exPodSpec = \<lparr>nps_Containers = [exContainer ''a'', exContainer ''b''], nps_InitContainers = [], nps_Volumes = [], nps_TerminationGracePeriodSeconds = None,
     nps_ShareProcessNamespace = None, nps_ImagePullSecrets = [], nps_AutomountServiceAccountToken = None\<rparr>"

theorem ports_partitioned_witness:
  "portsOf [(''a'', [5000, 5001]), (''b'', [5002, 5003])] (ToCoreContainer (exContainer ''a'')) @
   portsOf [(''a'', [5000, 5001]), (''b'', [5002, 5003])] (ToCoreContainer (exContainer ''b'')) = [5000, 5001, 5002, 5003]"
proof -
  have "mapPorts (ToCorePodSpec exPodSpec) [5000, 5001, 5002, 5003] = Inr [(''a'', [5000, 5001]), (''b'', [5002, 5003])]"
    by code_simp
  moreover have "distinct (map ctr_Name (pod_Containers (ToCorePodSpec exPodSpec)))" by code_simp
  ultimately show ?thesis using ports_partitioned by (fastforce simp: ToCorePodSpec_def exPodSpec_def)
qed

section \<open>Permissions\<close>

definition unprivileged :: "nnfUserContainer \<Rightarrow> Container \<Rightarrow> bool" where
  "unprivileged c ct \<longleftrightarrow> (case ctr_SecurityContext ct of
     None \<Rightarrow> False
   | Some s \<Rightarrow> sec_RunAsUser s = Some (uc_uid c) \<and> sec_RunAsGroup s = Some (uc_gid c) \<and> sec_RunAsNonRoot s = Some True \<and>
       sec_AllowPrivilegeEscalation s = Some False)"

definition userPod :: "nnfUserContainer \<Rightarrow> PodSpec \<Rightarrow> bool" where
  "userPod c pod \<longleftrightarrow> list_all (unprivileged c) (pod_Containers pod) \<and> pod_FSGroup pod = Some (uc_gid c)"

lemma keeps_security [simp]:
  "ctr_SecurityContext (addEnv evs ct) = ctr_SecurityContext ct" "ctr_SecurityContext (addMounts ms ct) = ctr_SecurityContext ct"
  by (simp_all add: addEnv_def addMounts_def)

lemma unprivileged_added [simp]: "unprivileged c (addEnv evs ct) = unprivileged c ct" "unprivileged c (addMounts ms ct) = unprivileged c ct"
  by (simp_all add: unprivileged_def)

lemma userPod_onContainers:
  "(\<And>ct. ctr_SecurityContext (f ct) = ctr_SecurityContext ct) \<Longrightarrow> userPod c (onContainers f pod) = userPod c pod"
  by (simp add: userPod_def onContainers_def list_all_iff unprivileged_def)

lemma userPod_addVolumes [simp]: "userPod c (addVolumes vs pod) = userPod c pod"
  by (simp add: userPod_def addVolumes_def)

lemma userPod_addInit [simp]: "userPod c (addInit ct pod) = userPod c pod"
  by (simp add: userPod_def addInit_def)

lemma userPod_applyPermissions: "userPod c (applyPermissions c False pod)"
  by (auto simp: userPod_def applyPermissions_def addInitContainerPasswd_def addInit_def addVolumes_def onContainers_def list.pred_map comp_def
      unprivileged_def permissionsOf_def Let_def list_all_iff split: list.splits)

lemma userPod_addHostPorts [simp]: "userPod c (addHostPorts portMap pod) = userPod c pod"
  unfolding addHostPorts_def by (rule userPod_onContainers) (simp split: option.splits)

lemma userPod_addNnfVolumes [simp]: "userPod c (addNnfVolumes c' pod) = userPod c pod"
proof -
  have "userPod c (addNnfVolume v p) = userPod c p" for v p
    unfolding addNnfVolume_def by (subst userPod_onContainers) (simp_all add: Let_def)
  then have "userPod c (fold addNnfVolume vs p) = userPod c p" for vs p by (induction vs arbitrary: p) simp_all
  then show ?thesis by (simp add: addNnfVolumes_def)
qed

lemma mapME_all:
  assumes "mapME f xs w = (Inr ys, w')" and "\<And>x y w1 w2. x \<in> set xs \<Longrightarrow> f x w1 = (Inr y, w2) \<Longrightarrow> P y"
  shows "list_all P ys"
  using assms
proof (induction xs arbitrary: w ys)
  case (Cons x xs)
  then obtain y zs w1 where y: "f x w = (Inr y, w1)" and zs: "mapME f xs w1 = (Inr zs, w')" and ys: "ys = y # zs"
    by (auto simp: bindE_eq_Inr retE_apply)
  have "P y" by (rule Cons.prems(2) [OF _ y]) simp
  moreover have "list_all P zs" by (rule Cons.IH [OF zs]) (rule Cons.prems(2), auto)
  ultimately show ?case using ys by simp
qed (simp add: retE_apply)

lemma userPod_containers: "list_all (unprivileged c) cs \<Longrightarrow> userPod c pod \<Longrightarrow> userPod c (pod\<lparr>pod_Containers := cs\<rparr>)"
  by (simp add: userPod_def)

lemma userPod_member: "userPod c pod \<Longrightarrow> ct \<in> set (pod_Containers pod) \<Longrightarrow> unprivileged c ct"
  by (simp add: userPod_def list_all_iff)

lemma userPod_addSecret:
  assumes "addSecret k s pod w = (Inr pod', w')" and "userPod c pod"
  shows "userPod c pod'"
proof -
  obtain cs w1 where run: "mapME (\<lambda>c. bindE (rangeArgs k (ncs_envVarsToFileNames s)) (\<lambda>ordered.
        retE (addEnv (map (\<lambda>(key, v). plainEnv key (ncs_mountPath s @ ''/'' @ v)) ordered)
           (addMounts [(mountAt (ncs_name s) (ncs_mountPath s))\<lparr>vmt_ReadOnly := True\<rparr>] c)))) (pod_Containers pod) w = (Inr cs, w1)"
      and pod': "pod' = (addVolumes [\<lparr>vol_Name = ncs_name s, vol_VolumeSource = SecretVolume (ncs_secretName s)\<rparr>] pod)\<lparr>pod_Containers := cs\<rparr>"
    using assms(1) unfolding addSecret_def bindE_eq_Inr [where m = "mapME _ _"] retE_apply by blast
  have cs: "list_all (unprivileged c) cs"
    by (rule mapME_all [OF run]) (auto simp: bindE_eq_Inr retE_apply userPod_member [OF assms(2)])
  show ?thesis unfolding pod' by (rule userPod_containers [OF cs]) (simp add: assms(2))
qed

lemma userPod_addSecrets: "addSecrets k ss pod w = (Inr pod', w') \<Longrightarrow> userPod c pod \<Longrightarrow> userPod c pod'"
proof (induction ss arbitrary: pod w)
  case (Cons s ss)
  then obtain p1 w1 where "addSecret k s pod w = (Inr p1, w1)" "addSecrets k ss p1 w1 = (Inr pod', w')" by (auto simp: bindE_eq_Inr)
  then show ?case using Cons.IH userPod_addSecret Cons.prems(2) by metis
qed (simp add: retE_apply)

lemma userPod_addEnvVars:
  assumes "addEnvVars k c' mpi pod st = (Inr pod', st')" and "userPod c pod"
  shows "userPod c pod'"
proof -
  obtain f where "pod' = onContainers (addEnv f) pod"
    using assms(1) by (cases st) (auto simp: addEnvVars_def bindE_eq_Inr [where m = "if _ then _ else _"] retE_apply)
  then show ?thesis using assms(2) by (simp add: userPod_onContainers)
qed

lemma userPod_addPortsEnvVars:
  assumes "addPortsEnvVars k ports portMap pod st = (Inr pod', st')" and "userPod c pod"
  shows "userPod c pod'"
proof (cases "ports = []")
  case False
  obtain cs st1 where run: "mapME (\<lambda>c. bindE (sndE (rangeArgs k portMap)) (\<lambda>ordered.
             let evs = plainEnv ''NNF_CONTAINER_PORTS'' (getContainerPortsList ports) # portsEnv ordered in
             bindE (setEnvs evs) (\<lambda>_. retE (addEnv evs c)))) (pod_Containers pod) st = (Inr cs, st1)" and pod': "pod' = pod\<lparr>pod_Containers := cs\<rparr>"
    using assms(1) False unfolding addPortsEnvVars_def if_not_P [OF False] bindE_eq_Inr [where m = "mapME _ _"] retE_apply by blast
  have cs: "list_all (unprivileged c) cs"
    by (rule mapME_all [OF run]) (auto simp: bindE_eq_Inr retE_apply Let_def userPod_member [OF assms(2)])
  show ?thesis unfolding pod' by (rule userPod_containers [OF cs assms(2)])
qed (use assms in \<open>simp add: addPortsEnvVars_def retE_apply\<close>)

lemma liftE_eq_Inr: "liftE r s = (Inr x, t) \<longleftrightarrow> r = Inr x \<and> t = s"
  by (auto simp: liftE_def)

lemma jobPod_user:
  assumes "jobPod k c spec st = (Inr pod, st')"
  shows "userPod c pod"
proof -
  obtain wkf w where st: "st = (wkf, w)" by (cases st)
  obtain pod1 pod2 st1 st2 where secrets: "sndE (addSecrets k (uc_secrets c) (addNnfVolumes c (applyPermissions c False (applyTolerations pod1)))) st1 = (Inr pod2, st2)"
      and env: "addEnvVars k c False pod2 st2 = (Inr pod, st')"
    using assms unfolding st jobPod_def by (auto simp only: getE_bind_apply Let_def bindE_eq_Inr)
  have "userPod c pod2" using secrets userPod_addSecrets userPod_applyPermissions by (cases st1; cases st2) (fastforce simp: sndE_eq_Inr)
  then show ?thesis by (rule userPod_addEnvVars [OF env])
qed

lemma mpiPods_user:
  assumes "mpiPods k c mpi node st = (Inr (launcher, worker), st')"
  shows "userPod c launcher"
proof -
  obtain wkf w where st: "st = (wkf, w)" by (cases st)
  obtain pod0 launcher1 ports portMap launcher2 launcher3 launcher4 s1 s2 s3 s4 s6 and s5 :: "Workflow \<times> _" where
      wait: "addInitContainerWorkerWait c wkf (length (uc_nnfNodes c)) (applyPermissions c False pod0) = Inr launcher1"
      and ports: "addPortsEnvVars k ports portMap (addHostPorts portMap launcher1) s1 = (Inr launcher2, s2)"
      and env: "addEnvVars k c True (addNnfVolumes c launcher2) s3 = (Inr launcher3, s4)"
      and secrets: "sndE (addSecrets k (uc_secrets c) launcher3) s5 = (Inr launcher4, s6)"
      and result: "(if mpi_CopyOffload mpi then launcher4\<lparr>pod_ServiceAccountName := ''nnf-dm-copy-offload''\<rparr> else launcher4) = launcher"
    using assms unfolding st mpiPods_def getE_bind_apply Let_def bindE_eq_Inr liftE_eq_Inr retE_apply prod.inject sum.inject
    by blast
  have "userPod c launcher1" using wait userPod_applyPermissions by (auto simp: addInitContainerWorkerWait_def Let_def split: sum.splits)
  then have "userPod c launcher2" using userPod_addPortsEnvVars [OF ports] by simp
  then have "userPod c launcher3" using userPod_addEnvVars [OF env] by simp
  then have "userPod c launcher4" using secrets userPod_addSecrets by (cases s5; cases s6) (auto simp: sndE_eq_Inr)
  then show ?thesis using result by (auto simp: userPod_def)
qed


definition exUserContainer :: nnfUserContainer where
  "exUserContainer = \<lparr>uc_profile = \<lparr>cpr_Meta = zeroMeta, cpr_Pinned = True, cpr_CreateContainer = True, cpr_Storages = [], cpr_PreRunTimeoutSeconds = None,
       cpr_PostRunTimeoutSeconds = None, cpr_RetryLimit = 0, cpr_UserID = None, cpr_GroupID = None, cpr_NumPorts = 0, cpr_NnfSpec = Some exPodSpec, cpr_NnfMPISpec = None\<rparr>,
     uc_nnfNodes = [''rabbit-1''], uc_volumes = [], uc_secrets = [], uc_username = ''user'', uc_uid = 1000, uc_gid = 100, uc_index = 0\<rparr>"

definition exRunning :: Workflow where
  "exRunning = updWf (\<lambda>st. st\<lparr>wst_Env := Some []\<rparr>) (exWorkflow [''#DW container name=c profile=p''] ''PreRun'' [])"


end
