(* ===== verification/Spec2Isabelle.thy ===== *)
theory Spec2Isabelle
  imports DwsStorage WorkflowPods
begin

text \<open>
  \<^bold>\<open>The Rabbit software of Near Node Flash (\<^verbatim>\<open>nnf-sos\<close>)\<close>

  The program is a set of Kubernetes controllers that give a job file systems on the SSDs of Rabbit
  nodes. A workflow asks for storage by \<^verbatim>\<open>#DW\<close> directives; the cluster controllers turn them into
  resources (storage profiles are pinned, ports and allocations are assigned), and on every node
  the node controllers turn resources into volumes, file systems and mounts by running commands.
  This development models the node side, the allocation of names and ports, the translation of
  directives, the storage and access of a file system over all Rabbits, and the workflow itself, bottom up.

  \<^bold>\<open>The theories\<close>

  \<^item> \<open>Prelude\<close>: errors of the resources (\<^verbatim>\<open>ResourceErrorInfo\<close>), Go errors and panics, and effects: a
    function from a world to a result or a failure and a new world, with the shapes that Go code has
    (\<open>bindE\<close> is \<^verbatim>\<open>if err != nil { return err }\<close>, \<open>catchE\<close> an error branch, \<open>finallyE\<close> a deferred call).
    The world is a type parameter: nothing is assumed about the machine.
  \<^item> \<open>GoStrings\<close>, \<open>Json\<close>: what the code uses of \<^verbatim>\<open>strings\<close>, \<^verbatim>\<open>strconv\<close>, \<^verbatim>\<open>filepath\<close> and \<^verbatim>\<open>encoding/json\<close>.
    The parser has fuel, twice the length of the text and two, which \<open>jparse_jrender\<close> shows to be enough for
    what is rendered.
  \<^item> \<open>VarHandler\<close> (\<^verbatim>\<open>pkg/var_handler\<close>): expansion of variables in command lines, at most six passes over a map
    whose order of traversal is a parameter.
  \<^item> \<open>Kube\<close>, \<open>Dws\<close>: metadata, references, results of a reconcile, finalizers; client mounts and servers.
  \<^item> \<open>Client\<close> (\<^verbatim>\<open>controllerutil\<close>, \<^verbatim>\<open>owner_labels.go\<close>, \<^verbatim>\<open>status_updater.go\<close>): the client of one kind of resource as a
    record of functions, owner references, \<^verbatim>\<open>CreateOrUpdate\<close>, deletion of children, and the frame of a
    reconcile with its deferred status update.
  \<^item> \<open>PortManager\<close> (\<^verbatim>\<open>nnf_port_manager_controller.go\<close>, \<^verbatim>\<open>dws/utils/ports\<close>): allocation of ports, as an
    inductive relation of the steps of its clients and of reconciles.
  \<^item> \<open>Command\<close> (\<^verbatim>\<open>pkg/command\<close>): the operating system as a record of functions (\<open>os\<close>), running
    commands, polling loops, and a log of the command lines for safety statements (\<open>traced\<close>, \<open>issues\<close>).
  \<^item> \<open>LvmVolumes\<close> (\<^verbatim>\<open>pkg/blockdevice/lvm\<close>), \<open>Nvme\<close> (\<^verbatim>\<open>pkg/blockdevice/nvme\<close>), \<open>BlockDevice\<close> (\<^verbatim>\<open>pkg/blockdevice\<close>):
    volumes and pools; a value of the Go interface is the datatype \<open>BlockDevice\<close>.
  \<^item> \<open>FileSystem\<close> (\<^verbatim>\<open>pkg/filesystem\<close>): the file systems, whose methods change the receiver, so their state is
    the pair of the object and the world.
  \<^item> \<open>StorageProfile\<close> (\<^verbatim>\<open>nnfstorageprofile_types.go\<close>, its webhook and \<^verbatim>\<open>nnfstorageprofile_helpers.go\<close>).
  \<^item> \<open>FilesystemHelpers\<close> (\<^verbatim>\<open>filesystem_helpers.go\<close>): from a resource and a profile to a device and a file system.
  \<^item> \<open>NodeStorage\<close> (\<^verbatim>\<open>nnf_node_storage_controller.go\<close>) and \<open>ClientMount\<close> (\<^verbatim>\<open>nnf_clientmount_controller.go\<close>): the
    reconcilers of a node, on the pair of the resource and the world.
  \<^item> \<open>LustreMgt\<close> (\<^verbatim>\<open>nnf_lustre_mgt_controller.go\<close>): file system names of a Lustre MGT and its commands.
  \<^item> \<open>SystemConfig\<close> (\<^verbatim>\<open>nnf_systemconfiguration_controller.go\<close>, \<^verbatim>\<open>taints.go\<close>): namespaces, labels and taints of the
    Rabbit nodes, pass by pass; the order in which a map is traversed is a parameter.
  \<^item> \<open>DwsStorage\<close> (\<^verbatim>\<open>dws_storage_controller.go\<close>): the storage resource that the workload manager reads.
  \<^item> \<open>StorageTypes\<close> (\<^verbatim>\<open>nnfstorage_types.go\<close>), \<open>Servers\<close> (\<^verbatim>\<open>dws_servers_controller.go\<close>): the storage of a file system on all
    Rabbits, and the report of what was allocated.
  \<^item> \<open>GoFloat\<close>, \<open>Capacity\<close>, \<open>DwDirective\<close> (\<^verbatim>\<open>dwdparse.go\<close>), \<open>PersistentStorage\<close>
    (\<^verbatim>\<open>nnf_persistentstorageinstance_controller.go\<close>), \<open>DirectiveBreakdownController\<close>
    (\<^verbatim>\<open>directivebreakdown_controller.go\<close>): \<^verbatim>\<open>float64\<close> as rationals with IEEE rounding, sizes with units, the
    arguments of a directive, persistent storage, and the translation of directives into requirements.
  \<^item> \<open>NnfStorageController\<close> (\<^verbatim>\<open>nnf_storage_controller.go\<close>): one NnfStorage becomes block storages and node storages on
    the Rabbits, in the order that Lustre needs, and is taken down again.
  \<^item> \<open>NnfAccessController\<close> (\<^verbatim>\<open>nnf_access_controller.go\<close>): the clients of a storage, the devices that each gets, the client
    mounts, and the lock of a storage that only one may mount.
  \<^item> \<open>Token\<close> (\<^verbatim>\<open>pkg/token\<close>), \<open>ContainerProfile\<close> (\<^verbatim>\<open>nnfcontainerprofile_types.go\<close>): tokens over a record of the cryptographic
    functions, and the pods of a container profile.
  \<^item> \<open>Workflow\<close>, \<open>WorkflowSteps\<close>, \<open>ContainerPods\<close>, \<open>WorkflowContainers\<close> (\<^verbatim>\<open>nnf_workflow_controller_helpers.go\<close>,
    \<^verbatim>\<open>nnf_workflow_controller_container_helpers.go\<close>, the helpers of the profiles): the resources and the steps of a workflow:
    validation, breakdowns, storage, accesses, references to persistent storage, and user containers with their ports,
    secrets, volumes and jobs.
  \<^item> \<open>WorkflowController\<close> (\<^verbatim>\<open>nnf_workflow_controller.go\<close>): a start and a finish function for each of the seven states and the
    reconciler that runs them for the open drivers. A step changes the workflow and the world; it answers with an error, with a
    reason to wait, or with nothing more to do.
  \<^item> \<open>WorkflowDrivers\<close>, \<open>WorkflowStaging\<close>, \<open>WorkflowRelease\<close>, \<open>WorkflowPods\<close>: what the workflow controller promises.

  Each operation is one definition with the branches, early returns and effects of the Go function,
  in their order. A resource is a record, a nil pointer \<open>None\<close>, a slice a list whose index is checked
  (out of range is a panic), a map an association list. The Kubernetes client and the vendored element
  controller are records of functions. Logging and metrics are left out.

  \<^bold>\<open>What is shown\<close>

  Interfaces are locales (\<open>block_device\<close>, \<open>device_switch\<close>, \<open>file_system\<close>), interpreted on the dispatching
  methods of the model; \<open>file_system\<close> gives \<open>block_device\<close>. The named collections \<open>io_simps\<close>, \<open>issues_rules\<close> and
  \<open>keeps_rules\<close> carry proofs about effects, about the commands that are run and about what is kept of a
  resource however a handler ends.

  \<^item> Ports: no two allocations share one in any reachable state; the search is exact; a reconcile
    never panics, answers every request and respects the cooldown; the leak of a reused entry.
  \<^item> Command lines: expansion is substitution where names do not overlap, and depends on the order of the
    map where they do.
  \<^item> Devices: listings round trip; switching a device creates nothing; a group in use is not removed;
    names in the device mapper are distinct; repairing a pool confuses prefixes.
  \<^item> File systems: data is never formatted over; an existing mount is respected; a temporary mount
    is undone on every path; complete phases are no-ops.
  \<^item> Profiles: the webhook admits exactly the consistent profiles, and pinned copies of them.
  \<^item> Controllers: a resource is ready only when its allocations or mounts are; finalizers go last;
    creation is idempotent; compute nodes create nothing; boundary cases where the code goes wrong.
  \<^item> Names and nodes: the names of a Lustre MGT are unique in every reachable state, and follow each
    other as numbers in base 26; the search for one ends; taints reach all nodes in order and settle;
    the storage resource follows its node.
  \<^item> Directives: sizes are read exactly despite floating point and stay in 64 bits; a fixed padding is undone and
    a percentage is not; a Lustre breakdown has exactly one management target; persistent storage
    is not taken from its user, not deleted while used and not usable before it is ready.
  \<^item> Storage and access: a storage is ready only when all its parts are, object targets are created last, names of file systems of two
    storages differ; an access is ready only when every mount is, a device goes to one client, a lock to one access,
    and both let go of a resource only when their children are gone.
  \<^item> Workflows: an entry of a driver is completed only when its finish function was done and all start functions
    were; a reconcile touches no other entry; storage is removed after all mounts; servers that are accepted meet the
    directive; every allocation has its own data movement and staging ends only with success; the variable of a
    file system leads back to it and publishing it is idempotent; persistent storage of others is not destroyed; the
    finalizer goes last; ports are split without loss; containers of a user run as that user.

  \<^bold>\<open>Not modelled\<close>

  The system storage controller makes storage for administrators from the same resources and is left out. The
  node block storage and node controllers drive the vendored element controller, whose code they
  only call. Fencing acknowledges a fenced node to the lock manager as best it can, and is left out. Generated code (deep copies, conversions between versions), the entry points that
  register with the controller runtime, and metrics are left out. The JWT, PEM and X.509 functions, the HTTP client and the
  random choice of a management server are parameters. The pause before a copy changes nothing that the
  model sees.
\<close>

end
